(* ===== verification/Prelude.thy ===== *)
theory Prelude
  imports Main
begin

section \<open>Shared vocabulary of the development\<close>

text \<open>
  Byte strings, unrendered messages and the early-return idiom that every component of the model
  uses, with the generic lemmas about them.

  \<^item> A Go \<open>string\<close> or \<open>[]byte\<close> is a \<open>string\<close> of HOL: a list of 8-bit characters.
  \<^item> A text the program builds with \<open>fmt.Sprintf\<close> is kept unrendered, as its format string and
    its arguments (type \<open>msg\<close>): the verbs \<open>%q\<close> and \<open>%v\<close> are the standard library's business, and no
    decision of the program reads a rendered text back. \<open>AErr p\<close> is an error value of package \<open>p\<close>.
  \<^item> A Go function that returns \<open>error\<close> is an option: \<open>None\<close> is \<open>nil\<close>. Its body, a sequence of
    checks that each return early, is written with \<open>andThen\<close> and \<open>firstErr\<close>.
\<close>

named_theorems shape_simps \<open>equations that evaluate the regular-expression shapes\<close>
named_theorems err_simps \<open>equations for early returns\<close>

type_synonym bytes = string

datatype arg = AStr string | AInt int | AMsg msg | AErr string
  and msg = Text string | Sprintf string "arg list"

subsection \<open>Early returns\<close>

definition andThen :: "'e option \<Rightarrow> 'e option \<Rightarrow> 'e option" where
  "andThen a b = (case a of Some e \<Rightarrow> Some e | None \<Rightarrow> b)"

fun firstErr :: "('a \<Rightarrow> 'e option) \<Rightarrow> 'a list \<Rightarrow> 'e option" where
  "firstErr f [] = None"
| "firstErr f (x # xs) = andThen (f x) (firstErr f xs)"

definition failIf :: "bool \<Rightarrow> 'e \<Rightarrow> 'e option" where
  "failIf b e = (if b then Some e else None)"

lemma andThen_None [simp, err_simps]: "andThen a b = None \<longleftrightarrow> a = None \<and> b = None"
  by (auto simp: andThen_def split: option.splits)

lemma andThen_simps [simp]: "andThen None b = b" "andThen (Some e) b = Some e"
  by (simp_all add: andThen_def)

lemma andThen_assoc: "andThen (andThen a b) c = andThen a (andThen b c)"
  by (cases a) simp_all

lemma firstErr_None [simp, err_simps]: "firstErr f xs = None \<longleftrightarrow> (\<forall>x\<in>set xs. f x = None)"
  by (induction xs) auto

lemma firstErr_cong [fundef_cong]:
  "xs = ys \<Longrightarrow> (\<And>x. x \<in> set ys \<Longrightarrow> f x = g x) \<Longrightarrow> firstErr f xs = firstErr g ys"
  by (induction ys arbitrary: xs) auto

lemma failIf_None [simp, err_simps]: "failIf b e = None \<longleftrightarrow> \<not> b"
  by (simp add: failIf_def)

lemma firstErr_append: "firstErr f (xs @ ys) = andThen (firstErr f xs) (firstErr f ys)"
  by (induction xs) (simp_all add: andThen_assoc)

subsection \<open>Tables\<close>

lemma map_of_all: "list_all (\<lambda>p. P (snd p)) xs \<Longrightarrow> map_of xs k = Some v \<Longrightarrow> P v"
  by (induction xs) (auto split: if_splits)

lemma map_of_all_pairs: "list_all (\<lambda>p. P (fst p) (snd p)) xs \<Longrightarrow> map_of xs k = Some v \<Longrightarrow> P k v"
  by (induction xs) (auto split: if_splits)

lemma find_by_key: "distinct (map f xs) \<Longrightarrow> x \<in> set xs \<Longrightarrow> find (\<lambda>y. f y = f x) xs = Some x"
  by (induction xs) (auto simp: image_iff)

subsection \<open>Prefixes, suffixes and substrings\<close>

fun has_prefix :: "'a list \<Rightarrow> 'a list \<Rightarrow> bool" where
  "has_prefix [] s = True"
| "has_prefix (p # ps) [] = False"
| "has_prefix (p # ps) (c # cs) = (p = c \<and> has_prefix ps cs)"

definition has_suffix :: "'a list \<Rightarrow> 'a list \<Rightarrow> bool" where
  "has_suffix p s = has_prefix (rev p) (rev s)"

definition trim_suffix :: "'a list \<Rightarrow> 'a list \<Rightarrow> 'a list" where
  "trim_suffix p s = (if has_suffix p s then take (length s - length p) s else s)"

fun contains_sub :: "'a list \<Rightarrow> 'a list \<Rightarrow> bool" where
  "contains_sub p [] = (p = [])"
| "contains_sub p (c # cs) = (has_prefix p (c # cs) \<or> contains_sub p cs)"

lemma has_prefix_iff: "has_prefix p s \<longleftrightarrow> (\<exists>t. s = p @ t)"
  by (induction p s rule: has_prefix.induct) auto

lemma has_suffix_iff: "has_suffix p s \<longleftrightarrow> (\<exists>t. s = t @ p)"
  unfolding has_suffix_def has_prefix_iff
  by (metis rev_append rev_rev_ident)

lemma has_prefix_append [simp]: "has_prefix p (p @ t)"
  by (auto simp: has_prefix_iff)

lemma has_suffix_append [simp]: "has_suffix p (t @ p)"
  by (auto simp: has_suffix_iff)

lemma contains_sub_iff: "contains_sub p s \<longleftrightarrow> (\<exists>a b. s = a @ p @ b)"
proof (induction s)
  case Nil
  show ?case by auto
next
  case (Cons c cs)
  show ?case
  proof
    assume "contains_sub p (c # cs)"
    then consider "has_prefix p (c # cs)" | "contains_sub p cs" by auto
    then show "\<exists>a b. c # cs = a @ p @ b"
    proof cases
      case 1
      then show ?thesis by (metis append_Nil has_prefix_iff)
    next
      case 2
      then show ?thesis using Cons.IH by (metis append_Cons)
    qed
  next
    assume "\<exists>a b. c # cs = a @ p @ b"
    then obtain a b where ab: "c # cs = a @ p @ b" by blast
    show "contains_sub p (c # cs)"
    proof (cases a)
      case Nil
      with ab have "has_prefix p (c # cs)" by (auto simp: has_prefix_iff)
      then show ?thesis by simp
    next
      case (Cons x a')
      with ab have "contains_sub p cs" using Cons.IH by auto
      then show ?thesis by simp
    qed
  qed
qed

lemma trim_suffix_append [simp]: "trim_suffix p (t @ p) = t"
  by (simp add: trim_suffix_def)

text \<open>\<open>strings.Fields\<close> on ASCII text: the maximal runs of non-space characters.\<close>

definition is_space :: "char \<Rightarrow> bool" where
  "is_space c \<longleftrightarrow> c \<in> {CHR '' '', CHR 0x09, CHR 0x0A, CHR 0x0B, CHR 0x0C, CHR 0x0D}"

fun fields_acc :: "string \<Rightarrow> string \<Rightarrow> string list" where
  "fields_acc acc [] = (if acc = [] then [] else [rev acc])"
| "fields_acc acc (c # cs) =
     (if is_space c then (if acc = [] then fields_acc [] cs else rev acc # fields_acc [] cs)
      else fields_acc (c # acc) cs)"

definition fields :: "string \<Rightarrow> string list" where
  "fields s = fields_acc [] s"

subsection \<open>Character classes\<close>

abbreviation byte :: "char \<Rightarrow> nat" where
  "byte c \<equiv> of_char c"

text \<open>Comparisons of byte values are evaluated on integers, whose numerals are binary.\<close>

lemma byte_int: "(of_char c :: int) = int (byte c)"
  by (simp add: of_char_def)

lemma byte_code [code_unfold]:
  "byte c < nat_of_num k \<longleftrightarrow> (of_char c :: int) < numeral k"
  "byte c \<le> nat_of_num k \<longleftrightarrow> (of_char c :: int) \<le> numeral k"
  "nat_of_num k \<le> byte c \<longleftrightarrow> numeral k \<le> (of_char c :: int)"
  "nat_of_num k < byte c \<longleftrightarrow> numeral k < (of_char c :: int)"
  "byte c = nat_of_num k \<longleftrightarrow> (of_char c :: int) = numeral k"
  by (simp_all add: byte_int nat_of_num_numeral)

definition is_digit :: "char \<Rightarrow> bool" where
  "is_digit c \<longleftrightarrow> 48 \<le> byte c \<and> byte c \<le> 57"

definition is_lower :: "char \<Rightarrow> bool" where
  "is_lower c \<longleftrightarrow> 97 \<le> byte c \<and> byte c \<le> 122"

definition is_upper :: "char \<Rightarrow> bool" where
  "is_upper c \<longleftrightarrow> 65 \<le> byte c \<and> byte c \<le> 90"

definition is_control :: "char \<Rightarrow> bool" where
  "is_control c \<longleftrightarrow> byte c < 32 \<or> byte c = 127"

lemmas char_classes = is_digit_def is_lower_def is_upper_def is_control_def is_space_def

lemma class_not_control:
  "is_digit c \<Longrightarrow> \<not> is_control c"
  "is_lower c \<Longrightarrow> \<not> is_control c"
  "is_upper c \<Longrightarrow> \<not> is_control c"
  by (auto simp: char_classes)

lemma class_not_space:
  "is_digit c \<Longrightarrow> \<not> is_space c"
  "is_lower c \<Longrightarrow> \<not> is_space c"
  "is_upper c \<Longrightarrow> \<not> is_space c"
  by (auto simp: char_classes)

subsection \<open>Decimal numerals\<close>

fun dec_val :: "nat \<Rightarrow> string \<Rightarrow> nat" where
  "dec_val acc [] = acc"
| "dec_val acc (c # cs) = dec_val (acc * 10 + (byte c - 48)) cs"

fun show_nat :: "nat \<Rightarrow> string" where
  "show_nat n = (if n < 10 then [char_of (48 + n)] else show_nat (n div 10) @ [char_of (48 + n mod 10)])"

declare show_nat.simps [simp del]

definition hex_digit :: "nat \<Rightarrow> char" where
  "hex_digit n = char_of (if n < 10 then 48 + n else 87 + n)"

definition show_int :: "int \<Rightarrow> string" where
  "show_int i = (if i < 0 then CHR ''-'' # show_nat (nat (- i)) else show_nat (nat i))"

lemma byte_char_of_digit [simp]: "n < 10 \<Longrightarrow> byte (char_of (48 + n :: nat)) = 48 + n"
  by simp

lemma dec_val_append: "dec_val acc (xs @ ys) = dec_val (dec_val acc xs) ys"
  by (induction acc xs rule: dec_val.induct) auto

lemma dec_val_show_nat: "dec_val 0 (show_nat n) = n"
proof (induction n rule: show_nat.induct)
  case (1 n)
  show ?case
  proof (cases "n < 10")
    case True
    then show ?thesis by (simp add: show_nat.simps [of n])
  next
    case False
    with 1 show ?thesis by (simp add: show_nat.simps [of n] dec_val_append)
  qed
qed

lemma show_nat_digits: "\<forall>c\<in>set (show_nat n). is_digit c"
proof (induction n rule: show_nat.induct)
  case (1 n)
  then show ?case by (subst show_nat.simps) (auto simp: is_digit_def)
qed

lemma show_nat_nonempty [simp]: "show_nat n \<noteq> []"
  by (subst show_nat.simps) simp

lemma show_nat_inj: "show_nat m = show_nat n \<longleftrightarrow> m = n"
  by (metis dec_val_show_nat)

subsection \<open>Joining\<close>

text \<open>\<open>strings.Join\<close>, on any element type.\<close>

fun join :: "'a list \<Rightarrow> 'a list list \<Rightarrow> 'a list" where
  "join sep [] = []"
| "join sep [x] = x"
| "join sep (x # y # zs) = x @ sep @ join sep (y # zs)"

end
