(* ===== verification/GoStd.thy ===== *)
theory GoStd
  imports Prelude
begin

section \<open>The parts of the Go standard library the program decides with\<close>

text \<open>
  Regular-expression shapes, case folding, space trimming, RFC 3339 timestamps and IPv4 literals,
  as \<open>regexp\<close>, \<open>strings\<close>, \<open>time\<close> and \<open>net\<close> decide them for the calls in the sources. A shape is
  a predicate on byte strings; \<open>$\<close> is the end of the text, as in Go without \<open>(?m)\<close>.
\<close>

subsection \<open>Shapes: a first character and a class for the rest\<close>

definition first_rest :: "(char \<Rightarrow> bool) \<Rightarrow> (char \<Rightarrow> bool) \<Rightarrow> string \<Rightarrow> bool" where
  "first_rest P Q s = (case s of [] \<Rightarrow> False | c # cs \<Rightarrow> P c \<and> list_all Q cs)"

definition upper_rest :: "char \<Rightarrow> bool" where
  "upper_rest c \<longleftrightarrow> is_upper c \<or> is_digit c \<or> c = CHR ''_''"

definition lower_rest :: "char \<Rightarrow> bool" where
  "lower_rest c \<longleftrightarrow> is_lower c \<or> is_digit c \<or> c = CHR ''-''"

definition is_alnum :: "char \<Rightarrow> bool" where
  "is_alnum c \<longleftrightarrow> is_upper c \<or> is_lower c \<or> is_digit c"

definition ident_rest :: "char \<Rightarrow> bool" where
  "ident_rest c \<longleftrightarrow> is_alnum c \<or> c \<in> {CHR ''.'', CHR ''_'', CHR '':'', CHR ''-''}"

definition user_rest :: "char \<Rightarrow> bool" where
  "user_rest c \<longleftrightarrow> is_alnum c \<or> c \<in> {CHR ''.'', CHR ''_'', CHR ''@'', CHR ''-''}"

definition upperCodeShape :: "string \<Rightarrow> bool" where
  "upperCodeShape = first_rest is_upper upper_rest"

definition identifierShape :: "string \<Rightarrow> bool" where
  "identifierShape s \<longleftrightarrow> first_rest is_alnum ident_rest s \<and> length s \<le> 128"

definition usernameShape :: "string \<Rightarrow> bool" where
  "usernameShape = first_rest is_alnum user_rest"

definition mapKeyShape :: "string \<Rightarrow> bool" where
  "mapKeyShape = first_rest is_lower lower_rest"

definition capabilityShape :: "string \<Rightarrow> bool" where
  "capabilityShape = first_rest is_lower lower_rest"

definition durationShape :: "string \<Rightarrow> bool" where
  "durationShape s \<longleftrightarrow> s \<noteq> [] \<and> last s \<in> {CHR ''s'', CHR ''m'', CHR ''h''}
     \<and> first_rest (\<lambda>c. is_digit c \<and> c \<noteq> CHR ''0'') is_digit (butlast s)"

definition is_hex_lower :: "char \<Rightarrow> bool" where
  "is_hex_lower c \<longleftrightarrow> is_digit c \<or> (97 \<le> byte c \<and> byte c \<le> 102)"

definition digestShape :: "string \<Rightarrow> bool" where
  "digestShape s \<longleftrightarrow> length s = 64 \<and> list_all is_hex_lower s"

fun split_on :: "char \<Rightarrow> string \<Rightarrow> string list" where
  "split_on d [] = [[]]"
| "split_on d (c # cs) =
     (if c = d then [] # split_on d cs
      else (case split_on d cs of [] \<Rightarrow> [[c]] | w # ws \<Rightarrow> (c # w) # ws))"

definition commandNameShape :: "string \<Rightarrow> bool" where
  "commandNameShape s \<longleftrightarrow> list_all mapKeyShape (split_on (CHR '' '') s)"

definition apiVersionShape :: "string \<Rightarrow> bool" where
  "apiVersionShape s \<longleftrightarrow>
     (let p = ''loxilb.io/appliance-backend/v''; d = drop (length p) s
      in has_prefix p s \<and> d \<noteq> [] \<and> list_all is_digit d)"

lemmas shape_defs = upperCodeShape_def identifierShape_def usernameShape_def mapKeyShape_def
  capabilityShape_def durationShape_def digestShape_def commandNameShape_def

lemmas rest_defs = upper_rest_def lower_rest_def is_alnum_def ident_rest_def user_rest_def

text \<open>
  What the shapes promise their callers: a matching value is not empty, holds no control
  character and no space, and cannot be read as a flag. The contract is stated once and holds for
  every shape of the form \<open>^[P][Q]*$\<close>.
\<close>

locale token_shape =
  fixes first :: "char \<Rightarrow> bool" and rest :: "char \<Rightarrow> bool"
  assumes first_clean: "first c \<Longrightarrow> \<not> is_control c \<and> \<not> is_space c \<and> c \<noteq> CHR ''-''"
    and rest_clean: "rest c \<Longrightarrow> \<not> is_control c \<and> \<not> is_space c"
begin

lemma matches_nonempty: "first_rest first rest s \<Longrightarrow> s \<noteq> []"
  by (auto simp: first_rest_def)

lemma matches_clean:
  "first_rest first rest s \<Longrightarrow> c \<in> set s \<Longrightarrow> \<not> is_control c \<and> \<not> is_space c"
  using first_clean rest_clean by (auto simp: first_rest_def list_all_iff split: list.splits)

lemma matches_not_flag: "first_rest first rest s \<Longrightarrow> \<not> has_prefix ''-'' s"
  using first_clean by (auto simp: first_rest_def split: list.splits)

end

interpretation upper_shape: token_shape is_upper upper_rest
  by unfold_locales (auto simp: rest_defs char_classes)

interpretation lower_shape: token_shape is_lower lower_rest
  by unfold_locales (auto simp: rest_defs char_classes)

interpretation ident_shape: token_shape is_alnum ident_rest
  by unfold_locales (auto simp: rest_defs char_classes)

interpretation user_shape: token_shape is_alnum user_rest
  by unfold_locales (auto simp: rest_defs char_classes)

subsection \<open>Case folding\<close>

text \<open>
  \<open>strings.ToLower\<close>, as far as a comparison with ASCII text can see: ASCII letters, and the two
  non-ASCII code points whose lower case is ASCII (U+212A to \<open>k\<close>, U+0130 to \<open>i\<close>). Every other
  non-ASCII code point lowers to a non-ASCII one, and is left as it is.
\<close>

definition lower_char :: "char \<Rightarrow> char" where
  "lower_char c = (if is_upper c then char_of (byte c + 32) else c)"

fun to_lower :: "string \<Rightarrow> string" where
  "to_lower [] = []"
| "to_lower (c # cs) =
     (if c = CHR 0xE2 \<and> take 2 cs = [CHR 0x84, CHR 0xAA] then CHR ''k'' # to_lower (drop 2 cs)
      else if c = CHR 0xC4 \<and> take 1 cs = [CHR 0xB0] then CHR ''i'' # to_lower (drop 1 cs)
      else lower_char c # to_lower cs)"

text \<open>
  Under \<open>(?i)\<close> and in \<open>encoding/json\<close>'s field matching the simple folding classes decide: \<open>k\<close>
  also matches U+212A and \<open>s\<close> also matches U+017F. \<open>fold_head\<close> reads one character of the input in
  lower case, with what follows it.
\<close>

fun fold_head :: "string \<Rightarrow> (char \<times> string) option" where
  "fold_head [] = None"
| "fold_head (c # cs) =
     (if c = CHR 0xE2 \<and> take 2 cs = [CHR 0x84, CHR 0xAA] then Some (CHR ''k'', drop 2 cs)
      else if c = CHR 0xC5 \<and> take 1 cs = [CHR 0xBF] then Some (CHR ''s'', drop 1 cs)
      else Some (lower_char c, cs))"

fun match_fold :: "string \<Rightarrow> string \<Rightarrow> string option" where
  "match_fold [] s = Some s"
| "match_fold (p # ps) s =
     (case fold_head s of
        None \<Rightarrow> None
      | Some (c, r) \<Rightarrow> if c = p then match_fold ps r else None)"

definition equal_fold :: "string \<Rightarrow> string \<Rightarrow> bool" where
  "equal_fold field key \<longleftrightarrow> match_fold (map lower_char field) key = Some []"

lemma lower_char_idem [simp]: "lower_char (lower_char c) = lower_char c"
  by (auto simp: lower_char_def is_upper_def)

lemma match_fold_ascii:
  "\<forall>c\<in>set s. byte c < 128 \<Longrightarrow> match_fold (map lower_char s) (s @ t) = Some t"
  by (induction s) auto

lemma equal_fold_refl: "\<forall>c\<in>set s. byte c < 128 \<Longrightarrow> equal_fold s s"
  using match_fold_ascii [of s "[]"] by (simp add: equal_fold_def)

subsection \<open>Credential-shaped text\<close>

text \<open>\<open>(?i)(password|token|api[_-]?key|private[_-]?key)\s*[:=]\<close>, unanchored.\<close>

definition credential_words :: "string list" where
  "credential_words = [''password'', ''token'', ''apikey'', ''api_key'', ''api-key'',
     ''privatekey'', ''private_key'', ''private-key'']"

definition re_space :: "char \<Rightarrow> bool" where
  "re_space c \<longleftrightarrow> c \<in> {CHR '' '', CHR 0x09, CHR 0x0A, CHR 0x0C, CHR 0x0D}"

definition assigns :: "string \<Rightarrow> bool" where
  "assigns s = (case dropWhile re_space s of [] \<Rightarrow> False | c # _ \<Rightarrow> c = CHR '':'' \<or> c = CHR ''='')"

definition credential_at :: "string \<Rightarrow> bool" where
  "credential_at s = list_ex (\<lambda>w. case match_fold w s of None \<Rightarrow> False | Some r \<Rightarrow> assigns r) credential_words"

fun credentialValueShape :: "string \<Rightarrow> bool" where
  "credentialValueShape [] = False"
| "credentialValueShape (c # cs) = (credential_at (c # cs) \<or> credentialValueShape cs)"

lemma credentialValueShape_append: "credentialValueShape t \<Longrightarrow> credentialValueShape (s @ t)"
  by (induction s) auto

text \<open>A match ends in a colon or an equals sign, so a text without one is decided at once.\<close>

definition may_assign :: "string \<Rightarrow> bool" where
  "may_assign s \<longleftrightarrow> CHR '':'' \<in> set s \<or> CHR ''='' \<in> set s"

lemma fold_head_subset: "fold_head s = Some (c, r) \<Longrightarrow> set r \<subseteq> set s"
  by (cases s) (auto split: if_splits dest: in_set_dropD)

lemma match_fold_subset: "match_fold w s = Some r \<Longrightarrow> set r \<subseteq> set s"
proof (induction w s rule: match_fold.induct)
  case (2 p ps s)
  then show ?case by (fastforce split: option.splits prod.splits if_splits dest: fold_head_subset)
qed simp

lemma credential_at_guard: "credential_at s \<Longrightarrow> may_assign s"
proof -
  assume "credential_at s"
  then obtain w r where wr: "match_fold w s = Some r" "assigns r"
    by (auto simp: credential_at_def list_ex_iff split: option.splits)
  then obtain c where "c \<in> set (dropWhile re_space r)" "c = CHR '':'' \<or> c = CHR ''=''"
    by (auto simp: assigns_def split: list.splits)
  with match_fold_subset [OF wr(1)] show ?thesis
    by (auto simp: may_assign_def dest: set_dropWhileD)
qed

lemma credential_guard [code]:
  "credentialValueShape [] = False"
  "credentialValueShape (c # cs) =
     (if may_assign (c # cs) then credential_at (c # cs) \<or> credentialValueShape cs else False)"
proof -
  have shape: "credentialValueShape s \<Longrightarrow> may_assign s" for s
    by (induction s) (auto simp: may_assign_def dest: credential_at_guard)
  show "credentialValueShape [] = False" by simp
  show "credentialValueShape (c # cs) =
      (if may_assign (c # cs) then credential_at (c # cs) \<or> credentialValueShape cs else False)"
    using shape [of "c # cs"] by auto
qed

subsection \<open>Space trimming\<close>

text \<open>\<open>bytes.TrimSpace\<close> and \<open>strings.TrimSpace\<close>: the UTF-8 encodings of \<open>unicode.IsSpace\<close>.\<close>

definition space_encodings :: "string list" where
  "space_encodings =
     [[CHR '' ''], [CHR 0x09], [CHR 0x0A], [CHR 0x0B], [CHR 0x0C], [CHR 0x0D],
      [CHR 0xC2, CHR 0x85], [CHR 0xC2, CHR 0xA0], [CHR 0xE1, CHR 0x9A, CHR 0x80]]
     @ map (\<lambda>n. [CHR 0xE2, CHR 0x80, char_of n]) [128..<139]
     @ [[CHR 0xE2, CHR 0x80, CHR 0xA8], [CHR 0xE2, CHR 0x80, CHR 0xA9], [CHR 0xE2, CHR 0x80, CHR 0xAF],
        [CHR 0xE2, CHR 0x81, CHR 0x9F], [CHR 0xE3, CHR 0x80, CHR 0x80]]"

lemma space_encodings_nonempty: "[] \<notin> set space_encodings"
  by (auto simp: space_encodings_def)

function trim_heads :: "string list \<Rightarrow> string \<Rightarrow> string" where
  "trim_heads es s =
     (case find (\<lambda>e. e \<noteq> [] \<and> has_prefix e s) es of
        None \<Rightarrow> s
      | Some e \<Rightarrow> trim_heads es (drop (length e) s))"
  by pat_completeness auto
termination
  by (relation "measure (\<lambda>(es, s). length s)") (auto simp: find_Some_iff has_prefix_iff)

declare trim_heads.simps [simp del]

definition trim_space :: "string \<Rightarrow> string" where
  "trim_space s = rev (trim_heads (map rev space_encodings) (rev (trim_heads space_encodings s)))"

lemma trim_heads_stop: "\<forall>e\<in>set es. e = [] \<or> \<not> has_prefix e s \<Longrightarrow> trim_heads es s = s"
  by (subst trim_heads.simps) (simp add: find_None_iff [THEN iffD2])

lemma trim_heads_suffix: "\<exists>t. s = t @ trim_heads es s"
proof (induction es s rule: trim_heads.induct)
  case (1 es s)
  show ?case
  proof (cases "find (\<lambda>e. e \<noteq> [] \<and> has_prefix e s) es")
    case None
    then show ?thesis by (subst trim_heads.simps) simp
  next
    case (Some e)
    then have "s = e @ drop (length e) s"
      by (auto simp: find_Some_iff has_prefix_iff)
    moreover obtain t where "drop (length e) s = t @ trim_heads es (drop (length e) s)"
      using 1 [OF Some] by blast
    ultimately have "s = (e @ t) @ trim_heads es (drop (length e) s)" by simp
    moreover have "trim_heads es s = trim_heads es (drop (length e) s)"
      using Some by (subst trim_heads.simps) simp
    ultimately show ?thesis by metis
  qed
qed

lemma trim_space_sublist: "\<exists>a b. s = a @ trim_space s @ b"
proof -
  obtain a where a: "s = a @ trim_heads space_encodings s"
    using trim_heads_suffix by blast
  obtain b where "rev (trim_heads space_encodings s)
      = b @ trim_heads (map rev space_encodings) (rev (trim_heads space_encodings s))"
    using trim_heads_suffix by blast
  then have "trim_heads space_encodings s = trim_space s @ rev b"
    unfolding trim_space_def by (metis rev_append rev_rev_ident)
  with a have "s = a @ trim_space s @ rev b" by simp
  then show ?thesis by blast
qed

subsection \<open>RFC 3339 timestamps\<close>

text \<open>
  \<open>time.Parse(time.RFC3339Nano, s)\<close> succeeds: the layout is \<open>2006-01-02T15:04:05.999999999Z07:00\<close>.
  The hour is read without a fixed width, and a fraction may follow a full stop or a comma, as the
  library's general parser reads them.
\<close>

definition getnum :: "bool \<Rightarrow> string \<Rightarrow> (nat \<times> string) option" where
  "getnum fixed s =
     (case s of
        [] \<Rightarrow> None
      | c # r \<Rightarrow>
          if \<not> is_digit c then None
          else (case r of
                  d # r' \<Rightarrow> if is_digit d then Some (10 * (byte c - 48) + (byte d - 48), r')
                           else if fixed then None else Some (byte c - 48, r)
                | [] \<Rightarrow> if fixed then None else Some (byte c - 48, r)))"

definition skip_char :: "char \<Rightarrow> string \<Rightarrow> string option" where
  "skip_char x s = (case s of [] \<Rightarrow> None | c # r \<Rightarrow> if c = x then Some r else None)"

definition get_year :: "string \<Rightarrow> (nat \<times> string) option" where
  "get_year s = (if 4 \<le> length s \<and> list_all is_digit (take 4 s) then Some (dec_val 0 (take 4 s), drop 4 s) else None)"

definition skip_fraction :: "string \<Rightarrow> string" where
  "skip_fraction s =
     (case s of
        c # d # r \<Rightarrow> if (c = CHR ''.'' \<or> c = CHR '','') \<and> is_digit d then dropWhile is_digit (d # r) else s
      | _ \<Rightarrow> s)"

definition zone_ok :: "string \<Rightarrow> bool" where
  "zone_ok s \<longleftrightarrow> s = ''Z'' \<or>
     (length s = 6 \<and> (s ! 0 = CHR ''+'' \<or> s ! 0 = CHR ''-'') \<and> s ! 3 = CHR '':''
      \<and> is_digit (s ! 1) \<and> is_digit (s ! 2) \<and> is_digit (s ! 4) \<and> is_digit (s ! 5)
      \<and> dec_val 0 [s ! 1, s ! 2] \<le> 24 \<and> dec_val 0 [s ! 4, s ! 5] \<le> 60)"

definition is_leap :: "nat \<Rightarrow> bool" where
  "is_leap y \<longleftrightarrow> y mod 4 = 0 \<and> (y mod 100 \<noteq> 0 \<or> y mod 400 = 0)"

definition days_in :: "nat \<Rightarrow> nat \<Rightarrow> nat" where
  "days_in m y = (if m = 2 then (if is_leap y then 29 else 28)
                  else if m \<in> {4, 6, 9, 11} then 30 else 31)"

record civil_time =
  ct_year :: nat
  ct_month :: nat
  ct_day :: nat
  ct_hour :: nat
  ct_min :: nat
  ct_sec :: nat

definition scan_rfc3339 :: "string \<Rightarrow> (civil_time \<times> string) option" where
  "scan_rfc3339 s =
     Option.bind (get_year s) (\<lambda>(y, s).
     Option.bind (skip_char (CHR ''-'') s) (\<lambda>s.
     Option.bind (getnum True s) (\<lambda>(mo, s).
     Option.bind (skip_char (CHR ''-'') s) (\<lambda>s.
     Option.bind (getnum True s) (\<lambda>(d, s).
     Option.bind (skip_char (CHR ''T'') s) (\<lambda>s.
     Option.bind (getnum False s) (\<lambda>(h, s).
     Option.bind (skip_char (CHR '':'') s) (\<lambda>s.
     Option.bind (getnum True s) (\<lambda>(mi, s).
     Option.bind (skip_char (CHR '':'') s) (\<lambda>s.
     Option.bind (getnum True s) (\<lambda>(se, s).
     Some (\<lparr>ct_year = y, ct_month = mo, ct_day = d, ct_hour = h, ct_min = mi, ct_sec = se\<rparr>, skip_fraction s))))))))))))"

definition civil_ok :: "civil_time \<Rightarrow> bool" where
  "civil_ok t \<longleftrightarrow> 1 \<le> ct_month t \<and> ct_month t \<le> 12 \<and> 1 \<le> ct_day t
     \<and> ct_day t \<le> days_in (ct_month t) (ct_year t) \<and> ct_hour t < 24 \<and> ct_min t < 60 \<and> ct_sec t < 60"

definition time_Parse_RFC3339Nano :: "string \<Rightarrow> bool" where
  "time_Parse_RFC3339Nano s =
     (case scan_rfc3339 s of None \<Rightarrow> False | Some (t, z) \<Rightarrow> civil_ok t \<and> zone_ok z)"

lemma days_in_le: "days_in m y \<le> 31"
  by (simp add: days_in_def)

subsection \<open>IPv4 literals\<close>

text \<open>
  \<open>net.ParseIP\<close> on a text without a colon: four decimal fields of at most 255, no leading zeros
  (\<open>netip.parseIPv4Fields\<close>). The arguments are the fields read so far (last first), the value and
  the number of digits of the current field, and the rest of the text.
\<close>

fun ip4_fields :: "nat list \<Rightarrow> nat \<Rightarrow> nat \<Rightarrow> string \<Rightarrow> nat list option" where
  "ip4_fields fs v dl [] = (if length fs = 3 \<and> dl > 0 then Some (rev (v # fs)) else None)"
| "ip4_fields fs v dl (c # cs) =
     (if is_digit c then
        (if dl = 1 \<and> v = 0 then None
         else let v' = v * 10 + (byte c - 48)
              in if 255 < v' then None else ip4_fields fs v' (Suc dl) cs)
      else if c = CHR ''.'' then
        (if dl = 0 \<or> cs = [] then None
         else if length fs = 3 then None else ip4_fields (v # fs) 0 0 cs)
      else None)"

definition parse_ipv4 :: "string \<Rightarrow> nat list option" where
  "parse_ipv4 s = ip4_fields [] 0 0 s"

fun join_dots :: "nat list \<Rightarrow> string" where
  "join_dots [] = []"
| "join_dots [v] = show_nat v"
| "join_dots (v # w # vs) = show_nat v @ CHR ''.'' # join_dots (w # vs)"

lemma join_dots_snoc: "vs \<noteq> [] \<Longrightarrow> join_dots (vs @ [v]) = join_dots vs @ CHR ''.'' # show_nat v"
  by (induction vs rule: join_dots.induct) auto

lemma show_nat_push:
  assumes "0 < v" "is_digit c"
  shows "show_nat (v * 10 + (byte c - 48)) = show_nat v @ [c]"
proof -
  define d where "d = byte c - 48"
  have d: "d < 10" "char_of (48 + d) = c"
    using assms(2) by (auto simp: d_def is_digit_def)
  have "show_nat (v * 10 + d) = show_nat ((v * 10 + d) div 10) @ [char_of (48 + (v * 10 + d) mod 10)]"
    using assms(1) by (subst show_nat.simps) simp
  with d show ?thesis by (simp add: d_def [symmetric])
qed

lemma show_nat_digit: "is_digit c \<Longrightarrow> show_nat (byte c - 48) = [c]"
  by (subst show_nat.simps) (auto simp: is_digit_def)

definition ip4_text :: "nat list \<Rightarrow> nat \<Rightarrow> nat \<Rightarrow> string" where
  "ip4_text fs v dl = (if fs = [] then [] else join_dots (rev fs) @ ''.'') @ (if dl = 0 then [] else show_nat v)"

lemma ip4_text_digit:
  assumes "is_digit c" "dl = 0 \<longrightarrow> v = 0" "1 < dl \<longrightarrow> 0 < v" "\<not> (dl = 1 \<and> v = 0)"
  shows "ip4_text fs (v * 10 + (byte c - 48)) (Suc dl) = ip4_text fs v dl @ [c]"
  using assms show_nat_push [of v c] show_nat_digit [of c]
  by (cases dl) (auto simp: ip4_text_def)

lemma ip4_text_dot: "0 < dl \<Longrightarrow> ip4_text (v # fs) 0 0 = ip4_text fs v dl @ ''.''"
  by (cases "fs = []") (auto simp: ip4_text_def join_dots_snoc)

lemma ip4_fields_text:
  assumes "ip4_fields fs v dl s = Some q" "dl = 0 \<longrightarrow> v = 0" "1 < dl \<longrightarrow> 0 < v"
  shows "join_dots q = ip4_text fs v dl @ s"
  using assms
proof (induction fs v dl s rule: ip4_fields.induct)
  case (1 fs v dl)
  then show ?case
    by (cases "fs = []") (auto simp: ip4_text_def join_dots_snoc split: if_splits)
next
  case (2 fs v dl c cs)
  consider (digit) "is_digit c" | (dot) "\<not> is_digit c" "c = CHR ''.''"
    using "2.prems"(1) by (auto split: if_splits)
  then show ?case
  proof cases
    case digit
    with "2.prems"(1) have nz: "\<not> (dl = 1 \<and> v = 0)" and le: "\<not> 255 < v * 10 + (byte c - 48)"
      and rec: "ip4_fields fs (v * 10 + (byte c - 48)) (Suc dl) cs = Some q"
      by (auto simp: Let_def split: if_splits)
    have pos: "1 < Suc dl \<longrightarrow> 0 < v * 10 + (byte c - 48)"
      using nz "2.prems"(2,3) by (cases "dl = 1") auto
    have "join_dots q = ip4_text fs (v * 10 + (byte c - 48)) (Suc dl) @ cs"
      using "2.IH"(1) [OF digit nz refl le rec] pos by simp
    then show ?thesis
      using ip4_text_digit [OF digit "2.prems"(2,3) nz] by simp
  next
    case dot
    with "2.prems"(1) have g: "\<not> (dl = 0 \<or> cs = [])" and l: "length fs \<noteq> 3"
      and rec: "ip4_fields (v # fs) 0 0 cs = Some q"
      by (auto split: if_splits)
    have "join_dots q = ip4_text (v # fs) 0 0 @ cs"
      using "2.IH"(2) [OF dot g l rec] by simp
    then show ?thesis using ip4_text_dot g dot by simp
  qed
qed

lemma ip4_fields_bounds:
  "ip4_fields fs v dl s = Some q \<Longrightarrow> \<forall>x\<in>set fs. x \<le> 255 \<Longrightarrow> v \<le> 255
    \<Longrightarrow> length q = 4 \<and> (\<forall>x\<in>set q. x \<le> 255)"
  by (induction fs v dl s rule: ip4_fields.induct) (auto simp: Let_def split: if_splits)

lemma parse_ipv4_canonical: "parse_ipv4 s = Some q \<Longrightarrow> s = join_dots q"
  using ip4_fields_text [of "[]" 0 0 s q] by (simp add: parse_ipv4_def ip4_text_def)

lemma parse_ipv4_bounds: "parse_ipv4 s = Some q \<Longrightarrow> length q = 4 \<and> (\<forall>x\<in>set q. x \<le> 255)"
  unfolding parse_ipv4_def by (erule ip4_fields_bounds) auto

end
