(* ===== verification/Json.thy ===== *)
theory Json
  imports GoStd
begin

section \<open>JSON as \<open>encoding/json\<close> reads it\<close>

text \<open>
  The backend's documents reach the program as bytes. This theory reads them: a lexer, a parser with
  the decoder's nesting limit, the token walk of \<open>rejectDuplicateJSONKeys\<close>, and the decoding of a
  value into Go data. Object members keep their order and their duplicates, because the sources treat
  duplicates in two ways (the payload path refuses them, the handshake path lets the last one win).

  A lexical error is the token \<open>TBad\<close>, which ends the token list: a reader that stops before it never
  sees it, as the streaming decoder does.
\<close>

datatype json =
    JNull
  | JBool bool
  | JNum string
  | JStr string
  | JArr "json list"
  | JObj "(string \<times> json) list"

datatype tok =
    TLBrace | TRBrace | TLBrack | TRBrack | TColon | TComma
  | TNull | TTrue | TFalse
  | TNum string
  | TStr string
  | TBad

subsection \<open>String literals\<close>

abbreviation quote_char :: char where "quote_char \<equiv> CHR 0x22"
abbreviation backslash :: char where "backslash \<equiv> CHR 0x5C"

definition is_hex :: "char \<Rightarrow> bool" where
  "is_hex c \<longleftrightarrow> is_digit c \<or> (97 \<le> byte c \<and> byte c \<le> 102) \<or> (65 \<le> byte c \<and> byte c \<le> 70)"

definition hex_val :: "char \<Rightarrow> nat" where
  "hex_val c = (if is_digit c then byte c - 48 else if 97 \<le> byte c then byte c - 87 else byte c - 55)"

definition hex4 :: "string \<Rightarrow> nat" where
  "hex4 s = foldl (\<lambda>a c. a * 16 + hex_val c) 0 (take 4 s)"

definition simple_escapes :: "(char \<times> char) list" where
  "simple_escapes = [(quote_char, quote_char), (backslash, backslash), (CHR ''/'', CHR ''/''),
     (CHR ''b'', CHR 0x08), (CHR ''f'', CHR 0x0C), (CHR ''n'', CHR 0x0A), (CHR ''r'', CHR 0x0D), (CHR ''t'', CHR 0x09)]"

text \<open>The raw text of a string literal after its opening quote, and what follows the closing one.\<close>

fun scan_raw :: "string \<Rightarrow> (string \<times> string) option" where
  "scan_raw [] = None"
| "scan_raw (c # cs) =
     (if c = quote_char then Some ([], cs)
      else if c = backslash then
        (case cs of
           [] \<Rightarrow> None
         | e # r \<Rightarrow>
             if map_of simple_escapes e \<noteq> None then map_option (\<lambda>(a, b). (c # e # a, b)) (scan_raw r)
             else if e = CHR ''u'' \<and> 4 \<le> length r \<and> list_all is_hex (take 4 r)
             then map_option (\<lambda>(a, b). (c # e # take 4 r @ a, b)) (scan_raw (drop 4 r))
             else None)
      else if byte c < 32 then None
      else map_option (\<lambda>(a, b). (c # a, b)) (scan_raw cs))"

definition is_cont :: "char \<Rightarrow> bool" where
  "is_cont c \<longleftrightarrow> 128 \<le> byte c \<and> byte c < 192"

text \<open>\<open>utf8.DecodeRune\<close>: the length of the encoded code point at the head, 0 when it is invalid.\<close>

fun utf8_size :: "string \<Rightarrow> nat" where
  "utf8_size [] = 0"
| "utf8_size (c # cs) =
     (if byte c < 128 then 1
      else if 194 \<le> byte c \<and> byte c < 224 then (if cs \<noteq> [] \<and> is_cont (hd cs) then 2 else 0)
      else if 224 \<le> byte c \<and> byte c < 240 then
        (if 2 \<le> length cs \<and> is_cont (cs ! 0) \<and> is_cont (cs ! 1)
            \<and> (byte c = 224 \<longrightarrow> 160 \<le> byte (cs ! 0)) \<and> (byte c = 237 \<longrightarrow> byte (cs ! 0) < 160) then 3 else 0)
      else if 240 \<le> byte c \<and> byte c < 245 then
        (if 3 \<le> length cs \<and> is_cont (cs ! 0) \<and> is_cont (cs ! 1) \<and> is_cont (cs ! 2)
            \<and> (byte c = 240 \<longrightarrow> 144 \<le> byte (cs ! 0)) \<and> (byte c = 244 \<longrightarrow> byte (cs ! 0) < 144) then 4 else 0)
      else 0)"

definition encode_rune :: "nat \<Rightarrow> string" where
  "encode_rune r =
     (if r < 128 then [char_of r]
      else if r < 2048 then [char_of (192 + r div 64), char_of (128 + r mod 64)]
      else if r < 65536 then
        [char_of (224 + r div 4096), char_of (128 + r div 64 mod 64), char_of (128 + r mod 64)]
      else
        [char_of (240 + r div 262144), char_of (128 + r div 4096 mod 64),
         char_of (128 + r div 64 mod 64), char_of (128 + r mod 64)])"

definition replacement :: string where
  "replacement = encode_rune 65533"

text \<open>\<open>unquote\<close>: escapes resolved, surrogate pairs joined, invalid UTF-8 replaced by U+FFFD.\<close>

function unquote :: "string \<Rightarrow> string" where
  "unquote [] = []"
| "unquote (c # cs) =
     (if c = backslash then
        (case cs of
           [] \<Rightarrow> []
         | e # r \<Rightarrow>
             if e = CHR ''u'' then
               (let x = hex4 r; r1 = drop 4 r; y = hex4 (drop 2 r1) in
                if 55296 \<le> x \<and> x < 57344 then
                  (if x < 56320 \<and> has_prefix [backslash, CHR ''u''] r1 \<and> 56320 \<le> y \<and> y < 57344
                   then encode_rune (65536 + (x - 55296) * 1024 + (y - 56320)) @ unquote (drop 6 r1)
                   else replacement @ unquote r1)
                else encode_rune x @ unquote r1)
             else (case map_of simple_escapes e of None \<Rightarrow> [] | Some x \<Rightarrow> x # unquote r))
      else if utf8_size (c # cs) = 0 then replacement @ unquote cs
      else take (utf8_size (c # cs)) (c # cs) @ unquote (drop (utf8_size (c # cs) - 1) cs))"
  by pat_completeness auto
termination
  by (relation "measure length") (auto simp: less_Suc_eq_le)

declare unquote.simps [simp del]

lemma scan_raw_shorter: "scan_raw s = Some (a, r) \<Longrightarrow> length r < length s"
proof (induction s arbitrary: a r rule: scan_raw.induct)
  case 1
  then show ?case by simp
next
  case (2 c cs)
  show ?case
  proof (cases cs)
    case Nil
    with "2.prems" show ?thesis by (auto split: if_splits)
  next
    case (Cons e t)
    with 2 show ?thesis by (fastforce split: if_splits)
  qed
qed

subsection \<open>Numbers\<close>

text \<open>\<open>-?(0|[1-9][0-9]*)(\.[0-9]+)?([eE][+-]?[0-9]+)?\<close>, in its three parts.\<close>

definition scan_int :: "string \<Rightarrow> (string \<times> string) option" where
  "scan_int s =
     (case s of
        [] \<Rightarrow> None
      | c # r \<Rightarrow> if c = CHR ''0'' then Some ([c], r)
                else if is_digit c then Some (takeWhile is_digit s, dropWhile is_digit s)
                else None)"

definition scan_frac :: "string \<Rightarrow> (string \<times> string) option" where
  "scan_frac s =
     (case s of
        c # r \<Rightarrow> if c = CHR ''.'' then
                   (if takeWhile is_digit r = [] then None
                    else Some (c # takeWhile is_digit r, dropWhile is_digit r))
                 else Some ([], s)
      | [] \<Rightarrow> Some ([], s))"

definition scan_exp :: "string \<Rightarrow> (string \<times> string) option" where
  "scan_exp s =
     (case s of
        c # r \<Rightarrow> if c = CHR ''e'' \<or> c = CHR ''E'' then
                   (let sgn = (if r \<noteq> [] \<and> (hd r = CHR ''+'' \<or> hd r = CHR ''-'') then [hd r] else []);
                        r1 = drop (length sgn) r in
                    if takeWhile is_digit r1 = [] then None
                    else Some (c # sgn @ takeWhile is_digit r1, dropWhile is_digit r1))
                 else Some ([], s)
      | [] \<Rightarrow> Some ([], s))"

definition scan_num :: "string \<Rightarrow> (string \<times> string) option" where
  "scan_num s =
     (let sgn = (if s \<noteq> [] \<and> hd s = CHR ''-'' then [hd s] else []) in
      Option.bind (scan_int (drop (length sgn) s)) (\<lambda>(i, r1).
      Option.bind (scan_frac r1) (\<lambda>(f, r2).
      Option.bind (scan_exp r2) (\<lambda>(e, r3).
      Some (sgn @ i @ f @ e, r3)))))"

lemma length_dropWhile_le_trans: "length xs \<le> n \<Longrightarrow> length (dropWhile P xs) \<le> n"
  using length_dropWhile_le [of P xs] by linarith

lemma scan_int_shorter: "scan_int s = Some (i, r) \<Longrightarrow> length r < length s"
  by (auto simp: scan_int_def less_Suc_eq_le length_dropWhile_le split: list.splits if_splits)

lemma scan_frac_le: "scan_frac s = Some (f, r) \<Longrightarrow> length r \<le> length s"
  by (auto simp: scan_frac_def length_dropWhile_le_trans split: list.splits if_splits)

lemma scan_exp_le: "scan_exp s = Some (e, r) \<Longrightarrow> length r \<le> length s"
  by (auto simp: scan_exp_def Let_def length_dropWhile_le_trans split: list.splits if_splits)

lemma scan_num_shorter: "scan_num s = Some (x, r) \<Longrightarrow> length r < length s"
  by (auto simp: scan_num_def Let_def bind_eq_Some_conv split: if_splits
      dest!: scan_int_shorter scan_frac_le scan_exp_le)

text \<open>
  The value of a number in \<open>float64\<close> range: the walk's decoder converts numbers to \<open>float64\<close>, and a
  literal that rounds beyond the largest one is an error there.
\<close>

definition num_mantissa :: "string \<Rightarrow> nat" where
  "num_mantissa s = dec_val 0 (filter is_digit (takeWhile (\<lambda>c. c \<noteq> CHR ''e'' \<and> c \<noteq> CHR ''E'') s))"

definition num_frac_len :: "string \<Rightarrow> nat" where
  "num_frac_len s = length (filter is_digit (dropWhile (\<lambda>c. c \<noteq> CHR ''.'')
     (takeWhile (\<lambda>c. c \<noteq> CHR ''e'' \<and> c \<noteq> CHR ''E'') s)))"

definition num_exp :: "string \<Rightarrow> int" where
  "num_exp s =
     (let e = dropWhile (\<lambda>c. c \<noteq> CHR ''e'' \<and> c \<noteq> CHR ''E'') s;
          v = int (dec_val 0 (filter is_digit e))
      in if CHR ''-'' \<in> set e then - v else v)"

definition float_limit :: int where
  "float_limit = 2 ^ 1024 - 2 ^ 970"

definition float_in_range :: "string \<Rightarrow> bool" where
  "float_in_range s =
     (let k = num_exp s - int (num_frac_len s); m = int (num_mantissa s) in
      if 0 \<le> k then m * 10 ^ nat k < float_limit else m < float_limit * 10 ^ nat (- k))"

subsection \<open>The lexer\<close>

definition is_json_space :: "char \<Rightarrow> bool" where
  "is_json_space c \<longleftrightarrow> c = CHR '' '' \<or> c = CHR 0x09 \<or> c = CHR 0x0A \<or> c = CHR 0x0D"

definition punctuation :: "(char \<times> tok) list" where
  "punctuation = [(CHR ''{'', TLBrace), (CHR ''}'', TRBrace), (CHR ''['', TLBrack), (CHR '']'', TRBrack),
     (CHR '':'', TColon), (CHR '','', TComma)]"

function lex :: "string \<Rightarrow> tok list" where
  "lex [] = []"
| "lex (c # cs) =
     (if is_json_space c then lex cs
      else if c = quote_char then
        (case scan_raw cs of None \<Rightarrow> [TBad] | Some (a, r) \<Rightarrow> TStr (unquote a) # lex r)
      else (case map_of punctuation c of
         Some t \<Rightarrow> t # lex cs
       | None \<Rightarrow>
           if has_prefix ''null'' (c # cs) then TNull # lex (drop 3 cs)
           else if has_prefix ''true'' (c # cs) then TTrue # lex (drop 3 cs)
           else if has_prefix ''false'' (c # cs) then TFalse # lex (drop 4 cs)
           else (case scan_num (c # cs) of None \<Rightarrow> [TBad] | Some (x, r) \<Rightarrow> TNum x # lex r)))"
  by pat_completeness auto
termination
  by (relation "measure length") (auto simp: less_Suc_eq_le dest: scan_raw_shorter scan_num_shorter)

declare lex.simps [simp del]

subsection \<open>The parser\<close>

text \<open>
  One value from the front of the token list. The first argument is fuel, spent on every call; the
  second is how many more containers may be opened (the decoder's limit is 10000).
\<close>

definition maxNestingDepth :: int where
  "maxNestingDepth = 10000"

fun parse_value :: "nat \<Rightarrow> int \<Rightarrow> tok list \<Rightarrow> (json \<times> tok list) option"
  and parse_elems :: "nat \<Rightarrow> int \<Rightarrow> tok list \<Rightarrow> (json list \<times> tok list) option"
  and parse_members :: "nat \<Rightarrow> int \<Rightarrow> tok list \<Rightarrow> ((string \<times> json) list \<times> tok list) option"
where
  "parse_value 0 d ts = None"
| "parse_value (Suc n) d ts =
     (case ts of
        TNull # r \<Rightarrow> Some (JNull, r)
      | TTrue # r \<Rightarrow> Some (JBool True, r)
      | TFalse # r \<Rightarrow> Some (JBool False, r)
      | TNum x # r \<Rightarrow> Some (JNum x, r)
      | TStr x # r \<Rightarrow> Some (JStr x, r)
      | TLBrack # r \<Rightarrow>
          (if d \<le> 0 then None
           else if r \<noteq> [] \<and> hd r = TRBrack then Some (JArr [], tl r)
           else map_option (\<lambda>(vs, r'). (JArr vs, r')) (parse_elems n (d - 1) r))
      | TLBrace # r \<Rightarrow>
          (if d \<le> 0 then None
           else if r \<noteq> [] \<and> hd r = TRBrace then Some (JObj [], tl r)
           else map_option (\<lambda>(ms, r'). (JObj ms, r')) (parse_members n (d - 1) r))
      | _ \<Rightarrow> None)"
| "parse_elems 0 d ts = None"
| "parse_elems (Suc n) d ts =
     (case parse_value n d ts of
        Some (v, TComma # r) \<Rightarrow> map_option (\<lambda>(vs, r'). (v # vs, r')) (parse_elems n d r)
      | Some (v, TRBrack # r) \<Rightarrow> Some ([v], r)
      | _ \<Rightarrow> None)"
| "parse_members 0 d ts = None"
| "parse_members (Suc n) d ts =
     (case ts of
        TStr k # TColon # t \<Rightarrow>
          (case parse_value n d t of
             Some (v, TComma # r) \<Rightarrow> map_option (\<lambda>(ms, r'). ((k, v) # ms, r')) (parse_members n d r)
           | Some (v, TRBrace # r) \<Rightarrow> Some ([(k, v)], r)
           | _ \<Rightarrow> None)
      | _ \<Rightarrow> None)"

declare parse_value.simps [simp del] parse_elems.simps [simp del] parse_members.simps [simp del]

definition fuel_for :: "tok list \<Rightarrow> nat" where
  "fuel_for ts = 2 * length ts + 2"

definition parse_first :: "tok list \<Rightarrow> (json \<times> tok list) option" where
  "parse_first ts = parse_value (fuel_for ts) maxNestingDepth ts"

text \<open>\<open>json.Unmarshal\<close>'s reading of the bytes: one value and nothing but space around it.\<close>

definition parse_json :: "bytes \<Rightarrow> json option" where
  "parse_json raw = (case parse_first (lex raw) of Some (v, []) \<Rightarrow> Some v | _ \<Rightarrow> None)"

lemmas parse_simps = parse_value.simps parse_elems.simps parse_members.simps

lemma parse_value_SucE:
  assumes "parse_value (Suc n) d ts = Some (v, r)"
  obtains
    (null) "ts = TNull # r" "v = JNull"
  | (true) "ts = TTrue # r" "v = JBool True"
  | (false) "ts = TFalse # r" "v = JBool False"
  | (num) x where "ts = TNum x # r" "v = JNum x"
  | (str) x where "ts = TStr x # r" "v = JStr x"
  | (empty_arr) "0 < d" "ts = TLBrack # TRBrack # r" "v = JArr []"
  | (arr) t vs where "0 < d" "ts = TLBrack # t" "t = [] \<or> hd t \<noteq> TRBrack" "v = JArr vs"
      "parse_elems n (d - 1) t = Some (vs, r)"
  | (empty_obj) "0 < d" "ts = TLBrace # TRBrace # r" "v = JObj []"
  | (obj) t ms where "0 < d" "ts = TLBrace # t" "t = [] \<or> hd t \<noteq> TRBrace" "v = JObj ms"
      "parse_members n (d - 1) t = Some (ms, r)"
proof (cases ts)
  case Nil
  with assms show ?thesis by (simp add: parse_value.simps)
next
  case (Cons t ts')
  note ts = this
  show ?thesis
  proof (cases t)
    case TLBrack
    with assms Cons have d: "0 < d" by (auto simp: parse_value.simps split: if_splits)
    show ?thesis
    proof (cases "ts' \<noteq> [] \<and> hd ts' = TRBrack")
      case True
      then obtain u where "ts' = TRBrack # u" by (cases ts') auto
      with assms ts TLBrack d that(6) show ?thesis by (auto simp: parse_value.simps)
    next
      case False
      with assms ts TLBrack d that(7) show ?thesis by (auto simp: parse_value.simps)
    qed
  next
    case TLBrace
    with assms Cons have d: "0 < d" by (auto simp: parse_value.simps split: if_splits)
    show ?thesis
    proof (cases "ts' \<noteq> [] \<and> hd ts' = TRBrace")
      case True
      then obtain u where "ts' = TRBrace # u" by (cases ts') auto
      with assms ts TLBrace d that(8) show ?thesis by (auto simp: parse_value.simps)
    next
      case False
      with assms ts TLBrace d that(9) show ?thesis by (auto simp: parse_value.simps)
    qed
  qed (use assms ts that in \<open>auto simp: parse_value.simps\<close>)
qed

lemma parse_elems_SucE:
  assumes "parse_elems (Suc n) d ts = Some (vs, r)"
  obtains (last) v where "parse_value n d ts = Some (v, TRBrack # r)" "vs = [v]"
  | (more) v t vs' where "parse_value n d ts = Some (v, TComma # t)"
      "parse_elems n d t = Some (vs', r)" "vs = v # vs'"
  using assms by (auto simp: parse_elems.simps split: option.splits list.splits tok.splits)

lemma parse_members_SucE:
  assumes "parse_members (Suc n) d ts = Some (ms, r)"
  obtains (last) k t v where "ts = TStr k # TColon # t" "parse_value n d t = Some (v, TRBrace # r)" "ms = [(k, v)]"
  | (more) k t v u ms' where "ts = TStr k # TColon # t" "parse_value n d t = Some (v, TComma # u)"
      "parse_members n d u = Some (ms', r)" "ms = (k, v) # ms'"
  using assms by (auto simp: parse_members.simps split: option.splits list.splits tok.splits)

text \<open>
  Parsing consumes tokens, and fuel twice the number of consumed tokens is enough: whatever some
  amount of fuel can parse, \<open>fuel_for\<close> parses with the same result.
\<close>

definition fuel_ok :: "nat \<Rightarrow> bool" where
  "fuel_ok n \<longleftrightarrow>
     (\<forall>d ts v r. parse_value n d ts = Some (v, r) \<longrightarrow> length r < length ts
        \<and> (\<forall>m. 2 * length ts \<le> Suc m + 2 * length r \<longrightarrow> parse_value m d ts = Some (v, r)))
   \<and> (\<forall>d ts vs r. parse_elems n d ts = Some (vs, r) \<longrightarrow> length r + 2 \<le> length ts
        \<and> (\<forall>m. 2 * length ts \<le> m + 2 * length r \<longrightarrow> parse_elems m d ts = Some (vs, r)))
   \<and> (\<forall>d ts ms r. parse_members n d ts = Some (ms, r) \<longrightarrow> length r + 2 \<le> length ts
        \<and> (\<forall>m. 2 * length ts \<le> m + 2 * length r \<longrightarrow> parse_members m d ts = Some (ms, r)))"

lemma fuel_okD:
  assumes "fuel_ok n"
  shows "parse_value n d ts = Some (v, r) \<Longrightarrow> length r < length ts"
    and "parse_value n d ts = Some (v, r) \<Longrightarrow> 2 * length ts \<le> Suc m + 2 * length r \<Longrightarrow> parse_value m d ts = Some (v, r)"
    and "parse_elems n d ts = Some (vs, r) \<Longrightarrow> length r + 2 \<le> length ts"
    and "parse_elems n d ts = Some (vs, r) \<Longrightarrow> 2 * length ts \<le> m + 2 * length r \<Longrightarrow> parse_elems m d ts = Some (vs, r)"
    and "parse_members n d ts = Some (ms, r) \<Longrightarrow> length r + 2 \<le> length ts"
    and "parse_members n d ts = Some (ms, r) \<Longrightarrow> 2 * length ts \<le> m + 2 * length r \<Longrightarrow> parse_members m d ts = Some (ms, r)"
  using assms unfolding fuel_ok_def by blast+

lemma fuel_ok_value:
  assumes ih: "fuel_ok n" and p: "parse_value (Suc n) d ts = Some (v, r)"
  shows "length r < length ts"
    and "2 * length ts \<le> Suc m + 2 * length r \<Longrightarrow> parse_value m d ts = Some (v, r)"
proof -
  show "length r < length ts"
    using p by (cases rule: parse_value_SucE) (auto dest: fuel_okD(3,5) [OF ih])
  assume m: "2 * length ts \<le> Suc m + 2 * length r"
  from p show "parse_value m d ts = Some (v, r)"
  proof (cases rule: parse_value_SucE)
    case (arr t vs)
    with m obtain m' where m': "m = Suc m'" "2 * length t \<le> m' + 2 * length r"
      using fuel_okD(3) [OF ih arr(5)] by (cases m) auto
    show ?thesis using arr m' fuel_okD(4) [OF ih arr(5) m'(2)] by (auto simp: parse_value.simps)
  next
    case (obj t ms)
    with m obtain m' where m': "m = Suc m'" "2 * length t \<le> m' + 2 * length r"
      using fuel_okD(5) [OF ih obj(5)] by (cases m) auto
    show ?thesis using obj m' fuel_okD(6) [OF ih obj(5) m'(2)] by (auto simp: parse_value.simps)
  qed (use m in \<open>cases m; auto simp: parse_value.simps\<close>)+
qed

lemma fuel_ok_elems:
  assumes ih: "fuel_ok n" and p: "parse_elems (Suc n) d ts = Some (vs, r)"
  shows "length r + 2 \<le> length ts"
    and "2 * length ts \<le> m + 2 * length r \<Longrightarrow> parse_elems m d ts = Some (vs, r)"
proof -
  show len: "length r + 2 \<le> length ts"
    using p by (cases rule: parse_elems_SucE) (auto dest!: fuel_okD(1,3) [OF ih])
  assume m: "2 * length ts \<le> m + 2 * length r"
  with len obtain m' where m': "m = Suc m'" by (cases m) auto
  from p show "parse_elems m d ts = Some (vs, r)"
  proof (cases rule: parse_elems_SucE)
    case (last v)
    with m m' have "parse_value m' d ts = Some (v, TRBrack # r)"
      by (intro fuel_okD(2) [OF ih last(1)]) auto
    with last m' show ?thesis by (simp add: parse_elems.simps)
  next
    case (more v t vs')
    have "length t < length ts" using fuel_okD(1) [OF ih more(1)] by simp
    moreover have "length r + 2 \<le> length t" using fuel_okD(3) [OF ih more(2)] .
    ultimately have "parse_value m' d ts = Some (v, TComma # t)" "parse_elems m' d t = Some (vs', r)"
      using m m' fuel_okD(2) [OF ih more(1), of m'] fuel_okD(4) [OF ih more(2), of m'] by auto
    with more m' show ?thesis by (simp add: parse_elems.simps)
  qed
qed

lemma fuel_ok_members:
  assumes ih: "fuel_ok n" and p: "parse_members (Suc n) d ts = Some (ms, r)"
  shows "length r + 2 \<le> length ts"
    and "2 * length ts \<le> m + 2 * length r \<Longrightarrow> parse_members m d ts = Some (ms, r)"
proof -
  show len: "length r + 2 \<le> length ts"
    using p by (cases rule: parse_members_SucE) (auto dest!: fuel_okD(1,5) [OF ih])
  assume m: "2 * length ts \<le> m + 2 * length r"
  with len obtain m' where m': "m = Suc m'" by (cases m) auto
  from p show "parse_members m d ts = Some (ms, r)"
  proof (cases rule: parse_members_SucE)
    case (last k t v)
    with m m' have "parse_value m' d t = Some (v, TRBrace # r)"
      by (intro fuel_okD(2) [OF ih last(2)]) auto
    with last m' show ?thesis by (simp add: parse_members.simps)
  next
    case (more k t v u ms')
    have "length u < length t" using fuel_okD(1) [OF ih more(2)] by simp
    moreover have "length r + 2 \<le> length u" using fuel_okD(5) [OF ih more(3)] .
    ultimately have "parse_value m' d t = Some (v, TComma # u)" "parse_members m' d u = Some (ms', r)"
      using m m' more(1) fuel_okD(2) [OF ih more(2), of m'] fuel_okD(6) [OF ih more(3), of m'] by auto
    with more m' show ?thesis by (simp add: parse_members.simps)
  qed
qed

lemma fuel_ok_all: "fuel_ok n"
proof (induction n)
  case 0
  show ?case by (simp add: fuel_ok_def parse_simps)
next
  case (Suc n)
  note steps1 = fuel_ok_value(1) [OF Suc] fuel_ok_elems(1) [OF Suc] fuel_ok_members(1) [OF Suc]
  note steps2 = fuel_ok_value(2) [OF Suc] fuel_ok_elems(2) [OF Suc] fuel_ok_members(2) [OF Suc]
  show ?case
    unfolding fuel_ok_def by (intro conjI allI impI; (erule (1) steps2 | erule steps1))
qed

lemmas parse_value_shorter = fuel_okD(1) [OF fuel_ok_all]
  and parse_value_more_fuel = fuel_okD(2) [OF fuel_ok_all]

lemma parse_fuel_enough:
  "parse_value n maxNestingDepth ts = Some (v, r) \<Longrightarrow> parse_first ts = Some (v, r)"
  unfolding parse_first_def fuel_for_def by (erule parse_value_more_fuel) simp

subsection \<open>The token walk that refuses duplicate keys\<close>

text \<open>
  \<open>rejectDuplicateJSONKeys\<close> reads the document token by token, keeping the set of keys seen in the
  object it is in, and asks for the end of input after one value. It has no nesting limit; a number
  token is converted to \<open>float64\<close> on the way.
\<close>

definition syntax_error :: msg where
  "syntax_error = Sprintf ''%v'' [AErr ''encoding/json'']"

fun walk_value :: "nat \<Rightarrow> tok list \<Rightarrow> msg + tok list"
  and walk_array :: "nat \<Rightarrow> tok list \<Rightarrow> msg + tok list"
  and walk_object :: "nat \<Rightarrow> string list \<Rightarrow> tok list \<Rightarrow> msg + tok list"
where
  "walk_value 0 ts = Inl syntax_error"
| "walk_value (Suc n) ts =
     (case ts of
        TNull # r \<Rightarrow> Inr r
      | TTrue # r \<Rightarrow> Inr r
      | TFalse # r \<Rightarrow> Inr r
      | TNum x # r \<Rightarrow> if float_in_range x then Inr r else Inl syntax_error
      | TStr x # r \<Rightarrow> Inr r
      | TLBrack # r \<Rightarrow> if r \<noteq> [] \<and> hd r = TRBrack then Inr (tl r) else walk_array n r
      | TLBrace # r \<Rightarrow> if r \<noteq> [] \<and> hd r = TRBrace then Inr (tl r) else walk_object n [] r
      | _ \<Rightarrow> Inl syntax_error)"
| "walk_array 0 ts = Inl syntax_error"
| "walk_array (Suc n) ts =
     (case walk_value n ts of
        Inl e \<Rightarrow> Inl e
      | Inr (TComma # r) \<Rightarrow> walk_array n r
      | Inr (TRBrack # r) \<Rightarrow> Inr r
      | Inr _ \<Rightarrow> Inl syntax_error)"
| "walk_object 0 seen ts = Inl syntax_error"
| "walk_object (Suc n) seen ts =
     (case ts of
        TStr k # t \<Rightarrow>
          if k \<in> set seen then Inl (Sprintf ''duplicate JSON key %q'' [AStr k])
          else (case t of
                  TColon # u \<Rightarrow>
                    (case walk_value n u of
                       Inl e \<Rightarrow> Inl e
                     | Inr (TComma # r) \<Rightarrow> walk_object n (k # seen) r
                     | Inr (TRBrace # r) \<Rightarrow> Inr r
                     | Inr _ \<Rightarrow> Inl syntax_error)
                | _ \<Rightarrow> Inl syntax_error)
      | _ \<Rightarrow> Inl syntax_error)"

declare walk_value.simps [simp del] walk_array.simps [simp del] walk_object.simps [simp del]

definition rejectDuplicateJSONKeys :: "bytes \<Rightarrow> msg option" where
  "rejectDuplicateJSONKeys raw =
     (let ts = lex raw in
      case walk_value (fuel_for ts) ts of
        Inl e \<Rightarrow> Some e
      | Inr [] \<Rightarrow> None
      | Inr (t # r) \<Rightarrow>
          if t \<in> {TBad, TRBrace, TRBrack, TColon, TComma} \<or> (case t of TNum x \<Rightarrow> \<not> float_in_range x | _ \<Rightarrow> False)
          then Some (Sprintf ''document has trailing content: %w'' [AErr ''encoding/json''])
          else Some (Text ''document contains a second JSON value''))"

text \<open>What the walk decides, on the parsed value: no object repeats a key, at any depth.\<close>

fun unique_keys :: "json \<Rightarrow> bool" where
  "unique_keys (JArr vs) = (\<forall>v\<in>set vs. unique_keys v)"
| "unique_keys (JObj ms) = (distinct (map fst ms) \<and> (\<forall>p\<in>set ms. unique_keys (snd p)))"
| "unique_keys (JNum x) = float_in_range x"
| "unique_keys _ = True"

definition walk_ok :: "nat \<Rightarrow> bool" where
  "walk_ok n \<longleftrightarrow>
     (\<forall>d ts v r. parse_value n d ts = Some (v, r) \<longrightarrow>
        (if unique_keys v then walk_value n ts = Inr r else isl (walk_value n ts)))
   \<and> (\<forall>d ts vs r. parse_elems n d ts = Some (vs, r) \<longrightarrow>
        (if unique_keys (JArr vs) then walk_array n ts = Inr r else isl (walk_array n ts)))
   \<and> (\<forall>d ts ms r seen. parse_members n d ts = Some (ms, r) \<longrightarrow>
        (if unique_keys (JObj ms) \<and> set (map fst ms) \<inter> set seen = {} then walk_object n seen ts = Inr r
         else isl (walk_object n seen ts)))"

lemma walk_okD:
  assumes "walk_ok n"
  shows "parse_value n d ts = Some (v, r) \<Longrightarrow>
      (if unique_keys v then walk_value n ts = Inr r else isl (walk_value n ts))"
    and "parse_elems n d ts = Some (vs, r) \<Longrightarrow>
      (if unique_keys (JArr vs) then walk_array n ts = Inr r else isl (walk_array n ts))"
    and "parse_members n d ts = Some (ms, r) \<Longrightarrow>
      (if unique_keys (JObj ms) \<and> set (map fst ms) \<inter> set seen = {} then walk_object n seen ts = Inr r
       else isl (walk_object n seen ts))"
  using assms unfolding walk_ok_def by blast+

lemma walk_ok_value:
  assumes ih: "walk_ok n" and p: "parse_value (Suc n) d ts = Some (v, r)"
  shows "if unique_keys v then walk_value (Suc n) ts = Inr r else isl (walk_value (Suc n) ts)"
  using p
proof (cases rule: parse_value_SucE)
  case (arr t vs)
  then show ?thesis using walk_okD(2) [OF ih arr(5)] by (auto simp: walk_value.simps)
next
  case (obj t ms)
  then show ?thesis using walk_okD(3) [OF ih obj(5), of "[]"] by (auto simp: walk_value.simps)
qed (auto simp: walk_value.simps)

lemma walk_ok_elems:
  assumes ih: "walk_ok n" and p: "parse_elems (Suc n) d ts = Some (vs, r)"
  shows "if unique_keys (JArr vs) then walk_array (Suc n) ts = Inr r else isl (walk_array (Suc n) ts)"
  using p
proof (cases rule: parse_elems_SucE)
  case (last v)
  then show ?thesis using walk_okD(1) [OF ih last(1)] by (auto simp: walk_array.simps isl_def split: if_splits)
next
  case (more v t vs')
  then show ?thesis using walk_okD(1) [OF ih more(1)] walk_okD(2) [OF ih more(2)]
    by (auto simp: walk_array.simps isl_def split: if_splits)
qed

lemma walk_ok_members:
  assumes ih: "walk_ok n" and p: "parse_members (Suc n) d ts = Some (ms, r)"
  shows "if unique_keys (JObj ms) \<and> set (map fst ms) \<inter> set seen = {}
     then walk_object (Suc n) seen ts = Inr r else isl (walk_object (Suc n) seen ts)"
  using p
proof (cases rule: parse_members_SucE)
  case (last k t v)
  then show ?thesis using walk_okD(1) [OF ih last(2)]
    by (cases "k \<in> set seen") (auto simp: walk_object.simps isl_def split: if_splits)
next
  case (more k t v u ms')
  show ?thesis
  proof (cases "k \<in> set seen")
    case True
    with more show ?thesis by (simp add: walk_object.simps)
  next
    case False
    with more walk_okD(1) [OF ih more(2)] walk_okD(3) [OF ih more(3), of "k # seen"]
    show ?thesis by (cases "unique_keys v") (auto simp: walk_object.simps isl_def split: if_splits)
  qed
qed

lemma walk_ok_all: "walk_ok n"
proof (induction n)
  case 0
  show ?case by (simp add: walk_ok_def parse_simps)
next
  case (Suc n)
  show ?case
    unfolding walk_ok_def
    by (intro conjI allI impI)
      (erule walk_ok_value [OF Suc] walk_ok_elems [OF Suc] walk_ok_members [OF Suc])+
qed

lemma rejectDuplicate_iff:
  assumes "parse_json raw = Some v"
  shows "rejectDuplicateJSONKeys raw = None \<longleftrightarrow> unique_keys v"
proof -
  have p: "parse_value (fuel_for (lex raw)) maxNestingDepth (lex raw) = Some (v, [])"
    using assms by (auto simp: parse_json_def parse_first_def split: option.splits prod.splits list.splits)
  show ?thesis
    using walk_okD(1) [OF walk_ok_all p]
    by (auto simp: rejectDuplicateJSONKeys_def Let_def isl_def split: if_splits sum.splits list.splits)
qed

subsection \<open>Decoding into Go data\<close>

text \<open>
  A decoder takes the value already in the destination and the JSON value, and returns the new
  value, or \<open>None\<close> for the library's error: \<open>null\<close> leaves a scalar as it was and clears a pointer, a
  slice is overwritten element by element, an unknown member is an error only under
  \<open>DisallowUnknownFields\<close>. A member is matched to a field by its exact name, or else by case folding.
\<close>

type_synonym 'a decoder = "'a \<Rightarrow> json \<Rightarrow> 'a option"

definition dec_string :: "string decoder" where
  "dec_string old j = (case j of JStr s \<Rightarrow> Some s | JNull \<Rightarrow> Some old | _ \<Rightarrow> None)"

definition dec_bool :: "bool decoder" where
  "dec_bool old j = (case j of JBool b \<Rightarrow> Some b | JNull \<Rightarrow> Some old | _ \<Rightarrow> None)"

text \<open>\<open>strconv.ParseInt(s, 10, 64)\<close> on the text of a JSON number.\<close>

definition parse_int64 :: "string \<Rightarrow> int option" where
  "parse_int64 s =
     (let neg = (s \<noteq> [] \<and> hd s = CHR ''-''); ds = (if neg then tl s else s);
          v = (if neg then - int (dec_val 0 ds) else int (dec_val 0 ds)) in
      if ds \<noteq> [] \<and> list_all is_digit ds \<and> - (2 ^ 63) \<le> v \<and> v < 2 ^ 63 then Some v else None)"

definition dec_int :: "int decoder" where
  "dec_int old j = (case j of JNum s \<Rightarrow> parse_int64 s | JNull \<Rightarrow> Some old | _ \<Rightarrow> None)"

definition dec_ptr :: "'a decoder \<Rightarrow> 'a \<Rightarrow> 'a option decoder" where
  "dec_ptr dec zero old j =
     (case j of JNull \<Rightarrow> Some None
      | _ \<Rightarrow> map_option Some (dec (case old of None \<Rightarrow> zero | Some x \<Rightarrow> x) j))"

fun dec_elems :: "'a decoder \<Rightarrow> 'a \<Rightarrow> 'a list \<Rightarrow> json list \<Rightarrow> 'a list option" where
  "dec_elems dec zero old [] = Some []"
| "dec_elems dec zero old (j # js) =
     (case dec (case old of [] \<Rightarrow> zero | x # _ \<Rightarrow> x) j of
        None \<Rightarrow> None
      | Some x \<Rightarrow> map_option (\<lambda>xs. x # xs) (dec_elems dec zero (tl old) js))"

definition dec_list :: "'a decoder \<Rightarrow> 'a \<Rightarrow> 'a list decoder" where
  "dec_list dec zero old j =
     (case j of JNull \<Rightarrow> Some [] | JArr js \<Rightarrow> dec_elems dec zero old js | _ \<Rightarrow> None)"

fun dec_entries :: "'a decoder \<Rightarrow> 'a \<Rightarrow> (string \<times> 'a) list \<Rightarrow> (string \<times> json) list \<Rightarrow> (string \<times> 'a) list option" where
  "dec_entries dec zero m [] = Some m"
| "dec_entries dec zero m ((k, j) # kvs) =
     (case dec zero j of
        None \<Rightarrow> None
      | Some x \<Rightarrow> dec_entries dec zero (filter (\<lambda>p. fst p \<noteq> k) m @ [(k, x)]) kvs)"

definition dec_map :: "'a decoder \<Rightarrow> 'a \<Rightarrow> (string \<times> 'a) list decoder" where
  "dec_map dec zero old j =
     (case j of JNull \<Rightarrow> Some [] | JObj kvs \<Rightarrow> dec_entries dec zero old kvs | _ \<Rightarrow> None)"

type_synonym 'r field_spec = "string \<times> 'r decoder"

definition fld :: "string \<Rightarrow> ('r \<Rightarrow> 'a) \<Rightarrow> (('a \<Rightarrow> 'a) \<Rightarrow> 'r \<Rightarrow> 'r) \<Rightarrow> 'a decoder \<Rightarrow> 'r field_spec" where
  "fld name get upd dec = (name, \<lambda>r j. map_option (\<lambda>x. upd (\<lambda>_. x) r) (dec (get r) j))"

definition find_field :: "'r field_spec list \<Rightarrow> string \<Rightarrow> 'r field_spec option" where
  "find_field fs k =
     (case find (\<lambda>f. fst f = k) fs of
        Some f \<Rightarrow> Some f
      | None \<Rightarrow> find (\<lambda>f. equal_fold (fst f) k) fs)"

fun dec_members :: "bool \<Rightarrow> 'r field_spec list \<Rightarrow> 'r \<Rightarrow> (string \<times> json) list \<Rightarrow> 'r option" where
  "dec_members strict fs r [] = Some r"
| "dec_members strict fs r ((k, j) # kvs) =
     (case find_field fs k of
        None \<Rightarrow> if strict then None else dec_members strict fs r kvs
      | Some f \<Rightarrow> (case snd f r j of None \<Rightarrow> None | Some r' \<Rightarrow> dec_members strict fs r' kvs))"

definition dec_struct :: "bool \<Rightarrow> 'r field_spec list \<Rightarrow> 'r decoder" where
  "dec_struct strict fs old j =
     (case j of JNull \<Rightarrow> Some old | JObj kvs \<Rightarrow> dec_members strict fs old kvs | _ \<Rightarrow> None)"

lemma dec_elems_length: "dec_elems dec zero old js = Some xs \<Longrightarrow> length xs = length js"
  by (induction js arbitrary: old xs) (auto split: option.splits)

lemma parse_int64_bounds: "parse_int64 s = Some v \<Longrightarrow> - (2 ^ 63) \<le> v \<and> v < 2 ^ 63"
  by (auto simp: parse_int64_def Let_def split: if_splits)

lemma dec_int_bounds:
  "dec_int old j = Some v \<Longrightarrow> - (2 ^ 63) \<le> old \<and> old < 2 ^ 63 \<Longrightarrow> - (2 ^ 63) \<le> v \<and> v < 2 ^ 63"
  by (auto simp: dec_int_def dest: parse_int64_bounds split: json.splits)

fun floats_in_range :: "json \<Rightarrow> bool" where
  "floats_in_range (JArr vs) = (\<forall>v\<in>set vs. floats_in_range v)"
| "floats_in_range (JObj ms) = (\<forall>p\<in>set ms. floats_in_range (snd p))"
| "floats_in_range (JNum x) = float_in_range x"
| "floats_in_range _ = True"

text \<open>\<open>decodeExactOne[T]\<close>: one value, decoded strictly, not \<open>null\<close>, and nothing after it.\<close>

definition decodeExactOne :: "'a decoder \<Rightarrow> 'a \<Rightarrow> bytes \<Rightarrow> msg + 'a" where
  "decodeExactOne dec zero raw =
     (case parse_first (lex raw) of
        None \<Rightarrow> Inl syntax_error
      | Some (v, r) \<Rightarrow>
          (if v = JNull then Inl (Text ''document is null'')
           else case dec zero v of
             None \<Rightarrow> Inl syntax_error
           | Some x \<Rightarrow>
               if r = [] then Inr x
               else case parse_first r of
                 Some (w, _) \<Rightarrow>
                   if floats_in_range w then Inl (Text ''document contains a second JSON value'')
                   else Inl (Sprintf ''document has trailing content: %w'' [AErr ''encoding/json''])
               | None \<Rightarrow> Inl (Sprintf ''document has trailing content: %w'' [AErr ''encoding/json''])))"

lemma decodeExactOne_InrD:
  assumes "decodeExactOne dec zero raw = Inr x"
  shows "\<exists>v. parse_json raw = Some v \<and> v \<noteq> JNull \<and> dec zero v = Some x"
  using assms by (auto simp: decodeExactOne_def parse_json_def split: option.splits prod.splits if_splits)

lemma decodeExactOne_parsed:
  assumes "parse_json raw = Some v" "v \<noteq> JNull"
  shows "decodeExactOne dec zero raw = (case dec zero v of None \<Rightarrow> Inl syntax_error | Some x \<Rightarrow> Inr x)"
  using assms by (auto simp: decodeExactOne_def parse_json_def split: option.splits list.splits)

subsection \<open>What a decoded field holds\<close>

text \<open>
  A decoder of one field \<open>writes\<close> what its value decoder makes of the member and \<open>keeps\<close> the other
  fields. When the members of an object have distinct names that are all names of fields, the decoded
  record holds, field by field, what the members say.
\<close>

definition writes :: "('r \<Rightarrow> 'a) \<Rightarrow> 'a decoder \<Rightarrow> 'r decoder \<Rightarrow> bool" where
  "writes get dec d \<longleftrightarrow> (\<forall>r j r'. d r j = Some r' \<longrightarrow> dec (get r) j = Some (get r'))"

definition keeps :: "('r \<Rightarrow> 'a) \<Rightarrow> 'r decoder \<Rightarrow> bool" where
  "keeps get d \<longleftrightarrow> (\<forall>r j r'. d r j = Some r' \<longrightarrow> get r' = get r)"

lemma find_field_exact: "map_of fs k = Some d \<Longrightarrow> find_field fs k = Some (k, d)"
proof -
  assume "map_of fs k = Some d"
  then have "find (\<lambda>f. fst f = k) fs = Some (k, d)"
    by (induction fs) (auto split: if_splits)
  then show ?thesis by (simp add: find_field_def)
qed

lemma dec_members_keep:
  assumes "dec_members strict fs r ms = Some r'" "\<forall>k\<in>set (map fst ms). \<exists>d. map_of fs k = Some d \<and> keeps get d"
  shows "get r' = get r"
  using assms
proof (induction ms arbitrary: r)
  case Nil
  then show ?case by simp
next
  case (Cons kv ms)
  obtain k j where kv: "kv = (k, j)" by (cases kv)
  from Cons.prems(2) obtain d where d: "map_of fs k = Some d" "keeps get d" by (auto simp: kv)
  then obtain r1 where r1: "d r j = Some r1" "dec_members strict fs r1 ms = Some r'"
    using Cons.prems(1) by (auto simp: kv find_field_exact split: option.splits)
  with d have "get r1 = get r" by (auto simp: keeps_def)
  with Cons.IH [OF r1(2)] Cons.prems(2) show ?case by simp
qed

lemma dec_members_field:
  assumes "dec_members strict fs r ms = Some r'" "distinct (map fst ms)" "(k, j) \<in> set ms"
    and "map_of fs k = Some d" "writes get dec d"
    and "\<forall>k'\<in>set (map fst ms) - {k}. \<exists>d. map_of fs k' = Some d \<and> keeps get d"
  shows "dec (get r) j = Some (get r')"
  using assms(1-3,6)
proof (induction ms arbitrary: r)
  case Nil
  then show ?case by simp
next
  case (Cons kv ms)
  obtain k1 j1 where kv: "kv = (k1, j1)" by (cases kv)
  show ?case
  proof (cases "k1 = k")
    case True
    with Cons.prems have "j1 = j" by (force simp: kv)
    then obtain r1 where r1: "d r j = Some r1" "dec_members strict fs r1 ms = Some r'"
      using Cons.prems(1) True assms(4) by (auto simp: kv find_field_exact split: option.splits)
    have "\<forall>k'\<in>set (map fst ms). \<exists>d. map_of fs k' = Some d \<and> keeps get d"
      using Cons.prems(2,4) True by (auto simp: kv)
    with r1 have "get r' = get r1" by (blast intro: dec_members_keep)
    with r1 assms(5) show ?thesis by (auto simp: writes_def)
  next
    case False
    with Cons.prems(4) obtain d1 where d1: "map_of fs k1 = Some d1" "keeps get d1" by (auto simp: kv)
    then obtain r1 where r1: "d1 r j1 = Some r1" "dec_members strict fs r1 ms = Some r'"
      using Cons.prems(1) by (auto simp: kv find_field_exact split: option.splits)
    have "dec (get r1) j = Some (get r')"
      by (rule Cons.IH [OF r1(2)]) (use Cons.prems False in \<open>auto simp: kv\<close>)
    with d1 r1 show ?thesis by (auto simp: keeps_def)
  qed
qed

lemma writes_fld [simp]: "(\<And>r x. get (upd (\<lambda>_. x) r) = x) \<Longrightarrow> writes get dec (snd (fld n get upd dec))"
  by (auto simp: writes_def fld_def)

lemma keeps_fld [simp]: "(\<And>r x. get (upd (\<lambda>_. x) r) = get r) \<Longrightarrow> keeps get (snd (fld n g upd dec))"
  by (auto simp: keeps_def fld_def)

lemma fst_fld [simp]: "fst (fld n g upd dec) = n"
  by (simp add: fld_def)

text \<open>\<open>carries fs f get dec\<close>: in the struct \<open>fs\<close> the field \<open>f\<close> alone decides what \<open>get\<close> reads.\<close>

definition carries :: "'r field_spec list \<Rightarrow> string \<Rightarrow> ('r \<Rightarrow> 'a) \<Rightarrow> 'a decoder \<Rightarrow> bool" where
  "carries fs k get dec \<longleftrightarrow> k \<in> fst ` set fs
     \<and> (\<forall>f\<in>set fs. if fst f = k then writes get dec (snd f) else keeps get (snd f))"

lemma decodeExactOne_field:
  assumes "decodeExactOne (dec_struct True fs) zero raw = Inr doc" "parse_json raw = Some (JObj ms)"
    and "distinct (map fst ms)" "set (map fst ms) \<subseteq> fst ` set fs" "(k, j) \<in> set ms" "carries fs k get dec"
  shows "dec (get zero) j = Some (get doc)"
proof -
  have m: "dec_members True fs zero ms = Some doc"
    using decodeExactOne_InrD [OF assms(1)] assms(2) by (auto simp: dec_struct_def)
  have known: "\<exists>d. map_of fs k' = Some d" if "k' \<in> fst ` set fs" for k'
    using that by (metis map_of_eq_None_iff not_None_eq)
  obtain d where d: "map_of fs k = Some d" using assms(6) known by (auto simp: carries_def)
  then have "writes get dec d" using assms(6) by (force simp: carries_def dest: map_of_SomeD)
  moreover have "\<forall>k'\<in>set (map fst ms) - {k}. \<exists>d. map_of fs k' = Some d \<and> keeps get d"
  proof
    fix k' assume k': "k' \<in> set (map fst ms) - {k}"
    with assms(4) known obtain d' where d': "map_of fs k' = Some d'" by blast
    with k' assms(6) have "keeps get d'" by (auto simp: carries_def dest!: map_of_SomeD)
    with d' show "\<exists>d. map_of fs k' = Some d \<and> keeps get d" by blast
  qed
  ultimately show ?thesis
    by (rule dec_members_field [OF m assms(3,5) d])
qed

lemma dec_list_strings:
  assumes "dec_list dec_string [] [] j = Some xs" "j \<noteq> JNull" "\<forall>w\<in>set vs. w \<noteq> JNull" "j = JArr vs"
  shows "vs = map JStr xs"
proof -
  have "dec_elems dec_string [] [] vs = Some xs \<Longrightarrow> \<forall>w\<in>set vs. w \<noteq> JNull \<Longrightarrow> vs = map JStr xs" for vs xs
    by (induction vs arbitrary: xs) (auto simp: dec_string_def split: option.splits json.splits)
  then show ?thesis using assms by (auto simp: dec_list_def)
qed

end
