(* ===== verification/PayloadDocs.thy ===== *)
theory PayloadDocs
  imports Json
begin

section \<open>The payload documents and their checks (\<open>pkg/backend/payload.go\<close>, lines 573 to 1161)\<close>

text \<open>
  One record per typed payload, with the sources' fields, its strict decoder (the field names of the
  struct tags) and its check function. A pointer field is an option. \<open>checks\<close> is a sequence of early
  returns. Whether a text is an absolute HTTPS URI is decided on what \<open>net/url.Parse\<close> makes of it, the
  argument \<open>url_parse\<close>: scheme and host, or \<open>None\<close> for its error.
\<close>

type_synonym url_parser = "string \<Rightarrow> (string \<times> string) option"

definition checks :: "msg option list \<Rightarrow> msg option" where
  "checks cs = firstErr (\<lambda>c. c) cs"

lemma checks_None [simp, err_simps]: "checks cs = None \<longleftrightarrow> (\<forall>c\<in>set cs. c = None)"
  by (simp add: checks_def)

definition decodePayload :: "'r field_spec list \<Rightarrow> 'r \<Rightarrow> bytes \<Rightarrow> msg + 'r" where
  "decodePayload fs zero raw =
     (case decodeExactOne (dec_struct True fs) zero raw of
        Inl e \<Rightarrow> Inl (Sprintf ''typed payload decode failed: %w'' [AMsg e])
      | Inr x \<Rightarrow> Inr x)"

definition validateWith :: "'r field_spec list \<Rightarrow> 'r \<Rightarrow> ('r \<Rightarrow> msg option) \<Rightarrow> bytes \<Rightarrow> msg option" where
  "validateWith fs zero check raw = (case decodePayload fs zero raw of Inl e \<Rightarrow> Some e | Inr doc \<Rightarrow> check doc)"

lemma validateWith_None:
  "validateWith fs zero check raw = None \<longleftrightarrow> (\<exists>doc. decodePayload fs zero raw = Inr doc \<and> check doc = None)"
  by (auto simp: validateWith_def split: sum.splits)

subsection \<open>Value checks\<close>

definition containsControl :: "string \<Rightarrow> bool" where
  "containsControl value = list_ex is_control value"

definition oneOf :: "string \<Rightarrow> string list \<Rightarrow> bool" where
  "oneOf value allowed \<longleftrightarrow> value \<in> set allowed"

definition nonEmpty :: "string \<Rightarrow> string \<Rightarrow> msg option" where
  "nonEmpty value field = failIf (value = []) (Sprintf ''field %q must be non-empty'' [AStr field])"

definition utcTimestamp :: "string \<Rightarrow> string \<Rightarrow> msg option" where
  "utcTimestamp value field =
     (if \<not> has_suffix ''Z'' value then Some (Sprintf ''field %q is not a UTC timestamp'' [AStr field])
      else if \<not> time_Parse_RFC3339Nano value then Some (Sprintf ''field %q is not RFC3339: %v'' [AStr field, AErr ''time''])
      else None)"

definition absolutePath :: "string \<Rightarrow> string \<Rightarrow> msg option" where
  "absolutePath value field =
     failIf (length value < 2 \<or> \<not> has_prefix ''/'' value \<or> CHR 0x00 \<in> set value)
       (Sprintf ''field %q is not an absolute non-NUL path'' [AStr field])"

definition ipv4 :: "string \<Rightarrow> string \<Rightarrow> msg option" where
  "ipv4 value field = failIf (parse_ipv4 value = None) (Sprintf ''field %q is not IPv4'' [AStr field])"

definition httpsURI :: "url_parser \<Rightarrow> string \<Rightarrow> string \<Rightarrow> msg option" where
  "httpsURI url_parse value field =
     failIf (case url_parse value of None \<Rightarrow> True | Some (scheme, host) \<Rightarrow> scheme \<noteq> ''https'' \<or> host = [])
       (Sprintf ''field %q is not an absolute HTTPS URI'' [AStr field])"

fun uniqueNonEmpty_from :: "string list \<Rightarrow> string list \<Rightarrow> string \<Rightarrow> msg option" where
  "uniqueNonEmpty_from seen [] field = None"
| "uniqueNonEmpty_from seen (value # values) field =
     (if value = [] then Some (Sprintf ''field %q contains an empty string'' [AStr field])
      else if value \<in> set seen then Some (Sprintf ''field %q contains duplicate %q'' [AStr field, AStr value])
      else uniqueNonEmpty_from (value # seen) values field)"

definition uniqueNonEmpty :: "string list \<Rightarrow> string \<Rightarrow> msg option" where
  "uniqueNonEmpty values field = uniqueNonEmpty_from [] values field"

lemma uniqueNonEmpty_from_None:
  "uniqueNonEmpty_from seen vs f = None \<longleftrightarrow> [] \<notin> set vs \<and> distinct vs \<and> set vs \<inter> set seen = {}"
  by (induction vs arbitrary: seen) auto

lemma uniqueNonEmpty_None [simp, err_simps]: "uniqueNonEmpty vs f = None \<longleftrightarrow> [] \<notin> set vs \<and> distinct vs"
  by (simp add: uniqueNonEmpty_def uniqueNonEmpty_from_None)

lemma nonEmpty_None [simp, err_simps]: "nonEmpty v f = None \<longleftrightarrow> v \<noteq> []"
  by (simp add: nonEmpty_def)

lemma utcTimestamp_None [simp, err_simps]:
  "utcTimestamp v f = None \<longleftrightarrow> has_suffix ''Z'' v \<and> time_Parse_RFC3339Nano v"
  by (simp add: utcTimestamp_def)

lemma absolutePath_None [simp, err_simps]:
  "absolutePath v f = None \<longleftrightarrow> 2 \<le> length v \<and> has_prefix ''/'' v \<and> CHR 0x00 \<notin> set v"
  by (auto simp: absolutePath_def)

lemma ipv4_None [simp, err_simps]: "ipv4 v f = None \<longleftrightarrow> (\<exists>q. parse_ipv4 v = Some q)"
  by (auto simp: ipv4_def)

subsection \<open>\<open>status\<close>\<close>

record plane =
  pl_Name :: string
  pl_Live :: bool
  pl_Ready :: bool
  pl_ReasonCode :: string
  pl_Status :: "string option"
  pl_ObservedAt :: "string option"

record networkProfile =
  np_Name :: string
  np_Configured :: bool

record localRegistration =
  lr_Registered :: bool
  lr_InstallationID :: string
  lr_InstanceID :: string

record publicTLS =
  ptls_Configured :: "bool option"

record statusPayload =
  sp_SchemaVersion :: string
  sp_Command :: string
  sp_OverallStatus :: string
  sp_ReasonCode :: "string option"
  sp_ProductRelease :: string
  sp_Initialized :: bool
  sp_Planes :: "plane list"
  sp_NetworkProfile :: networkProfile
  sp_ActiveOperations :: "string list"
  sp_LocalGatewayRegistration :: localRegistration
  sp_PublicAddressTLS :: "publicTLS option"
  sp_ObservedAt :: string

definition plane0 :: plane where
  "plane0 = \<lparr>pl_Name = [], pl_Live = False, pl_Ready = False, pl_ReasonCode = [], pl_Status = None, pl_ObservedAt = None\<rparr>"

definition publicTLS0 :: publicTLS where "publicTLS0 = \<lparr>ptls_Configured = None\<rparr>"

definition statusPayload0 :: statusPayload where
  "statusPayload0 = \<lparr>sp_SchemaVersion = [], sp_Command = [], sp_OverallStatus = [], sp_ReasonCode = None,
     sp_ProductRelease = [], sp_Initialized = False, sp_Planes = [],
     sp_NetworkProfile = \<lparr>np_Name = [], np_Configured = False\<rparr>, sp_ActiveOperations = [],
     sp_LocalGatewayRegistration = \<lparr>lr_Registered = False, lr_InstallationID = [], lr_InstanceID = []\<rparr>,
     sp_PublicAddressTLS = None, sp_ObservedAt = []\<rparr>"

definition plane_fields :: "plane field_spec list" where
  "plane_fields =
    [fld ''name'' pl_Name pl_Name_update dec_string,
     fld ''live'' pl_Live pl_Live_update dec_bool,
     fld ''ready'' pl_Ready pl_Ready_update dec_bool,
     fld ''reasonCode'' pl_ReasonCode pl_ReasonCode_update dec_string,
     fld ''status'' pl_Status pl_Status_update (dec_ptr dec_string []),
     fld ''observedAt'' pl_ObservedAt pl_ObservedAt_update (dec_ptr dec_string [])]"

definition networkProfile_fields :: "networkProfile field_spec list" where
  "networkProfile_fields =
    [fld ''name'' np_Name np_Name_update dec_string,
     fld ''configured'' np_Configured np_Configured_update dec_bool]"

definition localRegistration_fields :: "localRegistration field_spec list" where
  "localRegistration_fields =
    [fld ''registered'' lr_Registered lr_Registered_update dec_bool,
     fld ''installationId'' lr_InstallationID lr_InstallationID_update dec_string,
     fld ''instanceId'' lr_InstanceID lr_InstanceID_update dec_string]"

definition publicTLS_fields :: "publicTLS field_spec list" where
  "publicTLS_fields = [fld ''configured'' ptls_Configured ptls_Configured_update (dec_ptr dec_bool False)]"

definition status_fields :: "statusPayload field_spec list" where
  "status_fields =
    [fld ''schemaVersion'' sp_SchemaVersion sp_SchemaVersion_update dec_string,
     fld ''command'' sp_Command sp_Command_update dec_string,
     fld ''overallStatus'' sp_OverallStatus sp_OverallStatus_update dec_string,
     fld ''reasonCode'' sp_ReasonCode sp_ReasonCode_update (dec_ptr dec_string []),
     fld ''productRelease'' sp_ProductRelease sp_ProductRelease_update dec_string,
     fld ''initialized'' sp_Initialized sp_Initialized_update dec_bool,
     fld ''planes'' sp_Planes sp_Planes_update (dec_list (dec_struct True plane_fields) plane0),
     fld ''networkProfile'' sp_NetworkProfile sp_NetworkProfile_update (dec_struct True networkProfile_fields),
     fld ''activeOperations'' sp_ActiveOperations sp_ActiveOperations_update (dec_list dec_string []),
     fld ''localGatewayRegistration'' sp_LocalGatewayRegistration sp_LocalGatewayRegistration_update
       (dec_struct True localRegistration_fields),
     fld ''publicAddressTls'' sp_PublicAddressTLS sp_PublicAddressTLS_update
       (dec_ptr (dec_struct True publicTLS_fields) publicTLS0),
     fld ''observedAt'' sp_ObservedAt sp_ObservedAt_update dec_string]"

definition check_plane :: "plane \<Rightarrow> msg option" where
  "check_plane plane = checks
    [nonEmpty (pl_Name plane) ''planes.name'',
     failIf (\<not> upperCodeShape (pl_ReasonCode plane)) (Text ''planes.reasonCode is malformed''),
     (case pl_Status plane of
        None \<Rightarrow> None
      | Some st \<Rightarrow> checks
          [failIf (\<not> oneOf (pl_Name plane) [''state'', ''dataplane'', ''management''])
             (Text ''planes.name is invalid for a status-bearing plane''),
           failIf (\<not> oneOf st [''READY'', ''DEGRADED'', ''NOT_READY'', ''UNKNOWN''])
             (Text ''planes.status is outside the approved enum'')]),
     (case pl_ObservedAt plane of
        None \<Rightarrow> None
      | Some at \<Rightarrow> checks
          [failIf (\<not> oneOf (pl_Name plane) [''state'', ''dataplane'', ''management''])
             (Text ''planes.name is invalid for an observed plane''),
           utcTimestamp at ''planes.observedAt''])]"

definition check_status :: "statusPayload \<Rightarrow> msg option" where
  "check_status doc = checks
    [failIf (\<not> oneOf (sp_OverallStatus doc) [''READY'', ''DEGRADED'', ''NOT_READY'', ''UNKNOWN''])
       (Text ''overallStatus is outside the approved enum''),
     (case sp_ReasonCode doc of
        None \<Rightarrow> None
      | Some rc \<Rightarrow> failIf (\<not> upperCodeShape rc) (Text ''reasonCode is malformed'')),
     nonEmpty (sp_ProductRelease doc) ''productRelease'',
     failIf (sp_Planes doc = []) (Text ''planes must contain at least one item''),
     firstErr check_plane (sp_Planes doc),
     (case sp_PublicAddressTLS doc of
        None \<Rightarrow> None
      | Some t \<Rightarrow> failIf (ptls_Configured t = None) (Text ''publicAddressTls.configured is missing'')),
     nonEmpty (np_Name (sp_NetworkProfile doc)) ''networkProfile.name'',
     uniqueNonEmpty (sp_ActiveOperations doc) ''activeOperations'',
     utcTimestamp (sp_ObservedAt doc) ''observedAt'']"

definition validateStatusPayload :: "bytes \<Rightarrow> msg option" where
  "validateStatusPayload = validateWith status_fields statusPayload0 check_status"

subsection \<open>\<open>network validate\<close>\<close>

record interface =
  if_Role :: string
  if_Name :: string
  if_Exists :: bool
  if_Address :: string
  if_MTU :: int

record networkFinding =
  nf_Code :: string
  nf_Remediation :: string

record networkPayload =
  nw_SchemaVersion :: string
  nw_Command :: string
  nw_Valid :: bool
  nw_Profile :: string
  nw_Interfaces :: "interface list"
  nw_Errors :: "networkFinding list"
  nw_Warnings :: "networkFinding list"
  nw_ObservedAt :: string

definition interface0 :: interface where
  "interface0 = \<lparr>if_Role = [], if_Name = [], if_Exists = False, if_Address = [], if_MTU = 0\<rparr>"

definition networkFinding0 :: networkFinding where
  "networkFinding0 = \<lparr>nf_Code = [], nf_Remediation = []\<rparr>"

definition networkPayload0 :: networkPayload where
  "networkPayload0 = \<lparr>nw_SchemaVersion = [], nw_Command = [], nw_Valid = False, nw_Profile = [],
     nw_Interfaces = [], nw_Errors = [], nw_Warnings = [], nw_ObservedAt = []\<rparr>"

definition interface_fields :: "interface field_spec list" where
  "interface_fields =
    [fld ''role'' if_Role if_Role_update dec_string,
     fld ''name'' if_Name if_Name_update dec_string,
     fld ''exists'' if_Exists if_Exists_update dec_bool,
     fld ''address'' if_Address if_Address_update dec_string,
     fld ''mtu'' if_MTU if_MTU_update dec_int]"

definition networkFinding_fields :: "networkFinding field_spec list" where
  "networkFinding_fields =
    [fld ''code'' nf_Code nf_Code_update dec_string,
     fld ''remediation'' nf_Remediation nf_Remediation_update dec_string]"

definition network_fields :: "networkPayload field_spec list" where
  "network_fields =
    [fld ''schemaVersion'' nw_SchemaVersion nw_SchemaVersion_update dec_string,
     fld ''command'' nw_Command nw_Command_update dec_string,
     fld ''valid'' nw_Valid nw_Valid_update dec_bool,
     fld ''profile'' nw_Profile nw_Profile_update dec_string,
     fld ''interfaces'' nw_Interfaces nw_Interfaces_update (dec_list (dec_struct True interface_fields) interface0),
     fld ''errors'' nw_Errors nw_Errors_update (dec_list (dec_struct True networkFinding_fields) networkFinding0),
     fld ''warnings'' nw_Warnings nw_Warnings_update (dec_list (dec_struct True networkFinding_fields) networkFinding0),
     fld ''observedAt'' nw_ObservedAt nw_ObservedAt_update dec_string]"

definition check_network :: "networkPayload \<Rightarrow> msg option" where
  "check_network doc = checks
    [nonEmpty (nw_Profile doc) ''profile'',
     firstErr (\<lambda>iface. failIf
        (\<not> oneOf (if_Role iface) [''frontend'', ''backend'', ''management''] \<or> if_Name iface = []
         \<or> if_MTU iface < 576 \<or> if_MTU iface > 9216)
        (Text ''interfaces contains invalid role, name, or mtu'')) (nw_Interfaces doc),
     firstErr (\<lambda>finding. failIf
        (\<not> upperCodeShape (nf_Code finding) \<or> nf_Remediation finding = [])
        (Text ''network finding is malformed'')) (nw_Errors doc @ nw_Warnings doc),
     utcTimestamp (nw_ObservedAt doc) ''observedAt'']"

definition validateNetworkPayload :: "bytes \<Rightarrow> msg option" where
  "validateNetworkPayload = validateWith network_fields networkPayload0 check_network"

subsection \<open>\<open>public-address configure\<close>\<close>

record certificate =
  ct_FingerprintSHA256 :: string
  ct_SANs :: "string list"

record publicAddressPayload =
  pa_SchemaVersion :: string
  pa_Command :: string
  pa_Result :: string
  pa_OperationID :: string
  pa_PublicAddress :: string
  pa_PrivateAddressPreserved :: bool
  pa_Certificate :: certificate
  pa_Restart :: string
  pa_Readiness :: string

definition certificate0 :: certificate where
  "certificate0 = \<lparr>ct_FingerprintSHA256 = [], ct_SANs = []\<rparr>"

definition publicAddressPayload0 :: publicAddressPayload where
  "publicAddressPayload0 = \<lparr>pa_SchemaVersion = [], pa_Command = [], pa_Result = [], pa_OperationID = [],
     pa_PublicAddress = [], pa_PrivateAddressPreserved = False, pa_Certificate = certificate0,
     pa_Restart = [], pa_Readiness = []\<rparr>"

definition certificate_fields :: "certificate field_spec list" where
  "certificate_fields =
    [fld ''fingerprintSha256'' ct_FingerprintSHA256 ct_FingerprintSHA256_update dec_string,
     fld ''sans'' ct_SANs ct_SANs_update (dec_list dec_string [])]"

definition publicAddress_fields :: "publicAddressPayload field_spec list" where
  "publicAddress_fields =
    [fld ''schemaVersion'' pa_SchemaVersion pa_SchemaVersion_update dec_string,
     fld ''command'' pa_Command pa_Command_update dec_string,
     fld ''result'' pa_Result pa_Result_update dec_string,
     fld ''operationId'' pa_OperationID pa_OperationID_update dec_string,
     fld ''publicAddress'' pa_PublicAddress pa_PublicAddress_update dec_string,
     fld ''privateAddressPreserved'' pa_PrivateAddressPreserved pa_PrivateAddressPreserved_update dec_bool,
     fld ''certificate'' pa_Certificate pa_Certificate_update (dec_struct True certificate_fields),
     fld ''restart'' pa_Restart pa_Restart_update dec_string,
     fld ''readiness'' pa_Readiness pa_Readiness_update dec_string]"

definition check_publicAddress :: "publicAddressPayload \<Rightarrow> msg option" where
  "check_publicAddress doc = checks
    [failIf (\<not> oneOf (pa_Result doc) [''APPLIED'', ''UNCHANGED'', ''PENDING_RESTART''] \<or> pa_OperationID doc = []
             \<or> \<not> pa_PrivateAddressPreserved doc)
       (Text ''public-address result, operationId, or preservation flag is invalid''),
     ipv4 (pa_PublicAddress doc) ''publicAddress'',
     failIf (\<not> digestShape (ct_FingerprintSHA256 (pa_Certificate doc)) \<or> ct_SANs (pa_Certificate doc) = [])
       (Text ''certificate fingerprint or SAN set is invalid''),
     uniqueNonEmpty (ct_SANs (pa_Certificate doc)) ''certificate.sans'',
     failIf (\<not> oneOf (pa_Restart doc) [''RECONCILED'', ''PENDING'']
             \<or> \<not> oneOf (pa_Readiness doc) [''READY'', ''NOT_READY'', ''PENDING_RESTART''])
       (Text ''restart or readiness is outside the approved enum''),
     failIf (pa_Result doc = ''PENDING_RESTART''
             \<and> (pa_Restart doc \<noteq> ''PENDING'' \<or> pa_Readiness doc \<noteq> ''PENDING_RESTART''))
       (Text ''PENDING_RESTART requires pending restart and readiness'')]"

definition validatePublicAddressPayload :: "bytes \<Rightarrow> msg option" where
  "validatePublicAddressPayload = validateWith publicAddress_fields publicAddressPayload0 check_publicAddress"

subsection \<open>\<open>gateway register-local\<close>\<close>

record gatewayIdentity =
  gi_Name :: string
  gi_Address :: string

record gatewayRegistrationPayload =
  gr_SchemaVersion :: string
  gr_Command :: string
  gr_Result :: string
  gr_OperationID :: string
  gr_InstallationID :: string
  gr_InstanceID :: string
  gr_Endpoint :: string
  gr_GatewayIdentity :: gatewayIdentity
  gr_Verified :: bool
  gr_MarkerUpdated :: bool

definition gatewayRegistrationPayload0 :: gatewayRegistrationPayload where
  "gatewayRegistrationPayload0 = \<lparr>gr_SchemaVersion = [], gr_Command = [], gr_Result = [], gr_OperationID = [],
     gr_InstallationID = [], gr_InstanceID = [], gr_Endpoint = [],
     gr_GatewayIdentity = \<lparr>gi_Name = [], gi_Address = []\<rparr>, gr_Verified = False, gr_MarkerUpdated = False\<rparr>"

definition gatewayIdentity_fields :: "gatewayIdentity field_spec list" where
  "gatewayIdentity_fields =
    [fld ''name'' gi_Name gi_Name_update dec_string,
     fld ''address'' gi_Address gi_Address_update dec_string]"

definition gatewayRegistration_fields :: "gatewayRegistrationPayload field_spec list" where
  "gatewayRegistration_fields =
    [fld ''schemaVersion'' gr_SchemaVersion gr_SchemaVersion_update dec_string,
     fld ''command'' gr_Command gr_Command_update dec_string,
     fld ''result'' gr_Result gr_Result_update dec_string,
     fld ''operationId'' gr_OperationID gr_OperationID_update dec_string,
     fld ''installationId'' gr_InstallationID gr_InstallationID_update dec_string,
     fld ''instanceId'' gr_InstanceID gr_InstanceID_update dec_string,
     fld ''endpoint'' gr_Endpoint gr_Endpoint_update dec_string,
     fld ''gatewayIdentity'' gr_GatewayIdentity gr_GatewayIdentity_update (dec_struct True gatewayIdentity_fields),
     fld ''verified'' gr_Verified gr_Verified_update dec_bool,
     fld ''markerUpdated'' gr_MarkerUpdated gr_MarkerUpdated_update dec_bool]"

definition check_gatewayRegistration :: "url_parser \<Rightarrow> gatewayRegistrationPayload \<Rightarrow> msg option" where
  "check_gatewayRegistration url_parse doc = checks
    [failIf (\<not> oneOf (gr_Result doc) [''CREATED'', ''UPDATED'', ''UNCHANGED''] \<or> gr_OperationID doc = []
             \<or> gr_InstallationID doc = [] \<or> gr_InstanceID doc = [] \<or> \<not> gr_Verified doc)
       (Text ''gateway registration identity or result is invalid''),
     httpsURI url_parse (gr_Endpoint doc) ''endpoint'',
     failIf (gi_Name (gr_GatewayIdentity doc) = []) (Text ''gatewayIdentity.name must be non-empty''),
     ipv4 (gi_Address (gr_GatewayIdentity doc)) ''gatewayIdentity.address'']"

definition validateGatewayRegistrationPayload :: "url_parser \<Rightarrow> bytes \<Rightarrow> msg option" where
  "validateGatewayRegistrationPayload url_parse =
     validateWith gatewayRegistration_fields gatewayRegistrationPayload0 (check_gatewayRegistration url_parse)"

subsection \<open>\<open>diagnostics create\<close>\<close>

record secretScan =
  ss_Result :: string
  ss_Hits :: int

record diagnosticsPayload =
  dg_SchemaVersion :: string
  dg_Command :: string
  dg_Result :: string
  dg_OperationID :: string
  dg_ArchivePath :: string
  dg_SHA256 :: string
  dg_SizeBytes :: int
  dg_Mode :: string
  dg_RedactionProfile :: string
  dg_IncludedFiles :: "string list"
  dg_SecretScan :: secretScan
  dg_ExpiresAt :: string

definition diagnosticsPayload0 :: diagnosticsPayload where
  "diagnosticsPayload0 = \<lparr>dg_SchemaVersion = [], dg_Command = [], dg_Result = [], dg_OperationID = [],
     dg_ArchivePath = [], dg_SHA256 = [], dg_SizeBytes = 0, dg_Mode = [], dg_RedactionProfile = [],
     dg_IncludedFiles = [], dg_SecretScan = \<lparr>ss_Result = [], ss_Hits = 0\<rparr>, dg_ExpiresAt = []\<rparr>"

definition secretScan_fields :: "secretScan field_spec list" where
  "secretScan_fields =
    [fld ''result'' ss_Result ss_Result_update dec_string,
     fld ''hits'' ss_Hits ss_Hits_update dec_int]"

definition diagnostics_fields :: "diagnosticsPayload field_spec list" where
  "diagnostics_fields =
    [fld ''schemaVersion'' dg_SchemaVersion dg_SchemaVersion_update dec_string,
     fld ''command'' dg_Command dg_Command_update dec_string,
     fld ''result'' dg_Result dg_Result_update dec_string,
     fld ''operationId'' dg_OperationID dg_OperationID_update dec_string,
     fld ''archivePath'' dg_ArchivePath dg_ArchivePath_update dec_string,
     fld ''sha256'' dg_SHA256 dg_SHA256_update dec_string,
     fld ''sizeBytes'' dg_SizeBytes dg_SizeBytes_update dec_int,
     fld ''mode'' dg_Mode dg_Mode_update dec_string,
     fld ''redactionProfile'' dg_RedactionProfile dg_RedactionProfile_update dec_string,
     fld ''includedFiles'' dg_IncludedFiles dg_IncludedFiles_update (dec_list dec_string []),
     fld ''secretScan'' dg_SecretScan dg_SecretScan_update (dec_struct True secretScan_fields),
     fld ''expiresAt'' dg_ExpiresAt dg_ExpiresAt_update dec_string]"

definition check_diagnostics :: "diagnosticsPayload \<Rightarrow> msg option" where
  "check_diagnostics doc = checks
    [failIf (dg_Result doc \<noteq> ''CREATED'' \<or> dg_OperationID doc = [] \<or> \<not> digestShape (dg_SHA256 doc)
             \<or> dg_SizeBytes doc < 1 \<or> dg_Mode doc \<noteq> ''0600'' \<or> dg_RedactionProfile doc = [])
       (Text ''diagnostics result metadata is invalid''),
     absolutePath (dg_ArchivePath doc) ''archivePath'',
     uniqueNonEmpty (dg_IncludedFiles doc) ''includedFiles'',
     firstErr (\<lambda>file. absolutePath file ''includedFiles'') (dg_IncludedFiles doc),
     failIf (ss_Result (dg_SecretScan doc) \<noteq> ''PASS'' \<or> ss_Hits (dg_SecretScan doc) \<noteq> 0)
       (Text ''secretScan must report PASS with zero hits''),
     utcTimestamp (dg_ExpiresAt doc) ''expiresAt'']"

definition validateDiagnosticsPayload :: "bytes \<Rightarrow> msg option" where
  "validateDiagnosticsPayload = validateWith diagnostics_fields diagnosticsPayload0 check_diagnostics"

subsection \<open>\<open>logs\<close>\<close>

record logWindow =
  lw_Since :: string
  lw_Lines :: int

record logEntry =
  lg_Timestamp :: string
  lg_Severity :: string
  lg_CorrelationOrOperationID :: string
  lg_Message :: string

record logsPayload =
  lo_SchemaVersion :: string
  lo_Command :: string
  lo_Component :: string
  lo_Redacted :: bool
  lo_Window :: logWindow
  lo_Entries :: "logEntry list"
  lo_Truncated :: bool
  lo_ObservedAt :: string

definition logEntry0 :: logEntry where
  "logEntry0 = \<lparr>lg_Timestamp = [], lg_Severity = [], lg_CorrelationOrOperationID = [], lg_Message = []\<rparr>"

definition logsPayload0 :: logsPayload where
  "logsPayload0 = \<lparr>lo_SchemaVersion = [], lo_Command = [], lo_Component = [], lo_Redacted = False,
     lo_Window = \<lparr>lw_Since = [], lw_Lines = 0\<rparr>, lo_Entries = [], lo_Truncated = False, lo_ObservedAt = []\<rparr>"

definition logWindow_fields :: "logWindow field_spec list" where
  "logWindow_fields =
    [fld ''since'' lw_Since lw_Since_update dec_string,
     fld ''lines'' lw_Lines lw_Lines_update dec_int]"

definition logEntry_fields :: "logEntry field_spec list" where
  "logEntry_fields =
    [fld ''timestamp'' lg_Timestamp lg_Timestamp_update dec_string,
     fld ''severity'' lg_Severity lg_Severity_update dec_string,
     fld ''correlationOrOperationId'' lg_CorrelationOrOperationID lg_CorrelationOrOperationID_update dec_string,
     fld ''message'' lg_Message lg_Message_update dec_string]"

definition logs_fields :: "logsPayload field_spec list" where
  "logs_fields =
    [fld ''schemaVersion'' lo_SchemaVersion lo_SchemaVersion_update dec_string,
     fld ''command'' lo_Command lo_Command_update dec_string,
     fld ''component'' lo_Component lo_Component_update dec_string,
     fld ''redacted'' lo_Redacted lo_Redacted_update dec_bool,
     fld ''window'' lo_Window lo_Window_update (dec_struct True logWindow_fields),
     fld ''entries'' lo_Entries lo_Entries_update (dec_list (dec_struct True logEntry_fields) logEntry0),
     fld ''truncated'' lo_Truncated lo_Truncated_update dec_bool,
     fld ''observedAt'' lo_ObservedAt lo_ObservedAt_update dec_string]"

definition check_logs :: "logsPayload \<Rightarrow> msg option" where
  "check_logs doc = checks
    [failIf (\<not> oneOf (lo_Component doc) [''gateway'', ''oam'', ''ui'', ''caddy'', ''postgres'', ''state'', ''dataplane'', ''management'']
             \<or> \<not> lo_Redacted doc)
       (Text ''logs component or redacted flag is invalid''),
     failIf (\<not> durationShape (lw_Since (lo_Window doc)) \<or> lw_Lines (lo_Window doc) < 1 \<or> lw_Lines (lo_Window doc) > 10000)
       (Text ''logs window is invalid''),
     firstErr (\<lambda>entry. checks
        [utcTimestamp (lg_Timestamp entry) ''entries.timestamp'',
         failIf (\<not> oneOf (lg_Severity entry) [''DEBUG'', ''INFO'', ''WARN'', ''ERROR''])
           (Text ''entries.severity is outside the approved enum'')]) (lo_Entries doc),
     utcTimestamp (lo_ObservedAt doc) ''observedAt'']"

definition validateLogsPayload :: "bytes \<Rightarrow> msg option" where
  "validateLogsPayload = validateWith logs_fields logsPayload0 check_logs"

subsection \<open>\<open>backup key-create\<close>, \<open>backup create\<close>, \<open>backup verify\<close>\<close>

record backupKeyPayload =
  bk_SchemaVersion :: string
  bk_Command :: string
  bk_Result :: string
  bk_OperationID :: string
  bk_KeyPath :: string
  bk_KeyID :: string
  bk_Fingerprint :: string
  bk_Mode :: string

definition backupKeyPayload0 :: backupKeyPayload where
  "backupKeyPayload0 = \<lparr>bk_SchemaVersion = [], bk_Command = [], bk_Result = [], bk_OperationID = [],
     bk_KeyPath = [], bk_KeyID = [], bk_Fingerprint = [], bk_Mode = []\<rparr>"

definition backupKey_fields :: "backupKeyPayload field_spec list" where
  "backupKey_fields =
    [fld ''schemaVersion'' bk_SchemaVersion bk_SchemaVersion_update dec_string,
     fld ''command'' bk_Command bk_Command_update dec_string,
     fld ''result'' bk_Result bk_Result_update dec_string,
     fld ''operationId'' bk_OperationID bk_OperationID_update dec_string,
     fld ''keyPath'' bk_KeyPath bk_KeyPath_update dec_string,
     fld ''keyId'' bk_KeyID bk_KeyID_update dec_string,
     fld ''fingerprint'' bk_Fingerprint bk_Fingerprint_update dec_string,
     fld ''mode'' bk_Mode bk_Mode_update dec_string]"

definition check_backupKey :: "backupKeyPayload \<Rightarrow> msg option" where
  "check_backupKey doc = checks
    [failIf (bk_Result doc \<noteq> ''CREATED'' \<or> bk_OperationID doc = [] \<or> bk_KeyID doc = []
             \<or> \<not> digestShape (bk_Fingerprint doc) \<or> bk_Mode doc \<noteq> ''0600'')
       (Text ''backup key result metadata is invalid''),
     absolutePath (bk_KeyPath doc) ''keyPath'']"

definition validateBackupKeyPayload :: "bytes \<Rightarrow> msg option" where
  "validateBackupKeyPayload = validateWith backupKey_fields backupKeyPayload0 check_backupKey"

definition validateChecksums :: "(string \<times> string) list \<Rightarrow> msg option" where
  "validateChecksums checksums =
     (if checksums = [] then Some (Text ''componentChecksums must not be empty'')
      else firstErr (\<lambda>(component, digest). failIf (\<not> mapKeyShape component \<or> \<not> digestShape digest)
             (Text ''componentChecksums contains an invalid key or digest'')) checksums)"

record backupCreatePayload =
  bc_SchemaVersion :: string
  bc_Command :: string
  bc_Result :: string
  bc_OperationID :: string
  bc_ArchivePath :: string
  bc_SHA256 :: string
  bc_SizeBytes :: int
  bc_Encrypted :: bool
  bc_ManifestSchema :: string
  bc_ComponentChecksums :: "(string \<times> string) list"
  bc_Consistency :: string

definition backupCreatePayload0 :: backupCreatePayload where
  "backupCreatePayload0 = \<lparr>bc_SchemaVersion = [], bc_Command = [], bc_Result = [], bc_OperationID = [],
     bc_ArchivePath = [], bc_SHA256 = [], bc_SizeBytes = 0, bc_Encrypted = False, bc_ManifestSchema = [],
     bc_ComponentChecksums = [], bc_Consistency = []\<rparr>"

definition backupCreate_fields :: "backupCreatePayload field_spec list" where
  "backupCreate_fields =
    [fld ''schemaVersion'' bc_SchemaVersion bc_SchemaVersion_update dec_string,
     fld ''command'' bc_Command bc_Command_update dec_string,
     fld ''result'' bc_Result bc_Result_update dec_string,
     fld ''operationId'' bc_OperationID bc_OperationID_update dec_string,
     fld ''archivePath'' bc_ArchivePath bc_ArchivePath_update dec_string,
     fld ''sha256'' bc_SHA256 bc_SHA256_update dec_string,
     fld ''sizeBytes'' bc_SizeBytes bc_SizeBytes_update dec_int,
     fld ''encrypted'' bc_Encrypted bc_Encrypted_update dec_bool,
     fld ''manifestSchema'' bc_ManifestSchema bc_ManifestSchema_update dec_string,
     fld ''componentChecksums'' bc_ComponentChecksums bc_ComponentChecksums_update (dec_map dec_string []),
     fld ''consistency'' bc_Consistency bc_Consistency_update dec_string]"

definition check_backupCreate :: "backupCreatePayload \<Rightarrow> msg option" where
  "check_backupCreate doc = checks
    [failIf (\<not> oneOf (bc_Result doc) [''CREATED'', ''PARTIAL''] \<or> bc_OperationID doc = []
             \<or> \<not> digestShape (bc_SHA256 doc) \<or> bc_SizeBytes doc < 1 \<or> \<not> bc_Encrypted doc \<or> bc_ManifestSchema doc = [])
       (Text ''backup create result metadata is invalid''),
     absolutePath (bc_ArchivePath doc) ''archivePath'',
     validateChecksums (bc_ComponentChecksums doc),
     failIf ((bc_Result doc = ''CREATED'' \<and> bc_Consistency doc \<noteq> ''APPLICATION_CONSISTENT'')
             \<or> (bc_Result doc = ''PARTIAL'' \<and> bc_Consistency doc \<noteq> ''INCOMPLETE''))
       (Text ''backup result and consistency disagree'')]"

definition validateBackupCreatePayload :: "bytes \<Rightarrow> msg option" where
  "validateBackupCreatePayload = validateWith backupCreate_fields backupCreatePayload0 check_backupCreate"

record backupVerifyPayload =
  bv_SchemaVersion :: string
  bv_Command :: string
  bv_Result :: string
  bv_ArchivePath :: string
  bv_Authenticated :: bool
  bv_ChecksumValid :: bool
  bv_KeyMatch :: bool
  bv_ManifestSchema :: string
  bv_ReleaseCompatibility :: string
  bv_ComponentChecksums :: "(string \<times> string) list"
  bv_ObservedAt :: string

definition backupVerifyPayload0 :: backupVerifyPayload where
  "backupVerifyPayload0 = \<lparr>bv_SchemaVersion = [], bv_Command = [], bv_Result = [], bv_ArchivePath = [],
     bv_Authenticated = False, bv_ChecksumValid = False, bv_KeyMatch = False, bv_ManifestSchema = [],
     bv_ReleaseCompatibility = [], bv_ComponentChecksums = [], bv_ObservedAt = []\<rparr>"

definition backupVerify_fields :: "backupVerifyPayload field_spec list" where
  "backupVerify_fields =
    [fld ''schemaVersion'' bv_SchemaVersion bv_SchemaVersion_update dec_string,
     fld ''command'' bv_Command bv_Command_update dec_string,
     fld ''result'' bv_Result bv_Result_update dec_string,
     fld ''archivePath'' bv_ArchivePath bv_ArchivePath_update dec_string,
     fld ''authenticated'' bv_Authenticated bv_Authenticated_update dec_bool,
     fld ''checksumValid'' bv_ChecksumValid bv_ChecksumValid_update dec_bool,
     fld ''keyMatch'' bv_KeyMatch bv_KeyMatch_update dec_bool,
     fld ''manifestSchema'' bv_ManifestSchema bv_ManifestSchema_update dec_string,
     fld ''releaseCompatibility'' bv_ReleaseCompatibility bv_ReleaseCompatibility_update dec_string,
     fld ''componentChecksums'' bv_ComponentChecksums bv_ComponentChecksums_update (dec_map dec_string []),
     fld ''observedAt'' bv_ObservedAt bv_ObservedAt_update dec_string]"

definition check_backupVerify :: "backupVerifyPayload \<Rightarrow> msg option" where
  "check_backupVerify doc = checks
    [failIf (bv_Result doc \<noteq> ''VERIFIED'' \<or> \<not> bv_Authenticated doc \<or> \<not> bv_ChecksumValid doc \<or> \<not> bv_KeyMatch doc
             \<or> bv_ManifestSchema doc = [] \<or> bv_ReleaseCompatibility doc \<noteq> ''COMPATIBLE'')
       (Text ''backup verification result is invalid''),
     absolutePath (bv_ArchivePath doc) ''archivePath'',
     validateChecksums (bv_ComponentChecksums doc),
     utcTimestamp (bv_ObservedAt doc) ''observedAt'']"

definition validateBackupVerifyPayload :: "bytes \<Rightarrow> msg option" where
  "validateBackupVerifyPayload = validateWith backupVerify_fields backupVerifyPayload0 check_backupVerify"

subsection \<open>Lifecycle plans, receipts and operation status\<close>

record lifecycleCheck =
  lc_Code :: string
  lc_Result :: string

definition lifecycleCheck0 :: lifecycleCheck where
  "lifecycleCheck0 = \<lparr>lc_Code = [], lc_Result = []\<rparr>"

definition lifecycleCheck_fields :: "lifecycleCheck field_spec list" where
  "lifecycleCheck_fields =
    [fld ''code'' lc_Code lc_Code_update dec_string,
     fld ''result'' lc_Result lc_Result_update dec_string]"

record lifecyclePlanPayload =
  pn_SchemaVersion :: string
  pn_Command :: string
  pn_Result :: string
  pn_PlanHash :: string
  pn_ExpiresAt :: string
  pn_Compatible :: bool
  pn_AffectedPlanes :: "string list"
  pn_Checks :: "lifecycleCheck list"
  pn_Delete :: "string list"
  pn_Preserve :: "string list"

definition lifecyclePlanPayload0 :: lifecyclePlanPayload where
  "lifecyclePlanPayload0 = \<lparr>pn_SchemaVersion = [], pn_Command = [], pn_Result = [], pn_PlanHash = [], pn_ExpiresAt = [], pn_Compatible = False, pn_AffectedPlanes = [], pn_Checks = [], pn_Delete = [], pn_Preserve = []\<rparr>"

definition lifecyclePlan_fields :: "lifecyclePlanPayload field_spec list" where
  "lifecyclePlan_fields =
    [fld ''schemaVersion'' pn_SchemaVersion pn_SchemaVersion_update dec_string,
     fld ''command'' pn_Command pn_Command_update dec_string,
     fld ''result'' pn_Result pn_Result_update dec_string,
     fld ''planHash'' pn_PlanHash pn_PlanHash_update dec_string,
     fld ''expiresAt'' pn_ExpiresAt pn_ExpiresAt_update dec_string,
     fld ''compatible'' pn_Compatible pn_Compatible_update dec_bool,
     fld ''affectedPlanes'' pn_AffectedPlanes pn_AffectedPlanes_update (dec_list dec_string []),
     fld ''checks'' pn_Checks pn_Checks_update (dec_list (dec_struct True lifecycleCheck_fields) lifecycleCheck0),
     fld ''delete'' pn_Delete pn_Delete_update (dec_list dec_string []),
     fld ''preserve'' pn_Preserve pn_Preserve_update (dec_list dec_string [])]"

definition requiredChecks :: "(string \<times> string list) list" where
  "requiredChecks =
    [(''restore plan'', [''ARCHIVE_AUTHENTICATION'', ''ARCHIVE_CHECKSUM'', ''SCHEMA_COMPATIBILITY'', ''DISK_CAPACITY'',
        ''INSTALLATION_COMPATIBILITY'', ''PRE_RESTORE_BACKUP'', ''ROLLBACK_FEASIBILITY'']),
     (''update plan'', [''BUNDLE_SIGNATURE'', ''PRODUCT_LOCK'', ''SBOM'', ''MIGRATION'', ''BACKUP_GATE'']),
     (''rollback plan'', [''APPROVED_RELEASE'', ''BACKUP_GATE'', ''DOWNGRADE_COMPATIBILITY'', ''POSTFLIGHT'']),
     (''factory-reset plan'', [''BACKUP_GATE'', ''SSH_PRESERVATION'', ''NETWORK_PRESERVATION'', ''NCP_AGENT_PRESERVATION''])]"

text \<open>A Go map that has no entry for the key yields the nil slice.\<close>

definition requiredChecks_for :: "string \<Rightarrow> string list" where
  "requiredChecks_for command = (case map_of requiredChecks command of None \<Rightarrow> [] | Some cs \<Rightarrow> cs)"

definition preservedItems :: "string list" where
  "preservedItems = [''ssh-access'', ''network-config'', ''ncp-agent'']"

definition check_factoryReset :: "lifecyclePlanPayload \<Rightarrow> msg option" where
  "check_factoryReset doc = checks
    [uniqueNonEmpty (pn_Delete doc) ''delete'',
     uniqueNonEmpty (pn_Preserve doc) ''preserve'',
     firstErr (\<lambda>item. failIf (\<not> mapKeyShape item) (Text ''factory-reset delete/preserve item is malformed''))
       (pn_Delete doc @ pn_Preserve doc),
     firstErr (\<lambda>required. failIf (required \<notin> set (pn_Preserve doc))
         (Sprintf ''factory-reset plan does not preserve %q'' [AStr required])) preservedItems]"

definition check_lifecyclePlan :: "lifecyclePlanPayload \<Rightarrow> msg option" where
  "check_lifecyclePlan doc = checks
    [failIf (pn_Result doc \<noteq> ''PLANNED'' \<or> \<not> digestShape (pn_PlanHash doc) \<or> \<not> pn_Compatible doc)
       (Text ''lifecycle plan result, hash, or compatibility is invalid''),
     utcTimestamp (pn_ExpiresAt doc) ''expiresAt'',
     failIf (pn_AffectedPlanes doc = [] \<or> pn_Checks doc = [])
       (Text ''lifecycle plan must contain affectedPlanes and checks''),
     firstErr (\<lambda>plane. failIf (\<not> oneOf plane [''state'', ''dataplane'', ''management'', ''host''])
         (Text ''lifecycle plan contains an invalid affected plane'')) (pn_AffectedPlanes doc),
     uniqueNonEmpty (pn_AffectedPlanes doc) ''affectedPlanes'',
     firstErr (\<lambda>check. failIf (\<not> upperCodeShape (lc_Code check) \<or> \<not> oneOf (lc_Result check) [''PASS'', ''WARN''])
         (Text ''lifecycle plan contains an invalid check'')) (pn_Checks doc),
     firstErr (\<lambda>required. failIf (required \<notin> lc_Code ` set (pn_Checks doc))
         (Sprintf ''lifecycle plan is missing required check %q'' [AStr required])) (requiredChecks_for (pn_Command doc)),
     (if pn_Command doc = ''factory-reset plan'' then check_factoryReset doc else None)]"

definition validateLifecyclePlanPayload :: "bytes \<Rightarrow> msg option" where
  "validateLifecyclePlanPayload = validateWith lifecyclePlan_fields lifecyclePlanPayload0 check_lifecyclePlan"

record lifecycleExecutePayload =
  lx_SchemaVersion :: string
  lx_Command :: string
  lx_Result :: string
  lx_OperationID :: string
  lx_PlanHash :: string
  lx_Status :: string
  lx_AcceptedAt :: string

definition lifecycleExecutePayload0 :: lifecycleExecutePayload where
  "lifecycleExecutePayload0 = \<lparr>lx_SchemaVersion = [], lx_Command = [], lx_Result = [], lx_OperationID = [], lx_PlanHash = [], lx_Status = [], lx_AcceptedAt = []\<rparr>"

definition lifecycleExecute_fields :: "lifecycleExecutePayload field_spec list" where
  "lifecycleExecute_fields =
    [fld ''schemaVersion'' lx_SchemaVersion lx_SchemaVersion_update dec_string,
     fld ''command'' lx_Command lx_Command_update dec_string,
     fld ''result'' lx_Result lx_Result_update dec_string,
     fld ''operationId'' lx_OperationID lx_OperationID_update dec_string,
     fld ''planHash'' lx_PlanHash lx_PlanHash_update dec_string,
     fld ''status'' lx_Status lx_Status_update dec_string,
     fld ''acceptedAt'' lx_AcceptedAt lx_AcceptedAt_update dec_string]"

definition check_lifecycleExecute :: "lifecycleExecutePayload \<Rightarrow> msg option" where
  "check_lifecycleExecute doc = checks
    [failIf (lx_Result doc \<noteq> ''ACCEPTED'' \<or> \<not> identifierShape (lx_OperationID doc)
             \<or> \<not> digestShape (lx_PlanHash doc) \<or> \<not> oneOf (lx_Status doc) [''PENDING'', ''RUNNING''])
       (Text ''lifecycle execute receipt is invalid''),
     utcTimestamp (lx_AcceptedAt doc) ''acceptedAt'']"

definition validateLifecycleExecutePayload :: "bytes \<Rightarrow> msg option" where
  "validateLifecycleExecutePayload = validateWith lifecycleExecute_fields lifecycleExecutePayload0 check_lifecycleExecute"

record lifecycleStatusPayload =
  ls_SchemaVersion :: string
  ls_Command :: string
  ls_OperationID :: string
  ls_Status :: string
  ls_Phase :: string
  ls_ObservedAt :: string

definition lifecycleStatusPayload0 :: lifecycleStatusPayload where
  "lifecycleStatusPayload0 = \<lparr>ls_SchemaVersion = [], ls_Command = [], ls_OperationID = [], ls_Status = [], ls_Phase = [], ls_ObservedAt = []\<rparr>"

definition lifecycleStatus_fields :: "lifecycleStatusPayload field_spec list" where
  "lifecycleStatus_fields =
    [fld ''schemaVersion'' ls_SchemaVersion ls_SchemaVersion_update dec_string,
     fld ''command'' ls_Command ls_Command_update dec_string,
     fld ''operationId'' ls_OperationID ls_OperationID_update dec_string,
     fld ''status'' ls_Status ls_Status_update dec_string,
     fld ''phase'' ls_Phase ls_Phase_update dec_string,
     fld ''observedAt'' ls_ObservedAt ls_ObservedAt_update dec_string]"

definition check_lifecycleStatus :: "lifecycleStatusPayload \<Rightarrow> msg option" where
  "check_lifecycleStatus doc = checks
    [failIf (\<not> identifierShape (ls_OperationID doc)
             \<or> \<not> oneOf (ls_Status doc) [''PENDING'', ''RUNNING'', ''SUCCEEDED'', ''FAILED'', ''ROLLED_BACK'', ''PARTIAL'']
             \<or> \<not> upperCodeShape (ls_Phase doc))
       (Text ''lifecycle operation status is invalid''),
     utcTimestamp (ls_ObservedAt doc) ''observedAt'']"

definition validateLifecycleStatusPayload :: "bytes \<Rightarrow> msg option" where
  "validateLifecycleStatusPayload = validateWith lifecycleStatus_fields lifecycleStatusPayload0 check_lifecycleStatus"

end
