(* ===== verification/ExitCode.thy ===== *)
theory ExitCode
  imports Prelude
begin

section \<open>The exit-code taxonomy (\<open>pkg/cli/exitcode\<close>) and the error values of the program\<close>

text \<open>
  A \<open>Code\<close> is an \<open>int\<close> in the sources, so that a conversion from a foreign exit status has a value;
  the taxonomy rows are constants. The dynamic type of an \<open>error\<close> is the datatype \<open>goerr\<close>: the typed
  errors of the program, plain texts, and texts that wrap another error. \<open>errors.As\<close> walks the chain
  the \<open>Unwrap\<close> methods give.
\<close>

subsection \<open>Taxonomy rows\<close>

abbreviation OK :: int where "OK \<equiv> 0"
abbreviation InvalidArgument :: int where "InvalidArgument \<equiv> 2"
abbreviation Auth :: int where "Auth \<equiv> 3"
abbreviation Precondition :: int where "Precondition \<equiv> 4"
abbreviation Unavailable :: int where "Unavailable \<equiv> 5"
abbreviation ContractMismatch :: int where "ContractMismatch \<equiv> 6"
abbreviation Failed :: int where "Failed \<equiv> 7"
abbreviation Partial :: int where "Partial \<equiv> 8"
abbreviation FeatureUnavailable :: int where "FeatureUnavailable \<equiv> 9"

definition taxonomy :: "int list" where
  "taxonomy = [OK, InvalidArgument, Auth, Precondition, Unavailable, ContractMismatch, Failed, Partial, FeatureUnavailable]"

definition Label :: "int \<Rightarrow> string" where
  "Label c =
     (if c = OK then ''OK''
      else if c = InvalidArgument then ''INVALID_ARGUMENT''
      else if c = Auth then ''AUTH''
      else if c = Precondition then ''PRECONDITION''
      else if c = Unavailable then ''UNAVAILABLE''
      else if c = ContractMismatch then ''CONTRACT_MISMATCH''
      else if c = Failed then ''FAILED''
      else if c = Partial then ''PARTIAL''
      else if c = FeatureUnavailable then ''FEATURE_UNAVAILABLE''
      else ''FAILED'')"

subsection \<open>Error values\<close>

record cliError =
  ce_Code :: int
  ce_Message :: msg
  ce_Origin :: string
  ce_HTTPStatus :: int
  ce_ComponentCode :: string
  ce_ShowHelp :: bool

definition CLIError0 :: cliError where
  "CLIError0 = \<lparr>ce_Code = 0, ce_Message = Text [], ce_Origin = [], ce_HTTPStatus = 0,
     ce_ComponentCode = [], ce_ShowHelp = False\<rparr>"

record lifecycleError =
  le_Reason :: string
  le_Message :: msg
  le_HTTPStatus :: int
  le_Body :: bytes

record payloadTuple =
  pt_ContractMajor :: int
  pt_SchemaVersion :: string
  pt_Command :: string

record payloadValidationError =
  pve_Tuple :: payloadTuple
  pve_Command :: string
  pve_Reason :: msg
  pve_ObservedBackendExit :: "int option"
  pve_CorrelationID :: string
  pve_OperationID :: string

record backendContractError =
  bce_SchemaVersion :: string
  bce_Exit :: int
  bce_Code :: string
  bce_ComponentCode :: string
  bce_Retryable :: bool
  bce_Message :: string

datatype goerr =
    ECLI cliError
  | ELifecycle lifecycleError
  | EPayload payloadValidationError
  | EContract backendContractError
  | EPlain string
  | EWrap string goerr

definition LifecycleError_Error :: "lifecycleError \<Rightarrow> msg" where
  "LifecycleError_Error e =
     (if le_HTTPStatus e \<noteq> 0
      then Sprintf ''%s (%s, HTTP %d)'' [AMsg (le_Message e), AStr (le_Reason e), AInt (le_HTTPStatus e)]
      else Sprintf ''%s (%s)'' [AMsg (le_Message e), AStr (le_Reason e)])"

definition CodeBackendPayloadInvalid :: string where
  "CodeBackendPayloadInvalid = ''BACKEND_PAYLOAD_INVALID''"

definition PayloadValidationError_Error :: "payloadValidationError \<Rightarrow> msg" where
  "PayloadValidationError_Error e =
     Sprintf ''backend payload for %q is invalid: %s'' [AStr (pve_Command e), AMsg (pve_Reason e)]"

definition PayloadValidationError_Unwrap :: "payloadValidationError \<Rightarrow> cliError" where
  "PayloadValidationError_Unwrap e = CLIError0\<lparr>
     ce_Code := ContractMismatch, ce_Message := PayloadValidationError_Error e,
     ce_Origin := ''backend'', ce_ComponentCode := CodeBackendPayloadInvalid\<rparr>"

definition WithExecutionEvidence :: "payloadValidationError \<Rightarrow> int \<Rightarrow> string \<Rightarrow> string \<Rightarrow> payloadValidationError" where
  "WithExecutionEvidence e backendExit correlationID operationID =
     e\<lparr>pve_ObservedBackendExit := Some backendExit, pve_CorrelationID := correlationID, pve_OperationID := operationID\<rparr>"

definition BackendContractError_Error :: "backendContractError \<Rightarrow> msg" where
  "BackendContractError_Error e =
     (if bce_Message e \<noteq> [] then Text (bce_Message e)
      else Sprintf ''backend handshake failed: %s'' [AStr (bce_ComponentCode e)])"

definition BackendContractError_Unwrap :: "backendContractError \<Rightarrow> cliError" where
  "BackendContractError_Unwrap e = CLIError0\<lparr>
     ce_Code := bce_Exit e, ce_Message := BackendContractError_Error e,
     ce_Origin := ''backend'', ce_ComponentCode := bce_ComponentCode e\<rparr>"

text \<open>\<open>errors.As\<close> for the three targets the sources ask for.\<close>

fun as_CLIError :: "goerr \<Rightarrow> cliError option" where
  "as_CLIError (ECLI c) = Some c"
| "as_CLIError (EPayload p) = Some (PayloadValidationError_Unwrap p)"
| "as_CLIError (EContract b) = Some (BackendContractError_Unwrap b)"
| "as_CLIError (EWrap _ e) = as_CLIError e"
| "as_CLIError _ = None"

fun as_LifecycleError :: "goerr \<Rightarrow> lifecycleError option" where
  "as_LifecycleError (ELifecycle l) = Some l"
| "as_LifecycleError (EWrap _ e) = as_LifecycleError e"
| "as_LifecycleError _ = None"

fun as_ContractError :: "goerr \<Rightarrow> backendContractError option" where
  "as_ContractError (EContract b) = Some b"
| "as_ContractError (EWrap _ e) = as_ContractError e"
| "as_ContractError _ = None"

text \<open>The text of a chain that ends in a plain error, which is the only one \<open>Classify\<close> reads.\<close>

fun plain_text :: "goerr \<Rightarrow> string" where
  "plain_text (EPlain s) = s"
| "plain_text (EWrap p e) = p @ plain_text e"
| "plain_text _ = []"

subsection \<open>Constructors of classified failures\<close>

definition Usagef :: "msg \<Rightarrow> cliError" where
  "Usagef m = CLIError0\<lparr>ce_Code := InvalidArgument, ce_Message := m, ce_ShowHelp := True\<rparr>"

definition Invalidf :: "msg \<Rightarrow> cliError" where
  "Invalidf m = CLIError0\<lparr>ce_Code := InvalidArgument, ce_Message := m\<rparr>"

definition Unavailablef :: "msg \<Rightarrow> cliError" where
  "Unavailablef m = CLIError0\<lparr>ce_Code := Unavailable, ce_Message := m, ce_Origin := ''gateway''\<rparr>"

definition FromHTTPStatus :: "string \<Rightarrow> int \<Rightarrow> cliError" where
  "FromHTTPStatus op status =
     (let e = CLIError0\<lparr>ce_Message := Sprintf ''%s: gateway answered HTTP %d'' [AStr op, AInt status],
                ce_Origin := ''gateway'', ce_HTTPStatus := status\<rparr> in
      if status = 401 \<or> status = 403 then e\<lparr>ce_Code := Auth\<rparr>
      else if status = 404 \<or> status = 409 then e\<lparr>ce_Code := Precondition\<rparr>
      else if status = 429 \<or> status = 503 then e\<lparr>ce_Code := Unavailable\<rparr>
      else if status = 400 then e\<lparr>ce_Code := ContractMismatch\<rparr>
      else if status = 504 then e\<lparr>ce_Code := Partial\<rparr>
      else e\<lparr>ce_Code := Failed\<rparr>)"

subsection \<open>Classification\<close>

definition reasonCodes :: "(string \<times> int) list" where
  "reasonCodes =
    [(''ok'', OK),
     (''invalid-arguments'', InvalidArgument),
     (''file-read-failed'', Precondition),
     (''file-write-failed'', Failed),
     (''invalid-json'', InvalidArgument),
     (''request-failed'', Unavailable),
     (''unauthorized'', Auth),
     (''operation-in-progress'', Unavailable),
     (''maintenance-mode'', Precondition),
     (''server-error'', Failed),
     (''bad-request'', ContractMismatch),
     (''decode-failed'', ContractMismatch),
     (''result-not-ok'', Failed),
     (''incompatible-snapshot'', ContractMismatch),
     (''validation-failed'', ContractMismatch),
     (''dependency-failed'', Precondition),
     (''rolled-back'', Failed),
     (''rollback-failed'', Partial),
     (''not-persisted'', Partial),
     (''checksum-mismatch'', ContractMismatch),
     (''contract-legacy'', ContractMismatch),
     (''recovery-required'', Partial),
     (''not-ready'', Precondition)]"

definition cobraUsageShapes :: "string list" where
  "cobraUsageShapes =
    [''unknown command '', ''unknown flag'', ''unknown shorthand flag'', ''flag needs an argument'',
     ''required flag'', ''invalid argument '', ''accepts '', ''requires at least '', ''requires exactly '',
     ''if any flags in the group'', ''were all set'', ''none of the others can be'']"

definition Classify :: "goerr \<Rightarrow> cliError" where
  "Classify err =
     (case as_CLIError err of
        Some ce \<Rightarrow> ce
      | None \<Rightarrow>
        (case as_LifecycleError err of
           Some le \<Rightarrow> CLIError0\<lparr>
             ce_Code := (case map_of reasonCodes (le_Reason le) of Some c \<Rightarrow> c | None \<Rightarrow> Failed),
             ce_Message := LifecycleError_Error le,
             ce_Origin := ''gateway'',
             ce_HTTPStatus := le_HTTPStatus le,
             ce_ComponentCode := le_Reason le\<rparr>
         | None \<Rightarrow>
             if list_ex (\<lambda>shape. contains_sub shape (plain_text err)) cobraUsageShapes
             then CLIError0\<lparr>ce_Code := InvalidArgument, ce_Message := Text (plain_text err), ce_ShowHelp := True\<rparr>
             else CLIError0\<lparr>ce_Code := Failed, ce_Message := Text (plain_text err)\<rparr>))"

lemmas ce_defs = CLIError0_def Usagef_def Invalidf_def Unavailablef_def

subsection \<open>What the taxonomy promises\<close>

text \<open>
  An error whose typed links carry codes of the taxonomy. Every error the program builds is one:
  the constructors above set a row, and the two conversions from a foreign exit status check it
  first.
\<close>

fun err_in_taxonomy :: "goerr \<Rightarrow> bool" where
  "err_in_taxonomy (ECLI c) = (ce_Code c \<in> set taxonomy)"
| "err_in_taxonomy (EContract b) = (bce_Exit b \<in> set taxonomy)"
| "err_in_taxonomy (EWrap _ e) = err_in_taxonomy e"
| "err_in_taxonomy _ = True"

lemma as_CLIError_taxonomy: "err_in_taxonomy e \<Longrightarrow> as_CLIError e = Some c \<Longrightarrow> ce_Code c \<in> set taxonomy"
  by (induction e) (auto simp: PayloadValidationError_Unwrap_def BackendContractError_Unwrap_def ce_defs taxonomy_def)

lemma reasonCodes_taxonomy: "map_of reasonCodes r = Some c \<Longrightarrow> c \<in> set taxonomy"
proof (erule map_of_all [rotated])
  show "list_all (\<lambda>p. snd p \<in> set taxonomy) reasonCodes"
    by (simp add: reasonCodes_def taxonomy_def)
qed

lemma Classify_taxonomy: "err_in_taxonomy e \<Longrightarrow> ce_Code (Classify e) \<in> set taxonomy"
proof -
  assume tax: "err_in_taxonomy e"
  show ?thesis
  proof (cases "as_CLIError e")
    case (Some c)
    with tax show ?thesis by (simp add: Classify_def as_CLIError_taxonomy)
  next
    case None
    then show ?thesis
      by (auto simp: Classify_def ce_defs dest: reasonCodes_taxonomy split: option.splits)
        (auto simp: taxonomy_def)
  qed
qed

lemma Label_taxonomy: "Label c \<in> Label ` set taxonomy"
  by (auto simp: Label_def taxonomy_def)

end
