(* ===== verification/Payload.thy ===== *)
theory Payload
  imports PayloadDocs ExitCode "HOL-Library.List_Lexorder" "HOL-Library.Product_Lexorder" "HOL-Library.Char_ord"
begin

section \<open>The payload registry and its validator (\<open>pkg/backend/payload.go\<close>, lines 34 to 571)\<close>

text \<open>
  The registry of approved tuples, and \<open>ValidatePayload\<close>, the only way backend bytes become a
  document the program shows. A \<open>map[string]json.RawMessage\<close> is the list of the object's members, a
  raw message is the value it holds. Where the sources range over a Go map the model takes the order
  of the document or of the literal: only the choice between two error texts depends on it.
\<close>

subsection \<open>Data\<close>

definition contractMajor :: int where "contractMajor = 1"
definition payloadSchema :: string where "payloadSchema = ''appliance-backend-payload/v1''"

record backendOperationError =
  boe_SchemaVersion :: string
  boe_Command :: string
  boe_Result :: string
  boe_Exit :: int
  boe_Code :: string
  boe_Origin :: string
  boe_ComponentCode :: string
  boe_Retryable :: bool
  boe_Message :: string
  boe_CorrelationID :: string
  boe_OperationID :: string
  boe_RecoveryGuidance :: string

definition backendOperationError0 :: backendOperationError where
  "backendOperationError0 = \<lparr>boe_SchemaVersion = [], boe_Command = [], boe_Result = [], boe_Exit = 0,
     boe_Code = [], boe_Origin = [], boe_ComponentCode = [], boe_Retryable = False, boe_Message = [],
     boe_CorrelationID = [], boe_OperationID = [], boe_RecoveryGuidance = []\<rparr>"

definition operationError_fields :: "backendOperationError field_spec list" where
  "operationError_fields =
    [fld ''schemaVersion'' boe_SchemaVersion boe_SchemaVersion_update dec_string,
     fld ''command'' boe_Command boe_Command_update dec_string,
     fld ''result'' boe_Result boe_Result_update dec_string,
     fld ''exit'' boe_Exit boe_Exit_update dec_int,
     fld ''code'' boe_Code boe_Code_update dec_string,
     fld ''origin'' boe_Origin boe_Origin_update dec_string,
     fld ''componentCode'' boe_ComponentCode boe_ComponentCode_update dec_string,
     fld ''retryable'' boe_Retryable boe_Retryable_update dec_bool,
     fld ''message'' boe_Message boe_Message_update dec_string,
     fld ''correlationId'' boe_CorrelationID boe_CorrelationID_update dec_string,
     fld ''operationId'' boe_OperationID boe_OperationID_update dec_string,
     fld ''recoveryGuidance'' boe_RecoveryGuidance boe_RecoveryGuidance_update dec_string]"

record validatedPayload =
  vp_Tuple :: payloadTuple
  vp_Command :: string
  vp_Document :: bytes
  vp_OperationID :: string
  vp_OperationError :: "backendOperationError option"

record payloadSpec =
  ps_Tuple :: payloadTuple
  ps_SchemaPath :: string
  ps_SchemaID :: string
  ps_RequiredKeys :: "string list"
  ps_OptionalKeys :: "string list"
  ps_Validate :: "bytes \<Rightarrow> msg option"

type_synonym document = "(string \<times> json) list"

definition tuple :: "string \<Rightarrow> payloadTuple" where
  "tuple command = \<lparr>pt_ContractMajor = contractMajor, pt_SchemaVersion = payloadSchema, pt_Command = command\<rparr>"

subsection \<open>The registry\<close>

definition replace_spaces :: "string \<Rightarrow> string" where
  "replace_spaces s = map (\<lambda>c. if c = CHR '' '' then CHR ''-'' else c) s"

definition base_spec :: "string \<Rightarrow> string \<Rightarrow> string list \<Rightarrow> string list \<Rightarrow> (bytes \<Rightarrow> msg option) \<Rightarrow> payloadSpec" where
  "base_spec command file required optional validate =
     \<lparr>ps_Tuple = tuple command,
      ps_SchemaPath = ''contracts/backend-payloads/v1/'' @ file,
      ps_SchemaID = ''https://loxilb.io/schemas/appliance-backend/v1/'' @ file,
      ps_RequiredKeys = required, ps_OptionalKeys = optional, ps_Validate = validate\<rparr>"

definition lifecycle_file :: "string \<Rightarrow> string" where
  "lifecycle_file command = ''lifecycle/'' @ replace_spaces command @ ''.schema.json''"

definition lifecyclePlanSpec :: "string \<Rightarrow> payloadSpec" where
  "lifecyclePlanSpec command =
     (let spec = base_spec command (lifecycle_file command)
            [''schemaVersion'', ''command'', ''result'', ''planHash'', ''expiresAt'', ''compatible'', ''affectedPlanes'', ''checks'']
            [] validateLifecyclePlanPayload
      in if command = ''factory-reset plan''
         then spec\<lparr>ps_RequiredKeys := ps_RequiredKeys spec @ [''delete'', ''preserve'']\<rparr> else spec)"

definition lifecycleExecuteSpec :: "string \<Rightarrow> payloadSpec" where
  "lifecycleExecuteSpec command = base_spec command (lifecycle_file command)
     [''schemaVersion'', ''command'', ''result'', ''operationId'', ''planHash'', ''status'', ''acceptedAt'']
     [] validateLifecycleExecutePayload"

definition lifecycleStatusSpec :: "string \<Rightarrow> payloadSpec" where
  "lifecycleStatusSpec command = base_spec command (lifecycle_file command)
     [''schemaVersion'', ''command'', ''operationId'', ''status'', ''phase'', ''observedAt'']
     [] validateLifecycleStatusPayload"

definition payloadRegistry :: "url_parser \<Rightarrow> (payloadTuple \<times> payloadSpec) list" where
  "payloadRegistry url_parse =
    [(tuple ''status'', base_spec ''status'' ''status.schema.json''
        [''schemaVersion'', ''command'', ''overallStatus'', ''productRelease'', ''initialized'', ''planes'', ''networkProfile'',
         ''activeOperations'', ''localGatewayRegistration'', ''observedAt'']
        [''reasonCode'', ''publicAddressTls''] validateStatusPayload),
     (tuple ''network validate'', base_spec ''network validate'' ''network-validate.schema.json''
        [''schemaVersion'', ''command'', ''valid'', ''profile'', ''interfaces'', ''errors'', ''warnings'', ''observedAt'']
        [] validateNetworkPayload),
     (tuple ''public-address configure'', base_spec ''public-address configure'' ''public-address-configure.schema.json''
        [''schemaVersion'', ''command'', ''result'', ''operationId'', ''publicAddress'', ''privateAddressPreserved'', ''certificate'',
         ''restart'', ''readiness'']
        [] validatePublicAddressPayload),
     (tuple ''gateway register-local'', base_spec ''gateway register-local'' ''gateway-register-local.schema.json''
        [''schemaVersion'', ''command'', ''result'', ''operationId'', ''installationId'', ''instanceId'', ''endpoint'',
         ''gatewayIdentity'', ''verified'', ''markerUpdated'']
        [] (validateGatewayRegistrationPayload url_parse)),
     (tuple ''diagnostics create'', base_spec ''diagnostics create'' ''diagnostics-create.schema.json''
        [''schemaVersion'', ''command'', ''result'', ''operationId'', ''archivePath'', ''sha256'', ''sizeBytes'', ''mode'',
         ''redactionProfile'', ''includedFiles'', ''secretScan'', ''expiresAt'']
        [] validateDiagnosticsPayload),
     (tuple ''logs'', base_spec ''logs'' ''logs.schema.json''
        [''schemaVersion'', ''command'', ''component'', ''redacted'', ''window'', ''entries'', ''truncated'', ''observedAt'']
        [] validateLogsPayload),
     (tuple ''backup key-create'', base_spec ''backup key-create'' ''backup-key-create.schema.json''
        [''schemaVersion'', ''command'', ''result'', ''operationId'', ''keyPath'', ''keyId'', ''fingerprint'', ''mode'']
        [] validateBackupKeyPayload),
     (tuple ''backup create'', base_spec ''backup create'' ''backup-create.schema.json''
        [''schemaVersion'', ''command'', ''result'', ''operationId'', ''archivePath'', ''sha256'', ''sizeBytes'', ''encrypted'',
         ''manifestSchema'', ''componentChecksums'', ''consistency'']
        [] validateBackupCreatePayload),
     (tuple ''backup verify'', base_spec ''backup verify'' ''backup-verify.schema.json''
        [''schemaVersion'', ''command'', ''result'', ''archivePath'', ''authenticated'', ''checksumValid'', ''keyMatch'',
         ''manifestSchema'', ''releaseCompatibility'', ''componentChecksums'', ''observedAt'']
        [] validateBackupVerifyPayload),
     (tuple ''restore plan'', lifecyclePlanSpec ''restore plan''),
     (tuple ''restore execute'', lifecycleExecuteSpec ''restore execute''),
     (tuple ''update plan'', lifecyclePlanSpec ''update plan''),
     (tuple ''update execute'', lifecycleExecuteSpec ''update execute''),
     (tuple ''update status'', lifecycleStatusSpec ''update status''),
     (tuple ''rollback plan'', lifecyclePlanSpec ''rollback plan''),
     (tuple ''rollback execute'', lifecycleExecuteSpec ''rollback execute''),
     (tuple ''rollback status'', lifecycleStatusSpec ''rollback status''),
     (tuple ''factory-reset plan'', lifecyclePlanSpec ''factory-reset plan''),
     (tuple ''factory-reset execute'', lifecycleExecuteSpec ''factory-reset execute'')]"

definition PayloadTupleForCommand :: "url_parser \<Rightarrow> string \<Rightarrow> payloadTuple \<times> bool" where
  "PayloadTupleForCommand url_parse command =
     (let selected = tuple command in (selected, map_of (payloadRegistry url_parse) selected \<noteq> None))"

text \<open>The order of \<open>RegisteredPayloadTuples\<close>: major, then schema version, then command, bytewise.\<close>

instantiation payloadTuple_ext :: (linorder) linorder
begin

definition tuple_key :: "'a payloadTuple_scheme \<Rightarrow> int \<times> string \<times> string \<times> 'a" where
  "tuple_key t = (pt_ContractMajor t, pt_SchemaVersion t, pt_Command t, payloadTuple.more t)"

definition less_eq_payloadTuple_ext :: "'a payloadTuple_scheme \<Rightarrow> 'a payloadTuple_scheme \<Rightarrow> bool" where
  "less_eq_payloadTuple_ext s t \<longleftrightarrow> tuple_key s \<le> tuple_key t"

definition less_payloadTuple_ext :: "'a payloadTuple_scheme \<Rightarrow> 'a payloadTuple_scheme \<Rightarrow> bool" where
  "less_payloadTuple_ext s t \<longleftrightarrow> tuple_key s < tuple_key t"

instance
proof
  fix s t u :: "'a payloadTuple_scheme"
  show "(s < t) = (s \<le> t \<and> \<not> t \<le> s)"
    by (auto simp: less_payloadTuple_ext_def less_eq_payloadTuple_ext_def)
  show "s \<le> s" by (simp add: less_eq_payloadTuple_ext_def)
  show "s \<le> t \<Longrightarrow> t \<le> u \<Longrightarrow> s \<le> u" by (simp add: less_eq_payloadTuple_ext_def)
  show "s \<le> t \<or> t \<le> s" by (auto simp: less_eq_payloadTuple_ext_def)
  show "s \<le> t \<Longrightarrow> t \<le> s \<Longrightarrow> s = t"
    unfolding less_eq_payloadTuple_ext_def
    by (drule (1) order.antisym) (simp add: tuple_key_def)
qed

end

definition RegisteredPayloadTuples :: "url_parser \<Rightarrow> payloadTuple list" where
  "RegisteredPayloadTuples url_parse = sort (map fst (payloadRegistry url_parse))"

subsection \<open>Key sets and string fields\<close>

definition has_key :: "document \<Rightarrow> string \<Rightarrow> bool" where
  "has_key document key \<longleftrightarrow> key \<in> set (map fst document)"

definition validateRequiredKeySet :: "document \<Rightarrow> string list \<Rightarrow> msg option" where
  "validateRequiredKeySet document required =
     (if length document \<noteq> length required then Some (Text ''object keys differ from the exact required set'')
      else firstErr (\<lambda>key. failIf (\<not> has_key document key) (Sprintf ''required field %q is missing'' [AStr key])) required)"

definition validateRequiredAndAllowedKeySet :: "document \<Rightarrow> string list \<Rightarrow> string list \<Rightarrow> msg option" where
  "validateRequiredAndAllowedKeySet document required optional = andThen
     (firstErr (\<lambda>key. failIf (\<not> has_key document key) (Sprintf ''required field %q is missing'' [AStr key])) required)
     (firstErr (\<lambda>(key, value). failIf (\<not> (key \<in> set required \<or> key \<in> set optional))
         (Sprintf ''unknown field %q'' [AStr key])) document)"

definition observedCommand :: "document \<Rightarrow> string \<Rightarrow> string" where
  "observedCommand document fallback =
     (case map_of document ''command'' of
        None \<Rightarrow> fallback
      | Some raw \<Rightarrow>
          (case dec_string [] raw of
             None \<Rightarrow> fallback
           | Some command \<Rightarrow> if commandNameShape command \<and> length command \<le> 128 then command else fallback))"

text \<open>A member that is absent is a nil raw message, which \<open>json.Unmarshal\<close> refuses.\<close>

definition exactStringField :: "document \<Rightarrow> string \<Rightarrow> string \<Rightarrow> msg option" where
  "exactStringField document field expected =
     (case Option.bind (map_of document field) (dec_string []) of
        None \<Rightarrow> Some (Sprintf ''field %q is not a string'' [AStr field])
      | Some actual \<Rightarrow> failIf (actual \<noteq> expected) (Sprintf ''field %q does not match the approved value'' [AStr field]))"

definition optionalStringField :: "document \<Rightarrow> string \<Rightarrow> string" where
  "optionalStringField document field =
     (case Option.bind (map_of document field) (dec_string []) of None \<Rightarrow> [] | Some value \<Rightarrow> value)"

subsection \<open>Secret-bearing content\<close>

definition prohibitedPayloadKeys :: "string list" where
  "prohibitedPayloadKeys = [''password'', ''token'', ''apikey'', ''privatekey'', ''secret'', ''credential'', ''credentials'']"

definition isProhibitedPayloadKey :: "string \<Rightarrow> bool" where
  "isProhibitedPayloadKey key =
     (let normalized = to_lower (filter (\<lambda>c. c \<noteq> CHR ''_'' \<and> c \<noteq> CHR ''-'') key) in
      if normalized = ''secretscan'' then False
      else if normalized \<in> set prohibitedPayloadKeys then True
      else list_ex (\<lambda>fragment. contains_sub fragment normalized) [''password'', ''token'', ''apikey'', ''privatekey'', ''credential''])"

definition synthetic_secret :: string where
  "synthetic_secret = ''CLI_WP00_SYNTHETIC_SECRET_DO_NOT_EMIT''"

definition prohibited_text :: "string \<Rightarrow> bool" where
  "prohibited_text s \<longleftrightarrow> contains_sub synthetic_secret s \<or> credentialValueShape s"

fun inspectPayloadValue :: "json \<Rightarrow> msg option" where
  "inspectPayloadValue JNull = Some (Text ''null values are prohibited'')"
| "inspectPayloadValue (JObj ms) =
     firstErr (\<lambda>(key, child).
       if isProhibitedPayloadKey key then Some (Sprintf ''secret-bearing key %q is prohibited'' [AStr key])
       else inspectPayloadValue child) ms"
| "inspectPayloadValue (JArr vs) = firstErr inspectPayloadValue vs"
| "inspectPayloadValue (JStr s) = failIf (prohibited_text s) (Text ''payload contains prohibited credential material'')"
| "inspectPayloadValue (JBool b) = None"
| "inspectPayloadValue (JNum x) = None"

subsection \<open>Operation errors\<close>

definition operationErrorRequiredKeys :: "string list" where
  "operationErrorRequiredKeys =
     [''schemaVersion'', ''command'', ''result'', ''exit'', ''code'', ''origin'', ''componentCode'', ''retryable'']"

definition operationErrorOptionalKeys :: "string list" where
  "operationErrorOptionalKeys = [''message'', ''correlationId'', ''operationId'', ''recoveryGuidance'']"

definition isOperationErrorDocument :: "document \<Rightarrow> bool" where
  "isOperationErrorDocument document \<longleftrightarrow>
     list_ex (has_key document) [''exit'', ''code'', ''origin'', ''componentCode'', ''retryable'', ''recoveryGuidance'']
     \<or> optionalStringField document ''result'' = ''ERROR''"

definition operationErrorTuples :: "(int \<times> string \<times> string \<times> bool) list" where
  "operationErrorTuples =
    [(2, ''ERROR'', ''INVALID_ARGUMENT'', False),
     (3, ''ERROR'', ''AUTH'', False),
     (4, ''ERROR'', ''PRECONDITION'', False),
     (5, ''ERROR'', ''UNAVAILABLE'', True),
     (6, ''ERROR'', ''CONTRACT_MISMATCH'', False),
     (7, ''ERROR'', ''FAILED'', False),
     (8, ''PARTIAL'', ''PARTIAL'', False)]"

definition check_operationError :: "backendOperationError \<Rightarrow> msg option" where
  "check_operationError doc = checks
    [failIf (map_of operationErrorTuples (boe_Exit doc) \<noteq> Some (boe_Result doc, boe_Code doc, boe_Retryable doc))
       (Text ''operation error result/exit/code/retryable tuple is invalid''),
     failIf (boe_Origin doc \<noteq> ''backend'' \<or> \<not> upperCodeShape (boe_ComponentCode doc) \<or> length (boe_ComponentCode doc) > 128)
       (Text ''operation error origin or componentCode is invalid''),
     firstErr (\<lambda>(field, value). failIf (value \<noteq> [] \<and> (length value > 512 \<or> containsControl value))
         (Sprintf ''operation error field %q is invalid'' [AStr field]))
       [(''message'', boe_Message doc), (''recoveryGuidance'', boe_RecoveryGuidance doc)],
     firstErr (\<lambda>(field, value). failIf (value \<noteq> [] \<and> \<not> identifierShape value)
         (Sprintf ''operation error field %q is invalid'' [AStr field]))
       [(''correlationId'', boe_CorrelationID doc), (''operationId'', boe_OperationID doc)],
     failIf (boe_Exit doc = 8 \<and> (boe_OperationID doc = [] \<or> boe_RecoveryGuidance doc = []))
       (Text ''PARTIAL requires operationId and recoveryGuidance'')]"

definition validateOperationErrorPayload :: "document \<Rightarrow> bytes \<Rightarrow> msg + backendOperationError" where
  "validateOperationErrorPayload document raw =
     (case validateRequiredAndAllowedKeySet document operationErrorRequiredKeys operationErrorOptionalKeys of
        Some e \<Rightarrow> Inl e
      | None \<Rightarrow>
          (case decodePayload operationError_fields backendOperationError0 raw of
             Inl e \<Rightarrow> Inl e
           | Inr doc \<Rightarrow> (case check_operationError doc of Some e \<Rightarrow> Inl e | None \<Rightarrow> Inr doc)))"

subsection \<open>\<open>ValidatePayload\<close>\<close>

definition payloadError :: "payloadTuple \<Rightarrow> string \<Rightarrow> msg \<Rightarrow> payloadValidationError" where
  "payloadError selected command reason =
     \<lparr>pve_Tuple = selected, pve_Command = command, pve_Reason = reason,
      pve_ObservedBackendExit = None, pve_CorrelationID = [], pve_OperationID = []\<rparr>"

definition dec_raw :: "json decoder" where
  "dec_raw old j = Some j"

text \<open>The part after the document is known to be one object: \<open>document\<close> its members, \<open>spec\<close> its row.\<close>

definition validateDocument :: "payloadSpec \<Rightarrow> payloadTuple \<Rightarrow> bytes \<Rightarrow> document \<Rightarrow> payloadValidationError + validatedPayload" where
  "validateDocument spec selected raw document =
     (let command = observedCommand document (pt_Command selected); fail = (\<lambda>m. Inl (payloadError selected command m)) in
      case exactStringField document ''schemaVersion'' (pt_SchemaVersion selected) of Some e \<Rightarrow> fail e | None \<Rightarrow>
      (case exactStringField document ''command'' (pt_Command selected) of Some e \<Rightarrow> fail e | None \<Rightarrow>
      (if isOperationErrorDocument document then
         (case validateOperationErrorPayload document raw of
            Inl e \<Rightarrow> fail e
          | Inr operationError \<Rightarrow> Inr \<lparr>vp_Tuple = selected, vp_Command = command, vp_Document = raw,
              vp_OperationID = boe_OperationID operationError, vp_OperationError = Some operationError\<rparr>)
       else
         (case validateRequiredAndAllowedKeySet document (ps_RequiredKeys spec) (ps_OptionalKeys spec) of Some e \<Rightarrow> fail e | None \<Rightarrow>
         (case ps_Validate spec raw of Some e \<Rightarrow> fail e | None \<Rightarrow>
            Inr \<lparr>vp_Tuple = selected, vp_Command = command, vp_Document = raw,
              vp_OperationID = optionalStringField document ''operationId'', vp_OperationError = None\<rparr>)))))"

definition ValidatePayload :: "url_parser \<Rightarrow> payloadTuple \<Rightarrow> bytes \<Rightarrow> payloadValidationError + validatedPayload" where
  "ValidatePayload url_parse selected raw =
     (let fail = (\<lambda>m. Inl (payloadError selected (pt_Command selected) m)) in
      case map_of (payloadRegistry url_parse) selected of
        None \<Rightarrow> fail (Text ''unsupported contract/schema/command tuple'')
      | Some spec \<Rightarrow>
      (case rejectDuplicateJSONKeys raw of Some e \<Rightarrow> fail e | None \<Rightarrow>
      (case decodeExactOne (dec_map dec_raw JNull) [] raw of
         Inl e \<Rightarrow> fail (Sprintf ''document is not one exact JSON object: %v'' [AMsg e])
       | Inr document \<Rightarrow>
      (case parse_first (lex raw) of None \<Rightarrow> fail syntax_error | Some (generic, _) \<Rightarrow>
      (case inspectPayloadValue generic of
         Some e \<Rightarrow> Inl (payloadError selected (observedCommand document (pt_Command selected)) e)
       | None \<Rightarrow> validateDocument spec selected raw document)))))"

section \<open>What the validator guarantees\<close>

subsection \<open>The document is the parsed object\<close>

lemma dec_entries_raw:
  "distinct (map fst (m @ ms)) \<Longrightarrow> dec_entries dec_raw z m ms = Some (m @ ms)"
proof (induction ms arbitrary: m)
  case Nil
  then show ?case by simp
next
  case (Cons kv ms)
  obtain k j where kv: "kv = (k, j)" by (cases kv)
  have "filter (\<lambda>p. fst p \<noteq> k) m = m"
    using Cons.prems by (auto simp: kv filter_id_conv)
  then show ?case
    using Cons.IH [of "m @ [(k, j)]"] Cons.prems by (simp add: kv dec_raw_def)
qed

lemma inspect_members_None:
  "inspectPayloadValue (JObj ms) = None \<longleftrightarrow>
     (\<forall>kv\<in>set ms. \<not> isProhibitedPayloadKey (fst kv) \<and> inspectPayloadValue (snd kv) = None)"
  by (auto simp: split_beta)

declare inspectPayloadValue.simps(2) [simp del]

lemma ValidatePayload_iff:
  "ValidatePayload up selected raw = Inr p \<longleftrightarrow>
     (\<exists>spec ms. map_of (payloadRegistry up) selected = Some spec
        \<and> parse_json raw = Some (JObj ms) \<and> unique_keys (JObj ms)
        \<and> inspectPayloadValue (JObj ms) = None
        \<and> validateDocument spec selected raw ms = Inr p)" (is "?lhs \<longleftrightarrow> ?rhs")
proof
  assume ?lhs
  then obtain spec doc v r where reg: "map_of (payloadRegistry up) selected = Some spec"
    and dup: "rejectDuplicateJSONKeys raw = None"
    and dec: "decodeExactOne (dec_map dec_raw JNull) [] raw = Inr doc"
    and pf: "parse_first (lex raw) = Some (v, r)"
    and ins: "inspectPayloadValue v = None"
    and val: "validateDocument spec selected raw doc = Inr p"
    by (auto simp: ValidatePayload_def Let_def split: option.splits sum.splits prod.splits)
  obtain w where w: "parse_json raw = Some w" "w \<noteq> JNull" "dec_map dec_raw JNull [] w = Some doc"
    using decodeExactOne_InrD [OF dec] by blast
  then obtain ms where ms: "w = JObj ms" by (auto simp: dec_map_def split: json.splits)
  have vw: "v = w" using w(1) pf by (auto simp: parse_json_def split: list.splits)
  have u: "unique_keys (JObj ms)" using rejectDuplicate_iff [OF w(1)] dup ms by simp
  then have "doc = ms" using w(3) dec_entries_raw [of "[]" ms JNull] by (simp add: ms dec_map_def)
  with reg w(1) u ins val vw ms show ?rhs by blast
next
  assume ?rhs
  then obtain spec ms where reg: "map_of (payloadRegistry up) selected = Some spec"
    and pj: "parse_json raw = Some (JObj ms)" and u: "unique_keys (JObj ms)"
    and ins: "inspectPayloadValue (JObj ms) = None"
    and val: "validateDocument spec selected raw ms = Inr p" by blast
  have dup: "rejectDuplicateJSONKeys raw = None" using rejectDuplicate_iff [OF pj] u by simp
  have "dec_map dec_raw JNull [] (JObj ms) = Some ms"
    using u dec_entries_raw [of "[]" ms JNull] by (simp add: dec_map_def)
  then have dec: "decodeExactOne (dec_map dec_raw JNull) [] raw = Inr ms"
    by (simp add: decodeExactOne_parsed [OF pj])
  obtain r where pf: "parse_first (lex raw) = Some (JObj ms, r)"
    using pj by (auto simp: parse_json_def split: option.splits prod.splits list.splits)
  show ?lhs using reg dup dec pf ins val by (simp add: ValidatePayload_def Let_def)
qed

subsection \<open>The two kinds of accepted document\<close>

lemma exactStringField_None:
  "exactStringField document field expected = None \<longleftrightarrow>
     (\<exists>j. map_of document field = Some j \<and> dec_string [] j = Some expected)"
  by (auto simp: exactStringField_def split: option.splits bind_splits)

lemma observedCommand_bound:
  "exactStringField document ''command'' expected = None \<Longrightarrow> observedCommand document expected = expected"
  by (auto simp: exactStringField_None observedCommand_def split: option.splits)

lemma validateDocument_cases:
  assumes "validateDocument spec selected raw document = Inr p"
  shows "vp_Tuple p = selected \<and> vp_Command p = pt_Command selected \<and> vp_Document p = raw
    \<and> exactStringField document ''schemaVersion'' (pt_SchemaVersion selected) = None
    \<and> exactStringField document ''command'' (pt_Command selected) = None
    \<and> (case vp_OperationError p of
         Some e \<Rightarrow> isOperationErrorDocument document \<and> validateOperationErrorPayload document raw = Inr e
           \<and> vp_OperationID p = boe_OperationID e
       | None \<Rightarrow> \<not> isOperationErrorDocument document
           \<and> validateRequiredAndAllowedKeySet document (ps_RequiredKeys spec) (ps_OptionalKeys spec) = None
           \<and> ps_Validate spec raw = None
           \<and> vp_OperationID p = optionalStringField document ''operationId'')"
  using assms
  by (auto simp: validateDocument_def Let_def observedCommand_bound split: option.splits sum.splits if_splits)

lemma KeySet_None:
  "validateRequiredAndAllowedKeySet document required optional = None \<longleftrightarrow>
     set required \<subseteq> set (map fst document) \<and> set (map fst document) \<subseteq> set required \<union> set optional"
  by (auto simp: validateRequiredAndAllowedKeySet_def has_key_def split_beta)

lemma ExactKeySet_None:
  assumes "distinct (map fst document)" "distinct required"
  shows "validateRequiredKeySet document required = None \<longleftrightarrow> set (map fst document) = set required"
proof -
  have "card (set (map fst document)) = length document" "card (set required) = length required"
    using assms by (metis distinct_card length_map, metis distinct_card)
  then show ?thesis
    using card_subset_eq [of "set (map fst document)" "set required"]
    by (auto simp: validateRequiredKeySet_def has_key_def subset_iff) force
qed

lemma operationErrorTuples_row:
  assumes "map_of operationErrorTuples n = Some (r, c, b)"
  shows "n \<in> {2..8} \<and> c = Label n \<and> b = (n = Unavailable) \<and> r = (if n = Partial then ''PARTIAL'' else ''ERROR'')"
  using assms by (auto simp: operationErrorTuples_def Label_def split: if_splits)

lemma validateOperationErrorPayload_Inr:
  assumes "validateOperationErrorPayload document raw = Inr e"
  shows "boe_Exit e \<in> {2..8} \<and> boe_Code e = Label (boe_Exit e) \<and> boe_Retryable e = (boe_Exit e = Unavailable)
    \<and> boe_Result e = (if boe_Exit e = Partial then ''PARTIAL'' else ''ERROR'')
    \<and> boe_Origin e = ''backend'' \<and> upperCodeShape (boe_ComponentCode e) \<and> length (boe_ComponentCode e) \<le> 128
    \<and> length (boe_Message e) \<le> 512 \<and> \<not> containsControl (boe_Message e)
    \<and> (boe_OperationID e \<noteq> [] \<longrightarrow> identifierShape (boe_OperationID e))
    \<and> (boe_Exit e = Partial \<longrightarrow> boe_OperationID e \<noteq> [] \<and> boe_RecoveryGuidance e \<noteq> [])"
proof -
  from assms have "check_operationError e = None"
    by (auto simp: validateOperationErrorPayload_def split: option.splits sum.splits)
  then show ?thesis
    using operationErrorTuples_row [of "boe_Exit e" "boe_Result e" "boe_Code e" "boe_Retryable e"]
    by (auto simp: check_operationError_def containsControl_def)
qed

subsection \<open>No secret reaches a document\<close>

inductive subvalue :: "json \<Rightarrow> json \<Rightarrow> bool" where
  here: "subvalue v v"
| element: "subvalue w v \<Longrightarrow> v \<in> set vs \<Longrightarrow> subvalue w (JArr vs)"
| child: "subvalue w v \<Longrightarrow> (k, v) \<in> set ms \<Longrightarrow> subvalue w (JObj ms)"

inductive_cases subvalue_leafE: "subvalue w (JStr s)" "subvalue w (JNum x)" "subvalue w JNull" "subvalue w (JBool b)"

fun clean_node :: "json \<Rightarrow> bool" where
  "clean_node JNull = False"
| "clean_node (JStr s) = (\<not> prohibited_text s)"
| "clean_node (JObj ms) = (distinct (map fst ms) \<and> (\<forall>k\<in>set (map fst ms). \<not> isProhibitedPayloadKey k))"
| "clean_node _ = True"

lemma subvalue_inspected: "subvalue w v \<Longrightarrow> inspectPayloadValue v = None \<Longrightarrow> inspectPayloadValue w = None"
  by (induction rule: subvalue.induct) (force simp: inspect_members_None)+

lemma subvalue_unique: "subvalue w v \<Longrightarrow> unique_keys v \<Longrightarrow> unique_keys w"
  by (induction rule: subvalue.induct) (auto split: prod.splits)

lemma inspected_clean: "inspectPayloadValue w = None \<Longrightarrow> unique_keys w \<Longrightarrow> clean_node w"
  by (cases w) (auto simp: inspect_members_None)

lemma accepted_clean:
  assumes "ValidatePayload up selected raw = Inr p" "parse_json raw = Some v" "subvalue w v"
  shows "clean_node w"
proof -
  obtain ms where "v = JObj ms" "unique_keys v" "inspectPayloadValue v = None"
    using assms(1,2) by (auto simp: ValidatePayload_iff)
  with assms(3) show ?thesis by (blast intro: inspected_clean subvalue_inspected subvalue_unique)
qed

subsection \<open>What an accepted success document says\<close>

text \<open>
  \<open>typed_as fs zero spec raw ms doc\<close>: the bytes are the object \<open>ms\<close>, whose members are the required
  ones and perhaps optional ones, all of them named fields of \<open>fs\<close>, and \<open>doc\<close> is what they decode to.
\<close>

definition typed_as :: "'r field_spec list \<Rightarrow> 'r \<Rightarrow> payloadSpec \<Rightarrow> bytes \<Rightarrow> document \<Rightarrow> 'r \<Rightarrow> bool" where
  "typed_as fs zero spec raw ms doc \<longleftrightarrow>
     parse_json raw = Some (JObj ms) \<and> distinct (map fst ms) \<and> inspectPayloadValue (JObj ms) = None
     \<and> set (ps_RequiredKeys spec) \<subseteq> set (map fst ms) \<and> set (map fst ms) \<subseteq> fst ` set fs
     \<and> decodeExactOne (dec_struct True fs) zero raw = Inr doc"

lemma typed_member:
  assumes "typed_as fs zero spec raw ms doc" "carries fs k get dec" "k \<in> set (ps_RequiredKeys spec)"
  shows "\<exists>j. map_of ms k = Some j \<and> inspectPayloadValue j = None \<and> dec (get zero) j = Some (get doc)"
proof -
  obtain j where j: "map_of ms k = Some j" "(k, j) \<in> set ms"
    using assms(1,3) unfolding typed_as_def by (metis in_mono map_of_SomeD map_of_eq_None_iff not_None_eq set_map)
  then have "inspectPayloadValue j = None" using assms(1) by (auto simp: typed_as_def inspect_members_None)
  moreover have "dec (get zero) j = Some (get doc)"
    using assms(1,2) j(2) unfolding typed_as_def by (blast intro: decodeExactOne_field)
  ultimately show ?thesis using j(1) by blast
qed

lemma accepted_typed:
  assumes "ValidatePayload up selected raw = Inr p" "vp_OperationError p = None"
    and "map_of (payloadRegistry up) selected = Some spec" "ps_Validate spec = validateWith fs zero check"
    and "set (ps_RequiredKeys spec @ ps_OptionalKeys spec) \<subseteq> fst ` set fs"
  obtains ms doc where "typed_as fs zero spec raw ms doc" "check doc = None"
    "exactStringField ms ''command'' (pt_Command selected) = None"
proof -
  obtain ms where ms: "parse_json raw = Some (JObj ms)" "unique_keys (JObj ms)"
      "inspectPayloadValue (JObj ms) = None" "validateDocument spec selected raw ms = Inr p"
    using assms(1,3) by (auto simp: ValidatePayload_iff)
  have v: "exactStringField ms ''command'' (pt_Command selected) = None"
      "validateRequiredAndAllowedKeySet ms (ps_RequiredKeys spec) (ps_OptionalKeys spec) = None"
      "ps_Validate spec raw = None"
    using validateDocument_cases [OF ms(4)] assms(2) by auto
  then obtain doc where d: "decodeExactOne (dec_struct True fs) zero raw = Inr doc" "check doc = None"
    unfolding assms(4) validateWith_None decodePayload_def by (auto split: sum.splits)
  have "typed_as fs zero spec raw ms doc"
    using ms v(2) d(1) assms(5) unfolding typed_as_def KeySet_None by auto
  with d v that show thesis by blast
qed

lemma decoded_true:
  "dec_bool old j = Some True \<Longrightarrow> \<not> old \<Longrightarrow> j = JBool True"
  by (auto simp: dec_bool_def split: json.splits)

lemma decoded_text:
  "dec_string [] j = Some s \<Longrightarrow> inspectPayloadValue j = None \<Longrightarrow> j = JStr s"
  by (auto simp: dec_string_def split: json.splits)

lemma decoded_texts:
  assumes "dec_list dec_string [] [] j = Some xs" "inspectPayloadValue j = None"
  shows "j = JArr (map JStr xs)"
proof -
  obtain vs where vs: "j = JArr vs" using assms by (cases j) (auto simp: dec_list_def)
  with assms(2) have "\<forall>w\<in>set vs. w \<noteq> JNull" by auto
  with assms(1) vs show ?thesis using dec_list_strings [of j xs vs] by simp
qed

lemma factoryReset_document:
  assumes "ValidatePayload up (tuple ''factory-reset plan'') raw = Inr p" "vp_OperationError p = None"
  shows "\<exists>ms items. parse_json raw = Some (JObj ms) \<and> map_of ms ''preserve'' = Some (JArr (map JStr items))
    \<and> set preservedItems \<subseteq> set items \<and> distinct items"
proof -
  let ?spec = "lifecyclePlanSpec ''factory-reset plan''"
  have reg: "map_of (payloadRegistry up) (tuple ''factory-reset plan'') = Some ?spec"
    by (simp add: payloadRegistry_def tuple_def)
  have val: "ps_Validate ?spec = validateWith lifecyclePlan_fields lifecyclePlanPayload0 check_lifecyclePlan"
    by (simp add: lifecyclePlanSpec_def base_spec_def validateLifecyclePlanPayload_def)
  obtain ms doc where ms: "typed_as lifecyclePlan_fields lifecyclePlanPayload0 ?spec raw ms doc"
      "check_lifecyclePlan doc = None" "exactStringField ms ''command'' (pt_Command (tuple ''factory-reset plan'')) = None"
    by (rule accepted_typed [OF assms reg val]) (simp add: lifecyclePlanSpec_def base_spec_def lifecyclePlan_fields_def)
  have "carries lifecyclePlan_fields ''command'' pn_Command dec_string"
    by (simp add: carries_def lifecyclePlan_fields_def)
  from typed_member [OF ms(1) this] ms(3) have cmd: "pn_Command doc = ''factory-reset plan''"
    by (auto simp: exactStringField_None tuple_def lifecyclePlanSpec_def base_spec_def lifecyclePlanPayload0_def)
  have "carries lifecyclePlan_fields ''preserve'' pn_Preserve (dec_list dec_string [])"
    by (simp add: carries_def lifecyclePlan_fields_def)
  from typed_member [OF ms(1) this] obtain j where "map_of ms ''preserve'' = Some j"
      "inspectPayloadValue j = None" "dec_list dec_string [] [] j = Some (pn_Preserve doc)"
    by (auto simp: lifecyclePlanSpec_def base_spec_def lifecyclePlanPayload0_def)
  moreover from this have "j = JArr (map JStr (pn_Preserve doc))" by (blast intro: decoded_texts)
  moreover have "set preservedItems \<subseteq> set (pn_Preserve doc)" "distinct (pn_Preserve doc)"
    using ms(2) cmd by (auto simp: check_lifecyclePlan_def check_factoryReset_def)
  ultimately show ?thesis using ms(1) by (auto simp: typed_as_def)
qed

lemma backupVerify_document:
  assumes "ValidatePayload up (tuple ''backup verify'') raw = Inr p" "vp_OperationError p = None"
  shows "\<exists>ms. parse_json raw = Some (JObj ms) \<and> map_of ms ''result'' = Some (JStr ''VERIFIED'')
    \<and> map_of ms ''authenticated'' = Some (JBool True) \<and> map_of ms ''checksumValid'' = Some (JBool True)
    \<and> map_of ms ''keyMatch'' = Some (JBool True) \<and> map_of ms ''releaseCompatibility'' = Some (JStr ''COMPATIBLE'')"
proof -
  obtain spec where reg: "map_of (payloadRegistry up) (tuple ''backup verify'') = Some spec"
    and val: "ps_Validate spec = validateWith backupVerify_fields backupVerifyPayload0 check_backupVerify"
    and keys: "set (ps_RequiredKeys spec @ ps_OptionalKeys spec) \<subseteq> fst ` set backupVerify_fields"
    and req: "{''result'', ''authenticated'', ''checksumValid'', ''keyMatch'', ''releaseCompatibility''} \<subseteq> set (ps_RequiredKeys spec)"
    by (simp add: payloadRegistry_def tuple_def base_spec_def validateBackupVerifyPayload_def backupVerify_fields_def)
  obtain ms doc where ms: "typed_as backupVerify_fields backupVerifyPayload0 spec raw ms doc" "check_backupVerify doc = None"
    using accepted_typed [OF assms reg val keys] by blast
  have ok: "bv_Result doc = ''VERIFIED''" "bv_Authenticated doc" "bv_ChecksumValid doc" "bv_KeyMatch doc"
      "bv_ReleaseCompatibility doc = ''COMPATIBLE''"
    using ms(2) by (simp_all add: check_backupVerify_def)
  note member = typed_member [OF ms(1)]
  have c: "carries backupVerify_fields ''result'' bv_Result dec_string"
      "carries backupVerify_fields ''authenticated'' bv_Authenticated dec_bool"
      "carries backupVerify_fields ''checksumValid'' bv_ChecksumValid dec_bool"
      "carries backupVerify_fields ''keyMatch'' bv_KeyMatch dec_bool"
      "carries backupVerify_fields ''releaseCompatibility'' bv_ReleaseCompatibility dec_string"
    by (simp_all add: carries_def backupVerify_fields_def)
  have z: "bv_Result backupVerifyPayload0 = []" "bv_ReleaseCompatibility backupVerifyPayload0 = []"
      "\<not> bv_Authenticated backupVerifyPayload0" "\<not> bv_ChecksumValid backupVerifyPayload0" "\<not> bv_KeyMatch backupVerifyPayload0"
    by (simp_all add: backupVerifyPayload0_def)
  show ?thesis
    using member [OF c(1)] member [OF c(2)] member [OF c(3)] member [OF c(4)] member [OF c(5)] req ok z ms(1)
    by (auto simp: typed_as_def dest!: decoded_text decoded_true)
qed

end
