(* ===== verification/Backend.thy ===== *)
theory Backend
  imports Payload
begin

section \<open>The adapter to the host lifecycle backend (\<open>pkg/backend/backend.go\<close>)\<close>

text \<open>
  The allowlist of backend argument vectors, the contract handshake, and the two invocation paths.

  The operating system and the backend behind it are the record \<open>host\<close>: what a spawn yields, as a
  function of the spawns before it, and what the entropy source yields. A Go function that spawns
  takes the log of the spawns so far and returns the extended log, so that the order of spawns is part
  of every result. A pair \<open>(*Result, error)\<close> is a pair of options, because one path returns both.
\<close>

subsection \<open>The argument allowlist\<close>

definition executablePath :: string where
  "executablePath = ''/usr/libexec/loxilb-appliance/loxilb-appliance-backend''"

definition CodeBackendUnavailable :: string where "CodeBackendUnavailable = ''BACKEND_UNAVAILABLE''"
definition CodeBackendForbidden :: string where "CodeBackendForbidden = ''BACKEND_FORBIDDEN''"

definition backendWaitDelay :: int where "backendWaitDelay = 2 * 1000000000"

definition contractAPIPrefix :: string where "contractAPIPrefix = ''loxilb.io/appliance-backend/v''"

definition codeBackendReleaseMarkerMissing :: string where
  "codeBackendReleaseMarkerMissing = ''BACKEND_RELEASE_MARKER_MISSING''"
definition codeBackendReleaseMarkerInvalid :: string where
  "codeBackendReleaseMarkerInvalid = ''BACKEND_RELEASE_MARKER_INVALID''"
definition codeBackendContractInvalid :: string where
  "codeBackendContractInvalid = ''BACKEND_CONTRACT_INVALID''"
definition codeBackendHandshakeUnavailable :: string where
  "codeBackendHandshakeUnavailable = ''BACKEND_HANDSHAKE_UNAVAILABLE''"

lemmas component_codes = CodeBackendUnavailable_def CodeBackendForbidden_def codeBackendReleaseMarkerMissing_def
  codeBackendReleaseMarkerInvalid_def codeBackendContractInvalid_def codeBackendHandshakeUnavailable_def

record argvRule =
  ar_positionals :: nat
  ar_minPositionals :: nat
  ar_flags :: "string list"
  ar_mutating :: bool
  ar_stdinSecret :: bool

definition argvRule0 :: argvRule where
  "argvRule0 = \<lparr>ar_positionals = 0, ar_minPositionals = 0, ar_flags = [], ar_mutating = False, ar_stdinSecret = False\<rparr>"

definition allowedArgv :: "(string \<times> argvRule) list" where
  "allowedArgv =
    [(''contract-version'', argvRule0),
     (''status'', argvRule0),
     (''network validate'', argvRule0),
     (''public-address configure'', argvRule0\<lparr>ar_positionals := 1, ar_flags := [''--no-restart''], ar_mutating := True\<rparr>),
     (''gateway register-local'', argvRule0\<lparr>ar_flags := [''--username='', ''--password-stdin''], ar_mutating := True, ar_stdinSecret := True\<rparr>),
     (''credentials bootstrap'', argvRule0\<lparr>ar_mutating := True\<rparr>),
     (''diagnostics create'', argvRule0\<lparr>ar_flags := [''--redact'', ''--output=''], ar_mutating := True\<rparr>),
     (''logs'', argvRule0\<lparr>ar_positionals := 1, ar_flags := [''--redact'', ''--since='', ''--lines=''], ar_mutating := True\<rparr>),
     (''backup key-create'', argvRule0\<lparr>ar_flags := [''--key-file=''], ar_mutating := True\<rparr>),
     (''backup create'', argvRule0\<lparr>ar_positionals := 1, ar_flags := [''--key-file=''], ar_mutating := True\<rparr>),
     (''backup verify'', argvRule0\<lparr>ar_positionals := 1, ar_flags := [''--key-file=''], ar_mutating := True\<rparr>),
     (''restore plan'', argvRule0\<lparr>ar_positionals := 1, ar_minPositionals := 1, ar_flags := [''--key-file='']\<rparr>),
     (''restore execute'', argvRule0\<lparr>ar_flags := [''--plan-hash='', ''--confirm=''], ar_mutating := True\<rparr>),
     (''update plan'', argvRule0\<lparr>ar_positionals := 1, ar_minPositionals := 1\<rparr>),
     (''update execute'', argvRule0\<lparr>ar_flags := [''--plan-hash='', ''--confirm=''], ar_mutating := True\<rparr>),
     (''update status'', argvRule0\<lparr>ar_positionals := 1, ar_minPositionals := 1\<rparr>),
     (''rollback plan'', argvRule0\<lparr>ar_positionals := 1, ar_minPositionals := 1, ar_flags := [''--archive='', ''--key-file='']\<rparr>),
     (''rollback execute'', argvRule0\<lparr>ar_flags := [''--plan-hash='', ''--confirm=''], ar_mutating := True\<rparr>),
     (''rollback status'', argvRule0\<lparr>ar_positionals := 1, ar_minPositionals := 1\<rparr>),
     (''factory-reset plan'', argvRule0),
     (''factory-reset execute'', argvRule0\<lparr>ar_flags := [''--plan-hash='', ''--confirm=''], ar_mutating := True\<rparr>)]"

definition takes_value :: "string \<Rightarrow> bool" where
  "takes_value flag = has_suffix ''='' flag"

definition flag_matches :: "string \<Rightarrow> string \<Rightarrow> bool" where
  "flag_matches token flag = (if takes_value flag then token = trim_suffix ''='' flag else token = flag)"

fun validate_flags :: "string list \<Rightarrow> string list \<Rightarrow> msg option" where
  "validate_flags flags [] = None"
| "validate_flags flags (token # rest) =
     (case find (flag_matches token) flags of
        None \<Rightarrow> Some (Sprintf ''token %q is not in the allowlist'' [AStr token])
      | Some flag \<Rightarrow>
          if takes_value flag then
            (case rest of
               [] \<Rightarrow> Some (Sprintf ''flag %s needs a value'' [AStr token])
             | _ # rest' \<Rightarrow> validate_flags flags rest')
          else validate_flags flags rest)"

definition is_positional :: "string \<Rightarrow> bool" where
  "is_positional arg = (\<not> has_prefix ''-'' arg)"

definition argvRule_validate :: "argvRule \<Rightarrow> string list \<Rightarrow> msg option" where
  "argvRule_validate r args =
     (let i = length (takeWhile is_positional args) in
      if i > ar_positionals r then
        Some (Sprintf ''%d positional argument(s), at most %d allowed'' [AInt (int i), AInt (int (ar_positionals r))])
      else if i < ar_minPositionals r then
        Some (Sprintf ''%d positional argument(s), at least %d required'' [AInt (int i), AInt (int (ar_minPositionals r))])
      else validate_flags (ar_flags r) (drop i args))"

subsection \<open>The contract\<close>

definition em_dash :: string where "em_dash = [CHR 0xE2, CHR 0x80, CHR 0x94]"

record contractCommand =
  cc_Name :: string
  cc_ReadOnly :: bool
  cc_Capabilities :: "string list"

record contract =
  co_APIVersion :: string
  co_Kind :: string
  co_BackendVersion :: string
  co_ProductRelease :: string
  co_SchemaVersion :: string
  co_Commands :: "contractCommand list"

definition legacyContractCommandCount :: nat where "legacyContractCommandCount = 10"

definition command_row :: "string \<Rightarrow> bool \<Rightarrow> string list \<Rightarrow> contractCommand" where
  "command_row name ro caps = \<lparr>cc_Name = name, cc_ReadOnly = ro, cc_Capabilities = caps\<rparr>"

definition contractCommands :: "contractCommand list" where
  "contractCommands =
    [command_row ''status'' True [''json-output''],
     command_row ''network validate'' True [''json-output''],
     command_row ''public-address configure'' False [''json-output'', ''no-restart'', ''operation-receipt''],
     command_row ''gateway register-local'' False [''json-output'', ''secret-stdin'', ''operation-receipt''],
     command_row ''credentials bootstrap'' False [''console-only''],
     command_row ''diagnostics create'' False [''json-output'', ''redaction'', ''explicit-output'', ''operation-receipt''],
     command_row ''logs'' False [''json-output'', ''redaction'', ''bounded-window''],
     command_row ''backup key-create'' False [''json-output'', ''key-file'', ''operation-receipt''],
     command_row ''backup create'' False [''json-output'', ''key-file'', ''operation-receipt''],
     command_row ''backup verify'' False [''json-output'', ''key-file''],
     command_row ''restore plan'' True [''json-output'', ''archive'', ''key-file'', ''plan-hash''],
     command_row ''restore execute'' False [''json-output'', ''plan-hash'', ''one-time-challenge'', ''operation-receipt''],
     command_row ''update plan'' True [''json-output'', ''signed-bundle'', ''plan-hash''],
     command_row ''update execute'' False [''json-output'', ''plan-hash'', ''one-time-challenge'', ''operation-receipt''],
     command_row ''update status'' True [''json-output'', ''operation-status''],
     command_row ''rollback plan'' True [''json-output'', ''approved-release'', ''archive'', ''key-file'', ''plan-hash''],
     command_row ''rollback execute'' False [''json-output'', ''plan-hash'', ''one-time-challenge'', ''operation-receipt''],
     command_row ''rollback status'' True [''json-output'', ''operation-status''],
     command_row ''factory-reset plan'' True [''json-output'', ''preservation-plan'', ''plan-hash''],
     command_row ''factory-reset execute'' False [''json-output'', ''plan-hash'', ''one-time-challenge'', ''operation-receipt'']]"

definition Contract_Lookup :: "contract \<Rightarrow> string \<Rightarrow> contractCommand option" where
  "Contract_Lookup c name = find (\<lambda>cmd. cc_Name cmd = name) (co_Commands c)"

definition Contract_Supports :: "contract \<Rightarrow> string \<Rightarrow> bool" where
  "Contract_Supports c name = (Contract_Lookup c name \<noteq> None)"

definition contractViolation :: "msg \<Rightarrow> cliError" where
  "contractViolation m = CLIError0\<lparr>ce_Code := ContractMismatch, ce_Message := m, ce_Origin := ''backend'',
     ce_ComponentCode := codeBackendContractInvalid\<rparr>"

fun check_capabilities :: "string \<Rightarrow> string list \<Rightarrow> string list \<Rightarrow> cliError option" where
  "check_capabilities name seen [] = None"
| "check_capabilities name seen (capability # rest) =
     (if \<not> capabilityShape capability then
        Some (contractViolation (Sprintf ''command %q advertises malformed capability %q'' [AStr name, AStr capability]))
      else if capability \<in> set seen then
        Some (contractViolation (Sprintf ''command %q advertises duplicate capability %q'' [AStr name, AStr capability]))
      else check_capabilities name (capability # seen) rest)"

fun equalStrings :: "string list \<Rightarrow> string list \<Rightarrow> bool" where
  "equalStrings [] [] = True"
| "equalStrings (x # xs) (y # ys) = (x = y \<and> equalStrings xs ys)"
| "equalStrings _ _ = False"

fun check_commands :: "nat \<Rightarrow> string list \<Rightarrow> contractCommand list \<Rightarrow> cliError option" where
  "check_commands index seen [] = None"
| "check_commands index seen (cmd # rest) =
     (if \<not> commandNameShape (cc_Name cmd) then
        Some (contractViolation (Sprintf ''contract advertises malformed command name %q'' [AStr (cc_Name cmd)]))
      else if cc_Name cmd \<in> set seen then
        Some (contractViolation (Sprintf ''contract advertises duplicate command %q'' [AStr (cc_Name cmd)]))
      else case check_capabilities (cc_Name cmd) [] (cc_Capabilities cmd) of
        Some e \<Rightarrow> Some e
      | None \<Rightarrow>
          (let want = contractCommands ! index in
           if cc_Name cmd \<noteq> cc_Name want \<or> cc_ReadOnly cmd \<noteq> cc_ReadOnly want
              \<or> \<not> equalStrings (cc_Capabilities cmd) (cc_Capabilities want)
           then Some (contractViolation (Sprintf ''command metadata at index %d differs from the approved matrix'' [AInt (int index)]))
           else check_commands (Suc index) (cc_Name cmd # seen) rest))"

definition Contract_validate :: "contract \<Rightarrow> cliError option" where
  "Contract_validate c =
     (if co_Kind c \<noteq> ''BackendContract'' then
        Some (contractViolation (Sprintf ''contract kind is %q, want BackendContract'' [AStr (co_Kind c)]))
      else if \<not> apiVersionShape (co_APIVersion c) then
        Some (contractViolation (Sprintf ''contract apiVersion %q is malformed'' [AStr (co_APIVersion c)]))
      else if co_BackendVersion c = [] \<or> co_ProductRelease c = [] then
        Some (contractViolation (Text ''contract omits backendVersion or productRelease''))
      else if co_SchemaVersion c \<noteq> payloadSchema then
        Some (contractViolation (Sprintf ''contract schemaVersion %q is invalid'' [AStr (co_SchemaVersion c)]))
      else if co_APIVersion c \<noteq> contractAPIPrefix @ show_int contractMajor then
        Some (CLIError0\<lparr>ce_Code := ContractMismatch,
          ce_Message := Sprintf (''the installed backend speaks %s; this CLI speaks %s%d '' @ em_dash @ '' use a matching release'')
            [AStr (co_APIVersion c), AStr contractAPIPrefix, AInt contractMajor],
          ce_Origin := ''backend'', ce_ComponentCode := ''contract-major-unsupported''\<rparr>)
      else if length (co_Commands c) \<noteq> legacyContractCommandCount \<and> length (co_Commands c) \<noteq> length contractCommands then
        Some (contractViolation (Sprintf ''contract advertises %d commands, want the legacy %d-command prefix or the complete %d-command matrix''
          [AInt (int (length (co_Commands c))), AInt (int legacyContractCommandCount), AInt (int (length contractCommands))]))
      else check_commands 0 [] (co_Commands c))"

definition requireAdvertisedCommand :: "contract \<Rightarrow> string \<Rightarrow> bool \<Rightarrow> cliError option" where
  "requireAdvertisedCommand contract name readOnly =
     (case Contract_Lookup contract name of
        None \<Rightarrow> Some (contractViolation (Sprintf ''the installed backend does not advertise %q'' [AStr name]))
      | Some advertised \<Rightarrow>
          failIf (case find (\<lambda>cmd. cc_Name cmd = name) contractCommands of
                    None \<Rightarrow> True
                  | Some expected \<Rightarrow> cc_ReadOnly expected \<noteq> readOnly \<or> cc_ReadOnly advertised \<noteq> cc_ReadOnly expected
                      \<or> \<not> equalStrings (cc_Capabilities advertised) (cc_Capabilities expected))
            (contractViolation (Sprintf ''the installed backend metadata for %q differs from the approved matrix'' [AStr name])))"

subsection \<open>Decoding the handshake document\<close>

record contractCommandWire =
  cw_Name :: "string option"
  cw_ReadOnly :: "bool option"
  cw_Capabilities :: "string list option"

record contractWire =
  wi_APIVersion :: "string option"
  wi_Kind :: "string option"
  wi_BackendVersion :: "string option"
  wi_ProductRelease :: "string option"
  wi_SchemaVersion :: "string option"
  wi_Commands :: "contractCommandWire list option"

record backendContractErrorWire =
  ew_SchemaVersion :: "string option"
  ew_Exit :: "int option"
  ew_Code :: "string option"
  ew_ComponentCode :: "string option"
  ew_Retryable :: "bool option"
  ew_Message :: "string option"

definition contractCommandWire0 :: contractCommandWire where
  "contractCommandWire0 = \<lparr>cw_Name = None, cw_ReadOnly = None, cw_Capabilities = None\<rparr>"

definition contractWire0 :: contractWire where
  "contractWire0 = \<lparr>wi_APIVersion = None, wi_Kind = None, wi_BackendVersion = None, wi_ProductRelease = None,
     wi_SchemaVersion = None, wi_Commands = None\<rparr>"

definition backendContractErrorWire0 :: backendContractErrorWire where
  "backendContractErrorWire0 = \<lparr>ew_SchemaVersion = None, ew_Exit = None, ew_Code = None, ew_ComponentCode = None,
     ew_Retryable = None, ew_Message = None\<rparr>"

definition contractCommandWire_fields :: "contractCommandWire field_spec list" where
  "contractCommandWire_fields =
    [fld ''name'' cw_Name cw_Name_update (dec_ptr dec_string []),
     fld ''readOnly'' cw_ReadOnly cw_ReadOnly_update (dec_ptr dec_bool False),
     fld ''capabilities'' cw_Capabilities cw_Capabilities_update (dec_ptr (dec_list dec_string []) [])]"

definition contractWire_fields :: "contractWire field_spec list" where
  "contractWire_fields =
    [fld ''apiVersion'' wi_APIVersion wi_APIVersion_update (dec_ptr dec_string []),
     fld ''kind'' wi_Kind wi_Kind_update (dec_ptr dec_string []),
     fld ''backendVersion'' wi_BackendVersion wi_BackendVersion_update (dec_ptr dec_string []),
     fld ''productRelease'' wi_ProductRelease wi_ProductRelease_update (dec_ptr dec_string []),
     fld ''schemaVersion'' wi_SchemaVersion wi_SchemaVersion_update (dec_ptr dec_string []),
     fld ''commands'' wi_Commands wi_Commands_update
       (dec_ptr (dec_list (dec_struct True contractCommandWire_fields) contractCommandWire0) [])]"

definition backendContractErrorWire_fields :: "backendContractErrorWire field_spec list" where
  "backendContractErrorWire_fields =
    [fld ''schemaVersion'' ew_SchemaVersion ew_SchemaVersion_update (dec_ptr dec_string []),
     fld ''exit'' ew_Exit ew_Exit_update (dec_ptr dec_int 0),
     fld ''code'' ew_Code ew_Code_update (dec_ptr dec_string []),
     fld ''componentCode'' ew_ComponentCode ew_ComponentCode_update (dec_ptr dec_string []),
     fld ''retryable'' ew_Retryable ew_Retryable_update (dec_ptr dec_bool False),
     fld ''message'' ew_Message ew_Message_update (dec_ptr dec_string [])]"

fun decode_commands :: "nat \<Rightarrow> contractCommandWire list \<Rightarrow> msg + contractCommand list" where
  "decode_commands index [] = Inr []"
| "decode_commands index (command # rest) =
     (case (cw_Name command, cw_ReadOnly command, cw_Capabilities command) of
        (Some name, Some readOnly, Some capabilities) \<Rightarrow>
          (case decode_commands (Suc index) rest of
             Inl e \<Rightarrow> Inl e
           | Inr cs \<Rightarrow> Inr (\<lparr>cc_Name = name, cc_ReadOnly = readOnly, cc_Capabilities = capabilities\<rparr> # cs))
      | _ \<Rightarrow> Inl (Sprintf ''contract command at index %d omits or nulls a required field'' [AInt (int index)]))"

definition decodeContract :: "bytes \<Rightarrow> msg + contract" where
  "decodeContract raw =
     (case decodeExactOne (dec_struct True contractWire_fields) contractWire0 raw of
        Inl e \<Rightarrow> Inl e
      | Inr wire \<Rightarrow>
          (case (wi_APIVersion wire, wi_Kind wire, wi_BackendVersion wire, wi_ProductRelease wire, wi_SchemaVersion wire, wi_Commands wire) of
             (Some apiVersion, Some kind, Some backendVersion, Some productRelease, Some schemaVersion, Some commands) \<Rightarrow>
               (case decode_commands 0 commands of
                  Inl e \<Rightarrow> Inl e
                | Inr cs \<Rightarrow> Inr \<lparr>co_APIVersion = apiVersion, co_Kind = kind, co_BackendVersion = backendVersion,
                    co_ProductRelease = productRelease, co_SchemaVersion = schemaVersion, co_Commands = cs\<rparr>)
           | _ \<Rightarrow> Inl (Text ''contract omits or nulls a required field'')))"

text \<open>
  \<open>unicode.IsControl\<close> on the runes of a decoded text, which is valid UTF-8: the C0 range, DEL, and the
  C1 range, whose encodings are the lead byte 0xC2 followed by 0x80 to 0x9F.
\<close>

fun has_control_rune :: "string \<Rightarrow> bool" where
  "has_control_rune [] = False"
| "has_control_rune (c # cs) =
     (is_control c \<or> (c = CHR 0xC2 \<and> cs \<noteq> [] \<and> 128 \<le> byte (hd cs) \<and> byte (hd cs) < 160) \<or> has_control_rune cs)"

definition check_contractErrorMessage :: "string \<Rightarrow> bool \<Rightarrow> msg option" where
  "check_contractErrorMessage message present =
     (if message \<noteq> [] then
        (if length message > 512 then Some (Text ''typed contract error message exceeds 512 UTF-8 bytes'')
         else if has_control_rune message then Some (Text ''typed contract error message contains a control character'')
         else if prohibited_text message then Some (Text ''typed contract error message contains prohibited credential material'')
         else None)
      else if present then Some (Text ''typed contract error message is empty'')
      else None)"

definition wantContractError :: "string \<Rightarrow> int \<Rightarrow> string \<times> bool" where
  "wantContractError componentCode exit =
     (if componentCode = codeBackendReleaseMarkerMissing then
        (if exit = Precondition then (Label Precondition, False) else ([], False))
      else if componentCode = codeBackendReleaseMarkerInvalid \<or> componentCode = codeBackendContractInvalid then
        (if exit = ContractMismatch then (Label ContractMismatch, False) else ([], False))
      else if componentCode = codeBackendHandshakeUnavailable then
        (if exit = Unavailable then (Label Unavailable, True) else ([], False))
      else ([], False))"

definition decodeBackendContractError :: "bytes \<Rightarrow> msg + backendContractError" where
  "decodeBackendContractError raw =
     (case decodeExactOne (dec_struct True backendContractErrorWire_fields) backendContractErrorWire0 raw of
        Inl e \<Rightarrow> Inl e
      | Inr wire \<Rightarrow>
          (case (ew_SchemaVersion wire, ew_Exit wire, ew_Code wire, ew_ComponentCode wire, ew_Retryable wire) of
             (Some schemaVersion, Some exit, Some code, Some componentCode, Some retryable) \<Rightarrow>
               (let message = (case ew_Message wire of None \<Rightarrow> [] | Some m \<Rightarrow> m);
                    (wantCode, wantRetryable) = wantContractError componentCode exit in
                if schemaVersion \<noteq> ''backend-contract-error/v1'' then
                  Inl (Sprintf ''typed contract error schemaVersion %q is unsupported'' [AStr schemaVersion])
                else (case check_contractErrorMessage message (ew_Message wire \<noteq> None) of
                        Some e \<Rightarrow> Inl e
                      | None \<Rightarrow>
                          if wantCode = [] \<or> code \<noteq> wantCode \<or> retryable \<noteq> wantRetryable then
                            Inl (Text ''typed contract error tuple is not one of the approved failures'')
                          else Inr \<lparr>bce_SchemaVersion = schemaVersion, bce_Exit = exit, bce_Code = code,
                                 bce_ComponentCode = componentCode, bce_Retryable = retryable, bce_Message = message\<rparr>))
           | _ \<Rightarrow> Inl (Text ''typed contract error omits a required field'')))"

subsection \<open>Spawning\<close>

record spawn =
  sw_path :: string
  sw_argv :: "string list"
  sw_env :: "string list"
  sw_stdin :: "bytes option"
  sw_setpgid :: bool
  sw_waitDelay :: int

text \<open>
  How \<open>cmd.Run\<close> ends: \<open>nil\<close>, \<open>exec.ErrWaitDelay\<close>, an \<open>exec.ExitError\<close> with its \<open>ExitCode\<close>
  (-1 for a process killed by a signal, never 0), an error that is \<open>fs.ErrPermission\<close>, another error.
\<close>

datatype run_error = RunNil | RunWaitDelay | RunExit int | RunPermission | RunOther

record run_outcome =
  oc_stdout :: bytes
  oc_stderr :: bytes
  oc_ctxDone :: bool
  oc_run :: run_error

record host =
  ho_run :: "spawn list \<Rightarrow> spawn \<Rightarrow> run_outcome"
  ho_entropy :: "spawn list \<Rightarrow> bytes option"

record degradedResult =
  dr_Degraded :: bool
  dr_Reason :: string
  dr_HandshakeStatus :: int
  dr_OperationAttempted :: bool
  dr_BackendExitStatus :: int
  dr_RetryGuidance :: string
  dr_CorrelationID :: string

record backendResult =
  rs_Stdout :: bytes
  rs_Stderr :: bytes
  rs_ExitCode :: int
  rs_CorrelationID :: string
  rs_Signaled :: bool
  rs_TimedOut :: bool
  rs_Degraded :: "degradedResult option"

definition Result0 :: backendResult where
  "Result0 = \<lparr>rs_Stdout = [], rs_Stderr = [], rs_ExitCode = 0, rs_CorrelationID = [], rs_Signaled = False,
     rs_TimedOut = False, rs_Degraded = None\<rparr>"

record operationIdDoc =
  od_OperationID :: string

text \<open>\<open>json.Unmarshal\<close> checks the whole text first, and ignores members that are no field.\<close>

definition Result_OperationID :: "backendResult \<Rightarrow> string" where
  "Result_OperationID r =
     (case Option.bind (parse_json (rs_Stdout r))
             (dec_struct False [fld ''operationId'' od_OperationID od_OperationID_update dec_string] \<lparr>od_OperationID = []\<rparr>) of
        Some doc \<Rightarrow> if od_OperationID doc \<noteq> [] then od_OperationID doc else rs_CorrelationID r
      | None \<Rightarrow> rs_CorrelationID r)"

definition hex_encode :: "bytes \<Rightarrow> string" where
  "hex_encode bs = concat (map (\<lambda>c. [hex_digit (byte c div 16), hex_digit (byte c mod 16)]) bs)"

definition newCorrelationID :: "bytes option \<Rightarrow> string" where
  "newCorrelationID entropy =
     (case entropy of None \<Rightarrow> ''cli-0000000000000000'' | Some b \<Rightarrow> ''cli-'' @ hex_encode b)"

definition spawn_for :: "string list \<Rightarrow> bytes option \<Rightarrow> spawn" where
  "spawn_for argv stdin = \<lparr>sw_path = executablePath, sw_argv = argv, sw_env = [], sw_stdin = stdin,
     sw_setpgid = True, sw_waitDelay = backendWaitDelay\<rparr>"

text \<open>What \<open>runWithStdin\<close> makes of the way the process ended.\<close>

definition run_verdict :: "run_outcome \<Rightarrow> cliError + backendResult" where
  "run_verdict oc =
     (let res = Result0\<lparr>rs_Stdout := oc_stdout oc, rs_Stderr := oc_stderr oc, rs_TimedOut := oc_ctxDone oc\<rparr> in
      case oc_run oc of
        RunNil \<Rightarrow> Inr res
      | RunWaitDelay \<Rightarrow> Inr res
      | RunExit n \<Rightarrow> Inr (res\<lparr>rs_ExitCode := n, rs_Signaled := (n < 0)\<rparr>)
      | RunPermission \<Rightarrow> Inl (CLIError0\<lparr>ce_Code := Auth,
          ce_Message := Sprintf ''the host lifecycle backend cannot be executed by this user: %v; appliance commands run as root'' [AErr ''os/exec''],
          ce_Origin := ''os'', ce_ComponentCode := CodeBackendForbidden\<rparr>)
      | RunOther \<Rightarrow> Inl (CLIError0\<lparr>ce_Code := Unavailable,
          ce_Message := Sprintf ''the host lifecycle backend could not be executed: %v'' [AErr ''os/exec''],
          ce_Origin := ''backend'', ce_ComponentCode := CodeBackendUnavailable\<rparr>))"

definition runWithStdin :: "host \<Rightarrow> string list \<Rightarrow> bytes option \<Rightarrow> spawn list \<Rightarrow> (cliError + backendResult) \<times> spawn list" where
  "runWithStdin h argv stdin log =
     (let s = spawn_for argv stdin in (run_verdict (ho_run h log s), log @ [s]))"

subsection \<open>Requests, the handshake and the two invocation paths\<close>

record request =
  rq_Subcommand :: string
  rq_Args :: "string list"
  rq_JSON :: bool
  rq_Secret :: "bytes option"

definition notAllowlisted :: "msg \<Rightarrow> cliError" where
  "notAllowlisted m = CLIError0\<lparr>ce_Code := ContractMismatch, ce_Message := m, ce_Origin := ''cli'',
     ce_ComponentCode := ''argv-not-allowlisted''\<rparr>"

definition validateRequest :: "request \<Rightarrow> bool \<Rightarrow> cliError option" where
  "validateRequest req mutating =
     (case map_of allowedArgv (rq_Subcommand req) of
        None \<Rightarrow> Some (notAllowlisted (Sprintf ''subcommand %q is not in this CLI's backend allowlist'' [AStr (rq_Subcommand req)]))
      | Some rule \<Rightarrow>
          if ar_mutating rule \<noteq> mutating then
            Some (notAllowlisted (Sprintf ''subcommand %q is not in this CLI's backend allowlist'' [AStr (rq_Subcommand req)]))
          else (case argvRule_validate rule (rq_Args req) of
             Some e \<Rightarrow> Some (notAllowlisted (Sprintf ''argv for %q rejected: %v'' [AStr (rq_Subcommand req), AMsg e]))
           | None \<Rightarrow> failIf (rq_Secret req \<noteq> None \<and> \<not> ar_stdinSecret rule)
               (notAllowlisted (Sprintf ''subcommand %q does not take a secret stream'' [AStr (rq_Subcommand req)]))))"

definition handshake_argv :: "string list" where
  "handshake_argv = [''contract-version'', ''--json'']"

definition handshake_verdict :: "cliError + backendResult \<Rightarrow> goerr + contract" where
  "handshake_verdict out =
     (case out of
        Inl e \<Rightarrow> Inl (ECLI e)
      | Inr res \<Rightarrow>
          if rs_ExitCode res \<noteq> 0 then
            (case decodeBackendContractError (rs_Stdout res) of
               Inl e \<Rightarrow> Inl (ECLI (contractViolation (Sprintf ''the backend's typed contract error is invalid: %v'' [AMsg e])))
             | Inr typed \<Rightarrow>
                 if bce_Exit typed \<noteq> rs_ExitCode res then
                   Inl (ECLI (contractViolation (Sprintf ''typed contract error exit %d does not match process exit %d''
                     [AInt (bce_Exit typed), AInt (rs_ExitCode res)])))
                 else Inl (EContract typed))
          else
            (case decodeContract (rs_Stdout res) of
               Inl e \<Rightarrow> Inl (ECLI (contractViolation (Sprintf ''the backend's contract document does not parse: %v'' [AMsg e])))
             | Inr contract \<Rightarrow>
                 (case Contract_validate contract of Some e \<Rightarrow> Inl (ECLI e) | None \<Rightarrow> Inr contract)))"

definition Handshake :: "host \<Rightarrow> spawn list \<Rightarrow> (goerr + contract) \<times> spawn list" where
  "Handshake h log =
     (case runWithStdin h handshake_argv None log of (out, log') \<Rightarrow> (handshake_verdict out, log'))"

definition operation_argv :: "request \<Rightarrow> string \<Rightarrow> string list" where
  "operation_argv req cid =
     Prelude.fields (rq_Subcommand req) @ rq_Args req @ [''--correlation-id'', cid] @ (if rq_JSON req then [''--json''] else [])"

definition invoke :: "host \<Rightarrow> request \<Rightarrow> bool \<Rightarrow> spawn list \<Rightarrow> (cliError + backendResult) \<times> spawn list" where
  "invoke h req mutating log =
     (case validateRequest req mutating of
        Some e \<Rightarrow> (Inl e, log)
      | None \<Rightarrow>
          (let cid = newCorrelationID (ho_entropy h log) in
           case runWithStdin h (operation_argv req cid) (rq_Secret req) log of
             (Inl e, log') \<Rightarrow> (Inl e, log')
           | (Inr res, log') \<Rightarrow> (Inr (res\<lparr>rs_CorrelationID := cid\<rparr>), log')))"

type_synonym invocation = "backendResult option \<times> goerr option \<times> spawn list"

definition answer :: "(cliError + backendResult) \<times> spawn list \<Rightarrow> invocation" where
  "answer p = (case p of (Inl e, log) \<Rightarrow> (None, Some (ECLI e), log) | (Inr res, log) \<Rightarrow> (Some res, None, log))"

definition allowsReadOnlyBestEffort :: "goerr \<Rightarrow> bool" where
  "allowsReadOnlyBestEffort err =
     (case as_CLIError err of
        None \<Rightarrow> True
      | Some c \<Rightarrow> ce_ComponentCode c \<noteq> CodeBackendUnavailable \<and> ce_ComponentCode c \<noteq> CodeBackendForbidden)"

definition retryGuidance :: "goerr \<Rightarrow> string" where
  "retryGuidance handshakeErr =
     (case as_ContractError handshakeErr of
        Some typed \<Rightarrow> if bce_Retryable typed then ''Retry with bounded backoff after the backend dependency recovers.''
                      else ''Correct the installed backend contract before retrying.''
      | None \<Rightarrow> ''Correct the installed backend contract before retrying.'')"

definition degrade :: "request \<Rightarrow> goerr \<Rightarrow> cliError + backendResult \<Rightarrow> backendResult" where
  "degrade req handshakeErr out =
     (let res = (case out of Inl _ \<Rightarrow> Result0 | Inr r \<Rightarrow> r);
          classified = Classify handshakeErr;
          res1 = res\<lparr>rs_Degraded := Some \<lparr>dr_Degraded = True, dr_Reason = ce_ComponentCode classified,
                   dr_HandshakeStatus = ce_Code classified, dr_OperationAttempted = True,
                   dr_BackendExitStatus = (case out of Inl _ \<Rightarrow> -1 | Inr _ \<Rightarrow> rs_ExitCode res),
                   dr_RetryGuidance = retryGuidance handshakeErr, dr_CorrelationID = rs_CorrelationID res\<rparr>\<rparr> in
      if rq_JSON req then res1\<lparr>rs_Stdout := [], rs_Stderr := []\<rparr> else res1)"

definition InvokeReadOnly :: "host \<Rightarrow> request \<Rightarrow> spawn list \<Rightarrow> invocation" where
  "InvokeReadOnly h req log =
     (case validateRequest req False of
        Some e \<Rightarrow> (None, Some (ECLI e), log)
      | None \<Rightarrow>
          (case Handshake h log of
             (Inr contract, log1) \<Rightarrow>
               (case requireAdvertisedCommand contract (rq_Subcommand req) True of
                  Some e \<Rightarrow> (None, Some (ECLI e), log1)
                | None \<Rightarrow> answer (invoke h req False log1))
           | (Inl handshakeErr, log1) \<Rightarrow>
               if \<not> allowsReadOnlyBestEffort handshakeErr then (None, Some handshakeErr, log1)
               else (case invoke h req False log1 of
                       (out, log2) \<Rightarrow> (Some (degrade req handshakeErr out), Some handshakeErr, log2))))"

definition Invoke :: "host \<Rightarrow> string \<Rightarrow> bool \<Rightarrow> spawn list \<Rightarrow> invocation" where
  "Invoke h subcommand jsonOut log =
     InvokeReadOnly h \<lparr>rq_Subcommand = subcommand, rq_Args = [], rq_JSON = jsonOut, rq_Secret = None\<rparr> log"

definition InvokeMutating :: "host \<Rightarrow> request \<Rightarrow> spawn list \<Rightarrow> invocation" where
  "InvokeMutating h req log =
     (case validateRequest req True of
        Some e \<Rightarrow> (None, Some (ECLI e), log)
      | None \<Rightarrow>
          (case Handshake h log of
             (Inl e, log1) \<Rightarrow> (None, Some e, log1)
           | (Inr contract, log1) \<Rightarrow>
               (case requireAdvertisedCommand contract (rq_Subcommand req) False of
                  Some e \<Rightarrow> (None, Some (ECLI e), log1)
                | None \<Rightarrow> answer (invoke h req True log1))))"

end
