(* ===== verification/BackendSafety.thy ===== *)
theory BackendSafety
  imports Backend
begin

section \<open>What the backend adapter guarantees\<close>

text \<open>
  The argument allowlist against a declarative grammar, the handshake against the approved command
  matrix, the agreement of the three tables (allowlist, matrix, payload registry), and the safety of
  every sequence of invocations, as an invariant of the log of spawns.
\<close>

subsection \<open>The argument grammar\<close>

definition flag_group :: "string list \<Rightarrow> string list \<Rightarrow> bool" where
  "flag_group flags g \<longleftrightarrow>
     (\<exists>f\<in>set flags. if takes_value f then \<exists>v. g = [trim_suffix ''='' f, v] else g = [f])"

definition argv_grammar :: "argvRule \<Rightarrow> string list \<Rightarrow> bool" where
  "argv_grammar r args \<longleftrightarrow>
     (\<exists>pos groups. args = pos @ concat groups \<and> (\<forall>a\<in>set pos. is_positional a)
        \<and> ar_minPositionals r \<le> length pos \<and> length pos \<le> ar_positionals r
        \<and> (\<forall>g\<in>set groups. flag_group (ar_flags r) g))"

text \<open>The tables' flags: each begins with a dash, and no token is two flags.\<close>

definition flag_token :: "string \<Rightarrow> string" where
  "flag_token f = (if takes_value f then trim_suffix ''='' f else f)"

definition rule_wf :: "argvRule \<Rightarrow> bool" where
  "rule_wf r \<longleftrightarrow> distinct (map flag_token (ar_flags r)) \<and> list_all (\<lambda>f. has_prefix ''-'' (flag_token f)) (ar_flags r)"

lemma flag_matches_token: "flag_matches t f \<longleftrightarrow> t = flag_token f"
  by (simp add: flag_matches_def flag_token_def)

lemma find_flag:
  assumes "distinct (map flag_token flags)" "f \<in> set flags"
  shows "find (flag_matches (flag_token f)) flags = Some f"
  using assms by (induction flags) (auto simp: flag_matches_token image_iff)

lemma validate_flags_sound:
  "validate_flags flags args = None \<Longrightarrow> \<exists>groups. args = concat groups \<and> (\<forall>g\<in>set groups. flag_group flags g)"
proof (induction flags args rule: validate_flags.induct)
  case (1 flags)
  show ?case by (rule exI [of _ "[]"]) simp
next
  case (2 flags token rest)
  obtain f where f: "find (flag_matches token) flags = Some f"
    using 2(3) by (auto split: option.splits)
  then have t: "token = flag_token f" "f \<in> set flags"
    by (auto simp: flag_matches_token find_Some_iff)
  show ?case
  proof (cases "takes_value f")
    case True
    with 2(3) f obtain v rest' where r: "rest = v # rest'" "validate_flags flags rest' = None"
      by (auto split: list.splits)
    with 2(1) [OF f True] obtain gs where "rest' = concat gs" "\<forall>g\<in>set gs. flag_group flags g" by blast
    with r t True show ?thesis
      by (intro exI [of _ "[token, v] # gs"]) (auto simp: flag_group_def flag_token_def)
  next
    case False
    with 2(3) f have r: "validate_flags flags rest = None" by simp
    with 2(2) [OF f False] obtain gs where "rest = concat gs" "\<forall>g\<in>set gs. flag_group flags g" by blast
    with t False show ?thesis
      by (intro exI [of _ "[token] # gs"]) (auto simp: flag_group_def flag_token_def)
  qed
qed

lemma flag_group_cases:
  "flag_group flags g \<longleftrightarrow> (\<exists>f\<in>set flags. (takes_value f \<and> (\<exists>v. g = [flag_token f, v])) \<or> (\<not> takes_value f \<and> g = [flag_token f]))"
  by (auto simp: flag_group_def flag_token_def split: if_splits)

lemma validate_flags_complete:
  assumes "distinct (map flag_token flags)" "\<forall>g\<in>set groups. flag_group flags g"
  shows "validate_flags flags (concat groups) = None"
  using assms(2)
proof (induction groups)
  case Nil
  show ?case by simp
next
  case (Cons g groups)
  then obtain f where "f \<in> set flags"
      "(takes_value f \<and> (\<exists>v. g = [flag_token f, v])) \<or> (\<not> takes_value f \<and> g = [flag_token f])"
    by (auto simp: flag_group_cases)
  with Cons find_flag [OF assms(1)] show ?case by auto
qed

lemma argvRule_validate_iff:
  assumes "rule_wf r"
  shows "argvRule_validate r args = None \<longleftrightarrow> argv_grammar r args"
proof
  let ?pos = "takeWhile is_positional args"
  assume v: "argvRule_validate r args = None"
  then have "validate_flags (ar_flags r) (dropWhile is_positional args) = None"
    by (auto simp: argvRule_validate_def Let_def dropWhile_eq_drop split: if_splits)
  then obtain groups where g: "dropWhile is_positional args = concat groups" "\<forall>g\<in>set groups. flag_group (ar_flags r) g"
    using validate_flags_sound by blast
  then have "args = ?pos @ concat groups" by (metis takeWhile_dropWhile_id)
  with v g(2) show "argv_grammar r args"
    unfolding argv_grammar_def
    by (intro exI [of _ ?pos] exI [of _ groups])
      (auto simp: argvRule_validate_def Let_def dest: set_takeWhileD split: if_splits)
next
  assume "argv_grammar r args"
  then obtain pos groups where a: "args = pos @ concat groups" "\<forall>a\<in>set pos. is_positional a"
      "ar_minPositionals r \<le> length pos" "length pos \<le> ar_positionals r" "\<forall>g\<in>set groups. flag_group (ar_flags r) g"
    by (auto simp: argv_grammar_def)
  have stop: "takeWhile is_positional (concat groups) = []"
  proof (cases groups)
    case (Cons g gs)
    with a(5) obtain f t where "f \<in> set (ar_flags r)" "g = flag_token f # t" by (auto simp: flag_group_cases)
    with Cons assms show ?thesis by (auto simp: rule_wf_def list_all_iff is_positional_def)
  qed simp
  with a(1,2) have "takeWhile is_positional args = pos" by simp
  with a show "argvRule_validate r args = None"
    using validate_flags_complete [OF _ a(5)] assms by (simp add: argvRule_validate_def rule_wf_def)
qed

lemma allowedArgv_wf: "map_of allowedArgv name = Some r \<Longrightarrow> rule_wf r"
proof (erule map_of_all [rotated])
  show "list_all (\<lambda>p. rule_wf (snd p)) allowedArgv"
    by (simp add: allowedArgv_def rule_wf_def argvRule0_def flag_token_def takes_value_def has_suffix_def trim_suffix_def)
qed

subsection \<open>The handshake accepts the approved matrix and its prefix, nothing else\<close>

lemma equalStrings_iff [simp]: "equalStrings xs ys \<longleftrightarrow> xs = ys"
  by (induction xs ys rule: equalStrings.induct) auto

lemma check_capabilities_None:
  "check_capabilities name seen caps = None \<longleftrightarrow> list_all capabilityShape caps \<and> distinct caps \<and> set caps \<inter> set seen = {}"
  by (induction caps arbitrary: seen) auto

definition row_wf :: "contractCommand \<Rightarrow> bool" where
  "row_wf c \<longleftrightarrow> commandNameShape (cc_Name c) \<and> list_all capabilityShape (cc_Capabilities c) \<and> distinct (cc_Capabilities c)"

lemma contractCommands_rows: "list_all row_wf contractCommands"
  by (simp add: contractCommands_def command_row_def row_wf_def commandNameShape_def mapKeyShape_def
      capabilityShape_def first_rest_def is_lower_def lower_rest_def is_digit_def)

lemma contractCommands_distinct: "distinct (map cc_Name contractCommands)"
  by (simp add: contractCommands_def command_row_def)

lemma contractCommands_length: "length contractCommands = 20"
  by (simp add: contractCommands_def)

lemma check_commands_None:
  assumes "index + length cmds \<le> length contractCommands"
  shows "check_commands index seen cmds = None \<longleftrightarrow>
     cmds = take (length cmds) (drop index contractCommands) \<and> set (map cc_Name cmds) \<inter> set seen = {}"
  using assms
proof (induction cmds arbitrary: index seen)
  case Nil
  show ?case by simp
next
  case (Cons cmd cmds)
  let ?want = "contractCommands ! index"
  have len: "index < length contractCommands" using Cons.prems by simp
  then have d: "drop index contractCommands = ?want # drop (Suc index) contractCommands"
    by (simp add: Cons_nth_drop_Suc)
  have wf: "row_wf ?want" using contractCommands_rows len by (simp add: list_all_length)
  have tl: "take (length cmds) (drop (Suc index) contractCommands) = cmds \<Longrightarrow> cc_Name ?want \<notin> cc_Name ` set cmds"
  proof -
    assume t: "take (length cmds) (drop (Suc index) contractCommands) = cmds"
    have "distinct (map cc_Name (?want # drop (Suc index) contractCommands))"
      unfolding d [symmetric] drop_map [symmetric] by (rule distinct_drop [OF contractCommands_distinct])
    then show "cc_Name ?want \<notin> cc_Name ` set cmds"
      using t set_take_subset [of "length cmds" "drop (Suc index) contractCommands"] by auto
  qed
  show ?case
  proof (cases "cmd = ?want")
    case True
    have "check_commands index seen (cmd # cmds) = None \<longleftrightarrow>
        cc_Name cmd \<notin> set seen \<and> check_commands (Suc index) (cc_Name cmd # seen) cmds = None"
      using wf True check_capabilities_None [of "cc_Name ?want" "[]" "cc_Capabilities ?want"]
      by (simp add: row_wf_def Let_def)
    also have "\<dots> \<longleftrightarrow> cmd # cmds = take (length (cmd # cmds)) (drop index contractCommands) \<and> set (map cc_Name (cmd # cmds)) \<inter> set seen = {}"
      using Cons.IH [of "Suc index" "cc_Name cmd # seen"] Cons.prems True tl d by auto
    finally show ?thesis .
  next
    case False
    then have "check_commands index seen (cmd # cmds) \<noteq> None"
      by (auto simp: Let_def split: option.splits)
    with False d show ?thesis by simp
  qed
qed

lemma Contract_validate_None:
  "Contract_validate c = None \<longleftrightarrow>
     co_Kind c = ''BackendContract'' \<and> co_APIVersion c = ''loxilb.io/appliance-backend/v1''
     \<and> co_BackendVersion c \<noteq> [] \<and> co_ProductRelease c \<noteq> [] \<and> co_SchemaVersion c = payloadSchema
     \<and> co_Commands c \<in> {contractCommands, take legacyContractCommandCount contractCommands}"
proof -
  have api: "contractAPIPrefix @ show_int contractMajor = ''loxilb.io/appliance-backend/v1''"
    by code_simp
  have shape: "apiVersionShape ''loxilb.io/appliance-backend/v1''"
    by code_simp
  have cmds: "(length (co_Commands c) = legacyContractCommandCount \<or> length (co_Commands c) = length contractCommands)
        \<and> check_commands 0 [] (co_Commands c) = None
      \<longleftrightarrow> co_Commands c \<in> {contractCommands, take legacyContractCommandCount contractCommands}"
    using check_commands_None [of 0 "co_Commands c" "[]"]
    by (auto simp: contractCommands_length legacyContractCommandCount_def)
  show ?thesis
    unfolding Contract_validate_def api using cmds shape by auto
qed

subsection \<open>The three tables agree\<close>

definition row_of :: "string \<Rightarrow> contractCommand option" where
  "row_of name = find (\<lambda>c. cc_Name c = name) contractCommands"

text \<open>Every spawnable operation is a row of the matrix, read-only exactly when it is not mutating.\<close>

lemma allowlist_matrix:
  assumes "map_of allowedArgv name = Some r" "name \<noteq> ''contract-version''"
  shows "\<exists>row. row_of name = Some row \<and> cc_ReadOnly row = (\<not> ar_mutating r)
    \<and> (ar_stdinSecret r \<longleftrightarrow> ''secret-stdin'' \<in> set (cc_Capabilities row))"
proof -
  have "list_all (\<lambda>p. fst p \<noteq> ''contract-version'' \<longrightarrow> (case row_of (fst p) of None \<Rightarrow> False
      | Some row \<Rightarrow> cc_ReadOnly row = (\<not> ar_mutating (snd p))
         \<and> (ar_stdinSecret (snd p) \<longleftrightarrow> ''secret-stdin'' \<in> set (cc_Capabilities row)))) allowedArgv"
    by (simp add: allowedArgv_def row_of_def contractCommands_def command_row_def argvRule0_def)
  from map_of_all_pairs [OF this assms(1)] assms(2) show ?thesis by (auto split: option.splits)
qed

text \<open>A command has a payload contract exactly when the matrix gives it JSON output.\<close>

definition json_commands :: "string list" where
  "json_commands = map cc_Name (filter (\<lambda>row. ''json-output'' \<in> set (cc_Capabilities row)) contractCommands)"

lemma tuple_eq [simp]: "tuple a = tuple b \<longleftrightarrow> a = b"
  by (simp add: tuple_def)

lemma registry_keys: "map fst (payloadRegistry up) = map tuple json_commands"
  by (simp add: payloadRegistry_def json_commands_def contractCommands_def command_row_def)

lemma PayloadTupleForCommand_ok: "snd (PayloadTupleForCommand up command) \<longleftrightarrow> command \<in> set json_commands"
proof -
  have "snd (PayloadTupleForCommand up command) \<longleftrightarrow> tuple command \<in> set (map fst (payloadRegistry up))"
    by (simp add: PayloadTupleForCommand_def Let_def map_of_eq_None_iff)
  also have "\<dots> \<longleftrightarrow> command \<in> set json_commands"
    unfolding registry_keys by auto
  finally show ?thesis .
qed

lemma registry_commands:
  "map_of (payloadRegistry up) t = Some spec \<Longrightarrow> t = tuple (pt_Command t) \<and> ps_Tuple spec = t
     \<and> pt_Command t \<in> cc_Name ` set contractCommands"
proof (erule map_of_all_pairs [rotated])
  show "list_all (\<lambda>p. fst p = tuple (pt_Command (fst p)) \<and> ps_Tuple (snd p) = fst p
      \<and> pt_Command (fst p) \<in> cc_Name ` set contractCommands) (payloadRegistry up)"
    by (simp add: payloadRegistry_def tuple_def base_spec_def lifecyclePlanSpec_def lifecycleExecuteSpec_def
        lifecycleStatusSpec_def contractCommands_def command_row_def)
qed

lemma requireAdvertised_validated:
  assumes "Contract_validate c = None"
  shows "requireAdvertisedCommand c name ro = None \<longleftrightarrow>
     (\<exists>row\<in>set (co_Commands c). cc_Name row = name \<and> cc_ReadOnly row = ro)"
proof -
  have sub: "\<exists>n. co_Commands c = take n contractCommands"
    using assms by (auto simp: Contract_validate_None intro: exI [of _ "length contractCommands"])
  then obtain n where n: "co_Commands c = take n contractCommands" by blast
  have found: "find (\<lambda>x. cc_Name x = cc_Name row) contractCommands = Some row" if "row \<in> set contractCommands" for row
    using that contractCommands_distinct by (rule find_by_key [rotated])
  have found': "find (\<lambda>x. cc_Name x = cc_Name row) (co_Commands c) = Some row" if "row \<in> set (co_Commands c)" for row
  proof -
    have "distinct (map cc_Name (co_Commands c))"
      using contractCommands_distinct n by (metis distinct_take take_map)
    from this that show ?thesis by (rule find_by_key)
  qed
  show ?thesis
  proof (cases "Contract_Lookup c name")
    case None
    then have "\<not> (\<exists>row\<in>set (co_Commands c). cc_Name row = name)"
      by (auto simp: Contract_Lookup_def find_None_iff)
    with None show ?thesis by (auto simp: requireAdvertisedCommand_def)
  next
    case (Some row)
    then have row: "row \<in> set (co_Commands c)" "cc_Name row = name"
      by (auto simp: Contract_Lookup_def find_Some_iff)
    with n have "row \<in> set contractCommands" by (auto dest: in_set_takeD)
    then have want: "find (\<lambda>x. cc_Name x = name) contractCommands = Some row"
      using found row by blast
    have only: "r = row" if "r \<in> set (co_Commands c)" "cc_Name r = name" for r
      using found' [OF that(1)] found' [OF row(1)] that(2) row(2) by simp
    have "requireAdvertisedCommand c name ro = None \<longleftrightarrow> cc_ReadOnly row = ro"
      by (simp add: requireAdvertisedCommand_def Some want)
    also have "\<dots> \<longleftrightarrow> (\<exists>r\<in>set (co_Commands c). cc_Name r = name \<and> cc_ReadOnly r = ro)"
    proof
      assume "cc_ReadOnly row = ro"
      with row show "\<exists>r\<in>set (co_Commands c). cc_Name r = name \<and> cc_ReadOnly r = ro" by (intro bexI [of _ row] conjI)
    next
      assume "\<exists>r\<in>set (co_Commands c). cc_Name r = name \<and> cc_ReadOnly r = ro"
      then obtain r where "r \<in> set (co_Commands c)" "cc_Name r = name" "cc_ReadOnly r = ro" by (elim bexE conjE)
      with only show "cc_ReadOnly row = ro" by simp
    qed
    finally show ?thesis .
  qed
qed

subsection \<open>Words of a subcommand\<close>

text \<open>No subcommand's words begin another's, so an argument vector names one subcommand.\<close>

lemma has_prefix_comparable: "has_prefix a (b @ t) \<Longrightarrow> has_prefix a b \<or> has_prefix b a"
  by (auto simp: has_prefix_iff append_eq_append_conv2)

definition prefix_free :: "string list \<Rightarrow> bool" where
  "prefix_free names \<longleftrightarrow> (\<forall>a\<in>set names. \<forall>b\<in>set names. has_prefix (Prelude.fields a) (Prelude.fields b) \<longrightarrow> a = b)"

lemma allowedArgv_prefix_free: "prefix_free (map fst allowedArgv)"
  by code_simp

lemma subcommand_of_argv:
  assumes "map_of allowedArgv a = Some r" "map_of allowedArgv b = Some r'"
    and "has_prefix (Prelude.fields a) (Prelude.fields b @ t)"
  shows "a = b"
proof -
  have "a \<in> set (map fst allowedArgv)" "b \<in> set (map fst allowedArgv)"
    using assms(1,2) by (auto dest!: map_of_SomeD intro: rev_image_eqI)
  with has_prefix_comparable [OF assms(3)] allowedArgv_prefix_free show ?thesis
    unfolding prefix_free_def by blast
qed

subsection \<open>The log of spawns\<close>

definition handshake_spawn :: spawn where
  "handshake_spawn = spawn_for handshake_argv None"

definition operation_spawn :: "request \<Rightarrow> string \<Rightarrow> spawn" where
  "operation_spawn req cid = spawn_for (operation_argv req cid) (rq_Secret req)"

text \<open>The contract the handshake after \<open>log\<close> yields, if it yields one.\<close>

definition handshake_at :: "host \<Rightarrow> spawn list \<Rightarrow> goerr + contract" where
  "handshake_at h log = handshake_verdict (run_verdict (ho_run h log handshake_spawn))"

lemma Handshake_eq: "Handshake h log = (handshake_at h log, log @ [handshake_spawn])"
  by (simp add: Handshake_def runWithStdin_def handshake_at_def handshake_spawn_def Let_def)

lemma handshake_at_valid: "handshake_at h log = Inr c \<Longrightarrow> Contract_validate c = None"
  by (auto simp: handshake_at_def handshake_verdict_def split: sum.splits if_splits option.splits)

definition op_id :: "host \<Rightarrow> spawn list \<Rightarrow> string" where
  "op_id h log = newCorrelationID (ho_entropy h log)"

lemma invoke_log:
  "snd (invoke h req m log) =
     (if validateRequest req m = None then log @ [operation_spawn req (op_id h log)] else log)"
  by (auto simp: invoke_def runWithStdin_def operation_spawn_def op_id_def Let_def split: option.splits sum.splits)

lemma answer_log [simp]: "snd (snd (answer p)) = snd p"
  by (cases p) (auto simp: answer_def split: sum.splits)

text \<open>
  The contract of an invocation path: a refused request spawns nothing; an accepted one spawns the
  handshake, then perhaps its operation; a mutating operation needs a handshake that advertises it.
\<close>

definition advertised :: "host \<Rightarrow> spawn list \<Rightarrow> string \<Rightarrow> bool \<Rightarrow> bool" where
  "advertised h log name ro \<longleftrightarrow> (\<exists>c. handshake_at h log = Inr c \<and> requireAdvertisedCommand c name ro = None)"

definition spawn_ok :: "host \<Rightarrow> spawn list \<Rightarrow> spawn \<Rightarrow> bool" where
  "spawn_ok h before s \<longleftrightarrow> s = handshake_spawn \<or>
     (\<exists>req cid m earlier. s = operation_spawn req cid \<and> validateRequest req m = None
        \<and> before = earlier @ [handshake_spawn] \<and> (m \<longrightarrow> advertised h earlier (rq_Subcommand req) False))"

definition safe_log :: "host \<Rightarrow> spawn list \<Rightarrow> bool" where
  "safe_log h log \<longleftrightarrow> (\<forall>before s after. log = before @ s # after \<longrightarrow> spawn_ok h before s)"

lemma safe_log_Nil [simp]: "safe_log h []"
  by (simp add: safe_log_def)

lemma safe_log_snoc [simp]: "safe_log h (log @ [s]) \<longleftrightarrow> safe_log h log \<and> spawn_ok h log s"
proof
  assume l: "safe_log h (log @ [s])"
  have "spawn_ok h before x" if "log = before @ x # after" for before x after
    using l that unfolding safe_log_def by (metis append_Cons append_assoc)
  with l show "safe_log h log \<and> spawn_ok h log s" unfolding safe_log_def by blast
next
  assume r: "safe_log h log \<and> spawn_ok h log s"
  show "safe_log h (log @ [s])"
    unfolding safe_log_def
  proof (intro allI impI)
    fix before x after
    assume eq: "log @ [s] = before @ x # after"
    show "spawn_ok h before x"
    proof (cases after rule: rev_cases)
      case Nil
      with eq r show ?thesis by simp
    next
      case (snoc ys y)
      with eq have "log = before @ x # ys" by (metis append_Cons append_assoc butlast_snoc)
      with r show ?thesis unfolding safe_log_def by blast
    qed
  qed
qed

locale invocation_path =
  fixes call :: "host \<Rightarrow> request \<Rightarrow> spawn list \<Rightarrow> invocation" and mutating :: bool
  assumes refused: "validateRequest req mutating \<noteq> None \<Longrightarrow> snd (snd (call h req log)) = log"
    and spawned: "validateRequest req mutating = None \<Longrightarrow>
        snd (snd (call h req log)) = log @ [handshake_spawn]
      \<or> (\<exists>cid. snd (snd (call h req log)) = log @ [handshake_spawn] @ [operation_spawn req cid]
           \<and> (mutating \<longrightarrow> advertised h log (rq_Subcommand req) False))"
begin

lemma keeps_safe: "safe_log h log \<Longrightarrow> safe_log h (snd (snd (call h req log)))"
proof -
  assume safe: "safe_log h log"
  have hs: "spawn_ok h log handshake_spawn" by (simp add: spawn_ok_def)
  show ?thesis
  proof (cases "validateRequest req mutating")
    case None
    have op: "spawn_ok h (log @ [handshake_spawn]) (operation_spawn req cid)"
      if "mutating \<longrightarrow> advertised h log (rq_Subcommand req) False" for cid
      unfolding spawn_ok_def using None that by blast
    from spawned [OF None, of h log] consider
        "snd (snd (call h req log)) = log @ [handshake_spawn]"
      | cid where "snd (snd (call h req log)) = (log @ [handshake_spawn]) @ [operation_spawn req cid]"
          "mutating \<longrightarrow> advertised h log (rq_Subcommand req) False" by auto
    then show ?thesis using safe hs op by cases (simp_all only: safe_log_snoc simp_thms)
  next
    case (Some e)
    with safe refused show ?thesis by simp
  qed
qed

lemma at_most_one_operation: "length (snd (snd (call h req log))) \<le> length log + 2"
  using refused [of req h log] spawned [of req h log] by (cases "validateRequest req mutating") auto

lemma extends_log: "\<exists>new. snd (snd (call h req log)) = log @ new"
  using refused [of req h log] spawned [of req h log] by (cases "validateRequest req mutating") auto

end

interpretation read_only: invocation_path InvokeReadOnly False
proof
  fix req h log
  show "validateRequest req False \<noteq> None \<Longrightarrow> snd (snd (InvokeReadOnly h req log)) = log"
    by (auto simp: InvokeReadOnly_def)
  show "validateRequest req False = None \<Longrightarrow>
        snd (snd (InvokeReadOnly h req log)) = log @ [handshake_spawn]
      \<or> (\<exists>cid. snd (snd (InvokeReadOnly h req log)) = log @ [handshake_spawn] @ [operation_spawn req cid]
           \<and> (False \<longrightarrow> advertised h log (rq_Subcommand req) False))"
    using invoke_log [of h req False "log @ [handshake_spawn]"]
    by (auto simp: InvokeReadOnly_def Handshake_eq split: sum.splits option.splits prod.splits)
qed

interpretation mutating_path: invocation_path InvokeMutating True
proof
  fix req h log
  show "validateRequest req True \<noteq> None \<Longrightarrow> snd (snd (InvokeMutating h req log)) = log"
    by (auto simp: InvokeMutating_def)
  show "validateRequest req True = None \<Longrightarrow>
        snd (snd (InvokeMutating h req log)) = log @ [handshake_spawn]
      \<or> (\<exists>cid. snd (snd (InvokeMutating h req log)) = log @ [handshake_spawn] @ [operation_spawn req cid]
           \<and> (True \<longrightarrow> advertised h log (rq_Subcommand req) False))"
    using invoke_log [of h req True "log @ [handshake_spawn]"]
    by (auto simp: InvokeMutating_def Handshake_eq advertised_def split: sum.splits option.splits)
qed

subsection \<open>Sessions: any sequence of invocations\<close>

inductive session :: "host \<Rightarrow> spawn list \<Rightarrow> bool" for h where
  start: "session h []"
| read: "session h log \<Longrightarrow> InvokeReadOnly h req log = (res, err, log') \<Longrightarrow> session h log'"
| mutate: "session h log \<Longrightarrow> InvokeMutating h req log = (res, err, log') \<Longrightarrow> session h log'"

lemma session_safe: "session h log \<Longrightarrow> safe_log h log"
proof (induction rule: session.induct)
  case start
  show ?case by simp
next
  case (read log req res err log')
  then show ?case using read_only.keeps_safe [of h log req] by simp
next
  case (mutate log req res err log')
  then show ?case using mutating_path.keeps_safe [of h log req] by simp
qed

lemma session_spawn:
  assumes "session h log" "log = before @ s # after"
  shows "spawn_ok h before s"
  using session_safe [OF assms(1)] assms(2) unfolding safe_log_def by blast

lemma validateRequest_None:
  "validateRequest req m = None \<longleftrightarrow>
     (\<exists>rule. map_of allowedArgv (rq_Subcommand req) = Some rule \<and> ar_mutating rule = m
        \<and> argv_grammar rule (rq_Args req) \<and> (rq_Secret req \<noteq> None \<longrightarrow> ar_stdinSecret rule))"
proof (cases "map_of allowedArgv (rq_Subcommand req)")
  case None
  then show ?thesis by (simp add: validateRequest_def)
next
  case (Some rule)
  then show ?thesis
    using argvRule_validate_iff [OF allowedArgv_wf [OF Some], of "rq_Args req"]
    by (auto simp: validateRequest_def split: option.splits)
qed

lemma handshake_no_mutation:
  assumes "map_of allowedArgv name = Some rule" "ar_mutating rule"
  shows "\<not> has_prefix (Prelude.fields name) handshake_argv"
proof -
  have "list_all (\<lambda>p. ar_mutating (snd p) \<longrightarrow> \<not> has_prefix (Prelude.fields (fst p)) handshake_argv) allowedArgv"
    by code_simp
  from map_of_all_pairs [OF this assms(1)] assms(2) show ?thesis by blast
qed

lemma mutation_advertised:
  assumes "session h log" "log = before @ s # after"
    and "map_of allowedArgv name = Some rule" "ar_mutating rule" "has_prefix (Prelude.fields name) (sw_argv s)"
  shows "\<exists>earlier c. before = earlier @ [handshake_spawn] \<and> handshake_at h earlier = Inr c
    \<and> Contract_validate c = None \<and> Contract_Supports c name"
proof -
  have "s \<noteq> handshake_spawn"
    using handshake_no_mutation [OF assms(3,4)] assms(5) by (auto simp: handshake_spawn_def spawn_for_def)
  then obtain req cid m earlier where s: "s = operation_spawn req cid" "validateRequest req m = None"
      "before = earlier @ [handshake_spawn]" "m \<longrightarrow> advertised h earlier (rq_Subcommand req) False"
    using session_spawn [OF assms(1,2)] by (auto simp: spawn_ok_def)
  obtain rule' where r': "map_of allowedArgv (rq_Subcommand req) = Some rule'" "ar_mutating rule' = m"
    using s(2) by (auto simp: validateRequest_None)
  have "name = rq_Subcommand req"
    using subcommand_of_argv [OF assms(3) r'(1)] assms(5) s(1)
    by (auto simp: operation_spawn_def operation_argv_def spawn_for_def)
  moreover from this assms(3,4) r' have m by simp
  ultimately obtain c where c: "handshake_at h earlier = Inr c" "requireAdvertisedCommand c name False = None"
    using s(4) by (auto simp: advertised_def)
  then have "Contract_Supports c name"
    by (auto simp: requireAdvertisedCommand_def Contract_Supports_def split: option.splits)
  with c(1) s(3) handshake_at_valid show ?thesis by blast
qed

lemma session_confined:
  assumes "session h log" "s \<in> set log"
  shows "sw_path s = executablePath \<and> sw_env s = [] \<and> sw_setpgid s
    \<and> (sw_stdin s \<noteq> None \<longrightarrow> has_prefix [''gateway'', ''register-local''] (sw_argv s))"
proof -
  obtain before after where "log = before @ s # after" using assms(2) by (auto dest: split_list)
  from session_spawn [OF assms(1) this] show ?thesis
    unfolding spawn_ok_def
  proof (elim disjE exE conjE)
    fix req cid m earlier
    assume s: "s = operation_spawn req cid" "validateRequest req m = None"
    have only: "map_of allowedArgv name = Some rule \<Longrightarrow> ar_stdinSecret rule \<longrightarrow> name = ''gateway register-local''" for name rule
      by (erule map_of_all_pairs [rotated]) (simp add: allowedArgv_def argvRule0_def)
    have words: "Prelude.fields ''gateway register-local'' = [''gateway'', ''register-local'']" by code_simp
    have "rq_Secret req \<noteq> None \<longrightarrow> rq_Subcommand req = ''gateway register-local''"
      using s(2) only unfolding validateRequest_None by blast
    with s(1) words show ?thesis
      by (auto simp: operation_spawn_def spawn_for_def operation_argv_def)
  qed (simp add: handshake_spawn_def spawn_for_def)
qed

subsection \<open>Errors and degraded reads\<close>

lemma decodeBackendContractError_row:
  assumes "decodeBackendContractError raw = Inr e"
  shows "(bce_ComponentCode e, bce_Exit e, bce_Code e, bce_Retryable e) \<in>
     {(codeBackendReleaseMarkerMissing, Precondition, ''PRECONDITION'', False),
      (codeBackendReleaseMarkerInvalid, ContractMismatch, ''CONTRACT_MISMATCH'', False),
      (codeBackendContractInvalid, ContractMismatch, ''CONTRACT_MISMATCH'', False),
      (codeBackendHandshakeUnavailable, Unavailable, ''UNAVAILABLE'', True)}
    \<and> length (bce_Message e) \<le> 512 \<and> \<not> has_control_rune (bce_Message e) \<and> \<not> prohibited_text (bce_Message e)"
proof -
  have empty_ok: "\<not> has_control_rune []" "\<not> prohibited_text []" by code_simp+
  obtain present where e: "check_contractErrorMessage (bce_Message e) present = None"
      "wantContractError (bce_ComponentCode e) (bce_Exit e) = (bce_Code e, bce_Retryable e)" "bce_Code e \<noteq> []"
    using assms
    by (auto simp: decodeBackendContractError_def Let_def split: sum.splits option.splits prod.splits if_splits)
  have msg: "length (bce_Message e) \<le> 512 \<and> \<not> has_control_rune (bce_Message e) \<and> \<not> prohibited_text (bce_Message e)"
    using e(1) empty_ok by (auto simp: check_contractErrorMessage_def split: if_splits)
  have "(bce_ComponentCode e, bce_Exit e, bce_Code e, bce_Retryable e) \<in>
     {(codeBackendReleaseMarkerMissing, Precondition, ''PRECONDITION'', False),
      (codeBackendReleaseMarkerInvalid, ContractMismatch, ''CONTRACT_MISMATCH'', False),
      (codeBackendContractInvalid, ContractMismatch, ''CONTRACT_MISMATCH'', False),
      (codeBackendHandshakeUnavailable, Unavailable, ''UNAVAILABLE'', True)}"
    using e(2,3) by (auto simp: wantContractError_def Label_def split: if_splits)
  with msg show ?thesis by blast
qed

lemma run_verdict_Inl: "run_verdict oc = Inl e \<Longrightarrow> ce_Code e \<in> {Auth, Unavailable}"
  by (auto simp: run_verdict_def Let_def ce_defs split: run_error.splits)

lemma contractViolation_code [simp]: "ce_Code (contractViolation m) = ContractMismatch"
  by (simp add: contractViolation_def)

lemma check_capabilities_code: "check_capabilities n seen caps = Some e \<Longrightarrow> ce_Code e = ContractMismatch"
  by (induction caps arbitrary: seen) (auto split: if_splits)

lemma check_commands_code: "check_commands i seen cmds = Some e \<Longrightarrow> ce_Code e = ContractMismatch"
  by (induction cmds arbitrary: i seen)
    (auto simp: Let_def dest: check_capabilities_code split: if_splits option.splits)

lemma Contract_validate_code: "Contract_validate c = Some e \<Longrightarrow> ce_Code e = ContractMismatch"
  unfolding Contract_validate_def by (auto dest: check_commands_code split: if_splits)

lemma validateRequest_code: "validateRequest req m = Some e \<Longrightarrow> ce_Code e = ContractMismatch"
  by (auto simp: validateRequest_def notAllowlisted_def failIf_def split: option.splits if_splits)

lemma requireAdvertised_code: "requireAdvertisedCommand c n ro = Some e \<Longrightarrow> ce_Code e = ContractMismatch"
  by (auto simp: requireAdvertisedCommand_def failIf_def split: option.splits if_splits)

text \<open>An error that is classified to a row of the taxonomy other than success.\<close>

definition failing :: "goerr \<Rightarrow> bool" where
  "failing e \<longleftrightarrow> err_in_taxonomy e \<and> ce_Code (Classify e) \<noteq> OK"

lemma failing_ECLI: "failing (ECLI c) \<longleftrightarrow> ce_Code c \<in> set taxonomy \<and> ce_Code c \<noteq> OK"
  by (simp add: failing_def Classify_def)

lemma failing_EPayload: "failing (EPayload p)"
  by (simp add: failing_def Classify_def PayloadValidationError_Unwrap_def)

text \<open>The classified code of a failed handshake is one of four rows.\<close>

lemma handshake_error_rows:
  assumes "handshake_at h log = Inl e"
  shows "failing e \<and> ce_Code (Classify e) \<in> {Auth, Precondition, Unavailable, ContractMismatch}"
proof -
  have "\<exists>c. as_CLIError e = Some c \<and> ce_Code c \<in> {Auth, Precondition, Unavailable, ContractMismatch}
      \<and> (case e of ECLI d \<Rightarrow> c = d | EContract b \<Rightarrow> c = BackendContractError_Unwrap b | _ \<Rightarrow> False)"
    using assms
    by (auto simp: handshake_at_def handshake_verdict_def BackendContractError_Unwrap_def
        dest!: run_verdict_Inl Contract_validate_code decodeBackendContractError_row
        split: sum.splits if_splits option.splits)
  then obtain c where c: "as_CLIError e = Some c" "ce_Code c \<in> {Auth, Precondition, Unavailable, ContractMismatch}"
      "case e of ECLI d \<Rightarrow> c = d | EContract b \<Rightarrow> c = BackendContractError_Unwrap b | _ \<Rightarrow> False" by blast
  have tax: "{Auth, Precondition, Unavailable, ContractMismatch} \<subseteq> set taxonomy" by (simp add: taxonomy_def)
  have "Classify e = c" using c(1) by (simp add: Classify_def)
  with c tax show ?thesis by (cases e) (auto simp: failing_def BackendContractError_Unwrap_def)
qed

lemma invoke_error_failing: "invoke h req m log = (Inl e, log') \<Longrightarrow> failing (ECLI e)"
  by (auto simp: invoke_def runWithStdin_def Let_def failing_ECLI taxonomy_def
      dest: run_verdict_Inl validateRequest_code split: option.splits sum.splits)

lemma refusal_failing:
  "validateRequest req m = Some e \<Longrightarrow> failing (ECLI e)"
  "requireAdvertisedCommand c n ro = Some e \<Longrightarrow> failing (ECLI e)"
  by (auto simp: failing_ECLI taxonomy_def dest: validateRequest_code requireAdvertised_code)

text \<open>How an invocation ends: with a result, with an error, or degraded with both.\<close>

lemma InvokeMutating_cases:
  assumes "InvokeMutating h req log = (res, err, log')"
  obtains (error) e where "res = None" "err = Some e" "failing e"
  | (ran) r where "res = Some r" "err = None" "validateRequest req True = None"
      "invoke h req True (log @ [handshake_spawn]) = (Inr r, log')"
proof -
  have "(\<exists>e. res = None \<and> err = Some e \<and> failing e)
      \<or> (\<exists>r. res = Some r \<and> err = None \<and> validateRequest req True = None
           \<and> invoke h req True (log @ [handshake_spawn]) = (Inr r, log'))"
    using assms invoke_error_failing [of h req True "log @ [handshake_spawn]"]
    by (auto simp: InvokeMutating_def Handshake_eq answer_def
        dest: refusal_failing handshake_error_rows split: option.splits sum.splits prod.splits)
  with error ran show thesis by blast
qed

lemma InvokeReadOnly_cases:
  assumes "InvokeReadOnly h req log = (res, err, log')"
  obtains (error) e where "res = None" "err = Some e" "failing e"
  | (degraded) e out where "handshake_at h log = Inl e" "allowsReadOnlyBestEffort e" "res = Some (degrade req e out)"
      "err = Some e" "invoke h req False (log @ [handshake_spawn]) = (out, log')"
  | (ran) r where "res = Some r" "err = None" "validateRequest req False = None"
      "invoke h req False (log @ [handshake_spawn]) = (Inr r, log')"
proof -
  have "(\<exists>e. res = None \<and> err = Some e \<and> failing e)
      \<or> (\<exists>e out. handshake_at h log = Inl e \<and> allowsReadOnlyBestEffort e \<and> res = Some (degrade req e out)
           \<and> err = Some e \<and> invoke h req False (log @ [handshake_spawn]) = (out, log'))
      \<or> (\<exists>r. res = Some r \<and> err = None \<and> validateRequest req False = None
           \<and> invoke h req False (log @ [handshake_spawn]) = (Inr r, log'))"
    using assms invoke_error_failing [of h req False "log @ [handshake_spawn]"]
    by (auto simp: InvokeReadOnly_def Handshake_eq answer_def
        dest: refusal_failing handshake_error_rows split: option.splits sum.splits prod.splits if_splits)
  with error degraded ran show thesis by blast
qed

end
