(* ===== verification/SecretFile.thy ===== *)
theory SecretFile
  imports ExitCode GoStd "HOL-Library.Word"
begin

unbundle bit_operations_syntax

section \<open>Secret files (\<open>pkg/backend/secretfile.go\<close>) and the token source (\<open>cmd/root.go\<close>)\<close>

text \<open>
  A file mode is the 32-bit \<open>os.FileMode\<close>, tested with the sources' masks. The file system is an
  argument: what \<open>os.Lstat\<close> and \<open>os.ReadFile\<close> answer for a path, each on its own, since another
  process may change the file between the two calls.
\<close>

datatype lstat_answer = StatMode "32 word" | StatNotExist | StatError

record file_system =
  fs_Lstat :: "string \<Rightarrow> lstat_answer"
  fs_ReadFile :: "string \<Rightarrow> bytes option"

definition ModeSymlink :: "32 word" where "ModeSymlink = push_bit 27 1"
definition ModeCharDevice :: "32 word" where "ModeCharDevice = push_bit 21 1"

text \<open>\<open>os.ModeType\<close>: directory, symlink, named pipe, socket, device, character device, irregular.\<close>

definition ModeType :: "32 word" where
  "ModeType = push_bit 31 1 OR push_bit 27 1 OR push_bit 25 1 OR push_bit 24 1 OR push_bit 26 1 OR push_bit 21 1 OR push_bit 19 1"

definition IsRegular :: "32 word \<Rightarrow> bool" where
  "IsRegular m \<longleftrightarrow> m AND ModeType = 0"

definition Perm :: "32 word \<Rightarrow> 32 word" where
  "Perm m = m AND 511"

definition IsAbs :: "string \<Rightarrow> bool" where
  "IsAbs path = has_prefix ''/'' path"

subsection \<open>The rules\<close>

definition secretRefused :: "msg \<Rightarrow> cliError" where
  "secretRefused m = CLIError0\<lparr>ce_Code := Precondition, ce_Message := m, ce_ComponentCode := ''secret-file-refused''\<rparr>"

definition fileReadFailed :: "msg \<Rightarrow> cliError" where
  "fileReadFailed m = CLIError0\<lparr>ce_Code := Precondition, ce_Message := m, ce_ComponentCode := ''file-read-failed''\<rparr>"

definition CheckSecretPath :: "file_system \<Rightarrow> string \<Rightarrow> string \<Rightarrow> cliError option" where
  "CheckSecretPath fs what path =
     (if \<not> IsAbs path
      then Some (Invalidf (Sprintf ''%s must be an absolute path, got %q'' [AStr what, AStr path]))
      else case fs_Lstat fs path of
        StatMode m \<Rightarrow>
          (if m AND ModeSymlink \<noteq> 0
           then Some (secretRefused (Sprintf ''the %s %q is a symlink; secret files must be regular files'' [AStr what, AStr path]))
           else if \<not> IsRegular m
           then Some (secretRefused (Sprintf ''the %s %q is not a regular file'' [AStr what, AStr path]))
           else if Perm m AND 63 \<noteq> 0
           then Some (secretRefused (Sprintf ''the %s %q is group- or world-accessible (%04o); make it owner-only (0600) first''
                  [AStr what, AStr path, AInt (uint (Perm m))]))
           else None)
      | _ \<Rightarrow> Some (fileReadFailed (Sprintf ''cannot read the %s: %v'' [AStr what, AErr ''os''])))"

definition ReadSecretFile :: "file_system \<Rightarrow> string \<Rightarrow> string \<Rightarrow> cliError + bytes" where
  "ReadSecretFile fs what path =
     (case CheckSecretPath fs what path of
        Some e \<Rightarrow> Inl e
      | None \<Rightarrow>
        (case fs_ReadFile fs path of
           None \<Rightarrow> Inl (fileReadFailed (Sprintf ''cannot read the %s: %v'' [AStr what, AErr ''os'']))
         | Some content \<Rightarrow>
             (let secret = trim_space content in
              if secret = [] then Inl (secretRefused (Sprintf ''the %s %q is empty'' [AStr what, AStr path]))
              else Inr secret)))"

text \<open>The rule in terms of the permission bits: an accepted file gives its group and others nothing.\<close>

definition owner_only :: "32 word \<Rightarrow> bool" where
  "owner_only m \<longleftrightarrow> (\<forall>n\<in>set [0..<6]. \<not> bit m n)"

lemma perm_mask_iff: "Perm m AND 63 = 0 \<longleftrightarrow> owner_only m"
proof -
  have "(511 :: 32 word) = mask 9" "(63 :: 32 word) = mask 6"
    by (simp_all add: mask_eq_exp_minus_1)
  then have "Perm m AND 63 = take_bit 6 (take_bit 9 m)"
    unfolding Perm_def by (simp only: take_bit_eq_mask)
  then have "Perm m AND 63 = take_bit 6 m" by simp
  moreover have "take_bit 6 m = 0 \<longleftrightarrow> owner_only m"
    by (auto simp: owner_only_def bit_eq_iff bit_simps)
  ultimately show ?thesis by simp
qed

end
