(* ===== verification/Rest.thy ===== *)
theory Rest
  imports GoStd
begin

section \<open>Requests to the gateway (\<open>pkg/api/rest.go\<close>, \<open>pkg/api/originator.go\<close>)\<close>

text \<open>
  The options every command shares, and the request each verb hands to the HTTP client: method, URL,
  headers and body. Whether a text is a URL is \<open>net/url\<close>'s decision and an argument (\<open>url_ok\<close>), as
  \<open>http.NewRequestWithContext\<close> fails on a text that is not one.
\<close>

record restOptions =
  ro_PrintOption :: string
  ro_Protocol :: string
  ro_ServerIP :: string
  ro_ServerPort :: int
  ro_Timeout :: int
  ro_ServiceName :: string
  ro_Token :: string
  ro_BearerAuth :: bool
  ro_Originator :: string
  ro_Insecure :: bool
  ro_CACertFile :: string
  ro_ClientCertFile :: string
  ro_ClientKeyFile :: string

type_synonym headers = "(string \<times> string) list"

record http_request =
  hr_Method :: string
  hr_URL :: string
  hr_Header :: headers
  hr_Body :: "bytes option"

definition header_set :: "string \<Rightarrow> string \<Rightarrow> headers \<Rightarrow> headers" where
  "header_set k v hs = (k, v) # filter (\<lambda>p. fst p \<noteq> k) hs"

lemma header_set_lookup: "map_of (header_set k v hs) k' = (if k' = k then Some v else map_of hs k')"
  by (induction hs) (auto simp: header_set_def)

subsection \<open>The authorization header\<close>

definition setAuthHeader :: "restOptions \<Rightarrow> http_request \<Rightarrow> http_request" where
  "setAuthHeader o' req =
     (let token = trim_space (ro_Token o') in
      if token = [] then req
      else let value = (if ro_BearerAuth o' \<and> \<not> has_prefix ''Bearer '' token then ''Bearer '' @ token else token)
           in req\<lparr>hr_Header := header_set ''Authorization'' value (hr_Header req)\<rparr>)"

subsection \<open>The originator\<close>

definition originatorScheme :: string where "originatorScheme = ''cli:''"
definition originatorMaxBytes :: nat where "originatorMaxBytes = 256"

definition printable_ascii :: "char \<Rightarrow> bool" where
  "printable_ascii c \<longleftrightarrow> \<not> (byte c < 32 \<or> byte c > 126)"

fun first_unprintable :: "nat \<Rightarrow> string \<Rightarrow> nat option" where
  "first_unprintable i [] = None"
| "first_unprintable i (c # cs) = (if printable_ascii c then first_unprintable (Suc i) cs else Some i)"

definition CLIOriginator :: "string \<Rightarrow> string \<Rightarrow> msg + string" where
  "CLIOriginator osUser host =
     (if osUser = [] then Inl (Text ''the OS user name is empty'')
      else if host = [] then Inl (Text ''the host name is empty'')
      else let v = originatorScheme @ osUser @ ''@'' @ host in
        if length v > originatorMaxBytes
        then Inl (Sprintf ''%q is %d bytes; the gateway accepts at most %d''
               [AStr v, AInt (int (length v)), AInt (int originatorMaxBytes)])
        else case first_unprintable 0 v of
          Some i \<Rightarrow> Inl (Sprintf ''%q has a byte outside printable ASCII at offset %d'' [AStr v, AInt (int i)])
        | None \<Rightarrow> Inr v)"

definition setOriginatorHeader :: "restOptions \<Rightarrow> http_request \<Rightarrow> http_request" where
  "setOriginatorHeader o' req =
     (if ro_Originator o' = [] then req
      else req\<lparr>hr_Header := header_set ''X-Loxilb-Originator'' (ro_Originator o') (hr_Header req)\<rparr>)"

lemma first_unprintable_None: "first_unprintable i s = None \<longleftrightarrow> list_all printable_ascii s"
  by (induction s arbitrary: i) auto

subsection \<open>The verbs\<close>

definition newRequest :: "(string \<Rightarrow> bool) \<Rightarrow> restOptions \<Rightarrow> string \<Rightarrow> string \<Rightarrow> bytes option \<Rightarrow> http_request option" where
  "newRequest url_ok o' method url body =
     (if \<not> url_ok url then None
      else Some (setOriginatorHeader o' (setAuthHeader o'
             \<lparr>hr_Method = method, hr_URL = url, hr_Header = header_set ''Content-Type'' ''application/json'' [], hr_Body = body\<rparr>)))"

definition GET :: "(string \<Rightarrow> bool) \<Rightarrow> restOptions \<Rightarrow> string \<Rightarrow> http_request option" where
  "GET url_ok o' url = newRequest url_ok o' ''GET'' url None"
definition POST :: "(string \<Rightarrow> bool) \<Rightarrow> restOptions \<Rightarrow> string \<Rightarrow> bytes \<Rightarrow> http_request option" where
  "POST url_ok o' url body = newRequest url_ok o' ''POST'' url (Some body)"
definition DELETE :: "(string \<Rightarrow> bool) \<Rightarrow> restOptions \<Rightarrow> string \<Rightarrow> http_request option" where
  "DELETE url_ok o' url = newRequest url_ok o' ''DELETE'' url None"
definition DELETEWithBody :: "(string \<Rightarrow> bool) \<Rightarrow> restOptions \<Rightarrow> string \<Rightarrow> bytes \<Rightarrow> http_request option" where
  "DELETEWithBody url_ok o' url body = newRequest url_ok o' ''DELETE'' url (Some body)"
definition PATCH :: "(string \<Rightarrow> bool) \<Rightarrow> restOptions \<Rightarrow> string \<Rightarrow> bytes \<Rightarrow> http_request option" where
  "PATCH url_ok o' url body = newRequest url_ok o' ''PATCH'' url (Some body)"
definition PUT :: "(string \<Rightarrow> bool) \<Rightarrow> restOptions \<Rightarrow> string \<Rightarrow> bytes \<Rightarrow> http_request option" where
  "PUT url_ok o' url body = newRequest url_ok o' ''PUT'' url (Some body)"

lemmas verb_defs = GET_def POST_def DELETE_def DELETEWithBody_def PATCH_def PUT_def

lemma newRequest_headers:
  assumes "newRequest url_ok o' m u b = Some req"
  shows "map_of (hr_Header req) ''Content-Type'' = Some ''application/json''"
    and "map_of (hr_Header req) ''X-Loxilb-Originator''
           = (if ro_Originator o' = [] then None else Some (ro_Originator o'))"
    and "map_of (hr_Header req) ''Authorization'' =
           (let t = trim_space (ro_Token o') in
            if t = [] then None
            else Some (if ro_BearerAuth o' \<and> \<not> has_prefix ''Bearer '' t then ''Bearer '' @ t else t))"
  using assms
  by (auto simp: newRequest_def setAuthHeader_def setOriginatorHeader_def header_set_lookup Let_def
      split: if_splits)

end
