(* ===== verification/Envelope.thy ===== *)
theory Envelope
  imports ExitCode
begin

section \<open>The result envelope (\<open>pkg/cli/envelope\<close>) and the exit point (\<open>cmd/root.go\<close>)\<close>

text \<open>
  The document a command writes under \<open>-o json\<close>, and the process status the root command ends with.
  The verdict \<open>Code\<close> is a string here and an integer in \<open>exitcode\<close>; the agreement of the two is the
  contract \<open>verdict_codec\<close>, stated as a locale and interpreted on \<open>Label\<close> and \<open>ExitCode\<close>.
\<close>

subsection \<open>Verdicts and their exit status\<close>

definition ExitCode :: "string \<Rightarrow> int" where
  "ExitCode c =
     (if c = ''OK'' then 0
      else if c = ''INVALID_ARGUMENT'' then 2
      else if c = ''AUTH'' then 3
      else if c = ''PRECONDITION'' then 4
      else if c = ''UNAVAILABLE'' then 5
      else if c = ''CONTRACT_MISMATCH'' then 6
      else if c = ''FAILED'' then 7
      else if c = ''PARTIAL'' then 8
      else if c = ''FEATURE_UNAVAILABLE'' then 9
      else 1)"

locale verdict_codec =
  fixes encode :: "'c \<Rightarrow> 'l" and decode :: "'l \<Rightarrow> 'c" and rows :: "'c set" and fallback :: 'c
  assumes decode_encode: "c \<in> rows \<Longrightarrow> decode (encode c) = c"
    and encode_foreign: "c \<notin> rows \<Longrightarrow> encode c = encode fallback"
    and fallback_row: "fallback \<in> rows"
begin

lemma encode_inj: "c \<in> rows \<Longrightarrow> d \<in> rows \<Longrightarrow> encode c = encode d \<Longrightarrow> c = d"
  using decode_encode by metis

lemma decode_in_rows: "decode (encode c) \<in> rows"
  using decode_encode encode_foreign fallback_row by (cases "c \<in> rows") auto

lemma foreign_decodes: "c \<notin> rows \<Longrightarrow> decode (encode c) = fallback"
  using encode_foreign decode_encode [OF fallback_row] by simp

end

interpretation verdict: verdict_codec Label ExitCode "set taxonomy" Failed
  by unfold_locales (auto simp: Label_def ExitCode_def taxonomy_def)

subsection \<open>The envelope\<close>

record warning =
  w_Code :: string
  w_Message :: string

record 'd commandResult =
  cr_APIVersion :: string
  cr_Kind :: string
  cr_Command :: string
  cr_Success :: bool
  cr_Code :: string
  cr_Message :: msg
  cr_CorrelationID :: string
  cr_Data :: "'d option"
  cr_Warnings :: "warning list option"

definition APIVersion :: string where "APIVersion = ''loxilb.io/appliance/v1''"
definition Kind :: string where "Kind = ''CommandResult''"

text \<open>\<open>None\<close> in \<open>cr_Data\<close> and \<open>cr_Warnings\<close> is \<open>nil\<close>; \<open>e0\<close> is the empty object of the data type.\<close>

definition envelope_New :: "'d \<Rightarrow> string \<Rightarrow> 'd commandResult" where
  "envelope_New e0 command = \<lparr>cr_APIVersion = APIVersion, cr_Kind = Kind, cr_Command = command,
     cr_Success = True, cr_Code = ''OK'', cr_Message = Text [], cr_CorrelationID = [],
     cr_Data = Some e0, cr_Warnings = Some []\<rparr>"

definition envelope_Fail :: "'d commandResult \<Rightarrow> string \<Rightarrow> msg \<Rightarrow> 'd commandResult" where
  "envelope_Fail r code message = r\<lparr>cr_Code := code, cr_Success := (code = ''OK''), cr_Message := message\<rparr>"

text \<open>\<open>Write\<close> restores the non-nil fields and emits the document; the model returns what it emits.\<close>

definition envelope_Write :: "'d \<Rightarrow> 'd commandResult \<Rightarrow> 'd commandResult" where
  "envelope_Write e0 r =
     (let r1 = (if cr_Data r = None then r\<lparr>cr_Data := Some e0\<rparr> else r)
      in if cr_Warnings r1 = None then r1\<lparr>cr_Warnings := Some []\<rparr> else r1)"

definition envelope_ok :: "'d commandResult \<Rightarrow> bool" where
  "envelope_ok r \<longleftrightarrow> cr_APIVersion r = APIVersion \<and> cr_Kind r = Kind \<and> cr_Success r = (cr_Code r = ''OK'')"

lemma envelope_New_ok: "envelope_ok (envelope_New e c)"
  by (simp add: envelope_ok_def envelope_New_def)

lemma envelope_Fail_ok: "envelope_ok r \<Longrightarrow> envelope_ok (envelope_Fail r c m)"
  by (simp add: envelope_ok_def envelope_Fail_def)

lemma envelope_Write_ok: "envelope_ok r \<Longrightarrow> envelope_ok (envelope_Write e r)"
  by (simp add: envelope_ok_def envelope_Write_def Let_def)

lemma envelope_Write_total: "cr_Data (envelope_Write e r) \<noteq> None \<and> cr_Warnings (envelope_Write e r) \<noteq> None"
  by (auto simp: envelope_Write_def Let_def)

subsection \<open>The exit point\<close>

text \<open>
  The end of \<open>Execute\<close>: no error is exit 0; an error is classified once, its help and its one line go
  to standard error, and its code is the status. \<open>xs_help\<close> says that help was printed.
\<close>

record exit_status =
  xs_status :: int
  xs_help :: bool
  xs_line :: "msg option"

definition exitPoint :: "goerr option \<Rightarrow> exit_status" where
  "exitPoint err =
     (case err of
        None \<Rightarrow> \<lparr>xs_status = 0, xs_help = False, xs_line = None\<rparr>
      | Some e \<Rightarrow> (let ce = Classify e in
          \<lparr>xs_status = ce_Code ce, xs_help = ce_ShowHelp ce, xs_line = Some (Sprintf ''Error: %s'' [AMsg (ce_Message ce)])\<rparr>))"

lemma exitPoint_never_legacy:
  "(case err of Some e \<Rightarrow> err_in_taxonomy e | None \<Rightarrow> True) \<Longrightarrow> xs_status (exitPoint err) \<in> set taxonomy"
  by (auto simp: exitPoint_def Let_def Classify_taxonomy split: option.splits) (simp add: taxonomy_def)

end
