(* ===== verification/Root.thy ===== *)
theory Root
  imports SecretFile Rest Envelope
begin

section \<open>The root command's preparation (\<open>cmd/root.go\<close>)\<close>

text \<open>
  \<open>PersistentPreRunE\<close> runs before every command: it resolves the originator and the token. What the
  operating system answers (account, host name, files) is the argument \<open>os_view\<close>; the flags are the
  argument \<open>root_flags\<close>.
\<close>

record os_view =
  os_user :: "string option"
  os_hostname :: "string option"
  os_files :: file_system

record root_flags =
  rf_originator :: bool
  rf_tokenFile :: string
  rf_tokenChanged :: bool

definition SessionTokenPath :: string where "SessionTokenPath = ''/tmp/loxilbtoken''"

definition originatorRefused :: "msg \<Rightarrow> cliError" where
  "originatorRefused m = CLIError0\<lparr>ce_Code := Precondition, ce_Message := Sprintf ''--originator: %s'' [AMsg m],
     ce_ComponentCode := ''originator-unavailable''\<rparr>"

definition cliOriginator :: "os_view \<Rightarrow> cliError + string" where
  "cliOriginator w =
     (case os_user w of
        None \<Rightarrow> Inl (originatorRefused (Sprintf ''cannot determine the OS user: %v'' [AErr ''os/user'']))
      | Some u \<Rightarrow>
        (case os_hostname w of
           None \<Rightarrow> Inl (originatorRefused (Sprintf ''cannot determine the host name: %v'' [AErr ''os'']))
         | Some h \<Rightarrow>
           (case CLIOriginator u h of
              Inl e \<Rightarrow> Inl (originatorRefused (Sprintf ''%v'' [AMsg e]))
            | Inr v \<Rightarrow> Inr v)))"

definition secretEmpty :: "msg \<Rightarrow> cliError" where
  "secretEmpty m = CLIError0\<lparr>ce_Code := Precondition, ce_Message := m, ce_ComponentCode := ''secret-file-empty''\<rparr>"

text \<open>Where the token comes from, in the order the code tries; the second component is the warning.\<close>

definition resolveToken :: "os_view \<Rightarrow> root_flags \<Rightarrow> restOptions \<Rightarrow> cliError + (restOptions \<times> bool)" where
  "resolveToken w fl o' =
     (if rf_tokenFile fl \<noteq> [] then
        (case ReadSecretFile (os_files w) ''token file'' (rf_tokenFile fl) of
           Inl e \<Rightarrow> Inl e
         | Inr secret \<Rightarrow>
             if secret = []
             then Inl (secretEmpty (Sprintf ''the token file %q is empty; requests would go out unauthenticated'' [AStr (rf_tokenFile fl)]))
             else Inr (o'\<lparr>ro_Token := secret\<rparr>, False))
      else if rf_tokenChanged fl then Inr (o', True)
      else case fs_Lstat (os_files w) SessionTokenPath of
          StatNotExist \<Rightarrow> Inr (o', False)
        | StatError \<Rightarrow> Inl (fileReadFailed (Sprintf ''cannot check the session token file %q: %v'' [AStr SessionTokenPath, AErr ''os'']))
        | StatMode _ \<Rightarrow>
            (case ReadSecretFile (os_files w) ''session token file'' SessionTokenPath of
               Inl e \<Rightarrow> Inl e
             | Inr secret \<Rightarrow>
                 if secret = []
                 then Inl (secretEmpty (Sprintf ''the session token file %q is empty; remove it or run \"loxicmd set login\" again'' [AStr SessionTokenPath]))
                 else Inr (o'\<lparr>ro_Token := secret\<rparr>, False)))"

definition PersistentPreRunE :: "os_view \<Rightarrow> root_flags \<Rightarrow> restOptions \<Rightarrow> cliError + (restOptions \<times> bool)" where
  "PersistentPreRunE w fl o' =
     (if rf_originator fl then
        (case cliOriginator w of
           Inl e \<Rightarrow> Inl e
         | Inr v \<Rightarrow> resolveToken w fl (o'\<lparr>ro_Originator := v\<rparr>))
      else resolveToken w fl o')"

text \<open>The rules a file met when its content was taken as a secret.\<close>

definition secret_source :: "file_system \<Rightarrow> string \<Rightarrow> bytes \<Rightarrow> bool" where
  "secret_source fs path secret \<longleftrightarrow>
     IsAbs path \<and> secret \<noteq> [] \<and> (\<exists>m c. fs_Lstat fs path = StatMode m \<and> fs_ReadFile fs path = Some c
        \<and> m AND ModeSymlink = 0 \<and> IsRegular m \<and> owner_only m \<and> secret = trim_space c)"

lemma ReadSecretFile_source: "ReadSecretFile fs what path = Inr s \<Longrightarrow> secret_source fs path s"
  by (auto simp: ReadSecretFile_def CheckSecretPath_def secret_source_def Let_def perm_mask_iff
      split: option.splits if_splits lstat_answer.splits)

lemma resolveToken_source:
  assumes "resolveToken w fl o' = Inr (o'', warn)"
  shows "o'' = o' \<and> rf_tokenFile fl = []
         \<or> (\<exists>path. o'' = o'\<lparr>ro_Token := ro_Token o''\<rparr> \<and> secret_source (os_files w) path (ro_Token o'')
              \<and> path = (if rf_tokenFile fl = [] then SessionTokenPath else rf_tokenFile fl))"
  using assms
  by (auto simp: resolveToken_def split: if_splits sum.splits lstat_answer.splits
      dest!: ReadSecretFile_source)

end
