(* ===== verification/Duration.thy ===== *)
theory Duration
  imports Prelude
begin

section \<open>\<open>time.ParseDuration\<close>\<close>

text \<open>
  The bound that \<open>appliance logs --since\<close> puts on its argument is a bound on what
  \<open>time.ParseDuration\<close> makes of it. The parser works on \<open>uint64\<close> with overflow checks, written out
  here on integers, and adds a fraction through \<open>float64\<close>, written out as rounding to 53 bits.
\<close>

subsection \<open>\<open>float64\<close> on non-negative quotients\<close>

fun bits :: "int \<Rightarrow> nat" where
  "bits n = (if n \<le> 0 then 0 else Suc (bits (n div 2)))"

declare bits.simps [simp del]

definition scale_by :: "int \<Rightarrow> int \<times> int \<Rightarrow> int \<times> int" where
  "scale_by e q = (fst q * 2 ^ nat (- e), snd q * 2 ^ nat e)"

text \<open>The nearest quotient with a 53-bit numerator, ties to even; the exponent is not bounded.\<close>

definition round53 :: "int \<times> int \<Rightarrow> int \<times> int" where
  "round53 q =
     (if fst q = 0 then (0, 1)
      else let e0 = int (bits (fst q)) - int (bits (snd q)) - 53;
               e = (if fst (scale_by e0 q) < 2 ^ 53 * snd (scale_by e0 q) then e0 else e0 + 1);
               a = fst (scale_by e q); b = snd (scale_by e q); m = a div b; r = a mod b;
               m' = (if 2 * r > b \<or> (2 * r = b \<and> odd m) then m + 1 else m)
           in (m' * 2 ^ nat e, 2 ^ nat (- e)))"

definition qmult :: "int \<times> int \<Rightarrow> int \<times> int \<Rightarrow> int \<times> int" where
  "qmult p q = (fst p * fst q, snd p * snd q)"

primrec scale10 :: "nat \<Rightarrow> int \<times> int" where
  "scale10 0 = (1, 1)"
| "scale10 (Suc k) = round53 (qmult (scale10 k) (10, 1))"

text \<open>\<open>uint64(float64(f) * (float64(unit) / scale))\<close>, with \<open>scale\<close> ten multiplied \<open>k\<close> times.\<close>

definition fraction_ns :: "int \<Rightarrow> int \<Rightarrow> nat \<Rightarrow> int" where
  "fraction_ns f unit k =
     (let s = scale10 k; p = round53 (qmult (round53 (f, 1)) (round53 (unit * snd s, fst s))) in fst p div snd p)"

subsection \<open>The parser\<close>

fun leadingInt :: "int \<Rightarrow> string \<Rightarrow> (int \<times> string) option" where
  "leadingInt x [] = Some (x, [])"
| "leadingInt x (c # cs) =
     (if \<not> is_digit c then Some (x, c # cs)
      else if x > 2 ^ 63 div 10 then None
      else let y = x * 10 + (int (byte c) - 48) in if y > 2 ^ 63 then None else leadingInt y cs)"

text \<open>The fraction's digits that fit, their number, and the rest; later digits are skipped.\<close>

fun leadingFraction :: "bool \<Rightarrow> int \<Rightarrow> nat \<Rightarrow> string \<Rightarrow> int \<times> nat \<times> string" where
  "leadingFraction over x k [] = (x, k, [])"
| "leadingFraction over x k (c # cs) =
     (if \<not> is_digit c then (x, k, c # cs)
      else if over \<or> x > (2 ^ 63 - 1) div 10 then leadingFraction True x k cs
      else let y = x * 10 + (int (byte c) - 48) in
        if y > 2 ^ 63 then leadingFraction True x k cs else leadingFraction False y (Suc k) cs)"

definition unitMap :: "(string \<times> int) list" where
  "unitMap =
    [(''ns'', 1), (''us'', 1000), ([CHR 0xC2, CHR 0xB5, CHR ''s''], 1000), ([CHR 0xCE, CHR 0xBC, CHR ''s''], 1000),
     (''ms'', 1000000), (''s'', 1000000000), (''m'', 60 * 1000000000), (''h'', 3600 * 1000000000)]"

definition unit_char :: "char \<Rightarrow> bool" where
  "unit_char c \<longleftrightarrow> \<not> (c = CHR ''.'' \<or> is_digit c)"

definition dur_fraction :: "string \<Rightarrow> int \<times> nat \<times> bool \<times> string" where
  "dur_fraction s =
     (case s of
        c # r \<Rightarrow> if c = CHR ''.'' then (case leadingFraction False 0 0 r of (f, k, r') \<Rightarrow> (f, k, length r' \<noteq> length r, r'))
                 else (0, 0, False, s)
      | [] \<Rightarrow> (0, 0, False, s))"

text \<open>One \<open>number unit\<close> term: its nanoseconds and what follows it.\<close>

definition dur_term :: "string \<Rightarrow> (int \<times> string) option" where
  "dur_term s =
     (if s = [] \<or> \<not> (hd s = CHR ''.'' \<or> is_digit (hd s)) then None
      else case leadingInt 0 s of
        None \<Rightarrow> None
      | Some (v, s1) \<Rightarrow>
          (case dur_fraction s1 of (f, k, post, s2) \<Rightarrow>
             if length s1 = length s \<and> \<not> post then None
             else let u = takeWhile unit_char s2; s3 = dropWhile unit_char s2 in
               if u = [] then None
               else case map_of unitMap u of
                 None \<Rightarrow> None
               | Some unit \<Rightarrow>
                   if v > 2 ^ 63 div unit then None
                   else let v1 = v * unit; v2 = (if f > 0 then v1 + fraction_ns f unit k else v1) in
                     if v2 > 2 ^ 63 then None else Some (v2, s3)))"

lemma leadingInt_le: "leadingInt x s = Some (v, r) \<Longrightarrow> length r \<le> length s"
  by (induction x s rule: leadingInt.induct) (auto simp: Let_def split: if_splits)

lemma leadingFraction_le: "leadingFraction ov x k s = (f, n, r) \<Longrightarrow> length r \<le> length s"
  by (induction ov x k s rule: leadingFraction.induct) (auto simp: Let_def le_Suc_eq split: if_splits)

lemma dur_fraction_le: "dur_fraction s = (f, k, p, r) \<Longrightarrow> length r \<le> length s"
  by (auto simp: dur_fraction_def dest!: leadingFraction_le split: list.splits if_splits prod.splits)

lemma dropWhile_shorter: "takeWhile P s \<noteq> [] \<Longrightarrow> length (dropWhile P s) < length s"
  by (cases s) (auto simp: less_Suc_eq_le length_dropWhile_le split: if_splits)

lemma dur_term_shorter: "dur_term s = Some (v, r) \<Longrightarrow> length r < length s"
proof -
  assume "dur_term s = Some (v, r)"
  then obtain w s1 f k p s2 where "leadingInt 0 s = Some (w, s1)" "dur_fraction s1 = (f, k, p, s2)"
      "takeWhile unit_char s2 \<noteq> []" "r = dropWhile unit_char s2"
    by (auto simp: dur_term_def Let_def split: if_splits option.splits prod.splits)
  with leadingInt_le dur_fraction_le dropWhile_shorter show ?thesis
    by (metis le_trans leD nat_le_linear order.strict_trans1 less_le_trans)
qed

function dur_terms :: "int \<Rightarrow> string \<Rightarrow> int option" where
  "dur_terms d [] = Some d"
| "dur_terms d (c # cs) =
     (case dur_term (c # cs) of
        None \<Rightarrow> None
      | Some (v, r) \<Rightarrow> if d + v > 2 ^ 63 then None else dur_terms (d + v) r)"
  by pat_completeness auto
termination
  by (relation "measure (length \<circ> snd)") (auto dest: dur_term_shorter)

definition ParseDuration :: "string \<Rightarrow> int option" where
  "ParseDuration orig =
     (let neg = (orig \<noteq> [] \<and> hd orig = CHR ''-'');
          s = (if orig \<noteq> [] \<and> (hd orig = CHR ''-'' \<or> hd orig = CHR ''+'') then tl orig else orig) in
      if s = ''0'' then Some 0
      else if s = [] then None
      else case dur_terms 0 s of
        None \<Rightarrow> None
      | Some d \<Rightarrow> if neg then Some (- d) else if d > 2 ^ 63 - 1 then None else Some d)"

lemma round53_nonneg: "0 \<le> fst q \<Longrightarrow> 0 \<le> snd q \<Longrightarrow> 0 \<le> fst (round53 q) \<and> 0 < snd (round53 q)"
  by (auto simp: round53_def Let_def scale_by_def pos_imp_zdiv_nonneg_iff intro!: mult_nonneg_nonneg add_nonneg_nonneg div_int_pos_iff [THEN iffD2])

lemma scale10_nonneg: "0 \<le> fst (scale10 k) \<and> 0 < snd (scale10 k)"
  by (induction k) (auto simp: qmult_def intro!: round53_nonneg [THEN conjunct1] round53_nonneg [THEN conjunct2])

lemma fraction_ns_nonneg: "0 \<le> f \<Longrightarrow> 0 \<le> u \<Longrightarrow> 0 \<le> fraction_ns f u k"
proof -
  assume "0 \<le> f" "0 \<le> u"
  then have "0 \<le> fst (round53 (f, 1)) \<and> 0 < snd (round53 (f, 1))"
      "0 \<le> fst (round53 (u * snd (scale10 k), fst (scale10 k))) \<and> 0 < snd (round53 (u * snd (scale10 k), fst (scale10 k)))"
    using scale10_nonneg [of k] by (auto intro!: round53_nonneg)
  then have "0 \<le> fst (round53 (qmult (round53 (f, 1)) (round53 (u * snd (scale10 k), fst (scale10 k)))))
      \<and> 0 < snd (round53 (qmult (round53 (f, 1)) (round53 (u * snd (scale10 k), fst (scale10 k)))))"
    by (intro round53_nonneg) (simp_all add: qmult_def)
  then show ?thesis by (simp add: fraction_ns_def Let_def pos_imp_zdiv_nonneg_iff)
qed

lemma leadingInt_nonneg: "leadingInt x s = Some (v, r) \<Longrightarrow> 0 \<le> x \<Longrightarrow> 0 \<le> v"
  by (induction x s rule: leadingInt.induct) (auto simp: Let_def is_digit_def split: if_splits)

lemma leadingFraction_nonneg: "leadingFraction ov x k s = (f, n, r) \<Longrightarrow> 0 \<le> x \<Longrightarrow> 0 \<le> f"
  by (induction ov x k s rule: leadingFraction.induct) (auto simp: Let_def is_digit_def split: if_splits)

lemma unitMap_pos: "map_of unitMap u = Some v \<Longrightarrow> 0 < v"
  by (erule map_of_all [rotated]) (simp add: unitMap_def)

lemma dur_term_nonneg: "dur_term s = Some (v, r) \<Longrightarrow> 0 \<le> v"
  by (auto simp: dur_term_def Let_def dest!: leadingInt_nonneg unitMap_pos
      intro!: add_nonneg_nonneg fraction_ns_nonneg split: if_splits option.splits prod.splits)

lemma dur_terms_nonneg: "dur_terms a s = Some d \<Longrightarrow> 0 \<le> a \<Longrightarrow> 0 \<le> d"
  by (induction a s rule: dur_terms.induct) (auto dest: dur_term_nonneg split: option.splits if_splits)

lemma ParseDuration_bounds:
  assumes "ParseDuration s = Some d"
  shows "- (2 ^ 63) \<le> d \<and> d < 2 ^ 63"
proof -
  have acc: "dur_terms a s = Some d \<Longrightarrow> a \<le> 2 ^ 63 \<Longrightarrow> d \<le> 2 ^ 63" for a s d
    by (induction a s rule: dur_terms.induct) (auto split: option.splits if_splits)
  show ?thesis
    using assms
    by (auto simp: ParseDuration_def Let_def split: if_splits option.splits dest: acc dur_terms_nonneg)
qed

lemma ParseDuration_not_flag:
  assumes "ParseDuration s = Some d" "0 < d"
  shows "s \<noteq> [] \<and> \<not> has_prefix ''-'' s"
  using assms by (cases s) (auto simp: ParseDuration_def Let_def dest: dur_terms_nonneg split: if_splits option.splits)

end
