(* ===== verification/Appliance.thy ===== *)
theory Appliance
  imports BackendSafety Root Duration
begin

section \<open>The \<open>appliance\<close> command family (\<open>cmd/appliance\<close>)\<close>

text \<open>
  What each command does with its arguments, and how a backend outcome becomes output and an error.
  A command returns what it wrote, the error it ends with, and the log of spawns. The writers are
  the argument \<open>console\<close>: what a \<open>Write\<close> to standard output or standard error answers. The deadline
  of \<open>requestContext\<close> shows in the host's outcome (\<open>oc_ctxDone\<close>). \<open>url_parse\<close> is passed on to the
  payload validator.
\<close>

record applianceData =
  ad_Backend :: "bytes option"
  ad_Origin :: "string option"
  ad_HTTPStatus :: "int option"
  ad_ComponentCode :: "string option"
  ad_OperationID :: "string option"

definition applianceData0 :: applianceData where
  "applianceData0 = \<lparr>ad_Backend = None, ad_Origin = None, ad_HTTPStatus = None, ad_ComponentCode = None, ad_OperationID = None\<rparr>"

datatype emission = OBytes bytes | OEnvelope "applianceData commandResult"

record console =
  cn_out :: "goerr option"
  cn_errOut :: "goerr option"

record command_run =
  cx_out :: "emission list"
  cx_errOut :: bytes
  cx_err :: "goerr option"
  cx_log :: "spawn list"

subsection \<open>The verdict on a finished backend process\<close>

fun firstLine :: "bytes \<Rightarrow> string" where
  "firstLine [] = []"
| "firstLine (c # cs) = (if c = CHR 0x0A then [] else c # firstLine cs)"

definition backendFailureMessage :: "string \<Rightarrow> backendResult \<Rightarrow> msg" where
  "backendFailureMessage subcommand res =
     (let line = firstLine (rs_Stderr res) in
      if line = [] then Sprintf ''the backend's %s failed (exit %d)'' [AStr subcommand, AInt (rs_ExitCode res)]
      else Sprintf ''the backend's %s failed (exit %d): %s'' [AStr subcommand, AInt (rs_ExitCode res), AStr line])"

definition backendOutcome :: "string \<Rightarrow> backendResult \<Rightarrow> bool \<Rightarrow> goerr option" where
  "backendOutcome subcommand res mutating =
     (if rs_ExitCode res = 0 \<and> \<not> rs_Signaled res then None
      else if \<not> rs_Signaled res then
        Some (ECLI (CLIError0\<lparr>
          ce_Code := (if 2 \<le> rs_ExitCode res \<and> rs_ExitCode res \<le> 8 then rs_ExitCode res else Failed),
          ce_Message := backendFailureMessage subcommand res, ce_Origin := ''backend'',
          ce_ComponentCode := ''backend-exit-'' @ show_int (rs_ExitCode res)\<rparr>))
      else
        (let (cause, code) = (if rs_TimedOut res then (''did not finish within the timeout and was stopped'', ''backend-timeout'')
                              else (''was killed before it reported an outcome'', ''backend-killed'')) in
         if \<not> mutating then
           Some (ECLI (CLIError0\<lparr>ce_Code := Unavailable,
             ce_Message := Sprintf ''the backend's %s %s; it read nothing and changed nothing, so this is safe to retry''
               [AStr subcommand, AStr cause],
             ce_Origin := ''backend'', ce_ComponentCode := code\<rparr>))
         else
           Some (ECLI (CLIError0\<lparr>ce_Code := Partial,
             ce_Message := Sprintf (''the backend's %s %s, so whether it took effect is UNKNOWN; do not retry blindly ''
                 @ em_dash @ '' determine the host's actual state first, using operation id %s'')
               [AStr subcommand, AStr cause, AStr (Result_OperationID res)],
             ce_Origin := ''backend'', ce_ComponentCode := code\<rparr>))))"

definition payloadExecutionError :: "payloadTuple \<Rightarrow> string \<Rightarrow> msg \<Rightarrow> backendResult \<Rightarrow> string \<Rightarrow> goerr" where
  "payloadExecutionError t command reason res operationID =
     EPayload (WithExecutionEvidence (payloadError t command reason) (rs_ExitCode res) (rs_CorrelationID res) operationID)"

text \<open>\<open>PayloadTuple{Command: subcommand}\<close>\<close>

definition bare_tuple :: "string \<Rightarrow> payloadTuple" where
  "bare_tuple subcommand = \<lparr>pt_ContractMajor = 0, pt_SchemaVersion = [], pt_Command = subcommand\<rparr>"

text \<open>The part of \<open>validateJSONOutcome\<close> after the document is validated: it must fit the process status.\<close>

definition judgeDocument :: "string \<Rightarrow> backendResult \<Rightarrow> validatedPayload \<Rightarrow> validatedPayload option \<times> goerr option" where
  "judgeDocument subcommand res validated =
     (let refuse = (\<lambda>m. (None, Some (payloadExecutionError (vp_Tuple validated) (vp_Command validated) m res (vp_OperationID validated)))) in
      if rs_ExitCode res = 0 then
        (if vp_OperationError validated \<noteq> None
         then refuse (Text ''an operation-error document accompanied process exit 0'')
         else (Some validated, None))
      else (case vp_OperationError validated of
         None \<Rightarrow> refuse (Sprintf ''a success document accompanied process exit %d'' [AInt (rs_ExitCode res)])
       | Some opErr \<Rightarrow>
           if boe_Exit opErr \<noteq> rs_ExitCode res then
             refuse (Sprintf ''document exit %d differs from process exit %d'' [AInt (boe_Exit opErr), AInt (rs_ExitCode res)])
           else if boe_CorrelationID opErr \<noteq> [] \<and> boe_CorrelationID opErr \<noteq> rs_CorrelationID res then
             refuse (Text ''document correlationId differs from the invocation correlationId'')
           else
             (Some validated, Some (ECLI (CLIError0\<lparr>ce_Code := boe_Exit opErr,
                ce_Message := (if boe_Message opErr = [] then backendFailureMessage subcommand res else Text (boe_Message opErr)),
                ce_Origin := boe_Origin opErr, ce_ComponentCode := boe_ComponentCode opErr\<rparr>)))))"

definition validateJSONOutcome :: "url_parser \<Rightarrow> string \<Rightarrow> backendResult \<Rightarrow> validatedPayload option \<times> goerr option" where
  "validateJSONOutcome up subcommand res =
     (case PayloadTupleForCommand up subcommand of (selected, ok) \<Rightarrow>
      if \<not> ok then
        (None, Some (payloadExecutionError (bare_tuple subcommand) subcommand
           (Text ''the command has no registered JSON payload tuple'') res []))
      else case ValidatePayload up selected (rs_Stdout res) of
        Inl e \<Rightarrow> (None, Some (EPayload (WithExecutionEvidence e (rs_ExitCode res) (rs_CorrelationID res) [])))
      | Inr validated \<Rightarrow> judgeDocument subcommand res validated)"

definition resolveBackendOutcome ::
  "url_parser \<Rightarrow> string \<Rightarrow> backendResult \<Rightarrow> bool \<Rightarrow> bool \<Rightarrow> validatedPayload option \<times> goerr option" where
  "resolveBackendOutcome up subcommand res mutating jsonOut =
     (if jsonOut \<and> \<not> rs_Signaled res \<and> (rs_ExitCode res = 0 \<or> (2 \<le> rs_ExitCode res \<and> rs_ExitCode res \<le> 8))
      then validateJSONOutcome up subcommand res
      else (None, backendOutcome subcommand res mutating))"

subsection \<open>The envelope and the dispatchers\<close>

definition failure_data :: "cliError \<Rightarrow> applianceData \<Rightarrow> applianceData" where
  "failure_data ce d = d\<lparr>ad_Origin := Some (if ce_Origin ce = [] then ''cli'' else ce_Origin ce),
     ad_HTTPStatus := Some (ce_HTTPStatus ce), ad_ComponentCode := Some (ce_ComponentCode ce)\<rparr>"

definition writeEnvelope ::
  "string \<Rightarrow> backendResult option \<Rightarrow> validatedPayload option \<Rightarrow> goerr option \<Rightarrow> applianceData commandResult" where
  "writeEnvelope command res validated err =
     (let result0 = envelope_New applianceData0 command;
          result1 = (case res of None \<Rightarrow> result0 | Some r \<Rightarrow> result0\<lparr>cr_CorrelationID := rs_CorrelationID r\<rparr>);
          data1 = (case validated of None \<Rightarrow> applianceData0 | Some v \<Rightarrow> applianceData0\<lparr>ad_Backend := Some (vp_Document v)\<rparr>) in
      case err of
        None \<Rightarrow> envelope_Write applianceData0 (result1\<lparr>cr_Data := Some data1\<rparr>)
      | Some e \<Rightarrow>
          (let ce = Classify e;
               result2 = envelope_Fail result1 (Label (ce_Code ce)) (ce_Message ce);
               data2 = failure_data ce data1;
               data3 = (case res of
                  Some r \<Rightarrow> if ce_Code ce = Partial then
                      data2\<lparr>ad_OperationID := Some (case validated of
                          Some v \<Rightarrow> if vp_OperationID v \<noteq> [] then vp_OperationID v else rs_CorrelationID r
                        | None \<Rightarrow> rs_CorrelationID r)\<rparr>
                    else data2
                | None \<Rightarrow> data2)
           in envelope_Write applianceData0 (result2\<lparr>cr_Data := Some data3\<rparr>)))"

text \<open>
  The part the two dispatchers share, after the invocation. An invocation with neither a result nor
  an error would be a nil dereference; \<open>ApplianceSafety\<close> shows that there is none.
\<close>

definition nil_dereference :: goerr where
  "nil_dereference = EPlain ''runtime error: invalid memory address or nil pointer dereference''"

definition finish ::
  "url_parser \<Rightarrow> console \<Rightarrow> string \<Rightarrow> string \<Rightarrow> bool \<Rightarrow> bool \<Rightarrow> invocation \<Rightarrow> command_run" where
  "finish up con command subcommand mutating jsonOut called =
     (case called of (res, err, log) \<Rightarrow>
      (case (case err of Some e \<Rightarrow> (None, Some e)
             | None \<Rightarrow> (case res of None \<Rightarrow> (None, Some nil_dereference)
                         | Some r \<Rightarrow> resolveBackendOutcome up subcommand r mutating jsonOut)) of
         (validated, Some e) \<Rightarrow>
           \<lparr>cx_out = (if jsonOut then [OEnvelope (writeEnvelope command res validated (Some e))] else []),
            cx_errOut = [], cx_err = Some e, cx_log = log\<rparr>
       | (validated, None) \<Rightarrow>
           (let r = (case res of Some r \<Rightarrow> r | None \<Rightarrow> Result0) in
            case cn_errOut con of
              Some we \<Rightarrow> \<lparr>cx_out = [], cx_errOut = rs_Stderr r, cx_err = Some we, cx_log = log\<rparr>
            | None \<Rightarrow>
                if \<not> jsonOut then \<lparr>cx_out = [OBytes (rs_Stdout r)], cx_errOut = rs_Stderr r, cx_err = cn_out con, cx_log = log\<rparr>
                else \<lparr>cx_out = [OEnvelope (writeEnvelope command res validated None)], cx_errOut = rs_Stderr r, cx_err = None, cx_log = log\<rparr>)))"

definition dispatchReadOnlyRequest ::
  "url_parser \<Rightarrow> host \<Rightarrow> console \<Rightarrow> restOptions \<Rightarrow> string \<Rightarrow> request \<Rightarrow> spawn list \<Rightarrow> command_run" where
  "dispatchReadOnlyRequest up h con o' command req log =
     (let jsonOut = (ro_PrintOption o' = ''json'') in
      finish up con command (rq_Subcommand req) False jsonOut (InvokeReadOnly h (req\<lparr>rq_JSON := jsonOut\<rparr>) log))"

definition request0 :: request where
  "request0 = \<lparr>rq_Subcommand = [], rq_Args = [], rq_JSON = False, rq_Secret = None\<rparr>"

definition dispatchReadOnly ::
  "url_parser \<Rightarrow> host \<Rightarrow> console \<Rightarrow> restOptions \<Rightarrow> string \<Rightarrow> string \<Rightarrow> spawn list \<Rightarrow> command_run" where
  "dispatchReadOnly up h con o' command subcommand log =
     dispatchReadOnlyRequest up h con o' command (request0\<lparr>rq_Subcommand := subcommand\<rparr>) log"

definition dispatchMutating ::
  "url_parser \<Rightarrow> host \<Rightarrow> console \<Rightarrow> restOptions \<Rightarrow> string \<Rightarrow> request \<Rightarrow> spawn list \<Rightarrow> command_run" where
  "dispatchMutating up h con o' command req log =
     (let jsonOut = (ro_PrintOption o' = ''json'') in
      finish up con command (rq_Subcommand req) True jsonOut (InvokeMutating h (req\<lparr>rq_JSON := jsonOut\<rparr>) log))"

subsection \<open>The commands\<close>

definition logComponents :: "string list" where
  "logComponents = [''gateway'', ''oam'', ''ui'', ''caddy'', ''postgres'', ''state'', ''dataplane'', ''management'']"

definition maxLogSince :: int where "maxLogSince = 7 * 24 * 3600 * 1000000000"
definition maxLogLines :: int where "maxLogLines = 10000"

text \<open>
  A leaf command, from its flags and positional arguments: an error before any spawn, or the public
  command name and the request it dispatches. \<open>ExactArgs\<close> is cobra's check of the positionals.
\<close>

definition publicAddress_request :: "string \<Rightarrow> bool \<Rightarrow> cliError + request" where
  "publicAddress_request addr noRestart =
     (case parse_ipv4 addr of
        None \<Rightarrow> Inl (Invalidf (Sprintf ''%q is not a canonical IPv4 address'' [AStr addr]))
      | Some q \<Rightarrow>
          if join_dots q \<noteq> addr then Inl (Invalidf (Sprintf ''%q is not a canonical IPv4 address'' [AStr addr]))
          else Inr (request0\<lparr>rq_Subcommand := ''public-address configure'',
                 rq_Args := [addr] @ (if noRestart then [''--no-restart''] else [])\<rparr>))"

definition registerLocal_request :: "file_system \<Rightarrow> string \<Rightarrow> string \<Rightarrow> cliError + request" where
  "registerLocal_request fs username passwordFile =
     (if username = [] \<or> passwordFile = [] then Inl (Usagef (Text ''--username and --password-file are both required''))
      else if \<not> usernameShape username then
        Inl (Invalidf (Sprintf ''username %q has a shape this CLI refuses to pass on'' [AStr username]))
      else case ReadSecretFile fs ''password file'' passwordFile of
        Inl e \<Rightarrow> Inl e
      | Inr secret \<Rightarrow> Inr (request0\<lparr>rq_Subcommand := ''gateway register-local'',
          rq_Args := [''--username'', username, ''--password-stdin''], rq_Secret := Some secret\<rparr>))"

text \<open>\<open>stdioIsTerminal\<close>: what \<open>Stat\<close> answers for standard input and standard output.\<close>

definition stdioIsTerminal :: "32 word option \<Rightarrow> 32 word option \<Rightarrow> bool" where
  "stdioIsTerminal stdin stdout \<longleftrightarrow>
     list_all (\<lambda>f. case f of None \<Rightarrow> False | Some m \<Rightarrow> m AND ModeCharDevice \<noteq> 0) [stdin, stdout]"

definition bootstrap_request :: "restOptions \<Rightarrow> 32 word option \<Rightarrow> 32 word option \<Rightarrow> cliError + request" where
  "bootstrap_request o' stdin stdout =
     (if ro_PrintOption o' = ''json'' then
        Inl (Invalidf (Text ''credentials bootstrap has no JSON mode: the credential must not land in machine-collected output''))
      else if \<not> stdioIsTerminal stdin stdout then
        Inl (CLIError0\<lparr>ce_Code := Precondition,
          ce_Message := Text ''credentials bootstrap runs only on an interactive local console (stdin and stdout must be a terminal, not redirected)'',
          ce_ComponentCode := ''console-required''\<rparr>)
      else Inr (request0\<lparr>rq_Subcommand := ''credentials bootstrap''\<rparr>))"

text \<open>\<open>-o\<close> on \<open>diagnostics create\<close>: a format name selects the format, another text is the path.\<close>

definition diagnosticsOutput_Set :: "string \<Rightarrow> restOptions \<times> string \<Rightarrow> restOptions \<times> string" where
  "diagnosticsOutput_Set value st =
     (if value \<in> {''json'', ''wide'', ''table''} then ((fst st)\<lparr>ro_PrintOption := value\<rparr>, snd st) else (fst st, value))"

definition diagnostics_request :: "bool \<Rightarrow> string \<Rightarrow> cliError + request" where
  "diagnostics_request redact output =
     (if \<not> redact then Inl (Usagef (Text ''--redact is required; an unredacted archive does not exist by design''))
      else if output \<noteq> [] \<and> \<not> IsAbs output then Inl (Invalidf (Sprintf ''--output must be an absolute path, got %q'' [AStr output]))
      else Inr (request0\<lparr>rq_Subcommand := ''diagnostics create'',
             rq_Args := [''--redact''] @ (if output = [] then [] else [''--output'', output])\<rparr>))"

definition logs_request :: "string \<Rightarrow> bool \<Rightarrow> string \<Rightarrow> int \<Rightarrow> cliError + request" where
  "logs_request component redact since lines =
     (if component \<notin> set logComponents then
        Inl (Invalidf (Sprintf ''component %q is not in the allowlist (gateway, oam, ui, caddy, postgres, state, dataplane, management)'' [AStr component]))
      else if \<not> redact then Inl (Usagef (Text ''--redact is required; unredacted log export does not exist by design''))
      else if since \<noteq> [] \<and> (case ParseDuration since of None \<Rightarrow> True | Some d \<Rightarrow> d \<le> 0 \<or> d > maxLogSince) then
        Inl (Invalidf (Sprintf ''--since must be a positive duration up to %s, got %q'' [AInt maxLogSince, AStr since]))
      else if lines \<noteq> 0 \<and> (lines < 1 \<or> lines > maxLogLines) then
        Inl (Invalidf (Sprintf ''--lines must be between 1 and %d, got %d'' [AInt maxLogLines, AInt lines]))
      else Inr (request0\<lparr>rq_Subcommand := ''logs'',
             rq_Args := [component, ''--redact''] @ (if since = [] then [] else [''--since'', since])
               @ (if lines = 0 then [] else [''--lines'', show_int lines])\<rparr>))"

definition keyCreate_request :: "file_system \<Rightarrow> string \<Rightarrow> cliError + request" where
  "keyCreate_request fs newKeyFile =
     (if newKeyFile = [] then Inl (Usagef (Text ''--key-file is required (the new key's absolute path)''))
      else if \<not> IsAbs newKeyFile then Inl (Invalidf (Sprintf ''--key-file must be an absolute path, got %q'' [AStr newKeyFile]))
      else case fs_Lstat fs newKeyFile of
        StatMode _ \<Rightarrow> Inl (CLIError0\<lparr>ce_Code := Precondition,
          ce_Message := Sprintf ''%q already exists; key-create refuses to overwrite a key'' [AStr newKeyFile],
          ce_ComponentCode := ''secret-file-refused''\<rparr>)
      | _ \<Rightarrow> Inr (request0\<lparr>rq_Subcommand := ''backup key-create'', rq_Args := [''--key-file'', newKeyFile]\<rparr>))"

definition backupArchive_request :: "file_system \<Rightarrow> string \<Rightarrow> string \<Rightarrow> string \<Rightarrow> cliError + request" where
  "backupArchive_request fs subcommand path keyFile =
     (if \<not> IsAbs path then Inl (Invalidf (Sprintf ''the archive path must be absolute, got %q'' [AStr path]))
      else if keyFile = [] then Inl (Usagef (Text ''--key-file is required''))
      else case CheckSecretPath fs ''key file'' keyFile of
        Some e \<Rightarrow> Inl e
      | None \<Rightarrow> Inr (request0\<lparr>rq_Subcommand := subcommand, rq_Args := [path, ''--key-file'', keyFile]\<rparr>))"

text \<open>A parent command run on its own: \<open>path\<close> is its path, such as \<open>appliance network\<close>.\<close>

definition parent_RunE :: "string \<Rightarrow> string list \<Rightarrow> cliError" where
  "parent_RunE path args =
     (case args of
        [] \<Rightarrow> Usagef (Text (path @ '' needs a subcommand''))
      | a # _ \<Rightarrow> Usagef (Sprintf (''unknown command %q for \"loxicmd '' @ path @ ''\"'') [AStr a]))"

text \<open>The family: one constructor per leaf, with what the leaf's flags and arguments hold.\<close>

datatype appliance_command =
    CmdStatus
  | CmdNetworkValidate
  | CmdPublicAddress string bool
  | CmdRegisterLocal string string
  | CmdBootstrap "32 word option" "32 word option"
  | CmdDiagnostics bool string
  | CmdLogs string bool string int
  | CmdKeyCreate string
  | CmdBackupCreate string string
  | CmdBackupVerify string string

definition refuse :: "cliError \<Rightarrow> spawn list \<Rightarrow> command_run" where
  "refuse e log = \<lparr>cx_out = [], cx_errOut = [], cx_err = Some (ECLI e), cx_log = log\<rparr>"

fun mutating_request :: "file_system \<Rightarrow> restOptions \<Rightarrow> appliance_command \<Rightarrow> (string \<times> (cliError + request)) option" where
  "mutating_request fs o' CmdStatus = None"
| "mutating_request fs o' CmdNetworkValidate = None"
| "mutating_request fs o' (CmdPublicAddress addr noRestart) =
     Some (''appliance.public-address.configure'', publicAddress_request addr noRestart)"
| "mutating_request fs o' (CmdRegisterLocal username passwordFile) =
     Some (''appliance.gateway.register-local'', registerLocal_request fs username passwordFile)"
| "mutating_request fs o' (CmdBootstrap stdin stdout) =
     Some (''appliance.credentials.bootstrap'', bootstrap_request o' stdin stdout)"
| "mutating_request fs o' (CmdDiagnostics redact output) =
     Some (''appliance.diagnostics.create'', diagnostics_request redact output)"
| "mutating_request fs o' (CmdLogs component redact since lines) =
     Some (''appliance.logs'', logs_request component redact since lines)"
| "mutating_request fs o' (CmdKeyCreate newKeyFile) =
     Some (''appliance.backup.key-create'', keyCreate_request fs newKeyFile)"
| "mutating_request fs o' (CmdBackupCreate path keyFile) =
     Some (''appliance.backup.create'', backupArchive_request fs ''backup create'' path keyFile)"
| "mutating_request fs o' (CmdBackupVerify path keyFile) =
     Some (''appliance.backup.verify'', backupArchive_request fs ''backup verify'' path keyFile)"

definition run_appliance ::
  "url_parser \<Rightarrow> host \<Rightarrow> file_system \<Rightarrow> console \<Rightarrow> restOptions \<Rightarrow> appliance_command \<Rightarrow> spawn list \<Rightarrow> command_run" where
  "run_appliance up h fs con o' cmd log =
     (case mutating_request fs o' cmd of
        Some (command, Inl e) \<Rightarrow> refuse e log
      | Some (command, Inr req) \<Rightarrow> dispatchMutating up h con o' command req log
      | None \<Rightarrow>
          if cmd = CmdStatus then dispatchReadOnly up h con o' ''appliance.status'' ''status'' log
          else dispatchReadOnly up h con o' ''appliance.network.validate'' ''network validate'' log)"

end
