(* ===== verification/ApplianceSafety.thy ===== *)
theory ApplianceSafety
  imports Appliance
begin

section \<open>What the \<open>appliance\<close> commands guarantee\<close>

text \<open>
  Every request the commands build is inside the allowlist; the envelope and the process status agree;
  backend bytes reach the envelope only as a validated document; an interrupted mutation is reported
  as an unknown outcome.
\<close>

subsection \<open>Requests\<close>

lemma fields_eval:
  "Prelude.fields ''gateway register-local'' = [''gateway'', ''register-local'']"
  by code_simp

lemma is_digit_not_dash: "is_digit c \<Longrightarrow> c \<noteq> CHR ''-''"
  by (auto simp: is_digit_def)

lemma parse_ipv4_positional: "parse_ipv4 s = Some q \<Longrightarrow> is_positional s"
  by (cases s) (auto simp: parse_ipv4_def is_positional_def is_digit_def split: if_splits)

lemma IsAbs_positional: "IsAbs p \<Longrightarrow> is_positional p"
  by (cases p) (auto simp: IsAbs_def is_positional_def)

lemma logComponents_positional: "c \<in> set logComponents \<Longrightarrow> is_positional c"
  by (auto simp: logComponents_def is_positional_def)

lemmas flag_eval = is_positional_def flag_matches_def takes_value_def has_suffix_def trim_suffix_def

lemma validateRequest_eval:
  "map_of allowedArgv (rq_Subcommand req) = Some rule \<Longrightarrow> ar_mutating rule = m \<Longrightarrow>
   argvRule_validate rule (rq_Args req) = None \<Longrightarrow> rq_Secret req = None \<or> ar_stdinSecret rule \<Longrightarrow>
   validateRequest req m = None"
  by (auto simp: validateRequest_def)

lemma publicAddress_allowed:
  "publicAddress_request addr nr = Inr req \<Longrightarrow> validateRequest (req\<lparr>rq_JSON := j\<rparr>) True = None"
  by (auto simp: publicAddress_request_def request0_def allowedArgv_def argvRule0_def argvRule_validate_def
      flag_matches_def takes_value_def has_suffix_def is_positional_def dest!: parse_ipv4_positional
      intro!: validateRequest_eval split: option.splits if_splits)

lemma registerLocal_allowed:
  "registerLocal_request fs u p = Inr req \<Longrightarrow> validateRequest (req\<lparr>rq_JSON := j\<rparr>) True = None"
  by (auto simp: registerLocal_request_def request0_def allowedArgv_def argvRule0_def argvRule_validate_def flag_eval
      intro!: validateRequest_eval split: sum.splits if_splits)

lemma bootstrap_allowed:
  "bootstrap_request o' i k = Inr req \<Longrightarrow> validateRequest (req\<lparr>rq_JSON := j\<rparr>) True = None"
  by (auto simp: bootstrap_request_def request0_def allowedArgv_def argvRule0_def argvRule_validate_def
      intro!: validateRequest_eval split: if_splits)

lemma diagnostics_allowed:
  "diagnostics_request r out = Inr req \<Longrightarrow> validateRequest (req\<lparr>rq_JSON := j\<rparr>) True = None"
  by (auto simp: diagnostics_request_def request0_def allowedArgv_def argvRule0_def argvRule_validate_def flag_eval
      intro!: validateRequest_eval split: if_splits)

lemma logs_allowed:
  "logs_request c r since lines = Inr req \<Longrightarrow> validateRequest (req\<lparr>rq_JSON := j\<rparr>) True = None"
  using logComponents_positional [of c]
  by (auto simp: logs_request_def request0_def allowedArgv_def argvRule0_def argvRule_validate_def flag_eval
      intro!: validateRequest_eval split: if_splits)

lemma keyCreate_allowed:
  "keyCreate_request fs k = Inr req \<Longrightarrow> validateRequest (req\<lparr>rq_JSON := j\<rparr>) True = None"
  by (auto simp: keyCreate_request_def request0_def allowedArgv_def argvRule0_def argvRule_validate_def flag_eval
      intro!: validateRequest_eval split: if_splits lstat_answer.splits)

lemma backupArchive_allowed:
  assumes "backupArchive_request fs sub path k = Inr req" "sub \<in> {''backup create'', ''backup verify''}"
  shows "validateRequest (req\<lparr>rq_JSON := j\<rparr>) True = None"
  using assms IsAbs_positional [of path]
  by (auto simp: backupArchive_request_def request0_def allowedArgv_def argvRule0_def argvRule_validate_def flag_eval
      intro!: validateRequest_eval split: if_splits option.splits)

lemma mutating_request_allowed:
  "mutating_request fs o' cmd = Some (name, Inr req) \<Longrightarrow> validateRequest (req\<lparr>rq_JSON := j\<rparr>) True = None"
  by (cases cmd)
    (auto dest: publicAddress_allowed registerLocal_allowed bootstrap_allowed diagnostics_allowed logs_allowed
        keyCreate_allowed backupArchive_allowed)

subsection \<open>Verdicts\<close>

lemma taxonomy_range: "2 \<le> n \<Longrightarrow> n \<le> 8 \<Longrightarrow> n \<in> set taxonomy"
  by (auto simp: taxonomy_def)

lemma ValidatePayload_Inr:
  assumes "ValidatePayload up t raw = Inr v"
  shows "vp_Document v = raw \<and> vp_Tuple v = t \<and> vp_Command v = pt_Command t
    \<and> (\<forall>e. vp_OperationError v = Some e \<longrightarrow> boe_Exit e \<in> {2..8} \<and> boe_Origin e = ''backend''
         \<and> vp_OperationID v = boe_OperationID e
         \<and> (boe_Exit e = Partial \<longrightarrow> boe_OperationID e \<noteq> [] \<and> boe_RecoveryGuidance e \<noteq> []))"
proof -
  obtain spec ms where v: "validateDocument spec t raw ms = Inr v"
    using assms by (auto simp: ValidatePayload_iff)
  show ?thesis
    using validateDocument_cases [OF v] by (auto dest: validateOperationErrorPayload_Inr split: option.splits)
qed

lemma backendOutcome_failing: "backendOutcome sub res m = Some e \<Longrightarrow> failing e"
  by (auto simp: backendOutcome_def Let_def failing_ECLI taxonomy_range taxonomy_def split: if_splits)

lemma validateJSONOutcome_cases:
  assumes "validateJSONOutcome up sub res = (validated, err)"
  obtains (invalid) p where "validated = None" "err = Some (EPayload p)"
  | (success) v where "rs_ExitCode res = 0" "validated = Some v" "err = None" "vp_OperationError v = None"
      "ValidatePayload up (tuple sub) (rs_Stdout res) = Inr v"
  | (failure) v o' c where "rs_ExitCode res \<noteq> 0" "validated = Some v" "err = Some (ECLI c)" "vp_OperationError v = Some o'"
      "ce_Code c = rs_ExitCode res" "boe_Exit o' = rs_ExitCode res" "ce_ComponentCode c = boe_ComponentCode o'"
      "ValidatePayload up (tuple sub) (rs_Stdout res) = Inr v"
proof -
  obtain ok where t: "PayloadTupleForCommand up sub = (tuple sub, ok)"
    by (simp add: PayloadTupleForCommand_def Let_def)
  show thesis
  proof (cases "ok \<and> (\<exists>v. ValidatePayload up (tuple sub) (rs_Stdout res) = Inr v)")
    case False
    then show ?thesis
      using assms t invalid
      by (auto simp: validateJSONOutcome_def payloadExecutionError_def split: sum.splits if_splits)
  next
    case True
    then obtain v where v: ok "ValidatePayload up (tuple sub) (rs_Stdout res) = Inr v" by blast
    have eq: "judgeDocument sub res v = (validated, err)"
      using assms by (simp add: validateJSONOutcome_def t v)
    show ?thesis
    proof (cases "rs_ExitCode res = 0")
      case True
      with eq v invalid success show ?thesis
        by (cases "vp_OperationError v") (auto simp: judgeDocument_def payloadExecutionError_def)
    next
      case False
      with eq v invalid failure show ?thesis
        by (cases "vp_OperationError v") (auto simp: judgeDocument_def payloadExecutionError_def split: if_splits)
    qed
  qed
qed

lemma resolve_failing:
  assumes "resolveBackendOutcome up sub res m j = (validated, Some e)"
  shows "failing e"
proof (cases "j \<and> \<not> rs_Signaled res \<and> (rs_ExitCode res = 0 \<or> (2 \<le> rs_ExitCode res \<and> rs_ExitCode res \<le> 8))")
  case True
  with assms have "validateJSONOutcome up sub res = (validated, Some e)" by (auto simp: resolveBackendOutcome_def)
  then show ?thesis
    using True by (cases rule: validateJSONOutcome_cases) (auto simp: failing_ECLI failing_EPayload intro: taxonomy_range)
next
  case False
  with assms show ?thesis by (auto simp: resolveBackendOutcome_def intro: backendOutcome_failing split: if_splits)
qed

text \<open>In JSON mode an outcome without an error carries a validated success document of its process.\<close>

lemma resolve_validated:
  assumes "resolveBackendOutcome up sub res m j = (Some v, err)"
  shows "ValidatePayload up (tuple sub) (rs_Stdout res) = Inr v \<and> vp_Document v = rs_Stdout res \<and> j"
proof -
  have j: j "validateJSONOutcome up sub res = (Some v, err)"
    using assms by (auto simp: resolveBackendOutcome_def split: if_splits)
  from j(2) have "ValidatePayload up (tuple sub) (rs_Stdout res) = Inr v"
    by (cases rule: validateJSONOutcome_cases) auto
  with j(1) show ?thesis by (auto dest: ValidatePayload_Inr)
qed

lemma resolve_success:
  assumes "resolveBackendOutcome up sub res m j = (validated, None)"
  shows "rs_ExitCode res = 0 \<and> \<not> rs_Signaled res
    \<and> (j \<longrightarrow> (\<exists>v. validated = Some v \<and> vp_OperationError v = None))"
proof (cases "j \<and> \<not> rs_Signaled res \<and> (rs_ExitCode res = 0 \<or> (2 \<le> rs_ExitCode res \<and> rs_ExitCode res \<le> 8))")
  case True
  with assms have "validateJSONOutcome up sub res = (validated, None)" by (auto simp: resolveBackendOutcome_def)
  then show ?thesis using True by (cases rule: validateJSONOutcome_cases) auto
next
  case False
  with assms show ?thesis
    by (auto simp: resolveBackendOutcome_def backendOutcome_def Let_def split: if_splits)
qed

subsection \<open>The envelope\<close>

lemma writeEnvelope_verdict:
  "envelope_ok (writeEnvelope command res validated err)
   \<and> cr_Command (writeEnvelope command res validated err) = command
   \<and> cr_Code (writeEnvelope command res validated err) = (case err of None \<Rightarrow> ''OK'' | Some e \<Rightarrow> Label (ce_Code (Classify e)))"
  by (auto simp: writeEnvelope_def Let_def envelope_ok_def envelope_New_def envelope_Fail_def envelope_Write_def
      split: option.splits)

lemma writeEnvelope_data:
  assumes "cr_Data (writeEnvelope command res validated err) = Some d"
  shows "ad_Backend d = map_option vp_Document validated
    \<and> (ad_OperationID d \<noteq> None \<longleftrightarrow> (\<exists>e. err = Some e \<and> ce_Code (Classify e) = Partial) \<and> res \<noteq> None)
    \<and> (ad_Origin d \<noteq> None \<longleftrightarrow> err \<noteq> None) \<and> ad_Origin d \<noteq> Some []"
  using assms
  by (auto simp: writeEnvelope_def Let_def envelope_New_def envelope_Fail_def envelope_Write_def
      applianceData0_def failure_data_def split: option.splits if_splits)

lemma writeEnvelope_has_data: "\<exists>d. cr_Data (writeEnvelope command res validated err) = Some d"
proof -
  have "\<exists>r. writeEnvelope command res validated err = envelope_Write applianceData0 r"
    unfolding writeEnvelope_def Let_def by (cases err) auto
  then show ?thesis using envelope_Write_total by (metis not_None_eq)
qed

lemma writeEnvelope_exit:
  assumes "case err of Some e \<Rightarrow> failing e | None \<Rightarrow> True"
  shows "ExitCode (cr_Code (writeEnvelope command res validated err)) = xs_status (exitPoint err)"
proof (cases err)
  case None
  then show ?thesis using writeEnvelope_verdict [of command res validated err] by (simp add: ExitCode_def exitPoint_def)
next
  case (Some e)
  with assms have "ce_Code (Classify e) \<in> set taxonomy" by (simp add: failing_def Classify_taxonomy)
  with Some show ?thesis
    using writeEnvelope_verdict [of command res validated err] verdict.decode_encode
    by (simp add: exitPoint_def Let_def)
qed

subsection \<open>Dispatch\<close>

text \<open>
  What \<open>finish\<close> needs of an invocation: a result or an error, and errors of the taxonomy. Both
  invocation paths provide it.
\<close>

definition answered :: "invocation \<Rightarrow> bool" where
  "answered called \<longleftrightarrow> (case called of (res, err, log) \<Rightarrow>
     (res \<noteq> None \<or> err \<noteq> None) \<and> (case err of Some e \<Rightarrow> failing e | None \<Rightarrow> True))"

lemma InvokeMutating_answered: "answered (InvokeMutating h req log)"
proof (cases "InvokeMutating h req log")
  case (fields res err log')
  from fields show ?thesis by (cases rule: InvokeMutating_cases) (auto simp: answered_def fields)
qed

lemma InvokeReadOnly_answered: "answered (InvokeReadOnly h req log)"
proof (cases "InvokeReadOnly h req log")
  case (fields res err log')
  from fields show ?thesis
    by (cases rule: InvokeReadOnly_cases) (auto simp: answered_def fields dest: handshake_error_rows)
qed

definition finish_err :: "url_parser \<Rightarrow> string \<Rightarrow> bool \<Rightarrow> bool \<Rightarrow> invocation \<Rightarrow> validatedPayload option \<times> goerr option" where
  "finish_err up sub m j called = (case called of (res, err, log) \<Rightarrow>
     (case err of Some e \<Rightarrow> (None, Some e)
      | None \<Rightarrow> (case res of None \<Rightarrow> (None, Some nil_dereference) | Some r \<Rightarrow> resolveBackendOutcome up sub r m j)))"

lemma finish_err_failing:
  assumes "answered called" "finish_err up sub m j called = (validated, Some e)"
  shows "failing e"
  using assms by (auto simp: answered_def finish_err_def dest: resolve_failing split: prod.splits option.splits)

text \<open>The JSON mode emits one envelope, whose verdict is the process status.\<close>

lemma finish_json:
  assumes "answered called" "cn_errOut con = None" "r = finish up con command sub m True called"
  obtains validated where "finish_err up sub m True called = (validated, cx_err r)"
    "cx_out r = [OEnvelope (writeEnvelope command (fst called) validated (cx_err r))]"
    "case cx_err r of Some e \<Rightarrow> failing e | None \<Rightarrow> True"
proof -
  obtain res err log where c: "called = (res, err, log)" by (cases called)
  obtain validated err' where f: "finish_err up sub m True called = (validated, err')"
    by (cases "finish_err up sub m True called")
  then have "cx_err r = err' \<and> cx_out r = [OEnvelope (writeEnvelope command (fst called) validated err')]"
    using assms(2,3) by (auto simp: finish_def finish_err_def c Let_def split: option.splits prod.splits)
  moreover have "case err' of Some e \<Rightarrow> failing e | None \<Rightarrow> True"
    using finish_err_failing [OF assms(1)] f by (auto split: option.splits)
  ultimately show thesis using that f by simp
qed

text \<open>
  A dispatcher: an invocation path that always answers. Its JSON mode speaks through one envelope, and
  what the envelope says of the outcome is what the process status says.
\<close>

locale dispatcher = invocation_path +
  assumes always_answers: "answered (call h req log)"
begin

lemma json_verdict:
  assumes "cn_errOut con = None" "r = finish up con command sub mutating True (call h req log)"
  shows "\<exists>e. cx_out r = [OEnvelope e] \<and> envelope_ok e \<and> cr_Command e = command
    \<and> ExitCode (cr_Code e) = xs_status (exitPoint (cx_err r)) \<and> xs_status (exitPoint (cx_err r)) \<in> set taxonomy
    \<and> (cr_Success e \<longleftrightarrow> xs_status (exitPoint (cx_err r)) = 0)"
proof -
  obtain validated where v: "finish_err up sub mutating True (call h req log) = (validated, cx_err r)"
      "cx_out r = [OEnvelope (writeEnvelope command (fst (call h req log)) validated (cx_err r))]"
      "case cx_err r of Some e \<Rightarrow> failing e | None \<Rightarrow> True"
    by (rule finish_json [OF always_answers assms])
  let ?e = "writeEnvelope command (fst (call h req log)) validated (cx_err r)"
  have x: "ExitCode (cr_Code ?e) = xs_status (exitPoint (cx_err r))" by (rule writeEnvelope_exit [OF v(3)])
  have t: "xs_status (exitPoint (cx_err r)) \<in> set taxonomy"
    using v(3) by (intro exitPoint_never_legacy) (auto simp: failing_def split: option.splits)
  have "cr_Success ?e \<longleftrightarrow> cr_Code ?e = ''OK''" "ExitCode (cr_Code ?e) = 0 \<longleftrightarrow> cr_Code ?e = ''OK''"
    using writeEnvelope_verdict [of command "fst (call h req log)" validated "cx_err r"]
    by (auto simp: envelope_ok_def ExitCode_def split: if_splits)
  with v(2) x t writeEnvelope_verdict show ?thesis by metis
qed

text \<open>Backend bytes in an envelope are a document the validator accepted, and what the process wrote.\<close>

lemma json_backend:
  assumes "cn_errOut con = None" "r = finish up con command sub mutating True (call h req log)"
    and "OEnvelope e \<in> set (cx_out r)" "cr_Data e = Some d" "ad_Backend d = Some doc"
  shows "\<exists>res v. call h req log = (Some res, None, cx_log r) \<and> doc = rs_Stdout res
    \<and> ValidatePayload up (tuple sub) doc = Inr v"
proof -
  obtain validated where v: "finish_err up sub mutating True (call h req log) = (validated, cx_err r)"
      "cx_out r = [OEnvelope (writeEnvelope command (fst (call h req log)) validated (cx_err r))]"
    by (rule finish_json [OF always_answers assms(1,2)])
  then obtain p where p: "validated = Some p" "doc = vp_Document p"
    using assms(3-5) writeEnvelope_data [of command "fst (call h req log)" validated "cx_err r" d] by auto
  obtain res err log' where c: "call h req log = (res, err, log')" by (cases "call h req log")
  with v(1) p(1) obtain x where x: "err = None" "res = Some x"
      "resolveBackendOutcome up sub x mutating True = (Some p, cx_err r)"
    by (auto simp: finish_err_def split: option.splits)
  have "cx_log r = log'" using assms(1,2) by (auto simp: finish_def c Let_def split: option.splits prod.splits)
  with c x p resolve_validated [OF x(3)] show ?thesis by auto
qed

end

interpretation read_dispatch: dispatcher InvokeReadOnly False
  by unfold_locales (rule InvokeReadOnly_answered)

interpretation write_dispatch: dispatcher InvokeMutating True
  by unfold_locales (rule InvokeMutating_answered)

end
