(* ===== verification/CommandSafety.thy ===== *)
theory CommandSafety
  imports ApplianceSafety
begin

section \<open>Whole commands of the \<open>appliance\<close> family\<close>

text \<open>
  The dispatchers' guarantees carried to \<open>run_appliance\<close>: a command either refuses its arguments before
  any spawn or is one dispatch of an allowlisted request. What the refusals are, what an interrupted
  operation reports, and that a secret stays out of every argument vector.
\<close>

subsection \<open>Commands and their names\<close>

fun command_name :: "appliance_command \<Rightarrow> string" where
  "command_name CmdStatus = ''appliance.status''"
| "command_name CmdNetworkValidate = ''appliance.network.validate''"
| "command_name (CmdPublicAddress _ _) = ''appliance.public-address.configure''"
| "command_name (CmdRegisterLocal _ _) = ''appliance.gateway.register-local''"
| "command_name (CmdBootstrap _ _) = ''appliance.credentials.bootstrap''"
| "command_name (CmdDiagnostics _ _) = ''appliance.diagnostics.create''"
| "command_name (CmdLogs _ _ _ _) = ''appliance.logs''"
| "command_name (CmdKeyCreate _) = ''appliance.backup.key-create''"
| "command_name (CmdBackupCreate _ _) = ''appliance.backup.create''"
| "command_name (CmdBackupVerify _ _) = ''appliance.backup.verify''"

fun subcommand_name :: "appliance_command \<Rightarrow> string" where
  "subcommand_name CmdStatus = ''status''"
| "subcommand_name CmdNetworkValidate = ''network validate''"
| "subcommand_name (CmdPublicAddress _ _) = ''public-address configure''"
| "subcommand_name (CmdRegisterLocal _ _) = ''gateway register-local''"
| "subcommand_name (CmdBootstrap _ _) = ''credentials bootstrap''"
| "subcommand_name (CmdDiagnostics _ _) = ''diagnostics create''"
| "subcommand_name (CmdLogs _ _ _ _) = ''logs''"
| "subcommand_name (CmdKeyCreate _) = ''backup key-create''"
| "subcommand_name (CmdBackupCreate _ _) = ''backup create''"
| "subcommand_name (CmdBackupVerify _ _) = ''backup verify''"

lemmas request_defs = publicAddress_request_def registerLocal_request_def bootstrap_request_def diagnostics_request_def
  logs_request_def keyCreate_request_def backupArchive_request_def request0_def

lemma mutating_request_names:
  "mutating_request fs o' cmd = Some (name, out) \<Longrightarrow> name = command_name cmd
     \<and> (\<forall>req. out = Inr req \<longrightarrow> rq_Subcommand req = subcommand_name cmd)"
  by (cases cmd) (auto simp: request_defs split: option.splits if_splits sum.splits lstat_answer.splits)

subsection \<open>Refusals\<close>

lemma CheckSecretPath_code: "CheckSecretPath fs what path = Some e \<Longrightarrow> ce_Code e \<in> {InvalidArgument, Precondition}"
  by (auto simp: CheckSecretPath_def ce_defs secretRefused_def fileReadFailed_def split: if_splits lstat_answer.splits)

lemma ReadSecretFile_code: "ReadSecretFile fs what path = Inl e \<Longrightarrow> ce_Code e \<in> {InvalidArgument, Precondition}"
  by (auto simp: ReadSecretFile_def Let_def secretRefused_def fileReadFailed_def
      dest: CheckSecretPath_code split: option.splits if_splits)

lemma refusal_code:
  "mutating_request fs o' cmd = Some (name, Inl e) \<Longrightarrow> ce_Code e \<in> {InvalidArgument, Precondition}"
  by (cases cmd)
    (auto simp: request_defs Usagef_def Invalidf_def dest: CheckSecretPath_code ReadSecretFile_code
      split: option.splits if_splits sum.splits lstat_answer.splits)

text \<open>A command is a refusal or a dispatch.\<close>

lemma run_appliance_cases:
  obtains (refused) e where "run_appliance up h fs con o' cmd log = refuse e log" "ce_Code e \<in> {InvalidArgument, Precondition}"
  | (mutating) req where "mutating_request fs o' cmd = Some (command_name cmd, Inr req)" "rq_Subcommand req = subcommand_name cmd"
      "validateRequest (req\<lparr>rq_JSON := (ro_PrintOption o' = ''json'')\<rparr>) True = None"
      "run_appliance up h fs con o' cmd log = dispatchMutating up h con o' (command_name cmd) req log"
  | (reading) "cmd \<in> {CmdStatus, CmdNetworkValidate}"
      "run_appliance up h fs con o' cmd log = dispatchReadOnly up h con o' (command_name cmd) (subcommand_name cmd) log"
proof (cases "mutating_request fs o' cmd")
  case None
  then have "cmd \<in> {CmdStatus, CmdNetworkValidate}" by (cases cmd) auto
  with None reading show thesis by (auto simp: run_appliance_def)
next
  case (Some p)
  obtain name out where p: "p = (name, out)" by (cases p)
  show thesis
  proof (cases out)
    case (Inl e)
    with Some p refused [of e] refusal_code show thesis by (auto simp: run_appliance_def)
  next
    case (Inr req)
    with Some p mutating_request_names [of fs o' cmd name out] mutating_request_allowed mutating [of req]
    show thesis by (auto simp: run_appliance_def)
  qed
qed

lemma refuse_verdict:
  assumes "ce_Code e \<in> {InvalidArgument, Precondition}"
  shows "xs_status (exitPoint (cx_err (refuse e log))) \<in> {InvalidArgument, Precondition}"
    and "cx_out (refuse e log) = [] \<and> cx_log (refuse e log) = log"
  using assms by (auto simp: refuse_def exitPoint_def Classify_def Let_def)

text \<open>In JSON mode both dispatchers are the shared tail on their invocation path.\<close>

lemma json_dispatch:
  assumes "ro_PrintOption o' = ''json''"
  shows "dispatchMutating up h con o' name req log =
      finish up con name (rq_Subcommand req) True True (InvokeMutating h (req\<lparr>rq_JSON := True\<rparr>) log)"
    and "dispatchReadOnly up h con o' name sub log =
      finish up con name sub False True (InvokeReadOnly h (request0\<lparr>rq_Subcommand := sub, rq_JSON := True\<rparr>) log)"
  using assms by (simp_all add: dispatchMutating_def dispatchReadOnly_def dispatchReadOnlyRequest_def request0_def)

definition speaks_verdict :: "string \<Rightarrow> command_run \<Rightarrow> bool" where
  "speaks_verdict name r \<longleftrightarrow> (\<exists>e. cx_out r = [OEnvelope e] \<and> envelope_ok e \<and> cr_Command e = name
     \<and> ExitCode (cr_Code e) = xs_status (exitPoint (cx_err r)) \<and> (cr_Success e \<longleftrightarrow> xs_status (exitPoint (cx_err r)) = 0))"

lemma run_appliance_json:
  assumes "ro_PrintOption o' = ''json''" "cn_errOut con = None" "r = run_appliance up h fs con o' cmd log"
  shows "xs_status (exitPoint (cx_err r)) \<in> {InvalidArgument, Precondition} \<and> cx_out r = [] \<and> cx_log r = log
    \<or> xs_status (exitPoint (cx_err r)) \<in> set taxonomy \<and> speaks_verdict (command_name cmd) r"
proof (cases rule: run_appliance_cases [of up h fs con o' cmd log])
  case (refused e)
  with assms(3) refuse_verdict [of e log] show ?thesis by simp
next
  case (mutating req)
  with assms write_dispatch.json_verdict [OF assms(2), of r up "command_name cmd" "rq_Subcommand req" h "req\<lparr>rq_JSON := True\<rparr>" log]
  show ?thesis by (auto simp: json_dispatch speaks_verdict_def)
next
  case reading
  with assms read_dispatch.json_verdict [OF assms(2), of r up "command_name cmd" "subcommand_name cmd" h _ log]
  show ?thesis by (auto simp: json_dispatch speaks_verdict_def)
qed

lemma run_appliance_backend:
  assumes "ro_PrintOption o' = ''json''" "cn_errOut con = None" "r = run_appliance up h fs con o' cmd log"
    and "OEnvelope e \<in> set (cx_out r)" "cr_Data e = Some d" "ad_Backend d = Some doc"
  shows "\<exists>v. ValidatePayload up (tuple (subcommand_name cmd)) doc = Inr v"
proof (cases rule: run_appliance_cases [of up h fs con o' cmd log])
  case (refused x)
  with assms show ?thesis by (simp add: refuse_def)
next
  case (mutating req)
  with assms write_dispatch.json_backend [OF assms(2) _ assms(4-6), of up "command_name cmd" "rq_Subcommand req" h "req\<lparr>rq_JSON := True\<rparr>" log]
  show ?thesis by (auto simp: json_dispatch)
next
  case reading
  with assms read_dispatch.json_backend [OF assms(2) _ assms(4-6), of up "command_name cmd" "subcommand_name cmd" h _ log]
  show ?thesis by (auto simp: json_dispatch)
qed

subsection \<open>Interrupted operations\<close>

lemma interrupted_outcome:
  assumes "rs_Signaled res"
  shows "resolveBackendOutcome up sub res m j = (None, backendOutcome sub res m)"
    and "\<exists>c. backendOutcome sub res m = Some (ECLI c) \<and> ce_Code c = (if m then Partial else Unavailable)
           \<and> ce_Origin c = ''backend'' \<and> ce_ComponentCode c = (if rs_TimedOut res then ''backend-timeout'' else ''backend-killed'')"
  using assms by (auto simp: resolveBackendOutcome_def backendOutcome_def Let_def CLIError0_def)

lemma finish_interrupted:
  assumes "called = (Some res, None, log)" "rs_Signaled res" "r = finish up con command sub m True called"
  shows "xs_status (exitPoint (cx_err r)) = (if m then Partial else Unavailable)
    \<and> (\<exists>e d. cx_out r = [OEnvelope e] \<and> cr_Data e = Some d \<and> ad_Backend d = None
         \<and> ad_OperationID d = (if m then Some (rs_CorrelationID res) else None)
         \<and> cr_CorrelationID e = rs_CorrelationID res)"
proof -
  obtain c where c: "backendOutcome sub res m = Some (ECLI c)" "ce_Code c = (if m then Partial else Unavailable)"
    using interrupted_outcome(2) [OF assms(2)] by blast
  have r: "cx_err r = Some (ECLI c)" "cx_out r = [OEnvelope (writeEnvelope command (Some res) None (Some (ECLI c)))]"
    using assms(1,3) c(1) interrupted_outcome(1) [OF assms(2)] by (simp_all add: finish_def)
  with c(2) show ?thesis
    by (auto simp: exitPoint_def Classify_def Let_def writeEnvelope_def envelope_Write_def envelope_New_def
        envelope_Fail_def failure_data_def applianceData0_def)
qed

subsection \<open>A secret stays out of the argument vectors\<close>

lemma InvokeMutating_log:
  "snd (snd (InvokeMutating h req log)) =
     (if validateRequest req True \<noteq> None then log
      else if advertised h log (rq_Subcommand req) False
           then log @ [handshake_spawn, operation_spawn req (op_id h (log @ [handshake_spawn]))]
      else log @ [handshake_spawn])"
  using invoke_log [of h req True "log @ [handshake_spawn]"]
  by (auto simp: InvokeMutating_def Handshake_eq advertised_def split: sum.splits option.splits)

lemma finish_log: "cx_log (finish up con name sub m j called) = snd (snd called)"
  by (cases called) (auto simp: finish_def Let_def split: option.splits prod.splits)

lemma registerLocal_argv:
  assumes "registerLocal_request fs u p = Inr req" "registerLocal_request fs' u p = Inr req'"
  shows "req'\<lparr>rq_Secret := rq_Secret req\<rparr> = req"
  using assms by (auto simp: registerLocal_request_def request0_def split: if_splits sum.splits)

lemma same_but_secret:
  assumes "req'\<lparr>rq_Secret := rq_Secret req\<rparr> = req"
  shows "rq_Subcommand req' = rq_Subcommand req" "operation_argv req' cid = operation_argv req cid"
    and "validateRequest req' True = None \<Longrightarrow> validateRequest req True = None \<Longrightarrow>
      map sw_argv (snd (snd (InvokeMutating h req' log))) = map sw_argv (snd (snd (InvokeMutating h req log)))"
proof -
  show s: "rq_Subcommand req' = rq_Subcommand req"
    using assms by (metis request.select_convs(1) request.surjective request.update_convs(4))
  have "rq_Args req' = rq_Args req" "rq_JSON req' = rq_JSON req"
    using assms by (metis request.select_convs(2) request.surjective request.update_convs(4))
      (metis assms request.select_convs(3) request.surjective request.update_convs(4))
  with s show argv: "operation_argv req' cid = operation_argv req cid" for cid by (simp add: operation_argv_def)
  show "map sw_argv (snd (snd (InvokeMutating h req' log))) = map sw_argv (snd (snd (InvokeMutating h req log)))"
    if "validateRequest req' True = None" "validateRequest req True = None"
    using that s argv by (simp add: InvokeMutating_log operation_spawn_def spawn_for_def)
qed

end
