(* ===== verification/BandTriple.thy ===== *)
theory BandTriple
  imports GoStd "HOL-Library.Word"
begin

section \<open>Priority-band triples (\<open>pkg/api/bandtriple.go\<close>)\<close>

text \<open>
  Three \<open>uint32\<close> values and their wire form \<open>critical:standard:sheddable\<close>, which is the only mapping
  between flags, JSON and YAML.
\<close>

record bandTriple =
  bt_Critical :: "32 word"
  bt_Standard :: "32 word"
  bt_Sheddable :: "32 word"

text \<open>\<open>strconv.ParseUint(s, 10, 32)\<close>: digits only, no sign, and a value that fits.\<close>

definition parse_uint32 :: "string \<Rightarrow> 32 word option" where
  "parse_uint32 s = (if s \<noteq> [] \<and> list_all is_digit s \<and> dec_val 0 s < 2 ^ 32 then Some (word_of_nat (dec_val 0 s)) else None)"

definition bad_triple :: "string \<Rightarrow> msg" where
  "bad_triple s = Sprintf ''%q is not three whole numbers separated by ':' (critical:standard:sheddable)'' [AStr s]"

definition ParseBandTriple :: "string \<Rightarrow> msg + bandTriple" where
  "ParseBandTriple s =
     (case split_on (CHR '':'') s of
        [p0, p1, p2] \<Rightarrow>
          (case (parse_uint32 p0, parse_uint32 p1, parse_uint32 p2) of
             (Some c, Some t, Some d) \<Rightarrow> Inr \<lparr>bt_Critical = c, bt_Standard = t, bt_Sheddable = d\<rparr>
           | _ \<Rightarrow> Inl (bad_triple s))
      | _ \<Rightarrow> Inl (bad_triple s))"

definition BandTriple_String :: "bandTriple \<Rightarrow> string" where
  "BandTriple_String b =
     show_nat (unat (bt_Critical b)) @ '':'' @ show_nat (unat (bt_Standard b)) @ '':'' @ show_nat (unat (bt_Sheddable b))"

definition BandTriple_MarshalText :: "bandTriple \<Rightarrow> msg + bytes" where
  "BandTriple_MarshalText b = Inr (BandTriple_String b)"

definition BandTriple_UnmarshalText :: "bandTriple \<Rightarrow> bytes \<Rightarrow> bandTriple \<times> msg option" where
  "BandTriple_UnmarshalText b text =
     (case ParseBandTriple text of Inl e \<Rightarrow> (b, Some e) | Inr parsed \<Rightarrow> (parsed, None))"

subsection \<open>The two directions\<close>

lemma split_on_nonempty: "split_on d s \<noteq> []"
  by (induction s) (auto split: list.splits)

lemma split_on_append: "d \<notin> set a \<Longrightarrow> split_on d (a @ d # b) = a # split_on d b"
  by (induction a) auto

lemma split_on_none: "d \<notin> set a \<Longrightarrow> split_on d a = [a]"
  by (induction a) auto

lemma show_nat_no_colon: "CHR '':'' \<notin> set (show_nat n)"
  using show_nat_digits [of n] by (auto simp: is_digit_def)

lemma parse_uint32_show: "parse_uint32 (show_nat (unat w)) = Some w"
proof -
  have "unat w < 2 ^ 32" using unsigned_less [of w, where ?'a = nat] by simp
  with show_nat_digits [of "unat w"] show ?thesis
    by (simp add: parse_uint32_def dec_val_show_nat list_all_iff)
qed

lemma ParseBandTriple_String: "ParseBandTriple (BandTriple_String b) = Inr b"
proof -
  have "split_on (CHR '':'') (BandTriple_String b) =
      [show_nat (unat (bt_Critical b)), show_nat (unat (bt_Standard b)), show_nat (unat (bt_Sheddable b))]"
    by (simp add: BandTriple_String_def split_on_append split_on_none show_nat_no_colon)
  then show ?thesis by (simp add: ParseBandTriple_def parse_uint32_show)
qed

lemma parse_uint32_value: "parse_uint32 s = Some w \<Longrightarrow> unat w = dec_val 0 s \<and> s \<noteq> [] \<and> list_all is_digit s"
  by (auto simp: parse_uint32_def unat_of_nat take_bit_nat_eq_self_iff split: if_splits)

end
