(* ===== verification/FeatureGate.thy ===== *)
theory FeatureGate
  imports Rest ExitCode Json
begin

section \<open>Feature gating (\<open>pkg/cli/featuregate\<close>) and gateway errors (\<open>pkg/api/error.go\<close>)\<close>

text \<open>
  Before a command sends a request that needs a gateway feature it reads the peer's \<open>/version\<close>, once
  per invocation and peer. The peer is an argument: what the read of \<open>/version\<close> yields, as a function
  of the reads before it.
\<close>

subsection \<open>Gateway errors\<close>

record apiError =
  ae_StatusCode :: int
  ae_Message :: string
  ae_Body :: string

definition APIError_Error :: "apiError \<Rightarrow> msg" where
  "APIError_Error e =
     (if ae_Message e \<noteq> [] then Sprintf ''server returned %d: %s'' [AInt (ae_StatusCode e), AStr (ae_Message e)]
      else if ae_Body e \<noteq> [] then Sprintf ''server returned %d: %s'' [AInt (ae_StatusCode e), AStr (ae_Body e)]
      else Sprintf ''server returned %d'' [AInt (ae_StatusCode e)])"

definition APIError_Verbatim :: "apiError \<Rightarrow> msg" where
  "APIError_Verbatim e =
     (if ae_Body e = [] then Sprintf ''server returned %d'' [AInt (ae_StatusCode e)]
      else Sprintf ''server returned %d: %s'' [AInt (ae_StatusCode e), AStr (ae_Body e)])"

definition errorMessageKeys :: "string list" where
  "errorMessageKeys = [''error'', ''message'', ''msg'', ''result'', ''Error'', ''Message'']"

text \<open>The text a member holds, trimmed; a later member of the same name wins.\<close>

definition member_text :: "(string \<times> json) list \<Rightarrow> string \<Rightarrow> string" where
  "member_text ms k = (case map_of (rev ms) k of Some (JStr s) \<Rightarrow> trim_space s | _ \<Rightarrow> [])"

text \<open>A number beyond \<open>float64\<close> makes \<open>json.Unmarshal\<close> into \<open>map[string]any\<close> fail.\<close>

definition ParseErrorMessage :: "bytes \<Rightarrow> string" where
  "ParseErrorMessage body =
     (case parse_json body of
        Some (JObj ms) \<Rightarrow>
          (if floats_in_range (JObj ms) then
             (case find (\<lambda>k. member_text ms k \<noteq> []) errorMessageKeys of
                Some k \<Rightarrow> member_text ms k
              | None \<Rightarrow> trim_space body)
           else trim_space body)
      | _ \<Rightarrow> trim_space body)"

definition NewAPIError :: "int \<Rightarrow> bytes \<Rightarrow> apiError" where
  "NewAPIError statusCode body =
     \<lparr>ae_StatusCode = statusCode, ae_Message = ParseErrorMessage body, ae_Body = trim_space body\<rparr>"

subsection \<open>The version read\<close>

record lbVersionGet =
  vg_BuildInfo :: string
  vg_Version :: string
  vg_Product :: string
  vg_Features :: "string list"

definition lbVersionGet0 :: lbVersionGet where
  "lbVersionGet0 = \<lparr>vg_BuildInfo = [], vg_Version = [], vg_Product = [], vg_Features = []\<rparr>"

definition lbVersionGet_fields :: "lbVersionGet field_spec list" where
  "lbVersionGet_fields =
    [fld ''buildInfo'' vg_BuildInfo vg_BuildInfo_update dec_string,
     fld ''version'' vg_Version vg_Version_update dec_string,
     fld ''product'' vg_Product vg_Product_update dec_string,
     fld ''features'' vg_Features vg_Features_update (dec_list dec_string [])]"

definition GatewayProduct :: string where "GatewayProduct = ''loxilb-inference-gateway''"

datatype http_answer = HTTPError | HTTPAnswer int bytes

record gate_state =
  gs_cache :: "(string \<times> lbVersionGet) list"
  gs_reads :: "(string \<times> http_answer) list"

type_synonym peer = "(string \<times> http_answer) list \<Rightarrow> restOptions \<Rightarrow> http_answer"

definition cache_key :: "restOptions \<Rightarrow> string" where
  "cache_key o' = ro_Protocol o' @ ''://'' @ ro_ServerIP o' @ '':'' @ show_int (ro_ServerPort o')"

text \<open>What an answer of \<open>/version\<close> means.\<close>

definition version_of :: "http_answer \<Rightarrow> cliError + lbVersionGet" where
  "version_of ans =
     (case ans of
        HTTPError \<Rightarrow> Inl (Unavailablef (Sprintf ''get version: %v'' [AErr ''net/http'']))
      | HTTPAnswer status body \<Rightarrow>
          if status \<noteq> 200 then
            Inl ((FromHTTPStatus ''get version'' status)\<lparr>ce_Message := APIError_Error (NewAPIError status body)\<rparr>)
          else (case Option.bind (parse_json body) (dec_struct False lbVersionGet_fields lbVersionGet0) of
             None \<Rightarrow> Inl (CLIError0\<lparr>ce_Code := ContractMismatch,
               ce_Message := Sprintf ''get version: decode response: %v'' [AErr ''encoding/json''],
               ce_Origin := ''gateway'', ce_HTTPStatus := status\<rparr>)
           | Some version \<Rightarrow> Inr version))"

definition read_version :: "peer \<Rightarrow> restOptions \<Rightarrow> gate_state \<Rightarrow> (cliError + lbVersionGet) \<times> gate_state" where
  "read_version peer o' st =
     (let key = cache_key o' in
      case map_of (gs_cache st) key of
        Some cached \<Rightarrow> (Inr cached, st)
      | None \<Rightarrow>
          (let ans = peer (gs_reads st) o'; st1 = st\<lparr>gs_reads := gs_reads st @ [(key, ans)]\<rparr> in
           case version_of ans of
             Inl e \<Rightarrow> (Inl e, st1)
           | Inr version \<Rightarrow> (Inr version, st1\<lparr>gs_cache := (key, version) # gs_cache st1\<rparr>)))"

subsection \<open>The gates\<close>

definition NotAGateway :: "restOptions \<Rightarrow> string \<Rightarrow> string \<Rightarrow> cliError" where
  "NotAGateway o' product command =
     (let seen = (if product \<noteq> [] then Sprintf ''product %q in /version'' [AStr product] else Text ''no product in /version'') in
      CLIError0\<lparr>ce_Code := FeatureUnavailable,
        ce_Message := Sprintf ''the peer at %s:%d is not a loxilb-inference-gateway (%s); %s needs one''
          [AStr (ro_ServerIP o'), AInt (ro_ServerPort o'), AMsg seen, AStr command],
        ce_Origin := ''gateway'', ce_ComponentCode := ''not-a-gateway''\<rparr>)"

definition feature_Unavailable :: "string \<Rightarrow> cliError" where
  "feature_Unavailable feature = CLIError0\<lparr>ce_Code := FeatureUnavailable,
     ce_Message := Sprintf ''this gateway does not advertise %s; upgrade the gateway or use a build that does'' [AStr feature],
     ce_Origin := ''gateway'', ce_ComponentCode := ''feature-unavailable''\<rparr>"

text \<open>\<open>Require\<close> returns the error and the warning it prints.\<close>

definition Require :: "peer \<Rightarrow> restOptions \<Rightarrow> string \<Rightarrow> string \<Rightarrow> gate_state \<Rightarrow> (cliError option \<times> msg option) \<times> gate_state" where
  "Require peer o' feature command st =
     (case read_version peer o' st of
        (Inl e, st') \<Rightarrow> ((Some e, None), st')
      | (Inr version, st') \<Rightarrow>
          if vg_Product version \<noteq> GatewayProduct then ((Some (NotAGateway o' (vg_Product version) command), None), st')
          else if feature \<in> set (vg_Features version) then ((None, None), st')
          else ((None, Some (Sprintf ''warning: gateway does not advertise %s; sending anyway, the gateway's answer decides'' [AStr feature])), st'))"

definition RequireAdvertised :: "peer \<Rightarrow> restOptions \<Rightarrow> string \<Rightarrow> string \<Rightarrow> gate_state \<Rightarrow> cliError option \<times> gate_state" where
  "RequireAdvertised peer o' feature command st =
     (case read_version peer o' st of
        (Inl e, st') \<Rightarrow> (Some e, st')
      | (Inr version, st') \<Rightarrow>
          if vg_Product version \<noteq> GatewayProduct then (Some (NotAGateway o' (vg_Product version) command), st')
          else if feature \<in> set (vg_Features version) then (None, st')
          else (Some (feature_Unavailable feature), st'))"

subsection \<open>Answers on a feature's path\<close>

record messageDoc =
  md_Message :: string

definition PathNotFound :: "int \<Rightarrow> bytes \<Rightarrow> bool" where
  "PathNotFound status body =
     (if status \<noteq> 404 then False
      else case Option.bind (parse_json body) (dec_struct False [fld ''message'' md_Message md_Message_update dec_string] \<lparr>md_Message = []\<rparr>) of
        None \<Rightarrow> False
      | Some doc \<Rightarrow> has_prefix ''path /'' (md_Message doc) \<and> has_suffix ''was not found'' (md_Message doc))"

definition feature_Classify :: "string \<Rightarrow> string \<Rightarrow> int \<Rightarrow> bytes \<Rightarrow> cliError" where
  "feature_Classify op feature status body =
     (if PathNotFound status body then (feature_Unavailable feature)\<lparr>ce_HTTPStatus := status\<rparr>
      else (FromHTTPStatus op status)\<lparr>ce_Message :=
        (if status = 400 then APIError_Verbatim (NewAPIError status body) else APIError_Error (NewAPIError status body))\<rparr>)"

subsection \<open>One read per peer\<close>

text \<open>
  The invariant of the cache: it holds what the last read of each key meant, every cached key was read
  successfully exactly once, and no key was read again after that.
\<close>

definition good_reads :: "gate_state \<Rightarrow> (string \<times> lbVersionGet) list" where
  "good_reads st = concat (map (\<lambda>(k, a). case version_of a of Inr v \<Rightarrow> [(k, v)] | Inl _ \<Rightarrow> []) (gs_reads st))"

definition gate_inv :: "gate_state \<Rightarrow> bool" where
  "gate_inv st \<longleftrightarrow> gs_cache st = rev (good_reads st) \<and> distinct (map fst (good_reads st))"

definition gate_start :: gate_state where
  "gate_start = \<lparr>gs_cache = [], gs_reads = []\<rparr>"

inductive gate_reach :: "peer \<Rightarrow> gate_state \<Rightarrow> bool" for peer where
  gate_init: "gate_reach peer gate_start"
| gate_require: "gate_reach peer st \<Longrightarrow> gate_reach peer (snd (Require peer o' feature command st))"
| gate_advertised: "gate_reach peer st \<Longrightarrow> gate_reach peer (snd (RequireAdvertised peer o' feature command st))"

lemma gate_inv_start: "gate_inv gate_start"
  by (simp add: gate_inv_def gate_start_def good_reads_def)

lemma read_version_inv: "gate_inv st \<Longrightarrow> gate_inv (snd (read_version peer o' st))"
proof (cases "map_of (gs_cache st) (cache_key o')")
  case None
  assume inv: "gate_inv st"
  have "cache_key o' \<notin> set (map fst (good_reads st))"
    using None inv by (auto simp: gate_inv_def map_of_eq_None_iff)
  with None inv show ?thesis
    by (auto simp: read_version_def Let_def gate_inv_def good_reads_def split: sum.splits)
next
  case (Some v)
  assume "gate_inv st"
  with Some show ?thesis by (simp add: read_version_def)
qed

lemma Require_state: "snd (Require peer o' f c st) = snd (read_version peer o' st)"
  by (auto simp: Require_def split: prod.splits sum.splits)

lemma RequireAdvertised_state: "snd (RequireAdvertised peer o' f c st) = snd (read_version peer o' st)"
  by (auto simp: RequireAdvertised_def split: prod.splits sum.splits)

lemma gate_reach_inv: "gate_reach peer st \<Longrightarrow> gate_inv st"
  by (induction rule: gate_reach.induct)
    (simp_all add: gate_inv_start Require_state RequireAdvertised_state read_version_inv)

lemma read_version_cached:
  assumes "map_of (gs_cache st) (cache_key o') = Some v"
  shows "read_version peer o' st = (Inr v, st)"
  using assms by (simp add: read_version_def)

lemma read_version_Inr:
  "read_version peer o' st = (Inr v, st') \<Longrightarrow> map_of (gs_cache st') (cache_key o') = Some v"
  by (auto simp: read_version_def Let_def split: option.splits sum.splits)

lemma FromHTTPStatus_code: "ce_Code (FromHTTPStatus op status) \<in> set taxonomy - {OK, FeatureUnavailable, InvalidArgument}"
  by (auto simp: FromHTTPStatus_def Let_def taxonomy_def CLIError0_def)

end
