(* ===== verification/SnapshotFile.thy ===== *)
theory SnapshotFile
  imports FeatureGate Backend "HOL-Library.Word"
begin

unbundle bit_operations_syntax

section \<open>Snapshot files (\<open>pkg/api/snapshotfile.go\<close>) and lifecycle errors (\<open>pkg/api/lifecyclereport.go\<close>)\<close>

text \<open>
  The checksum a downloaded snapshot carries is verified before anything durable is done with it, and
  the file is put in place by a rename. \<open>crypto/sha256\<close> is written out on 32-bit words. The disk is
  a map from paths to files; \<open>WriteFileAtomic\<close> returns every disk state it passes through, so that
  what a crash can leave behind is part of the result.
\<close>

subsection \<open>Lifecycle errors\<close>

definition LifecycleError0 :: lifecycleError where
  "LifecycleError0 = \<lparr>le_Reason = [], le_Message = Text [], le_HTTPStatus = 0, le_Body = []\<rparr>"

text \<open>\<open>err.(*LifecycleError)\<close> looks at the error itself, not at what it wraps.\<close>

definition ReasonOf :: "goerr option \<Rightarrow> string" where
  "ReasonOf err = (case err of None \<Rightarrow> ''ok'' | Some (ELifecycle le) \<Rightarrow> le_Reason le | Some _ \<Rightarrow> ''request-failed'')"

definition HTTPStatusOf :: "goerr option \<Rightarrow> int" where
  "HTTPStatusOf err = (case err of Some (ELifecycle le) \<Rightarrow> le_HTTPStatus le | _ \<Rightarrow> 0)"

definition reasonForStatus :: "int \<Rightarrow> string" where
  "reasonForStatus status =
     (if status = 401 then ''unauthorized''
      else if status = 409 then ''operation-in-progress''
      else if status = 503 then ''maintenance-mode''
      else if status \<ge> 500 then ''server-error''
      else ''bad-request'')"

definition NewStatusError :: "int \<Rightarrow> bytes \<Rightarrow> lifecycleError" where
  "NewStatusError status body = \<lparr>le_Reason = reasonForStatus status,
     le_Message = APIError_Error (NewAPIError status body), le_HTTPStatus = status, le_Body = body\<rparr>"

subsection \<open>SHA-256\<close>

definition sha_K :: "32 word list" where
  "sha_K =
    [0x428a2f98, 0x71374491, 0xb5c0fbcf, 0xe9b5dba5, 0x3956c25b, 0x59f111f1, 0x923f82a4, 0xab1c5ed5,
     0xd807aa98, 0x12835b01, 0x243185be, 0x550c7dc3, 0x72be5d74, 0x80deb1fe, 0x9bdc06a7, 0xc19bf174,
     0xe49b69c1, 0xefbe4786, 0x0fc19dc6, 0x240ca1cc, 0x2de92c6f, 0x4a7484aa, 0x5cb0a9dc, 0x76f988da,
     0x983e5152, 0xa831c66d, 0xb00327c8, 0xbf597fc7, 0xc6e00bf3, 0xd5a79147, 0x06ca6351, 0x14292967,
     0x27b70a85, 0x2e1b2138, 0x4d2c6dfc, 0x53380d13, 0x650a7354, 0x766a0abb, 0x81c2c92e, 0x92722c85,
     0xa2bfe8a1, 0xa81a664b, 0xc24b8b70, 0xc76c51a3, 0xd192e819, 0xd6990624, 0xf40e3585, 0x106aa070,
     0x19a4c116, 0x1e376c08, 0x2748774c, 0x34b0bcb5, 0x391c0cb3, 0x4ed8aa4a, 0x5b9cca4f, 0x682e6ff3,
     0x748f82ee, 0x78a5636f, 0x84c87814, 0x8cc70208, 0x90befffa, 0xa4506ceb, 0xbef9a3f7, 0xc67178f2]"

definition sha_H0 :: "32 word list" where
  "sha_H0 = [0x6a09e667, 0xbb67ae85, 0x3c6ef372, 0xa54ff53a, 0x510e527f, 0x9b05688c, 0x1f83d9ab, 0x5be0cd19]"

definition rotr :: "nat \<Rightarrow> 32 word \<Rightarrow> 32 word" where
  "rotr n w = drop_bit n w OR push_bit (32 - n) w"

definition small_sigma0 :: "32 word \<Rightarrow> 32 word" where "small_sigma0 w = rotr 7 w XOR rotr 18 w XOR drop_bit 3 w"
definition small_sigma1 :: "32 word \<Rightarrow> 32 word" where "small_sigma1 w = rotr 17 w XOR rotr 19 w XOR drop_bit 10 w"
definition big_sigma0 :: "32 word \<Rightarrow> 32 word" where "big_sigma0 w = rotr 2 w XOR rotr 13 w XOR rotr 22 w"
definition big_sigma1 :: "32 word \<Rightarrow> 32 word" where "big_sigma1 w = rotr 6 w XOR rotr 11 w XOR rotr 25 w"

text \<open>The message schedule, last word first: sixteen words grow to sixty-four.\<close>

primrec sha_schedule :: "nat \<Rightarrow> 32 word list \<Rightarrow> 32 word list" where
  "sha_schedule 0 ws = ws"
| "sha_schedule (Suc n) ws =
     sha_schedule n ((small_sigma1 (ws ! 1) + ws ! 6 + small_sigma0 (ws ! 14) + ws ! 15) # ws)"

fun sha_round :: "32 word list \<Rightarrow> 32 word \<times> 32 word \<Rightarrow> 32 word list" where
  "sha_round [a, b, c, d, e, f, g, h] (k, w) =
     (let t1 = h + big_sigma1 e + ((e AND f) XOR (NOT e AND g)) + k + w;
          t2 = big_sigma0 a + ((a AND b) XOR (a AND c) XOR (b AND c))
      in [t1 + t2, a, b, c, d + t1, e, f, g])"
| "sha_round st kw = st"

definition sha_block :: "32 word list \<Rightarrow> 32 word list \<Rightarrow> 32 word list" where
  "sha_block hs block = map2 (+) hs (foldl sha_round hs (zip sha_K (rev (sha_schedule 48 (rev block)))))"

fun be_words :: "int list \<Rightarrow> 32 word list" where
  "be_words (a # b # c # d # r) = word_of_int (((a * 256 + b) * 256 + c) * 256 + d) # be_words r"
| "be_words _ = []"

definition sha_padded :: "bytes \<Rightarrow> int list" where
  "sha_padded m =
     (let n = length m; zeros = (119 - n mod 64) mod 64; bitlen = 8 * int n in
      map of_char m @ [128] @ replicate zeros 0 @ map (\<lambda>i. bitlen div 256 ^ (7 - i) mod 256) [0..<8])"

function sha_blocks :: "32 word list \<Rightarrow> 32 word list \<Rightarrow> 32 word list" where
  "sha_blocks hs ws = (if length ws < 16 then hs else sha_blocks (sha_block hs (take 16 ws)) (drop 16 ws))"
  by pat_completeness auto
termination
  by (relation "measure (length \<circ> snd)") auto

declare sha_blocks.simps [simp del]

definition word_bytes :: "32 word \<Rightarrow> int list" where
  "word_bytes w = [uint w div 2 ^ 24 mod 256, uint w div 2 ^ 16 mod 256, uint w div 2 ^ 8 mod 256, uint w mod 256]"

definition Sum256 :: "bytes \<Rightarrow> bytes" where
  "Sum256 m = map char_of (concat (map word_bytes (sha_blocks sha_H0 (be_words (sha_padded m)))))"

subsection \<open>\<open>VerifySnapshotChecksum\<close>\<close>

record snapshotIdentity =
  si_SchemaVersion :: string
  si_Checksum :: string
  si_Generation :: int

record snapshotFileResult =
  sf_Path :: string
  sf_Bytes :: int
  sf_Checksum :: string
  sf_SchemaVersion :: string
  sf_Generation :: int
  sf_ChecksumVerified :: bool

definition parse_uint64 :: "string \<Rightarrow> int option" where
  "parse_uint64 s = (let v = int (dec_val 0 s) in if s \<noteq> [] \<and> list_all is_digit s \<and> v < 2 ^ 64 then Some v else None)"

definition dec_uint64 :: "int decoder" where
  "dec_uint64 old j = (case j of JNum s \<Rightarrow> parse_uint64 s | JNull \<Rightarrow> Some old | _ \<Rightarrow> None)"

definition snapshotIdentity0 :: snapshotIdentity where
  "snapshotIdentity0 = \<lparr>si_SchemaVersion = [], si_Checksum = [], si_Generation = 0\<rparr>"

definition snapshotIdentity_fields :: "snapshotIdentity field_spec list" where
  "snapshotIdentity_fields =
    [fld ''schema_version'' si_SchemaVersion si_SchemaVersion_update dec_string,
     fld ''checksum'' si_Checksum si_Checksum_update dec_string,
     fld ''generation'' si_Generation si_Generation_update dec_uint64]"

definition snapshotChecksumPrefix :: string where "snapshotChecksumPrefix = ''sha256:''"

definition trim_right_ws :: "bytes \<Rightarrow> bytes" where
  "trim_right_ws b = rev (dropWhile is_json_space (rev b))"

text \<open>\<open>bytes.Count\<close> counts non-overlapping occurrences; \<open>bytes.Replace\<close> with 1 replaces the first.\<close>

function count_sub :: "string \<Rightarrow> string \<Rightarrow> nat" where
  "count_sub p [] = 0"
| "count_sub p (c # cs) =
     (if p \<noteq> [] \<and> has_prefix p (c # cs) then Suc (count_sub p (drop (length p) (c # cs))) else count_sub p cs)"
  by pat_completeness auto
termination
  by (relation "measure (length \<circ> snd)") auto

fun replace_first :: "string \<Rightarrow> string \<Rightarrow> string \<Rightarrow> string" where
  "replace_first p q [] = []"
| "replace_first p q (c # cs) =
     (if has_prefix p (c # cs) then q @ drop (length p) (c # cs) else c # replace_first p q cs)"

definition checksum_field :: "string \<Rightarrow> string" where
  "checksum_field v = ''\"checksum\":\"'' @ v @ ''\"''"

definition lifecycle_failure :: "string \<Rightarrow> msg \<Rightarrow> lifecycleError" where
  "lifecycle_failure reason m = LifecycleError0\<lparr>le_Reason := reason, le_Message := m\<rparr>"

definition VerifySnapshotChecksum :: "bytes \<Rightarrow> string \<Rightarrow> lifecycleError + (bytes \<times> snapshotFileResult)" where
  "VerifySnapshotChecksum body headerChecksum =
     (let verified = trim_right_ws body in
      if verified = [] then Inl (lifecycle_failure ''invalid-json'' (Text ''gateway returned an empty snapshot document''))
      else case Option.bind (parse_json verified) (dec_struct False snapshotIdentity_fields snapshotIdentity0) of
        None \<Rightarrow> Inl (lifecycle_failure ''invalid-json''
          (Sprintf ''snapshot document is not valid JSON (truncated or malformed download): %v'' [AErr ''encoding/json'']))
      | Some identity \<Rightarrow>
          (let ck = si_Checksum identity;
               result = \<lparr>sf_Path = [], sf_Bytes = int (length verified), sf_Checksum = ck,
                         sf_SchemaVersion = si_SchemaVersion identity, sf_Generation = si_Generation identity,
                         sf_ChecksumVerified = False\<rparr> in
           if ck = [] then
             (if headerChecksum \<noteq> [] then Inl (lifecycle_failure ''checksum-mismatch''
                (Sprintf ''response header reports checksum %s but the document carries none'' [AStr headerChecksum]))
              else Inr (verified, result))
           else if headerChecksum \<noteq> [] \<and> headerChecksum \<noteq> ck then Inl (lifecycle_failure ''checksum-mismatch''
             (Sprintf ''response header reports checksum %s but the document reports %s'' [AStr headerChecksum, AStr ck]))
           else
             (let needle = checksum_field ck; n = count_sub needle verified in
              if n \<noteq> 1 then Inl (lifecycle_failure ''checksum-mismatch''
                (Sprintf (''cannot verify the snapshot checksum: the document's checksum field is not in its canonical encoding '' @
                   ''(found %d occurrences of %s)'') [AInt (int n), AStr ck]))
              else
                (let blanked = replace_first needle (checksum_field []) verified;
                     computed = snapshotChecksumPrefix @ hex_encode (Sum256 blanked) in
                 if computed \<noteq> ck then Inl (lifecycle_failure ''checksum-mismatch''
                   (Sprintf ''snapshot document is corrupt: it reports checksum %s but its contents hash to %s'' [AStr ck, AStr computed]))
                 else Inr (verified, result\<lparr>sf_ChecksumVerified := True\<rparr>)))))"

lemma trim_right_ws_prefix: "\<exists>w. b = trim_right_ws b @ w \<and> list_all is_json_space w"
proof -
  have "b = rev (rev b)" by (simp only: rev_rev_ident)
  also have "\<dots> = rev (takeWhile is_json_space (rev b) @ dropWhile is_json_space (rev b))"
    by (simp only: takeWhile_dropWhile_id)
  also have "\<dots> = trim_right_ws b @ rev (takeWhile is_json_space (rev b))"
    by (simp only: trim_right_ws_def rev_append)
  finally have "b = trim_right_ws b @ rev (takeWhile is_json_space (rev b))" .
  moreover have "list_all is_json_space (rev (takeWhile is_json_space (rev b)))"
    by (auto simp: list_all_iff dest: set_takeWhileD)
  ultimately show ?thesis by (intro exI conjI)
qed

lemma count_sub_found: "0 < count_sub p s \<Longrightarrow> \<exists>a b. s = a @ p @ b \<and> replace_first p q s = a @ q @ b"
proof (induction p s rule: count_sub.induct)
  case (1 p)
  then show ?case by simp
next
  case (2 p c cs)
  show ?case
  proof (cases "p \<noteq> [] \<and> has_prefix p (c # cs)")
    case True
    then obtain b where b: "c # cs = p @ b" by (auto simp: has_prefix_iff)
    have "drop (length p) (c # cs) = b" unfolding b by simp
    with True have "replace_first p q (c # cs) = [] @ q @ b" by simp
    moreover have "c # cs = [] @ p @ b" unfolding b by simp
    ultimately show ?thesis by (intro exI conjI)
  next
    case False
    show ?thesis
    proof (cases "p = []")
      case True
      with False 2 show ?thesis by (intro exI [of _ "[]"] exI [of _ "c # cs"]) simp
    next
      case pne: False
      with False 2 obtain a b where "cs = a @ p @ b" "replace_first p q cs = a @ q @ b" by auto
      with False pne show ?thesis by (intro exI [of _ "c # a"] exI [of _ b]) simp
    qed
  qed
qed

subsection \<open>\<open>WriteFileAtomic\<close>\<close>

record disk_file =
  df_data :: bytes
  df_mode :: nat
  df_synced :: bool

type_synonym disk = "string \<Rightarrow> disk_file option"

text \<open>
  What the operating system answers: the name \<open>os.CreateTemp\<close> made (it creates the file 0600), and
  whether each later call succeeds. \<open>wv_write\<close> is the number of bytes after which a write fails;
  \<open>rd_err\<close> says that the reader ends in an error instead of the end of the input.
\<close>

record write_env =
  wv_temp :: "string option"
  wv_chmod :: bool
  wv_write :: "nat option"
  wv_sync :: bool
  wv_close :: bool
  wv_rename :: bool
  wv_remove :: bool

record reader =
  rd_data :: bytes
  rd_err :: bool

definition file_failure :: "msg \<Rightarrow> lifecycleError" where
  "file_failure m = lifecycle_failure ''file-write-failed'' m"

definition os_Remove :: "write_env \<Rightarrow> string \<Rightarrow> disk \<Rightarrow> disk" where
  "os_Remove w p d = (if wv_remove w then d(p := None) else d)"

definition temp_file :: "bytes \<Rightarrow> bool \<Rightarrow> disk_file" where
  "temp_file data synced = \<lparr>df_data = data, df_mode = 384, df_synced = synced\<rparr>"

text \<open>The bytes \<open>io.Copy\<close> stores, and whether it ends without an error.\<close>

definition copied :: "write_env \<Rightarrow> reader \<Rightarrow> bytes \<times> bool" where
  "copied w r = (case wv_write w of
      None \<Rightarrow> (rd_data r, \<not> rd_err r)
    | Some n \<Rightarrow> if n < length (rd_data r) then (take n (rd_data r), False) else (rd_data r, \<not> rd_err r))"

definition WriteFileAtomic :: "write_env \<Rightarrow> string \<Rightarrow> reader \<Rightarrow> disk \<Rightarrow> (lifecycleError + int) \<times> disk list" where
  "WriteFileAtomic w path r d0 =
     (case wv_temp w of
        None \<Rightarrow> (Inl (file_failure (Sprintf ''cannot create a temporary file in %s: %v'' [AErr ''filepath.Dir'', AErr ''os''])), [d0])
      | Some tmp \<Rightarrow>
          (let d1 = d0(tmp \<mapsto> temp_file [] False); cleanup = (\<lambda>d. os_Remove w tmp d) in
           if \<not> wv_chmod w then
             (Inl (file_failure (Sprintf ''cannot set permissions on %s: %v'' [AStr tmp, AErr ''os''])), [d0, d1, cleanup d1])
           else case copied w r of (stored, copy_ok) \<Rightarrow>
             (let writes = map (\<lambda>n. d1(tmp \<mapsto> temp_file (take n stored) False)) [0..<Suc (length stored)];
                  d2 = d1(tmp \<mapsto> temp_file stored False); d3 = d2(tmp \<mapsto> temp_file stored True) in
              if \<not> copy_ok then
                (Inl (file_failure (Sprintf ''cannot write %s: %v'' [AStr tmp, AErr ''os''])), [d0, d1] @ writes @ [cleanup d2])
              else if \<not> wv_sync w then
                (Inl (file_failure (Sprintf ''cannot flush %s: %v'' [AStr tmp, AErr ''os''])), [d0, d1] @ writes @ [cleanup d2])
              else if \<not> wv_close w then
                (Inl (file_failure (Sprintf ''cannot close %s: %v'' [AStr tmp, AErr ''os''])), [d0, d1] @ writes @ [d3, cleanup d3])
              else if \<not> wv_rename w then
                (Inl (file_failure (Sprintf ''cannot move the file into place at %s: %v'' [AStr path, AErr ''os''])),
                 [d0, d1] @ writes @ [d3, cleanup d3])
              else (Inr (int (length stored)), [d0, d1] @ writes @ [d3, d3(path \<mapsto> temp_file stored True, tmp := None)]))))"

lemma copied_ok: "copied w r = (stored, True) \<Longrightarrow> stored = rd_data r"
  by (auto simp: copied_def split: option.splits if_splits)

lemma WriteFileAtomic_states:
  assumes "wv_temp w = Some tmp" "tmp \<noteq> path" "WriteFileAtomic w path r d0 = (out, trace)" "d \<in> set trace"
  shows "d path = d0 path \<or> d path = Some (temp_file (rd_data r) True)"
    and "p \<noteq> path \<Longrightarrow> p \<noteq> tmp \<Longrightarrow> d p = d0 p"
  using assms
  by (auto simp: WriteFileAtomic_def Let_def os_Remove_def dest!: copied_ok split: if_splits prod.splits)

lemma WriteFileAtomic_result:
  assumes "wv_temp w = Some tmp" "tmp \<noteq> path" "WriteFileAtomic w path r d0 = (out, trace)"
  shows "case out of
      Inr n \<Rightarrow> n = int (length (rd_data r)) \<and> last trace = d0(path \<mapsto> temp_file (rd_data r) True, tmp := None)
    | Inl _ \<Rightarrow> last trace path = d0 path \<and> (wv_remove w \<longrightarrow> last trace = d0(tmp := None))"
  using assms
  by (auto simp: WriteFileAtomic_def Let_def os_Remove_def fun_eq_iff dest!: copied_ok split: if_splits prod.splits)

end
