(* ===== verification/Client.thy ===== *)
theory Client
  imports Rest
begin

section \<open>Addresses of the gateway's resources (\<open>pkg/api/client.go\<close>, \<open>common.go\<close>, \<open>rest.go\<close>, \<open>tls.go\<close>)\<close>

text \<open>
  A resource of the gateway is a \<open>CommonAPI\<close>: the client's options and the parts of a path. The address a
  request goes to is built with \<open>path.Join\<close> and \<open>net/url\<close>, which are written out here as far as the
  client uses them: cleaning of a slash-separated path, percent-encoding of a path, a host and a query.
  \<open>json.Marshal\<close> of a request body is an argument, \<open>None\<close> when it fails.
\<close>

subsection \<open>Paths\<close>

fun clean_segments :: "bool \<Rightarrow> string list \<Rightarrow> string list \<Rightarrow> string list" where
  "clean_segments rooted acc [] = rev acc"
| "clean_segments rooted acc (s # ss) =
     (if s = [] \<or> s = ''.'' then clean_segments rooted acc ss
      else if s = ''..'' then
        (case acc of
           prev # below \<Rightarrow> if prev = ''..'' then clean_segments rooted (s # acc) ss else clean_segments rooted below ss
         | [] \<Rightarrow> if rooted then clean_segments rooted [] ss else clean_segments rooted [s] ss)
      else clean_segments rooted (s # acc) ss)"

definition path_Clean :: "string \<Rightarrow> string" where
  "path_Clean p =
     (let rooted = has_prefix ''/'' p; segs = clean_segments rooted [] (split_on (CHR ''/'') p) in
      if rooted then CHR ''/'' # join ''/'' segs else if segs = [] then ''.'' else join ''/'' segs)"

definition path_Join :: "string list \<Rightarrow> string" where
  "path_Join es = (let ne = dropWhile (\<lambda>e. e = []) es in if ne = [] then [] else path_Clean (join ''/'' ne))"

subsection \<open>Percent-encoding\<close>

definition upper_hex :: "nat \<Rightarrow> char" where
  "upper_hex n = char_of (if n < 10 then 48 + n else 55 + n)"

definition percent :: "char \<Rightarrow> string" where
  "percent c = [CHR ''%'', upper_hex (byte c div 16), upper_hex (byte c mod 16)]"

definition unreserved :: "char \<Rightarrow> bool" where
  "unreserved c \<longleftrightarrow> is_lower c \<or> is_upper c \<or> is_digit c \<or> c \<in> set ''-_.~''"

definition escape_with :: "(char \<Rightarrow> bool) \<Rightarrow> string \<Rightarrow> string" where
  "escape_with keep s = concat (map (\<lambda>c. if keep c then [c] else percent c) s)"

definition escape_path :: "string \<Rightarrow> string" where
  "escape_path = escape_with (\<lambda>c. unreserved c \<or> c \<in> set ''$&+,/:;=@'')"

definition escape_host :: "string \<Rightarrow> string" where
  "escape_host = escape_with (\<lambda>c. unreserved c \<or> c = CHR 0x22 \<or> c = CHR 0x27 \<or> c \<in> set ''!$&()*+,;=:[]<>'')"

definition escape_query :: "string \<Rightarrow> string" where
  "escape_query s = concat (map (\<lambda>c. if unreserved c then [c] else if c = CHR '' '' then ''+'' else percent c) s)"

subsection \<open>Request addresses\<close>

record requestInfo =
  ri_provider :: string
  ri_apiVersion :: string
  ri_resource :: string
  ri_subResource :: "string list"
  ri_queryArgs :: "(string \<times> string) list option"

record commonAPI =
  ca_options :: restOptions
  ca_requestInfo :: requestInfo

definition makeBaseURL :: "requestInfo \<Rightarrow> string" where
  "makeBaseURL r =
     (let p0 = path_Join [ri_provider r, ri_apiVersion r];
          p1 = (if ri_resource r \<noteq> [] then path_Join [p0, ri_resource r] else p0)
      in if ri_subResource r \<noteq> [] then path_Join [p1, path_Join (ri_subResource r)] else p1)"

definition GetHost :: "restOptions \<Rightarrow> string" where
  "GetHost o' = ro_ServerIP o' @ '':'' @ show_int (ro_ServerPort o')"

text \<open>
  \<open>url.Values.Encode\<close>, on arguments with distinct keys: in the order of the keys. \<open>str_le\<close> is Go's order
  of strings, by bytes.
\<close>

fun str_le :: "string \<Rightarrow> string \<Rightarrow> bool" where
  "str_le [] _ = True"
| "str_le (_ # _) [] = False"
| "str_le (a # s) (b # t) = (byte a < byte b \<or> (a = b \<and> str_le s t))"

fun insert_arg :: "string \<times> 'a \<Rightarrow> (string \<times> 'a) list \<Rightarrow> (string \<times> 'a) list" where
  "insert_arg a [] = [a]"
| "insert_arg a (b # bs) = (if str_le (fst a) (fst b) then a # b # bs else b # insert_arg a bs)"

definition encode_query :: "(string \<times> string) list \<Rightarrow> string" where
  "encode_query args = join ''&'' (map (\<lambda>(k, v). escape_query k @ ''='' @ escape_query v) (foldr insert_arg args []))"

definition GetUrlString :: "commonAPI \<Rightarrow> string" where
  "GetUrlString l =
     (let p = makeBaseURL (ca_requestInfo l); host = GetHost (ca_options l);
          query = (case ri_queryArgs (ca_requestInfo l) of None \<Rightarrow> [] | Some args \<Rightarrow> encode_query args);
          scheme = (if ro_Protocol (ca_options l) \<noteq> [] then ro_Protocol (ca_options l) @ '':'' else [])
      in scheme @ ''//'' @ escape_host host @ (if p \<noteq> [] \<and> hd p \<noteq> CHR ''/'' then ''/'' else []) @ escape_path p
         @ (if query \<noteq> [] then CHR ''?'' # query else []))"

definition SubResources :: "string list \<Rightarrow> commonAPI \<Rightarrow> commonAPI" where
  "SubResources rs l = l\<lparr>ca_requestInfo := (ca_requestInfo l)\<lparr>ri_subResource := ri_subResource (ca_requestInfo l) @ rs\<rparr>\<rparr>"

definition api_Query :: "(string \<times> string) list \<Rightarrow> commonAPI \<Rightarrow> commonAPI" where
  "api_Query args l = l\<lparr>ca_requestInfo := (ca_requestInfo l)\<lparr>ri_queryArgs := Some args\<rparr>\<rparr>"

definition SetUrl :: "string \<Rightarrow> commonAPI \<Rightarrow> commonAPI" where
  "SetUrl url l = l\<lparr>ca_requestInfo := (ca_requestInfo l)\<lparr>ri_resource := url\<rparr>\<rparr>"

subsection \<open>The verbs of a resource\<close>

definition api_Create :: "(string \<Rightarrow> bool) \<Rightarrow> bytes option \<Rightarrow> commonAPI \<Rightarrow> http_request option" where
  "api_Create url_ok body l = Option.bind body (POST url_ok (ca_options l) (GetUrlString l))"

definition api_Delete :: "(string \<Rightarrow> bool) \<Rightarrow> commonAPI \<Rightarrow> http_request option" where
  "api_Delete url_ok l = DELETE url_ok (ca_options l) (GetUrlString l)"

definition api_Update :: "(string \<Rightarrow> bool) \<Rightarrow> bytes option \<Rightarrow> commonAPI \<Rightarrow> http_request option" where
  "api_Update url_ok body l = Option.bind body (PATCH url_ok (ca_options l) (GetUrlString l))"

definition api_Put :: "(string \<Rightarrow> bool) \<Rightarrow> bytes option \<Rightarrow> commonAPI \<Rightarrow> http_request option" where
  "api_Put url_ok body l = Option.bind body (PUT url_ok (ca_options l) (GetUrlString l))"

definition api_DeleteWithBody :: "(string \<Rightarrow> bool) \<Rightarrow> bytes option \<Rightarrow> commonAPI \<Rightarrow> http_request option" where
  "api_DeleteWithBody url_ok body l = Option.bind body (DELETEWithBody url_ok (ca_options l) (GetUrlString l))"

definition api_Get :: "(string \<Rightarrow> bool) \<Rightarrow> commonAPI \<Rightarrow> http_request option" where
  "api_Get url_ok l = GET url_ok (ca_options l) (GetUrlString l)"

subsection \<open>The resources\<close>

definition loxiProvider :: string where "loxiProvider = ''netlox''"
definition loxiApiVersion :: string where "loxiApiVersion = ''v1''"
definition loxiLoadBalancerResource :: string where "loxiLoadBalancerResource = ''config/loadbalancer''"
definition loxiLoadBalancerResourceAll :: string where "loxiLoadBalancerResourceAll = ''config/loadbalancer/all''"
definition loxiConntrackResource :: string where "loxiConntrackResource = ''config/conntrack/all''"
definition loxiPortResource :: string where "loxiPortResource = ''config/port/all''"
definition loxiSessionResource :: string where "loxiSessionResource = ''config/session''"
definition loxiSessionUlClResource :: string where "loxiSessionUlClResource = ''config/sessionulcl''"
definition loxiPolicyResource :: string where "loxiPolicyResource = ''config/policy''"
definition loxiRouteResource :: string where "loxiRouteResource = ''config/route''"
definition loxiIPv4AddressResource :: string where "loxiIPv4AddressResource = ''config/ipv4address''"
definition loxiNeighborResource :: string where "loxiNeighborResource = ''config/neighbor''"
definition loxiFDBResource :: string where "loxiFDBResource = ''config/fdb''"
definition loxiVlanResource :: string where "loxiVlanResource = ''config/vlan''"
definition loxiVxlanResource :: string where "loxiVxlanResource = ''config/tunnel/vxlan''"
definition loxiMirrorResource :: string where "loxiMirrorResource = ''config/mirror''"
definition loxiFirewallResource :: string where "loxiFirewallResource = ''config/firewall''"
definition loxiEndPointResource :: string where "loxiEndPointResource = ''config/endpoint''"
definition loxiParamResource :: string where "loxiParamResource = ''config/params''"
definition loxiBGPNeighResource :: string where "loxiBGPNeighResource = ''config/bgp/neigh''"
definition loxiStatusResource :: string where "loxiStatusResource = ''status''"
definition loxiBFDSessionResource :: string where "loxiBFDSessionResource = ''config/bfd''"
definition loxiVersionResource :: string where "loxiVersionResource = ''version''"
definition loxiLoginResource :: string where "loxiLoginResource = ''auth/login''"
definition loxiAIApiKeyResource :: string where "loxiAIApiKeyResource = ''config/ai/apikey''"
definition loxiAITenantRateLimit :: string where "loxiAITenantRateLimit = ''config/ai/tenant/ratelimit''"
definition loxiAIKvInventoryResource :: string where "loxiAIKvInventoryResource = ''config/ai/kv/inventory''"
definition loxiAIObjectiveResource :: string where "loxiAIObjectiveResource = ''config/ai/objective''"
definition loxiAINetIdentityResource :: string where "loxiAINetIdentityResource = ''config/ai/netidentity''"
definition loxiAIJWTAuthProfileResource :: string where "loxiAIJWTAuthProfileResource = ''config/ai/jwtauthprofile''"
definition loxiUserResource :: string where "loxiUserResource = ''auth/users''"
definition loxiCertResource :: string where "loxiCertResource = ''config/cert''"
definition loxiSNIResource :: string where "loxiSNIResource = ''sni/certificates''"
definition loxiMetricsResource :: string where "loxiMetricsResource = ''config/metrics''"
definition loxiGPUResource :: string where "loxiGPUResource = ''config/gpu''"
definition loxiWorkerMetricsResource :: string where "loxiWorkerMetricsResource = ''config/worker/metrics''"
definition loxiPIIResource :: string where "loxiPIIResource = ''config/pii''"
definition loxiLlamaFirewallResource :: string where "loxiLlamaFirewallResource = ''config/llamafirewall''"
definition loxiTraceResource :: string where "loxiTraceResource = ''config/trace''"
definition loxiL4TraceResource :: string where "loxiL4TraceResource = ''config/l4trace''"
definition loxiOPAResource :: string where "loxiOPAResource = ''config/opa/watcher''"
definition loxiDPUResource :: string where "loxiDPUResource = ''config/dpu''"
definition loxiSnapshotResource :: string where "loxiSnapshotResource = ''config/snapshot''"
definition loxiRestoreResource :: string where "loxiRestoreResource = ''config/restore''"
definition loxiPersistResource :: string where "loxiPersistResource = ''config/persist''"
definition loxiMaintenanceResource :: string where "loxiMaintenanceResource = ''maintenance''"
definition loxiDiagnosticsResource :: string where "loxiDiagnosticsResource = ''diagnostics''"
definition loxiStatusReadyResource :: string where "loxiStatusReadyResource = ''status/ready''"
definition loxiLogsResource :: string where "loxiLogsResource = ''logs''"
definition loxiLogArchivesResource :: string where "loxiLogArchivesResource = ''log-archives''"
definition loxiAuditStatusResource :: string where "loxiAuditStatusResource = ''audit/status''"
definition loxiAuditSinkResource :: string where "loxiAuditSinkResource = ''audit/sink''"
definition loxiAuditSinksResource :: string where "loxiAuditSinksResource = ''audit/sinks''"

definition resource_api :: "restOptions \<Rightarrow> string \<Rightarrow> commonAPI" where
  "resource_api o' resource = \<lparr>ca_options = o', ca_requestInfo = \<lparr>ri_provider = loxiProvider, ri_apiVersion = loxiApiVersion,
     ri_resource = resource, ri_subResource = [], ri_queryArgs = None\<rparr>\<rparr>"

definition LoxiClient_LoadBalancer :: "restOptions \<Rightarrow> commonAPI" where
  "LoxiClient_LoadBalancer o' = resource_api o' loxiLoadBalancerResource"
definition LoxiClient_LoadBalancerAll :: "restOptions \<Rightarrow> commonAPI" where
  "LoxiClient_LoadBalancerAll o' = resource_api o' loxiLoadBalancerResourceAll"
definition LoxiClient_Conntrack :: "restOptions \<Rightarrow> commonAPI" where
  "LoxiClient_Conntrack o' = resource_api o' loxiConntrackResource"
definition LoxiClient_Port :: "restOptions \<Rightarrow> commonAPI" where
  "LoxiClient_Port o' = resource_api o' loxiPortResource"
definition LoxiClient_Session :: "restOptions \<Rightarrow> commonAPI" where
  "LoxiClient_Session o' = resource_api o' loxiSessionResource"
definition LoxiClient_SessionUlCL :: "restOptions \<Rightarrow> commonAPI" where
  "LoxiClient_SessionUlCL o' = resource_api o' loxiSessionUlClResource"
definition LoxiClient_Policy :: "restOptions \<Rightarrow> commonAPI" where
  "LoxiClient_Policy o' = resource_api o' loxiPolicyResource"
definition LoxiClient_Route :: "restOptions \<Rightarrow> commonAPI" where
  "LoxiClient_Route o' = resource_api o' loxiRouteResource"
definition LoxiClient_IPv4Address :: "restOptions \<Rightarrow> commonAPI" where
  "LoxiClient_IPv4Address o' = resource_api o' loxiIPv4AddressResource"
definition LoxiClient_Neighbor :: "restOptions \<Rightarrow> commonAPI" where
  "LoxiClient_Neighbor o' = resource_api o' loxiNeighborResource"
definition LoxiClient_FDB :: "restOptions \<Rightarrow> commonAPI" where
  "LoxiClient_FDB o' = resource_api o' loxiFDBResource"
definition LoxiClient_Vlan :: "restOptions \<Rightarrow> commonAPI" where
  "LoxiClient_Vlan o' = resource_api o' loxiVlanResource"
definition LoxiClient_Vxlan :: "restOptions \<Rightarrow> commonAPI" where
  "LoxiClient_Vxlan o' = resource_api o' loxiVxlanResource"
definition LoxiClient_Status :: "restOptions \<Rightarrow> commonAPI" where
  "LoxiClient_Status o' = resource_api o' loxiStatusResource"
definition LoxiClient_Firewall :: "restOptions \<Rightarrow> commonAPI" where
  "LoxiClient_Firewall o' = resource_api o' loxiFirewallResource"
definition LoxiClient_Mirror :: "restOptions \<Rightarrow> commonAPI" where
  "LoxiClient_Mirror o' = resource_api o' loxiMirrorResource"
definition LoxiClient_EndPoint :: "restOptions \<Rightarrow> commonAPI" where
  "LoxiClient_EndPoint o' = resource_api o' loxiEndPointResource"
definition LoxiClient_Param :: "restOptions \<Rightarrow> commonAPI" where
  "LoxiClient_Param o' = resource_api o' loxiParamResource"
definition LoxiClient_BGPNeighbor :: "restOptions \<Rightarrow> commonAPI" where
  "LoxiClient_BGPNeighbor o' = resource_api o' loxiBGPNeighResource"
definition LoxiClient_BFDSession :: "restOptions \<Rightarrow> commonAPI" where
  "LoxiClient_BFDSession o' = resource_api o' loxiBFDSessionResource"
definition LoxiClient_LBVersion :: "restOptions \<Rightarrow> commonAPI" where
  "LoxiClient_LBVersion o' = resource_api o' loxiVersionResource"
definition LoxiClient_Login :: "restOptions \<Rightarrow> commonAPI" where
  "LoxiClient_Login o' = resource_api o' loxiLoginResource"
definition LoxiClient_AIApiKey :: "restOptions \<Rightarrow> commonAPI" where
  "LoxiClient_AIApiKey o' = resource_api o' loxiAIApiKeyResource"
definition LoxiClient_AITenantRatelimit :: "restOptions \<Rightarrow> commonAPI" where
  "LoxiClient_AITenantRatelimit o' = resource_api o' loxiAITenantRateLimit"
definition LoxiClient_AIObjective :: "restOptions \<Rightarrow> commonAPI" where
  "LoxiClient_AIObjective o' = resource_api o' loxiAIObjectiveResource"
definition LoxiClient_AINetIdentity :: "restOptions \<Rightarrow> commonAPI" where
  "LoxiClient_AINetIdentity o' = resource_api o' loxiAINetIdentityResource"
definition LoxiClient_AIJWTAuthProfile :: "restOptions \<Rightarrow> commonAPI" where
  "LoxiClient_AIJWTAuthProfile o' = resource_api o' loxiAIJWTAuthProfileResource"
definition LoxiClient_AIKvInventory :: "restOptions \<Rightarrow> commonAPI" where
  "LoxiClient_AIKvInventory o' = resource_api o' loxiAIKvInventoryResource"
definition LoxiClient_User :: "restOptions \<Rightarrow> commonAPI" where
  "LoxiClient_User o' = resource_api o' loxiUserResource"
definition LoxiClient_Cert :: "restOptions \<Rightarrow> commonAPI" where
  "LoxiClient_Cert o' = resource_api o' loxiCertResource"
definition LoxiClient_SNICertificate :: "restOptions \<Rightarrow> commonAPI" where
  "LoxiClient_SNICertificate o' = resource_api o' loxiSNIResource"
definition LoxiClient_Metrics :: "restOptions \<Rightarrow> commonAPI" where
  "LoxiClient_Metrics o' = resource_api o' loxiMetricsResource"
definition LoxiClient_GPU :: "restOptions \<Rightarrow> commonAPI" where
  "LoxiClient_GPU o' = resource_api o' loxiGPUResource"
definition LoxiClient_WorkerMetrics :: "restOptions \<Rightarrow> commonAPI" where
  "LoxiClient_WorkerMetrics o' = resource_api o' loxiWorkerMetricsResource"
definition LoxiClient_PII :: "restOptions \<Rightarrow> commonAPI" where
  "LoxiClient_PII o' = resource_api o' loxiPIIResource"
definition LoxiClient_LlamaFirewall :: "restOptions \<Rightarrow> commonAPI" where
  "LoxiClient_LlamaFirewall o' = resource_api o' loxiLlamaFirewallResource"
definition LoxiClient_Trace :: "restOptions \<Rightarrow> commonAPI" where
  "LoxiClient_Trace o' = resource_api o' loxiTraceResource"
definition LoxiClient_L4Trace :: "restOptions \<Rightarrow> commonAPI" where
  "LoxiClient_L4Trace o' = resource_api o' loxiL4TraceResource"
definition LoxiClient_OPA :: "restOptions \<Rightarrow> commonAPI" where
  "LoxiClient_OPA o' = resource_api o' loxiOPAResource"
definition LoxiClient_DPU :: "restOptions \<Rightarrow> commonAPI" where
  "LoxiClient_DPU o' = resource_api o' loxiDPUResource"
definition LoxiClient_Snapshot :: "restOptions \<Rightarrow> commonAPI" where
  "LoxiClient_Snapshot o' = resource_api o' loxiSnapshotResource"
definition LoxiClient_Diagnostics :: "restOptions \<Rightarrow> commonAPI" where
  "LoxiClient_Diagnostics o' = resource_api o' loxiDiagnosticsResource"
definition LoxiClient_Logs :: "restOptions \<Rightarrow> commonAPI" where
  "LoxiClient_Logs o' = resource_api o' loxiLogsResource"
definition LoxiClient_LogArchives :: "restOptions \<Rightarrow> commonAPI" where
  "LoxiClient_LogArchives o' = resource_api o' loxiLogArchivesResource"
definition LoxiClient_AuditStatus :: "restOptions \<Rightarrow> commonAPI" where
  "LoxiClient_AuditStatus o' = resource_api o' loxiAuditStatusResource"
definition LoxiClient_AuditSink :: "restOptions \<Rightarrow> commonAPI" where
  "LoxiClient_AuditSink o' = resource_api o' loxiAuditSinkResource"
definition LoxiClient_AuditSinks :: "restOptions \<Rightarrow> commonAPI" where
  "LoxiClient_AuditSinks o' = resource_api o' loxiAuditSinksResource"
definition LoxiClient_StatusReady :: "restOptions \<Rightarrow> commonAPI" where
  "LoxiClient_StatusReady o' = resource_api o' loxiStatusReadyResource"
definition LoxiClient_Maintenance :: "restOptions \<Rightarrow> commonAPI" where
  "LoxiClient_Maintenance o' = resource_api o' loxiMaintenanceResource"
definition LoxiClient_Restore :: "restOptions \<Rightarrow> commonAPI" where
  "LoxiClient_Restore o' = resource_api o' loxiRestoreResource"
definition LoxiClient_Persist :: "restOptions \<Rightarrow> commonAPI" where
  "LoxiClient_Persist o' = resource_api o' loxiPersistResource"

lemmas client_defs =
  LoxiClient_LoadBalancer_def LoxiClient_LoadBalancerAll_def LoxiClient_Conntrack_def LoxiClient_Port_def LoxiClient_Session_def LoxiClient_SessionUlCL_def
  LoxiClient_Policy_def LoxiClient_Route_def LoxiClient_IPv4Address_def LoxiClient_Neighbor_def LoxiClient_FDB_def LoxiClient_Vlan_def
  LoxiClient_Vxlan_def LoxiClient_Status_def LoxiClient_Firewall_def LoxiClient_Mirror_def LoxiClient_EndPoint_def LoxiClient_Param_def
  LoxiClient_BGPNeighbor_def LoxiClient_BFDSession_def LoxiClient_LBVersion_def LoxiClient_Login_def LoxiClient_AIApiKey_def LoxiClient_AITenantRatelimit_def
  LoxiClient_AIObjective_def LoxiClient_AINetIdentity_def LoxiClient_AIJWTAuthProfile_def LoxiClient_AIKvInventory_def LoxiClient_User_def LoxiClient_Cert_def
  LoxiClient_SNICertificate_def LoxiClient_Metrics_def LoxiClient_GPU_def LoxiClient_WorkerMetrics_def LoxiClient_PII_def LoxiClient_LlamaFirewall_def
  LoxiClient_Trace_def LoxiClient_L4Trace_def LoxiClient_OPA_def LoxiClient_DPU_def LoxiClient_Snapshot_def LoxiClient_Diagnostics_def
  LoxiClient_Logs_def LoxiClient_LogArchives_def LoxiClient_AuditStatus_def LoxiClient_AuditSink_def LoxiClient_AuditSinks_def LoxiClient_StatusReady_def
  LoxiClient_Maintenance_def LoxiClient_Restore_def LoxiClient_Persist_def

lemmas resource_constants =
  loxiProvider_def loxiApiVersion_def loxiLoadBalancerResource_def loxiLoadBalancerResourceAll_def loxiConntrackResource_def loxiPortResource_def
  loxiSessionResource_def loxiSessionUlClResource_def loxiPolicyResource_def loxiRouteResource_def loxiIPv4AddressResource_def loxiNeighborResource_def
  loxiFDBResource_def loxiVlanResource_def loxiVxlanResource_def loxiMirrorResource_def loxiFirewallResource_def loxiEndPointResource_def
  loxiParamResource_def loxiBGPNeighResource_def loxiStatusResource_def loxiBFDSessionResource_def loxiVersionResource_def loxiLoginResource_def
  loxiAIApiKeyResource_def loxiAITenantRateLimit_def loxiAIKvInventoryResource_def loxiAIObjectiveResource_def loxiAINetIdentityResource_def loxiAIJWTAuthProfileResource_def
  loxiUserResource_def loxiCertResource_def loxiSNIResource_def loxiMetricsResource_def loxiGPUResource_def loxiWorkerMetricsResource_def
  loxiPIIResource_def loxiLlamaFirewallResource_def loxiTraceResource_def loxiL4TraceResource_def loxiOPAResource_def loxiDPUResource_def
  loxiSnapshotResource_def loxiRestoreResource_def loxiPersistResource_def loxiMaintenanceResource_def loxiDiagnosticsResource_def loxiStatusReadyResource_def
  loxiLogsResource_def loxiLogArchivesResource_def loxiAuditStatusResource_def loxiAuditSinkResource_def loxiAuditSinksResource_def

definition all_resources :: "restOptions \<Rightarrow> commonAPI list" where
  "all_resources o' =
    [LoxiClient_LoadBalancer o',
     LoxiClient_LoadBalancerAll o',
     LoxiClient_Conntrack o',
     LoxiClient_Port o',
     LoxiClient_Session o',
     LoxiClient_SessionUlCL o',
     LoxiClient_Policy o',
     LoxiClient_Route o',
     LoxiClient_IPv4Address o',
     LoxiClient_Neighbor o',
     LoxiClient_FDB o',
     LoxiClient_Vlan o',
     LoxiClient_Vxlan o',
     LoxiClient_Status o',
     LoxiClient_Firewall o',
     LoxiClient_Mirror o',
     LoxiClient_EndPoint o',
     LoxiClient_Param o',
     LoxiClient_BGPNeighbor o',
     LoxiClient_BFDSession o',
     LoxiClient_LBVersion o',
     LoxiClient_Login o',
     LoxiClient_AIApiKey o',
     LoxiClient_AITenantRatelimit o',
     LoxiClient_AIObjective o',
     LoxiClient_AINetIdentity o',
     LoxiClient_AIJWTAuthProfile o',
     LoxiClient_AIKvInventory o',
     LoxiClient_User o',
     LoxiClient_Cert o',
     LoxiClient_SNICertificate o',
     LoxiClient_Metrics o',
     LoxiClient_GPU o',
     LoxiClient_WorkerMetrics o',
     LoxiClient_PII o',
     LoxiClient_LlamaFirewall o',
     LoxiClient_Trace o',
     LoxiClient_L4Trace o',
     LoxiClient_OPA o',
     LoxiClient_DPU o',
     LoxiClient_Snapshot o',
     LoxiClient_Diagnostics o',
     LoxiClient_Logs o',
     LoxiClient_LogArchives o',
     LoxiClient_AuditStatus o',
     LoxiClient_AuditSink o',
     LoxiClient_AuditSinks o',
     LoxiClient_StatusReady o',
     LoxiClient_Maintenance o',
     LoxiClient_Restore o',
     LoxiClient_Persist o']"

subsection \<open>TLS\<close>

text \<open>
  What the operating system and \<open>crypto/tls\<close> answer: the content of a file, whether it holds a certificate,
  whether a certificate and a key load as a pair.
\<close>

record tls_env =
  te_ReadFile :: "string \<Rightarrow> bytes option"
  te_AppendCertsFromPEM :: "bytes \<Rightarrow> bool"
  te_LoadX509KeyPair :: "string \<Rightarrow> string \<Rightarrow> bool"

text \<open>\<open>None\<close> in \<open>tc_RootCAs\<close> are the roots of the system; a pair is named by its two files.\<close>

record tlsConfig =
  tc_InsecureSkipVerify :: bool
  tc_RootCAs :: "bytes option"
  tc_Certificates :: "(string \<times> string) option"

definition needsTLSConfig :: "restOptions \<Rightarrow> bool" where
  "needsTLSConfig o' \<longleftrightarrow> ro_Protocol o' = ''https'' \<or> ro_Insecure o' \<or> ro_CACertFile o' \<noteq> []
     \<or> ro_ClientCertFile o' \<noteq> [] \<or> ro_ClientKeyFile o' \<noteq> []"

definition loadCA :: "tls_env \<Rightarrow> string \<Rightarrow> msg + bytes option" where
  "loadCA w file =
     (if file = [] then Inr None
      else case te_ReadFile w file of
        None \<Rightarrow> Inl (Sprintf ''reading CA cert %q: %w'' [AStr file, AErr ''os''])
      | Some pem \<Rightarrow>
          if te_AppendCertsFromPEM w pem then Inr (Some pem)
          else Inl (Sprintf ''no valid certificates found in CA cert %q'' [AStr file]))"

definition loadPair :: "tls_env \<Rightarrow> string \<Rightarrow> string \<Rightarrow> msg + (string \<times> string) option" where
  "loadPair w cert key =
     (if cert = [] \<and> key = [] then Inr None
      else if cert = [] \<or> key = [] then Inl (Text ''--cert and --key must be supplied together'')
      else if te_LoadX509KeyPair w cert key then Inr (Some (cert, key))
      else Inl (Sprintf ''loading client cert/key: %w'' [AErr ''crypto/tls'']))"

definition buildTLSConfig :: "tls_env \<Rightarrow> restOptions \<Rightarrow> msg + tlsConfig" where
  "buildTLSConfig w o' =
     (case loadCA w (ro_CACertFile o') of
        Inl e \<Rightarrow> Inl e
      | Inr roots \<Rightarrow>
          (case loadPair w (ro_ClientCertFile o') (ro_ClientKeyFile o') of
             Inl e \<Rightarrow> Inl e
           | Inr pair \<Rightarrow> Inr \<lparr>tc_InsecureSkipVerify = ro_Insecure o', tc_RootCAs = roots, tc_Certificates = pair\<rparr>))"

text \<open>The HTTP client: its timeout in seconds, the transport, and the line printed for a bad configuration.\<close>

datatype transport = DefaultTransport | TLSTransport tlsConfig

record http_client =
  hc_Timeout :: int
  hc_Transport :: transport
  hc_Printed :: "msg option"

definition NewLoxiClient :: "tls_env \<Rightarrow> restOptions \<Rightarrow> http_client" where
  "NewLoxiClient w o' =
     (if needsTLSConfig o' then
        (case buildTLSConfig w o' of
           Inl e \<Rightarrow> \<lparr>hc_Timeout = ro_Timeout o', hc_Transport = DefaultTransport,
                     hc_Printed = Some (Sprintf ''Error: TLS configuration: %s'' [AMsg e])\<rparr>
         | Inr cfg \<Rightarrow> \<lparr>hc_Timeout = ro_Timeout o', hc_Transport = TLSTransport cfg, hc_Printed = None\<rparr>)
      else \<lparr>hc_Timeout = ro_Timeout o', hc_Transport = DefaultTransport, hc_Printed = None\<rparr>)"

text \<open>What the peer must present, and what the client presents, over a transport.\<close>

definition verifies_peer :: "transport \<Rightarrow> bool" where
  "verifies_peer t = (case t of DefaultTransport \<Rightarrow> True | TLSTransport c \<Rightarrow> \<not> tc_InsecureSkipVerify c)"

subsection \<open>Where a request goes\<close>

text \<open>A segment that cleaning keeps: not empty, without a slash, and neither \<open>.\<close> nor \<open>..\<close>.\<close>

definition plain_segment :: "string \<Rightarrow> bool" where
  "plain_segment s \<longleftrightarrow> s \<noteq> [] \<and> CHR ''/'' \<notin> set s \<and> s \<noteq> ''.'' \<and> s \<noteq> ''..''"

lemma split_on_slash: "CHR ''/'' \<notin> set a \<Longrightarrow> split_on (CHR ''/'') (a @ CHR ''/'' # b) = a # split_on (CHR ''/'') b"
  by (induction a) auto

lemma split_on_single: "CHR ''/'' \<notin> set a \<Longrightarrow> split_on (CHR ''/'') a = [a]"
  by (induction a) auto

lemma split_on_join:
  "ss \<noteq> [] \<Longrightarrow> list_all plain_segment ss \<Longrightarrow> split_on (CHR ''/'') (join ''/'' ss) = ss"
proof (induction ss rule: induct_list012)
  case (3 x y zs)
  then show ?case by (simp add: plain_segment_def split_on_slash)
qed (simp_all add: plain_segment_def split_on_single)

lemma clean_segments_plain: "list_all plain_segment ss \<Longrightarrow> clean_segments rooted acc ss = rev acc @ ss"
  by (induction ss arbitrary: acc) (auto simp: plain_segment_def)

lemma path_join_head: "ss \<noteq> [] \<Longrightarrow> list_all plain_segment ss \<Longrightarrow> \<exists>c cs. join ''/'' ss = c # cs \<and> c \<noteq> CHR ''/''"
  by (cases ss rule: remdups_adj.cases) (auto simp: plain_segment_def neq_Nil_conv)

lemma path_Clean_join:
  assumes "ss \<noteq> []" "list_all plain_segment ss"
  shows "path_Clean (join ''/'' ss) = join ''/'' ss"
proof -
  obtain c cs where "join ''/'' ss = c # cs" "c \<noteq> CHR ''/''" using path_join_head [OF assms] by blast
  then show ?thesis
    using assms split_on_join [OF assms] clean_segments_plain [OF assms(2), of False "[]"]
    by (simp add: path_Clean_def has_prefix_iff)
qed

lemma join_append: "as \<noteq> [] \<Longrightarrow> bs \<noteq> [] \<Longrightarrow> join ''/'' (as @ bs) = join ''/'' as @ CHR ''/'' # join ''/'' bs"
proof (induction as rule: induct_list012)
  case (2 x)
  then show ?case by (cases bs) auto
qed auto

lemma path_Join_plain:
  assumes "ss \<noteq> []" "list_all plain_segment ss"
  shows "path_Join ss = join ''/'' ss"
proof -
  have "dropWhile (\<lambda>e. e = []) ss = ss" using assms by (cases ss) (auto simp: plain_segment_def)
  with assms path_Clean_join show ?thesis by (simp add: path_Join_def)
qed

lemma path_Join_two:
  assumes "as \<noteq> []" "list_all plain_segment as" "bs \<noteq> []" "list_all plain_segment bs"
  shows "path_Join [join ''/'' as, join ''/'' bs] = join ''/'' (as @ bs)"
proof -
  obtain c cs where "join ''/'' as = c # cs" using path_join_head [OF assms(1,2)] by blast
  then have "path_Join [join ''/'' as, join ''/'' bs] = path_Clean (join ''/'' (as @ bs))"
    using join_append [OF assms(1,3)] by (simp add: path_Join_def)
  with assms path_Clean_join [of "as @ bs"] show ?thesis by simp
qed

definition resource_segments :: "commonAPI \<Rightarrow> string list" where
  "resource_segments l = split_on (CHR ''/'') (ri_resource (ca_requestInfo l))"

lemma join_split: "join ''/'' (split_on (CHR ''/'') s) = s"
  by (induction s) (auto split: list.splits elim: join.elims)

lemma makeBaseURL_plain:
  assumes "list_all plain_segment (split_on (CHR ''/'') r)" "list_all plain_segment subs"
  shows "makeBaseURL (ca_requestInfo (SubResources subs (resource_api o' r))) =
    join ''/'' ([''netlox'', ''v1''] @ split_on (CHR ''/'') r @ subs)"
proof -
  have base: "list_all plain_segment [''netlox'', ''v1'']" by (simp add: plain_segment_def)
  have p0: "path_Join [''netlox'', ''v1''] = join ''/'' [''netlox'', ''v1'']" by (rule path_Join_plain [OF _ base]) simp
  have ne: "split_on (CHR ''/'') r \<noteq> []" by (induction r) (auto split: list.splits)
  have r: "r \<noteq> []" using assms(1) by (auto simp: plain_segment_def)
  have p1: "path_Join [join ''/'' [''netlox'', ''v1''], r] = join ''/'' ([''netlox'', ''v1''] @ split_on (CHR ''/'') r)"
    using path_Join_two [OF _ base ne assms(1)] by (simp only: join_split list.simps(3) not_False_eq_True)
  show ?thesis
  proof (cases "subs = []")
    case True
    with p0 p1 r show ?thesis
      by (simp add: makeBaseURL_def SubResources_def resource_api_def loxiProvider_def loxiApiVersion_def Let_def)
  next
    case False
    have "list_all plain_segment ([''netlox'', ''v1''] @ split_on (CHR ''/'') r)" using base assms(1) by simp
    from path_Join_two [OF _ this False assms(2)]
    have "path_Join [join ''/'' ([''netlox'', ''v1''] @ split_on (CHR ''/'') r), path_Join subs] =
        join ''/'' ([''netlox'', ''v1''] @ split_on (CHR ''/'') r @ subs)"
      using path_Join_plain [OF False assms(2)] by simp
    with p0 p1 r False show ?thesis
      by (simp add: makeBaseURL_def SubResources_def resource_api_def loxiProvider_def loxiApiVersion_def Let_def)
  qed
qed

lemma resources_plain: "list_all (\<lambda>l. list_all plain_segment (resource_segments l)) (all_resources o')"
  by (simp add: all_resources_def client_defs resource_api_def resource_segments_def resource_constants plain_segment_def)

lemma resources_distinct: "distinct (map (\<lambda>l. ri_resource (ca_requestInfo l)) (all_resources o'))"
  by (simp add: all_resources_def client_defs resource_api_def resource_constants)

lemma resources_form: "list_all (\<lambda>l. l = resource_api o' (ri_resource (ca_requestInfo l))) (all_resources o')"
  by (simp add: all_resources_def client_defs resource_api_def)

lemma resources_options: "list_all (\<lambda>l. ca_options l = o' \<and> ri_queryArgs (ca_requestInfo l) = None) (all_resources o')"
  by (simp add: all_resources_def client_defs resource_api_def)

lemma resource_path:
  assumes "l \<in> set (all_resources o')" "list_all plain_segment subs"
  shows "makeBaseURL (ca_requestInfo (SubResources subs l)) = join ''/'' ([''netlox'', ''v1''] @ resource_segments l @ subs)"
proof -
  have "l = resource_api o' (ri_resource (ca_requestInfo l))" "list_all plain_segment (resource_segments l)"
    using assms(1) resources_form [of o'] resources_plain [of o'] by (auto simp: list_all_iff)
  with makeBaseURL_plain [OF _ assms(2), of "ri_resource (ca_requestInfo l)" o'] show ?thesis
    unfolding resource_segments_def by simp
qed

lemma resource_address:
  assumes "l \<in> set (all_resources o')" "list_all plain_segment subs"
  shows "GetUrlString (SubResources subs l) =
      (if ro_Protocol o' \<noteq> [] then ro_Protocol o' @ '':'' else []) @ ''//'' @ escape_host (GetHost o') @ ''/''
      @ escape_path (join ''/'' ([''netlox'', ''v1''] @ resource_segments l @ subs))"
proof -
  have l: "ca_options l = o' \<and> ri_queryArgs (ca_requestInfo l) = None"
    using assms(1) resources_options [of o'] by (auto simp: list_all_iff)
  obtain rest where "join ''/'' ([''netlox'', ''v1''] @ resource_segments l @ subs) = CHR ''n'' # rest"
    by (cases "resource_segments l @ subs") auto
  with resource_path [OF assms] l show ?thesis by (simp add: GetUrlString_def SubResources_def Let_def)
qed

lemma resources_addresses_distinct: "distinct (map makeBaseURL (map ca_requestInfo (all_resources o')))"
proof -
  have path: "makeBaseURL (ca_requestInfo l) = join ''/'' ([''netlox'', ''v1''] @ resource_segments l)" if "l \<in> set (all_resources o')" for l
    using resource_path [OF that, of "[]"] by (simp add: SubResources_def)
  have inj: "ri_resource (ca_requestInfo a) = ri_resource (ca_requestInfo b)"
    if "a \<in> set (all_resources o')" "b \<in> set (all_resources o')" "makeBaseURL (ca_requestInfo a) = makeBaseURL (ca_requestInfo b)" for a b
  proof -
    have again: "split_on (CHR ''/'') (makeBaseURL (ca_requestInfo l)) = [''netlox'', ''v1''] @ resource_segments l"
      if "l \<in> set (all_resources o')" for l
    proof -
      have "list_all plain_segment ([''netlox'', ''v1''] @ resource_segments l)"
        using that resources_plain [of o'] by (auto simp: list_all_iff plain_segment_def)
      then show ?thesis unfolding path [OF that] by (intro split_on_join) simp_all
    qed
    have "resource_segments a = resource_segments b" using again [OF that(1)] again [OF that(2)] that(3) by simp
    then show ?thesis unfolding resource_segments_def by (metis join_split)
  qed
  have d: "distinct (all_resources o')" "inj_on (\<lambda>l. ri_resource (ca_requestInfo l)) (set (all_resources o'))"
    using resources_distinct [of o'] unfolding distinct_map by simp_all
  have "inj_on (makeBaseURL \<circ> ca_requestInfo) (set (all_resources o'))"
  proof (rule inj_onI)
    fix a b
    assume ab: "a \<in> set (all_resources o')" "b \<in> set (all_resources o')" "(makeBaseURL \<circ> ca_requestInfo) a = (makeBaseURL \<circ> ca_requestInfo) b"
    then have "ri_resource (ca_requestInfo a) = ri_resource (ca_requestInfo b)" using inj [OF ab(1,2)] by simp
    then show "a = b" by (rule inj_onD [OF d(2) _ ab(1,2)])
  qed
  with d(1) show ?thesis by (simp only: map_map distinct_map simp_thms)
qed

end
