(* ===== verification/Lifecycle.thy ===== *)
theory Lifecycle
  imports SnapshotFile Client Envelope SecretFile
begin

section \<open>Configuration lifecycle (\<open>pkg/api/configlifecycle.go\<close>, \<open>cmd/lifecycle\<close>)\<close>

text \<open>
  Persist, restore, snapshot download and maintenance: what a command sends, how it judges the answer from
  the body rather than from the status, and how the verdict is rendered. The network and the gateway are
  the argument \<open>gw\<close>: what a request yields.
\<close>

subsection \<open>Response documents\<close>

record restorePlanItem =
  pi_Domain :: string
  pi_ToDelete :: int
  pi_ToApply :: int

record externalDependency =
  ed_Type :: string
  ed_ID :: string
  ed_Generation :: string
  ed_Digest :: string
  ed_Required :: bool
  ed_Status :: string

record persistResult =
  pr_Result :: string
  pr_Path :: string
  pr_Checksum :: string
  pr_SchemaVersion :: string
  pr_Generation :: "int option"
  pr_IncludedDomains :: "string list"
  pr_ExcludedDomains :: "string list"
  pr_ExternalDependencies :: "externalDependency list"
  pr_Warnings :: "string list"

record restoreResult =
  rr_Mode :: string
  rr_Compatible :: "bool option"
  rr_SchemaVersion :: string
  rr_SnapshotGatewayVersion :: string
  rr_CurrentGatewayVersion :: string
  rr_Plan :: "restorePlanItem list"
  rr_Errors :: "string list"
  rr_Warnings :: "string list"
  rr_Result :: string
  rr_SnapshotGeneration :: "int option"
  rr_ExternalDependencies :: "externalDependency list"
  rr_Persisted :: "bool option"
  rr_PersistedGeneration :: "int option"
  rr_PreRestoreSnapshotPersisted :: string

record maintenanceState =
  ms_State :: string
  ms_OperationID :: string
  ms_RefusingNewConfig :: bool
  ms_RefusingNewInference :: bool
  ms_InFlightStreams :: int
  ms_EnteredAt :: string
  ms_ElapsedSeconds :: int
  ms_DrainTimeoutSeconds :: int
  ms_DrainDeadlineExceeded :: bool
  ms_Cancellable :: bool
  ms_InFlightRequests :: int

definition restorePlanItem0 :: restorePlanItem where
  "restorePlanItem0 = \<lparr>pi_Domain = [], pi_ToDelete = 0, pi_ToApply = 0\<rparr>"

definition externalDependency0 :: externalDependency where
  "externalDependency0 = \<lparr>ed_Type = [], ed_ID = [], ed_Generation = [], ed_Digest = [], ed_Required = False, ed_Status = []\<rparr>"

definition persistResult0 :: persistResult where
  "persistResult0 = \<lparr>pr_Result = [], pr_Path = [], pr_Checksum = [], pr_SchemaVersion = [], pr_Generation = None,
     pr_IncludedDomains = [], pr_ExcludedDomains = [], pr_ExternalDependencies = [], pr_Warnings = []\<rparr>"

definition restoreResult0 :: restoreResult where
  "restoreResult0 = \<lparr>rr_Mode = [], rr_Compatible = None, rr_SchemaVersion = [], rr_SnapshotGatewayVersion = [],
     rr_CurrentGatewayVersion = [], rr_Plan = [], rr_Errors = [], rr_Warnings = [], rr_Result = [], rr_SnapshotGeneration = None,
     rr_ExternalDependencies = [], rr_Persisted = None, rr_PersistedGeneration = None, rr_PreRestoreSnapshotPersisted = []\<rparr>"

definition maintenanceState0 :: maintenanceState where
  "maintenanceState0 = \<lparr>ms_State = [], ms_OperationID = [], ms_RefusingNewConfig = False, ms_RefusingNewInference = False,
     ms_InFlightStreams = 0, ms_EnteredAt = [], ms_ElapsedSeconds = 0, ms_DrainTimeoutSeconds = 0, ms_DrainDeadlineExceeded = False,
     ms_Cancellable = False, ms_InFlightRequests = 0\<rparr>"

definition restorePlanItem_fields :: "restorePlanItem field_spec list" where
  "restorePlanItem_fields =
    [fld ''domain'' pi_Domain pi_Domain_update dec_string,
     fld ''to_delete'' pi_ToDelete pi_ToDelete_update dec_int,
     fld ''to_apply'' pi_ToApply pi_ToApply_update dec_int]"

definition externalDependency_fields :: "externalDependency field_spec list" where
  "externalDependency_fields =
    [fld ''type'' ed_Type ed_Type_update dec_string,
     fld ''id'' ed_ID ed_ID_update dec_string,
     fld ''generation'' ed_Generation ed_Generation_update dec_string,
     fld ''digest'' ed_Digest ed_Digest_update dec_string,
     fld ''required'' ed_Required ed_Required_update dec_bool,
     fld ''status'' ed_Status ed_Status_update dec_string]"

definition dec_dependencies :: "externalDependency list decoder" where
  "dec_dependencies = dec_list (dec_struct False externalDependency_fields) externalDependency0"

definition persistResult_fields :: "persistResult field_spec list" where
  "persistResult_fields =
    [fld ''result'' pr_Result pr_Result_update dec_string,
     fld ''path'' pr_Path pr_Path_update dec_string,
     fld ''checksum'' pr_Checksum pr_Checksum_update dec_string,
     fld ''schema_version'' pr_SchemaVersion pr_SchemaVersion_update dec_string,
     fld ''generation'' pr_Generation pr_Generation_update (dec_ptr dec_uint64 0),
     fld ''included_domains'' pr_IncludedDomains pr_IncludedDomains_update (dec_list dec_string []),
     fld ''excluded_domains'' pr_ExcludedDomains pr_ExcludedDomains_update (dec_list dec_string []),
     fld ''external_dependencies'' pr_ExternalDependencies pr_ExternalDependencies_update dec_dependencies,
     fld ''warnings'' pr_Warnings pr_Warnings_update (dec_list dec_string [])]"

definition restoreResult_fields :: "restoreResult field_spec list" where
  "restoreResult_fields =
    [fld ''mode'' rr_Mode rr_Mode_update dec_string,
     fld ''compatible'' rr_Compatible rr_Compatible_update (dec_ptr dec_bool False),
     fld ''schema_version'' rr_SchemaVersion rr_SchemaVersion_update dec_string,
     fld ''snapshot_gateway_version'' rr_SnapshotGatewayVersion rr_SnapshotGatewayVersion_update dec_string,
     fld ''current_gateway_version'' rr_CurrentGatewayVersion rr_CurrentGatewayVersion_update dec_string,
     fld ''plan'' rr_Plan rr_Plan_update (dec_list (dec_struct False restorePlanItem_fields) restorePlanItem0),
     fld ''errors'' rr_Errors rr_Errors_update (dec_list dec_string []),
     fld ''warnings'' rr_Warnings rr_Warnings_update (dec_list dec_string []),
     fld ''result'' rr_Result rr_Result_update dec_string,
     fld ''snapshot_generation'' rr_SnapshotGeneration rr_SnapshotGeneration_update (dec_ptr dec_uint64 0),
     fld ''external_dependencies'' rr_ExternalDependencies rr_ExternalDependencies_update dec_dependencies,
     fld ''persisted'' rr_Persisted rr_Persisted_update (dec_ptr dec_bool False),
     fld ''persisted_generation'' rr_PersistedGeneration rr_PersistedGeneration_update (dec_ptr dec_uint64 0),
     fld ''pre_restore_snapshot_persisted'' rr_PreRestoreSnapshotPersisted rr_PreRestoreSnapshotPersisted_update dec_string]"

definition dec_uint32 :: "int decoder" where
  "dec_uint32 old j = (case dec_uint64 old j of Some v \<Rightarrow> if v < 2 ^ 32 then Some v else None | None \<Rightarrow> None)"

definition maintenanceState_fields :: "maintenanceState field_spec list" where
  "maintenanceState_fields =
    [fld ''state'' ms_State ms_State_update dec_string,
     fld ''operation_id'' ms_OperationID ms_OperationID_update dec_string,
     fld ''refusing_new_config'' ms_RefusingNewConfig ms_RefusingNewConfig_update dec_bool,
     fld ''refusing_new_inference'' ms_RefusingNewInference ms_RefusingNewInference_update dec_bool,
     fld ''in_flight_streams'' ms_InFlightStreams ms_InFlightStreams_update dec_int,
     fld ''entered_at'' ms_EnteredAt ms_EnteredAt_update dec_string,
     fld ''elapsed_seconds'' ms_ElapsedSeconds ms_ElapsedSeconds_update dec_int,
     fld ''drain_timeout_seconds'' ms_DrainTimeoutSeconds ms_DrainTimeoutSeconds_update dec_uint32,
     fld ''drain_deadline_exceeded'' ms_DrainDeadlineExceeded ms_DrainDeadlineExceeded_update dec_bool,
     fld ''cancellable'' ms_Cancellable ms_Cancellable_update dec_bool,
     fld ''in_flight_requests'' ms_InFlightRequests ms_InFlightRequests_update dec_int]"

subsection \<open>Verdicts\<close>

datatype lifecycleContract = ContractNone | ContractDurable | ContractLegacy

definition Dependency_String :: "externalDependency \<Rightarrow> string" where
  "Dependency_String d =
     (let name = ed_Type d @ (if ed_ID d \<noteq> [] then ''/'' @ ed_ID d else []);
          scope = (if ed_Required d then ''required'' else ''optional'');
          status = (if ed_Status d = [] then ''unreported'' else ed_Status d)
      in name @ '' ('' @ scope @ ''): '' @ status)"

text \<open>The receivers' \<open>nil\<close> is \<open>None\<close>.\<close>

definition PersistResult_Capabilities :: "persistResult option \<Rightarrow> lifecycleContract" where
  "PersistResult_Capabilities res =
     (case res of None \<Rightarrow> ContractLegacy
      | Some r \<Rightarrow> if pr_SchemaVersion r \<noteq> [] \<and> pr_Generation r \<noteq> None then ContractDurable else ContractLegacy)"

definition RestoreResult_Capabilities :: "restoreResult option \<Rightarrow> lifecycleContract" where
  "RestoreResult_Capabilities res =
     (case res of None \<Rightarrow> ContractLegacy
      | Some r \<Rightarrow>
          if rr_Mode r = ''commit'' \<and> rr_Result r = ''ok'' then
            (if rr_Persisted r = None then ContractLegacy else ContractDurable)
          else if rr_SchemaVersion r \<noteq> [] \<and> rr_Compatible r \<noteq> None then ContractDurable
          else ContractLegacy)"

definition decode_failed :: "msg \<Rightarrow> bytes \<Rightarrow> lifecycleError" where
  "decode_failed m body = LifecycleError0\<lparr>le_Reason := ''decode-failed'', le_Message := m, le_Body := body\<rparr>"

definition unmarshal :: "'r field_spec list \<Rightarrow> 'r \<Rightarrow> bytes \<Rightarrow> 'r option" where
  "unmarshal fs zero body = Option.bind (parse_json body) (dec_struct False fs zero)"

definition DecodePersistResult :: "bytes \<Rightarrow> lifecycleError + persistResult" where
  "DecodePersistResult body =
     (case unmarshal persistResult_fields persistResult0 body of
        None \<Rightarrow> Inl (decode_failed (Sprintf ''cannot decode persist response: %v'' [AErr ''encoding/json'']) body)
      | Some res \<Rightarrow> Inr res)"

definition DecodeRestoreResult :: "bytes \<Rightarrow> lifecycleError + restoreResult" where
  "DecodeRestoreResult body =
     (case unmarshal restoreResult_fields restoreResult0 body of
        None \<Rightarrow> Inl (decode_failed (Sprintf ''cannot decode restore response: %v'' [AErr ''encoding/json'']) body)
      | Some res \<Rightarrow> Inr res)"

definition not_ok_message :: "string \<Rightarrow> string \<Rightarrow> msg" where
  "not_ok_message result absent =
     (if result = [] then Text absent else Sprintf ''gateway reported result %q, want %q'' [AStr result, AStr ''ok''])"

definition PersistResult_Verdict :: "persistResult option \<Rightarrow> bool \<Rightarrow> lifecycleError option" where
  "PersistResult_Verdict res strict =
     (case res of
        None \<Rightarrow> Some (lifecycle_failure ''decode-failed'' (Text ''empty persist response''))
      | Some r \<Rightarrow>
          if pr_Result r \<noteq> ''ok'' then
            Some (lifecycle_failure ''result-not-ok'' (not_ok_message (pr_Result r) ''gateway response carries no result field''))
          else if strict \<and> PersistResult_Capabilities res = ContractLegacy then
            Some (lifecycle_failure ''contract-legacy''
              (Text ''gateway did not report the persisted document's schema version and generation (--strict requires the durable-persist contract)''))
          else if strict \<and> (pr_Path r = [] \<or> pr_Checksum r = []) then
            Some (lifecycle_failure ''contract-legacy''
              (Text ''gateway did not report the persisted document's path and checksum (--strict requires them)''))
          else None)"

definition FailedDependencies :: "restoreResult \<Rightarrow> string list" where
  "FailedDependencies r = map Dependency_String (filter (\<lambda>d. ed_Status d = ''failed'') (rr_ExternalDependencies r))"

definition joinDetail :: "string list \<Rightarrow> string" where
  "joinDetail detail = (if detail = [] then [] else '': '' @ join ''; '' detail)"

definition with_detail :: "string \<Rightarrow> restoreResult \<Rightarrow> msg" where
  "with_detail s r = Text (s @ joinDetail (rr_Errors r))"

definition RestoreResult_Verdict :: "restoreResult option \<Rightarrow> bool \<Rightarrow> lifecycleError option" where
  "RestoreResult_Verdict res strict =
     (case res of
        None \<Rightarrow> Some (lifecycle_failure ''decode-failed'' (Text ''empty restore response''))
      | Some r \<Rightarrow>
          if FailedDependencies r \<noteq> [] then
            Some (lifecycle_failure ''dependency-failed''
              (with_detail (''restore refused: '' @ join ''; '' (FailedDependencies r)) r))
          else if rr_Compatible r = Some False then
            Some (lifecycle_failure ''incompatible-snapshot'' (with_detail ''snapshot is not compatible with this gateway'' r))
          else if rr_Result r = ''ROLLBACK-FAILED'' then
            Some (lifecycle_failure ''rollback-failed'' (with_detail
              ''restore failed AND its rollback failed - the gateway's running configuration is not the pre-restore configuration'' r))
          else if rr_Result r = ''rolled-back'' then
            Some (lifecycle_failure ''rolled-back'' (with_detail ''restore failed and was rolled back'' r))
          else if rr_Mode r = ''commit'' \<and> rr_Result r \<noteq> ''ok'' then
            Some (lifecycle_failure ''result-not-ok'' (not_ok_message (rr_Result r) ''committed restore carries no result field''))
          else if rr_Mode r = ''commit'' \<and> rr_Persisted r = Some False then
            Some (lifecycle_failure ''not-persisted'' (with_detail
              ''restore applied but was NOT persisted - the restored configuration will not survive a restart until a persist succeeds'' r))
          else if rr_Errors r \<noteq> [] then
            Some (lifecycle_failure ''validation-failed'' (with_detail ''restore reported errors'' r))
          else if strict \<and> RestoreResult_Capabilities res = ContractLegacy then
            Some (lifecycle_failure ''contract-legacy'' (Text (''gateway did not report ''
              @ (if rr_Mode r = ''commit'' then ''the write-through disposition (persisted)''
                 else ''the document identity (schema version, compatibility)'')
              @ '' (--strict requires the durable-persist contract)'')))
          else None)"

subsection \<open>Reports\<close>

record lifecycleNote =
  nt_Code :: string
  nt_Message :: string

record logArchiveFileResult =
  lf_Name :: string
  lf_Path :: string
  lf_Bytes :: int

record lifecycleReport =
  lr_Contract :: lifecycleContract
  lr_Notes :: "lifecycleNote list"
  lr_Persist :: "persistResult option"
  lr_Restore :: "restoreResult option"
  lr_Snapshot :: "snapshotFileResult option"
  lr_Maintenance :: "maintenanceState option"
  lr_Archive :: "logArchiveFileResult option"
  lr_Origin :: "string option"
  lr_HTTPStatus :: "int option"
  lr_ComponentCode :: "string option"

definition lifecycleReport0 :: lifecycleReport where
  "lifecycleReport0 = \<lparr>lr_Contract = ContractNone, lr_Notes = [], lr_Persist = None, lr_Restore = None, lr_Snapshot = None,
     lr_Maintenance = None, lr_Archive = None, lr_Origin = None, lr_HTTPStatus = None, lr_ComponentCode = None\<rparr>"

definition legacyContractNote :: lifecycleNote where
  "legacyContractNote = \<lparr>nt_Code = ''CONTRACT_LEGACY'', nt_Message =
     ''this gateway answers with the older response contract; the document's identity and coverage were not reported and are not claimed here''\<rparr>"

definition uncheckedDocumentNote :: lifecycleNote where
  "uncheckedDocumentNote = \<lparr>nt_Code = ''UNCHECKED_DOCUMENT'', nt_Message =
     ''this document carries no checksum, so its integrity was not verified''\<rparr>"

definition noteLegacy :: "lifecycleReport \<Rightarrow> lifecycleNote \<Rightarrow> lifecycleReport" where
  "noteLegacy report n =
     (if lr_Contract report = ContractLegacy then report\<lparr>lr_Notes := lr_Notes report @ [n]\<rparr> else report)"

definition writeNotes :: "lifecycleReport \<Rightarrow> msg list" where
  "writeNotes report = map (\<lambda>n. Sprintf ''  Note: %s'' [AStr (nt_Message n)]) (lr_Notes report)"

definition envelopeFor :: "string \<Rightarrow> lifecycleReport \<Rightarrow> goerr option \<Rightarrow> lifecycleReport commandResult" where
  "envelopeFor command report err =
     (let result0 = envelope_New lifecycleReport0 command;
          result1 = (case lr_Maintenance report of None \<Rightarrow> result0 | Some st \<Rightarrow> result0\<lparr>cr_CorrelationID := ms_OperationID st\<rparr>);
          result2 = result1\<lparr>cr_Warnings := map_option (\<lambda>ws. ws @ map (\<lambda>n. \<lparr>w_Code = nt_Code n, w_Message = nt_Message n\<rparr>)
                      (lr_Notes report)) (cr_Warnings result1)\<rparr> in
      case err of
        None \<Rightarrow> result2\<lparr>cr_Data := Some report\<rparr>
      | Some e \<Rightarrow>
          (let ce = Classify e in
           (envelope_Fail result2 (Label (ce_Code ce)) (ce_Message ce))\<lparr>cr_Data := Some (report\<lparr>
              lr_Origin := Some (if ce_Origin ce = [] then ''cli'' else ce_Origin ce),
              lr_HTTPStatus := Some (ce_HTTPStatus ce), lr_ComponentCode := Some (ce_ComponentCode ce)\<rparr>)\<rparr>))"

text \<open>
  A command's run: what it wrote, and its error. Prose is the list of the formatted writes, their final line feeds left out; \<open>out\<close> is what a
  write to standard output answers.
\<close>

datatype lifecycle_output = LEnvelope "lifecycleReport commandResult" | LProse "msg list" | LDocument bytes

record lifecycle_run =
  lc_out :: "lifecycle_output list"
  lc_err :: "goerr option"

definition lifecycle_render ::
  "goerr option \<Rightarrow> bool \<Rightarrow> string \<Rightarrow> lifecycleReport \<Rightarrow> (lifecycleReport \<Rightarrow> msg list) \<Rightarrow> lifecycleError option \<Rightarrow> lifecycle_run" where
  "lifecycle_render out json command report human err =
     (let e = map_option ELifecycle err in
      if json then
        \<lparr>lc_out = [LEnvelope (envelope_Write lifecycleReport0 (envelopeFor command report e))],
         lc_err = (if e = None then out else e)\<rparr>
      else if e \<noteq> None then \<lparr>lc_out = [], lc_err = e\<rparr>
      else \<lparr>lc_out = [LProse (human report)], lc_err = None\<rparr>)"

definition WriteFailure :: "string \<Rightarrow> goerr \<Rightarrow> lifecycle_output" where
  "WriteFailure command err = LEnvelope (envelope_Write lifecycleReport0 (envelopeFor command lifecycleReport0 (Some err)))"

subsection \<open>Requests\<close>

text \<open>The body of an answer: whole, or broken off after some bytes.\<close>

datatype http_body = Whole bytes | Torn bytes

datatype http_result = NoResponse | Response int headers http_body

type_synonym gateway = "http_request \<Rightarrow> http_result"

definition send :: "gateway \<Rightarrow> http_request option \<Rightarrow> http_result" where
  "send gw req = (case req of None \<Rightarrow> NoResponse | Some r \<Rightarrow> gw r)"

definition transportError :: "string \<Rightarrow> lifecycleError" where
  "transportError what = lifecycle_failure ''request-failed'' (Sprintf ''%s: %v'' [AStr what, AErr ''net/http''])"

definition readBody :: "http_body \<Rightarrow> string \<Rightarrow> lifecycleError + bytes" where
  "readBody body what =
     (case body of Torn b \<Rightarrow> Inl (transportError (''cannot read the '' @ what @ '' response'')) | Whole b \<Rightarrow> Inr b)"

subsection \<open>Persist\<close>

text \<open>\<open>Create(ctx, nil)\<close> marshals \<open>nil\<close> to \<open>null\<close>.\<close>

definition doPersist ::
  "(string \<Rightarrow> bool) \<Rightarrow> gateway \<Rightarrow> restOptions \<Rightarrow> bool \<Rightarrow> persistResult option \<times> lifecycleError option" where
  "doPersist url_ok gw o' strict =
     (case send gw (api_Create url_ok (Some ''null'') (LoxiClient_Persist o')) of
        NoResponse \<Rightarrow> (None, Some (transportError ''persist request failed''))
      | Response status hs raw \<Rightarrow>
          (case readBody raw ''persist'' of
             Inl e \<Rightarrow> (None, Some e)
           | Inr body \<Rightarrow>
               if status \<noteq> 200 then (None, Some (NewStatusError status body))
               else (case DecodePersistResult body of
                       Inl e \<Rightarrow> (None, Some e)
                     | Inr result \<Rightarrow> (Some result, PersistResult_Verdict (Some result) strict))))"

definition orUnreported :: "string \<Rightarrow> string" where
  "orUnreported s = (if s = [] then ''unreported'' else s)"

definition humanPersist :: "lifecycleReport \<Rightarrow> msg list" where
  "humanPersist report =
     (case lr_Persist report of
        None \<Rightarrow> [Text ''Configuration persisted.'']
      | Some res \<Rightarrow>
          (if pr_Path res \<noteq> [] then
             [Sprintf ''Configuration persisted to %s'' [AStr (pr_Path res)]]
             @ (if pr_Checksum res \<noteq> [] then [Sprintf '' (checksum %s)'' [AStr (pr_Checksum res)]] else [])
             @ [Text ''.'']
           else [Text ''Configuration persisted.''])
          @ (if pr_SchemaVersion res \<noteq> [] \<or> pr_Generation res \<noteq> None then
               [Sprintf ''  Document: schema %s'' [AStr (orUnreported (pr_SchemaVersion res))]]
               @ (case pr_Generation res of None \<Rightarrow> [] | Some g \<Rightarrow> [Sprintf '', generation %d'' [AInt g]]) @ [Text []]
             else [])
          @ (if pr_IncludedDomains res \<noteq> [] then [Sprintf ''  Captured: %s'' [AStr (join '', '' (pr_IncludedDomains res))]] else [])
          @ (if pr_ExcludedDomains res \<noteq> [] then [Sprintf ''  Not captured: %s'' [AStr (join '', '' (pr_ExcludedDomains res))]] else [])
          @ map (\<lambda>dep. Sprintf ''  Depends on: %s'' [AStr (Dependency_String dep)]) (pr_ExternalDependencies res)
          @ map (\<lambda>w. Sprintf ''  Warning: %s'' [AStr w]) (pr_Warnings res)
          @ writeNotes report)"

definition lifecycle_Persist ::
  "(string \<Rightarrow> bool) \<Rightarrow> gateway \<Rightarrow> goerr option \<Rightarrow> restOptions \<Rightarrow> bool \<Rightarrow> bool \<Rightarrow> string \<Rightarrow> lifecycle_run" where
  "lifecycle_Persist url_ok gw out o' json strict command =
     (case doPersist url_ok gw o' strict of
        (result, err) \<Rightarrow>
          (let report0 = lifecycleReport0\<lparr>lr_Persist := result\<rparr>;
               report = (if result = None then report0
                         else noteLegacy (report0\<lparr>lr_Contract := PersistResult_Capabilities result\<rparr>) legacyContractNote)
           in lifecycle_render out json command report humanPersist err))"

subsection \<open>Restore\<close>

text \<open>
  \<open>json.Marshal\<close> of a \<open>json.RawMessage\<close> that is valid: white space outside strings goes, and inside strings
  the characters HTML gives a meaning, and the two line separators of JavaScript, are escaped.
\<close>

definition html_escape :: "char \<Rightarrow> string" where
  "html_escape c = [backslash] @ ''u00'' @ [hex_digit (byte c div 16), hex_digit (byte c mod 16)]"

fun compact_json :: "bool \<Rightarrow> bytes \<Rightarrow> bytes" where
  "compact_json in_string [] = []"
| "compact_json True (c # cs) =
     (if c = quote_char then c # compact_json False cs
      else if c = backslash then (case cs of [] \<Rightarrow> [c] | d # ds \<Rightarrow> c # d # compact_json True ds)
      else if c \<in> set ''<>&'' then html_escape c @ compact_json True cs
      else if has_prefix [CHR 0xE2, CHR 0x80, CHR 0xA8] (c # cs) then ([backslash] @ ''u2028'') @ compact_json True (drop 2 cs)
      else if has_prefix [CHR 0xE2, CHR 0x80, CHR 0xA9] (c # cs) then ([backslash] @ ''u2029'') @ compact_json True (drop 2 cs)
      else c # compact_json True cs)"
| "compact_json False (c # cs) =
     (if is_json_space c then compact_json False cs else if c = quote_char then c # compact_json True cs else c # compact_json False cs)"

record restoreOptions =
  rp_File :: string
  rp_Commit :: bool
  rp_Components :: string

definition looksLikeRestoreResult :: "restoreResult \<Rightarrow> bool" where
  "looksLikeRestoreResult r \<longleftrightarrow> rr_Mode r \<noteq> [] \<or> rr_Result r \<noteq> [] \<or> rr_SchemaVersion r \<noteq> []
     \<or> rr_Compatible r \<noteq> None \<or> rr_Plan r \<noteq> [] \<or> rr_Errors r \<noteq> []"

definition restore_mode :: "restoreOptions \<Rightarrow> string" where
  "restore_mode ro = (if rp_Commit ro then ''commit'' else ''dry-run'')"

definition restore_request :: "(string \<Rightarrow> bool) \<Rightarrow> restOptions \<Rightarrow> restoreOptions \<Rightarrow> bytes \<Rightarrow> http_request option" where
  "restore_request url_ok o' ro data =
     api_Create url_ok (Some (compact_json False data))
       (api_Query ((''mode'', restore_mode ro) # (if rp_Components ro \<noteq> [] then [(''components'', rp_Components ro)] else []))
          (LoxiClient_Restore o'))"

text \<open>How the answer is judged.\<close>

definition judge_restore :: "string \<Rightarrow> bool \<Rightarrow> int \<Rightarrow> bytes \<Rightarrow> restoreResult option \<times> lifecycleError option" where
  "judge_restore mode strict status body =
     (let decoded = DecodeRestoreResult body in
      case decoded of
        Inr result \<Rightarrow>
          if looksLikeRestoreResult result then
            (let result' = (if rr_Mode result = [] then result\<lparr>rr_Mode := mode\<rparr> else result) in
             case RestoreResult_Verdict (Some result') strict of
               None \<Rightarrow> (Some result', if status div 100 \<noteq> 2 then Some (NewStatusError status body) else None)
             | Some le \<Rightarrow> (Some result', Some (if le_HTTPStatus le = 0 then le\<lparr>le_HTTPStatus := status\<rparr> else le)))
          else if status div 100 \<noteq> 2 then (None, Some (NewStatusError status body))
          else (None, Some (decode_failed (Text ''gateway returned a body that is not a restore result'') body))
      | Inl e \<Rightarrow> (None, Some (if status div 100 \<noteq> 2 then NewStatusError status body else e)))"

definition doRestore ::
  "(string \<Rightarrow> bool) \<Rightarrow> gateway \<Rightarrow> file_system \<Rightarrow> restOptions \<Rightarrow> bool \<Rightarrow> restoreOptions \<Rightarrow> restoreResult option \<times> lifecycleError option" where
  "doRestore url_ok gw fs o' strict ro =
     (if rp_File ro = [] then
        (None, Some (lifecycle_failure ''invalid-arguments'' (Text ''-f/--file is required (the snapshot document to restore)'')))
      else case fs_ReadFile fs (rp_File ro) of
        None \<Rightarrow> (None, Some (lifecycle_failure ''file-read-failed'' (Sprintf ''cannot read the snapshot document: %v'' [AErr ''os''])))
      | Some data \<Rightarrow>
          if parse_json data = None then
            (None, Some (lifecycle_failure ''invalid-json'' (Sprintf ''%s is not valid JSON'' [AStr (rp_File ro)])))
          else (case send gw (restore_request url_ok o' ro data) of
             NoResponse \<Rightarrow> (None, Some (transportError ''restore request failed''))
           | Response status hs raw \<Rightarrow>
               (case readBody raw ''restore'' of
                  Inl e \<Rightarrow> (None, Some e)
                | Inr body \<Rightarrow> judge_restore (restore_mode ro) strict status body)))"

definition humanRestore :: "lifecycleReport \<Rightarrow> msg list" where
  "humanRestore report =
     (case lr_Restore report of
        None \<Rightarrow> [Text ''Restore completed.'']
      | Some res \<Rightarrow>
          [if rr_Mode res = ''commit'' then Text ''Restore committed.'' else Text ''Restore dry-run: nothing was changed.'']
          @ (if rr_SchemaVersion res \<noteq> [] then
               [Sprintf ''  Document: schema %s'' [AStr (rr_SchemaVersion res)]]
               @ (case rr_SnapshotGeneration res of None \<Rightarrow> [] | Some g \<Rightarrow> [Sprintf '', generation %d'' [AInt g]])
               @ (if rr_SnapshotGatewayVersion res \<noteq> [] then [Sprintf '', written by %s'' [AStr (rr_SnapshotGatewayVersion res)]] else [])
               @ [Text []]
             else [])
          @ map (\<lambda>i. Sprintf ''  Plan %-24s delete %d, apply %d'' [AStr (pi_Domain i), AInt (pi_ToDelete i), AInt (pi_ToApply i)]) (rr_Plan res)
          @ map (\<lambda>dep. Sprintf ''  Depends on: %s'' [AStr (Dependency_String dep)]) (rr_ExternalDependencies res)
          @ map (\<lambda>w. Sprintf ''  Warning: %s'' [AStr w]) (rr_Warnings res)
          @ (if rr_Mode res = ''commit'' then
               (if rr_Persisted res = Some True then
                  [Text ''  Persisted: yes'']
                  @ (case rr_PersistedGeneration res of None \<Rightarrow> [] | Some g \<Rightarrow> [Sprintf '' (generation %d)'' [AInt g]]) @ [Text []]
                else [])
               @ (if rr_PreRestoreSnapshotPersisted res \<noteq> [] then
                    [Sprintf ''  Pre-restore snapshot: %s'' [AStr (rr_PreRestoreSnapshotPersisted res)]] else [])
             else [])
          @ writeNotes report)"

definition lifecycle_Restore ::
  "(string \<Rightarrow> bool) \<Rightarrow> gateway \<Rightarrow> file_system \<Rightarrow> goerr option \<Rightarrow> restOptions \<Rightarrow> bool \<Rightarrow> bool \<Rightarrow> restoreOptions \<Rightarrow> lifecycle_run" where
  "lifecycle_Restore url_ok gw fs out o' json strict ro =
     (case doRestore url_ok gw fs o' strict ro of
        (result, err) \<Rightarrow>
          (let report0 = lifecycleReport0\<lparr>lr_Restore := result\<rparr>;
               report = (if result = None then report0
                         else noteLegacy (report0\<lparr>lr_Contract := RestoreResult_Capabilities result\<rparr>) legacyContractNote)
           in lifecycle_render out json ''create.restore'' report humanRestore err))"

subsection \<open>Snapshot download\<close>

record snapshotOptions =
  so_Components :: string
  so_File :: string

definition snapshotChecksumHeader :: string where "snapshotChecksumHeader = ''X-Snapshot-Checksum''"

definition header_get :: "headers \<Rightarrow> string \<Rightarrow> string" where
  "header_get hs k = (case map_of hs k of None \<Rightarrow> [] | Some v \<Rightarrow> v)"

definition WriteSnapshotFile :: "write_env \<Rightarrow> string \<Rightarrow> bytes \<Rightarrow> disk \<Rightarrow> lifecycleError option \<times> disk list" where
  "WriteSnapshotFile w path data d0 =
     (case WriteFileAtomic w path \<lparr>rd_data = data, rd_err = False\<rparr> d0 of
        (Inl e, trace) \<Rightarrow> (Some e, trace)
      | (Inr n, trace) \<Rightarrow> (None, trace))"

definition snapshot_request :: "(string \<Rightarrow> bool) \<Rightarrow> restOptions \<Rightarrow> snapshotOptions \<Rightarrow> http_request option" where
  "snapshot_request url_ok o' so =
     api_Get url_ok (if so_Components so \<noteq> [] then api_Query [(''components'', so_Components so)] (LoxiClient_Snapshot o')
                     else LoxiClient_Snapshot o')"

text \<open>What is done with the answer: nothing durable before the checksum is verified.\<close>

definition store_snapshot ::
  "write_env \<Rightarrow> bool \<Rightarrow> snapshotOptions \<Rightarrow> int \<Rightarrow> headers \<Rightarrow> bytes \<Rightarrow> disk
     \<Rightarrow> (bytes option \<times> snapshotFileResult option \<times> lifecycleError option) \<times> disk list" where
  "store_snapshot w strict so status hs body d0 =
     (if status \<noteq> 200 then ((None, None, Some (NewStatusError status body)), [d0])
      else case VerifySnapshotChecksum body (header_get hs snapshotChecksumHeader) of
        Inl e \<Rightarrow> ((None, None, Some e), [d0])
      | Inr (document, result) \<Rightarrow>
          if strict \<and> \<not> sf_ChecksumVerified result then
            ((None, Some result, Some (lifecycle_failure ''contract-legacy''
               (Text ''gateway returned a snapshot document without a checksum, so its integrity cannot be verified (--strict requires one)''))), [d0])
          else if so_File so \<noteq> [] then
            (case WriteSnapshotFile w (so_File so) document d0 of
               (Some e, trace) \<Rightarrow> ((None, Some result, Some e), trace)
             | (None, trace) \<Rightarrow> ((Some document, Some (result\<lparr>sf_Path := so_File so\<rparr>), None), trace))
          else ((Some document, Some result, None), [d0]))"

definition doSnapshot ::
  "(string \<Rightarrow> bool) \<Rightarrow> gateway \<Rightarrow> write_env \<Rightarrow> restOptions \<Rightarrow> bool \<Rightarrow> snapshotOptions \<Rightarrow> disk
     \<Rightarrow> (bytes option \<times> snapshotFileResult option \<times> lifecycleError option) \<times> disk list" where
  "doSnapshot url_ok gw w o' strict so d0 =
     (case send gw (snapshot_request url_ok o' so) of
        NoResponse \<Rightarrow> ((None, None, Some (transportError ''snapshot request failed'')), [d0])
      | Response status hs raw \<Rightarrow>
          (case readBody raw ''snapshot'' of
             Inl e \<Rightarrow> ((None, None, Some e), [d0])
           | Inr body \<Rightarrow> store_snapshot w strict so status hs body d0))"

definition humanSnapshot :: "lifecycleReport \<Rightarrow> msg list" where
  "humanSnapshot report =
     (case lr_Snapshot report of
        None \<Rightarrow> []
      | Some res \<Rightarrow>
          (if sf_Path res \<noteq> [] then [Sprintf ''Snapshot written to %s (%d bytes).'' [AStr (sf_Path res), AInt (sf_Bytes res)]]
           else [Sprintf ''Snapshot downloaded (%d bytes).'' [AInt (sf_Bytes res)]])
          @ (if sf_SchemaVersion res \<noteq> [] then
               [Sprintf ''  Document: schema %s'' [AStr (sf_SchemaVersion res)]]
               @ (if sf_Generation res \<noteq> 0 then [Sprintf '', generation %d'' [AInt (sf_Generation res)]] else []) @ [Text []]
             else [])
          @ (if sf_ChecksumVerified res then [Sprintf ''  Checksum verified: %s'' [AStr (sf_Checksum res)]] else [])
          @ writeNotes report)"

definition lifecycle_Snapshot ::
  "(string \<Rightarrow> bool) \<Rightarrow> gateway \<Rightarrow> write_env \<Rightarrow> goerr option \<Rightarrow> restOptions \<Rightarrow> bool \<Rightarrow> bool \<Rightarrow> snapshotOptions \<Rightarrow> disk
     \<Rightarrow> lifecycle_run \<times> disk list" where
  "lifecycle_Snapshot url_ok gw w out o' json strict so d0 =
     (case doSnapshot url_ok gw w o' strict so d0 of
        ((document, result, err), trace) \<Rightarrow>
          (let report0 = lifecycleReport0\<lparr>lr_Snapshot := result\<rparr>;
               report = (case result of
                   None \<Rightarrow> report0
                 | Some r \<Rightarrow> noteLegacy (report0\<lparr>lr_Contract := (if sf_ChecksumVerified r then ContractDurable else ContractLegacy)\<rparr>)
                     uncheckedDocumentNote) in
           (if err \<noteq> None then lifecycle_render out json ''get.snapshot'' report humanSnapshot err
            else if so_File so = [] \<and> \<not> json then
              \<lparr>lc_out = [LDocument ((case document of None \<Rightarrow> [] | Some b \<Rightarrow> b) @ [CHR 0x0A])], lc_err = out\<rparr>
            else lifecycle_render out json ''get.snapshot'' report humanSnapshot None,
            trace)))"

subsection \<open>Maintenance\<close>

record maintenanceSetOptions =
  mo_Enable :: bool
  mo_DrainTimeoutSeconds :: "32 word"

text \<open>\<open>json.Marshal\<close> of the \<open>MaintenanceRequest\<close>: a zero drain window is omitted.\<close>

definition maintenance_body :: "maintenanceSetOptions \<Rightarrow> bytes" where
  "maintenance_body so =
     ''{'' @ [quote_char] @ ''enabled'' @ [quote_char] @ '':'' @ (if mo_Enable so then ''true'' else ''false'')
     @ (if mo_DrainTimeoutSeconds so \<noteq> 0 then
          '','' @ [quote_char] @ ''drain_timeout_seconds'' @ [quote_char] @ '':'' @ show_nat (unat (mo_DrainTimeoutSeconds so)) else [])
     @ ''}''"

definition decodeMaintenance :: "int \<Rightarrow> http_body \<Rightarrow> lifecycleError + maintenanceState" where
  "decodeMaintenance status raw =
     (case readBody raw ''maintenance'' of
        Inl e \<Rightarrow> Inl e
      | Inr body \<Rightarrow>
          if status \<noteq> 200 then Inl (NewStatusError status body)
          else (case unmarshal maintenanceState_fields maintenanceState0 body of
             None \<Rightarrow> Inl (decode_failed (Text ''the gateway's maintenance response could not be decoded'') body)
           | Some state \<Rightarrow>
               if ms_State state = [] then Inl (decode_failed (Text ''the gateway's maintenance response could not be decoded'') body)
               else Inr state))"

definition doMaintenanceGet :: "(string \<Rightarrow> bool) \<Rightarrow> gateway \<Rightarrow> restOptions \<Rightarrow> lifecycleError + maintenanceState" where
  "doMaintenanceGet url_ok gw o' =
     (case send gw (api_Get url_ok (LoxiClient_Maintenance o')) of
        NoResponse \<Rightarrow> Inl (transportError ''maintenance request failed'')
      | Response status hs raw \<Rightarrow> decodeMaintenance status raw)"

definition doMaintenanceSet ::
  "(string \<Rightarrow> bool) \<Rightarrow> gateway \<Rightarrow> restOptions \<Rightarrow> maintenanceSetOptions \<Rightarrow> lifecycleError + maintenanceState" where
  "doMaintenanceSet url_ok gw o' so =
     (case send gw (api_Put url_ok (Some (maintenance_body so)) (LoxiClient_Maintenance o')) of
        NoResponse \<Rightarrow> Inl (lifecycle_failure ''recovery-required'' (Sprintf
          (''the maintenance change could not be confirmed and may or may not have been applied: %v; ''
            @ ''verify the actual state with 'loxicmd get maintenance' before acting on it'') [AErr ''net/http'']))
      | Response status hs raw \<Rightarrow> decodeMaintenance status raw)"

definition humanMaintenance :: "lifecycleReport \<Rightarrow> msg list" where
  "humanMaintenance report =
     (case lr_Maintenance report of
        None \<Rightarrow> []
      | Some st \<Rightarrow>
          [Sprintf ''Maintenance: %s'' [AStr (ms_State st)]]
          @ (if ms_OperationID st \<noteq> [] then [Sprintf ''  Operation: %s'' [AStr (ms_OperationID st)]] else [])
          @ [Sprintf ''  Refusing new config: %v'' [AStr (if ms_RefusingNewConfig st then ''true'' else ''false'')],
             Sprintf ''  Refusing new inference: %v'' [AStr (if ms_RefusingNewInference st then ''true'' else ''false'')],
             Sprintf ''  In-flight streams: %d'' [AInt (ms_InFlightStreams st)],
             Sprintf ''  In-flight inference requests: %d'' [AInt (ms_InFlightRequests st)]]
          @ (if ms_State st = ''maintenance'' then
               (if ms_DrainTimeoutSeconds st > 0 then
                  [Sprintf ''  Elapsed: %ds of a %ds drain window'' [AInt (ms_ElapsedSeconds st), AInt (ms_DrainTimeoutSeconds st)]]
                  @ (if ms_DrainDeadlineExceeded st then
                       [Text ''  Drain window EXCEEDED - the gateway stays in maintenance until told otherwise''] else [])
                else [Sprintf ''  Elapsed: %ds (no drain window declared)'' [AInt (ms_ElapsedSeconds st)]])
               @ (if ms_EnteredAt st \<noteq> [] then [Sprintf ''  Entered at: %s'' [AStr (ms_EnteredAt st)]] else [])
             else [])
          @ writeNotes report)"

definition maintenance_run :: "goerr option \<Rightarrow> bool \<Rightarrow> string \<Rightarrow> lifecycleError + maintenanceState \<Rightarrow> lifecycle_run" where
  "maintenance_run out json command outcome =
     (case outcome of
        Inl e \<Rightarrow> lifecycle_render out json command lifecycleReport0 humanMaintenance (Some e)
      | Inr state \<Rightarrow> lifecycle_render out json command (lifecycleReport0\<lparr>lr_Maintenance := Some state\<rparr>) humanMaintenance None)"

definition MaintenanceGet :: "(string \<Rightarrow> bool) \<Rightarrow> gateway \<Rightarrow> goerr option \<Rightarrow> restOptions \<Rightarrow> bool \<Rightarrow> lifecycle_run" where
  "MaintenanceGet url_ok gw out o' json = maintenance_run out json ''get.maintenance'' (doMaintenanceGet url_ok gw o')"

definition MaintenanceSet ::
  "(string \<Rightarrow> bool) \<Rightarrow> gateway \<Rightarrow> goerr option \<Rightarrow> restOptions \<Rightarrow> bool \<Rightarrow> maintenanceSetOptions \<Rightarrow> lifecycle_run" where
  "MaintenanceSet url_ok gw out o' json so =
     maintenance_run out json (if mo_Enable so then ''set.maintenance.on'' else ''set.maintenance.off'') (doMaintenanceSet url_ok gw o' so)"

subsection \<open>Verdicts and reports\<close>

text \<open>The reasons a lifecycle operation ends with, all of which have a row.\<close>

lemma lifecycle_failure_simps [simp]:
  "le_Reason (lifecycle_failure r m) = r" "le_HTTPStatus (lifecycle_failure r m) = 0"
  "le_Reason (decode_failed m b) = ''decode-failed''" "le_Reason (NewStatusError s b) = reasonForStatus s"
  "le_Reason (transportError w) = ''request-failed''"
  by (simp_all add: lifecycle_failure_def LifecycleError0_def decode_failed_def NewStatusError_def transportError_def)

lemma restore_committed_durable:
  assumes "RestoreResult_Verdict (Some r) strict = None" "rr_Mode r = ''commit''"
  shows "rr_Result r = ''ok'' \<and> rr_Persisted r \<noteq> Some False \<and> rr_Compatible r \<noteq> Some False \<and> rr_Errors r = []
    \<and> (\<forall>d\<in>set (rr_ExternalDependencies r). ed_Status d \<noteq> ''failed'') \<and> (strict \<longrightarrow> rr_Persisted r = Some True)"
  using assms
  by (auto simp: RestoreResult_Verdict_def FailedDependencies_def filter_empty_conv RestoreResult_Capabilities_def split: if_splits)

lemma judge_restore_success:
  assumes "judge_restore mode strict status body = (Some r, None)"
  shows "status div 100 = 2 \<and> RestoreResult_Verdict (Some r) strict = None"
  using assms by (auto simp: judge_restore_def Let_def split: sum.splits if_splits option.splits)

lemma judge_restore_error: "judge_restore mode strict status body = (None, err) \<Longrightarrow> err \<noteq> None"
  by (auto simp: judge_restore_def Let_def split: sum.splits if_splits option.splits)

lemma judge_restore_decoded:
  assumes "judge_restore mode strict status body = (Some r, err)"
  shows "\<exists>a. DecodeRestoreResult body = Inr a \<and> looksLikeRestoreResult a \<and> r = (if rr_Mode a = [] then a\<lparr>rr_Mode := mode\<rparr> else a)"
  using assms by (auto simp: judge_restore_def Let_def split: sum.splits if_splits option.splits)

lemma doRestore_success:
  assumes "doRestore url_ok gw fs o' strict ro = (res, None)"
  shows "\<exists>r data status hs body. res = Some r \<and> fs_ReadFile fs (rp_File ro) = Some data
    \<and> send gw (restore_request url_ok o' ro data) = Response status hs (Whole body)
    \<and> judge_restore (restore_mode ro) strict status body = (Some r, None)"
proof -
  obtain data status hs body where d: "fs_ReadFile fs (rp_File ro) = Some data"
      "send gw (restore_request url_ok o' ro data) = Response status hs (Whole body)"
    and j: "judge_restore (restore_mode ro) strict status body = (res, None)"
    using assms by (auto simp: doRestore_def readBody_def split: if_splits option.splits http_result.splits http_body.splits sum.splits)
  from j obtain r where "res = Some r" by (cases res) (auto dest: judge_restore_error)
  with d j show ?thesis by blast
qed

text \<open>Every lifecycle command under JSON speaks through one envelope that agrees with its error.\<close>

lemma reasons_classified: "ce_Code (Classify (ELifecycle le)) \<in> set taxonomy"
  by (rule Classify_taxonomy) simp

lemma render_json:
  assumes "r = lifecycle_render None True command report human err"
  shows "\<exists>e. lc_out r = [LEnvelope e] \<and> envelope_ok e \<and> cr_Command e = command
    \<and> cr_Code e = (case err of None \<Rightarrow> ''OK'' | Some le \<Rightarrow> Label (ce_Code (Classify (ELifecycle le))))
    \<and> lc_err r = map_option ELifecycle err
    \<and> ExitCode (cr_Code e) = xs_status (exitPoint (lc_err r))"
proof (cases err)
  case None
  with assms show ?thesis
    by (auto simp: lifecycle_render_def envelopeFor_def envelope_Write_def envelope_New_def envelope_ok_def Let_def ExitCode_def
        exitPoint_def split: option.splits)
next
  case (Some le)
  let ?c = "ce_Code (Classify (ELifecycle le))"
  have "ExitCode (Label ?c) = ?c" using reasons_classified by (rule verdict.decode_encode)
  with assms Some show ?thesis
    by (auto simp: lifecycle_render_def envelopeFor_def envelope_Write_def envelope_New_def envelope_Fail_def envelope_ok_def Let_def
        exitPoint_def split: option.splits)
qed

text \<open>No operation ends with the reason \<open>ok\<close>, the only one whose row is success.\<close>

definition genuine :: "lifecycleError option \<Rightarrow> bool" where
  "genuine err \<longleftrightarrow> (case err of None \<Rightarrow> True | Some le \<Rightarrow> le_Reason le \<noteq> ''ok'')"

lemma genuine_simps [simp]: "genuine None" "genuine (Some le) \<longleftrightarrow> le_Reason le \<noteq> ''ok''"
  by (simp_all add: genuine_def)

lemma Classify_genuine: "genuine (Some le) \<Longrightarrow> ce_Code (Classify (ELifecycle le)) \<noteq> OK"
  by (auto simp: Classify_def reasonCodes_def split: if_splits)

lemma status_genuine [simp]: "reasonForStatus s \<noteq> ''ok''"
  by (simp add: reasonForStatus_def)

lemma PersistResult_genuine: "genuine (PersistResult_Verdict res strict)"
  by (auto simp: PersistResult_Verdict_def split: option.splits)

lemma RestoreResult_genuine: "genuine (RestoreResult_Verdict res strict)"
  by (auto simp: RestoreResult_Verdict_def split: option.splits)

lemma readBody_genuine: "readBody raw w = Inl e \<Longrightarrow> le_Reason e \<noteq> ''ok''"
  by (auto simp: readBody_def split: http_body.splits)

lemma doPersist_genuine: "genuine (snd (doPersist url_ok gw o' strict))"
  using PersistResult_genuine
  by (auto simp: doPersist_def DecodePersistResult_def dest: readBody_genuine split: http_result.splits sum.splits option.splits)

lemma judge_restore_genuine: "genuine (snd (judge_restore mode strict status body))"
proof (cases "DecodeRestoreResult body")
  case (Inl e)
  then show ?thesis by (auto simp: judge_restore_def DecodeRestoreResult_def split: option.splits)
next
  case (Inr r)
  let ?r = "if rr_Mode r = [] then r\<lparr>rr_Mode := mode\<rparr> else r"
  show ?thesis
    using Inr RestoreResult_genuine [of "Some ?r" strict] by (auto simp: judge_restore_def Let_def split: option.splits)
qed

lemma doRestore_genuine: "genuine (snd (doRestore url_ok gw fs o' strict ro))"
  by (auto simp: doRestore_def judge_restore_genuine dest: readBody_genuine split: option.splits http_result.splits sum.splits)

lemma VerifySnapshot_genuine: "VerifySnapshotChecksum body h = Inl e \<Longrightarrow> le_Reason e \<noteq> ''ok''"
  by (auto simp: VerifySnapshotChecksum_def Let_def split: if_splits option.splits)

lemma WriteSnapshot_genuine: "WriteSnapshotFile w p d d0 = (Some e, t) \<Longrightarrow> le_Reason e \<noteq> ''ok''"
  by (auto simp: WriteSnapshotFile_def WriteFileAtomic_def file_failure_def Let_def split: prod.splits option.splits if_splits)

lemma doSnapshot_genuine: "doSnapshot url_ok gw w o' strict so d0 = ((doc, res, err), t) \<Longrightarrow> genuine err"
  by (auto simp: doSnapshot_def store_snapshot_def dest: readBody_genuine VerifySnapshot_genuine WriteSnapshot_genuine
      split: http_result.splits sum.splits if_splits prod.splits option.splits)

lemma decodeMaintenance_genuine: "decodeMaintenance status raw = Inl e \<Longrightarrow> le_Reason e \<noteq> ''ok''"
  by (auto simp: decodeMaintenance_def dest: readBody_genuine split: sum.splits if_splits option.splits)

definition json_run :: "string \<Rightarrow> lifecycle_run \<Rightarrow> bool" where
  "json_run command r \<longleftrightarrow> (\<exists>e. lc_out r = [LEnvelope e] \<and> envelope_ok e \<and> cr_Command e = command
     \<and> ExitCode (cr_Code e) = xs_status (exitPoint (lc_err r)) \<and> (cr_Success e \<longleftrightarrow> lc_err r = None))"

lemma render_json_run:
  assumes "genuine err"
  shows "json_run command (lifecycle_render None True command report human err)"
proof -
  let ?r = "lifecycle_render None True command report human err"
  obtain e where e: "lc_out ?r = [LEnvelope e]" "envelope_ok e" "cr_Command e = command"
      "cr_Code e = (case err of None \<Rightarrow> ''OK'' | Some le \<Rightarrow> Label (ce_Code (Classify (ELifecycle le))))"
      "lc_err ?r = map_option ELifecycle err" "ExitCode (cr_Code e) = xs_status (exitPoint (lc_err ?r))"
    using render_json [OF refl, of command report human err] by blast
  have "Label c = ''OK'' \<longleftrightarrow> c = OK" for c by (simp add: Label_def)
  with e(2,4) assms Classify_genuine have "cr_Success e \<longleftrightarrow> err = None"
    by (cases err) (auto simp: envelope_ok_def)
  with e show ?thesis by (auto simp: json_run_def)
qed

lemma persist_json_run: "json_run command (lifecycle_Persist url_ok gw None o' True strict command)"
  using doPersist_genuine [of url_ok gw o' strict]
  by (cases "doPersist url_ok gw o' strict") (simp add: lifecycle_Persist_def Let_def render_json_run)

lemma restore_json_run: "json_run ''create.restore'' (lifecycle_Restore url_ok gw fs None o' True strict ro)"
  using doRestore_genuine [of url_ok gw fs o' strict ro]
  by (cases "doRestore url_ok gw fs o' strict ro") (simp add: lifecycle_Restore_def Let_def render_json_run)

lemma snapshot_json_run: "json_run ''get.snapshot'' (fst (lifecycle_Snapshot url_ok gw w None o' True strict so d0))"
proof -
  obtain doc res err t where d: "doSnapshot url_ok gw w o' strict so d0 = ((doc, res, err), t)"
    by (cases "doSnapshot url_ok gw w o' strict so d0") auto
  with doSnapshot_genuine [OF d] show ?thesis by (auto simp: lifecycle_Snapshot_def Let_def intro: render_json_run)
qed

lemma maintenance_json_run:
  "json_run (if mo_Enable so then ''set.maintenance.on'' else ''set.maintenance.off'') (MaintenanceSet url_ok gw None o' True so)"
proof -
  have "le_Reason e \<noteq> ''ok''" if "doMaintenanceSet url_ok gw o' so = Inl e" for e
    using that by (auto simp: doMaintenanceSet_def dest: decodeMaintenance_genuine split: http_result.splits)
  then show ?thesis by (auto simp: MaintenanceSet_def maintenance_run_def intro!: render_json_run split: sum.splits)
qed

lemma store_snapshot_safe:
  assumes "store_snapshot w strict so status hs body d0 = ((doc, res, err), trace)" "d \<in> set trace"
    and "wv_temp w = Some tmp" "tmp \<noteq> so_File so" "p \<noteq> tmp"
  shows "d p = d0 p \<or> (p = so_File so \<and> (\<exists>document r. VerifySnapshotChecksum body (header_get hs snapshotChecksumHeader) = Inr (document, r)
      \<and> (strict \<longrightarrow> sf_ChecksumVerified r) \<and> status = 200 \<and> d p = Some (temp_file document True)))"
proof (cases "d p = d0 p")
  case False
  then obtain document r e where v: "VerifySnapshotChecksum body (header_get hs snapshotChecksumHeader) = Inr (document, r)"
      "strict \<longrightarrow> sf_ChecksumVerified r" "status = 200" "WriteSnapshotFile w (so_File so) document d0 = (e, trace)"
    using assms(1,2) by (auto simp: store_snapshot_def split: if_splits sum.splits prod.splits option.splits)
  then obtain out where o: "WriteFileAtomic w (so_File so) \<lparr>rd_data = document, rd_err = False\<rparr> d0 = (out, trace)"
    by (auto simp: WriteSnapshotFile_def split: prod.splits sum.splits)
  from WriteFileAtomic_states [OF assms(3,4) o assms(2)] False assms(5) v show ?thesis by (cases "p = so_File so") auto
qed simp

end
