(* ===== verification/NetParse.thy ===== *)
theory NetParse
  imports GoStd Json
begin

section \<open>Addresses and numbers as arguments (\<open>net\<close>, \<open>strconv\<close>)\<close>

text \<open>
  What the commands ask of \<open>net.ParseIP\<close>, \<open>net.ParseCIDR\<close>, \<open>net.ParseMAC\<close> and \<open>strconv.Atoi\<close>: whether a text
  is accepted, and the number it denotes. The commands send the text itself, so what matters of an accepted
  text is which characters it can hold.
\<close>

subsection \<open>\<open>net.ParseIP\<close>\<close>

text \<open>
  \<open>netip.parseIPv6\<close>: \<open>k\<close> groups may still follow, \<open>ell\<close> tells whether \<open>::\<close> was seen. An address that ends
  early needs the \<open>::\<close>, one that is full must not have it.
\<close>

definition ip6_complete :: "nat \<Rightarrow> bool \<Rightarrow> bool" where
  "ip6_complete k ell \<longleftrightarrow> (if k = 0 then \<not> ell else ell)"

fun ip6_groups :: "nat \<Rightarrow> bool \<Rightarrow> string \<Rightarrow> bool" where
  "ip6_groups 0 ell s = (s = [] \<and> \<not> ell)"
| "ip6_groups (Suc k) ell s =
     (let h = takeWhile is_hex s; r = dropWhile is_hex s in
      if h = [] \<or> length h > 4 then False
      else if r = [] then ip6_complete k ell
      else if hd r = CHR ''.'' then k > 0 \<and> (ell \<or> k = 1) \<and> parse_ipv4 s \<noteq> None \<and> ip6_complete (k - 1) ell
      else if hd r \<noteq> CHR '':'' \<or> tl r = [] then False
      else if hd (tl r) \<noteq> CHR '':'' then ip6_groups k ell (tl r)
      else if ell then False
      else if tl (tl r) = [] then ip6_complete k True
      else ip6_groups k True (tl (tl r)))"

definition parse_ipv6 :: "string \<Rightarrow> bool" where
  "parse_ipv6 s = (if has_prefix ''::'' s then drop 2 s = [] \<or> ip6_groups 8 True (drop 2 s) else ip6_groups 8 False s)"

text \<open>
  \<open>netip.ParseAddr\<close> dispatches on the first dot, colon or percent sign; \<open>net\<close> refuses every address with a
  zone. The result is the length of the address in bits.
\<close>

definition ParseAddr :: "string \<Rightarrow> nat option" where
  "ParseAddr s =
     (case find (\<lambda>c. c \<in> {CHR ''.'', CHR '':'', CHR 0x25}) s of
        None \<Rightarrow> None
      | Some c \<Rightarrow>
          if c = CHR ''.'' then (if parse_ipv4 s \<noteq> None then Some 32 else None)
          else if c = CHR '':'' \<and> CHR 0x25 \<notin> set s \<and> parse_ipv6 s then Some 128
          else None)"

definition ParseIP :: "string \<Rightarrow> bool" where
  "ParseIP s \<longleftrightarrow> ParseAddr s \<noteq> None"

subsection \<open>\<open>net.ParseCIDR\<close>\<close>

definition mask_bits :: "string \<Rightarrow> nat option" where
  "mask_bits s = (if s \<noteq> [] \<and> list_all is_digit s \<and> dec_val 0 s < 0xFFFFFF then Some (dec_val 0 s) else None)"

definition ParseCIDR :: "string \<Rightarrow> bool" where
  "ParseCIDR s =
     (if CHR ''/'' \<notin> set s then False
      else case (ParseAddr (takeWhile (\<lambda>c. c \<noteq> CHR ''/'') s), mask_bits (tl (dropWhile (\<lambda>c. c \<noteq> CHR ''/'') s))) of
        (Some bits, Some n) \<Rightarrow> n \<le> bits
      | _ \<Rightarrow> False)"

subsection \<open>\<open>net.ParseMAC\<close>\<close>

text \<open>\<open>n\<close> groups of \<open>w\<close> hex digits, separated by \<open>sep\<close>.\<close>

fun mac_groups :: "nat \<Rightarrow> nat \<Rightarrow> char \<Rightarrow> string \<Rightarrow> bool" where
  "mac_groups 0 w sep s = True"
| "mac_groups (Suc n) w sep s =
     (list_all is_hex (take w s) \<and> w \<le> length s \<and> (case drop w s of [] \<Rightarrow> True | c # cs \<Rightarrow> c = sep \<and> mac_groups n w sep cs))"

definition ParseMAC :: "string \<Rightarrow> bool" where
  "ParseMAC s =
     (if length s < 14 then False
      else if s ! 2 = CHR '':'' \<or> s ! 2 = CHR ''-'' then
        (length s + 1) mod 3 = 0 \<and> (length s + 1) div 3 \<in> {6, 8, 20} \<and> mac_groups ((length s + 1) div 3) 2 (s ! 2) s
      else if s ! 4 = CHR ''.'' then
        (length s + 1) mod 5 = 0 \<and> 2 * ((length s + 1) div 5) \<in> {6, 8, 20} \<and> mac_groups ((length s + 1) div 5) 4 (CHR ''.'') s
      else False)"

subsection \<open>\<open>strconv.Atoi\<close>\<close>

definition Atoi :: "string \<Rightarrow> int option" where
  "Atoi s = parse_int64 (if has_prefix ''+'' s \<and> \<not> has_prefix ''-'' (tl s) then tl s else s)"

subsection \<open>The characters of an accepted text\<close>

definition ip_char :: "char \<Rightarrow> bool" where
  "ip_char c \<longleftrightarrow> is_hex c \<or> c = CHR ''.'' \<or> c = CHR '':''"

lemma ip_char_intros [intro]: "is_digit c \<Longrightarrow> ip_char c" "is_hex c \<Longrightarrow> ip_char c"
  and ip_char_seps [simp]: "ip_char (CHR ''.'')" "ip_char (CHR '':'')"
  by (simp_all add: ip_char_def is_hex_def)

lemma ip4_fields_chars: "ip4_fields fs v dl s = Some q \<Longrightarrow> list_all ip_char s"
proof (induction fs v dl s rule: ip4_fields.induct)
  case (2 fs v dl c cs)
  then show ?case by (cases "is_digit c"; cases "c = CHR ''.''") (auto simp: Let_def split: if_splits)
qed simp

lemma hex_block_chars: "list_all ip_char (dropWhile is_hex s) \<Longrightarrow> list_all ip_char s"
  by (induction s) (auto split: if_splits)

lemma ip6_groups_chars: "ip6_groups k ell s \<Longrightarrow> list_all ip_char s"
proof (induction k ell s rule: ip6_groups.induct)
  case (2 k ell s)
  show ?case
  proof (cases "dropWhile is_hex s")
    case Nil
    then show ?thesis by (auto simp: list_all_iff)
  next
    case (Cons c r)
    show ?thesis
    proof (cases "c = CHR ''.''")
      case True
      then obtain q where "parse_ipv4 s = Some q" using 2(3) Cons by (auto simp: Let_def split: if_splits)
      then show ?thesis using ip4_fields_chars by (auto simp: parse_ipv4_def)
    next
      case False
      then have "c = CHR '':''" "list_all ip_char r"
        using 2 Cons by (auto simp: Let_def neq_Nil_conv split: if_splits)
      then show ?thesis using Cons hex_block_chars [of s] by simp
    qed
  qed
qed simp

lemma ParseIP_chars: "ParseIP s \<Longrightarrow> s \<noteq> [] \<and> list_all ip_char s"
proof -
  assume s: "ParseIP s"
  then have "parse_ipv4 s \<noteq> None \<or> parse_ipv6 s" by (auto simp: ParseIP_def ParseAddr_def split: option.splits if_splits)
  then have "list_all ip_char s"
  proof
    assume six: "parse_ipv6 s"
    show ?thesis
    proof (cases "has_prefix ''::'' s")
      case True
      then obtain r where r: "s = CHR '':'' # CHR '':'' # r" by (cases s; cases "tl s") auto
      with six have "r = [] \<or> ip6_groups 8 True r" by (auto simp: parse_ipv6_def)
      with r show ?thesis using ip6_groups_chars by auto
    qed (use six ip6_groups_chars in \<open>auto simp: parse_ipv6_def\<close>)
  qed (use ip4_fields_chars in \<open>auto simp: parse_ipv4_def\<close>)
  with s show ?thesis by (auto simp: ParseIP_def ParseAddr_def)
qed

lemma ParseCIDR_parts:
  assumes "ParseCIDR s"
  obtains addr mask where "s = addr @ CHR ''/'' # mask" "ParseIP addr" "mask \<noteq> []" "list_all is_digit mask"
proof -
  have slash: "CHR ''/'' \<in> set s" using assms by (auto simp: ParseCIDR_def split: if_splits)
  define addr where "addr = takeWhile (\<lambda>c. c \<noteq> CHR ''/'') s"
  obtain mask where rest: "dropWhile (\<lambda>c. c \<noteq> CHR ''/'') s = CHR ''/'' # mask"
    using slash hd_dropWhile [of "\<lambda>c. c \<noteq> CHR ''/''" s] by (cases "dropWhile (\<lambda>c. c \<noteq> CHR ''/'') s") (auto simp: dropWhile_eq_Nil_conv)
  have parts: "s = addr @ CHR ''/'' # mask" unfolding addr_def rest [symmetric] by simp
  have "ParseIP addr" "mask \<noteq> []" "list_all is_digit mask"
    using assms slash unfolding ParseCIDR_def rest addr_def [symmetric]
    by (auto simp: ParseIP_def mask_bits_def split: option.splits if_splits)
  with parts show ?thesis by (rule that)
qed

lemma parse_int64_chars:
  assumes "parse_int64 s = Some n"
  shows "s \<noteq> [] \<and> list_all (\<lambda>c. is_digit c \<or> c = CHR ''-'') s \<and> - (2 ^ 63) \<le> n \<and> n < 2 ^ 63"
  using assms by (cases s) (auto simp: parse_int64_def Let_def list_all_iff split: if_splits)

lemma Atoi_chars:
  assumes "Atoi s = Some n"
  shows "s \<noteq> [] \<and> list_all (\<lambda>c. is_digit c \<or> c \<in> {CHR ''-'', CHR ''+''}) s \<and> - (2 ^ 63) \<le> n \<and> n < 2 ^ 63"
proof -
  obtain t where t: "parse_int64 t = Some n" "s = t \<or> s = CHR ''+'' # t"
    using assms by (cases s) (auto simp: Atoi_def split: if_splits)
  with parse_int64_chars [OF t(1)] show ?thesis by (auto simp: list_all_iff)
qed

end
