(* ===== verification/RestRun.thy ===== *)
theory RestRun
  imports Lifecycle FeatureGate NetParse
begin

section \<open>One run of a REST command\<close>

text \<open>
  The frame of the commands that send requests to the gateway one after the other. A \<open>service\<close> answers a request
  given the requests before it. A run is the requests sent (the ones before it included), what it printed on
  standard output and on standard error, and how it ended: with the error that \<open>RunE\<close> returns, or in a panic.
\<close>

type_synonym service = "http_request list \<Rightarrow> gateway"

record gateway_env =
  ge_url_ok :: "string \<Rightarrow> bool"
  ge_service :: service
  ge_peer :: peer

datatype run_end = Done "goerr option" | Panicked string

record rest_run =
  rn_sent :: "http_request list"
  rn_out :: "msg list"
  rn_warn :: "msg list"
  rn_end :: run_end

definition stopped :: "http_request list \<Rightarrow> msg list \<Rightarrow> cliError \<Rightarrow> rest_run" where
  "stopped log out e = \<lparr>rn_sent = log, rn_out = out, rn_warn = [], rn_end = Done (Some (ECLI e))\<rparr>"

definition finished :: "http_request list \<Rightarrow> msg list \<Rightarrow> rest_run" where
  "finished log out = \<lparr>rn_sent = log, rn_out = out, rn_warn = [], rn_end = Done None\<rparr>"

definition panicked :: "http_request list \<Rightarrow> msg list \<Rightarrow> string \<Rightarrow> rest_run" where
  "panicked log out s = \<lparr>rn_sent = log, rn_out = out, rn_warn = [], rn_end = Panicked s\<rparr>"

lemmas run_ends = stopped_def finished_def panicked_def

text \<open>A request that cannot be built is not sent.\<close>

definition exchange :: "gateway_env \<Rightarrow> http_request option \<Rightarrow> http_request list \<Rightarrow> http_result \<times> http_request list" where
  "exchange env req log =
     (case req of None \<Rightarrow> (NoResponse, log) | Some r \<Rightarrow> (ge_service env log r, log @ [r]))"

text \<open>\<open>body, _ := io.ReadAll(resp.Body)\<close>: what arrived before the body broke off.\<close>

definition read_some :: "http_body \<Rightarrow> bytes" where
  "read_some raw = (case raw of Whole b \<Rightarrow> b | Torn b \<Rightarrow> b)"

text \<open>The validation of arguments: what it printed, and a verdict. An index out of range is a panic.\<close>

datatype verdict = Pass | Refuse msg | Crash string

definition checked :: "msg list \<times> verdict \<Rightarrow> (msg \<Rightarrow> cliError) \<Rightarrow> http_request list \<Rightarrow> (msg list \<Rightarrow> rest_run) \<Rightarrow> rest_run" where
  "checked v bad log k =
     (case v of (out, Pass) \<Rightarrow> k out | (out, Refuse m) \<Rightarrow> stopped log out (bad m) | (out, Crash s) \<Rightarrow> panicked log out s)"

definition index_panic :: "nat \<Rightarrow> nat \<Rightarrow> string" where
  "index_panic i n = ''runtime error: index out of range ['' @ show_nat i @ ''] with length '' @ show_nat n"

text \<open>\<open>fmt.Println\<close> of a slice of strings.\<close>

definition show_slice :: "string list \<Rightarrow> msg" where
  "show_slice args = Text (''['' @ join '' '' args @ '']'')"

text \<open>\<open>m[k] = v\<close> on a Go map kept as an association list without repeated keys.\<close>

fun map_put :: "'k \<Rightarrow> 'v \<Rightarrow> ('k \<times> 'v) list \<Rightarrow> ('k \<times> 'v) list" where
  "map_put k v [] = [(k, v)]"
| "map_put k v (p # ps) = (if fst p = k then (k, v) # ps else p # map_put k v ps)"

lemma map_put_keys: "fst ` set (map_put k v ps) = insert k (fst ` set ps)"
  by (induction ps) auto

lemma map_put_distinct: "distinct (map fst ps) \<Longrightarrow> distinct (map fst (map_put k v ps))"
proof (induction ps)
  case (Cons p ps)
  then show ?case using map_put_keys [of k v ps] by auto
qed simp

lemma map_put_lookup: "map_of (map_put k v ps) k' = (if k' = k then Some v else map_of ps k')"
  by (induction ps) auto

text \<open>The feature gate in front of a command: its error ends the run, its warning goes to standard error.\<close>

definition gated ::
  "gateway_env \<Rightarrow> restOptions \<Rightarrow> string \<Rightarrow> string \<Rightarrow> http_request list \<Rightarrow> gate_state \<Rightarrow> (unit \<Rightarrow> rest_run) \<Rightarrow> rest_run \<times> gate_state" where
  "gated env o' feature command log st k =
     (case Require (ge_peer env) o' feature command st of
        ((Some e, w), st') \<Rightarrow> (stopped log [] e, st')
      | ((None, None), st') \<Rightarrow> (k (), st')
      | ((None, Some w), st') \<Rightarrow> ((k ())\<lparr>rn_warn := [w]\<rparr>, st'))"

text \<open>\<open>ce.Message = api.NewAPIError(status, body).Error()\<close>\<close>

definition status_refusal :: "string \<Rightarrow> int \<Rightarrow> bytes \<Rightarrow> cliError" where
  "status_refusal command status body = (FromHTTPStatus command status)\<lparr>ce_Message := APIError_Error (NewAPIError status body)\<rparr>"

subsection \<open>Honest runs\<close>

text \<open>
  \<open>answers env log sent\<close>: the answers the service gave to the requests of a run that began with \<open>log\<close>.
  A run is honest if its log extends the one it began with, and if it ends without error only when each of
  its requests was answered with a status the command takes for success.
\<close>

definition answers :: "gateway_env \<Rightarrow> http_request list \<Rightarrow> http_request list \<Rightarrow> http_result list" where
  "answers env log new = map (\<lambda>i. ge_service env (log @ take i new) (new ! i)) [0..<length new]"

definition succeeded :: "int set \<Rightarrow> http_result \<Rightarrow> bool" where
  "succeeded good r \<longleftrightarrow> (\<exists>status hs raw. r = Response status hs raw \<and> status \<in> good)"

definition honest :: "gateway_env \<Rightarrow> int set \<Rightarrow> http_request list \<Rightarrow> rest_run \<Rightarrow> bool" where
  "honest env good log r \<longleftrightarrow>
     (\<exists>new. rn_sent r = log @ new \<and> (rn_end r = Done None \<longrightarrow> (\<forall>a \<in> set (answers env log new). succeeded good a)))"

lemma answers_Nil [simp]: "answers env log [] = []"
  by (simp add: answers_def)

lemma answers_Cons: "answers env log (r # new) = ge_service env log r # answers env (log @ [r]) new"
proof -
  have "[0..<length (r # new)] = 0 # map Suc [0..<length new]" by (simp add: map_Suc_upt upt_conv_Cons del: upt_Suc)
  then show ?thesis by (simp add: answers_def)
qed

lemma honest_here:
  "honest env good log (stopped log out e)" "honest env good log (finished log out)" "honest env good log (panicked log out s)"
  by (auto simp: honest_def run_ends)

lemma honest_step:
  assumes "honest env good (log @ [r]) run" "rn_end run = Done None \<Longrightarrow> succeeded good (ge_service env log r)"
  shows "honest env good log run"
  using assms unfolding honest_def by (metis append.assoc append_Cons append_Nil answers_Cons set_ConsD)

lemma honest_warn: "honest env good log (run\<lparr>rn_warn := w\<rparr>) = honest env good log run"
  by (simp add: honest_def)

lemma honest_if: "(b \<Longrightarrow> honest env good log r) \<Longrightarrow> (\<not> b \<Longrightarrow> honest env good log r') \<Longrightarrow> honest env good log (if b then r else r')"
  by simp

lemma honest_checked:
  assumes "\<And>out. honest env good log (k out)"
  shows "honest env good log (checked v bad log k)"
  using assms honest_here by (auto simp: checked_def split: prod.splits verdict.splits)

lemma honest_gated:
  assumes "honest env good log (k ())"
  shows "honest env good log (fst (gated env o' feature command log st k))"
  using assms honest_here by (auto simp: gated_def honest_warn split: prod.splits option.splits)

end
