(* ===== verification/LbOptions.thy ===== *)
theory LbOptions
  imports BandTriple RestRun
begin

section \<open>The options of \<open>create lb\<close> (\<open>cmd/create/create_loadbalancer.go\<close>)\<close>

text \<open>
  The options record of the command, the numeric forms of its enumerations, and the checks that run before a
  request is built. The record is built up in the order of the source's groups; a flag's \<open>Set\<close> field tells whether
  it was given. A \<open>uint32\<close> is a 32-bit word; \<open>int\<close>, \<open>int32\<close> and \<open>int64\<close> are integers, which the flag parser
  keeps in range and the command does not compute with beyond one sum of two checked values.
\<close>

subsection \<open>The record\<close>

definition bandTriple0 :: bandTriple where
  "bandTriple0 = \<lparr>bt_Critical = 0, bt_Standard = 0, bt_Sheddable = 0\<rparr>"

record lbRuleOptions =
  cl_ExternalIP :: string
  cl_TCP :: "string list"
  cl_UDP :: "string list"
  cl_ICMP :: bool
  cl_Mode :: string
  cl_BGP :: bool
  cl_Security :: string
  cl_Monitor :: bool
  cl_Attach :: bool
  cl_Detach :: bool
  cl_Timeout :: "32 word"
  cl_Mark :: "32 word"
  cl_SCTP :: "string list"
  cl_Endpoints :: "string list"
  cl_SecIPs :: "string list"
  cl_Select :: string
  cl_Name :: string
  cl_Host :: string
  cl_AllowedSources :: "string list"
  cl_PPv2En :: bool
  cl_Egress :: bool

record lbQueueOptions = lbRuleOptions +
  cl_ConnectionLimit :: "32 word"
  cl_FcMaxQueueDepth :: "32 word"
  cl_FcMaxQueueWaitMs :: "32 word"
  cl_FcMaxQueueDepthSet :: bool
  cl_FcMaxQueueWaitMsSet :: bool
  cl_FcMode :: string
  cl_FcMaxOutstanding :: "32 word"
  cl_FcEpMaxInflight :: "32 word"
  cl_FcPrefillMaxInflight :: "32 word"
  cl_FcDecodeMaxInflight :: "32 word"
  cl_FcTelemetryStaleMs :: "32 word"
  cl_FcMaxOutstandingSet :: bool
  cl_FcEpMaxInflightSet :: bool
  cl_FcPrefillMaxInflightSet :: bool
  cl_FcDecodeMaxInflightSet :: bool
  cl_FcTelemetryStaleMsSet :: bool
  cl_FcAdaptive :: string
  cl_FcWarmupMs :: "32 word"
  cl_FcTtftTargetMs :: "32 word"
  cl_FcWarmupMsSet :: bool
  cl_FcTtftTargetMsSet :: bool
  cl_FcTenantMaxSharePct :: "32 word"
  cl_FcTenantMaxSharePctSet :: bool
  cl_FcExposeHeaders :: string

record lbBandOptions = lbQueueOptions +
  cl_FcWakePolicy :: string
  cl_FcBandWeights :: bandTriple
  cl_FcBandMinSharePct :: bandTriple
  cl_FcCriticalReservePct :: "32 word"
  cl_FcBandWaitMs :: bandTriple
  cl_FcBandQueuePct :: bandTriple
  cl_FcShedQueue :: string
  cl_FcTenantWake :: string
  cl_FcLlmdHeaders :: string
  cl_FcBandWeightsSet :: bool
  cl_FcBandMinSharePctSet :: bool
  cl_FcCriticalReservePctSet :: bool
  cl_FcBandWaitMsSet :: bool
  cl_FcBandQueuePctSet :: bool
  cl_AiDefaultReservation :: string
  cl_AiDefaultMaxTokens :: "32 word"
  cl_AiObjectiveStrict :: bool
  cl_AiDefaultMaxTokensSet :: bool
  cl_AiObjectiveStrictSet :: bool

record lbRouteOptions = lbBandOptions +
  cl_ProbeType :: string
  cl_ProbePort :: "16 word"
  cl_ProbeReq :: string
  cl_ProbeTimeout :: "32 word"
  cl_ProbeRetries :: int
  cl_ModelName :: string
  cl_PathPrefix :: string
  cl_PathMatchMode :: string
  cl_SessionHeaderName :: string
  cl_TraceType :: string
  cl_BackendProtocol :: string
  cl_SockMapMode :: string
  cl_SseMode :: bool
  cl_JWTAuthProfile :: string
  cl_APIKeyAuth :: string
  cl_MaxStreamDurationSec :: int
  cl_BackendKeepaliveSec :: int
  cl_CbEnable :: bool

record lbEngineOptions = lbRouteOptions +
  cl_EppEndpoint :: string
  cl_EppFailureMode :: string
  cl_EppTimeoutMs :: int
  cl_EppPlaintext :: bool
  cl_ChwblPrefixHashLevel :: int
  cl_ChwblPrefixHashFlags :: int
  cl_ChwblMeanLoadFactor :: int
  cl_ChwblReplication :: int
  cl_ChwblEnableCacheSalt :: bool
  cl_PdDisaggMode :: bool
  cl_PdCacheAwareMode :: bool
  cl_PdSessionTtlSec :: int
  cl_PdCacheThreshold :: int
  cl_PdBalanceAbsThreshold :: int
  cl_PdBootstrapPort :: int
  cl_PdPrefillTimeoutSec :: int
  cl_KvExactMode :: int
  cl_KvBlockSize :: int
  cl_KvHashAlgo :: string
  cl_KvZmqPort :: int
  cl_KvWarmupSec :: int
  cl_KvEngineType :: string
  cl_KvDpRankCount :: int

record createLoadBalancerOptions = lbEngineOptions +
  cl_EpRoles :: "string list"
  cl_NixlPorts :: "int list"
  cl_HstsMaxAge :: "32 word"
  cl_HstsIncludeSubdomains :: bool
  cl_HstsPreload :: bool
  cl_MtlsClientCertMode :: string
  cl_MtlsClientCAPath :: string
  cl_MtlsRequireClientCN :: bool
  cl_MtlsClientCNPattern :: string
  cl_MtlsClientCRLPath :: string
  cl_MtlsBackendVerifyServer :: bool
  cl_MtlsBackendCAPath :: string
  cl_MtlsBackendClientCertPath :: string
  cl_MtlsBackendClientKeyPath :: string
  cl_BackendCaCertId :: string
  cl_BackendClientCertId :: string
  cl_BackendTLSServerName :: string

definition createLoadBalancerOptions0 :: createLoadBalancerOptions where
  "createLoadBalancerOptions0 = \<lparr>cl_ExternalIP = [], cl_TCP = [], cl_UDP = [], cl_ICMP = False, cl_Mode = [], cl_BGP = False, cl_Security = [],
     cl_Monitor = False, cl_Attach = False, cl_Detach = False, cl_Timeout = 0, cl_Mark = 0, cl_SCTP = [], cl_Endpoints = [],
     cl_SecIPs = [], cl_Select = [], cl_Name = [], cl_Host = [], cl_AllowedSources = [], cl_PPv2En = False, cl_Egress = False,
     cl_ConnectionLimit = 0, cl_FcMaxQueueDepth = 0, cl_FcMaxQueueWaitMs = 0, cl_FcMaxQueueDepthSet = False,
     cl_FcMaxQueueWaitMsSet = False, cl_FcMode = [], cl_FcMaxOutstanding = 0, cl_FcEpMaxInflight = 0,
     cl_FcPrefillMaxInflight = 0, cl_FcDecodeMaxInflight = 0, cl_FcTelemetryStaleMs = 0, cl_FcMaxOutstandingSet = False,
     cl_FcEpMaxInflightSet = False, cl_FcPrefillMaxInflightSet = False, cl_FcDecodeMaxInflightSet = False,
     cl_FcTelemetryStaleMsSet = False, cl_FcAdaptive = [], cl_FcWarmupMs = 0, cl_FcTtftTargetMs = 0, cl_FcWarmupMsSet = False,
     cl_FcTtftTargetMsSet = False, cl_FcTenantMaxSharePct = 0, cl_FcTenantMaxSharePctSet = False, cl_FcExposeHeaders = [],
     cl_FcWakePolicy = [], cl_FcBandWeights = bandTriple0, cl_FcBandMinSharePct = bandTriple0, cl_FcCriticalReservePct = 0,
     cl_FcBandWaitMs = bandTriple0, cl_FcBandQueuePct = bandTriple0, cl_FcShedQueue = [], cl_FcTenantWake = [],
     cl_FcLlmdHeaders = [], cl_FcBandWeightsSet = False, cl_FcBandMinSharePctSet = False, cl_FcCriticalReservePctSet = False,
     cl_FcBandWaitMsSet = False, cl_FcBandQueuePctSet = False, cl_AiDefaultReservation = [], cl_AiDefaultMaxTokens = 0,
     cl_AiObjectiveStrict = False, cl_AiDefaultMaxTokensSet = False, cl_AiObjectiveStrictSet = False, cl_ProbeType = [],
     cl_ProbePort = 0, cl_ProbeReq = [], cl_ProbeTimeout = 0, cl_ProbeRetries = 0, cl_ModelName = [], cl_PathPrefix = [],
     cl_PathMatchMode = [], cl_SessionHeaderName = [], cl_TraceType = [], cl_BackendProtocol = [], cl_SockMapMode = [],
     cl_SseMode = False, cl_JWTAuthProfile = [], cl_APIKeyAuth = [], cl_MaxStreamDurationSec = 0, cl_BackendKeepaliveSec = 0,
     cl_CbEnable = False, cl_EppEndpoint = [], cl_EppFailureMode = [], cl_EppTimeoutMs = 0, cl_EppPlaintext = False,
     cl_ChwblPrefixHashLevel = 0, cl_ChwblPrefixHashFlags = 0, cl_ChwblMeanLoadFactor = 0, cl_ChwblReplication = 0,
     cl_ChwblEnableCacheSalt = False, cl_PdDisaggMode = False, cl_PdCacheAwareMode = False, cl_PdSessionTtlSec = 0,
     cl_PdCacheThreshold = 0, cl_PdBalanceAbsThreshold = 0, cl_PdBootstrapPort = 0, cl_PdPrefillTimeoutSec = 0,
     cl_KvExactMode = 0, cl_KvBlockSize = 0, cl_KvHashAlgo = [], cl_KvZmqPort = 0, cl_KvWarmupSec = 0, cl_KvEngineType = [],
     cl_KvDpRankCount = 0, cl_EpRoles = [], cl_NixlPorts = [], cl_HstsMaxAge = 0, cl_HstsIncludeSubdomains = False,
     cl_HstsPreload = False, cl_MtlsClientCertMode = [], cl_MtlsClientCAPath = [], cl_MtlsRequireClientCN = False,
     cl_MtlsClientCNPattern = [], cl_MtlsClientCRLPath = [], cl_MtlsBackendVerifyServer = False, cl_MtlsBackendCAPath = [],
     cl_MtlsBackendClientCertPath = [], cl_MtlsBackendClientKeyPath = [], cl_BackendCaCertId = [],
     cl_BackendClientCertId = [], cl_BackendTLSServerName = []\<rparr>"

subsection \<open>Enumerations\<close>

definition SelectToNum :: "string \<Rightarrow> int" where
  "SelectToNum sel =
     (if sel = ''rr'' then 0 else if sel = ''hash'' then 1 else if sel = ''priority'' then 2 else if sel = ''persist'' then 3
      else if sel = ''lc'' then 4 else if sel = ''n2'' then 5 else if sel = ''n3'' then 6 else if sel = ''chwbl'' then 8
      else if sel = ''gpuaware'' then 9 else if sel = ''wrr-hash'' \<or> sel = ''chwbl-wrr'' then 10 else 0)"

definition EpRoleToNum :: "string \<Rightarrow> msg + int" where
  "EpRoleToNum role =
     (let r = to_lower (trim_space role) in
      if r \<in> {[], ''normal'', ''0''} then Inr 0
      else if r \<in> {''prefill'', ''1''} then Inr 1
      else if r \<in> {''decode'', ''2''} then Inr 2
      else Inl (Sprintf ''endpoint role '%s' is invalid (want normal|prefill|decode)'' [AStr role]))"

definition ModeToNum :: "string \<Rightarrow> int" where
  "ModeToNum sel =
     (if sel = ''onearm'' then 1 else if sel = ''fullnat'' then 2 else if sel = ''dsr'' then 3 else if sel = ''fullproxy'' then 4
      else if sel = ''hostonearm'' then 5 else 0)"

definition SecStringToNum :: "string \<Rightarrow> int" where
  "SecStringToNum sec =
     (if sec = ''https'' \<or> sec = ''tls'' then 1 else if sec = ''e2ehttps'' \<or> sec = ''e2etls'' then 2 else 0)"

subsection \<open>Which features are asked for\<close>

definition lbMtlsFrontendRequested :: "createLoadBalancerOptions \<Rightarrow> bool" where
  "lbMtlsFrontendRequested l \<longleftrightarrow> cl_MtlsClientCertMode l \<noteq> [] \<or> cl_MtlsClientCAPath l \<noteq> [] \<or> cl_MtlsRequireClientCN l
     \<or> cl_MtlsClientCNPattern l \<noteq> [] \<or> cl_MtlsClientCRLPath l \<noteq> []"

definition lbBackendTLSRequested :: "createLoadBalancerOptions \<Rightarrow> bool" where
  "lbBackendTLSRequested l \<longleftrightarrow> cl_BackendCaCertId l \<noteq> [] \<or> cl_BackendClientCertId l \<noteq> [] \<or> cl_BackendTLSServerName l \<noteq> []"

definition lbAIRequested :: "createLoadBalancerOptions \<Rightarrow> bool" where
  "lbAIRequested l \<longleftrightarrow>
     cl_ModelName l \<noteq> [] \<or> cl_PathPrefix l \<noteq> [] \<or> cl_PathMatchMode l \<noteq> [] \<or> cl_SessionHeaderName l \<noteq> [] \<or> cl_TraceType l \<noteq> []
     \<or> cl_SockMapMode l \<noteq> [] \<or> cl_SseMode l \<or> cl_APIKeyAuth l \<noteq> [] \<or> cl_JWTAuthProfile l \<noteq> [] \<or> cl_MaxStreamDurationSec l \<noteq> 0
     \<or> cl_BackendKeepaliveSec l \<noteq> 0 \<or> cl_CbEnable l \<or> cl_EppEndpoint l \<noteq> []
     \<or> cl_ChwblPrefixHashLevel l \<noteq> 0 \<or> cl_ChwblPrefixHashFlags l \<noteq> 0 \<or> cl_ChwblMeanLoadFactor l \<noteq> 0 \<or> cl_ChwblReplication l \<noteq> 0
     \<or> cl_ChwblEnableCacheSalt l \<or> cl_PdDisaggMode l \<or> cl_PdCacheAwareMode l \<or> cl_PdSessionTtlSec l \<noteq> 0 \<or> cl_PdCacheThreshold l \<noteq> 0
     \<or> cl_PdBalanceAbsThreshold l \<noteq> 0 \<or> cl_PdBootstrapPort l \<noteq> 0 \<or> cl_PdPrefillTimeoutSec l \<noteq> 0
     \<or> cl_KvExactMode l \<noteq> 0 \<or> cl_KvBlockSize l \<noteq> 0 \<or> cl_KvHashAlgo l \<noteq> [] \<or> cl_KvZmqPort l \<noteq> 0 \<or> cl_KvWarmupSec l \<noteq> 0
     \<or> cl_KvEngineType l \<noteq> [] \<or> cl_KvDpRankCount l \<noteq> 0 \<or> cl_EpRoles l \<noteq> [] \<or> cl_NixlPorts l \<noteq> []
     \<or> cl_HstsMaxAge l \<noteq> 0 \<or> cl_HstsIncludeSubdomains l \<or> cl_HstsPreload l \<or> lbMtlsFrontendRequested l \<or> lbBackendTLSRequested l
     \<or> SelectToNum (cl_Select l) \<in> {8, 9, 10}"

definition lbBandsRequested :: "createLoadBalancerOptions \<Rightarrow> bool" where
  "lbBandsRequested l \<longleftrightarrow>
     cl_FcWakePolicy l \<noteq> [] \<or> cl_FcBandWeightsSet l \<or> cl_FcBandMinSharePctSet l \<or> cl_FcCriticalReservePctSet l \<or> cl_FcBandWaitMsSet l
     \<or> cl_FcBandQueuePctSet l \<or> cl_FcShedQueue l \<noteq> [] \<or> cl_FcTenantWake l \<noteq> [] \<or> cl_FcLlmdHeaders l \<noteq> []"

subsection \<open>Checks\<close>

definition fcMaxQueueDepthCeiling :: "32 word" where "fcMaxQueueDepthCeiling = 65536"
definition fcMaxQueueWaitMsCeiling :: "32 word" where "fcMaxQueueWaitMsCeiling = 3600000"
definition fcCapCeiling :: "32 word" where "fcCapCeiling = 100000"
definition fcTelemetryStaleCeiling :: "32 word" where "fcTelemetryStaleCeiling = 3600000"
definition fcAdaptiveMsCeiling :: "32 word" where "fcAdaptiveMsCeiling = 3600000"
definition fcTenantSharePctCeiling :: "32 word" where "fcTenantSharePctCeiling = 100"
definition fcBandWeightCeiling :: "32 word" where "fcBandWeightCeiling = 62"
definition fcBandPctCeiling :: "32 word" where "fcBandPctCeiling = 100"
definition fcBandWaitMsCeiling :: "32 word" where "fcBandWaitMsCeiling = 3600000"
definition aiDefaultTokenCeiling :: "32 word" where "aiDefaultTokenCeiling = 100000000"
definition eppEndpointMaxBytes :: nat where "eppEndpointMaxBytes = 255"
definition eppTimeoutMsMax :: int where "eppTimeoutMsMax = 600000"

lemmas lb_ceilings = fcMaxQueueDepthCeiling_def fcMaxQueueWaitMsCeiling_def fcCapCeiling_def fcTelemetryStaleCeiling_def fcAdaptiveMsCeiling_def
  fcTenantSharePctCeiling_def fcBandWeightCeiling_def fcBandPctCeiling_def fcBandWaitMsCeiling_def aiDefaultTokenCeiling_def
  eppEndpointMaxBytes_def eppTimeoutMsMax_def

text \<open>The two shapes of most refusals: a number above its ceiling, and a text outside its vocabulary.\<close>

definition above :: "string \<Rightarrow> 32 word \<Rightarrow> 32 word \<Rightarrow> msg option" where
  "above flag v ceiling = (if v > ceiling then Some (Sprintf (flag @ '' must be within 0..%d'') [AInt (uint ceiling)]) else None)"

definition outside :: "string \<Rightarrow> string \<Rightarrow> string list \<Rightarrow> msg option" where
  "outside flag v allowed =
     (if v = [] \<or> v \<in> set allowed then None else Some (Text (flag @ '' must be one of '' @ join ''|'' allowed)))"

definition validateBackendTLSOptions :: "createLoadBalancerOptions \<Rightarrow> msg option" where
  "validateBackendTLSOptions l =
     (if cl_MtlsBackendCAPath l \<noteq> [] then
        Some (Text (''--mtls-backend-ca-path is retired, the gateway takes backend TLS material by registered ID: ''
          @ ''register the CA with 'create cert --usage ca' and name it with --backend-ca-cert-id''))
      else if cl_MtlsBackendClientCertPath l \<noteq> [] \<or> cl_MtlsBackendClientKeyPath l \<noteq> [] then
        Some (Text (''--mtls-backend-cert-path and --mtls-backend-key-path are retired, the gateway takes backend TLS material by registered ID: ''
          @ ''register the pair with 'create cert --usage client' and name it with --backend-client-cert-id''))
      else if cl_MtlsBackendVerifyServer l then
        Some (Text ''--mtls-backend-verify-server is retired: --backend-ca-cert-id names the CA and turns verification on'')
      else if \<not> lbBackendTLSRequested l then None
      else if ModeToNum (cl_Mode l) \<noteq> 4 \<or> SecStringToNum (cl_Security l) \<noteq> 2 then
        Some (Text (''--backend-ca-cert-id, --backend-client-cert-id and --backend-tls-server-name require ''
          @ [CHR 0x27] @ ''--mode fullproxy --security e2ehttps'' @ [CHR 0x27]))
      else None)"

definition validateEppOptions :: "createLoadBalancerOptions \<Rightarrow> msg option" where
  "validateEppOptions l =
     (case outside ''--epp-failure-mode'' (cl_EppFailureMode l) [''FailOpen'', ''FailClose''] of
        Some e \<Rightarrow> Some e
      | None \<Rightarrow>
          if cl_EppTimeoutMs l < 0 \<or> cl_EppTimeoutMs l > eppTimeoutMsMax then
            Some (Sprintf ''--epp-timeout-ms must be within 0..%d'' [AInt eppTimeoutMsMax])
          else if length (cl_EppEndpoint l) > eppEndpointMaxBytes then
            Some (Sprintf ''--epp-endpoint must be at most %d bytes'' [AInt (int eppEndpointMaxBytes)])
          else if cl_EppEndpoint l \<noteq> [] \<and> cl_PdDisaggMode l \<and> cl_EppFailureMode l \<noteq> ''FailOpen'' then
            Some (Text ''--epp-endpoint with --pd-disagg requires --epp-failure-mode FailOpen'')
          else None)"

definition band_enums :: "createLoadBalancerOptions \<Rightarrow> (string \<times> string \<times> string list) list" where
  "band_enums l =
    [(''--fc-wake-policy'', cl_FcWakePolicy l, [''strict'', ''weighted'', ''inherit'']),
     (''--fc-shed-queue'', cl_FcShedQueue l, [''on'', ''off'', ''inherit'']),
     (''--fc-tenant-wake'', cl_FcTenantWake l, [''fifo'', ''rr'', ''inherit'']),
     (''--fc-llmd-headers'', cl_FcLlmdHeaders l, [''on'', ''off'', ''inherit'']),
     (''--ai-default-reservation'', cl_AiDefaultReservation l, [''on'', ''off'', ''inherit''])]"

definition band_triples :: "createLoadBalancerOptions \<Rightarrow> (string \<times> bool \<times> bandTriple \<times> 32 word) list" where
  "band_triples l =
    [(''--fc-band-weights'', cl_FcBandWeightsSet l, cl_FcBandWeights l, fcBandWeightCeiling),
     (''--fc-band-min-share-pct'', cl_FcBandMinSharePctSet l, cl_FcBandMinSharePct l, fcBandPctCeiling),
     (''--fc-band-wait-ms'', cl_FcBandWaitMsSet l, cl_FcBandWaitMs l, fcBandWaitMsCeiling),
     (''--fc-band-queue-pct'', cl_FcBandQueuePctSet l, cl_FcBandQueuePct l, fcBandPctCeiling)]"

definition triple_values :: "bandTriple \<Rightarrow> 32 word list" where
  "triple_values t = [bt_Critical t, bt_Standard t, bt_Sheddable t]"

definition validateFcBandOptions :: "createLoadBalancerOptions \<Rightarrow> msg option" where
  "validateFcBandOptions l =
     andThen (firstErr (\<lambda>(flag, v, allowed). outside flag v allowed) (band_enums l))
    (andThen (firstErr (\<lambda>(flag, given, t, ceiling).
        failIf (given \<and> list_ex (\<lambda>v. v > ceiling) (triple_values t))
          (Sprintf (flag @ '': each value must be within 0..%d'') [AInt (uint ceiling)])) (band_triples l))
    (andThen (above ''--fc-critical-reserve-pct'' (cl_FcCriticalReservePct l) fcBandPctCeiling)
       (above ''--ai-default-max-tokens'' (cl_AiDefaultMaxTokens l) aiDefaultTokenCeiling)))"

definition inflight_caps :: "createLoadBalancerOptions \<Rightarrow> (string \<times> 32 word) list" where
  "inflight_caps l =
    [(''--fc-max-outstanding'', cl_FcMaxOutstanding l), (''--fc-ep-max-inflight'', cl_FcEpMaxInflight l),
     (''--fc-prefill-max-inflight'', cl_FcPrefillMaxInflight l), (''--fc-decode-max-inflight'', cl_FcDecodeMaxInflight l)]"

definition validateFcQueueOptions :: "createLoadBalancerOptions \<Rightarrow> msg option" where
  "validateFcQueueOptions l =
     andThen (above ''--fc-max-queue-depth'' (cl_FcMaxQueueDepth l) fcMaxQueueDepthCeiling)
    (andThen (above ''--fc-max-queue-wait-ms'' (cl_FcMaxQueueWaitMs l) fcMaxQueueWaitMsCeiling)
    (andThen (failIf (cl_FcMaxQueueDepth l > 0 \<and> cl_FcMaxQueueWaitMsSet l \<and> cl_FcMaxQueueWaitMs l = 0)
        (Text ''--fc-max-queue-wait-ms must be non-zero when --fc-max-queue-depth is set''))
    (andThen (outside ''--fc-mode'' (cl_FcMode l) [''off'', ''observe'', ''enforce'', ''inherit''])
    (andThen (firstErr (\<lambda>(flag, v). above flag v fcCapCeiling) (inflight_caps l))
    (andThen (above ''--fc-telemetry-stale-ms'' (cl_FcTelemetryStaleMs l) fcTelemetryStaleCeiling)
    (andThen (outside ''--fc-adaptive'' (cl_FcAdaptive l) [''on'', ''off'', ''inherit''])
    (andThen (outside ''--fc-expose-headers'' (cl_FcExposeHeaders l) [''on'', ''off'', ''inherit''])
    (andThen (above ''--fc-warmup-ms'' (cl_FcWarmupMs l) fcAdaptiveMsCeiling)
    (andThen (above ''--fc-ttft-target-ms'' (cl_FcTtftTargetMs l) fcAdaptiveMsCeiling)
    (andThen (above ''--fc-tenant-max-share-pct'' (cl_FcTenantMaxSharePct l) fcTenantSharePctCeiling)
       (validateFcBandOptions l)))))))))))"

definition kv_hashes :: "string \<Rightarrow> string list" where
  "kv_hashes engine =
     (if engine = ''vllm'' then [''sha256_cbor'', ''xxhash_cbor''] else if engine = ''sglang'' then [''sha256_sglang'']
      else if engine = ''trtllm'' then [''blockhash_trtllm''] else [])"

definition validateKVHashForEngine :: "string \<Rightarrow> string \<Rightarrow> msg option" where
  "validateKVHashForEngine hash engine =
     (if hash = [] \<or> hash \<in> set (kv_hashes engine) then None
      else if engine = ''llamacpp'' then Some (Text ''--kv-hash-algo is unsupported for --kv-engine-type=llamacpp; omit it'')
      else Some (Sprintf ''--kv-hash-algo %q is incompatible with --kv-engine-type=%s; omit it for the engine default'' [AStr hash, AStr engine]))"

definition kv_engine :: "createLoadBalancerOptions \<Rightarrow> string" where
  "kv_engine l = (if cl_KvEngineType l = [] then ''vllm'' else cl_KvEngineType l)"

text \<open>The last port a data-parallel group listens on.\<close>

definition kv_last_port :: "createLoadBalancerOptions \<Rightarrow> int" where
  "kv_last_port l = (if cl_KvZmqPort l = 0 then 5557 else cl_KvZmqPort l) + cl_KvDpRankCount l - 1"

fun role_scan :: "bool \<Rightarrow> bool \<Rightarrow> string list \<Rightarrow> msg option" where
  "role_scan prefill decode [] =
     failIf (\<not> prefill \<or> \<not> decode) (Text ''--pd-disagg requires at least one prefill and one decode --ep-role'')"
| "role_scan prefill decode (role # roles) =
     (case EpRoleToNum role of Inl e \<Rightarrow> Some e | Inr v \<Rightarrow> role_scan (prefill \<or> v = 1) (decode \<or> v = 2) roles)"

definition engine_limits :: "createLoadBalancerOptions \<Rightarrow> string \<Rightarrow> msg option" where
  "engine_limits l engine =
     (if engine = ''trtllm'' then
        andThen (failIf (cl_KvZmqPort l \<noteq> 0 \<and> cl_KvZmqPort l \<noteq> 5557) (Text ''--kv-zmq-port is not used by trtllm; omit it''))
          (failIf (cl_KvDpRankCount l > 1) (Text ''--kv-dp-ranks is not used by trtllm; omit it''))
      else if engine = ''llamacpp'' then
        andThen (failIf (cl_KvExactMode l \<noteq> 0) (Text ''--kv-exact-mode is unsupported for llamacpp''))
       (andThen (failIf (cl_PdDisaggMode l) (Text ''--pd-disagg is unsupported for llamacpp''))
       (andThen (failIf (cl_KvZmqPort l \<noteq> 0 \<and> cl_KvZmqPort l \<noteq> 5557) (Text ''--kv-zmq-port is not used by llamacpp; omit it''))
       (andThen (failIf (cl_KvDpRankCount l > 1) (Text ''--kv-dp-ranks is not used by llamacpp; omit it''))
          (failIf (cl_KvBlockSize l \<noteq> 0 \<and> cl_KvBlockSize l \<noteq> 16) (Text ''--kv-block-size is not used by llamacpp; omit it'')))))
      else None)"

definition validateKVEngineOptions :: "createLoadBalancerOptions \<Rightarrow> msg option" where
  "validateKVEngineOptions l =
     (let engine = kv_engine l in
      andThen (failIf (engine \<notin> {''vllm'', ''sglang'', ''trtllm'', ''llamacpp''}) (Text ''--kv-engine-type must be one of vllm|sglang|trtllm|llamacpp''))
     (andThen (failIf (cl_KvDpRankCount l < 0 \<or> cl_KvDpRankCount l > 8) (Text ''--kv-dp-ranks must be within 1..8 (0 = default 1)''))
     (andThen (failIf (cl_KvZmqPort l < 0 \<or> cl_KvZmqPort l > 65535) (Text ''--kv-zmq-port must be within 1..65535 (0 = server default)''))
     (andThen (failIf (cl_KvBlockSize l < 0 \<or> cl_KvWarmupSec l < 0) (Text ''--kv-block-size and --kv-warmup must be non-negative''))
     (andThen (failIf (cl_KvExactMode l \<notin> {0, 1, 3}) (Text ''--kv-exact-mode must be one of 0|1|3''))
     (andThen (failIf (cl_KvExactMode l = 1 \<and> \<not> cl_PdDisaggMode l) (Text ''--kv-exact-mode=1 requires --pd-disagg''))
     (andThen (failIf (cl_KvExactMode l = 3 \<and> cl_PdDisaggMode l) (Text ''--kv-exact-mode=3 is incompatible with --pd-disagg''))
     (andThen (failIf (cl_KvExactMode l \<in> {1, 3} \<and> cl_KvDpRankCount l > 0 \<and> kv_last_port l > 65535)
         (Text ''--kv-zmq-port + --kv-dp-ranks - 1 must be <= 65535''))
     (andThen (validateKVHashForEngine (cl_KvHashAlgo l) engine)
     (andThen (failIf (cl_PdBootstrapPort l < 0 \<or> cl_PdBootstrapPort l > 65535) (Text ''--pd-bootstrap-port must be within 0..65535''))
     (andThen (failIf (cl_PdBootstrapPort l \<noteq> 0 \<and> \<not> (cl_PdDisaggMode l \<and> engine = ''sglang''))
         (Text ''--pd-bootstrap-port requires --pd-disagg and --kv-engine-type=sglang''))
     (andThen (failIf (cl_PdPrefillTimeoutSec l < 0 \<or> cl_PdPrefillTimeoutSec l > 3600) (Text ''--pd-prefill-timeout must be within 0..3600''))
     (andThen (failIf (cl_PdPrefillTimeoutSec l \<noteq> 0 \<and> \<not> cl_PdDisaggMode l) (Text ''--pd-prefill-timeout requires --pd-disagg''))
     (andThen (if cl_PdDisaggMode l then role_scan False False (cl_EpRoles l) else None)
        (engine_limits l engine)))))))))))))))"

definition check_auth :: "createLoadBalancerOptions \<Rightarrow> msg option" where
  "check_auth l =
     (if cl_APIKeyAuth l \<notin> {[], ''disabled'', ''required'', ''jwt'', ''apikey-or-jwt''} then
        Some (Text ''--api-key-auth must be one of disabled|required|jwt|apikey-or-jwt'')
      else if cl_APIKeyAuth l = ''jwt'' \<or> cl_APIKeyAuth l = ''apikey-or-jwt'' then
        failIf (trim_space (cl_JWTAuthProfile l) = [] \<or> length (cl_JWTAuthProfile l) > 63)
          (Text ''--jwt-auth-profile requires a configured profile name of at most 63 bytes for JWT modes'')
      else failIf (cl_JWTAuthProfile l \<noteq> []) (Text ''--jwt-auth-profile requires --api-key-auth jwt|apikey-or-jwt''))"

definition validateLBAIOptions :: "createLoadBalancerOptions \<Rightarrow> msg option" where
  "validateLBAIOptions l =
     andThen (check_auth l)
    (andThen (validateEppOptions l)
    (andThen (outside ''--sockmap-mode'' (cl_SockMapMode l) [''off'', ''request'', ''response'', ''both''])
    (andThen (validateFcQueueOptions l)
    (andThen (validateBackendTLSOptions l)
       (if \<not> lbAIRequested l then None
        else andThen (failIf (ModeToNum (cl_Mode l) \<noteq> 4) (Text (''AI features require '' @ [CHR 0x27] @ ''--mode fullproxy'' @ [CHR 0x27])))
          (andThen (failIf (cl_PdCacheAwareMode l \<and> \<not> cl_PdDisaggMode l) (Text ''--pd-cache-aware requires --pd-disagg''))
             (validateKVEngineOptions l)))))))"

text \<open>The gates in their order; the warnings of the gates that let the request pass go to standard error.\<close>

definition lb_gates :: "createLoadBalancerOptions \<Rightarrow> string list" where
  "lb_gates l =
     (if lbBandsRequested l then [''bands''] else [])
     @ (if cl_AiDefaultReservation l \<noteq> [] \<or> cl_AiDefaultMaxTokensSet l then [''reservation''] else [])
     @ (if cl_AiObjectiveStrictSet l then [''objectives''] else [])"

fun pass_gates :: "peer \<Rightarrow> restOptions \<Rightarrow> string list \<Rightarrow> msg list \<Rightarrow> gate_state \<Rightarrow> (cliError option \<times> msg list) \<times> gate_state" where
  "pass_gates peer o' [] warn st = ((None, warn), st)"
| "pass_gates peer o' (feature # features) warn st =
     (case Require peer o' feature ''create lb'' st of
        ((Some e, w), st') \<Rightarrow> ((Some e, warn), st')
      | ((None, w), st') \<Rightarrow> pass_gates peer o' features (warn @ (case w of None \<Rightarrow> [] | Some m \<Rightarrow> [m])) st')"

definition requireLBFeatures :: "peer \<Rightarrow> restOptions \<Rightarrow> createLoadBalancerOptions \<Rightarrow> gate_state \<Rightarrow> (cliError option \<times> msg list) \<times> gate_state" where
  "requireLBFeatures peer o' l st =
     (case pass_gates peer o' (lb_gates l) [] st of
        ((Some e, warn), st') \<Rightarrow> ((Some e, warn), st')
      | ((None, warn), st') \<Rightarrow>
          if cl_EppEndpoint l = [] then ((None, warn), st')
          else (case RequireAdvertised peer o' ''epp'' ''create lb'' st' of (e, st'') \<Rightarrow> ((e, warn), st'')))"

subsection \<open>What accepted options guarantee\<close>

lemma above_None: "above flag v c = None \<longleftrightarrow> v \<le> c"
  by (auto simp: above_def)

lemma outside_None: "outside flag v allowed = None \<longleftrightarrow> v = [] \<or> v \<in> set allowed"
  by (simp add: outside_def)

lemmas lb_refusals = above_None outside_None

lemma role_scan_None:
  "role_scan p d roles = None \<longleftrightarrow>
     (\<forall>r \<in> set roles. \<exists>v. EpRoleToNum r = Inr v) \<and> (p \<or> (\<exists>r \<in> set roles. EpRoleToNum r = Inr 1)) \<and> (d \<or> (\<exists>r \<in> set roles. EpRoleToNum r = Inr 2))"
  by (induction p d roles rule: role_scan.induct) (auto split: sum.splits)

lemma band_options_bounds:
  assumes "validateFcBandOptions l = None"
  shows "cl_FcCriticalReservePct l \<le> 100" "cl_AiDefaultMaxTokens l \<le> 100000000"
    and "cl_FcBandWeightsSet l \<Longrightarrow> v \<in> set (triple_values (cl_FcBandWeights l)) \<Longrightarrow> v \<le> 62"
    and "cl_FcBandMinSharePctSet l \<Longrightarrow> v \<in> set (triple_values (cl_FcBandMinSharePct l)) \<Longrightarrow> v \<le> 100"
    and "cl_FcBandQueuePctSet l \<Longrightarrow> v \<in> set (triple_values (cl_FcBandQueuePct l)) \<Longrightarrow> v \<le> 100"
    and "cl_FcBandWaitMsSet l \<Longrightarrow> v \<in> set (triple_values (cl_FcBandWaitMs l)) \<Longrightarrow> v \<le> 3600000"
  using assms by (auto simp: validateFcBandOptions_def lb_refusals lb_ceilings band_triples_def list_ex_iff not_less)

lemma queue_options_bounds:
  assumes "validateFcQueueOptions l = None"
  shows "cl_FcMaxQueueDepth l \<le> 65536 \<and> cl_FcMaxQueueWaitMs l \<le> 3600000 \<and> cl_FcMaxOutstanding l \<le> 100000 \<and> cl_FcEpMaxInflight l \<le> 100000
    \<and> cl_FcPrefillMaxInflight l \<le> 100000 \<and> cl_FcDecodeMaxInflight l \<le> 100000 \<and> cl_FcTelemetryStaleMs l \<le> 3600000
    \<and> cl_FcWarmupMs l \<le> 3600000 \<and> cl_FcTtftTargetMs l \<le> 3600000 \<and> cl_FcTenantMaxSharePct l \<le> 100
    \<and> (cl_FcMaxQueueDepth l > 0 \<and> cl_FcMaxQueueWaitMsSet l \<longrightarrow> cl_FcMaxQueueWaitMs l > 0)"
  using assms by (auto simp: validateFcQueueOptions_def lb_refusals lb_ceilings inflight_caps_def word_gt_0)

lemma engine_options_ports:
  assumes "validateKVEngineOptions l = None"
  shows "0 \<le> cl_KvZmqPort l \<and> cl_KvZmqPort l \<le> 65535 \<and> 0 \<le> cl_KvDpRankCount l \<and> cl_KvDpRankCount l \<le> 8
    \<and> 0 \<le> cl_PdBootstrapPort l \<and> cl_PdBootstrapPort l \<le> 65535 \<and> 0 \<le> cl_PdPrefillTimeoutSec l \<and> cl_PdPrefillTimeoutSec l \<le> 3600
    \<and> (cl_KvExactMode l \<noteq> 0 \<and> cl_KvDpRankCount l > 0 \<longrightarrow> kv_last_port l \<le> 65535)"
  using assms by (auto simp: validateKVEngineOptions_def Let_def)

lemma engine_options_roles:
  assumes "validateKVEngineOptions l = None" "cl_PdDisaggMode l"
  shows "(\<exists>r \<in> set (cl_EpRoles l). EpRoleToNum r = Inr 1) \<and> (\<exists>r \<in> set (cl_EpRoles l). EpRoleToNum r = Inr 2)"
  using assms by (auto simp: validateKVEngineOptions_def Let_def role_scan_None)

lemma ai_options_parts:
  assumes "validateLBAIOptions l = None"
  shows "validateFcQueueOptions l = None" "validateBackendTLSOptions l = None" "validateEppOptions l = None" "check_auth l = None"
    and "lbAIRequested l \<Longrightarrow> cl_Mode l = ''fullproxy'' \<and> validateKVEngineOptions l = None"
  using assms by (auto simp: validateLBAIOptions_def ModeToNum_def split: if_splits)

end
