(* ===== verification/JsonPrint.thy ===== *)
theory JsonPrint
  imports Json
begin

section \<open>Printing JSON as \<open>json.Marshal\<close> does, and reading it back\<close>

text \<open>
  The encoder of \<open>encoding/json\<close> on a JSON value: compact, with the escapes of its string writer (the
  characters HTML gives a meaning and the line separators of JavaScript escaped, invalid UTF-8 replaced),
  and the round trip through the lexer and the parser for values of any size.
\<close>

subsection \<open>String literals\<close>

definition plain_char :: "char \<Rightarrow> bool" where
  "plain_char c \<longleftrightarrow> 32 \<le> byte c \<and> byte c < 128 \<and> c \<noteq> quote_char \<and> c \<noteq> backslash \<and> c \<notin> set ''<>&''"

definition short_escapes :: "(char \<times> char) list" where
  "short_escapes = [(quote_char, quote_char), (backslash, backslash), (CHR 0x08, CHR ''b''), (CHR 0x0C, CHR ''f''),
     (CHR 0x0A, CHR ''n''), (CHR 0x0D, CHR ''r''), (CHR 0x09, CHR ''t'')]"

text \<open>One ASCII character of a literal.\<close>

definition escape_ascii :: "char \<Rightarrow> string" where
  "escape_ascii c =
     (if plain_char c then [c]
      else case map_of short_escapes c of
        Some e \<Rightarrow> [backslash, e]
      | None \<Rightarrow> [backslash, CHR ''u'', CHR ''0'', CHR ''0'', hex_digit (byte c div 16), hex_digit (byte c mod 16)])"

definition separator :: "char \<Rightarrow> string" where
  "separator c = [CHR 0xE2, CHR 0x80, c]"

function json_escape :: "string \<Rightarrow> string" where
  "json_escape [] = []"
| "json_escape (c # cs) =
     (if byte c < 128 then escape_ascii c @ json_escape cs
      else if utf8_size (c # cs) = 0 then [backslash, CHR ''u'', CHR ''f'', CHR ''f'', CHR ''f'', CHR ''d''] @ json_escape cs
      else if has_prefix (separator (CHR 0xA8)) (c # cs) then [backslash, CHR ''u'', CHR ''2'', CHR ''0'', CHR ''2'', CHR ''8''] @ json_escape (drop 2 cs)
      else if has_prefix (separator (CHR 0xA9)) (c # cs) then [backslash, CHR ''u'', CHR ''2'', CHR ''0'', CHR ''2'', CHR ''9''] @ json_escape (drop 2 cs)
      else take (utf8_size (c # cs)) (c # cs) @ json_escape (drop (utf8_size (c # cs) - 1) cs))"
  by pat_completeness auto
termination
  by (relation "measure length") (auto simp: less_Suc_eq_le)

declare json_escape.simps [simp del]

function valid_utf8 :: "string \<Rightarrow> bool" where
  "valid_utf8 [] = True"
| "valid_utf8 (c # cs) = (utf8_size (c # cs) \<noteq> 0 \<and> valid_utf8 (drop (utf8_size (c # cs) - 1) cs))"
  by pat_completeness auto
termination
  by (relation "measure length") (auto simp: less_Suc_eq_le)

declare valid_utf8.simps(2) [simp del]

fun print_json :: "json \<Rightarrow> string" where
  "print_json JNull = ''null''"
| "print_json (JBool b) = (if b then ''true'' else ''false'')"
| "print_json (JNum x) = x"
| "print_json (JStr s) = quote_char # json_escape s @ [quote_char]"
| "print_json (JArr vs) = CHR ''['' # join '','' (map print_json vs) @ '']''"
| "print_json (JObj ms) =
     CHR ''{'' # join '','' (map (\<lambda>(k, v). quote_char # json_escape k @ quote_char # CHR '':'' # print_json v) ms) @ ''}''"

fun tokens :: "json \<Rightarrow> tok list" where
  "tokens JNull = [TNull]"
| "tokens (JBool b) = [if b then TTrue else TFalse]"
| "tokens (JNum x) = [TNum x]"
| "tokens (JStr s) = [TStr s]"
| "tokens (JArr vs) = TLBrack # join [TComma] (map tokens vs) @ [TRBrack]"
| "tokens (JObj ms) = TLBrace # join [TComma] (map (\<lambda>(k, v). TStr k # TColon # tokens v) ms) @ [TRBrace]"

definition plain_nat :: "string \<Rightarrow> bool" where
  "plain_nat s \<longleftrightarrow> s \<noteq> [] \<and> list_all is_digit s \<and> (hd s = CHR ''0'' \<longrightarrow> s = ''0'')"

text \<open>The numerals of Go's integer types.\<close>

definition plain_num :: "string \<Rightarrow> bool" where
  "plain_num s \<longleftrightarrow> plain_nat s \<or> (s \<noteq> [] \<and> hd s = CHR ''-'' \<and> plain_nat (tl s))"

fun plain :: "json \<Rightarrow> bool" where
  "plain (JNum x) = plain_num x"
| "plain (JStr s) = valid_utf8 s"
| "plain (JArr vs) = (\<forall>v\<in>set vs. plain v)"
| "plain (JObj ms) = (\<forall>p\<in>set ms. valid_utf8 (fst p) \<and> plain (snd p))"
| "plain _ = True"

fun depth :: "json \<Rightarrow> int" where
  "depth (JArr vs) = 1 + foldr (\<lambda>v. max (depth v)) vs 0"
| "depth (JObj ms) = 1 + foldr (\<lambda>p. max (depth (snd p))) ms 0"
| "depth _ = 0"

lemma plain_valid_utf8: "list_all plain_char s \<Longrightarrow> valid_utf8 s"
  by (induction s) (auto simp: plain_char_def valid_utf8.simps)

lemma json_escape_plain: "list_all plain_char s \<Longrightarrow> json_escape s = s"
  by (induction s) (auto simp: plain_char_def json_escape.simps escape_ascii_def)

subsection \<open>The lexer reads what the printer wrote\<close>

text \<open>A part of a literal's text that the scanner scans_over over whole.\<close>

definition scans_over :: "string \<Rightarrow> bool" where
  "scans_over a \<longleftrightarrow> (\<forall>r. scan_raw (a @ r) = map_option (\<lambda>(x, y). (a @ x, y)) (scan_raw r))"

lemma scans_over_append: "scans_over a \<Longrightarrow> scans_over b \<Longrightarrow> scans_over (a @ b)"
  by (auto simp: scans_over_def option.map_comp comp_def case_prod_unfold)

lemma scans_over_nil [simp]: "scans_over []"
proof -
  have "scan_raw r = map_option (\<lambda>(x, y). ([] @ x, y)) (scan_raw r)" for r by (cases "scan_raw r") auto
  then show ?thesis by (simp add: scans_over_def)
qed

lemma scans_over_chars: "list_all (\<lambda>c. 32 \<le> byte c \<and> c \<noteq> quote_char \<and> c \<noteq> backslash) a \<Longrightarrow> scans_over a"
proof (induction a)
  case (Cons c a)
  then have "scans_over [c]" by (simp add: scans_over_def)
  with Cons show ?case using scans_over_append [of "[c]" a] by simp
qed simp

lemma scans_over_escape: "map_of simple_escapes e \<noteq> None \<Longrightarrow> scans_over [backslash, e]"
  by (auto simp: scans_over_def)

lemma scans_over_unicode: "list_all is_hex [a, b, c, d] \<Longrightarrow> scans_over [backslash, CHR ''u'', a, b, c, d]"
  by (simp add: scans_over_def simple_escapes_def)

lemma hex_digit_val: "n < 16 \<Longrightarrow> is_hex (hex_digit n) \<and> hex_val (hex_digit n) = n"
  by (auto simp: hex_digit_def is_hex_def hex_val_def is_digit_def)

lemma escape_ascii_cases:
  assumes "byte c < 128"
  obtains (plain) "plain_char c" "escape_ascii c = [c]"
    | (short) e where "map_of short_escapes c = Some e" "escape_ascii c = [backslash, e]"
    | (long) "escape_ascii c = [backslash, CHR ''u'', CHR ''0'', CHR ''0'', hex_digit (byte c div 16), hex_digit (byte c mod 16)]"
  using assms by (cases "plain_char c"; cases "map_of short_escapes c") (auto simp: escape_ascii_def)

lemma short_escapes_read: "map_of short_escapes c = Some e \<Longrightarrow> map_of simple_escapes e = Some c \<and> e \<noteq> CHR ''u''"
  by (auto simp: short_escapes_def simple_escapes_def split: if_splits)

lemma escape_ascii_scanned:
  assumes "byte c < 128"
  shows "scans_over (escape_ascii c)"
  using assms
proof (cases rule: escape_ascii_cases)
  case plain
  then show ?thesis by (simp add: scans_over_chars plain_char_def)
next
  case (short e)
  then show ?thesis using short_escapes_read [OF short(1)] by (simp add: scans_over_escape)
next
  case long
  have "is_hex (hex_digit (byte c div 16))" "is_hex (hex_digit (byte c mod 16))" using assms by (simp_all add: hex_digit_val)
  with long show ?thesis by (simp add: scans_over_unicode is_hex_def is_digit_def)
qed

text \<open>A part of a literal's text that stands for \<open>s\<close>, whatever follows.\<close>

definition stands_for :: "string \<Rightarrow> string \<Rightarrow> bool" where
  "stands_for a s \<longleftrightarrow> (\<forall>r. unquote (a @ r) = s @ unquote r)"

lemma stands_for_append: "stands_for a s \<Longrightarrow> stands_for b t \<Longrightarrow> stands_for (a @ b) (s @ t)"
  by (simp add: stands_for_def)

lemma stands_for_unicode:
  assumes "hex4 [a, b, c, d] = n" "n < 55296"
  shows "stands_for [backslash, CHR ''u'', a, b, c, d] (encode_rune n)"
proof -
  have "hex4 (a # b # c # d # r) = n" for r using assms(1) by (simp add: hex4_def)
  with assms(2) show ?thesis by (simp add: stands_for_def unquote.simps Let_def)
qed

lemma stands_for_ascii:
  assumes "byte c < 128"
  shows "stands_for (escape_ascii c) [c]"
  using assms
proof (cases rule: escape_ascii_cases)
  case plain
  then show ?thesis by (auto simp: stands_for_def unquote.simps plain_char_def)
next
  case (short e)
  then show ?thesis using short_escapes_read [OF short(1)] by (simp add: stands_for_def unquote.simps)
next
  case long
  let ?a = "hex_digit (byte c div 16)" and ?b = "hex_digit (byte c mod 16)"
  have "hex_val ?a = byte c div 16" "hex_val ?b = byte c mod 16" using assms by (simp_all add: hex_digit_val)
  then have h: "hex4 [CHR ''0'', CHR ''0'', ?a, ?b] = byte c" by (simp add: hex4_def hex_val_def is_digit_def)
  with assms have "stands_for (escape_ascii c) (encode_rune (byte c))" using stands_for_unicode [OF h] long by simp
  with assms show ?thesis by (simp add: encode_rune_def)
qed

text \<open>A code point beyond ASCII: its bytes are all high, and the size depends on them alone.\<close>

lemma utf8_high:
  assumes "128 \<le> byte c" "utf8_size (c # cs) = n" "n \<noteq> 0"
  shows "\<exists>hs t. c # cs = hs @ t \<and> length hs = n \<and> list_all (\<lambda>x. 128 \<le> byte x) hs \<and> (\<forall>r. utf8_size (hs @ r) = n)"
proof -
  consider (two) "n = 2" | (three) "n = 3" | (four) "n = 4" using assms by (auto split: if_splits)
  then show ?thesis
  proof cases
    case two
    with assms obtain a t where "cs = a # t" by (cases cs) (auto split: if_splits)
    with two assms show ?thesis by (intro exI [of _ "[c, a]"] exI [of _ t]) (auto simp: is_cont_def split: if_splits)
  next
    case three
    have lead: "224 \<le> byte c \<and> byte c < 240" "2 \<le> length cs" using three assms by (auto split: if_splits)
    then obtain a b t where cs: "cs = a # b # t" by (auto simp: Suc_le_length_iff numeral_2_eq_2)
    have tail: "is_cont a \<and> is_cont b \<and> (byte c = 224 \<longrightarrow> 160 \<le> byte a) \<and> (byte c = 237 \<longrightarrow> byte a < 160)"
      using lead three assms(2) by (simp add: cs split: if_splits)
    then have "utf8_size ([c, a, b] @ r) = 3" for r using lead by simp
    moreover have "list_all (\<lambda>x. 128 \<le> byte x) [c, a, b]" using lead tail by (simp add: is_cont_def)
    ultimately show ?thesis using three cs by (intro exI [of _ "[c, a, b]"] exI [of _ t]) simp
  next
    case four
    have lead: "240 \<le> byte c \<and> byte c < 245" "3 \<le> length cs" using four assms by (auto split: if_splits)
    then obtain a b d t where cs: "cs = a # b # d # t" by (auto simp: Suc_le_length_iff numeral_3_eq_3)
    have tail: "is_cont a \<and> is_cont b \<and> is_cont d \<and> (byte c = 240 \<longrightarrow> 144 \<le> byte a) \<and> (byte c = 244 \<longrightarrow> byte a < 144)"
      using lead four assms(2) by (simp add: cs split: if_splits)
    then have "utf8_size ([c, a, b, d] @ r) = 4" for r using lead by simp
    moreover have "list_all (\<lambda>x. 128 \<le> byte x) [c, a, b, d]" using lead tail by (simp add: is_cont_def)
    ultimately show ?thesis using four cs by (intro exI [of _ "[c, a, b, d]"] exI [of _ t]) simp
  qed
qed

lemma stands_for_rune:
  assumes "128 \<le> byte c" "utf8_size (c # cs) \<noteq> 0" "r = take (utf8_size (c # cs)) (c # cs)"
  shows "scans_over r \<and> stands_for r r"
proof -
  obtain hs t where h: "c # cs = hs @ t" "length hs = utf8_size (c # cs)" "list_all (\<lambda>x. 128 \<le> byte x) hs"
      "\<forall>r. utf8_size (hs @ r) = utf8_size (c # cs)"
    using utf8_high [OF assms(1) refl assms(2)] by blast
  have r: "r = hs" using h(1,2) assms(3) by simp
  obtain hs' where hs: "hs = c # hs'" using h(1,2) assms(2) by (cases hs) auto
  have "scans_over hs" using h(3) by (intro scans_over_chars) (auto simp: list_all_iff)
  moreover have "stands_for hs hs"
    unfolding stands_for_def
  proof
    fix x
    have u: "utf8_size (c # hs' @ x) = Suc (length hs')" using h(2,4) hs by simp
    have "c \<noteq> backslash" using assms(1) by auto
    with u show "unquote (hs @ x) = hs @ unquote x" by (simp add: hs unquote.simps(2))
  qed
  ultimately show ?thesis by (simp add: r)
qed

lemma separator_rune: "encode_rune 8232 = separator (CHR 0xA8)" "encode_rune 8233 = separator (CHR 0xA9)"
  by (simp_all add: encode_rune_def separator_def char_of_def bit_0)

lemma escape_read: "valid_utf8 s \<Longrightarrow> scans_over (json_escape s) \<and> stands_for (json_escape s) s"
proof (induction s rule: json_escape.induct)
  case 1
  then show ?case by (simp add: json_escape.simps stands_for_def)
next
  case (2 c cs)
  show ?case
  proof (cases "byte c < 128")
    case True
    with 2 have "scans_over (json_escape cs) \<and> stands_for (json_escape cs) cs" by (simp add: valid_utf8.simps)
    with True show ?thesis
      using scans_over_append [OF escape_ascii_scanned] stands_for_append [OF stands_for_ascii, of c "json_escape cs" cs]
      by (simp add: json_escape.simps(2))
  next
    case False
    let ?n = "utf8_size (c # cs)"
    have n: "?n \<noteq> 0" "valid_utf8 (drop (?n - 1) cs)" using "2.prems" by (simp_all add: valid_utf8.simps(2) del: utf8_size.simps)
    consider (js) x where "x = CHR 0xA8 \<or> x = CHR 0xA9" "has_prefix (separator x) (c # cs)"
      | (other) "\<not> has_prefix (separator (CHR 0xA8)) (c # cs)" "\<not> has_prefix (separator (CHR 0xA9)) (c # cs)" by blast
    then show ?thesis
    proof cases
      case js
      then obtain t where t: "c # cs = separator x @ t" by (auto simp: has_prefix_iff)
      let ?e = "[backslash, CHR ''u'', CHR ''2'', CHR ''0'', CHR ''2'', if x = CHR 0xA8 then CHR ''8'' else CHR ''9'']"
      have size: "?n = 3" using js(1) by (auto simp: t separator_def is_cont_def)
      have "json_escape (c # cs) = ?e @ json_escape t"
        using js(1) t False by (auto simp: json_escape.simps(2) separator_def is_cont_def)
      moreover have "scans_over (json_escape t) \<and> stands_for (json_escape t) t"
        using "2.IH" False n size js t by (auto simp: separator_def)
      moreover have "scans_over ?e" by (rule scans_over_unicode) (auto simp: is_hex_def is_digit_def)
      moreover have "stands_for ?e (separator x)"
        using stands_for_unicode [of "CHR ''2''" "CHR ''0''" "CHR ''2''" "if x = CHR 0xA8 then CHR ''8'' else CHR ''9''" "if x = CHR 0xA8 then 8232 else 8233"] js(1)
        by (auto simp: hex4_def hex_val_def is_digit_def separator_rune)
      ultimately show ?thesis using t scans_over_append stands_for_append by metis
    next
      case other
      let ?r = "take ?n (c # cs)" and ?t = "drop (?n - 1) cs"
      have "json_escape (c # cs) = ?r @ json_escape ?t" using other False n by (simp add: json_escape.simps(2) del: utf8_size.simps)
      moreover have "scans_over (json_escape ?t) \<and> stands_for (json_escape ?t) ?t" using "2.IH"(5) other False n by blast
      moreover have "scans_over ?r \<and> stands_for ?r ?r" using stands_for_rune [OF _ n(1) refl] False by (simp del: utf8_size.simps)
      moreover have "c # cs = ?r @ ?t" using n(1) by (cases ?n) (simp_all del: utf8_size.simps)
      ultimately show ?thesis using scans_over_append stands_for_append by metis
    qed
  qed
qed

lemma lex_string: "valid_utf8 s \<Longrightarrow> lex (quote_char # json_escape s @ quote_char # r) = TStr s # lex r"
proof -
  assume "valid_utf8 s"
  then have e: "scans_over (json_escape s)" "stands_for (json_escape s) s" using escape_read by auto
  have "unquote (json_escape s @ []) = s @ unquote []" using e(2) unfolding stands_for_def by blast
  with e(1) show ?thesis by (simp add: lex.simps(2) [of quote_char] is_json_space_def scans_over_def unquote.simps(1))
qed

definition closes :: "string \<Rightarrow> bool" where
  "closes r \<longleftrightarrow> r = [] \<or> hd r \<in> {CHR '','', CHR '']'', CHR ''}''}"

lemma scan_num_nat:
  assumes "plain_nat x" "closes r"
  shows "scan_num (x @ r) = Some (x, r) \<and> scan_num (CHR ''-'' # x @ r) = Some (CHR ''-'' # x, r)"
proof -
  have nd: "r = [] \<or> \<not> is_digit (hd r)" and sep: "r = [] \<or> hd r \<notin> {CHR ''.'', CHR ''e'', CHR ''E''}"
    using assms(2) by (auto simp: closes_def is_digit_def)
  obtain c cs where x: "x = c # cs" "is_digit c" "list_all is_digit cs"
    using assms(1) by (cases x) (auto simp: plain_nat_def)
  have tw: "takeWhile is_digit (x @ r) = x" "dropWhile is_digit (x @ r) = r"
    using x nd by (cases r; auto simp: list_all_iff takeWhile_append dropWhile_append)+
  have "scan_int (x @ r) = Some (x, r)"
    using x tw assms(1) by (auto simp: scan_int_def plain_nat_def)
  moreover have "scan_frac r = Some ([], r)" "scan_exp r = Some ([], r)"
    using sep by (auto simp: scan_frac_def scan_exp_def split: list.splits)
  moreover have "hd (x @ r) \<noteq> CHR ''-''" using x by (auto simp: is_digit_def)
  ultimately show ?thesis by (simp add: scan_num_def)
qed

lemma lex_num:
  assumes "plain_num x" "closes r"
  shows "lex (x @ r) = TNum x # lex r"
proof -
  obtain c cs where x: "x = c # cs" "is_digit c \<or> c = CHR ''-''" and n: "scan_num (x @ r) = Some (x, r)"
  proof -
    consider "plain_nat x" | y where "x = CHR ''-'' # y" "plain_nat y" using assms(1) by (cases x) (auto simp: plain_num_def)
    then show thesis
    proof cases
      case 1
      then show thesis using scan_num_nat [OF 1 assms(2)] by (cases x) (auto simp: plain_nat_def intro: that)
    next
      case 2
      then show thesis using scan_num_nat [OF 2(2) assms(2)] by (auto intro: that)
    qed
  qed
  from x have "c \<notin> {CHR '' '', CHR 0x09, CHR 0x0A, CHR 0x0D, quote_char, CHR ''{'', CHR ''}'', CHR ''['', CHR '']'', CHR '':'', CHR '','',
      CHR ''n'', CHR ''t'', CHR ''f''}"
    by (auto simp: is_digit_def)
  with x n show ?thesis
    by (auto simp: lex.simps(2) [of c] is_json_space_def punctuation_def)
qed

lemma lex_punct: "map_of punctuation c = Some t \<Longrightarrow> lex (c # r) = t # lex r"
  by (auto simp: lex.simps(2) punctuation_def is_json_space_def split: if_splits)

lemma lex_word:
  "lex (''null'' @ r) = TNull # lex r" "lex (''true'' @ r) = TTrue # lex r" "lex (''false'' @ r) = TFalse # lex r"
  by (simp_all add: lex.simps(2) punctuation_def is_json_space_def)

lemma punct_simps [simp]:
  "lex (CHR '','' # r) = TComma # lex r" "lex (CHR ''['' # r) = TLBrack # lex r" "lex (CHR '']'' # r) = TRBrack # lex r"
  "lex (CHR ''{'' # r) = TLBrace # lex r" "lex (CHR ''}'' # r) = TRBrace # lex r" "lex (CHR '':'' # r) = TColon # lex r"
  by (rule lex_punct, simp add: punctuation_def)+

lemma lex_join:
  assumes "\<forall>x\<in>set xs. \<forall>r. closes r \<longrightarrow> lex (f x @ r) = g x @ lex r" "closes r"
  shows "lex (join '','' (map f xs) @ r) = join [TComma] (map g xs) @ lex r"
  using assms
proof (induction xs rule: induct_list012)
  case (3 x y zs)
  have "closes (CHR '','' # join '','' (map f (y # zs)) @ r)" by (simp add: closes_def)
  with 3 show ?case by simp
qed auto

lemma lex_print: "plain v \<Longrightarrow> closes r \<Longrightarrow> lex (print_json v @ r) = tokens v @ lex r"
proof (induction v arbitrary: r)
  case (JArr vs)
  have "lex (join '','' (map print_json vs) @ CHR '']'' # r) = join [TComma] (map tokens vs) @ lex (CHR '']'' # r)"
    using JArr by (intro lex_join) (auto simp: closes_def)
  then show ?case by simp
next
  case (JObj ms)
  let ?f = "\<lambda>(k, v). quote_char # json_escape k @ quote_char # CHR '':'' # print_json v"
  let ?g = "\<lambda>(k, v). TStr k # TColon # tokens v"
  have "lex (?f p @ r) = ?g p @ lex r" if "p \<in> set ms" "closes r" for p r
  proof -
    obtain k v where p: "p = (k, v)" by (cases p)
    have "lex (print_json v @ r) = tokens v @ lex r"
      using JObj.IH [of p v r] JObj.prems that by (auto simp: p)
    moreover have "valid_utf8 k" using JObj.prems that by (auto simp: p)
    ultimately show ?thesis
      using lex_string [of k "CHR '':'' # print_json v @ r"] by (simp add: p)
  qed
  then have "lex (join '','' (map ?f ms) @ CHR ''}'' # r) = join [TComma] (map ?g ms) @ lex (CHR ''}'' # r)"
    by (intro lex_join) (auto simp: closes_def)
  then show ?case by simp
next
  case (JStr s)
  then show ?case using lex_string [of s r] by simp
qed (use lex_word lex_num in auto)

subsection \<open>The parser reads the tokens\<close>

lemma tokens_head: "\<exists>t ts. tokens v = t # ts \<and> t \<noteq> TRBrack \<and> t \<noteq> TRBrace"
  by (cases v) auto

lemma join_head: "xs \<noteq> [] \<Longrightarrow> \<forall>x\<in>set xs. \<exists>t ts. x = t # ts \<and> P t \<Longrightarrow> \<exists>t ts. join sep xs @ r = t # ts \<and> P t"
  by (cases "(sep, xs)" rule: join.cases) auto

lemma parse_elems_tokens:
  assumes "vs \<noteq> []" "\<forall>v\<in>set vs. \<forall>r. \<exists>n. parse_value n d (tokens v @ r) = Some (v, r)"
  shows "\<exists>n. parse_elems n d (join [TComma] (map tokens vs) @ TRBrack # r) = Some (vs, r)"
  using assms
proof (induction vs rule: induct_list012)
  case (2 v)
  then obtain n where "parse_value n d (tokens v @ TRBrack # r) = Some (v, TRBrack # r)" by auto
  then show ?case by (intro exI [of _ "Suc n"]) (simp add: parse_elems.simps)
next
  case (3 v w zs)
  let ?t = "join [TComma] (map tokens (w # zs)) @ TRBrack # r"
  obtain n1 where n1: "parse_value n1 d (tokens v @ TComma # ?t) = Some (v, TComma # ?t)"
    using bspec [OF 3(4), of v] by (meson list.set_intros(1))
  obtain n2 where n2: "parse_elems n2 d ?t = Some (w # zs, r)" using 3(2) 3(4) by fastforce
  let ?m = "max (2 * length (tokens v @ TComma # ?t)) (2 * length ?t)"
  have "parse_value ?m d (tokens v @ TComma # ?t) = Some (v, TComma # ?t)"
    by (rule fuel_okD(2) [OF fuel_ok_all n1]) simp
  moreover have "parse_elems ?m d ?t = Some (w # zs, r)"
    by (rule fuel_okD(4) [OF fuel_ok_all n2]) simp
  ultimately show ?case by (intro exI [of _ "Suc ?m"]) (simp add: parse_elems.simps)
qed simp

lemma parse_members_tokens:
  assumes "ms \<noteq> []" "\<forall>p\<in>set ms. \<forall>r. \<exists>n. parse_value n d (tokens (snd p) @ r) = Some (snd p, r)"
  shows "\<exists>n. parse_members n d (join [TComma] (map (\<lambda>(k, v). TStr k # TColon # tokens v) ms) @ TRBrace # r) = Some (ms, r)"
  using assms
proof (induction ms rule: induct_list012)
  case (2 p)
  obtain k v where p: "p = (k, v)" by (cases p)
  from 2 obtain n where "parse_value n d (tokens v @ TRBrace # r) = Some (v, TRBrace # r)" by (auto simp: p)
  then show ?case by (intro exI [of _ "Suc n"]) (simp add: parse_members.simps p)
next
  case (3 p q zs)
  obtain k v where p: "p = (k, v)" by (cases p)
  let ?t = "join [TComma] (map (\<lambda>(k, v). TStr k # TColon # tokens v) (q # zs)) @ TRBrace # r"
  obtain n1 where n1: "parse_value n1 d (tokens v @ TComma # ?t) = Some (v, TComma # ?t)"
    using bspec [OF 3(4), of p] unfolding p snd_conv by (meson list.set_intros(1))
  obtain n2 where n2: "parse_members n2 d ?t = Some (q # zs, r)" using 3(2) 3(4) by fastforce
  let ?m = "max (2 * length (tokens v @ TComma # ?t)) (2 * length ?t)"
  have "parse_value ?m d (tokens v @ TComma # ?t) = Some (v, TComma # ?t)"
    by (rule fuel_okD(2) [OF fuel_ok_all n1]) simp
  moreover have "parse_members ?m d ?t = Some (q # zs, r)"
    by (rule fuel_okD(6) [OF fuel_ok_all n2]) simp
  ultimately show ?case by (intro exI [of _ "Suc ?m"]) (simp add: parse_members.simps p)
qed simp

lemma foldr_max_upper: "x \<in> set xs \<Longrightarrow> f x \<le> foldr (\<lambda>y. max (f y)) xs (0 :: int)"
  by (induction xs) (auto simp: le_max_iff_disj)

lemma foldr_max_nonneg: "0 \<le> foldr (\<lambda>y. max (f y)) xs (0 :: int)"
  by (induction xs) (auto simp: le_max_iff_disj)

lemma parse_tokens: "depth v \<le> d \<Longrightarrow> \<exists>n. parse_value n d (tokens v @ r) = Some (v, r)"
proof (induction v arbitrary: d r)
  case (JArr vs)
  have d: "0 < d" using JArr.prems foldr_max_nonneg [of depth vs] by simp
  show ?case
  proof (cases "vs = []")
    case True
    with d show ?thesis by (intro exI [of _ 1]) (simp add: parse_value.simps)
  next
    case False
    have "\<forall>v\<in>set vs. \<forall>r. \<exists>n. parse_value n (d - 1) (tokens v @ r) = Some (v, r)"
    proof (intro ballI allI)
      fix v r assume v: "v \<in> set vs"
      then have "depth v \<le> d - 1" using JArr.prems foldr_max_upper [of v vs depth] by simp
      then show "\<exists>n. parse_value n (d - 1) (tokens v @ r) = Some (v, r)" using JArr.IH [OF v] by blast
    qed
    then obtain n where n: "parse_elems n (d - 1) (join [TComma] (map tokens vs) @ TRBrack # r) = Some (vs, r)"
      using parse_elems_tokens [OF False] by blast
    obtain t ts where "join [TComma] (map tokens vs) @ TRBrack # r = t # ts" "t \<noteq> TRBrack"
      using join_head [of "map tokens vs" "\<lambda>t. t \<noteq> TRBrack" "[TComma]" "TRBrack # r"] False tokens_head by (fastforce simp del: join.simps)
    with n d show ?thesis by (intro exI [of _ "Suc n"]) (simp add: parse_value.simps)
  qed
next
  case (JObj ms)
  let ?g = "\<lambda>(k, v). TStr k # TColon # tokens v"
  have d: "0 < d" using JObj.prems foldr_max_nonneg [of "\<lambda>p. depth (snd p)" ms] by simp
  show ?case
  proof (cases "ms = []")
    case True
    with d show ?thesis by (intro exI [of _ 1]) (simp add: parse_value.simps)
  next
    case False
    have "\<forall>p\<in>set ms. \<forall>r. \<exists>n. parse_value n (d - 1) (tokens (snd p) @ r) = Some (snd p, r)"
    proof (intro ballI allI)
      fix p r assume p: "p \<in> set ms"
      then have "depth (snd p) \<le> d - 1" using JObj.prems foldr_max_upper [of p ms "\<lambda>p. depth (snd p)"] by simp
      then show "\<exists>n. parse_value n (d - 1) (tokens (snd p) @ r) = Some (snd p, r)"
        using JObj.IH [OF p, of "snd p"] by (cases p) auto
    qed
    then obtain n where n: "parse_members n (d - 1) (join [TComma] (map ?g ms) @ TRBrace # r) = Some (ms, r)"
      using parse_members_tokens [OF False] by blast
    obtain t ts where "join [TComma] (map ?g ms) @ TRBrace # r = t # ts" "t \<noteq> TRBrace"
      using join_head [of "map ?g ms" "\<lambda>t. t \<noteq> TRBrace" "[TComma]" "TRBrace # r"] False by (fastforce simp del: join.simps)
    with n d show ?thesis by (intro exI [of _ "Suc n"]) (simp add: parse_value.simps)
  qed
qed (auto simp: parse_value.simps intro!: exI [of _ 1])

lemma parse_print:
  assumes "plain v" "depth v \<le> maxNestingDepth"
  shows "parse_json (print_json v) = Some v"
proof -
  have "lex (print_json v) = tokens v"
    using lex_print [OF assms(1), of "[]"] by (simp add: closes_def lex.simps(1))
  moreover obtain n where "parse_value n maxNestingDepth (tokens v @ []) = Some (v, [])"
    using parse_tokens [OF assms(2)] by blast
  ultimately show ?thesis
    by (auto simp: parse_json_def dest: parse_fuel_enough)
qed

text \<open>Go's integers are printed as numerals the decoder reads back.\<close>

lemma show_nat_head: "hd (show_nat n) = CHR ''0'' \<longleftrightarrow> n = 0"
proof (induction n rule: show_nat.induct)
  case (1 n)
  have "hd (show_nat n) = (if n < 10 then char_of (48 + n) else hd (show_nat (n div 10)))"
    by (subst show_nat.simps) simp
  moreover have "char_of (48 + n) = CHR ''0'' \<longleftrightarrow> n = 0" if "n < 10"
  proof
    assume "char_of (48 + n) = CHR ''0''"
    then have "byte (char_of (48 + n)) = byte (CHR ''0'')" by (rule arg_cong)
    with that show "n = 0" by simp
  qed (simp add: char_of_def bit_0)
  ultimately show ?case using 1 by auto
qed

lemma show_int_plain: "plain_num (show_int i)"
proof -
  have "plain_nat (show_nat n)" for n
    using show_nat_digits [of n] show_nat_head [of n] by (auto simp: plain_nat_def list_all_iff show_nat.simps [of 0])
  then show ?thesis by (simp add: show_int_def plain_num_def)
qed

lemma is_digit_simps_minus: "\<not> is_digit (CHR ''-'')"
  by (simp add: is_digit_def)

lemma parse_int64_show:
  assumes "- (2 ^ 63) \<le> i" "i < 2 ^ 63"
  shows "parse_int64 (show_int i) = Some i"
proof -
  have "is_digit (hd (show_nat n))" for n using show_nat_digits [of n] by simp
  then have "hd (show_nat n) \<noteq> CHR ''-''" for n by (metis is_digit_simps_minus)
  with assms show_nat_digits show ?thesis
    by (auto simp: parse_int64_def show_int_def dec_val_show_nat list_all_iff Let_def)
qed

end
