(* ===== verification/LbModel.thy ===== *)
theory LbModel
  imports LbOptions JsonPrint
begin

section \<open>The load-balancer model (\<open>pkg/api/loadBalancer.go\<close>) and its construction\<close>

text \<open>
  The structs of a rule with their JSON form, member by member in the order of the struct, and the functions of
  \<open>create_loadbalancer.go\<close> that fill them: port pairs, end points, roles and the options copied onto the service.
  A pointer is an option; a nil slice marshals to \<open>null\<close>, and the slices of the model are nil exactly when empty.
\<close>

definition jword :: "'a::len word \<Rightarrow> json" where
  "jword w = JNum (show_nat (unat w))"

definition jslice :: "json list \<Rightarrow> json" where
  "jslice js = (if js = [] then JNull else JArr js)"

text \<open>A member with \<open>omitempty\<close>, and one behind a pointer.\<close>

definition unless :: "bool \<Rightarrow> string \<Rightarrow> json \<Rightarrow> (string \<times> json) list" where
  "unless b k j = (if b then [] else [(k, j)])"

definition opt_member :: "string \<Rightarrow> ('a \<Rightarrow> json) \<Rightarrow> 'a option \<Rightarrow> (string \<times> json) list" where
  "opt_member k f v = (case v of None \<Rightarrow> [] | Some x \<Rightarrow> [(k, f x)])"

subsection \<open>The structs\<close>

record fcBandEffective =
  fd_Inflight :: "32 word"
  fd_Queued :: "32 word"
  fd_WaitMs :: "32 word"
  fd_QueuePct :: "32 word"
  fd_MinSharePct :: "32 word"
  fd_FloorUnits :: "32 word"
  fd_Weight :: "32 word"
  fd_WeightPct :: "32 word"

definition fcBandEffective_json :: "fcBandEffective \<Rightarrow> json" where
  "fcBandEffective_json x = JObj (concat
    [[(''inflight'', jword (fd_Inflight x))],
     [(''queued'', jword (fd_Queued x))],
     [(''wait_ms'', jword (fd_WaitMs x))],
     [(''queue_pct'', jword (fd_QueuePct x))],
     [(''min_share_pct'', jword (fd_MinSharePct x))],
     [(''floor_units'', jword (fd_FloorUnits x))],
     [(''weight'', jword (fd_Weight x))],
     [(''weight_pct'', jword (fd_WeightPct x))]])"

record fcEffectiveBands =
  fb_CriticalReservePct :: "32 word"
  fb_CriticalReserveUnits :: "32 word"
  fb_Critical :: fcBandEffective
  fb_Standard :: fcBandEffective
  fb_Sheddable :: fcBandEffective

definition fcEffectiveBands_json :: "fcEffectiveBands \<Rightarrow> json" where
  "fcEffectiveBands_json x = JObj (concat
    [[(''critical_reserve_pct'', jword (fb_CriticalReservePct x))],
     [(''critical_reserve_units'', jword (fb_CriticalReserveUnits x))],
     [(''critical'', fcBandEffective_json (fb_Critical x))],
     [(''standard'', fcBandEffective_json (fb_Standard x))],
     [(''sheddable'', fcBandEffective_json (fb_Sheddable x))]])"

record fcReservationHeld =
  fr_Kind :: string
  fr_Bucket :: string
  fr_Tokens :: int

definition fcReservationHeld_json :: "fcReservationHeld \<Rightarrow> json" where
  "fcReservationHeld_json x = JObj (concat
    [[(''kind'', JStr (fr_Kind x))],
     [(''bucket'', JStr (fr_Bucket x))],
     [(''tokens'', JNum (show_int (fr_Tokens x)))]])"

record fcEffectiveSource =
  fo_Mode :: string
  fo_MaxOutstanding :: string
  fo_EpMaxInflight :: string
  fo_PrefillMaxInflight :: string
  fo_DecodeMaxInflight :: string
  fo_QueueDepth :: string
  fo_QueueWaitMs :: string
  fo_TelemetryStaleMs :: string
  fo_Adaptive :: string
  fo_WarmupMs :: string
  fo_TtftTargetMs :: string
  fo_TenantMaxSharePct :: string
  fo_ExposeHeaders :: string
  fo_DefaultReservation :: string
  fo_DefaultMaxTokens :: string
  fo_WakePolicy :: string
  fo_BandWeights :: string
  fo_BandMinSharePct :: string
  fo_CriticalReservePct :: string
  fo_BandWaitMs :: string
  fo_BandQueuePct :: string
  fo_ShedQueue :: string
  fo_TenantWake :: string
  fo_LlmdHeaders :: string

definition fcEffectiveSource_json :: "fcEffectiveSource \<Rightarrow> json" where
  "fcEffectiveSource_json x = JObj (concat
    [unless (fo_Mode x = []) ''mode'' (JStr (fo_Mode x)),
     unless (fo_MaxOutstanding x = []) ''max_outstanding'' (JStr (fo_MaxOutstanding x)),
     unless (fo_EpMaxInflight x = []) ''ep_max_inflight'' (JStr (fo_EpMaxInflight x)),
     unless (fo_PrefillMaxInflight x = []) ''prefill_max_inflight'' (JStr (fo_PrefillMaxInflight x)),
     unless (fo_DecodeMaxInflight x = []) ''decode_max_inflight'' (JStr (fo_DecodeMaxInflight x)),
     unless (fo_QueueDepth x = []) ''queue_depth'' (JStr (fo_QueueDepth x)),
     unless (fo_QueueWaitMs x = []) ''queue_wait_ms'' (JStr (fo_QueueWaitMs x)),
     unless (fo_TelemetryStaleMs x = []) ''telemetry_stale_ms'' (JStr (fo_TelemetryStaleMs x)),
     unless (fo_Adaptive x = []) ''adaptive'' (JStr (fo_Adaptive x)),
     unless (fo_WarmupMs x = []) ''warmup_ms'' (JStr (fo_WarmupMs x)),
     unless (fo_TtftTargetMs x = []) ''ttft_target_ms'' (JStr (fo_TtftTargetMs x)),
     unless (fo_TenantMaxSharePct x = []) ''tenant_max_share_pct'' (JStr (fo_TenantMaxSharePct x)),
     unless (fo_ExposeHeaders x = []) ''expose_headers'' (JStr (fo_ExposeHeaders x)),
     unless (fo_DefaultReservation x = []) ''default_reservation'' (JStr (fo_DefaultReservation x)),
     unless (fo_DefaultMaxTokens x = []) ''default_max_tokens'' (JStr (fo_DefaultMaxTokens x)),
     unless (fo_WakePolicy x = []) ''wake_policy'' (JStr (fo_WakePolicy x)),
     unless (fo_BandWeights x = []) ''band_weights'' (JStr (fo_BandWeights x)),
     unless (fo_BandMinSharePct x = []) ''band_min_share_pct'' (JStr (fo_BandMinSharePct x)),
     unless (fo_CriticalReservePct x = []) ''critical_reserve_pct'' (JStr (fo_CriticalReservePct x)),
     unless (fo_BandWaitMs x = []) ''band_wait_ms'' (JStr (fo_BandWaitMs x)),
     unless (fo_BandQueuePct x = []) ''band_queue_pct'' (JStr (fo_BandQueuePct x)),
     unless (fo_ShedQueue x = []) ''shed_queue'' (JStr (fo_ShedQueue x)),
     unless (fo_TenantWake x = []) ''tenant_wake'' (JStr (fo_TenantWake x)),
     unless (fo_LlmdHeaders x = []) ''llmd_headers'' (JStr (fo_LlmdHeaders x))])"

record fcEffective =
  fe_Mode :: string
  fe_MaxOutstanding :: "32 word"
  fe_EpMaxInflight :: "32 word"
  fe_PrefillMaxInflight :: "32 word"
  fe_DecodeMaxInflight :: "32 word"
  fe_QueueDepth :: "32 word"
  fe_QueueWaitMs :: "32 word"
  fe_Inflight :: "32 word"
  fe_Queued :: "32 word"
  fe_QueueMemoryBoundMib :: "64 word"
  fe_TelemetryStaleMs :: "32 word"
  fe_Adaptive :: string
  fe_WarmupMs :: "32 word"
  fe_TtftTargetMs :: "32 word"
  fe_EffectiveMaxOutstanding :: "32 word"
  fe_AdaptState :: string
  fe_AdaptReason :: string
  fe_WarmingEndpoints :: "32 word"
  fe_TenantMaxSharePct :: "32 word"
  fe_TenantsActive :: "32 word"
  fe_ExposeHeaders :: string
  fe_TenantSlots :: "32 word"
  fe_WakePolicy :: string
  fe_WakePolicyEffective :: string
  fe_WeightsInUse :: bool
  fe_ShedQueue :: string
  fe_ShedQueueEffective :: string
  fe_TenantWake :: string
  fe_TenantWakeEffective :: string
  fe_BandFallbackReason :: string
  fe_LlmdHeaders :: string
  fe_BandsConfigured :: bool
  fe_Bands :: "fcEffectiveBands option"
  fe_DefaultReservation :: string
  fe_DefaultMaxTokens :: "32 word"
  fe_ReservationClampedBurst :: "64 word"
  fe_ReservationClampedBudget :: "64 word"
  fe_ReservationEpoch :: int
  fe_ReservationHeldClaims :: int
  fe_ReservationHeldTruncated :: bool
  fe_ReservationHeld :: "fcReservationHeld list"
  fe_ConfigSource :: string
  fe_StoreReachable :: "bool option"
  fe_StoreLastRead :: string
  fe_Source :: "fcEffectiveSource option"

definition fcEffective_json :: "fcEffective \<Rightarrow> json" where
  "fcEffective_json x = JObj (concat
    [unless (fe_Mode x = []) ''mode'' (JStr (fe_Mode x)),
     unless (fe_MaxOutstanding x = 0) ''max_outstanding'' (jword (fe_MaxOutstanding x)),
     unless (fe_EpMaxInflight x = 0) ''ep_max_inflight'' (jword (fe_EpMaxInflight x)),
     unless (fe_PrefillMaxInflight x = 0) ''prefill_max_inflight'' (jword (fe_PrefillMaxInflight x)),
     unless (fe_DecodeMaxInflight x = 0) ''decode_max_inflight'' (jword (fe_DecodeMaxInflight x)),
     unless (fe_QueueDepth x = 0) ''queue_depth'' (jword (fe_QueueDepth x)),
     unless (fe_QueueWaitMs x = 0) ''queue_wait_ms'' (jword (fe_QueueWaitMs x)),
     unless (fe_Inflight x = 0) ''inflight'' (jword (fe_Inflight x)),
     unless (fe_Queued x = 0) ''queued'' (jword (fe_Queued x)),
     unless (fe_QueueMemoryBoundMib x = 0) ''queue_memory_bound_mib'' (jword (fe_QueueMemoryBoundMib x)),
     unless (fe_TelemetryStaleMs x = 0) ''telemetry_stale_ms'' (jword (fe_TelemetryStaleMs x)),
     unless (fe_Adaptive x = []) ''adaptive'' (JStr (fe_Adaptive x)),
     unless (fe_WarmupMs x = 0) ''warmup_ms'' (jword (fe_WarmupMs x)),
     unless (fe_TtftTargetMs x = 0) ''ttft_target_ms'' (jword (fe_TtftTargetMs x)),
     unless (fe_EffectiveMaxOutstanding x = 0) ''effective_max_outstanding'' (jword (fe_EffectiveMaxOutstanding x)),
     unless (fe_AdaptState x = []) ''adapt_state'' (JStr (fe_AdaptState x)),
     unless (fe_AdaptReason x = []) ''adapt_reason'' (JStr (fe_AdaptReason x)),
     unless (fe_WarmingEndpoints x = 0) ''warming_endpoints'' (jword (fe_WarmingEndpoints x)),
     unless (fe_TenantMaxSharePct x = 0) ''tenant_max_share_pct'' (jword (fe_TenantMaxSharePct x)),
     unless (fe_TenantsActive x = 0) ''tenants_active'' (jword (fe_TenantsActive x)),
     unless (fe_ExposeHeaders x = []) ''expose_headers'' (JStr (fe_ExposeHeaders x)),
     unless (fe_TenantSlots x = 0) ''tenant_slots'' (jword (fe_TenantSlots x)),
     unless (fe_WakePolicy x = []) ''wake_policy'' (JStr (fe_WakePolicy x)),
     unless (fe_WakePolicyEffective x = []) ''wake_policy_effective'' (JStr (fe_WakePolicyEffective x)),
     unless (\<not> fe_WeightsInUse x) ''weights_in_use'' (JBool (fe_WeightsInUse x)),
     unless (fe_ShedQueue x = []) ''shed_queue'' (JStr (fe_ShedQueue x)),
     unless (fe_ShedQueueEffective x = []) ''shed_queue_effective'' (JStr (fe_ShedQueueEffective x)),
     unless (fe_TenantWake x = []) ''tenant_wake'' (JStr (fe_TenantWake x)),
     unless (fe_TenantWakeEffective x = []) ''tenant_wake_effective'' (JStr (fe_TenantWakeEffective x)),
     unless (fe_BandFallbackReason x = []) ''band_fallback_reason'' (JStr (fe_BandFallbackReason x)),
     unless (fe_LlmdHeaders x = []) ''llmd_headers'' (JStr (fe_LlmdHeaders x)),
     unless (\<not> fe_BandsConfigured x) ''bands_configured'' (JBool (fe_BandsConfigured x)),
     opt_member ''bands'' (\<lambda>v. fcEffectiveBands_json v) (fe_Bands x),
     unless (fe_DefaultReservation x = []) ''default_reservation'' (JStr (fe_DefaultReservation x)),
     unless (fe_DefaultMaxTokens x = 0) ''default_max_tokens'' (jword (fe_DefaultMaxTokens x)),
     unless (fe_ReservationClampedBurst x = 0) ''reservation_clamped_burst'' (jword (fe_ReservationClampedBurst x)),
     unless (fe_ReservationClampedBudget x = 0) ''reservation_clamped_budget'' (jword (fe_ReservationClampedBudget x)),
     unless (fe_ReservationEpoch x = 0) ''reservation_epoch'' (JNum (show_int (fe_ReservationEpoch x))),
     unless (fe_ReservationHeldClaims x = 0) ''reservation_held_claims'' (JNum (show_int (fe_ReservationHeldClaims x))),
     unless (\<not> fe_ReservationHeldTruncated x) ''reservation_held_truncated'' (JBool (fe_ReservationHeldTruncated x)),
     unless (fe_ReservationHeld x = []) ''reservation_held'' (jslice (map fcReservationHeld_json (fe_ReservationHeld x))),
     unless (fe_ConfigSource x = []) ''config_source'' (JStr (fe_ConfigSource x)),
     opt_member ''store_reachable'' JBool (fe_StoreReachable x),
     unless (fe_StoreLastRead x = []) ''store_last_read'' (JStr (fe_StoreLastRead x)),
     opt_member ''source'' (\<lambda>v. fcEffectiveSource_json v) (fe_Source x)])"

record backendTLSEffective =
  be_Status :: string
  be_Verify :: bool
  be_CA :: string
  be_ClientCert :: bool
  be_ClientCertID :: string
  be_ServerName :: string
  be_Generation :: "32 word"

definition backendTLSEffective_json :: "backendTLSEffective \<Rightarrow> json" where
  "backendTLSEffective_json x = JObj (concat
    [unless (be_Status x = []) ''status'' (JStr (be_Status x)),
     [(''verify'', JBool (be_Verify x))],
     unless (be_CA x = []) ''ca'' (JStr (be_CA x)),
     [(''client_cert'', JBool (be_ClientCert x))],
     unless (be_ClientCertID x = []) ''client_cert_id'' (JStr (be_ClientCertID x)),
     unless (be_ServerName x = []) ''server_name'' (JStr (be_ServerName x)),
     [(''generation'', jword (be_Generation x))]])"

record mtlsFrontend =
  mf_ClientCertMode :: string
  mf_ClientCAPath :: string
  mf_ClientCACertData :: string
  mf_RequireClientCN :: bool
  mf_ClientCNPattern :: string
  mf_ClientCRLPath :: string

definition mtlsFrontend_json :: "mtlsFrontend \<Rightarrow> json" where
  "mtlsFrontend_json x = JObj (concat
    [unless (mf_ClientCertMode x = []) ''client_cert_mode'' (JStr (mf_ClientCertMode x)),
     unless (mf_ClientCAPath x = []) ''client_ca_path'' (JStr (mf_ClientCAPath x)),
     unless (mf_ClientCACertData x = []) ''client_ca_cert_data'' (JStr (mf_ClientCACertData x)),
     unless (\<not> mf_RequireClientCN x) ''require_client_cn'' (JBool (mf_RequireClientCN x)),
     unless (mf_ClientCNPattern x = []) ''client_cn_pattern'' (JStr (mf_ClientCNPattern x)),
     unless (mf_ClientCRLPath x = []) ''client_crl_path'' (JStr (mf_ClientCRLPath x))])"

record mtlsBackend =
  mb_VerifyServerCert :: bool
  mb_BackendCAPath :: string
  mb_ClientCertPath :: string
  mb_ClientKeyPath :: string
  mb_ClientCertData :: string
  mb_ClientKeyData :: string

definition mtlsBackend_json :: "mtlsBackend \<Rightarrow> json" where
  "mtlsBackend_json x = JObj (concat
    [unless (\<not> mb_VerifyServerCert x) ''verify_server_cert'' (JBool (mb_VerifyServerCert x)),
     unless (mb_BackendCAPath x = []) ''backend_ca_path'' (JStr (mb_BackendCAPath x)),
     unless (mb_ClientCertPath x = []) ''client_cert_path'' (JStr (mb_ClientCertPath x)),
     unless (mb_ClientKeyPath x = []) ''client_key_path'' (JStr (mb_ClientKeyPath x)),
     unless (mb_ClientCertData x = []) ''client_cert_data'' (JStr (mb_ClientCertData x)),
     unless (mb_ClientKeyData x = []) ''client_key_data'' (JStr (mb_ClientKeyData x))])"

record lbListener =
  ls_ExternalIP :: string
  ls_Port :: "16 word"
  ls_PortMax :: "16 word"
  ls_Protocol :: string
  ls_Sel :: int
  ls_Mode :: int
  ls_BGP :: bool
  ls_Monitor :: bool
  ls_Timeout :: "32 word"
  ls_Block :: "32 word"
  ls_Managed :: bool
  ls_Name :: string
  ls_Snat :: bool
  ls_Oper :: int
  ls_Security :: int
  ls_Host :: string
  ls_PpV2 :: bool
  ls_Egress :: bool

record lbFlowControl = lbListener +
  ls_ConnectionLimit :: "32 word"
  ls_FcMaxQueueDepth :: "32 word option"
  ls_FcMaxQueueWaitMs :: "32 word option"
  ls_FcMode :: string
  ls_FcMaxOutstanding :: "32 word option"
  ls_FcEpMaxInflight :: "32 word option"
  ls_FcPrefillMaxInflight :: "32 word option"
  ls_FcDecodeMaxInflight :: "32 word option"
  ls_FcTelemetryStaleMs :: "32 word option"
  ls_FcAdaptive :: string
  ls_FcWarmupMs :: "32 word option"
  ls_FcTtftTargetMs :: "32 word option"
  ls_FcTenantMaxSharePct :: "32 word option"
  ls_FcExposeHeaders :: string

record lbBands = lbFlowControl +
  ls_FcWakePolicy :: string
  ls_FcBandWeights :: "bandTriple option"
  ls_FcBandMinSharePct :: "bandTriple option"
  ls_FcCriticalReservePct :: "32 word option"
  ls_FcBandWaitMs :: "bandTriple option"
  ls_FcBandQueuePct :: "bandTriple option"
  ls_FcShedQueue :: string
  ls_FcTenantWake :: string
  ls_FcLlmdHeaders :: string
  ls_AiDefaultReservation :: string
  ls_AiDefaultMaxTokens :: "32 word option"
  ls_AiObjectiveStrict :: "bool option"
  ls_FcEffective :: "fcEffective option"

record lbRouting = lbBands +
  ls_ProbeType :: string
  ls_ProbePort :: "16 word"
  ls_ProbeReq :: string
  ls_ProbeResp :: string
  ls_ProbeTimeout :: "32 word"
  ls_ProbeRetries :: int
  ls_ModelName :: string
  ls_PathPrefix :: string
  ls_PathMatchMode :: string
  ls_SessionHdrName :: string
  ls_TraceType :: string
  ls_BackendProtocol :: string
  ls_SockMapMode :: string
  ls_SseMode :: bool
  ls_JWTAuthProfile :: string
  ls_APIKeyAuth :: string
  ls_MaxStreamDurationSec :: int
  ls_BackendKeepaliveSec :: int
  ls_CbEnable :: bool

record lbPicker = lbRouting +
  ls_EppEndpoint :: string
  ls_EppFailureMode :: string
  ls_EppTimeoutMs :: int
  ls_EppPlaintext :: bool
  ls_ChwblPrefixHashLevel :: int
  ls_ChwblPrefixHashFlags :: int
  ls_ChwblMeanLoadFactor :: int
  ls_ChwblReplication :: int
  ls_ChwblEnableCacheSalt :: bool
  ls_PdDisaggMode :: bool
  ls_PdCacheAwareMode :: bool
  ls_PdSessionTtlSec :: int
  ls_PdCacheThreshold :: int
  ls_PdBalanceAbsThreshold :: int
  ls_PdBootstrapPort :: int
  ls_PdPrefillTimeoutSec :: int
  ls_KvExactMode :: int
  ls_KvBlockSize :: int
  ls_KvHashAlgo :: string
  ls_KvZmqPort :: int
  ls_KvWarmupSec :: int
  ls_KvEngineType :: string
  ls_KvDpRankCount :: int

record loadBalancerService = lbPicker +
  ls_TimeoutMemberConnect :: "32 word"
  ls_TimeoutMemberData :: "32 word"
  ls_TimeoutTcpInspect :: "32 word"
  ls_AlpnProtocols :: "string list"
  ls_TLSCiphers :: string
  ls_TLSVersions :: "string list"
  ls_HstsMaxAge :: "32 word"
  ls_HstsIncludeSubdomains :: bool
  ls_HstsPreload :: bool
  ls_MtlsFrontend :: "mtlsFrontend option"
  ls_MtlsBackend :: "mtlsBackend option"
  ls_BackendCaCertId :: string
  ls_BackendClientCertId :: string
  ls_BackendTLSServerName :: string
  ls_BackendTLSEffective :: "backendTLSEffective option"

definition lbListener_members :: "loadBalancerService \<Rightarrow> (string \<times> json) list" where
  "lbListener_members x = concat
    [[(''externalIP'', JStr (ls_ExternalIP x))],
     [(''port'', jword (ls_Port x))],
     unless (ls_PortMax x = 0) ''portMax'' (jword (ls_PortMax x)),
     [(''protocol'', JStr (ls_Protocol x))],
     [(''sel'', JNum (show_int (ls_Sel x)))],
     [(''mode'', JNum (show_int (ls_Mode x)))],
     [(''BGP'', JBool (ls_BGP x))],
     [(''Monitor'', JBool (ls_Monitor x))],
     [(''inactiveTimeOut'', jword (ls_Timeout x))],
     [(''block'', jword (ls_Block x))],
     unless (\<not> ls_Managed x) ''managed'' (JBool (ls_Managed x)),
     unless (ls_Name x = []) ''name'' (JStr (ls_Name x)),
     unless (\<not> ls_Snat x) ''snat'' (JBool (ls_Snat x)),
     unless (ls_Oper x = 0) ''oper'' (JNum (show_int (ls_Oper x))),
     unless (ls_Security x = 0) ''security'' (JNum (show_int (ls_Security x))),
     unless (ls_Host x = []) ''host'' (JStr (ls_Host x)),
     [(''proxyprotocolv2'', JBool (ls_PpV2 x))],
     [(''egress'', JBool (ls_Egress x))]]"

definition lbFlowControl_members :: "loadBalancerService \<Rightarrow> (string \<times> json) list" where
  "lbFlowControl_members x = concat
    [unless (ls_ConnectionLimit x = 0) ''connectionLimit'' (jword (ls_ConnectionLimit x)),
     opt_member ''fc_max_queue_depth'' jword (ls_FcMaxQueueDepth x),
     opt_member ''fc_max_queue_wait_ms'' jword (ls_FcMaxQueueWaitMs x),
     unless (ls_FcMode x = []) ''fc_mode'' (JStr (ls_FcMode x)),
     opt_member ''fc_max_outstanding'' jword (ls_FcMaxOutstanding x),
     opt_member ''fc_ep_max_inflight'' jword (ls_FcEpMaxInflight x),
     opt_member ''fc_prefill_max_inflight'' jword (ls_FcPrefillMaxInflight x),
     opt_member ''fc_decode_max_inflight'' jword (ls_FcDecodeMaxInflight x),
     opt_member ''fc_telemetry_stale_ms'' jword (ls_FcTelemetryStaleMs x),
     unless (ls_FcAdaptive x = []) ''fc_adaptive'' (JStr (ls_FcAdaptive x)),
     opt_member ''fc_warmup_ms'' jword (ls_FcWarmupMs x),
     opt_member ''fc_ttft_target_ms'' jword (ls_FcTtftTargetMs x),
     opt_member ''fc_tenant_max_share_pct'' jword (ls_FcTenantMaxSharePct x),
     unless (ls_FcExposeHeaders x = []) ''fc_expose_headers'' (JStr (ls_FcExposeHeaders x))]"

definition lbBands_members :: "loadBalancerService \<Rightarrow> (string \<times> json) list" where
  "lbBands_members x = concat
    [unless (ls_FcWakePolicy x = []) ''fc_wake_policy'' (JStr (ls_FcWakePolicy x)),
     opt_member ''fc_band_weights'' (\<lambda>v. JStr (BandTriple_String v)) (ls_FcBandWeights x),
     opt_member ''fc_band_min_share_pct'' (\<lambda>v. JStr (BandTriple_String v)) (ls_FcBandMinSharePct x),
     opt_member ''fc_critical_reserve_pct'' jword (ls_FcCriticalReservePct x),
     opt_member ''fc_band_wait_ms'' (\<lambda>v. JStr (BandTriple_String v)) (ls_FcBandWaitMs x),
     opt_member ''fc_band_queue_pct'' (\<lambda>v. JStr (BandTriple_String v)) (ls_FcBandQueuePct x),
     unless (ls_FcShedQueue x = []) ''fc_shed_queue'' (JStr (ls_FcShedQueue x)),
     unless (ls_FcTenantWake x = []) ''fc_tenant_wake'' (JStr (ls_FcTenantWake x)),
     unless (ls_FcLlmdHeaders x = []) ''fc_llmd_headers'' (JStr (ls_FcLlmdHeaders x)),
     unless (ls_AiDefaultReservation x = []) ''ai_default_reservation'' (JStr (ls_AiDefaultReservation x)),
     opt_member ''ai_default_max_tokens'' jword (ls_AiDefaultMaxTokens x),
     opt_member ''ai_objective_strict'' JBool (ls_AiObjectiveStrict x),
     opt_member ''fc_effective'' (\<lambda>v. fcEffective_json v) (ls_FcEffective x)]"

definition lbRouting_members :: "loadBalancerService \<Rightarrow> (string \<times> json) list" where
  "lbRouting_members x = concat
    [unless (ls_ProbeType x = []) ''probetype'' (JStr (ls_ProbeType x)),
     unless (ls_ProbePort x = 0) ''probeport'' (jword (ls_ProbePort x)),
     unless (ls_ProbeReq x = []) ''probereq'' (JStr (ls_ProbeReq x)),
     unless (ls_ProbeResp x = []) ''proberesp'' (JStr (ls_ProbeResp x)),
     unless (ls_ProbeTimeout x = 0) ''probeTimeout'' (jword (ls_ProbeTimeout x)),
     unless (ls_ProbeRetries x = 0) ''probeRetries'' (JNum (show_int (ls_ProbeRetries x))),
     unless (ls_ModelName x = []) ''model_name'' (JStr (ls_ModelName x)),
     unless (ls_PathPrefix x = []) ''path_prefix'' (JStr (ls_PathPrefix x)),
     unless (ls_PathMatchMode x = []) ''path_match_mode'' (JStr (ls_PathMatchMode x)),
     unless (ls_SessionHdrName x = []) ''session_header_name'' (JStr (ls_SessionHdrName x)),
     unless (ls_TraceType x = []) ''trace_type'' (JStr (ls_TraceType x)),
     unless (ls_BackendProtocol x = []) ''backend_protocol'' (JStr (ls_BackendProtocol x)),
     unless (ls_SockMapMode x = []) ''sockMapMode'' (JStr (ls_SockMapMode x)),
     unless (\<not> ls_SseMode x) ''sse_mode'' (JBool (ls_SseMode x)),
     unless (ls_JWTAuthProfile x = []) ''jwt_auth_profile'' (JStr (ls_JWTAuthProfile x)),
     unless (ls_APIKeyAuth x = []) ''api_key_auth'' (JStr (ls_APIKeyAuth x)),
     unless (ls_MaxStreamDurationSec x = 0) ''max_stream_duration_sec'' (JNum (show_int (ls_MaxStreamDurationSec x))),
     unless (ls_BackendKeepaliveSec x = 0) ''backend_keepalive_interval_sec'' (JNum (show_int (ls_BackendKeepaliveSec x))),
     unless (\<not> ls_CbEnable x) ''cb_enable'' (JBool (ls_CbEnable x))]"

definition lbPicker_members :: "loadBalancerService \<Rightarrow> (string \<times> json) list" where
  "lbPicker_members x = concat
    [unless (ls_EppEndpoint x = []) ''eppEndpoint'' (JStr (ls_EppEndpoint x)),
     unless (ls_EppFailureMode x = []) ''eppFailureMode'' (JStr (ls_EppFailureMode x)),
     unless (ls_EppTimeoutMs x = 0) ''eppTimeoutMs'' (JNum (show_int (ls_EppTimeoutMs x))),
     unless (\<not> ls_EppPlaintext x) ''eppPlaintext'' (JBool (ls_EppPlaintext x)),
     unless (ls_ChwblPrefixHashLevel x = 0) ''chwbl_prefix_hash_level'' (JNum (show_int (ls_ChwblPrefixHashLevel x))),
     unless (ls_ChwblPrefixHashFlags x = 0) ''chwbl_prefix_hash_flags'' (JNum (show_int (ls_ChwblPrefixHashFlags x))),
     unless (ls_ChwblMeanLoadFactor x = 0) ''chwbl_mean_load_factor'' (JNum (show_int (ls_ChwblMeanLoadFactor x))),
     unless (ls_ChwblReplication x = 0) ''chwbl_replication'' (JNum (show_int (ls_ChwblReplication x))),
     unless (\<not> ls_ChwblEnableCacheSalt x) ''chwbl_enable_cache_salt'' (JBool (ls_ChwblEnableCacheSalt x)),
     unless (\<not> ls_PdDisaggMode x) ''pd_disagg_mode'' (JBool (ls_PdDisaggMode x)),
     unless (\<not> ls_PdCacheAwareMode x) ''pd_cache_aware_mode'' (JBool (ls_PdCacheAwareMode x)),
     unless (ls_PdSessionTtlSec x = 0) ''pd_session_ttl_sec'' (JNum (show_int (ls_PdSessionTtlSec x))),
     unless (ls_PdCacheThreshold x = 0) ''pd_cache_threshold'' (JNum (show_int (ls_PdCacheThreshold x))),
     unless (ls_PdBalanceAbsThreshold x = 0) ''pd_balance_abs_threshold'' (JNum (show_int (ls_PdBalanceAbsThreshold x))),
     unless (ls_PdBootstrapPort x = 0) ''pdBootstrapPort'' (JNum (show_int (ls_PdBootstrapPort x))),
     unless (ls_PdPrefillTimeoutSec x = 0) ''pd_prefill_timeout_sec'' (JNum (show_int (ls_PdPrefillTimeoutSec x))),
     unless (ls_KvExactMode x = 0) ''kvExactMode'' (JNum (show_int (ls_KvExactMode x))),
     unless (ls_KvBlockSize x = 0) ''kvBlockSize'' (JNum (show_int (ls_KvBlockSize x))),
     unless (ls_KvHashAlgo x = []) ''kvHashAlgo'' (JStr (ls_KvHashAlgo x)),
     unless (ls_KvZmqPort x = 0) ''kvZmqPort'' (JNum (show_int (ls_KvZmqPort x))),
     unless (ls_KvWarmupSec x = 0) ''kvWarmupSec'' (JNum (show_int (ls_KvWarmupSec x))),
     unless (ls_KvEngineType x = []) ''kvEngineType'' (JStr (ls_KvEngineType x)),
     unless (ls_KvDpRankCount x = 0) ''kvDpRankCount'' (JNum (show_int (ls_KvDpRankCount x)))]"

definition loadBalancerService_members :: "loadBalancerService \<Rightarrow> (string \<times> json) list" where
  "loadBalancerService_members x = concat
    [unless (ls_TimeoutMemberConnect x = 0) ''timeoutMemberConnect'' (jword (ls_TimeoutMemberConnect x)),
     unless (ls_TimeoutMemberData x = 0) ''timeoutMemberData'' (jword (ls_TimeoutMemberData x)),
     unless (ls_TimeoutTcpInspect x = 0) ''timeoutTcpInspect'' (jword (ls_TimeoutTcpInspect x)),
     unless (ls_AlpnProtocols x = []) ''alpn_protocols'' (JArr (map JStr (ls_AlpnProtocols x))),
     unless (ls_TLSCiphers x = []) ''tls_ciphers'' (JStr (ls_TLSCiphers x)),
     unless (ls_TLSVersions x = []) ''tls_versions'' (JArr (map JStr (ls_TLSVersions x))),
     unless (ls_HstsMaxAge x = 0) ''hsts_max_age'' (jword (ls_HstsMaxAge x)),
     unless (\<not> ls_HstsIncludeSubdomains x) ''hsts_include_subdomains'' (JBool (ls_HstsIncludeSubdomains x)),
     unless (\<not> ls_HstsPreload x) ''hsts_preload'' (JBool (ls_HstsPreload x)),
     opt_member ''mtls_frontend'' (\<lambda>v. mtlsFrontend_json v) (ls_MtlsFrontend x),
     opt_member ''mtls_backend'' (\<lambda>v. mtlsBackend_json v) (ls_MtlsBackend x),
     unless (ls_BackendCaCertId x = []) ''backend_ca_cert_id'' (JStr (ls_BackendCaCertId x)),
     unless (ls_BackendClientCertId x = []) ''backend_client_cert_id'' (JStr (ls_BackendClientCertId x)),
     unless (ls_BackendTLSServerName x = []) ''backend_tls_server_name'' (JStr (ls_BackendTLSServerName x)),
     opt_member ''backend_tls_effective'' (\<lambda>v. backendTLSEffective_json v) (ls_BackendTLSEffective x)]"

definition loadBalancerService_json :: "loadBalancerService \<Rightarrow> json" where
  "loadBalancerService_json x = JObj (lbListener_members x @ lbFlowControl_members x @ lbBands_members x @ lbRouting_members x @ lbPicker_members x @ loadBalancerService_members x)"

definition loadBalancerService0 :: loadBalancerService where
  "loadBalancerService0 = \<lparr>ls_ExternalIP = [], ls_Port = 0, ls_PortMax = 0, ls_Protocol = [], ls_Sel = 0, ls_Mode = 0, ls_BGP = False,
     ls_Monitor = False, ls_Timeout = 0, ls_Block = 0, ls_Managed = False, ls_Name = [], ls_Snat = False, ls_Oper = 0,
     ls_Security = 0, ls_Host = [], ls_PpV2 = False, ls_Egress = False, ls_ConnectionLimit = 0, ls_FcMaxQueueDepth = None,
     ls_FcMaxQueueWaitMs = None, ls_FcMode = [], ls_FcMaxOutstanding = None, ls_FcEpMaxInflight = None,
     ls_FcPrefillMaxInflight = None, ls_FcDecodeMaxInflight = None, ls_FcTelemetryStaleMs = None, ls_FcAdaptive = [],
     ls_FcWarmupMs = None, ls_FcTtftTargetMs = None, ls_FcTenantMaxSharePct = None, ls_FcExposeHeaders = [],
     ls_FcWakePolicy = [], ls_FcBandWeights = None, ls_FcBandMinSharePct = None, ls_FcCriticalReservePct = None,
     ls_FcBandWaitMs = None, ls_FcBandQueuePct = None, ls_FcShedQueue = [], ls_FcTenantWake = [], ls_FcLlmdHeaders = [],
     ls_AiDefaultReservation = [], ls_AiDefaultMaxTokens = None, ls_AiObjectiveStrict = None, ls_FcEffective = None,
     ls_ProbeType = [], ls_ProbePort = 0, ls_ProbeReq = [], ls_ProbeResp = [], ls_ProbeTimeout = 0, ls_ProbeRetries = 0,
     ls_ModelName = [], ls_PathPrefix = [], ls_PathMatchMode = [], ls_SessionHdrName = [], ls_TraceType = [],
     ls_BackendProtocol = [], ls_SockMapMode = [], ls_SseMode = False, ls_JWTAuthProfile = [], ls_APIKeyAuth = [],
     ls_MaxStreamDurationSec = 0, ls_BackendKeepaliveSec = 0, ls_CbEnable = False, ls_EppEndpoint = [],
     ls_EppFailureMode = [], ls_EppTimeoutMs = 0, ls_EppPlaintext = False, ls_ChwblPrefixHashLevel = 0,
     ls_ChwblPrefixHashFlags = 0, ls_ChwblMeanLoadFactor = 0, ls_ChwblReplication = 0, ls_ChwblEnableCacheSalt = False,
     ls_PdDisaggMode = False, ls_PdCacheAwareMode = False, ls_PdSessionTtlSec = 0, ls_PdCacheThreshold = 0,
     ls_PdBalanceAbsThreshold = 0, ls_PdBootstrapPort = 0, ls_PdPrefillTimeoutSec = 0, ls_KvExactMode = 0, ls_KvBlockSize = 0,
     ls_KvHashAlgo = [], ls_KvZmqPort = 0, ls_KvWarmupSec = 0, ls_KvEngineType = [], ls_KvDpRankCount = 0,
     ls_TimeoutMemberConnect = 0, ls_TimeoutMemberData = 0, ls_TimeoutTcpInspect = 0, ls_AlpnProtocols = [],
     ls_TLSCiphers = [], ls_TLSVersions = [], ls_HstsMaxAge = 0, ls_HstsIncludeSubdomains = False, ls_HstsPreload = False,
     ls_MtlsFrontend = None, ls_MtlsBackend = None, ls_BackendCaCertId = [], ls_BackendClientCertId = [],
     ls_BackendTLSServerName = [], ls_BackendTLSEffective = None\<rparr>"

record loadBalancerEndpoint =
  ep_EndpointIP :: string
  ep_TargetPort :: "16 word"
  ep_Weight :: "8 word"
  ep_State :: string
  ep_Counter :: string
  ep_EpRole :: int
  ep_NixlPort :: int

definition loadBalancerEndpoint_json :: "loadBalancerEndpoint \<Rightarrow> json" where
  "loadBalancerEndpoint_json x = JObj (concat
    [[(''endpointIP'', JStr (ep_EndpointIP x))],
     [(''targetPort'', jword (ep_TargetPort x))],
     [(''weight'', jword (ep_Weight x))],
     [(''state'', JStr (ep_State x))],
     [(''counter'', JStr (ep_Counter x))],
     unless (ep_EpRole x = 0) ''ep_role'' (JNum (show_int (ep_EpRole x))),
     unless (ep_NixlPort x = 0) ''nixl_port'' (JNum (show_int (ep_NixlPort x)))])"

record loadBalancerSecIp =
  si_SecondaryIP :: string

definition loadBalancerSecIp_json :: "loadBalancerSecIp \<Rightarrow> json" where
  "loadBalancerSecIp_json x = JObj (concat
    [[(''secondaryIP'', JStr (si_SecondaryIP x))]])"

record lbAllowedSrcIPArg =
  sr_Prefix :: string

definition lbAllowedSrcIPArg_json :: "lbAllowedSrcIPArg \<Rightarrow> json" where
  "lbAllowedSrcIPArg_json x = JObj (concat
    [[(''prefix'', JStr (sr_Prefix x))]])"

record loadBalancerModel =
  lm_Service :: loadBalancerService
  lm_SecondaryIPs :: "loadBalancerSecIp list"
  lm_SrcIPs :: "lbAllowedSrcIPArg list"
  lm_Endpoints :: "loadBalancerEndpoint list"

definition loadBalancerModel_json :: "loadBalancerModel \<Rightarrow> json" where
  "loadBalancerModel_json x = JObj (concat
    [[(''serviceArguments'', loadBalancerService_json (lm_Service x))],
     [(''secondaryIPs'', jslice (map loadBalancerSecIp_json (lm_SecondaryIPs x)))],
     [(''allowedSources'', jslice (map lbAllowedSrcIPArg_json (lm_SrcIPs x)))],
     [(''endpoints'', jslice (map loadBalancerEndpoint_json (lm_Endpoints x)))]])"

definition LoadBalancerService_Key :: "loadBalancerService \<Rightarrow> string" where
  "LoadBalancerService_Key x =
     ls_ExternalIP x @ ''|'' @ replicate (5 - length (show_nat (unat (ls_Port x)))) (CHR ''0'') @ show_nat (unat (ls_Port x)) @ ''|'' @ ls_Protocol x"

subsection \<open>Port pairs\<close>

text \<open>
  Ports are Go's 64-bit \<open>int\<close>; the loop over the target ports wraps around past the largest, and a port becomes
  16 bits when it is stored.
\<close>

definition wrap64 :: "int \<Rightarrow> int" where
  "wrap64 i = (i + 2 ^ 63) mod 2 ^ 64 - 2 ^ 63"

partial_function (option) target_loop :: "int \<Rightarrow> int \<Rightarrow> 16 word list \<Rightarrow> 16 word list option" where
  "target_loop t endTP acc = (if t \<le> endTP then target_loop (wrap64 (t + 1)) endTP (acc @ [word_of_int t]) else Some acc)"

type_synonym port_map = "(16 word \<times> 16 word list) list"

fun store_ports :: "int list \<Rightarrow> int \<Rightarrow> int \<Rightarrow> port_map \<Rightarrow> port_map option" where
  "store_ports [] startTP endTP m = Some m"
| "store_ports (port # ports) startTP endTP m =
     (case target_loop startTP endTP [] of
        None \<Rightarrow> None
      | Some targets \<Rightarrow> store_ports ports startTP endTP (map_put (word_of_int port) targets m))"

fun parse_ports :: "string list \<Rightarrow> msg + int list" where
  "parse_ports [] = Inr []"
| "parse_ports (p # ps) =
     (case Atoi p of
        None \<Rightarrow> Inl (Sprintf ''port '%s' is not integer'' [AStr p])
      | Some port \<Rightarrow> (case parse_ports ps of Inl e \<Rightarrow> Inl e | Inr ports \<Rightarrow> Inr (port # ports)))"

text \<open>A target range: \<open>Inr None\<close> when the pair is passed over.\<close>

definition parse_targets :: "string list \<Rightarrow> msg + (int \<times> int) option" where
  "parse_targets parts =
     (case parts of
        [a] \<Rightarrow> (case Atoi a of None \<Rightarrow> Inl (Sprintf ''targetPort0 '%s' is not integer'' [AStr a]) | Some t \<Rightarrow> Inr (Some (t, t)))
      | [a, b] \<Rightarrow>
          (case Atoi a of
             None \<Rightarrow> Inl (Sprintf ''targetPort0 '%s' is not integer'' [AStr a])
           | Some s \<Rightarrow>
               (case Atoi b of
                  None \<Rightarrow> Inl (Sprintf ''targetPort1 '%s' is not integer'' [AStr b])
                | Some e \<Rightarrow> if e < s then Inl (Sprintf (''targetPort2 '%s' <  targetPort2 '%s'' @ [CHR 0x27]) [AStr b, AStr a]) else Inr (Some (s, e))))
      | _ \<Rightarrow> Inr None)"

definition parse_pair :: "string \<Rightarrow> msg + (int list \<times> int \<times> int) option" where
  "parse_pair s =
     (case split_on (CHR '':'') s of
        [service, target] \<Rightarrow>
          (case parse_ports (split_on (CHR ''-'') service) of
             Inl e \<Rightarrow> Inl e
           | Inr ports \<Rightarrow>
               (case parse_targets (split_on (CHR ''-'') target) of
                  Inl e \<Rightarrow> Inl e
                | Inr None \<Rightarrow> Inr None
                | Inr (Some (a, b)) \<Rightarrow> Inr (Some (ports, a, b))))
      | _ \<Rightarrow> Inr None)"

fun port_pairs :: "string list \<Rightarrow> port_map \<Rightarrow> (msg + port_map) option" where
  "port_pairs [] m = Some (Inr m)"
| "port_pairs (s # ss) m =
     (case parse_pair s of
        Inl e \<Rightarrow> Some (Inl e)
      | Inr None \<Rightarrow> port_pairs ss m
      | Inr (Some (ports, startTP, endTP)) \<Rightarrow>
          (case store_ports ports startTP endTP m of None \<Rightarrow> None | Some m' \<Rightarrow> port_pairs ss m'))"

definition GetPortPairList :: "string list \<Rightarrow> (msg + port_map) option" where
  "GetPortPairList portPairStrList = port_pairs portPairStrList []"

text \<open>The loop over the keys of the map, in the order they are visited.\<close>

fun span_from :: "16 word \<Rightarrow> 16 word \<Rightarrow> 16 word list \<Rightarrow> 16 word \<times> 16 word" where
  "span_from startSPort endSPort [] = (startSPort, endSPort)"
| "span_from startSPort endSPort (sPort # rest) =
     (if sPort > startSPort then span_from startSPort sPort rest else span_from sPort startSPort rest)"

fun port_span :: "16 word list \<Rightarrow> 16 word \<times> 16 word" where
  "port_span [] = (0, 0)"
| "port_span (sPort # rest) = span_from sPort 0 rest"

subsection \<open>End points\<close>

record endpointSpec =
  es_IP :: string
  es_Weight :: "8 word"

text \<open>\<open>strings.LastIndex\<close>, as the two parts around the last separator.\<close>

definition split_last :: "char \<Rightarrow> string \<Rightarrow> (string \<times> string) option" where
  "split_last c s =
     (if c \<in> set s then
        (let w = rev (takeWhile (\<lambda>x. x \<noteq> c) (rev s)) in Some (take (length s - length w - 1) s, w))
      else None)"

fun GetEndpointList :: "string list \<Rightarrow> msg + endpointSpec list" where
  "GetEndpointList [] = Inr []"
| "GetEndpointList (s # ss) =
     (case split_last (CHR '':'') s of
        None \<Rightarrow> Inl (Sprintf ''endpoint '%s' is invalid format'' [AStr s])
      | Some (ip, w) \<Rightarrow>
          (case Atoi w of
             None \<Rightarrow> Inl (Sprintf ''endpoint's weight '%s' is invalid format'' [AStr w])
           | Some weight \<Rightarrow>
               (case GetEndpointList ss of Inl e \<Rightarrow> Inl e | Inr rest \<Rightarrow> Inr (\<lparr>es_IP = ip, es_Weight = word_of_int weight\<rparr> # rest))))"

fun role_numbers :: "string list \<Rightarrow> msg + int list" where
  "role_numbers [] = Inr []"
| "role_numbers (r # rs) =
     (case EpRoleToNum r of Inl e \<Rightarrow> Inl e | Inr n \<Rightarrow> (case role_numbers rs of Inl e \<Rightarrow> Inl e | Inr ns \<Rightarrow> Inr (n # ns)))"

definition parseEndpointRoles :: "string list \<Rightarrow> nat \<Rightarrow> msg + int list" where
  "parseEndpointRoles roles epCount =
     (if roles = [] then Inr (replicate epCount 0)
      else if length roles \<noteq> epCount then
        Inl (Sprintf ''--ep-role count (%d) must match --endpoints count (%d)'' [AInt (int (length roles)), AInt (int epCount)])
      else role_numbers roles)"

definition wrap32 :: "int \<Rightarrow> int" where
  "wrap32 i = (i + 2 ^ 31) mod 2 ^ 32 - 2 ^ 31"

definition alignNixlPorts :: "int list \<Rightarrow> nat \<Rightarrow> msg + int list" where
  "alignNixlPorts ports epCount =
     (if ports = [] then Inr (replicate epCount 0)
      else if length ports \<noteq> epCount then
        Inl (Sprintf ''--nixl-port count (%d) must match --endpoints count (%d)'' [AInt (int (length ports)), AInt (int epCount)])
      else Inr (map wrap32 ports))"

definition rule_endpoint :: "endpointSpec \<Rightarrow> int \<Rightarrow> int \<Rightarrow> 16 word \<Rightarrow> loadBalancerEndpoint" where
  "rule_endpoint e role nixl target =
     \<lparr>ep_EndpointIP = es_IP e, ep_TargetPort = target, ep_Weight = es_Weight e, ep_State = [], ep_Counter = [], ep_EpRole = role, ep_NixlPort = nixl\<rparr>"

text \<open>The loop over the end points and their target ports; \<open>dsr\<close> refuses a port that is translated.\<close>

definition rule_endpoints :: "bool \<Rightarrow> 16 word \<Rightarrow> endpointSpec list \<Rightarrow> int list \<Rightarrow> int list \<Rightarrow> 16 word list \<Rightarrow> msg + loadBalancerEndpoint list" where
  "rule_endpoints dsr startSPort es roles nixls targets =
     (if dsr \<and> es \<noteq> [] \<and> list_ex (\<lambda>t. t \<noteq> startSPort) targets then Inl (Text ''No port-translation in dsr mode'')
      else Inr (concat (map (\<lambda>(e, role, nixl). map (rule_endpoint e role nixl) targets) (zip es (zip roles nixls)))))"

subsection \<open>The options on the service\<close>

definition u32IfGiven :: "32 word \<Rightarrow> bool \<Rightarrow> 32 word option" where
  "u32IfGiven v given = (if \<not> given \<and> v = 0 then None else Some v)"

definition tripleIfGiven :: "bandTriple \<Rightarrow> bool \<Rightarrow> bandTriple option" where
  "tripleIfGiven v given = (if given then Some v else None)"

definition apply_probe :: "createLoadBalancerOptions \<Rightarrow> loadBalancerService \<Rightarrow> loadBalancerService" where
  "apply_probe l x = x\<lparr>ls_ProbeType := cl_ProbeType l,
     ls_ProbePort := cl_ProbePort l,
     ls_ProbeReq := cl_ProbeReq l,
     ls_ProbeTimeout := cl_ProbeTimeout l,
     ls_ProbeRetries := cl_ProbeRetries l\<rparr>"

definition apply_flow_control :: "createLoadBalancerOptions \<Rightarrow> loadBalancerService \<Rightarrow> loadBalancerService" where
  "apply_flow_control l x = x\<lparr>ls_ConnectionLimit := cl_ConnectionLimit l,
     ls_FcMaxQueueDepth := u32IfGiven (cl_FcMaxQueueDepth l) (cl_FcMaxQueueDepthSet l),
     ls_FcMaxQueueWaitMs := u32IfGiven (cl_FcMaxQueueWaitMs l) (cl_FcMaxQueueWaitMsSet l),
     ls_FcMode := cl_FcMode l,
     ls_FcMaxOutstanding := u32IfGiven (cl_FcMaxOutstanding l) (cl_FcMaxOutstandingSet l),
     ls_FcEpMaxInflight := u32IfGiven (cl_FcEpMaxInflight l) (cl_FcEpMaxInflightSet l),
     ls_FcPrefillMaxInflight := u32IfGiven (cl_FcPrefillMaxInflight l) (cl_FcPrefillMaxInflightSet l),
     ls_FcDecodeMaxInflight := u32IfGiven (cl_FcDecodeMaxInflight l) (cl_FcDecodeMaxInflightSet l),
     ls_FcTelemetryStaleMs := u32IfGiven (cl_FcTelemetryStaleMs l) (cl_FcTelemetryStaleMsSet l),
     ls_FcAdaptive := cl_FcAdaptive l,
     ls_FcWarmupMs := u32IfGiven (cl_FcWarmupMs l) (cl_FcWarmupMsSet l),
     ls_FcTtftTargetMs := u32IfGiven (cl_FcTtftTargetMs l) (cl_FcTtftTargetMsSet l),
     ls_FcTenantMaxSharePct := u32IfGiven (cl_FcTenantMaxSharePct l) (cl_FcTenantMaxSharePctSet l),
     ls_FcExposeHeaders := cl_FcExposeHeaders l\<rparr>"

definition apply_bands :: "createLoadBalancerOptions \<Rightarrow> loadBalancerService \<Rightarrow> loadBalancerService" where
  "apply_bands l x = x\<lparr>ls_FcWakePolicy := cl_FcWakePolicy l,
     ls_FcBandWeights := tripleIfGiven (cl_FcBandWeights l) (cl_FcBandWeightsSet l),
     ls_FcBandMinSharePct := tripleIfGiven (cl_FcBandMinSharePct l) (cl_FcBandMinSharePctSet l),
     ls_FcCriticalReservePct := u32IfGiven (cl_FcCriticalReservePct l) (cl_FcCriticalReservePctSet l),
     ls_FcBandWaitMs := tripleIfGiven (cl_FcBandWaitMs l) (cl_FcBandWaitMsSet l),
     ls_FcBandQueuePct := tripleIfGiven (cl_FcBandQueuePct l) (cl_FcBandQueuePctSet l),
     ls_FcShedQueue := cl_FcShedQueue l,
     ls_FcTenantWake := cl_FcTenantWake l,
     ls_FcLlmdHeaders := cl_FcLlmdHeaders l,
     ls_AiDefaultReservation := cl_AiDefaultReservation l,
     ls_AiDefaultMaxTokens := u32IfGiven (cl_AiDefaultMaxTokens l) (cl_AiDefaultMaxTokensSet l),
     ls_AiObjectiveStrict := (if cl_AiObjectiveStrictSet l \<or> cl_AiObjectiveStrict l then Some (cl_AiObjectiveStrict l) else ls_AiObjectiveStrict x)\<rparr>"

definition apply_routing :: "createLoadBalancerOptions \<Rightarrow> loadBalancerService \<Rightarrow> loadBalancerService" where
  "apply_routing l x = x\<lparr>ls_ModelName := cl_ModelName l,
     ls_PathPrefix := cl_PathPrefix l,
     ls_PathMatchMode := cl_PathMatchMode l,
     ls_SessionHdrName := cl_SessionHeaderName l,
     ls_TraceType := cl_TraceType l,
     ls_BackendProtocol := cl_BackendProtocol l,
     ls_SockMapMode := cl_SockMapMode l,
     ls_SseMode := cl_SseMode l,
     ls_APIKeyAuth := cl_APIKeyAuth l,
     ls_JWTAuthProfile := cl_JWTAuthProfile l,
     ls_MaxStreamDurationSec := cl_MaxStreamDurationSec l,
     ls_BackendKeepaliveSec := cl_BackendKeepaliveSec l,
     ls_CbEnable := cl_CbEnable l\<rparr>"

definition apply_engine :: "createLoadBalancerOptions \<Rightarrow> loadBalancerService \<Rightarrow> loadBalancerService" where
  "apply_engine l x = x\<lparr>ls_EppEndpoint := cl_EppEndpoint l,
     ls_EppFailureMode := cl_EppFailureMode l,
     ls_EppTimeoutMs := cl_EppTimeoutMs l,
     ls_EppPlaintext := cl_EppPlaintext l,
     ls_ChwblPrefixHashLevel := cl_ChwblPrefixHashLevel l,
     ls_ChwblPrefixHashFlags := cl_ChwblPrefixHashFlags l,
     ls_ChwblMeanLoadFactor := cl_ChwblMeanLoadFactor l,
     ls_ChwblReplication := cl_ChwblReplication l,
     ls_ChwblEnableCacheSalt := cl_ChwblEnableCacheSalt l,
     ls_PdDisaggMode := cl_PdDisaggMode l,
     ls_PdCacheAwareMode := cl_PdCacheAwareMode l,
     ls_PdSessionTtlSec := cl_PdSessionTtlSec l,
     ls_PdCacheThreshold := cl_PdCacheThreshold l,
     ls_PdBalanceAbsThreshold := cl_PdBalanceAbsThreshold l,
     ls_PdBootstrapPort := cl_PdBootstrapPort l,
     ls_PdPrefillTimeoutSec := cl_PdPrefillTimeoutSec l,
     ls_KvExactMode := cl_KvExactMode l,
     ls_KvBlockSize := cl_KvBlockSize l,
     ls_KvHashAlgo := cl_KvHashAlgo l,
     ls_KvZmqPort := cl_KvZmqPort l,
     ls_KvWarmupSec := cl_KvWarmupSec l,
     ls_KvEngineType := cl_KvEngineType l,
     ls_KvDpRankCount := cl_KvDpRankCount l\<rparr>"

definition apply_tls :: "createLoadBalancerOptions \<Rightarrow> loadBalancerService \<Rightarrow> loadBalancerService" where
  "apply_tls l x = x\<lparr>ls_HstsMaxAge := cl_HstsMaxAge l,
     ls_HstsIncludeSubdomains := cl_HstsIncludeSubdomains l,
     ls_HstsPreload := cl_HstsPreload l,
     ls_MtlsFrontend := (if lbMtlsFrontendRequested l then Some \<lparr>mf_ClientCertMode = cl_MtlsClientCertMode l, mf_ClientCAPath = cl_MtlsClientCAPath l,
         mf_ClientCACertData = [], mf_RequireClientCN = cl_MtlsRequireClientCN l, mf_ClientCNPattern = cl_MtlsClientCNPattern l,
         mf_ClientCRLPath = cl_MtlsClientCRLPath l\<rparr> else ls_MtlsFrontend x),
     ls_MtlsBackend := (if cl_BackendCaCertId l \<noteq> [] then Some \<lparr>mb_VerifyServerCert = True, mb_BackendCAPath = [], mb_ClientCertPath = [], mb_ClientKeyPath = [],
         mb_ClientCertData = [], mb_ClientKeyData = []\<rparr> else ls_MtlsBackend x),
     ls_BackendCaCertId := cl_BackendCaCertId l,
     ls_BackendClientCertId := cl_BackendClientCertId l,
     ls_BackendTLSServerName := cl_BackendTLSServerName l\<rparr>"

definition applyAIServiceOptions :: "createLoadBalancerOptions \<Rightarrow> loadBalancerService \<Rightarrow> loadBalancerService" where
  "applyAIServiceOptions l x = apply_tls l (apply_engine l (apply_routing l (apply_bands l (apply_flow_control l (apply_probe l x)))))"

end
