(* ===== verification/DeleteCommands.thy ===== *)
theory DeleteCommands
  imports RestRun JsonPrint
begin

section \<open>The \<open>delete\<close> commands (\<open>cmd/delete\<close>)\<close>

text \<open>
  Every leaf of \<open>loxicmd delete\<close> from its arguments to the requests, the output and the error. Thirteen of them
  share one exchange and one way of printing the answer, seven belong to the AI family and report the
  gateway's message. \<open>delete lb\<close> and \<open>delete sessionulcl\<close> send one request per protocol or address.
\<close>

subsection \<open>The answer\<close>

record deleteResult =
  dl_Result :: string

text \<open>
  In JSON mode \<open>json.MarshalIndent\<close> is given \<open>resp.Body\<close>, the reader and not its content: the body types of
  \<open>net/http\<close> have no exported field, so an empty object is printed.
\<close>

definition PrintDeleteResult :: "restOptions \<Rightarrow> http_body \<Rightarrow> msg list" where
  "PrintDeleteResult o' raw =
     (case raw of
        Torn part \<Rightarrow> [Sprintf ''Error: Failed to read HTTP response: (%s)'' [AErr ''net/http'']]
      | Whole body \<Rightarrow>
          (case unmarshal [fld ''result'' dl_Result dl_Result_update dec_string] \<lparr>dl_Result = []\<rparr> body of
             None \<Rightarrow> [Sprintf ''Error: Failed to unmarshal HTTP response: (%s)'' [AErr ''encoding/json'']]
           | Some result \<Rightarrow> if ro_PrintOption o' = ''json'' then [Text ''{}''] else [Sprintf ''%s'' [AStr (dl_Result result)]]))"

definition debug_status :: "int \<Rightarrow> msg" where
  "debug_status status = Sprintf ''Debug: response.StatusCode: %d'' [AInt status]"

text \<open>The exchange that most commands end in.\<close>

definition delete_exchange :: "gateway_env \<Rightarrow> restOptions \<Rightarrow> string \<Rightarrow> msg \<Rightarrow> commonAPI \<Rightarrow> http_request list \<Rightarrow> msg list \<Rightarrow> rest_run" where
  "delete_exchange env o' command failure l log out =
     (case exchange env (api_Delete (ge_url_ok env) l) log of
        (NoResponse, log') \<Rightarrow> stopped log' out (Unavailablef failure)
      | (Response status hs raw, log') \<Rightarrow>
          if status = 200 then finished log' (out @ debug_status status # PrintDeleteResult o' raw)
          else stopped log' (out @ [debug_status status]) (FromHTTPStatus command status))"

definition so_many :: "bool \<Rightarrow> string \<Rightarrow> msg list" where
  "so_many b what = (if b then [Text (''delete '' @ what @ '' command get so many args'')] else [])"

definition needs_arguments :: "string \<Rightarrow> cliError" where
  "needs_arguments command = Usagef (Text (command @ '' needs its arguments''))"

subsection \<open>Sessions, policies, mirrors\<close>

definition DeleteSessionValidation :: "string list \<Rightarrow> msg list \<times> verdict" where
  "DeleteSessionValidation args =
     (if length args > 1 then ([Text ''delete Session command get so many args'', show_slice args], Pass)
      else if args = [] then ([], Refuse (Text ''delete Session need <UserID> args''))
      else ([], Pass))"

definition delete_session :: "gateway_env \<Rightarrow> restOptions \<Rightarrow> string list \<Rightarrow> http_request list \<Rightarrow> rest_run" where
  "delete_session env o' args log =
     (if args = [] then stopped log [] (needs_arguments ''delete session'')
      else checked (DeleteSessionValidation args) (\<lambda>_. Invalidf (Text ''not valid <UserID>'')) log
        (delete_exchange env o' ''delete session'' (Sprintf ''Failed to delete Session(UserID: %s) (%v)'' [AStr (args ! 0), AErr ''net/http''])
          (SubResources [''ident'', args ! 0] (LoxiClient_Session o')) log))"

definition DeletePolicyValidation :: "string list \<Rightarrow> msg list \<times> verdict" where
  "DeletePolicyValidation args =
     (if length args > 1 then ([Text ''delete Policy command get so many args'', show_slice args], Pass)
      else if args = [] then ([], Refuse (Text ''delete Policy need <Policy IDENT> args''))
      else ([], Pass))"

definition delete_policy :: "gateway_env \<Rightarrow> restOptions \<Rightarrow> string list \<Rightarrow> http_request list \<Rightarrow> rest_run" where
  "delete_policy env o' args log =
     (if args = [] then stopped log [] (needs_arguments ''delete policy'')
      else checked (DeletePolicyValidation args) (\<lambda>_. Invalidf (Text ''not valid <IDENT>'')) log
        (delete_exchange env o' ''delete policy'' (Sprintf ''Failed to delete Policy(IDENT: %s) (%v)'' [AStr (args ! 0), AErr ''net/http''])
          (SubResources [''ident'', args ! 0] (LoxiClient_Policy o')) log))"

definition DeleteMirrorValidation :: "string list \<Rightarrow> msg list \<times> verdict" where
  "DeleteMirrorValidation args = (so_many (length args > 1) ''Mirror'', Pass)"

definition delete_mirror :: "gateway_env \<Rightarrow> restOptions \<Rightarrow> string list \<Rightarrow> http_request list \<Rightarrow> rest_run" where
  "delete_mirror env o' args log =
     (if args = [] then stopped log [] (needs_arguments ''delete mirror'')
      else checked (DeleteMirrorValidation args) (\<lambda>_. Invalidf (Text ''not valid <MirrorIdent>'')) log
        (delete_exchange env o' ''delete mirror'' (Sprintf ''Failed to delete Mirror : %s (%v)'' [AStr (args ! 0), AErr ''net/http''])
          (SubResources [''ident'', args ! 0] (LoxiClient_Mirror o')) log))"

subsection \<open>Addresses, neighbours, routes, forwarding entries\<close>

text \<open>The refusal of a route names \<open>args[1]\<close>, which need not exist.\<close>

definition DeleteRouteValidation :: "string list \<Rightarrow> msg list \<times> verdict" where
  "DeleteRouteValidation args =
     (let out = so_many (length args > 3) ''Route'' in
      if args = [] then (out, Refuse (Text ''delete Route need <DestinationIPNet> args''))
      else if \<not> ParseCIDR (args ! 0) then
        (out, if 1 < length args then Refuse (Sprintf ''DestinationIPNet '%s' is invalid format'' [AStr (args ! 1)])
              else Crash (index_panic 1 (length args)))
      else (out, Pass))"

definition delete_route :: "gateway_env \<Rightarrow> restOptions \<Rightarrow> string list \<Rightarrow> http_request list \<Rightarrow> rest_run" where
  "delete_route env o' args log =
     (if args = [] then stopped log [] (needs_arguments ''delete route'')
      else checked (DeleteRouteValidation args) (\<lambda>_. Invalidf (Text ''not valid <DestinationIPNet>'')) log
        (delete_exchange env o' ''delete route'' (Sprintf ''Failed to delete Route(UserID: %s) (%v)'' [AStr (args ! 0), AErr ''net/http''])
          (SubResources [''destinationIPNet'', args ! 0] (LoxiClient_Route o')) log))"

definition DeleteIPv4AddressValidation :: "string list \<Rightarrow> msg list \<times> verdict" where
  "DeleteIPv4AddressValidation args =
     (let out = so_many (length args > 3) ''IPv4Address'' in
      if length args \<le> 1 then (out, Refuse (Text ''delete IP Address need <DeviceIPNet> <device> args''))
      else if \<not> ParseCIDR (args ! 0) then (out, Refuse (Sprintf ''DeviceIPNet '%s' is invalid format'' [AStr (args ! 0)]))
      else (out, Pass))"

definition delete_ip :: "gateway_env \<Rightarrow> restOptions \<Rightarrow> string list \<Rightarrow> http_request list \<Rightarrow> rest_run" where
  "delete_ip env o' args log =
     (if args = [] then stopped log [] (needs_arguments ''delete ip'')
      else checked (DeleteIPv4AddressValidation args) (\<lambda>_. Invalidf (Text ''not valid <DeviceIPNet>'')) log
        (delete_exchange env o' ''delete ip'' (Sprintf ''Failed to delete IPv4Address : %s (%v)'' [AStr (args ! 0), AErr ''net/http''])
          (SubResources [args ! 0, ''dev'', args ! 1] (LoxiClient_IPv4Address o')) log))"

definition DeleteNeighborsValidation :: "string list \<Rightarrow> msg list \<times> verdict" where
  "DeleteNeighborsValidation args =
     (let out = so_many (length args > 3) ''Neighbors'' in
      if length args \<le> 1 then (out, Refuse (Text ''delete IP Address need <DeviceIP> <device> args''))
      else if \<not> ParseIP (args ! 0) then (out, Refuse (Sprintf ''DeviceIP '%s' is invalid format'' [AStr (args ! 0)]))
      else (out, Pass))"

definition delete_neighbor :: "gateway_env \<Rightarrow> restOptions \<Rightarrow> string list \<Rightarrow> http_request list \<Rightarrow> rest_run" where
  "delete_neighbor env o' args log =
     (if args = [] then stopped log [] (needs_arguments ''delete neighbor'')
      else checked (DeleteNeighborsValidation args) (\<lambda>_. Invalidf (Text ''not valid <DeviceIP>'')) log
        (delete_exchange env o' ''delete neighbor'' (Sprintf ''Failed to delete Neighbors : %s (%v)'' [AStr (args ! 0), AErr ''net/http''])
          (SubResources [args ! 0, ''dev'', args ! 1] (LoxiClient_Neighbor o')) log))"

definition DeleteFDBValidation :: "string list \<Rightarrow> msg list \<times> verdict" where
  "DeleteFDBValidation args =
     (let out = so_many (length args > 3) ''FDB'' in
      if length args \<le> 1 then (out, Refuse (Text ''delete IP Address need <MacAddress> <device> args''))
      else if \<not> ParseMAC (args ! 0) then (out, Refuse (Sprintf ''MacAddress '%s' is invalid format'' [AStr (args ! 0)]))
      else (out, Pass))"

definition delete_fdb :: "gateway_env \<Rightarrow> restOptions \<Rightarrow> string list \<Rightarrow> http_request list \<Rightarrow> rest_run" where
  "delete_fdb env o' args log =
     (if args = [] then stopped log [] (needs_arguments ''delete fdb'')
      else checked (DeleteFDBValidation args) (\<lambda>_. Invalidf (Text ''not valid <MacAddress>'')) log
        (delete_exchange env o' ''delete fdb'' (Sprintf ''Failed to delete FDB : %s (%v)'' [AStr (args ! 0), AErr ''net/http''])
          (SubResources [args ! 0, ''dev'', args ! 1] (LoxiClient_FDB o')) log))"

subsection \<open>VLAN and VXLAN\<close>

definition vid_check :: "nat \<Rightarrow> string \<Rightarrow> string list \<Rightarrow> msg list \<times> verdict" where
  "vid_check n what args =
     (so_many (length args > n) what,
      if args = [] then Crash (index_panic 0 0) else if Atoi (args ! 0) = None then Refuse (Text ''strconv'') else Pass)"

definition DeleteVlanBridgeValidation :: "string list \<Rightarrow> msg list \<times> verdict" where
  "DeleteVlanBridgeValidation args = vid_check 1 ''VlanBridge'' args"

definition delete_vlan :: "gateway_env \<Rightarrow> restOptions \<Rightarrow> string list \<Rightarrow> http_request list \<Rightarrow> rest_run" where
  "delete_vlan env o' args log =
     (if args = [] then stopped log [] (needs_arguments ''delete vlan'')
      else checked (DeleteVlanBridgeValidation args) (\<lambda>_. Invalidf (Text ''not valid <Vid>'')) log
        (delete_exchange env o' ''delete vlan'' (Sprintf ''Failed to delete VlanBridge : %s (%v)'' [AStr (args ! 0), AErr ''net/http''])
          (SubResources [args ! 0] (LoxiClient_Vlan o')) log))"

definition DeletevxlanBridgeValidation :: "string list \<Rightarrow> msg list \<times> verdict" where
  "DeletevxlanBridgeValidation args = vid_check 1 ''vxlanBridge'' args"

definition delete_vxlan :: "gateway_env \<Rightarrow> restOptions \<Rightarrow> string list \<Rightarrow> http_request list \<Rightarrow> rest_run" where
  "delete_vxlan env o' args log =
     (if args = [] then stopped log [] (needs_arguments ''delete vxlan'')
      else checked (DeletevxlanBridgeValidation args) (\<lambda>_. Invalidf (Text ''not valid <Vnid>'')) log
        (delete_exchange env o' ''delete vxlan'' (Sprintf ''Failed to delete vxlanBridge : %s (%v)'' [AStr (args ! 0), AErr ''net/http''])
          (SubResources [args ! 0] (LoxiClient_Vxlan o')) log))"

text \<open>The members are named by a second argument that the validation does not ask for.\<close>

definition DeleteVlanMemberValidation :: "string list \<Rightarrow> msg list \<times> verdict" where
  "DeleteVlanMemberValidation args = vid_check 3 ''VlanMember'' args"

definition show_bool :: "bool \<Rightarrow> string" where
  "show_bool b = (if b then ''true'' else ''false'')"

definition delete_vlanmember :: "gateway_env \<Rightarrow> restOptions \<Rightarrow> bool \<Rightarrow> string list \<Rightarrow> http_request list \<Rightarrow> rest_run" where
  "delete_vlanmember env o' tagged args log =
     (if args = [] then stopped log [] (needs_arguments ''delete vlanmember'')
      else checked (DeleteVlanMemberValidation args) (\<lambda>_. Invalidf (Text ''not valid <Vid>'')) log
        (\<lambda>out. if length args < 2 then panicked log out (index_panic 1 (length args))
          else delete_exchange env o' ''delete vlanmember'' (Sprintf ''Failed to delete VlanMember : %s (%v)'' [AStr (args ! 0), AErr ''net/http''])
            (SubResources [args ! 0, ''member'', args ! 1, ''tagged'', show_bool tagged] (LoxiClient_Vlan o')) log out))"

definition DeleteVxlanPeerValidation :: "string list \<Rightarrow> msg list \<times> verdict" where
  "DeleteVxlanPeerValidation args = vid_check 3 ''vxlanPeer'' args"

definition delete_vxlanpeer :: "gateway_env \<Rightarrow> restOptions \<Rightarrow> string list \<Rightarrow> http_request list \<Rightarrow> rest_run" where
  "delete_vxlanpeer env o' args log =
     (if args = [] then stopped log [] (needs_arguments ''delete vxlanpeer'')
      else checked (DeleteVxlanPeerValidation args) (\<lambda>_. Invalidf (Text ''not valid <Vnid>'')) log
        (\<lambda>out. if length args < 2 then panicked log out (index_panic 1 (length args))
          else delete_exchange env o' ''delete vxlanpeer'' (Sprintf ''Failed to delete vxlanPeer : %s (%v)'' [AStr (args ! 0), AErr ''net/http''])
            (SubResources [args ! 0, ''peer'', args ! 1] (LoxiClient_Vxlan o')) log out))"

subsection \<open>BGP, BFD, end points, firewall rules\<close>

definition DeleteBGPNeighborValidation :: "string list \<Rightarrow> msg list \<times> verdict" where
  "DeleteBGPNeighborValidation args =
     (let out = so_many (length args > 3) ''BGPNeighbor'' in
      if length args \<le> 1 then (out, Refuse (Text ''delete IP Address need <MacAddress> <device> args''))
      else if \<not> ParseIP (args ! 0) then (out, Refuse (Sprintf ''peer IP '%s' is invalid format'' [AStr (args ! 0)]))
      else (case Atoi (args ! 1) of
          None \<Rightarrow> (out, Refuse (Sprintf ''remoteAS '%s' is invalid format'' [AStr (args ! 1)]))
        | Some v \<Rightarrow> if v > 65535 \<or> 0 > v then (out, Refuse (Sprintf ''remoteAS '%s' is invalid format'' [AStr (args ! 1)])) else (out, Pass)))"

definition delete_bgpneighbor :: "gateway_env \<Rightarrow> restOptions \<Rightarrow> string list \<Rightarrow> http_request list \<Rightarrow> rest_run" where
  "delete_bgpneighbor env o' args log =
     (if args = [] then stopped log [] (needs_arguments ''delete bgpneighbor'')
      else checked (DeleteBGPNeighborValidation args) (\<lambda>m. Invalidf (Sprintf ''not valid <PeerIP> or <RemoteAs>: %v'' [AMsg m])) log
        (delete_exchange env o' ''delete bgpneighbor'' (Sprintf ''Failed to delete BGPNeighbor : %s (%v)'' [AStr (args ! 0), AErr ''net/http''])
          (api_Query [(''remoteAs'', args ! 1)] (SubResources [args ! 0] (LoxiClient_BGPNeighbor o'))) log))"

definition delete_bfd :: "gateway_env \<Rightarrow> restOptions \<Rightarrow> string \<Rightarrow> string list \<Rightarrow> http_request list \<Rightarrow> rest_run" where
  "delete_bfd env o' inst args log =
     (if args = [] then stopped log [] (needs_arguments ''delete bfd'')
      else if \<not> ParseIP (args ! 0) then stopped log [] (Invalidf (Sprintf ''remoteIP '%s' is invalid format'' [AStr (args ! 0)]))
      else delete_exchange env o' ''delete bfd'' (Sprintf ''Failed to delete bfd session (%v)'' [AErr ''net/http''])
        (api_Query [(''instance'', inst)] (SubResources [''remoteIP'', args ! 0] (LoxiClient_BFDSession o'))) log [])"

record deleteEndPoint =
  de_Name :: string
  de_ProbeType :: string
  de_ProbePort :: int

definition check_probe :: "deleteEndPoint \<Rightarrow> cliError option" where
  "check_probe p =
     (if de_ProbeType p \<notin> {''http'', ''https'', ''ping'', ''tcp'', ''udp'', ''sctp'', ''none''} then
        Some (Invalidf (Sprintf ''probetype '%s' is invalid'' [AStr (de_ProbeType p)]))
      else if de_ProbeType p \<in> {''http'', ''https'', ''tcp'', ''udp'', ''sctp''} \<and> de_ProbePort p = 0 then
        Some (Invalidf (Sprintf ''probeport cant be 0 for '%s' probes'' [AStr (de_ProbeType p)]))
      else if de_ProbeType p = ''ping'' \<and> de_ProbePort p \<noteq> 0 then
        Some (Invalidf (Sprintf ''probeport should be 0 for '%s' probes'' [AStr (de_ProbeType p)]))
      else None)"

definition delete_endpoint :: "gateway_env \<Rightarrow> restOptions \<Rightarrow> deleteEndPoint \<Rightarrow> string list \<Rightarrow> http_request list \<Rightarrow> rest_run" where
  "delete_endpoint env o' p args log =
     (if args = [] then stopped log [] (needs_arguments ''delete endpoint'')
      else if \<not> ParseIP (args ! 0) then stopped log [] (Invalidf (Sprintf ''HOSTIP '%s' is invalid format'' [AStr (args ! 0)]))
      else (case check_probe p of
          Some e \<Rightarrow> stopped log [] e
        | None \<Rightarrow> delete_exchange env o' ''delete endpoint'' (Sprintf ''Failed to delete EndPoint (%v)'' [AErr ''net/http''])
            (api_Query [(''name'', de_Name p), (''probe_type'', de_ProbeType p), (''probe_port'', show_int (de_ProbePort p))]
              (SubResources [''epipaddress'', args ! 0] (LoxiClient_EndPoint o'))) log []))"

text \<open>The value of an address key keeps its colons; every other value ends at the second one.\<close>

definition firewall_pair :: "string \<Rightarrow> (string \<times> string) option" where
  "firewall_pair v =
     (case split_on (CHR '':'') v of
        k # w # ws \<Rightarrow> Some (k, if k \<in> {''sourceIP'', ''destinationIP''} then join '':'' (w # ws) else w)
      | _ \<Rightarrow> None)"

fun MakefirewallDeleteQuery :: "string list \<Rightarrow> (string \<times> string) list \<Rightarrow> (string \<times> string) list option" where
  "MakefirewallDeleteQuery [] query = Some query"
| "MakefirewallDeleteQuery (v # vs) query =
     (case firewall_pair v of None \<Rightarrow> None | Some (k, value) \<Rightarrow> MakefirewallDeleteQuery vs (map_put k value query))"

definition delete_firewall :: "gateway_env \<Rightarrow> restOptions \<Rightarrow> string list \<Rightarrow> http_request list \<Rightarrow> rest_run" where
  "delete_firewall env o' rules log =
     (if rules = [] then stopped log [] (Usagef (Text ''delete firewall needs --firewallRule''))
      else (case MakefirewallDeleteQuery rules [] of
          None \<Rightarrow> stopped log [] (Invalidf (Sprintf ''not a valid --firewallRule: %v'' [AStr ''error: Failed to delete Firewall - format error'']))
        | Some query \<Rightarrow> delete_exchange env o' ''delete firewall'' (Sprintf ''Failed to delete Firewall (%v)'' [AErr ''net/http''])
            (api_Query query (LoxiClient_Firewall o')) log []))"

subsection \<open>One request per address or protocol\<close>

definition DeleteSessionUlClValidation :: "string list \<Rightarrow> msg list \<times> verdict" where
  "DeleteSessionUlClValidation args = DeleteSessionValidation args"

fun ulcl_loop :: "gateway_env \<Rightarrow> restOptions \<Rightarrow> string \<Rightarrow> string list \<Rightarrow> http_request list \<Rightarrow> msg list \<Rightarrow> rest_run" where
  "ulcl_loop env o' user [] log out = finished log out"
| "ulcl_loop env o' user (ulclIP # rest) log out =
     (case exchange env (api_Delete (ge_url_ok env) (SubResources [''ident'', user, ''ulclAddress'', ulclIP] (LoxiClient_SessionUlCL o'))) log of
        (NoResponse, log') \<Rightarrow> stopped log' out (Unavailablef (Sprintf ''Failed to delete Session(UserID: %s) (%v)'' [AStr user, AErr ''net/http'']))
      | (Response status hs raw, log') \<Rightarrow>
          if status \<noteq> 200 then stopped log' (out @ [debug_status status]) (FromHTTPStatus ''delete sessionulcl'' status)
          else ulcl_loop env o' user rest log' (out @ debug_status status # PrintDeleteResult o' raw))"

definition delete_sessionulcl :: "gateway_env \<Rightarrow> restOptions \<Rightarrow> string list \<Rightarrow> string list \<Rightarrow> http_request list \<Rightarrow> rest_run" where
  "delete_sessionulcl env o' ulclArgs args log =
     (if args = [] then stopped log [] (needs_arguments ''delete sessionulcl'')
      else checked (DeleteSessionUlClValidation args) (\<lambda>_. Invalidf (Text ''not valid <UserID>'')) log
        (ulcl_loop env o' (args ! 0) ulclArgs log))"

record lbDeleteOptions =
  ld_tcp :: string
  ld_udp :: string
  ld_sctp :: string
  ld_icmp :: bool
  ld_BGP :: bool
  ld_Mark :: "16 word"
  ld_Name :: string
  ld_Host :: string
  ld_PathPrefix :: string
  ld_PathMatchMode :: string
  ld_ModelName :: string

definition lb_validation :: "string list \<Rightarrow> msg list \<times> verdict" where
  "lb_validation args =
     (if length args > 1 then ([Text ''delete lb command too many args'', show_slice args], Pass)
      else if args = [] then ([], Refuse (Text ''delete lb needs <EXTERNAL-IP> arg''))
      else ([], Pass))"

definition loadBalancerDeleteQuery :: "lbDeleteOptions \<Rightarrow> (string \<times> string) list" where
  "loadBalancerDeleteQuery d =
     [(''bgp'', show_bool (ld_BGP d)), (''block'', show_nat (unat (ld_Mark d)))]
     @ filter (\<lambda>(k, v). v \<noteq> [])
         [(''path_prefix'', ld_PathPrefix d), (''path_match_mode'', ld_PathMatchMode d), (''model_name'', ld_ModelName d)]"

text \<open>The map from protocol to the ends of its port range.\<close>

definition port_range :: "string \<Rightarrow> string \<Rightarrow> string \<Rightarrow> cliError + (string \<times> string list) list" where
  "port_range ip proto ports =
     (if ports = [] then Inr []
      else if length (split_on (CHR ''-'') ports) > 2 then
        Inl (Invalidf (Sprintf (''Too many ports in list to delete LoadBalancer(ExternalIP: %s, '' @ proto @ '', Port:%s)'') [AStr ip, AStr ports]))
      else Inr [(proto, split_on (CHR ''-'') ports)])"

definition lb_ports :: "lbDeleteOptions \<Rightarrow> string \<Rightarrow> cliError + (string \<times> string list) list" where
  "lb_ports d ip =
     (case port_range ip ''tcp'' (ld_tcp d) of Inl e \<Rightarrow> Inl e | Inr tcp \<Rightarrow>
      (case port_range ip ''udp'' (ld_udp d) of Inl e \<Rightarrow> Inl e | Inr udp \<Rightarrow>
       (case port_range ip ''sctp'' (ld_sctp d) of Inl e \<Rightarrow> Inl e | Inr sctp \<Rightarrow>
        Inr (tcp @ udp @ sctp @ (if ld_icmp d then [(''icmp'', [''0'', ''0''])] else [])))))"

text \<open>Go visits a map in no fixed order: \<open>order\<close> is the order of this run.\<close>

definition visited :: "string list \<Rightarrow> (string \<times> 'v) list \<Rightarrow> (string \<times> 'v) list" where
  "visited order m = concat (map (\<lambda>k. case map_of m k of None \<Rightarrow> [] | Some v \<Rightarrow> [(k, v)]) order)"

definition lb_target :: "restOptions \<Rightarrow> lbDeleteOptions \<Rightarrow> string \<Rightarrow> string \<Rightarrow> string \<Rightarrow> string \<Rightarrow> commonAPI" where
  "lb_target o' d ip portMin portMax proto =
     api_Query (loadBalancerDeleteQuery d)
       (SubResources [''hosturl'', if ld_Host d = [] then ''any'' else ld_Host d, ''externalipaddress'', ip, ''port'', portMin,
          ''portmax'', portMax, ''protocol'', proto] (LoxiClient_LoadBalancer o'))"

definition bad_port :: "string \<Rightarrow> string \<Rightarrow> cliError" where
  "bad_port ip port = Invalidf (Sprintf ''Invalid port in list to delete LoadBalancer(ExternalIP: %s,Port:%s)'' [AStr ip, AStr port])"

fun lb_loop :: "gateway_env \<Rightarrow> restOptions \<Rightarrow> lbDeleteOptions \<Rightarrow> string \<Rightarrow> (string \<times> string list) list \<Rightarrow> http_request list \<Rightarrow> msg list \<Rightarrow> rest_run" where
  "lb_loop env o' d ip [] log out = finished log out"
| "lb_loop env o' d ip ((proto, portNum) # rest) log out =
     (let sPortMin = hd portNum; sPortMax = (if length portNum > 1 then portNum ! 1 else ''0'') in
      if Atoi sPortMin = None then stopped log out (bad_port ip sPortMin)
      else if Atoi sPortMax = None then stopped log out (bad_port ip sPortMax)
      else (case exchange env (api_Delete (ge_url_ok env) (lb_target o' d ip sPortMin sPortMax proto)) log of
          (NoResponse, log') \<Rightarrow> stopped log' out (Unavailablef (Sprintf ''Failed to delete LoadBalancer(ExternalIP: %s, Protocol:%s, Port:%v) (%v)''
             [AStr ip, AStr proto, AMsg (show_slice portNum), AErr ''net/http'']))
        | (Response status hs raw, log') \<Rightarrow>
            if status \<noteq> 200 then stopped log' out (status_refusal ''delete lb'' status (read_some raw))
            else lb_loop env o' d ip rest log' (out @ PrintDeleteResult o' raw)))"

definition delete_lb_by_name :: "gateway_env \<Rightarrow> restOptions \<Rightarrow> string \<Rightarrow> http_request list \<Rightarrow> rest_run" where
  "delete_lb_by_name env o' name log =
     (case exchange env (api_Delete (ge_url_ok env) (SubResources [''name'', name] (LoxiClient_LoadBalancer o'))) log of
        (NoResponse, log') \<Rightarrow> stopped log' [] (Unavailablef (Sprintf ''Failed to delete LoadBalancer(Name: %s) (%v)'' [AStr name, AErr ''net/http'']))
      | (Response status hs raw, log') \<Rightarrow>
          if status = 200 then finished log' (PrintDeleteResult o' raw)
          else stopped log' [] (status_refusal ''delete lb'' status (read_some raw)))"

definition delete_lb :: "gateway_env \<Rightarrow> restOptions \<Rightarrow> string list \<Rightarrow> lbDeleteOptions \<Rightarrow> string list \<Rightarrow> http_request list \<Rightarrow> rest_run" where
  "delete_lb env o' order d args log =
     (if ld_Name d \<noteq> [] then delete_lb_by_name env o' (ld_Name d) log
      else checked (lb_validation args) (\<lambda>_. Invalidf (Text ''not valid EXTERNAL-IP'')) log
        (\<lambda>out. case lb_ports d (args ! 0) of
            Inl e \<Rightarrow> stopped log out e
          | Inr ports \<Rightarrow> lb_loop env o' d (args ! 0) (visited order ports) log out))"

subsection \<open>The AI family\<close>

definition ai_delete ::
  "gateway_env \<Rightarrow> string \<Rightarrow> (int \<Rightarrow> bytes \<Rightarrow> cliError) \<Rightarrow> msg \<Rightarrow> http_request option \<Rightarrow> http_request list \<Rightarrow> rest_run" where
  "ai_delete env command refusal success req log =
     (case exchange env req log of
        (NoResponse, log') \<Rightarrow> stopped log' [] (Unavailablef (Sprintf (command @ '': %v'') [AErr ''net/http'']))
      | (Response status hs raw, log') \<Rightarrow>
          if status \<noteq> 204 \<and> status \<noteq> 200 then stopped log' [] (refusal status (read_some raw)) else finished log' [success])"

definition delete_apikey :: "gateway_env \<Rightarrow> restOptions \<Rightarrow> string list \<Rightarrow> http_request list \<Rightarrow> rest_run" where
  "delete_apikey env o' args log =
     (if length args \<noteq> 1 then stopped log [] (Usagef (Text ''delete apikey needs <KEY-ID> arg''))
      else ai_delete env ''delete apikey'' (status_refusal ''delete apikey'') (Sprintf ''API key '%s' deleted.'' [AStr (args ! 0)])
        (api_Delete (ge_url_ok env) (SubResources [args ! 0] (LoxiClient_AIApiKey o'))) log)"

definition delete_cert :: "gateway_env \<Rightarrow> restOptions \<Rightarrow> string list \<Rightarrow> http_request list \<Rightarrow> rest_run" where
  "delete_cert env o' args log =
     (if length args \<noteq> 1 then stopped log [] (Usagef (Text ''delete cert needs <CERT-ID> arg''))
      else ai_delete env ''delete cert'' (status_refusal ''delete cert'') (Sprintf ''Certificate '%s' deleted.'' [AStr (args ! 0)])
        (api_Delete (ge_url_ok env) (SubResources [args ! 0] (LoxiClient_Cert o'))) log)"

definition delete_opa :: "gateway_env \<Rightarrow> restOptions \<Rightarrow> http_request list \<Rightarrow> rest_run" where
  "delete_opa env o' log =
     ai_delete env ''delete opa'' (status_refusal ''delete opa'') (Text ''OPA policy watcher stopped.'')
       (api_Delete (ge_url_ok env) (LoxiClient_OPA o')) log"

definition sni_body :: "string \<Rightarrow> bytes" where
  "sni_body hostname = print_json (JObj [(''hostname'', JStr hostname)])"

definition delete_sni :: "gateway_env \<Rightarrow> restOptions \<Rightarrow> string \<Rightarrow> http_request list \<Rightarrow> rest_run" where
  "delete_sni env o' hostname log =
     (if hostname = [] then stopped log [] (Usagef (Text ''--hostname is required''))
      else ai_delete env ''delete sni'' (status_refusal ''delete sni'') (Sprintf ''SNI certificate for '%s' deleted.'' [AStr hostname])
        (api_DeleteWithBody (ge_url_ok env) (Some (sni_body hostname)) (LoxiClient_SNICertificate o')) log)"

definition gated_delete ::
  "gateway_env \<Rightarrow> restOptions \<Rightarrow> string \<Rightarrow> string \<Rightarrow> string \<Rightarrow> (string \<Rightarrow> msg) \<Rightarrow> commonAPI \<Rightarrow> string list \<Rightarrow> http_request list \<Rightarrow> gate_state
     \<Rightarrow> rest_run \<times> gate_state" where
  "gated_delete env o' command feature usage success l args log st =
     (if length args \<noteq> 1 then (stopped log [] (Usagef (Text usage)), st)
      else gated env o' feature command log st
        (\<lambda>_. ai_delete env command (feature_Classify command feature) (success (args ! 0))
          (api_Delete (ge_url_ok env) (SubResources [args ! 0] l)) log))"

definition delete_objective :: "gateway_env \<Rightarrow> restOptions \<Rightarrow> string list \<Rightarrow> http_request list \<Rightarrow> gate_state \<Rightarrow> rest_run \<times> gate_state" where
  "delete_objective env o' args log st =
     gated_delete env o' ''delete objective'' ''objectives'' ''delete objective needs <NAME> arg''
       (\<lambda>name. Sprintf ''Objective '%s' deleted.'' [AStr name]) (LoxiClient_AIObjective o') args log st"

definition delete_netidentity :: "gateway_env \<Rightarrow> restOptions \<Rightarrow> string list \<Rightarrow> http_request list \<Rightarrow> gate_state \<Rightarrow> rest_run \<times> gate_state" where
  "delete_netidentity env o' args log st =
     gated_delete env o' ''delete netidentity'' ''netidentity'' ''delete netidentity needs <NAME> arg''
       (\<lambda>name. Sprintf ''Network-identity binding '%s' deleted.'' [AStr name]) (LoxiClient_AINetIdentity o') args log st"

definition delete_jwtauthprofile :: "gateway_env \<Rightarrow> restOptions \<Rightarrow> string list \<Rightarrow> http_request list \<Rightarrow> gate_state \<Rightarrow> rest_run \<times> gate_state" where
  "delete_jwtauthprofile env o' args log st =
     gated_delete env o' ''delete jwtauthprofile'' ''jwt_auth_profile'' ''delete jwtauthprofile needs <NAME> arg''
       (\<lambda>name. Sprintf ''JWT auth profile '%s' deleted.'' [AStr name]) (LoxiClient_AIJWTAuthProfile o') args log st"

subsection \<open>The family\<close>

datatype delete_command =
    DeleteLb "string list" lbDeleteOptions
  | DeleteSession
  | DeleteSessionUlCl "string list"
  | DeletePolicy
  | DeleteRoute
  | DeleteIP
  | DeleteNeighbor
  | DeleteFDB
  | DeleteVlan
  | DeleteVlanMember bool
  | DeleteVxlan
  | DeleteVxlanPeer
  | DeleteMirror
  | DeleteFirewall "string list"
  | DeleteEndPoint deleteEndPoint
  | DeleteBGPNeighbor
  | DeleteBFD string
  | DeleteAPIKey
  | DeleteObjective
  | DeleteNetIdentity
  | DeleteJWTAuthProfile
  | DeleteCert
  | DeleteSNI string
  | DeleteOPA

fun run_delete :: "gateway_env \<Rightarrow> restOptions \<Rightarrow> delete_command \<Rightarrow> string list \<Rightarrow> http_request list \<Rightarrow> gate_state \<Rightarrow> rest_run \<times> gate_state" where
  "run_delete env o' (DeleteLb order d) args log st = (delete_lb env o' order d args log, st)"
| "run_delete env o' DeleteSession args log st = (delete_session env o' args log, st)"
| "run_delete env o' (DeleteSessionUlCl ulclArgs) args log st = (delete_sessionulcl env o' ulclArgs args log, st)"
| "run_delete env o' DeletePolicy args log st = (delete_policy env o' args log, st)"
| "run_delete env o' DeleteRoute args log st = (delete_route env o' args log, st)"
| "run_delete env o' DeleteIP args log st = (delete_ip env o' args log, st)"
| "run_delete env o' DeleteNeighbor args log st = (delete_neighbor env o' args log, st)"
| "run_delete env o' DeleteFDB args log st = (delete_fdb env o' args log, st)"
| "run_delete env o' DeleteVlan args log st = (delete_vlan env o' args log, st)"
| "run_delete env o' (DeleteVlanMember tagged) args log st = (delete_vlanmember env o' tagged args log, st)"
| "run_delete env o' DeleteVxlan args log st = (delete_vxlan env o' args log, st)"
| "run_delete env o' DeleteVxlanPeer args log st = (delete_vxlanpeer env o' args log, st)"
| "run_delete env o' DeleteMirror args log st = (delete_mirror env o' args log, st)"
| "run_delete env o' (DeleteFirewall rules) args log st = (delete_firewall env o' rules log, st)"
| "run_delete env o' (DeleteEndPoint p) args log st = (delete_endpoint env o' p args log, st)"
| "run_delete env o' DeleteBGPNeighbor args log st = (delete_bgpneighbor env o' args log, st)"
| "run_delete env o' (DeleteBFD inst) args log st = (delete_bfd env o' inst args log, st)"
| "run_delete env o' DeleteAPIKey args log st = (delete_apikey env o' args log, st)"
| "run_delete env o' DeleteObjective args log st = delete_objective env o' args log st"
| "run_delete env o' DeleteNetIdentity args log st = delete_netidentity env o' args log st"
| "run_delete env o' DeleteJWTAuthProfile args log st = delete_jwtauthprofile env o' args log st"
| "run_delete env o' DeleteCert args log st = (delete_cert env o' args log, st)"
| "run_delete env o' (DeleteSNI hostname) args log st = (delete_sni env o' hostname log, st)"
| "run_delete env o' DeleteOPA args log st = (delete_opa env o' log, st)"

lemmas delete_defs = delete_session_def delete_policy_def delete_mirror_def delete_route_def delete_ip_def delete_neighbor_def delete_fdb_def
  delete_vlan_def delete_vxlan_def delete_vlanmember_def delete_vxlanpeer_def delete_bgpneighbor_def delete_bfd_def delete_endpoint_def
  delete_firewall_def delete_sessionulcl_def delete_lb_def delete_apikey_def delete_cert_def delete_opa_def delete_sni_def gated_delete_def
  delete_objective_def delete_netidentity_def delete_jwtauthprofile_def

subsection \<open>Honest reports\<close>

lemma exchange_honest:
  assumes "exchange env req log = (ans, log')"
  shows "ans = NoResponse \<and> honest env good log (stopped log' out e)
    \<or> (\<exists>status hs raw. ans = Response status hs raw \<and> honest env good log (stopped log' out e)
        \<and> (status \<in> good \<longrightarrow> honest env good log' run \<longrightarrow> honest env good log run))"
proof (cases req)
  case None
  with assms show ?thesis using honest_here by (auto simp: exchange_def)
next
  case (Some r)
  with assms have log': "log' = log @ [r]" and ans: "ans = ge_service env log r" by (auto simp: exchange_def)
  have "honest env good log (stopped log' out e)"
    unfolding log' by (rule honest_step [OF honest_here(1)]) (simp add: run_ends)
  moreover have "honest env good log run" if "succeeded good ans" "honest env good log' run"
    using honest_step [of env good log r run] that log' ans by simp
  ultimately show ?thesis by (cases ans) (auto simp: succeeded_def)
qed

lemma honest_cases:
  assumes "\<And>log'. exchange env req log = (NoResponse, log') \<Longrightarrow> \<exists>out e. f NoResponse log' = stopped log' out e"
    and "\<And>status hs raw log'. exchange env req log = (Response status hs raw, log') \<Longrightarrow>
      (\<exists>out e. f (Response status hs raw) log' = stopped log' out e) \<or> status \<in> good \<and> honest env good log' (f (Response status hs raw) log')"
  shows "honest env good log (case exchange env req log of (ans, log') \<Rightarrow> f ans log')"
proof -
  obtain ans log' where x: "exchange env req log = (ans, log')" by (cases "exchange env req log")
  show ?thesis
  proof (cases ans)
    case NoResponse
    with assms(1) x obtain out e where "f ans log' = stopped log' out e" by blast
    with exchange_honest [OF x, where out = out and e = e] x show ?thesis by auto
  next
    case (Response status hs raw)
    show ?thesis
    proof (cases "\<exists>out e. f ans log' = stopped log' out e")
      case True
      then obtain out e where "f ans log' = stopped log' out e" by blast
      with exchange_honest [OF x, where out = out and e = e] x show ?thesis by auto
    next
      case False
      with assms(2) [of status hs raw log'] x Response have "status \<in> good" "honest env good log' (f ans log')" by auto
      with exchange_honest [OF x, where run = "f ans log'"] x Response show ?thesis by auto
    qed
  qed
qed

lemma delete_exchange_honest: "200 \<in> good \<Longrightarrow> honest env good log (delete_exchange env o' command failure l log out)"
  unfolding delete_exchange_def by (rule honest_cases) (auto simp: honest_here)

lemma ai_delete_honest: "{200, 204} \<subseteq> good \<Longrightarrow> honest env good log (ai_delete env command refusal success req log)"
  unfolding ai_delete_def by (rule honest_cases) (auto simp: honest_here)

lemma ulcl_loop_honest: "200 \<in> good \<Longrightarrow> honest env good log (ulcl_loop env o' user ips log out)"
proof (induction ips arbitrary: log out)
  case (Cons ip ips)
  show ?case unfolding ulcl_loop.simps by (rule honest_cases) (use Cons in auto)
qed (simp add: honest_here)

lemma lb_loop_honest: "200 \<in> good \<Longrightarrow> honest env good log (lb_loop env o' d ip ports log out)"
proof (induction ports arbitrary: log out)
  case (Cons p ports)
  obtain proto nums where p: "p = (proto, nums)" by (cases p)
  show ?case
    unfolding p lb_loop.simps Let_def
    by (intro honest_if honest_here honest_cases) (use Cons in auto)
qed (simp add: honest_here)

lemma delete_lb_by_name_honest: "200 \<in> good \<Longrightarrow> honest env good log (delete_lb_by_name env o' name log)"
  unfolding delete_lb_by_name_def by (rule honest_cases) (auto simp: honest_here)

lemma run_delete_honest: "honest env {200, 204} log (fst (run_delete env o' cmd args log st))"
  by (cases cmd)
    (auto simp: delete_defs honest_here delete_exchange_honest ai_delete_honest ulcl_loop_honest lb_loop_honest delete_lb_by_name_honest
      intro!: honest_checked honest_gated split: option.splits sum.splits)

end
