(* ===== verification/DeletePlan.thy ===== *)
theory DeletePlan
  imports DeleteCommands
begin

section \<open>What a \<open>delete\<close> is meant to do\<close>

text \<open>
  An abstract specification of the family and its refinement. A plan is the list of requests that a command
  with these arguments stands for; following it means sending them in order and stopping at the first that is
  not answered with a status of success. \<open>Halt\<close> is an argument that is refused. Output, messages and exit
  codes are the detail that the commands add.
\<close>

datatype plan_step = Ask "http_request option" | Halt

fun follow :: "gateway_env \<Rightarrow> int set \<Rightarrow> plan_step list \<Rightarrow> http_request list \<Rightarrow> bool \<times> http_request list" where
  "follow env good [] log = (True, log)"
| "follow env good (Halt # steps) log = (False, log)"
| "follow env good (Ask req # steps) log =
     (case exchange env req log of
        (NoResponse, log') \<Rightarrow> (False, log')
      | (Response status hs raw, log') \<Rightarrow> if status \<in> good then follow env good steps log' else (False, log'))"

definition ask :: "gateway_env \<Rightarrow> string list \<Rightarrow> commonAPI \<Rightarrow> plan_step list" where
  "ask env segments l = [Ask (api_Delete (ge_url_ok env) (SubResources segments l))]"

definition ask_query :: "gateway_env \<Rightarrow> string list \<Rightarrow> (string \<times> string) list \<Rightarrow> commonAPI \<Rightarrow> plan_step list" where
  "ask_query env segments query l = [Ask (api_Delete (ge_url_ok env) (api_Query query (SubResources segments l)))]"

definition only_when :: "bool \<Rightarrow> plan_step list \<Rightarrow> plan_step list" where
  "only_when b steps = (if b then steps else [Halt])"

definition numeral_arg :: "string \<Rightarrow> bool" where
  "numeral_arg s \<longleftrightarrow> Atoi s \<noteq> None"

definition as_number :: "string \<Rightarrow> bool" where
  "as_number s \<longleftrightarrow> (\<exists>v \<in> set_option (Atoi s). 0 \<le> v \<and> v \<le> 65535)"

definition lb_step :: "gateway_env \<Rightarrow> restOptions \<Rightarrow> lbDeleteOptions \<Rightarrow> string \<Rightarrow> string \<times> string list \<Rightarrow> plan_step" where
  "lb_step env o' d ip p =
     (let portMin = hd (snd p); portMax = (if length (snd p) > 1 then snd p ! 1 else ''0'') in
      if numeral_arg portMin \<and> numeral_arg portMax then Ask (api_Delete (ge_url_ok env) (lb_target o' d ip portMin portMax (fst p))) else Halt)"

definition lb_plan :: "gateway_env \<Rightarrow> restOptions \<Rightarrow> string list \<Rightarrow> lbDeleteOptions \<Rightarrow> string list \<Rightarrow> plan_step list" where
  "lb_plan env o' order d args =
     (if ld_Name d \<noteq> [] then ask env [''name'', ld_Name d] (LoxiClient_LoadBalancer o')
      else if args = [] then [Halt]
      else case lb_ports d (args ! 0) of Inl e \<Rightarrow> [Halt] | Inr ports \<Rightarrow> map (lb_step env o' d (args ! 0)) (visited order ports))"

definition open_gate :: "gateway_env \<Rightarrow> restOptions \<Rightarrow> string \<Rightarrow> string \<Rightarrow> gate_state \<Rightarrow> bool" where
  "open_gate env o' feature command st \<longleftrightarrow> fst (fst (Require (ge_peer env) o' feature command st)) = None"

fun delete_plan :: "gateway_env \<Rightarrow> restOptions \<Rightarrow> delete_command \<Rightarrow> string list \<Rightarrow> gate_state \<Rightarrow> plan_step list" where
  "delete_plan env o' (DeleteLb order d) args st = lb_plan env o' order d args"
| "delete_plan env o' DeleteSession args st = only_when (args \<noteq> []) (ask env [''ident'', args ! 0] (LoxiClient_Session o'))"
| "delete_plan env o' (DeleteSessionUlCl ulclArgs) args st =
     only_when (args \<noteq> []) (concat (map (\<lambda>ip. ask env [''ident'', args ! 0, ''ulclAddress'', ip] (LoxiClient_SessionUlCL o')) ulclArgs))"
| "delete_plan env o' DeletePolicy args st = only_when (args \<noteq> []) (ask env [''ident'', args ! 0] (LoxiClient_Policy o'))"
| "delete_plan env o' DeleteRoute args st =
     only_when (args \<noteq> [] \<and> ParseCIDR (args ! 0)) (ask env [''destinationIPNet'', args ! 0] (LoxiClient_Route o'))"
| "delete_plan env o' DeleteIP args st =
     only_when (length args \<ge> 2 \<and> ParseCIDR (args ! 0)) (ask env [args ! 0, ''dev'', args ! 1] (LoxiClient_IPv4Address o'))"
| "delete_plan env o' DeleteNeighbor args st =
     only_when (length args \<ge> 2 \<and> ParseIP (args ! 0)) (ask env [args ! 0, ''dev'', args ! 1] (LoxiClient_Neighbor o'))"
| "delete_plan env o' DeleteFDB args st =
     only_when (length args \<ge> 2 \<and> ParseMAC (args ! 0)) (ask env [args ! 0, ''dev'', args ! 1] (LoxiClient_FDB o'))"
| "delete_plan env o' DeleteVlan args st = only_when (args \<noteq> [] \<and> numeral_arg (args ! 0)) (ask env [args ! 0] (LoxiClient_Vlan o'))"
| "delete_plan env o' (DeleteVlanMember tagged) args st =
     only_when (length args \<ge> 2 \<and> numeral_arg (args ! 0))
       (ask env [args ! 0, ''member'', args ! 1, ''tagged'', show_bool tagged] (LoxiClient_Vlan o'))"
| "delete_plan env o' DeleteVxlan args st = only_when (args \<noteq> [] \<and> numeral_arg (args ! 0)) (ask env [args ! 0] (LoxiClient_Vxlan o'))"
| "delete_plan env o' DeleteVxlanPeer args st =
     only_when (length args \<ge> 2 \<and> numeral_arg (args ! 0)) (ask env [args ! 0, ''peer'', args ! 1] (LoxiClient_Vxlan o'))"
| "delete_plan env o' DeleteMirror args st = only_when (args \<noteq> []) (ask env [''ident'', args ! 0] (LoxiClient_Mirror o'))"
| "delete_plan env o' (DeleteFirewall rules) args st =
     (case MakefirewallDeleteQuery rules [] of
        Some query \<Rightarrow> only_when (rules \<noteq> []) (ask_query env [] query (LoxiClient_Firewall o')) | None \<Rightarrow> [Halt])"
| "delete_plan env o' (DeleteEndPoint p) args st =
     only_when (args \<noteq> [] \<and> ParseIP (args ! 0) \<and> check_probe p = None)
       (ask_query env [''epipaddress'', args ! 0]
         [(''name'', de_Name p), (''probe_type'', de_ProbeType p), (''probe_port'', show_int (de_ProbePort p))] (LoxiClient_EndPoint o'))"
| "delete_plan env o' DeleteBGPNeighbor args st =
     only_when (length args \<ge> 2 \<and> ParseIP (args ! 0) \<and> as_number (args ! 1))
       (ask_query env [args ! 0] [(''remoteAs'', args ! 1)] (LoxiClient_BGPNeighbor o'))"
| "delete_plan env o' (DeleteBFD inst) args st =
     only_when (args \<noteq> [] \<and> ParseIP (args ! 0)) (ask_query env [''remoteIP'', args ! 0] [(''instance'', inst)] (LoxiClient_BFDSession o'))"
| "delete_plan env o' DeleteAPIKey args st = only_when (length args = 1) (ask env [args ! 0] (LoxiClient_AIApiKey o'))"
| "delete_plan env o' DeleteObjective args st =
     only_when (length args = 1 \<and> open_gate env o' ''objectives'' ''delete objective'' st) (ask env [args ! 0] (LoxiClient_AIObjective o'))"
| "delete_plan env o' DeleteNetIdentity args st =
     only_when (length args = 1 \<and> open_gate env o' ''netidentity'' ''delete netidentity'' st) (ask env [args ! 0] (LoxiClient_AINetIdentity o'))"
| "delete_plan env o' DeleteJWTAuthProfile args st =
     only_when (length args = 1 \<and> open_gate env o' ''jwt_auth_profile'' ''delete jwtauthprofile'' st)
       (ask env [args ! 0] (LoxiClient_AIJWTAuthProfile o'))"
| "delete_plan env o' DeleteCert args st = only_when (length args = 1) (ask env [args ! 0] (LoxiClient_Cert o'))"
| "delete_plan env o' (DeleteSNI hostname) args st =
     only_when (hostname \<noteq> []) [Ask (api_DeleteWithBody (ge_url_ok env) (Some (sni_body hostname)) (LoxiClient_SNICertificate o'))]"
| "delete_plan env o' DeleteOPA args st = [Ask (api_Delete (ge_url_ok env) (LoxiClient_OPA o'))]"

definition success_statuses :: "delete_command \<Rightarrow> int set" where
  "success_statuses cmd =
     (if cmd \<in> {DeleteAPIKey, DeleteObjective, DeleteNetIdentity, DeleteJWTAuthProfile, DeleteCert, DeleteOPA} \<or> (\<exists>h. cmd = DeleteSNI h)
      then {200, 204} else {200})"

subsection \<open>Refinement\<close>

definition outcome :: "rest_run \<Rightarrow> bool \<times> http_request list" where
  "outcome r = (rn_end r = Done None, rn_sent r)"

lemma outcome_ends [simp]:
  "outcome (stopped log out e) = (False, log)" "outcome (finished log out) = (True, log)" "outcome (panicked log out s) = (False, log)"
  "outcome (r\<lparr>rn_warn := w\<rparr>) = outcome r"
  by (simp_all add: outcome_def run_ends)

lemma outcome_checked:
  "outcome (checked v bad log k) = (case v of (out, Pass) \<Rightarrow> outcome (k out) | _ \<Rightarrow> (False, log))"
  by (auto simp: checked_def split: prod.splits verdict.splits)

lemma outcome_exchange: "outcome (delete_exchange env o' command failure l log out) = follow env {200} [Ask (api_Delete (ge_url_ok env) l)] log"
  by (auto simp: delete_exchange_def split: prod.splits http_result.splits)

lemma outcome_by_name:
  "outcome (delete_lb_by_name env o' name log) = follow env {200} (ask env [''name'', name] (LoxiClient_LoadBalancer o')) log"
  by (auto simp: delete_lb_by_name_def ask_def split: prod.splits http_result.splits)

lemma outcome_ai: "outcome (ai_delete env command refusal success req log) = follow env {200, 204} [Ask req] log"
  by (auto simp: ai_delete_def split: prod.splits http_result.splits)

lemma outcome_gated:
  "outcome (fst (gated env o' feature command log st k)) = (if open_gate env o' feature command st then outcome (k ()) else (False, log))"
  by (auto simp: gated_def open_gate_def split: prod.splits option.splits)

lemma outcome_ulcl:
  "outcome (ulcl_loop env o' user ips log out) =
     follow env {200} (concat (map (\<lambda>ip. ask env [''ident'', user, ''ulclAddress'', ip] (LoxiClient_SessionUlCL o')) ips)) log"
  by (induction ips arbitrary: log out) (auto simp: ask_def split: prod.splits http_result.splits)

lemma outcome_lb: "outcome (lb_loop env o' d ip ports log out) = follow env {200} (map (lb_step env o' d ip) ports) log"
proof (induction ports arbitrary: log out)
  case (Cons p ports)
  then show ?case
    by (cases p) (auto simp: lb_step_def Let_def numeral_arg_def split: prod.splits http_result.splits)
qed simp

lemmas validation_defs = DeleteSessionValidation_def DeletePolicyValidation_def DeleteMirrorValidation_def DeleteRouteValidation_def
  DeleteIPv4AddressValidation_def DeleteNeighborsValidation_def DeleteFDBValidation_def DeleteVlanBridgeValidation_def
  DeletevxlanBridgeValidation_def DeleteVlanMemberValidation_def DeleteVxlanPeerValidation_def DeleteBGPNeighborValidation_def
  DeleteSessionUlClValidation_def lb_validation_def vid_check_def

lemma run_delete_follows:
  "outcome (fst (run_delete env o' cmd args log st)) = follow env (success_statuses cmd) (delete_plan env o' cmd args st) log"
  by (cases cmd)
    (auto simp: delete_defs validation_defs outcome_checked outcome_exchange outcome_ai outcome_gated outcome_ulcl outcome_lb outcome_by_name
      success_statuses_def only_when_def ask_def ask_query_def lb_plan_def numeral_arg_def as_number_def Let_def SubResources_def
      split: option.splits sum.splits)

subsection \<open>Runs that send nothing, and panics\<close>

lemma exchange_log: "exchange env req log = (ans, log') \<Longrightarrow> log' = log \<and> ans = NoResponse \<or> (\<exists>r. req = Some r \<and> log' = log @ [r])"
  by (auto simp: exchange_def split: option.splits)

lemma follow_extends: "follow env good steps log = (b, log') \<Longrightarrow> \<exists>new. log' = log @ new \<and> set new \<subseteq> {r. Ask (Some r) \<in> set steps}"
proof (induction env good steps log arbitrary: b log' rule: follow.induct)
  case (3 env good req steps log)
  obtain ans log1 where x: "exchange env req log = (ans, log1)" by (cases "exchange env req log")
  consider "ans = NoResponse" "log' = log1" | status hs raw where "ans = Response status hs raw" "status \<notin> good" "log' = log1"
    | status hs raw where "ans = Response status hs raw" "status \<in> good" "follow env good steps log1 = (b, log')"
    using 3(2) x by (cases ans) (auto split: if_splits)
  then show ?case
  proof cases
    case 3
    then obtain new where "log' = log1 @ new" "set new \<subseteq> {r. Ask (Some r) \<in> set steps}" using "3.IH" x by fastforce
    with exchange_log [OF x] 3 show ?thesis by auto
  qed (use exchange_log [OF x] in auto)
qed auto

lemma follow_silent: "follow env good steps log = (True, log) \<longleftrightarrow> steps = []"
proof (cases "(env, good, steps, log)" rule: follow.cases)
  case (3 env' good' req rest log')
  then show ?thesis
    using exchange_log [of env req log] follow_extends [of env good rest] by (fastforce split: prod.splits http_result.splits if_splits)
qed auto

lemma port_range_none: "port_range ip proto ports = Inr ps \<Longrightarrow> ps = [] \<longleftrightarrow> ports = []"
  by (auto simp: port_range_def split: if_splits)

lemma lb_ports_none:
  "lb_ports d ip = Inr ports \<Longrightarrow> ports = [] \<longleftrightarrow> ld_tcp d = [] \<and> ld_udp d = [] \<and> ld_sctp d = [] \<and> \<not> ld_icmp d"
  by (auto simp: lb_ports_def dest!: port_range_none split: sum.splits)

lemma lb_ports_keys: "lb_ports d ip = Inr ports \<Longrightarrow> fst ` set ports \<subseteq> {''tcp'', ''udp'', ''sctp'', ''icmp''}"
  by (auto simp: lb_ports_def port_range_def split: sum.splits if_splits)

lemma visited_none: "fst ` set m \<subseteq> set order \<Longrightarrow> visited order m = [] \<longleftrightarrow> m = []"
proof -
  assume keys: "fst ` set m \<subseteq> set order"
  show ?thesis
  proof
    assume none: "visited order m = []"
    show "m = []"
    proof (rule ccontr)
      assume "m \<noteq> []"
      then obtain k v where kv: "(k, v) \<in> set m" by (cases m) auto
      then have "k \<in> set order" using keys by force
      moreover obtain w where "map_of m k = Some w" using kv by (metis weak_map_of_SomeI)
      ultimately have "(k, w) \<in> set (visited order m)" by (force simp: visited_def)
      with none show False by simp
    qed
  qed (simp add: visited_def)
qed

text \<open>The protocols a map of ports can hold are all visited.\<close>

fun visits_all :: "delete_command \<Rightarrow> bool" where
  "visits_all (DeleteLb order d) = (set order = {''tcp'', ''udp'', ''sctp'', ''icmp''} \<and> distinct order)"
| "visits_all cmd = True"

fun vacuous :: "delete_command \<Rightarrow> string list \<Rightarrow> bool" where
  "vacuous (DeleteLb order d) args =
     (ld_Name d = [] \<and> args \<noteq> [] \<and> ld_tcp d = [] \<and> ld_udp d = [] \<and> ld_sctp d = [] \<and> \<not> ld_icmp d)"
| "vacuous (DeleteSessionUlCl ulclArgs) args = (args \<noteq> [] \<and> ulclArgs = [])"
| "vacuous cmd args = False"

lemma lb_no_ports: "ld_tcp d = [] \<Longrightarrow> ld_udp d = [] \<Longrightarrow> ld_sctp d = [] \<Longrightarrow> \<not> ld_icmp d \<Longrightarrow> lb_ports d ip = Inr []"
  by (simp add: lb_ports_def port_range_def)

lemma lb_plan_empty:
  assumes "set order = {''tcp'', ''udp'', ''sctp'', ''icmp''}"
  shows "lb_plan env o' order d args = [] \<longleftrightarrow> vacuous (DeleteLb order d) args"
proof (cases "lb_ports d (args ! 0)")
  case (Inl e)
  then show ?thesis using lb_no_ports [of d "args ! 0"] by (auto simp: lb_plan_def ask_def)
next
  case (Inr ports)
  then show ?thesis
    using visited_none [of ports order] lb_ports_keys [OF Inr] lb_ports_none [OF Inr] assms by (auto simp: lb_plan_def ask_def)
qed

lemma delete_plan_empty: "visits_all cmd \<Longrightarrow> delete_plan env o' cmd args st = [] \<longleftrightarrow> vacuous cmd args"
proof (cases cmd)
  case (DeleteLb order d)
  then show "visits_all cmd \<Longrightarrow> ?thesis" using lb_plan_empty [of order env o' d args] by simp
qed (auto simp: only_when_def ask_def ask_query_def split: option.splits)

fun crashes :: "delete_command \<Rightarrow> string list \<Rightarrow> bool" where
  "crashes DeleteRoute args = (length args = 1 \<and> \<not> ParseCIDR (args ! 0))"
| "crashes (DeleteVlanMember tagged) args = (length args = 1 \<and> numeral_arg (args ! 0))"
| "crashes DeleteVxlanPeer args = (length args = 1 \<and> numeral_arg (args ! 0))"
| "crashes cmd args = False"

definition ran_to_end :: "rest_run \<Rightarrow> bool" where
  "ran_to_end r \<longleftrightarrow> (\<exists>e. rn_end r = Done e)"

lemma ran_to_end_simps [simp]:
  "ran_to_end (stopped log out e)" "ran_to_end (finished log out)" "\<not> ran_to_end (panicked log out s)"
  "ran_to_end (r\<lparr>rn_warn := w\<rparr>) = ran_to_end r"
  by (simp_all add: ran_to_end_def run_ends)

lemma ran_to_end_checked:
  "ran_to_end (checked v bad log k) \<longleftrightarrow> (case v of (out, Pass) \<Rightarrow> ran_to_end (k out) | (out, Refuse m) \<Rightarrow> True | (out, Crash s) \<Rightarrow> False)"
  by (auto simp: checked_def split: prod.splits verdict.splits)

lemma ran_to_end_exchanges [simp]:
  "ran_to_end (delete_exchange env o' command failure l log out)" "ran_to_end (ai_delete env command refusal success req log)"
  "ran_to_end (delete_lb_by_name env o' name log)"
  by (auto simp: delete_exchange_def ai_delete_def delete_lb_by_name_def split: prod.splits http_result.splits)

lemma ran_to_end_loops [simp]: "ran_to_end (ulcl_loop env o' user ips log out)" "ran_to_end (lb_loop env o' d ip ports log out)"
proof -
  show "ran_to_end (ulcl_loop env o' user ips log out)"
    by (induction ips arbitrary: log out) (auto split: prod.splits http_result.splits)
  show "ran_to_end (lb_loop env o' d ip ports log out)"
    by (induction ports arbitrary: log out) (auto simp: Let_def split: prod.splits http_result.splits)
qed

lemma ran_to_end_gated: "ran_to_end (k ()) \<Longrightarrow> ran_to_end (fst (gated env o' feature command log st k))"
  by (auto simp: gated_def split: prod.splits option.splits)

lemma one_argument: "args \<noteq> [] \<Longrightarrow> length args < 2 \<longleftrightarrow> length args = 1"
  by (cases args) auto

lemma run_delete_crashes: "ran_to_end (fst (run_delete env o' cmd args log st)) \<longleftrightarrow> \<not> crashes cmd args"
  by (cases cmd; cases args)
    (auto simp: delete_defs validation_defs ran_to_end_checked ran_to_end_gated numeral_arg_def Let_def split: option.splits sum.splits)

end
