(* ===== verification/CreateLb.thy ===== *)
theory CreateLb
  imports LbModel DeletePlan
begin

section \<open>\<open>create lb\<close>\<close>

text \<open>
  The command from its arguments to one request per protocol. A run that does not return is \<open>None\<close>: the loop over
  a range of target ports that ends at the largest \<open>int\<close> never stops.
\<close>

definition ReadCreateLoadBalancerOptions :: "string list \<Rightarrow> createLoadBalancerOptions \<Rightarrow> msg list \<times> (msg + createLoadBalancerOptions)" where
  "ReadCreateLoadBalancerOptions args l =
     (let out = (if length args > 1 then [Text ''create lb command get so many args'', show_slice args] else []) in
      if args = [] then (out, Inl (Text ''create lb need EXTERNAL-IP args''))
      else if ParseIP (args ! 0) then (out, Inr (l\<lparr>cl_ExternalIP := args ! 0\<rparr>))
      else (out, Inl (Sprintf ''externel IP '%s' is invalid format'' [AStr (args ! 0)])))"

definition PrintCreateResult :: "restOptions \<Rightarrow> http_body \<Rightarrow> msg list" where
  "PrintCreateResult o' raw =
     (case raw of
        Torn part \<Rightarrow> [Sprintf ''Error: Failed to read HTTP response: (%s)'' [AErr ''net/http'']]
      | Whole body \<Rightarrow>
          (case unmarshal [fld ''result'' dl_Result dl_Result_update dec_string] \<lparr>dl_Result = []\<rparr> body of
             None \<Rightarrow> [Sprintf ''Error: Failed to unmarshal HTTP response: (%s)'' [AErr ''encoding/json'']]
           | Some result \<Rightarrow> if ro_PrintOption o' = ''json'' then [Text ''{}''] else [Sprintf ''%s'' [AStr (dl_Result result)]]))"

definition ProtoPortpair :: "createLoadBalancerOptions \<Rightarrow> (string \<times> string list) list" where
  "ProtoPortpair l =
     (if cl_TCP l \<noteq> [] then [(''tcp'', cl_TCP l)] else [])
     @ (if cl_UDP l \<noteq> [] then [(''udp'', cl_UDP l)] else [])
     @ (if cl_SCTP l \<noteq> [] then [(''sctp'', cl_SCTP l)] else [])
     @ (if cl_ICMP l then [(''icmp'', [''0:0''])] else [])"

definition lb_service :: "createLoadBalancerOptions \<Rightarrow> string \<Rightarrow> 16 word \<Rightarrow> 16 word \<Rightarrow> loadBalancerService" where
  "lb_service l proto startSPort endSPort =
     applyAIServiceOptions l (loadBalancerService0\<lparr>ls_ExternalIP := cl_ExternalIP l, ls_Protocol := proto, ls_Port := startSPort, ls_PortMax := endSPort,
       ls_Sel := SelectToNum (cl_Select l), ls_BGP := cl_BGP l, ls_Monitor := cl_Monitor l, ls_Mode := ModeToNum (cl_Mode l),
       ls_Timeout := cl_Timeout l, ls_Block := cl_Mark l, ls_Name := cl_Name l,
       ls_Oper := (if cl_Attach l then 1 else if cl_Detach l then 2 else 0), ls_Security := SecStringToNum (cl_Security l),
       ls_Host := cl_Host l, ls_PpV2 := cl_PPv2En l, ls_Egress := cl_Egress l\<rparr>)"

text \<open>The model of one protocol, from the map of its port pairs.\<close>

definition lb_model ::
  "createLoadBalancerOptions \<Rightarrow> endpointSpec list \<Rightarrow> int list \<Rightarrow> int list \<Rightarrow> string \<Rightarrow> port_map \<Rightarrow> msg + loadBalancerModel" where
  "lb_model l es roles nixls proto m =
     (if m = [] \<or> length m > 2 then Inl (Text ''portPair: None specified'')
      else (let (startSPort, endSPort) = port_span (map fst m) in
        case rule_endpoints (cl_Mode l = ''dsr'') startSPort es roles nixls (case map_of m startSPort of None \<Rightarrow> [] | Some ts \<Rightarrow> ts) of
          Inl e \<Rightarrow> Inl e
        | Inr eps \<Rightarrow> Inr \<lparr>lm_Service = lb_service l proto startSPort endSPort,
            lm_SecondaryIPs = map (\<lambda>sip. \<lparr>si_SecondaryIP = sip\<rparr>) (cl_SecIPs l),
            lm_SrcIPs = map (\<lambda>sip. \<lparr>sr_Prefix = sip\<rparr>) (cl_AllowedSources l), lm_Endpoints = eps\<rparr>))"

definition LoadbalancerAPICall :: "gateway_env \<Rightarrow> restOptions \<Rightarrow> loadBalancerModel \<Rightarrow> http_request option" where
  "LoadbalancerAPICall env o' model =
     api_Create (ge_url_ok env) (Some (print_json (loadBalancerModel_json model))) (LoxiClient_LoadBalancer o')"

definition create_lb_refusal :: "int \<Rightarrow> bytes \<Rightarrow> cliError" where
  "create_lb_refusal status body = (FromHTTPStatus ''create lb'' status)\<lparr>ce_Message :=
     (if status = 400 then APIError_Verbatim (NewAPIError status body) else APIError_Error (NewAPIError status body))\<rparr>"

definition invalid :: "msg \<Rightarrow> cliError" where
  "invalid e = Invalidf (Sprintf ''%s'' [AMsg e])"

fun create_lb_loop ::
  "gateway_env \<Rightarrow> restOptions \<Rightarrow> createLoadBalancerOptions \<Rightarrow> endpointSpec list \<Rightarrow> int list \<Rightarrow> int list \<Rightarrow> (string \<times> string list) list
     \<Rightarrow> http_request list \<Rightarrow> msg list \<Rightarrow> rest_run option" where
  "create_lb_loop env o' l es roles nixls [] log out = Some (finished log out)"
| "create_lb_loop env o' l es roles nixls ((proto, pairs) # rest) log out =
     (case GetPortPairList pairs of
        None \<Rightarrow> None
      | Some (Inl e) \<Rightarrow> Some (stopped log out (invalid e))
      | Some (Inr m) \<Rightarrow>
          (case lb_model l es roles nixls proto m of
             Inl e \<Rightarrow> Some (stopped log out (Invalidf e))
           | Inr model \<Rightarrow>
               (case exchange env (LoadbalancerAPICall env o' model) log of
                  (NoResponse, log') \<Rightarrow> Some (stopped log' out (Unavailablef (Sprintf ''create lb: %v'' [AErr ''net/http''])))
                | (Response status hs raw, log') \<Rightarrow>
                    if status \<noteq> 200 then Some (stopped log' out (create_lb_refusal status (read_some raw)))
                    else create_lb_loop env o' l es roles nixls rest log' (out @ PrintCreateResult o' raw))))"

definition lb_endpoints :: "createLoadBalancerOptions \<Rightarrow> msg + endpointSpec list \<times> int list \<times> int list" where
  "lb_endpoints l =
     (case GetEndpointList (cl_Endpoints l) of
        Inl e \<Rightarrow> Inl e
      | Inr es \<Rightarrow>
          (case parseEndpointRoles (cl_EpRoles l) (length es) of
             Inl e \<Rightarrow> Inl e
           | Inr roles \<Rightarrow>
               (case alignNixlPorts (cl_NixlPorts l) (length es) of Inl e \<Rightarrow> Inl e | Inr nixls \<Rightarrow> Inr (es, roles, nixls))))"

definition create_lb ::
  "gateway_env \<Rightarrow> restOptions \<Rightarrow> string list \<Rightarrow> createLoadBalancerOptions \<Rightarrow> string list \<Rightarrow> http_request list \<Rightarrow> gate_state
     \<Rightarrow> (rest_run \<times> gate_state) option" where
  "create_lb env o' order l0 args log st =
     (if args = [] then Some (stopped log [] (needs_arguments ''create lb''), st)
      else case ReadCreateLoadBalancerOptions args l0 of
        (out, Inl e) \<Rightarrow> Some (stopped log out (invalid e), st)
      | (out, Inr l) \<Rightarrow>
          (case validateLBAIOptions l of
             Some e \<Rightarrow> Some (stopped log out (invalid e), st)
           | None \<Rightarrow>
               (case requireLBFeatures (ge_peer env) o' l st of
                  ((Some e, warn), st') \<Rightarrow> Some ((stopped log out e)\<lparr>rn_warn := warn\<rparr>, st')
                | ((None, warn), st') \<Rightarrow>
                    if cl_SCTP l = [] \<and> cl_SecIPs l \<noteq> [] then
                      Some ((stopped log out (Invalidf (Text ''Secondary IPs allowed in SCTP only'')))\<lparr>rn_warn := warn\<rparr>, st')
                    else (case lb_endpoints l of
                        Inl e \<Rightarrow> Some ((stopped log out (invalid e))\<lparr>rn_warn := warn\<rparr>, st')
                      | Inr (es, roles, nixls) \<Rightarrow>
                          (case create_lb_loop env o' l es roles nixls (visited order (ProtoPortpair l)) log out of
                             None \<Rightarrow> None
                           | Some r \<Rightarrow> Some (r\<lparr>rn_warn := warn\<rparr>, st'))))))"

end
