(* ===== verification/SetCommands.thy ===== *)
theory SetCommands
  imports CreateLb
begin

section \<open>The \<open>set\<close> commands (\<open>cmd/set\<close>)\<close>

text \<open>
  Every leaf of \<open>loxicmd set\<close> but \<open>maintenance\<close> and \<open>audit-sink\<close>, which call the lifecycle operations, and the three
  session commands, which have a theory of their own. A flag is its value together with whether it was given;
  a \<open>float64\<close> is the numeral it is printed as, or not finite, which \<open>json.Marshal\<close> refuses.
\<close>

subsection \<open>Flags and answers\<close>

datatype 'a flag = Flag (given: bool) (flag_value: 'a)

definition flag_ptr :: "'a flag \<Rightarrow> 'a option" where
  "flag_ptr f = (if given f then Some (flag_value f) else None)"

datatype go_float = Finite string | NotFinite

definition jfloat :: "go_float \<Rightarrow> json" where
  "jfloat x = (case x of Finite s \<Rightarrow> JNum s | NotFinite \<Rightarrow> JNull)"

definition jint :: "int \<Rightarrow> json" where
  "jint i = JNum (show_int i)"

definition jstrings :: "string list \<Rightarrow> json" where
  "jstrings xs = JArr (map JStr xs)"

definition how_many :: "bool list \<Rightarrow> nat" where
  "how_many bs = length (filter id bs)"

text \<open>\<open>strings.Cut\<close> and \<open>strings.SplitN(s, sep, 2)\<close> at a separator of one byte.\<close>

definition cut_at :: "char \<Rightarrow> string \<Rightarrow> (string \<times> string) option" where
  "cut_at c s = (if c \<in> set s then Some (takeWhile (\<lambda>x. x \<noteq> c) s, tl (dropWhile (\<lambda>x. x \<noteq> c) s)) else None)"

text \<open>\<open>json.MarshalIndent(v, "", "    ")\<close>: an empty array or object stays on one line.\<close>

abbreviation newline :: string where "newline \<equiv> [CHR 0x0A]"

definition indentation :: "nat \<Rightarrow> string" where
  "indentation d = newline @ concat (replicate d ''    '')"

fun print_indented :: "nat \<Rightarrow> json \<Rightarrow> string" where
  "print_indented d (JArr (v # vs)) =
     ''['' @ join '','' (map (\<lambda>w. indentation (Suc d) @ print_indented (Suc d) w) (v # vs)) @ indentation d @ '']''"
| "print_indented d (JObj (m # ms)) =
     ''{'' @ join '','' (map (\<lambda>(k, w). indentation (Suc d) @ print_json (JStr k) @ '': '' @ print_indented (Suc d) w) (m # ms)) @ indentation d @ ''}''"
| "print_indented d j = print_json j"

definition MarshalIndent :: "json \<Rightarrow> msg" where
  "MarshalIndent j = Text (print_indented 0 j)"

text \<open>\<open>Create(ctx, nil)\<close> marshals \<open>nil\<close>.\<close>

definition null_body :: bytes where
  "null_body = print_json JNull"

definition PrintSetResult :: "restOptions \<Rightarrow> http_body \<Rightarrow> msg list" where
  "PrintSetResult o' raw =
     (case raw of
        Torn part \<Rightarrow> [Sprintf ''Error: Failed to read HTTP response: (%s)'' [AErr ''net/http'']]
      | Whole body \<Rightarrow>
          (case unmarshal [fld ''result'' dl_Result dl_Result_update dec_string] \<lparr>dl_Result = []\<rparr> body of
             None \<Rightarrow> [Sprintf ''Error: Failed to unmarshal HTTP response: (%s)'' [AErr ''encoding/json'']]
           | Some result \<Rightarrow> if ro_PrintOption o' = ''json'' then [Text ''{}''] else [Sprintf ''%s'' [AStr (dl_Result result)]]))"

definition reportPost :: "gateway_env \<Rightarrow> http_request option \<Rightarrow> msg \<Rightarrow> http_request list \<Rightarrow> rest_run" where
  "reportPost env req successMsg log =
     (case exchange env req log of
        (NoResponse, log') \<Rightarrow> stopped log' [] (Unavailablef (Sprintf ''%v'' [AErr ''net/http'']))
      | (Response status hs raw, log') \<Rightarrow>
          if status \<noteq> 200 \<and> status \<noteq> 204 then stopped log' [] (status_refusal ''set'' status (read_some raw))
          else finished log' [successMsg])"

definition unreachable :: "string \<Rightarrow> cliError" where
  "unreachable command = Unavailablef (Sprintf (command @ '': %v'') [AErr ''net/http''])"

text \<open>The exchange of the commands that read the body whatever the status is.\<close>

definition on_answer ::
  "gateway_env \<Rightarrow> string \<Rightarrow> int list \<Rightarrow> (int \<Rightarrow> bytes \<Rightarrow> cliError) \<Rightarrow> (http_request list \<Rightarrow> int \<Rightarrow> bytes \<Rightarrow> rest_run)
     \<Rightarrow> http_request option \<Rightarrow> http_request list \<Rightarrow> rest_run" where
  "on_answer env command good refusal k req log =
     (case exchange env req log of
        (NoResponse, log') \<Rightarrow> stopped log' [] (unreachable command)
      | (Response status hs raw, log') \<Rightarrow>
          if status \<in> set good then k log' status (read_some raw) else stopped log' [] (refusal status (read_some raw)))"

text \<open>A 400 is reported with its whole body.\<close>

definition verbatim_refusal :: "string \<Rightarrow> int \<Rightarrow> bytes \<Rightarrow> cliError" where
  "verbatim_refusal command status body = (FromHTTPStatus command status)\<lparr>ce_Message :=
     (if status = 400 then APIError_Verbatim (NewAPIError status body) else APIError_Error (NewAPIError status body))\<rparr>"

subsection \<open>Log level and BFD\<close>

definition set_exchange :: "gateway_env \<Rightarrow> restOptions \<Rightarrow> string \<Rightarrow> http_request option \<Rightarrow> http_request list \<Rightarrow> rest_run" where
  "set_exchange env o' command req log =
     (case exchange env req log of
        (NoResponse, log') \<Rightarrow> stopped log' [] (unreachable command)
      | (Response status hs raw, log') \<Rightarrow>
          if status = 200 then finished log' (PrintSetResult o' raw) else stopped log' [] (FromHTTPStatus command status))"

record paramDump =
  pd_LogLevel :: string

definition paramDump_json :: "paramDump \<Rightarrow> json" where
  "paramDump_json p = JObj [(''logLevel'', JStr (pd_LogLevel p))]"

definition IsValidLogLevel :: "string \<Rightarrow> bool" where
  "IsValidLogLevel loglevel \<longleftrightarrow>
     loglevel \<in> {''trace'', ''debug'', ''info'', ''error'', ''warning'', ''notice'', ''critical'', ''emergency'', ''alert''}"

definition ReadSetLogLevelOptions :: "string list \<Rightarrow> msg + paramDump" where
  "ReadSetLogLevelOptions args =
     (if length args > 1 then Inl (Text ''set log-level command get so many args'')
      else if length args < 1 then Inl (Text ''set log-level need <log-level> args'')
      else if IsValidLogLevel (args ! 0) then Inr \<lparr>pd_LogLevel = args ! 0\<rparr>
      else Inl (Text ''set log-level in the trace,debug,info,error,warning,notice,critical,emergency,alert''))"

definition ParamAPICall :: "gateway_env \<Rightarrow> restOptions \<Rightarrow> paramDump \<Rightarrow> http_request option" where
  "ParamAPICall env o' p = api_Create (ge_url_ok env) (Some (print_json (paramDump_json p))) (LoxiClient_Param o')"

definition set_loglevel :: "gateway_env \<Rightarrow> restOptions \<Rightarrow> string list \<Rightarrow> http_request list \<Rightarrow> rest_run" where
  "set_loglevel env o' args log =
     (case ReadSetLogLevelOptions args of
        Inl e \<Rightarrow> stopped log [] (invalid e)
      | Inr p \<Rightarrow> set_exchange env o' ''set log-level'' (ParamAPICall env o' p) log)"

record bfdSessionInfo =
  bf_Instance :: string
  bf_RemoteIP :: string
  bf_SourceIP :: string
  bf_Port :: "16 word"
  bf_Interval :: "64 word"
  bf_RetryCount :: "8 word"
  bf_State :: string

definition bfdSessionInfo_json :: "bfdSessionInfo \<Rightarrow> json" where
  "bfdSessionInfo_json b = JObj
     [(''instance'', JStr (bf_Instance b)), (''remoteIp'', JStr (bf_RemoteIP b)), (''sourceIp'', JStr (bf_SourceIP b)),
      (''port'', jword (bf_Port b)), (''interval'', jword (bf_Interval b)), (''retryCount'', jword (bf_RetryCount b)),
      (''state'', JStr (bf_State b))]"

definition ReadSetBfdOptions :: "bfdSessionInfo \<Rightarrow> string list \<Rightarrow> msg + bfdSessionInfo" where
  "ReadSetBfdOptions b args =
     (if length args > 1 then Inl (Text ''set bfd command get so many args'')
      else if length args < 1 then Inl (Text ''set bfd need <RemoteIP> args'')
      else if ParseIP (args ! 0) then Inr (b\<lparr>bf_RemoteIP := args ! 0\<rparr>)
      else Inl (Sprintf ''remote IP '%s' is invalid format'' [AStr (args ! 0)]))"

definition SetBFDAPICall :: "gateway_env \<Rightarrow> restOptions \<Rightarrow> bfdSessionInfo \<Rightarrow> http_request option" where
  "SetBFDAPICall env o' b = api_Create (ge_url_ok env) (Some (print_json (bfdSessionInfo_json b))) (LoxiClient_BFDSession o')"

definition set_bfd :: "gateway_env \<Rightarrow> restOptions \<Rightarrow> bfdSessionInfo \<Rightarrow> string list \<Rightarrow> http_request list \<Rightarrow> rest_run" where
  "set_bfd env o' b args log =
     (case ReadSetBfdOptions b args of
        Inl e \<Rightarrow> stopped log [] (invalid e)
      | Inr b' \<Rightarrow> set_exchange env o' ''set bfd'' (SetBFDAPICall env o' b') log)"

subsection \<open>Metrics, GPU, OPA, DPU\<close>

definition set_metrics :: "gateway_env \<Rightarrow> restOptions \<Rightarrow> bool \<Rightarrow> bool \<Rightarrow> http_request list \<Rightarrow> rest_run" where
  "set_metrics env o' enable disable log =
     (if enable = disable then stopped log [] (Usagef (Text ''specify exactly one of --enable or --disable''))
      else on_answer env ''set metrics'' [204, 200] (status_refusal ''set metrics'')
        (\<lambda>log' status body. finished log' [Text (if enable then ''Prometheus metrics enabled.'' else ''Prometheus metrics disabled.'')])
        (if enable then api_Create (ge_url_ok env) (Some null_body) (LoxiClient_Metrics o')
         else api_Delete (ge_url_ok env) (LoxiClient_Metrics o')) log)"

record gpuFlags =
  gp_enable :: bool
  gp_disable :: bool
  gp_cleanup :: bool
  gp_maxAgeHours :: "int flag"

definition set_gpu :: "gateway_env \<Rightarrow> restOptions \<Rightarrow> gpuFlags \<Rightarrow> http_request list \<Rightarrow> rest_run" where
  "set_gpu env o' f log =
     (if how_many [gp_enable f, gp_disable f, gp_cleanup f] \<noteq> 1 then
        stopped log [] (Usagef (Text ''specify exactly one of --enable, --disable, or --cleanup''))
      else if gp_enable f then
        reportPost env (api_Create (ge_url_ok env) (Some null_body) (SubResources [''enable''] (LoxiClient_GPU o')))
          (Text ''GPU-aware load balancing enabled.'') log
      else if gp_disable f then
        reportPost env (api_Create (ge_url_ok env) (Some null_body) (SubResources [''disable''] (LoxiClient_GPU o')))
          (Text ''GPU-aware load balancing disabled.'') log
      else
        (let gpu = SubResources [''conversations'', ''cleanup''] (LoxiClient_GPU o') in
         reportPost env (api_Create (ge_url_ok env) (Some null_body)
             (case flag_ptr (gp_maxAgeHours f) of None \<Rightarrow> gpu | Some h \<Rightarrow> api_Query [(''max_age_hours'', show_int h)] gpu))
           (Text ''Conversation cleanup completed.'') log))"

record opaWatcherConfig =
  ow_OpaURL :: string
  ow_PolicyPath :: string
  ow_PollIntervalSec :: int
  ow_FailOpen :: bool

definition opaWatcherConfig_json :: "opaWatcherConfig \<Rightarrow> json" where
  "opaWatcherConfig_json c = JObj (concat
    [[(''opa_url'', JStr (ow_OpaURL c))],
     unless (ow_PolicyPath c = []) ''policy_path'' (JStr (ow_PolicyPath c)),
     unless (ow_PollIntervalSec c = 0) ''poll_interval_sec'' (jint (ow_PollIntervalSec c)),
     unless (\<not> ow_FailOpen c) ''fail_open'' (JBool (ow_FailOpen c))])"

definition set_opa :: "gateway_env \<Rightarrow> restOptions \<Rightarrow> opaWatcherConfig \<Rightarrow> http_request list \<Rightarrow> rest_run" where
  "set_opa env o' c log =
     (if ow_OpaURL c = [] then stopped log [] (Usagef (Text ''--opa-url is required''))
      else reportPost env (api_Create (ge_url_ok env) (Some (print_json (opaWatcherConfig_json c))) (LoxiClient_OPA o'))
        (Text ''OPA policy watcher configured and started.'') log)"

record dpuDebugAction =
  dp_Action :: string
  dp_Plugin :: string
  dp_Mode :: string

definition dpuDebugAction_json :: "dpuDebugAction \<Rightarrow> json" where
  "dpuDebugAction_json d = JObj (concat
    [[(''action'', JStr (dp_Action d))],
     unless (dp_Plugin d = []) ''plugin'' (JStr (dp_Plugin d)),
     unless (dp_Mode d = []) ''mode'' (JStr (dp_Mode d))])"

definition check_dpu :: "dpuDebugAction \<Rightarrow> cliError option" where
  "check_dpu d =
     (if dp_Action d = ''unregister'' then failIf (dp_Plugin d = []) (Usagef (Text ''--plugin is required for --action unregister''))
      else if dp_Action d = ''cb_force'' then
        failIf (dp_Mode d \<noteq> ''open'' \<and> dp_Mode d \<noteq> ''close'') (Invalidf (Text ''--mode must be open or close for --action cb_force''))
      else Some (Usagef (Text ''--action must be unregister or cb_force'')))"

definition set_dpu :: "gateway_env \<Rightarrow> restOptions \<Rightarrow> dpuDebugAction \<Rightarrow> http_request list \<Rightarrow> rest_run" where
  "set_dpu env o' d log =
     (case check_dpu d of
        Some e \<Rightarrow> stopped log [] e
      | None \<Rightarrow> reportPost env (api_Create (ge_url_ok env) (Some (print_json (dpuDebugAction_json d))) (SubResources [''debug''] (LoxiClient_DPU o')))
          (Sprintf ''DPU debug action '%s' executed.'' [AStr (dp_Action d)]) log)"

subsection \<open>Tracing\<close>

record traceOTLPConfig =
  ot_Endpoint :: string
  ot_Protocol :: string
  ot_UseTLS :: "bool option"
  ot_TLSSkipVerify :: "bool option"
  ot_Headers :: "(string \<times> string) list"

text \<open>\<open>json.Marshal\<close> writes the members of a map in the order of their keys.\<close>

definition traceOTLPConfig_json :: "traceOTLPConfig \<Rightarrow> json" where
  "traceOTLPConfig_json c = JObj (concat
    [[(''endpoint'', JStr (ot_Endpoint c))],
     [(''protocol'', JStr (ot_Protocol c))],
     opt_member ''use_tls'' JBool (ot_UseTLS c),
     opt_member ''tls_skip_verify'' JBool (ot_TLSSkipVerify c),
     unless (ot_Headers c = []) ''headers'' (JObj (map (\<lambda>(k, v). (k, JStr v)) (foldr insert_arg (ot_Headers c) [])))])"

record traceFlags =
  tr_enable :: bool
  tr_disable :: bool
  tr_otlp :: bool
  tr_endpoint :: string
  tr_protocol :: string
  tr_useTLS :: "bool flag"
  tr_tlsSkipVerify :: "bool flag"
  tr_headers :: "string list"

fun otlp_headers :: "string list \<Rightarrow> (string \<times> string) list \<Rightarrow> cliError + (string \<times> string) list" where
  "otlp_headers [] m = Inr m"
| "otlp_headers (h # hs) m =
     (case cut_at (CHR ''='') h of
        None \<Rightarrow> Inl (Invalidf (Sprintf ''--otlp-header must be key=value, got %q'' [AStr h]))
      | Some (k, v) \<Rightarrow> otlp_headers hs (map_put k v m))"

definition set_trace :: "gateway_env \<Rightarrow> restOptions \<Rightarrow> traceFlags \<Rightarrow> http_request list \<Rightarrow> rest_run" where
  "set_trace env o' f log =
     (if how_many [tr_enable f, tr_disable f, tr_otlp f] \<noteq> 1 then
        stopped log [] (Usagef (Text ''specify exactly one of --enable, --disable, or --otlp''))
      else if tr_enable f then
        reportPost env (api_Create (ge_url_ok env) (Some null_body) (SubResources [''enable''] (LoxiClient_Trace o')))
          (Text ''HTTP/HTTPS tracing enabled.'') log
      else if tr_disable f then
        reportPost env (api_Create (ge_url_ok env) (Some null_body) (SubResources [''disable''] (LoxiClient_Trace o')))
          (Text ''HTTP/HTTPS tracing disabled.'') log
      else if tr_endpoint f = [] \<or> tr_protocol f = [] then
        stopped log [] (Usagef (Text ''--otlp requires --otlp-endpoint and --otlp-protocol''))
      else (case otlp_headers (tr_headers f) [] of
          Inl e \<Rightarrow> stopped log [] e
        | Inr headers \<Rightarrow>
            reportPost env (api_Create (ge_url_ok env)
                (Some (print_json (traceOTLPConfig_json \<lparr>ot_Endpoint = tr_endpoint f, ot_Protocol = tr_protocol f,
                  ot_UseTLS = flag_ptr (tr_useTLS f), ot_TLSSkipVerify = flag_ptr (tr_tlsSkipVerify f), ot_Headers = headers\<rparr>)))
                (SubResources [''otlp''] (LoxiClient_Trace o')))
              (Text ''OTLP endpoint configured.'') log))"

record l4traceFlags =
  l4_enable :: bool
  l4_disable :: bool
  l4_resetStats :: bool
  l4_samplingRate :: "int flag"

definition L4TraceEnableRequest_json :: "int option \<Rightarrow> json" where
  "L4TraceEnableRequest_json rate = JObj (opt_member ''sampling_rate'' jint rate)"

definition L4TraceSamplingRequest_json :: "int \<Rightarrow> json" where
  "L4TraceSamplingRequest_json rate = JObj [(''sampling_rate'', jint rate)]"

definition set_l4trace :: "gateway_env \<Rightarrow> restOptions \<Rightarrow> l4traceFlags \<Rightarrow> http_request list \<Rightarrow> rest_run" where
  "set_l4trace env o' f log =
     (let n = how_many [l4_enable f, l4_disable f, l4_resetStats f];
          rateChanged = given (l4_samplingRate f);
          n' = (if n = 0 \<and> rateChanged then 1 else n) in
      if n' \<noteq> 1 then
        stopped log [] (Usagef (Text ''specify exactly one of --enable, --disable, --sampling-rate, or --reset-stats''))
      else if l4_enable f then
        reportPost env (api_Create (ge_url_ok env) (Some (print_json (L4TraceEnableRequest_json (flag_ptr (l4_samplingRate f)))))
            (SubResources [''enable''] (LoxiClient_L4Trace o'))) (Text ''L4 connection tracing enabled.'') log
      else if l4_disable f then
        reportPost env (api_Create (ge_url_ok env) (Some null_body) (SubResources [''disable''] (LoxiClient_L4Trace o')))
          (Text ''L4 connection tracing disabled.'') log
      else if l4_resetStats f then
        reportPost env (api_Create (ge_url_ok env) (Some null_body) (SubResources [''stats'', ''reset''] (LoxiClient_L4Trace o')))
          (Text ''L4 tracing statistics reset.'') log
      else
        reportPost env (api_Put (ge_url_ok env) (Some (print_json (L4TraceSamplingRequest_json (flag_value (l4_samplingRate f)))))
            (SubResources [''sampling''] (LoxiClient_L4Trace o')))
          (Sprintf ''L4 sampling rate updated to %d%%.'' [AInt (flag_value (l4_samplingRate f))]) log)"

subsection \<open>PII detection and LlamaFirewall\<close>

definition enable_json :: "bool \<Rightarrow> json" where
  "enable_json b = JObj [(''enabled'', JBool b)]"

text \<open>The body, unless a \<open>float64\<close> in it is not finite.\<close>

definition float_body :: "go_float option \<Rightarrow> json \<Rightarrow> bytes option" where
  "float_body x j = (if x = Some NotFinite then None else Some (print_json j))"

record piiConfigEntry =
  pc_Mode :: "string option"
  pc_Direction :: "string option"
  pc_FailMode :: "string option"
  pc_ScanMode :: "string option"
  pc_AnalyzerURL :: "string option"
  pc_AnonymizerURL :: "string option"
  pc_ScoreThreshold :: "go_float option"
  pc_TimeoutMs :: "int option"
  pc_MaxBodySize :: "int option"
  pc_MinBodySize :: "int option"
  pc_EnableV2 :: "bool option"
  pc_DefaultOper :: "string option"
  pc_EncryptionKey :: "string option"
  pc_BatchSize :: "int option"

definition piiConfigEntry_json :: "piiConfigEntry \<Rightarrow> json" where
  "piiConfigEntry_json c = JObj (concat
    [opt_member ''mode'' JStr (pc_Mode c),
     opt_member ''direction'' JStr (pc_Direction c),
     opt_member ''fail_mode'' JStr (pc_FailMode c),
     opt_member ''scan_mode'' JStr (pc_ScanMode c),
     opt_member ''analyzer_url'' JStr (pc_AnalyzerURL c),
     opt_member ''anonymizer_url'' JStr (pc_AnonymizerURL c),
     opt_member ''score_threshold'' jfloat (pc_ScoreThreshold c),
     opt_member ''timeout_ms'' jint (pc_TimeoutMs c),
     opt_member ''max_body_size'' jint (pc_MaxBodySize c),
     opt_member ''min_body_size'' jint (pc_MinBodySize c),
     opt_member ''enable_v2'' JBool (pc_EnableV2 c),
     opt_member ''default_operator'' JStr (pc_DefaultOper c),
     opt_member ''encryption_key'' JStr (pc_EncryptionKey c),
     opt_member ''batch_size'' jint (pc_BatchSize c)])"

record piiFlags =
  pi_enable :: bool
  pi_disable :: bool
  pi_configure :: bool
  pi_urlPatterns :: bool
  pi_mode :: "string flag"
  pi_direction :: "string flag"
  pi_failMode :: "string flag"
  pi_scanMode :: "string flag"
  pi_analyzerURL :: "string flag"
  pi_anonymizerURL :: "string flag"
  pi_scoreThreshold :: "go_float flag"
  pi_timeoutMs :: "int flag"
  pi_maxBodySize :: "int flag"
  pi_minBodySize :: "int flag"
  pi_enableV2 :: "bool flag"
  pi_defaultOperator :: "string flag"
  pi_encryptionKey :: "string flag"
  pi_batchSize :: "int flag"
  pi_urlMode :: string
  pi_includes :: "string list"
  pi_excludes :: "string list"

definition pii_config :: "piiFlags \<Rightarrow> piiConfigEntry" where
  "pii_config f = \<lparr>pc_Mode = flag_ptr (pi_mode f), pc_Direction = flag_ptr (pi_direction f), pc_FailMode = flag_ptr (pi_failMode f),
     pc_ScanMode = flag_ptr (pi_scanMode f), pc_AnalyzerURL = flag_ptr (pi_analyzerURL f), pc_AnonymizerURL = flag_ptr (pi_anonymizerURL f),
     pc_ScoreThreshold = flag_ptr (pi_scoreThreshold f), pc_TimeoutMs = flag_ptr (pi_timeoutMs f), pc_MaxBodySize = flag_ptr (pi_maxBodySize f),
     pc_MinBodySize = flag_ptr (pi_minBodySize f), pc_EnableV2 = flag_ptr (pi_enableV2 f), pc_DefaultOper = flag_ptr (pi_defaultOperator f),
     pc_EncryptionKey = flag_ptr (pi_encryptionKey f), pc_BatchSize = flag_ptr (pi_batchSize f)\<rparr>"

record piiURLPattern =
  up_Pattern :: string
  up_IsExclude :: bool

definition piiURLPattern_json :: "piiURLPattern \<Rightarrow> json" where
  "piiURLPattern_json p = JObj [(''pattern'', JStr (up_Pattern p)), (''is_exclude'', JBool (up_IsExclude p))]"

definition url_patterns :: "piiFlags \<Rightarrow> piiURLPattern list" where
  "url_patterns f = map (\<lambda>p. \<lparr>up_Pattern = p, up_IsExclude = False\<rparr>) (pi_includes f) @ map (\<lambda>p. \<lparr>up_Pattern = p, up_IsExclude = True\<rparr>) (pi_excludes f)"

definition piiURLPatternsEntry_json :: "string \<Rightarrow> piiURLPattern list \<Rightarrow> json" where
  "piiURLPatternsEntry_json mode ps = JObj (concat
    [[(''mode'', JStr mode)], unless (ps = []) ''patterns'' (JArr (map piiURLPattern_json ps))])"

definition set_pii :: "gateway_env \<Rightarrow> restOptions \<Rightarrow> piiFlags \<Rightarrow> http_request list \<Rightarrow> rest_run" where
  "set_pii env o' f log =
     (if how_many [pi_enable f, pi_disable f, pi_configure f, pi_urlPatterns f] \<noteq> 1 then
        stopped log [] (Usagef (Text ''specify exactly one of --enable, --disable, --configure, or --url-patterns''))
      else if pi_enable f \<or> pi_disable f then
        reportPost env (api_Create (ge_url_ok env) (Some (print_json (enable_json (pi_enable f)))) (SubResources [''enable''] (LoxiClient_PII o')))
          (Text (if pi_enable f then ''PII detection enabled.'' else ''PII detection disabled.'')) log
      else if pi_configure f then
        reportPost env (api_Create (ge_url_ok env) (float_body (pc_ScoreThreshold (pii_config f)) (piiConfigEntry_json (pii_config f)))
            (SubResources [''configure''] (LoxiClient_PII o'))) (Text ''PII configuration updated.'') log
      else if pi_urlMode f = [] then
        stopped log [] (Usagef (Text ''--url-mode is required with --url-patterns (add, replace, or clear)''))
      else
        reportPost env (api_Create (ge_url_ok env) (Some (print_json (piiURLPatternsEntry_json (pi_urlMode f) (url_patterns f))))
            (SubResources [''url-patterns''] (LoxiClient_PII o'))) (Text ''PII URL patterns updated.'') log)"

record llamaFirewallConfigEntry =
  lf_ServerURL :: "string option"
  lf_TimeoutSec :: "int option"
  lf_FailClosed :: "bool option"
  lf_BlockThreshold :: "go_float option"
  lf_CacheEnabled :: "bool option"
  lf_CacheTTLSec :: "int option"
  lf_ConnectionPoolSize :: "int option"
  lf_ScanPatterns :: "string list"
  lf_SkipPatterns :: "string list"

definition llamaFirewallConfigEntry_json :: "llamaFirewallConfigEntry \<Rightarrow> json" where
  "llamaFirewallConfigEntry_json c = JObj (concat
    [opt_member ''server_url'' JStr (lf_ServerURL c),
     opt_member ''timeout_sec'' jint (lf_TimeoutSec c),
     opt_member ''fail_closed'' JBool (lf_FailClosed c),
     opt_member ''block_threshold'' jfloat (lf_BlockThreshold c),
     opt_member ''cache_enabled'' JBool (lf_CacheEnabled c),
     opt_member ''cache_ttl_sec'' jint (lf_CacheTTLSec c),
     opt_member ''connection_pool_size'' jint (lf_ConnectionPoolSize c),
     unless (lf_ScanPatterns c = []) ''scan_patterns'' (jstrings (lf_ScanPatterns c)),
     unless (lf_SkipPatterns c = []) ''skip_patterns'' (jstrings (lf_SkipPatterns c))])"

record llamaFirewallScannersEntry =
  lc_PromptGuard :: "bool option"
  lc_CodeShield :: "bool option"
  lc_Regex :: "bool option"
  lc_HiddenASCII :: "bool option"
  lc_AgentAlignment :: "bool option"
  lc_PIIDetection :: "bool option"

definition llamaFirewallScannersEntry_json :: "llamaFirewallScannersEntry \<Rightarrow> json" where
  "llamaFirewallScannersEntry_json c = JObj (concat
    [opt_member ''prompt_guard'' JBool (lc_PromptGuard c),
     opt_member ''code_shield'' JBool (lc_CodeShield c),
     opt_member ''regex'' JBool (lc_Regex c),
     opt_member ''hidden_ascii'' JBool (lc_HiddenASCII c),
     opt_member ''agent_alignment'' JBool (lc_AgentAlignment c),
     opt_member ''pii_detection'' JBool (lc_PIIDetection c)])"

record llamaFlags =
  lm_enable :: bool
  lm_disable :: bool
  lm_configure :: bool
  lm_scanners :: bool
  lm_health :: bool
  lm_serverURL :: "string flag"
  lm_timeoutSec :: "int flag"
  lm_cacheTTLSec :: "int flag"
  lm_connPoolSize :: "int flag"
  lm_failClosed :: "bool flag"
  lm_cacheEnabled :: "bool flag"
  lm_blockThreshold :: "go_float flag"
  lm_scanPatterns :: "string list flag"
  lm_skipPatterns :: "string list flag"
  lm_promptGuard :: "bool flag"
  lm_codeShield :: "bool flag"
  lm_regex :: "bool flag"
  lm_hiddenASCII :: "bool flag"
  lm_agentAlignment :: "bool flag"
  lm_piiDetection :: "bool flag"

text \<open>A slice that is not assigned stays nil.\<close>

definition flag_slice :: "'a list flag \<Rightarrow> 'a list" where
  "flag_slice f = (if given f then flag_value f else [])"

definition llama_config :: "llamaFlags \<Rightarrow> llamaFirewallConfigEntry" where
  "llama_config f = \<lparr>lf_ServerURL = flag_ptr (lm_serverURL f), lf_TimeoutSec = flag_ptr (lm_timeoutSec f),
     lf_FailClosed = flag_ptr (lm_failClosed f), lf_BlockThreshold = flag_ptr (lm_blockThreshold f),
     lf_CacheEnabled = flag_ptr (lm_cacheEnabled f), lf_CacheTTLSec = flag_ptr (lm_cacheTTLSec f),
     lf_ConnectionPoolSize = flag_ptr (lm_connPoolSize f),
     lf_ScanPatterns = flag_slice (lm_scanPatterns f), lf_SkipPatterns = flag_slice (lm_skipPatterns f)\<rparr>"

definition llama_scanners :: "llamaFlags \<Rightarrow> llamaFirewallScannersEntry" where
  "llama_scanners f = \<lparr>lc_PromptGuard = flag_ptr (lm_promptGuard f), lc_CodeShield = flag_ptr (lm_codeShield f),
     lc_Regex = flag_ptr (lm_regex f), lc_HiddenASCII = flag_ptr (lm_hiddenASCII f),
     lc_AgentAlignment = flag_ptr (lm_agentAlignment f), lc_PIIDetection = flag_ptr (lm_piiDetection f)\<rparr>"

definition set_llamafirewall :: "gateway_env \<Rightarrow> restOptions \<Rightarrow> llamaFlags \<Rightarrow> http_request list \<Rightarrow> rest_run" where
  "set_llamafirewall env o' f log =
     (if how_many [lm_enable f, lm_disable f, lm_configure f, lm_scanners f, lm_health f] \<noteq> 1 then
        stopped log [] (Usagef (Text ''specify exactly one of --enable, --disable, --configure, --scanners, or --health''))
      else if lm_enable f \<or> lm_disable f then
        reportPost env (api_Create (ge_url_ok env) (Some (print_json (enable_json (lm_enable f)))) (SubResources [''enable''] (LoxiClient_LlamaFirewall o')))
          (Text (if lm_enable f then ''LlamaFirewall scanning enabled.'' else ''LlamaFirewall scanning disabled.'')) log
      else if lm_configure f then
        reportPost env (api_Create (ge_url_ok env) (float_body (lf_BlockThreshold (llama_config f)) (llamaFirewallConfigEntry_json (llama_config f)))
            (SubResources [''configure''] (LoxiClient_LlamaFirewall o'))) (Text ''LlamaFirewall configuration updated.'') log
      else if lm_scanners f then
        reportPost env (api_Create (ge_url_ok env) (Some (print_json (llamaFirewallScannersEntry_json (llama_scanners f))))
            (SubResources [''scanners''] (LoxiClient_LlamaFirewall o'))) (Text ''LlamaFirewall scanners updated.'') log
      else
        reportPost env (api_Create (ge_url_ok env) (Some null_body) (SubResources [''health''] (LoxiClient_LlamaFirewall o')))
          (Text ''LlamaFirewall health check completed.'') log)"

subsection \<open>API keys and tenant limits\<close>

definition PriorityClasses :: "string list" where
  "PriorityClasses = [''standard'', ''critical'', ''sheddable'']"

definition IsPriorityClass :: "string \<Rightarrow> bool" where
  "IsPriorityClass s \<longleftrightarrow> s \<in> set PriorityClasses"

record setAPIKeyOptions =
  sk_AllowedModels :: "string list flag"
  sk_Enabled :: "bool flag"
  sk_RateLimitRps :: "int flag"
  sk_BurstSize :: "int flag"
  sk_TokensPerMin :: "int flag"
  sk_PriorityClass :: "string flag"
  sk_DefaultObjective :: "string flag"
  sk_AllowedObjectives :: "string list flag"

record aiApiKeyPatchRequest =
  kp_AllowedModels :: "string list"
  kp_Enabled :: "bool option"
  kp_RateLimitRps :: "int option"
  kp_BurstSize :: "int option"
  kp_TokensPerMin :: "int option"
  kp_PriorityClass :: "string option"
  kp_DefaultObjective :: "string option"
  kp_AllowedObjectives :: "string list option"

definition aiApiKeyPatchRequest_json :: "aiApiKeyPatchRequest \<Rightarrow> json" where
  "aiApiKeyPatchRequest_json r = JObj (concat
    [unless (kp_AllowedModels r = []) ''allowed_models'' (jstrings (kp_AllowedModels r)),
     opt_member ''enabled'' JBool (kp_Enabled r),
     opt_member ''rate_limit_rps'' jint (kp_RateLimitRps r),
     opt_member ''burst_size'' jint (kp_BurstSize r),
     opt_member ''tokens_per_min'' jint (kp_TokensPerMin r),
     opt_member ''priority_class'' JStr (kp_PriorityClass r),
     opt_member ''default_objective'' JStr (kp_DefaultObjective r),
     opt_member ''allowed_objectives'' jstrings (kp_AllowedObjectives r)])"

definition apiKeyPatch :: "setAPIKeyOptions \<Rightarrow> aiApiKeyPatchRequest" where
  "apiKeyPatch k = \<lparr>kp_AllowedModels = flag_slice (sk_AllowedModels k), kp_Enabled = flag_ptr (sk_Enabled k),
     kp_RateLimitRps = flag_ptr (sk_RateLimitRps k), kp_BurstSize = flag_ptr (sk_BurstSize k), kp_TokensPerMin = flag_ptr (sk_TokensPerMin k),
     kp_PriorityClass = flag_ptr (sk_PriorityClass k), kp_DefaultObjective = flag_ptr (sk_DefaultObjective k),
     kp_AllowedObjectives = flag_ptr (sk_AllowedObjectives k)\<rparr>"

definition setAPIKeyFlags :: "string list" where
  "setAPIKeyFlags = [''allowed-models'', ''enabled'', ''rate-limit-rps'', ''burst-size'', ''tokens-per-min'', ''priority-class'',
     ''default-objective'', ''allowed-objectives'']"

definition apikey_given :: "setAPIKeyOptions \<Rightarrow> bool list" where
  "apikey_given k = [given (sk_AllowedModels k), given (sk_Enabled k), given (sk_RateLimitRps k), given (sk_BurstSize k),
     given (sk_TokensPerMin k), given (sk_PriorityClass k), given (sk_DefaultObjective k), given (sk_AllowedObjectives k)]"

text \<open>The gate stands in front of a command only for some of its flags.\<close>

definition gated_when ::
  "bool \<Rightarrow> gateway_env \<Rightarrow> restOptions \<Rightarrow> string \<Rightarrow> string \<Rightarrow> http_request list \<Rightarrow> gate_state \<Rightarrow> (unit \<Rightarrow> rest_run) \<Rightarrow> rest_run \<times> gate_state" where
  "gated_when b env o' feature command log st k = (if b then gated env o' feature command log st k else (k (), st))"

definition clearable_class :: cliError where
  "clearable_class = Invalidf (Sprintf ''--priority-class must be one of %s, or empty to clear it'' [AStr (join ''|'' PriorityClasses)])"

definition set_apikey :: "gateway_env \<Rightarrow> restOptions \<Rightarrow> setAPIKeyOptions \<Rightarrow> string list \<Rightarrow> http_request list \<Rightarrow> gate_state \<Rightarrow> rest_run \<times> gate_state" where
  "set_apikey env o' k args log st =
     (if length args \<noteq> 1 then (stopped log [] (Usagef (Text ''set apikey needs <KEY-ID> arg'')), st)
      else if True \<notin> set (apikey_given k) then
        (stopped log [] (Usagef (Sprintf ''set at least one of --%s'' [AStr (join '', --'' setAPIKeyFlags)])), st)
      else if given (sk_PriorityClass k) \<and> flag_value (sk_PriorityClass k) \<noteq> [] \<and> \<not> IsPriorityClass (flag_value (sk_PriorityClass k)) then
        (stopped log [] clearable_class, st)
      else gated_when (given (sk_PriorityClass k) \<or> given (sk_DefaultObjective k) \<or> given (sk_AllowedObjectives k))
        env o' ''objectives'' ''set apikey'' log st
        (\<lambda>_. on_answer env ''set apikey'' [204, 200] (verbatim_refusal ''set apikey'')
           (\<lambda>log' status body. finished log' [Sprintf ''API key '%s' updated.'' [AStr (args ! 0)]])
           (api_Update (ge_url_ok env) (Some (print_json (aiApiKeyPatchRequest_json (apiKeyPatch k)))) (SubResources [args ! 0] (LoxiClient_AIApiKey o'))) log))"

record aiTenantModelRateLimit =
  ml_Model :: string
  ml_TokensPerMin :: int

record aiTenantRateLimitMod =
  tl_TenantID :: string
  tl_Rps :: int
  tl_TokensPerMin :: int
  tl_BurstPct :: int
  tl_ModelLimits :: "aiTenantModelRateLimit list"
  tl_PriorityClass :: "string option"
  tl_DefaultObjective :: "string option"
  tl_AllowedObjectives :: "string list option"

definition aiTenantModelRateLimit_json :: "aiTenantModelRateLimit \<Rightarrow> json" where
  "aiTenantModelRateLimit_json m = JObj [(''model'', JStr (ml_Model m)), (''tokens_per_min'', jint (ml_TokensPerMin m))]"

definition aiTenantRateLimitMod_json :: "aiTenantRateLimitMod \<Rightarrow> json" where
  "aiTenantRateLimitMod_json r = JObj (concat
    [[(''tenant_id'', JStr (tl_TenantID r))],
     unless (tl_Rps r = 0) ''rps'' (jint (tl_Rps r)),
     unless (tl_TokensPerMin r = 0) ''tokens_per_min'' (jint (tl_TokensPerMin r)),
     unless (tl_BurstPct r = 0) ''burst_pct'' (jint (tl_BurstPct r)),
     unless (tl_ModelLimits r = []) ''model_limits'' (JArr (map aiTenantModelRateLimit_json (tl_ModelLimits r))),
     opt_member ''priority_class'' JStr (tl_PriorityClass r),
     opt_member ''default_objective'' JStr (tl_DefaultObjective r),
     opt_member ''allowed_objectives'' jstrings (tl_AllowedObjectives r)])"

record setRateLimitOptions =
  rl_TenantID :: string
  rl_Rps :: int
  rl_TokensPerMin :: int
  rl_BurstPct :: int
  rl_ModelLimits :: "string list"
  rl_PriorityClass :: "string flag"
  rl_DefaultObjective :: "string flag"
  rl_AllowedObjectives :: "string list flag"

fun parseTenantModelLimits :: "string list \<Rightarrow> string list \<Rightarrow> msg + aiTenantModelRateLimit list" where
  "parseTenantModelLimits [] seen = Inr []"
| "parseTenantModelLimits (v # vs) seen =
     (let parts = cut_at (CHR ''='') v;
          model = trim_space (case parts of None \<Rightarrow> v | Some (m, t) \<Rightarrow> m);
          rawTokens = trim_space (case parts of None \<Rightarrow> [] | Some (m, t) \<Rightarrow> t) in
      if parts = None \<or> model = [] \<or> rawTokens = [] then Inl (Sprintf ''--model-limit %q must use MODEL=TOKENS'' [AStr v])
      else if CHR ''|'' \<in> set model then Inl (Sprintf (''--model-limit model %q must not contain '|'' @ [CHR 0x27]) [AStr model])
      else if model \<in> set seen then Inl (Sprintf ''--model-limit repeats model %q'' [AStr model])
      else (case Atoi rawTokens of
          None \<Rightarrow> Inl (Sprintf ''--model-limit %q has invalid non-negative token quota'' [AStr v])
        | Some n \<Rightarrow>
            if n < 0 then Inl (Sprintf ''--model-limit %q has invalid non-negative token quota'' [AStr v])
            else map_sum id (\<lambda>ls. \<lparr>ml_Model = model, ml_TokensPerMin = n\<rparr> # ls) (parseTenantModelLimits vs (model # seen))))"

definition applyTenantPriority :: "setRateLimitOptions \<Rightarrow> aiTenantRateLimitMod \<Rightarrow> aiTenantRateLimitMod" where
  "applyTenantPriority r req = req\<lparr>tl_PriorityClass := flag_ptr (rl_PriorityClass r), tl_DefaultObjective := flag_ptr (rl_DefaultObjective r),
     tl_AllowedObjectives := flag_ptr (rl_AllowedObjectives r)\<rparr>"

definition ratelimit_body :: "setRateLimitOptions \<Rightarrow> aiTenantModelRateLimit list \<Rightarrow> aiTenantRateLimitMod" where
  "ratelimit_body r limits = applyTenantPriority r \<lparr>tl_TenantID = rl_TenantID r, tl_Rps = rl_Rps r, tl_TokensPerMin = rl_TokensPerMin r,
     tl_BurstPct = rl_BurstPct r, tl_ModelLimits = limits, tl_PriorityClass = None, tl_DefaultObjective = None, tl_AllowedObjectives = None\<rparr>"

definition set_ratelimit :: "gateway_env \<Rightarrow> restOptions \<Rightarrow> setRateLimitOptions \<Rightarrow> http_request list \<Rightarrow> gate_state \<Rightarrow> rest_run \<times> gate_state" where
  "set_ratelimit env o' r log st =
     (if rl_TenantID r = [] then (stopped log [] (Usagef (Text ''--tenant-id is required'')), st)
      else if CHR ''|'' \<in> set (rl_TenantID r) then (stopped log [] (Invalidf (Text (''--tenant-id must not contain '|'' @ [CHR 0x27]))), st)
      else if rl_Rps r < 0 \<or> rl_TokensPerMin r < 0 \<or> rl_BurstPct r < 0 then
        (stopped log [] (Invalidf (Text ''--rps, --tokens-per-min, and --burst-pct must be non-negative'')), st)
      else (case parseTenantModelLimits (rl_ModelLimits r) [] of
          Inl e \<Rightarrow> (stopped log [] (invalid e), st)
        | Inr limits \<Rightarrow>
            if given (rl_PriorityClass r) \<and> flag_value (rl_PriorityClass r) \<noteq> [] \<and> \<not> IsPriorityClass (flag_value (rl_PriorityClass r)) then
              (stopped log [] clearable_class, st)
            else gated_when (given (rl_PriorityClass r) \<or> given (rl_DefaultObjective r) \<or> given (rl_AllowedObjectives r))
              env o' ''objectives'' ''set ratelimit'' log st
              (\<lambda>_. on_answer env ''set ratelimit'' [204, 200] (verbatim_refusal ''set ratelimit'')
                 (\<lambda>log' status body. finished log' [Sprintf ''Rate limit for tenant '%s' set.'' [AStr (rl_TenantID r)]])
                 (api_Create (ge_url_ok env) (Some (print_json (aiTenantRateLimitMod_json (ratelimit_body r limits)))) (LoxiClient_AITenantRatelimit o')) log)))"

subsection \<open>The family\<close>

datatype set_command =
    SetLogLevel
  | SetBFD bfdSessionInfo
  | SetMetrics bool bool
  | SetGPU gpuFlags
  | SetOPA opaWatcherConfig
  | SetDPU dpuDebugAction
  | SetTrace traceFlags
  | SetL4Trace l4traceFlags
  | SetPII piiFlags
  | SetLlamaFirewall llamaFlags
  | SetAPIKey setAPIKeyOptions
  | SetRateLimit setRateLimitOptions

fun run_set :: "gateway_env \<Rightarrow> restOptions \<Rightarrow> set_command \<Rightarrow> string list \<Rightarrow> http_request list \<Rightarrow> gate_state \<Rightarrow> rest_run \<times> gate_state" where
  "run_set env o' SetLogLevel args log st = (set_loglevel env o' args log, st)"
| "run_set env o' (SetBFD b) args log st = (set_bfd env o' b args log, st)"
| "run_set env o' (SetMetrics enable disable) args log st = (set_metrics env o' enable disable log, st)"
| "run_set env o' (SetGPU f) args log st = (set_gpu env o' f log, st)"
| "run_set env o' (SetOPA c) args log st = (set_opa env o' c log, st)"
| "run_set env o' (SetDPU d) args log st = (set_dpu env o' d log, st)"
| "run_set env o' (SetTrace f) args log st = (set_trace env o' f log, st)"
| "run_set env o' (SetL4Trace f) args log st = (set_l4trace env o' f log, st)"
| "run_set env o' (SetPII f) args log st = (set_pii env o' f log, st)"
| "run_set env o' (SetLlamaFirewall f) args log st = (set_llamafirewall env o' f log, st)"
| "run_set env o' (SetAPIKey k) args log st = set_apikey env o' k args log st"
| "run_set env o' (SetRateLimit r) args log st = set_ratelimit env o' r log st"

lemmas set_defs = set_loglevel_def set_bfd_def set_metrics_def set_gpu_def set_opa_def set_dpu_def set_trace_def set_l4trace_def
  set_pii_def set_llamafirewall_def set_apikey_def set_ratelimit_def

end
