(* ===== verification/IpText.thy ===== *)
theory IpText
  imports NetParse
begin

section \<open>The value of an address and its canonical text (\<open>net.IP\<close>)\<close>

text \<open>
  \<open>net.ParseIP\<close> with its result, the eight groups of a 16-byte address; an IPv4 address is kept in its mapped form.
  \<open>To4\<close> tells mapped addresses, and \<open>IP_String\<close> is what \<open>net.IP\<close> marshals to: dotted decimal for a mapped address,
  else lower-case groups with the longest run of zero groups, the first of equal ones, written as \<open>::\<close>.
\<close>

definition ip6_done :: "nat \<Rightarrow> nat list option \<Rightarrow> nat list \<Rightarrow> nat list option" where
  "ip6_done k before gs =
     (case before of
        None \<Rightarrow> if k = 0 then Some gs else None
      | Some front \<Rightarrow> if k = 0 then None else Some (front @ replicate k 0 @ gs))"

text \<open>\<open>before\<close>: the groups in front of \<open>::\<close>, once it was seen; \<open>gs\<close>: those read since.\<close>

fun ip6_value :: "nat \<Rightarrow> nat list option \<Rightarrow> nat list \<Rightarrow> string \<Rightarrow> nat list option" where
  "ip6_value 0 before gs s = (if s = [] \<and> before = None then Some gs else None)"
| "ip6_value (Suc k) before gs s =
     (let h = takeWhile is_hex s; r = dropWhile is_hex s; gs' = gs @ [foldl (\<lambda>v c. 16 * v + hex_val c) 0 h] in
      if h = [] \<or> length h > 4 then None
      else if r = [] then ip6_done k before gs'
      else if hd r = CHR ''.'' then
        (if k > 0 \<and> (before \<noteq> None \<or> k = 1) then
           (case parse_ipv4 s of
              Some [a, b, c, d] \<Rightarrow> ip6_done (k - 1) before (gs @ [256 * a + b, 256 * c + d])
            | _ \<Rightarrow> None)
         else None)
      else if hd r \<noteq> CHR '':'' \<or> tl r = [] then None
      else if hd (tl r) \<noteq> CHR '':'' then ip6_value k before gs' (tl r)
      else if before \<noteq> None then None
      else if tl (tl r) = [] then ip6_done k (Some gs') []
      else ip6_value k (Some gs') [] (tl (tl r)))"

definition ipv6_value :: "string \<Rightarrow> nat list option" where
  "ipv6_value s =
     (if has_prefix ''::'' s then (if drop 2 s = [] then Some (replicate 8 0) else ip6_value 8 (Some []) [] (drop 2 s))
      else ip6_value 8 None [] s)"

definition IP_value :: "string \<Rightarrow> nat list option" where
  "IP_value s =
     (case ParseAddr s of
        None \<Rightarrow> None
      | Some n \<Rightarrow>
          if n = 32 then (case parse_ipv4 s of Some [a, b, c, d] \<Rightarrow> Some (replicate 5 0 @ [0xFFFF, 256 * a + b, 256 * c + d]) | _ \<Rightarrow> None)
          else ipv6_value s)"

definition To4 :: "nat list \<Rightarrow> nat list option" where
  "To4 gs = (if take 6 gs = replicate 5 0 @ [0xFFFF] then Some [gs ! 6 div 256, gs ! 6 mod 256, gs ! 7 div 256, gs ! 7 mod 256] else None)"

fun show_hex :: "nat \<Rightarrow> string" where
  "show_hex n = (if n < 16 then [hex_digit n] else show_hex (n div 16) @ [hex_digit (n mod 16)])"

declare show_hex.simps [simp del]

text \<open>The first longest run of at least two zero groups: its start and its length.\<close>

definition zero_run :: "nat list \<Rightarrow> nat \<times> nat" where
  "zero_run gs =
     foldl (\<lambda>(start, len) i. let l = length (takeWhile (\<lambda>g. g = 0) (drop i gs)) in if l \<ge> 2 \<and> l > len then (i, l) else (start, len))
       (length gs, 0) [0..<length gs]"

definition hex_groups :: "nat list \<Rightarrow> string" where
  "hex_groups gs = join '':'' (map show_hex gs)"

definition IP_String :: "nat list \<Rightarrow> string" where
  "IP_String gs =
     (case To4 gs of
        Some quad \<Rightarrow> join_dots quad
      | None \<Rightarrow>
          (case zero_run gs of
             (start, 0) \<Rightarrow> hex_groups gs
           | (start, len) \<Rightarrow> hex_groups (take start gs) @ ''::'' @ hex_groups (drop (start + len) gs)))"

subsection \<open>The value exists exactly for an accepted text\<close>

lemma ip4_fields_length: "ip4_fields fs v dl s = Some q \<Longrightarrow> length q = 4"
  by (induction fs v dl s rule: ip4_fields.induct) (auto simp: Let_def split: if_splits)

lemma parse_ipv4_quad: "parse_ipv4 s = Some q \<Longrightarrow> \<exists>a b c d. q = [a, b, c, d]"
  using ip4_fields_length [of "[]" 0 0 s q] unfolding parse_ipv4_def
  by (auto simp: length_Suc_conv numeral_eq_Suc)

lemma ip6_done_iff: "ip6_done k before gs \<noteq> None \<longleftrightarrow> ip6_complete k (before \<noteq> None)"
  by (cases before) (auto simp: ip6_done_def ip6_complete_def)

lemma quad_case: "(case parse_ipv4 s of Some [a, b, c, d] \<Rightarrow> f a b c d | _ \<Rightarrow> None) \<noteq> None
    \<longleftrightarrow> (\<exists>a b c d. parse_ipv4 s = Some [a, b, c, d] \<and> f a b c d \<noteq> None)"
proof (cases "parse_ipv4 s")
  case (Some q)
  with parse_ipv4_quad obtain a b c d where "q = [a, b, c, d]" by blast
  with Some show ?thesis by simp
qed simp

lemma ip6_value_iff: "ip6_value k before gs s \<noteq> None \<longleftrightarrow> ip6_groups k (before \<noteq> None) s"
proof (induction k arbitrary: before gs s)
  case (Suc k)
  have quad: "(\<exists>a b c d. parse_ipv4 s = Some [a, b, c, d]) \<longleftrightarrow> parse_ipv4 s \<noteq> None" using parse_ipv4_quad [of s] by fastforce
  show ?case
    unfolding ip6_value.simps ip6_groups.simps Let_def
    by (simp add: Suc.IH ip6_done_iff quad_case quad del: not_None_eq dropWhile_eq_Nil_conv takeWhile_eq_Nil_iff)
qed simp

lemma ipv6_value_iff: "ipv6_value s \<noteq> None \<longleftrightarrow> parse_ipv6 s"
  unfolding ipv6_value_def parse_ipv6_def by (simp add: ip6_value_iff del: not_None_eq)

lemma IP_value_iff: "IP_value s \<noteq> None \<longleftrightarrow> ParseIP s"
proof -
  have four: "ParseAddr s = Some 32 \<Longrightarrow> \<exists>a b c d. parse_ipv4 s = Some [a, b, c, d]"
    and six: "ParseAddr s = Some 128 \<Longrightarrow> parse_ipv6 s"
    and sizes: "ParseAddr s = Some n \<Longrightarrow> n = 32 \<or> n = 128" for n
    using parse_ipv4_quad [of s] by (auto simp: ParseAddr_def split: option.splits if_splits)
  show ?thesis
  proof (cases "ParseAddr s")
    case (Some n)
    with sizes [OF Some] four six ipv6_value_iff [of s] show ?thesis by (auto simp: IP_value_def ParseIP_def)
  qed (simp add: IP_value_def ParseIP_def)
qed

end
