(* ===== verification/CreateNet.thy ===== *)
theory CreateNet
  imports SetCommands IpText
begin

section \<open>Creating network objects (\<open>cmd/create\<close>)\<close>

text \<open>
  The \<open>create\<close> commands for sessions, policies, routes, addresses, neighbours, forwarding entries, VLANs, VXLANs,
  mirrors, firewall rules, end points and BGP and BFD peers: how the arguments fill the struct that is sent, with
  the conversions to fixed-width integers the code makes, and the one request that follows.
\<close>

subsection \<open>The exchange\<close>

definition create_exchange ::
  "gateway_env \<Rightarrow> string \<Rightarrow> bool \<Rightarrow> (http_body \<Rightarrow> msg list) \<Rightarrow> http_request option \<Rightarrow> http_request list \<Rightarrow> msg list \<Rightarrow> rest_run" where
  "create_exchange env command debug show req log out =
     (case exchange env req log of
        (NoResponse, log') \<Rightarrow> stopped log' out (unreachable command)
      | (Response status hs raw, log') \<Rightarrow>
          (let out' = out @ (if debug then [debug_status status] else []) in
           if status = 200 then finished log' (out' @ show raw) else stopped log' out' (FromHTTPStatus command status)))"

definition post :: "gateway_env \<Rightarrow> json \<Rightarrow> commonAPI \<Rightarrow> http_request option" where
  "post env body l = api_Create (ge_url_ok env) (Some (print_json body)) l"

text \<open>\<open>strings.LastIndex\<close> with a separator of one byte: what is before and after it.\<close>

definition cut_last :: "char \<Rightarrow> string \<Rightarrow> (string \<times> string) option" where
  "cut_last c s = map_option (\<lambda>(a, b). (rev b, rev a)) (cut_at c (rev s))"

text \<open>An error of \<open>strconv\<close>, passed on as it is.\<close>

definition strconv_error :: msg where
  "strconv_error = Sprintf ''%v'' [AErr ''strconv'']"

subsection \<open>Sessions\<close>

record sessTun =
  st_TeID :: "32 word"
  st_Addr :: "nat list"

record sessionMod =
  sm_Ident :: string
  sm_Ip :: "nat list"
  sm_AnTun :: sessTun
  sm_CnTun :: sessTun

definition sessTun_json :: "sessTun \<Rightarrow> json" where
  "sessTun_json t = JObj [(''teID'', jword (st_TeID t)), (''tunnelIP'', JStr (IP_String (st_Addr t)))]"

definition sessionMod_json :: "sessionMod \<Rightarrow> json" where
  "sessionMod_json m = JObj
     [(''ident'', JStr (sm_Ident m)), (''sessionIP'', JStr (IP_String (sm_Ip m))), (''accessNetworkTunnel'', sessTun_json (sm_AnTun m)),
      (''coreNetworkTunnel'', sessTun_json (sm_CnTun m))]"

definition ReadCreateSessionOptions :: "string list \<Rightarrow> msg + string \<times> nat list" where
  "ReadCreateSessionOptions args =
     (if length args > 3 then Inl (Text ''create Session command get so many args'')
      else if length args \<le> 1 then Inl (Text ''create Session need <userID> and <sessionIP> args'')
      else (case IP_value (args ! 1) of
          Some ip \<Rightarrow> Inr (args ! 0, ip)
        | None \<Rightarrow> Inl (Sprintf ''session IP '%s' is invalid format'' [AStr (args ! 1)])))"

definition GetNetworkTunnelPairList :: "string \<Rightarrow> msg + sessTun" where
  "GetNetworkTunnelPairList networkTunnel =
     (case split_on (CHR '':'') networkTunnel of
        [teid, ip] \<Rightarrow>
          (case Atoi teid of
             None \<Rightarrow> Inl (Sprintf (''networkTunnel'' @ [CHR 0x27] @ ''s TeID '%s' is invalid format'') [AStr teid])
           | Some n \<Rightarrow>
               (case IP_value ip of
                  Some addr \<Rightarrow> Inr \<lparr>st_TeID = word_of_int n, st_Addr = addr\<rparr>
                | None \<Rightarrow> Inl (Sprintf ''tunnel IP '%s' is invalid format'' [AStr ip])))
      | _ \<Rightarrow> Inl (Sprintf ''networkTunnel '%s' is invalid format'' [AStr networkTunnel]))"

definition SessionAPICall :: "gateway_env \<Rightarrow> restOptions \<Rightarrow> sessionMod \<Rightarrow> http_request option" where
  "SessionAPICall env o' m = post env (sessionMod_json m) (LoxiClient_Session o')"

definition create_session :: "gateway_env \<Rightarrow> restOptions \<Rightarrow> string \<Rightarrow> string \<Rightarrow> string list \<Rightarrow> http_request list \<Rightarrow> rest_run" where
  "create_session env o' anTunnel cnTunnel args log =
     (if args = [] then stopped log [] (needs_arguments ''create session'')
      else case ReadCreateSessionOptions args of
        Inl e \<Rightarrow> stopped log [] (invalid e)
      | Inr (ident, ip) \<Rightarrow>
          (case GetNetworkTunnelPairList anTunnel of
             Inl e \<Rightarrow> stopped log [] (invalid e)
           | Inr an \<Rightarrow>
               (case GetNetworkTunnelPairList cnTunnel of
                  Inl e \<Rightarrow> stopped log [] (invalid e)
                | Inr cn \<Rightarrow> create_exchange env ''create session'' True (PrintCreateResult o')
                    (SessionAPICall env o' \<lparr>sm_Ident = ident, sm_Ip = ip, sm_AnTun = an, sm_CnTun = cn\<rparr>) log [])))"

record sessionUlClMod =
  su_Ident :: string
  su_Addr :: "nat list"
  su_Qfi :: "8 word"

definition sessionUlClMod_json :: "sessionUlClMod \<Rightarrow> json" where
  "sessionUlClMod_json m = JObj
     [(''ulclIdent'', JStr (su_Ident m)), (''ulclArgument'', JObj [(''ulclIP'', JStr (IP_String (su_Addr m))), (''qfi'', jword (su_Qfi m))])]"

definition ulcl_pair :: "string list \<Rightarrow> string \<Rightarrow> string \<Rightarrow> msg + sessionUlClMod" where
  "ulcl_pair all ident ulclArg =
     (case split_on (CHR '':'') ulclArg of
        [q, ip] \<Rightarrow>
          (case Atoi q of
             None \<Rightarrow> Inl (Sprintf (''ulclArgs'' @ [CHR 0x27] @ ''s QFI '%s' is invalid format'') [AStr q])
           | Some qfi \<Rightarrow>
               (case IP_value ip of
                  Some addr \<Rightarrow> Inr \<lparr>su_Ident = ident, su_Addr = addr, su_Qfi = word_of_int qfi\<rparr>
                | None \<Rightarrow> Inl (Sprintf (''ulclArgs'' @ [CHR 0x27] @ ''s IP '%s' is invalid format'') [AStr ip])))
      | _ \<Rightarrow> Inl (Sprintf ''ulclArgs '%s' is invalid format'' [AMsg (show_slice all)]))"

fun GetUlClArgsPairList :: "string list \<Rightarrow> string \<Rightarrow> string list \<Rightarrow> msg + sessionUlClMod list" where
  "GetUlClArgsPairList all ident [] = Inr []"
| "GetUlClArgsPairList all ident (a # as) =
     (case ulcl_pair all ident a of
        Inl e \<Rightarrow> Inl e
      | Inr m \<Rightarrow> (case GetUlClArgsPairList all ident as of Inl e \<Rightarrow> Inl e | Inr ms \<Rightarrow> Inr (m # ms)))"

definition ReadCreateSessionUlClOptions :: "string list \<Rightarrow> msg option" where
  "ReadCreateSessionUlClOptions args =
     (if length args > 2 then Some (Text ''create Session ulcl command get so many args'')
      else if args = [] then Some (Text ''create Session ulcl need <userID> arg'')
      else None)"

definition SessionUlClAPICall :: "gateway_env \<Rightarrow> restOptions \<Rightarrow> sessionUlClMod \<Rightarrow> http_request option" where
  "SessionUlClAPICall env o' m = post env (sessionUlClMod_json m) (LoxiClient_SessionUlCL o')"

fun create_ulcl_loop :: "gateway_env \<Rightarrow> restOptions \<Rightarrow> sessionUlClMod list \<Rightarrow> http_request list \<Rightarrow> msg list \<Rightarrow> rest_run" where
  "create_ulcl_loop env o' [] log out = finished log out"
| "create_ulcl_loop env o' (m # ms) log out =
     (case exchange env (SessionUlClAPICall env o' m) log of
        (NoResponse, log') \<Rightarrow> stopped log' out (unreachable ''create sessionulcl'')
      | (Response status hs raw, log') \<Rightarrow>
          if status \<noteq> 200 then stopped log' (out @ [debug_status status]) (FromHTTPStatus ''create sessionulcl'' status)
          else create_ulcl_loop env o' ms log' (out @ debug_status status # PrintCreateResult o' raw))"

definition create_sessionulcl :: "gateway_env \<Rightarrow> restOptions \<Rightarrow> string list \<Rightarrow> string list \<Rightarrow> http_request list \<Rightarrow> rest_run" where
  "create_sessionulcl env o' ulclArgs args log =
     (if args = [] then stopped log [] (needs_arguments ''create sessionulcl'')
      else case ReadCreateSessionUlClOptions args of
        Some e \<Rightarrow> stopped log [] (invalid e)
      | None \<Rightarrow>
          (case GetUlClArgsPairList ulclArgs (args ! 0) ulclArgs of
             Inl e \<Rightarrow> stopped log [] (invalid e)
           | Inr ms \<Rightarrow> create_ulcl_loop env o' ms log []))"

subsection \<open>Routes, addresses, neighbours, forwarding entries\<close>

record routev4Get =
  rt_Flags :: string
  rt_Gw :: string
  rt_Dst :: string
  rt_HardwareMark :: int
  rt_Bytes :: int
  rt_Packets :: int
  rt_Protocol :: string

definition routev4Get_json :: "routev4Get \<Rightarrow> json" where
  "routev4Get_json r = JObj
     [(''flags'', JStr (rt_Flags r)), (''gateway'', JStr (rt_Gw r)), (''destinationIPNet'', JStr (rt_Dst r)),
      (''hardwareMark'', jint (rt_HardwareMark r)), (''statistic'', JObj [(''bytes'', jint (rt_Bytes r)), (''packets'', jint (rt_Packets r))]),
      (''protocol'', JStr (rt_Protocol r))]"

definition ReadCreateRouteOptions :: "string list \<Rightarrow> string \<Rightarrow> msg + routev4Get" where
  "ReadCreateRouteOptions args staticProto =
     (if length args > 3 then Inl (Text ''create Route command get so many args'')
      else if length args \<le> 1 then Inl (Text ''create Route need <DestinationIPNet> and <gateway> args'')
      else if \<not> ParseCIDR (args ! 0) then Inl (Sprintf ''DestinationIPNet '%s' is invalid format'' [AStr (args ! 0)])
      else if \<not> ParseIP (args ! 1) then Inl (Sprintf ''gateway IP '%s' is invalid format'' [AStr (args ! 1)])
      else Inr \<lparr>rt_Flags = [], rt_Gw = args ! 1, rt_Dst = args ! 0, rt_HardwareMark = 0, rt_Bytes = 0, rt_Packets = 0,
        rt_Protocol = (if staticProto = ''static'' then staticProto else [])\<rparr>)"

definition RouteAPICall :: "gateway_env \<Rightarrow> restOptions \<Rightarrow> routev4Get \<Rightarrow> http_request option" where
  "RouteAPICall env o' r = post env (routev4Get_json r) (LoxiClient_Route o')"

text \<open>Read the arguments, then send what they make; most commands are this.\<close>

definition create_simple ::
  "gateway_env \<Rightarrow> restOptions \<Rightarrow> string \<Rightarrow> bool \<Rightarrow> msg + 'm \<Rightarrow> ('m \<Rightarrow> http_request option) \<Rightarrow> http_request list \<Rightarrow> rest_run" where
  "create_simple env o' command debug m call log =
     (case m of
        Inl e \<Rightarrow> stopped log [] (invalid e)
      | Inr x \<Rightarrow> create_exchange env command debug (PrintCreateResult o') (call x) log [])"

definition create_route :: "gateway_env \<Rightarrow> restOptions \<Rightarrow> string \<Rightarrow> string list \<Rightarrow> http_request list \<Rightarrow> rest_run" where
  "create_route env o' staticProto args log =
     (if args = [] then stopped log [] (needs_arguments ''create route'')
      else create_simple env o' ''create route'' False (ReadCreateRouteOptions args staticProto) (RouteAPICall env o') log)"

record ipv4AddrMod =
  ia_Dev :: string
  ia_IP :: string

definition ipv4AddrMod_json :: "ipv4AddrMod \<Rightarrow> json" where
  "ipv4AddrMod_json m = JObj [(''dev'', JStr (ia_Dev m)), (''ipAddress'', JStr (ia_IP m))]"

definition ReadCreateIPv4AddressOptions :: "string list \<Rightarrow> msg + ipv4AddrMod" where
  "ReadCreateIPv4AddressOptions args =
     (if length args > 2 then Inl (Text ''create IPv4Address command get so many args'')
      else if length args \<le> 1 then Inl (Text ''create IPv4Address need <DeviceIPNet>  args'')
      else if \<not> ParseCIDR (args ! 0) then Inl (Sprintf ''DeviceIPNet '%s' is invalid format'' [AStr (args ! 0)])
      else Inr \<lparr>ia_Dev = args ! 1, ia_IP = args ! 0\<rparr>)"

definition IPv4AddressAPICall :: "gateway_env \<Rightarrow> restOptions \<Rightarrow> ipv4AddrMod \<Rightarrow> http_request option" where
  "IPv4AddressAPICall env o' m = post env (ipv4AddrMod_json m) (LoxiClient_IPv4Address o')"

definition create_ip :: "gateway_env \<Rightarrow> restOptions \<Rightarrow> string list \<Rightarrow> http_request list \<Rightarrow> rest_run" where
  "create_ip env o' args log =
     (if args = [] then stopped log [] (needs_arguments ''create ip'')
      else create_simple env o' ''create ip'' False (ReadCreateIPv4AddressOptions args) (IPv4AddressAPICall env o') log)"

record neighborMod =
  nb_Dev :: string
  nb_IP :: string
  nb_MacAddress :: string

definition neighborMod_json :: "neighborMod \<Rightarrow> json" where
  "neighborMod_json m = JObj [(''dev'', JStr (nb_Dev m)), (''ipAddress'', JStr (nb_IP m)), (''macAddress'', JStr (nb_MacAddress m))]"

definition ReadCreateNeighborsOptions :: "string list \<Rightarrow> string \<Rightarrow> msg + neighborMod" where
  "ReadCreateNeighborsOptions args macAddress =
     (if length args > 4 then Inl (Text ''create Neighbors command get so many args'')
      else if length args < 2 then Inl (Text ''create Neighbors need <DeviceIPNet>  args'')
      else if \<not> ParseIP (args ! 0) then Inl (Sprintf ''DeviceIP '%s' is invalid format'' [AStr (args ! 0)])
      else Inr \<lparr>nb_Dev = args ! 1, nb_IP = args ! 0, nb_MacAddress = macAddress\<rparr>)"

definition NeighborsAPICall :: "gateway_env \<Rightarrow> restOptions \<Rightarrow> neighborMod \<Rightarrow> http_request option" where
  "NeighborsAPICall env o' m = post env (neighborMod_json m) (LoxiClient_Neighbor o')"

definition create_neighbor :: "gateway_env \<Rightarrow> restOptions \<Rightarrow> string \<Rightarrow> string list \<Rightarrow> http_request list \<Rightarrow> rest_run" where
  "create_neighbor env o' macAddress args log =
     (if args = [] then stopped log [] (needs_arguments ''create neighbor'')
      else create_simple env o' ''create neighbor'' False (ReadCreateNeighborsOptions args macAddress) (NeighborsAPICall env o') log)"

record fdbMod =
  fm_Dev :: string
  fm_MacAddress :: string

definition fdbMod_json :: "fdbMod \<Rightarrow> json" where
  "fdbMod_json m = JObj [(''dev'', JStr (fm_Dev m)), (''macAddress'', JStr (fm_MacAddress m))]"

definition ReadCreateFDBOptions :: "string list \<Rightarrow> msg + fdbMod" where
  "ReadCreateFDBOptions args =
     (if length args > 2 then Inl (Text ''create FDB command get so many args'')
      else if length args \<le> 1 then Inl (Text ''create FDB need <MacAddress>  args'')
      else if \<not> ParseMAC (args ! 0) then Inl (Sprintf ''MacAddress '%s' is invalid format'' [AStr (args ! 0)])
      else Inr \<lparr>fm_Dev = args ! 1, fm_MacAddress = args ! 0\<rparr>)"

definition FDBAPICall :: "gateway_env \<Rightarrow> restOptions \<Rightarrow> fdbMod \<Rightarrow> http_request option" where
  "FDBAPICall env o' m = post env (fdbMod_json m) (LoxiClient_FDB o')"

definition create_fdb :: "gateway_env \<Rightarrow> restOptions \<Rightarrow> string list \<Rightarrow> http_request list \<Rightarrow> rest_run" where
  "create_fdb env o' args log =
     (if args = [] then stopped log [] (needs_arguments ''create fdb'')
      else create_simple env o' ''create fdb'' False (ReadCreateFDBOptions args) (FDBAPICall env o') log)"

subsection \<open>VLAN and VXLAN\<close>

definition VlanBridgeMod_json :: "int \<Rightarrow> json" where
  "VlanBridgeMod_json vid = JObj [(''vid'', jint vid)]"

definition ReadCreateVlanBridgeOptions :: "string list \<Rightarrow> msg + int" where
  "ReadCreateVlanBridgeOptions args =
     (if length args > 1 then Inl (Text ''create vlan command get so many args'')
      else case Atoi (args ! 0) of None \<Rightarrow> Inl strconv_error | Some vid \<Rightarrow> Inr vid)"

definition VlanBridgeAPICall :: "gateway_env \<Rightarrow> restOptions \<Rightarrow> int \<Rightarrow> http_request option" where
  "VlanBridgeAPICall env o' vid = post env (VlanBridgeMod_json vid) (LoxiClient_Vlan o')"

definition create_vlan :: "gateway_env \<Rightarrow> restOptions \<Rightarrow> string list \<Rightarrow> http_request list \<Rightarrow> rest_run" where
  "create_vlan env o' args log =
     (if args = [] then stopped log [] (needs_arguments ''create vlan'')
      else create_simple env o' ''create vlan'' False (ReadCreateVlanBridgeOptions args) (VlanBridgeAPICall env o') log)"

definition VlanMemberMod_json :: "string \<Rightarrow> bool \<Rightarrow> json" where
  "VlanMemberMod_json dev tagged = JObj [(''dev'', JStr dev), (''tagged'', JBool tagged)]"

definition ReadCreateVlanMemberOptions :: "string list \<Rightarrow> msg option" where
  "ReadCreateVlanMemberOptions args =
     (if length args > 3 then Some (Text ''create vlan member command get so many args'')
      else if length args \<le> 1 then Some (Text ''create vlan member need <Vid> , <Device> args'')
      else if Atoi (args ! 0) = None then Some strconv_error
      else None)"

definition VlanMemberAPICall :: "gateway_env \<Rightarrow> restOptions \<Rightarrow> string \<Rightarrow> bool \<Rightarrow> string \<Rightarrow> http_request option" where
  "VlanMemberAPICall env o' dev tagged url = post env (VlanMemberMod_json dev tagged) (SetUrl url (LoxiClient_Vlan o'))"

definition create_vlanmember :: "gateway_env \<Rightarrow> restOptions \<Rightarrow> bool \<Rightarrow> string list \<Rightarrow> http_request list \<Rightarrow> rest_run" where
  "create_vlanmember env o' tagged args log =
     (if args = [] then stopped log [] (needs_arguments ''create vlanmember'')
      else case ReadCreateVlanMemberOptions args of
        Some e \<Rightarrow> stopped log [] (invalid e)
      | None \<Rightarrow> create_exchange env ''create vlanmember'' False (PrintCreateResult o')
          (VlanMemberAPICall env o' (args ! 1) tagged (''/config/vlan/'' @ args ! 0 @ ''/member'')) log [])"

definition VxlanBridgeMod_json :: "int \<Rightarrow> string \<Rightarrow> json" where
  "VxlanBridgeMod_json vxLanID endpointDev = JObj [(''vxlanID'', jint vxLanID), (''epIntf'', JStr endpointDev)]"

definition ReadCreateVxlanBridgeOptions :: "string list \<Rightarrow> msg + string" where
  "ReadCreateVxlanBridgeOptions args =
     (if length args > 3 then Inl (Text ''create vxlan command get so many args'')
      else if length args \<le> 1 then Inl (Text ''create vxlan need <VxlanID> <EndpointDeviceName> args'')
      else Inr (args ! 1))"

definition VxlanBridgeAPICall :: "gateway_env \<Rightarrow> restOptions \<Rightarrow> int \<Rightarrow> string \<Rightarrow> http_request option" where
  "VxlanBridgeAPICall env o' vxLanID dev = post env (VxlanBridgeMod_json vxLanID dev) (LoxiClient_Vxlan o')"

definition create_vxlan :: "gateway_env \<Rightarrow> restOptions \<Rightarrow> string list \<Rightarrow> http_request list \<Rightarrow> rest_run" where
  "create_vxlan env o' args log =
     (if args = [] then stopped log [] (needs_arguments ''create vxlan'')
      else case ReadCreateVxlanBridgeOptions args of
        Inl e \<Rightarrow> stopped log [] (invalid e)
      | Inr dev \<Rightarrow>
          (case Atoi (args ! 0) of
             None \<Rightarrow> stopped log [] (invalid strconv_error)
           | Some vxLanID \<Rightarrow> create_exchange env ''create vxlan'' False (PrintCreateResult o') (VxlanBridgeAPICall env o' vxLanID dev) log []))"

definition VxlanPeerMod_json :: "string \<Rightarrow> json" where
  "VxlanPeerMod_json peerIP = JObj [(''peerIP'', JStr peerIP)]"

text \<open>The check is on the number of arguments being at least one, and the second one is read.\<close>

definition ReadCreateVxlanPeerOptions :: "string list \<Rightarrow> msg list \<times> verdict" where
  "ReadCreateVxlanPeerOptions args =
     ([], if length args > 2 then Refuse (Text ''create vxlan command get so many args'')
          else if length args < 1 then Refuse (Text ''create vxlan need <MacAddress>  args'')
          else if length args < 2 then Crash (index_panic 1 (length args))
          else if \<not> ParseIP (args ! 1) then Refuse (Sprintf ''PeerIP '%s' is invalid format'' [AStr (args ! 1)])
          else Pass)"

definition VxlanPeerAPICall :: "gateway_env \<Rightarrow> restOptions \<Rightarrow> string \<Rightarrow> string \<Rightarrow> http_request option" where
  "VxlanPeerAPICall env o' peerIP url = post env (VxlanPeerMod_json peerIP) (SetUrl url (LoxiClient_Vxlan o'))"

definition create_vxlanpeer :: "gateway_env \<Rightarrow> restOptions \<Rightarrow> string list \<Rightarrow> http_request list \<Rightarrow> rest_run" where
  "create_vxlanpeer env o' args log =
     (if args = [] then stopped log [] (needs_arguments ''create vxlanpeer'')
      else checked (ReadCreateVxlanPeerOptions args) invalid log
        (create_exchange env ''create vxlanpeer'' False (PrintCreateResult o')
          (VxlanPeerAPICall env o' (args ! 1) (''/config/tunnel/vxlan/'' @ args ! 0 @ ''/peer'')) log))"

subsection \<open>End points, BGP and BFD peers\<close>

record createEndPointOptions =
  eo_Name :: string
  eo_ProbeType :: string
  eo_ProbeReq :: string
  eo_ProbeResp :: string
  eo_ProbePort :: int
  eo_ProbeDuration :: int
  eo_ProbeReTries :: int

record endPointMod =
  em_HostName :: string
  em_Name :: string
  em_InActTries :: int
  em_ProbeType :: string
  em_ProbeReq :: string
  em_ProbeResp :: string
  em_ProbeDuration :: "32 word"
  em_ProbePort :: "16 word"

definition endPointMod_json :: "endPointMod \<Rightarrow> json" where
  "endPointMod_json m = JObj
     [(''hostName'', JStr (em_HostName m)), (''name'', JStr (em_Name m)), (''inactiveReTries'', jint (em_InActTries m)),
      (''probeType'', JStr (em_ProbeType m)), (''probeReq'', JStr (em_ProbeReq m)), (''probeResp'', JStr (em_ProbeResp m)),
      (''probeDuration'', jword (em_ProbeDuration m)), (''probePort'', jword (em_ProbePort m))]"

definition check_endpoint :: "createEndPointOptions \<Rightarrow> string \<Rightarrow> cliError option" where
  "check_endpoint p host =
     (if \<not> ParseIP host then Some (Invalidf (Sprintf ''HOSTIP '%s' is invalid format'' [AStr host]))
      else if eo_ProbeType p \<notin> {''http'', ''https'', ''ping'', ''tcp'', ''udp'', ''sctp'', ''none''} then
        Some (Invalidf (Sprintf ''probetype '%s' is invalid'' [AStr (eo_ProbeType p)]))
      else if eo_ProbeType p \<in> {''http'', ''https'', ''tcp'', ''udp'', ''sctp''} \<and> eo_ProbePort p = 0 then
        Some (Invalidf (Sprintf ''probeport cant be 0 for '%s' probes'' [AStr (eo_ProbeType p)]))
      else if eo_ProbeType p = ''ping'' \<and> eo_ProbePort p \<noteq> 0 then
        Some (Invalidf (Sprintf ''probeport should be 0 for '%s' probes'' [AStr (eo_ProbeType p)]))
      else if eo_ProbeDuration p > 24 * 60 * 60 then Some (Invalidf (Text ''probe period is out of bounds''))
      else None)"

definition endpoint_mod :: "createEndPointOptions \<Rightarrow> string \<Rightarrow> endPointMod" where
  "endpoint_mod p host = \<lparr>em_HostName = host, em_Name = eo_Name p, em_InActTries = eo_ProbeReTries p, em_ProbeType = eo_ProbeType p,
     em_ProbeReq = eo_ProbeReq p, em_ProbeResp = eo_ProbeResp p, em_ProbeDuration = word_of_int (eo_ProbeDuration p),
     em_ProbePort = word_of_int (eo_ProbePort p)\<rparr>"

definition EndPointAPICall :: "gateway_env \<Rightarrow> restOptions \<Rightarrow> endPointMod \<Rightarrow> http_request option" where
  "EndPointAPICall env o' m = post env (endPointMod_json m) (LoxiClient_EndPoint o')"

definition create_endpoint :: "gateway_env \<Rightarrow> restOptions \<Rightarrow> createEndPointOptions \<Rightarrow> string list \<Rightarrow> http_request list \<Rightarrow> rest_run" where
  "create_endpoint env o' p args log =
     (if args = [] then stopped log [] (Usagef (Text ''create ep need HOST-IP args''))
      else case check_endpoint p (args ! 0) of
        Some e \<Rightarrow> stopped log [] e
      | None \<Rightarrow> create_exchange env ''create endpoint'' True (PrintCreateResult o') (EndPointAPICall env o' (endpoint_mod p (args ! 0))) log [])"

record bgpNeighborMod =
  bm_IPaddress :: string
  bm_RemoteAs :: int
  bm_RemotePort :: int
  bm_SetMultiHop :: bool

definition bgpNeighborMod_json :: "bgpNeighborMod \<Rightarrow> json" where
  "bgpNeighborMod_json m = JObj
     [(''ipAddress'', JStr (bm_IPaddress m)), (''remoteAs'', jint (bm_RemoteAs m)), (''remotePort'', jint (bm_RemotePort m)),
      (''setMultiHop'', JBool (bm_SetMultiHop m))]"

definition ReadCreateBGPNeighborOptions :: "string list \<Rightarrow> msg + bgpNeighborMod" where
  "ReadCreateBGPNeighborOptions args =
     (if length args > 2 then Inl (Text ''create BGPNeighbor command get so many args'')
      else if length args \<le> 1 then Inl (Text ''create BGPNeighbor need <RemoteAS> args'')
      else if \<not> ParseIP (args ! 0) then Inl (Sprintf ''peer IP '%s' is invalid format'' [AStr (args ! 0)])
      else case Atoi (args ! 1) of
        None \<Rightarrow> Inl strconv_error
      | Some as \<Rightarrow> Inr \<lparr>bm_IPaddress = args ! 0, bm_RemoteAs = as, bm_RemotePort = 0, bm_SetMultiHop = False\<rparr>)"

definition bgp_options :: "8 word \<Rightarrow> bool \<Rightarrow> bgpNeighborMod \<Rightarrow> bgpNeighborMod" where
  "bgp_options remotePort setMultiHtop m =
     (let m' = (if remotePort \<noteq> 179 then m\<lparr>bm_RemotePort := uint remotePort\<rparr> else m) in
      if setMultiHtop then m'\<lparr>bm_SetMultiHop := setMultiHtop\<rparr> else m')"

definition BGPNeighborAPICall :: "gateway_env \<Rightarrow> restOptions \<Rightarrow> bgpNeighborMod \<Rightarrow> http_request option" where
  "BGPNeighborAPICall env o' m = post env (bgpNeighborMod_json m) (LoxiClient_BGPNeighbor o')"

definition create_bgpneighbor :: "gateway_env \<Rightarrow> restOptions \<Rightarrow> 8 word \<Rightarrow> bool \<Rightarrow> string list \<Rightarrow> http_request list \<Rightarrow> rest_run" where
  "create_bgpneighbor env o' remotePort setMultiHtop args log =
     (if args = [] then stopped log [] (needs_arguments ''create bgpneighbor'')
      else create_simple env o' ''create bgpneighbor'' False (map_sum id (bgp_options remotePort setMultiHtop) (ReadCreateBGPNeighborOptions args))
        (BGPNeighborAPICall env o') log)"

definition ReadCreateBfdOptions :: "bfdSessionInfo \<Rightarrow> string list \<Rightarrow> msg + bfdSessionInfo" where
  "ReadCreateBfdOptions b args =
     (if length args > 1 then Inl (Text ''create bfd command get so many args'')
      else if length args < 1 then Inl (Text ''create bfd need <RemoteIP> args'')
      else if ParseIP (args ! 0) then Inr (b\<lparr>bf_RemoteIP := args ! 0\<rparr>)
      else Inl (Sprintf ''remote IP '%s' is invalid format'' [AStr (args ! 0)]))"

definition CreateBFDAPICall :: "gateway_env \<Rightarrow> restOptions \<Rightarrow> bfdSessionInfo \<Rightarrow> http_request option" where
  "CreateBFDAPICall env o' b = post env (bfdSessionInfo_json b) (LoxiClient_BFDSession o')"

definition create_bfd :: "gateway_env \<Rightarrow> restOptions \<Rightarrow> bfdSessionInfo \<Rightarrow> string list \<Rightarrow> http_request list \<Rightarrow> rest_run" where
  "create_bfd env o' b args log =
     (if args = [] then stopped log [] (Usagef (Text ''create bfd needs remoteIP args''))
      else create_simple env o' ''create bfd'' False (ReadCreateBfdOptions b args) (CreateBFDAPICall env o') log)"

end
