(* ===== verification/CreateRules.thy ===== *)
theory CreateRules
  imports CreateNet
begin

section \<open>Creating mirrors, firewall rules and policies (\<open>cmd/create\<close>)\<close>

text \<open>
  The commands whose options are lists of \<open>key:value\<close> pairs. The pairs are read in order into a struct that starts
  with zero values, so a later pair wins; a key that is not known is passed over.
\<close>

subsection \<open>Mirrors\<close>

record mirrMod =
  mm_Ident :: string
  mm_MirrType :: int
  mm_MirrPort :: string
  mm_MirrVlan :: int
  mm_MirrRip :: string
  mm_MirrSip :: string
  mm_MirrTid :: int
  mm_MirrObjName :: string
  mm_AttachMent :: int

definition mirrMod0 :: "string \<Rightarrow> mirrMod" where
  "mirrMod0 ident = \<lparr>mm_Ident = ident, mm_MirrType = 0, mm_MirrPort = [], mm_MirrVlan = 0, mm_MirrRip = [], mm_MirrSip = [],
     mm_MirrTid = 0, mm_MirrObjName = [], mm_AttachMent = 0\<rparr>"

definition mirrMod_json :: "mirrMod \<Rightarrow> json" where
  "mirrMod_json m = JObj
     [(''mirrorIdent'', JStr (mm_Ident m)),
      (''mirrorInfo'', JObj [(''type'', jint (mm_MirrType m)), (''port'', JStr (mm_MirrPort m)), (''vlan'', jint (mm_MirrVlan m)),
        (''remoteIP'', JStr (mm_MirrRip m)), (''sourceIP'', JStr (mm_MirrSip m)), (''tunnelID'', jint (mm_MirrTid m))]),
      (''targetObject'', JObj [(''mirrObjName'', JStr (mm_MirrObjName m)), (''attachment'', jint (mm_AttachMent m))])]"

definition ReadCreateMirrorOptions :: "string list \<Rightarrow> msg + mirrMod" where
  "ReadCreateMirrorOptions args =
     (if length args > 2 then Inl (Text ''create Mirror command get so many args'')
      else if args = [] then Inl (Text ''create Mirror need <MirrID> arg'')
      else Inr (mirrMod0 (args ! 0)))"

text \<open>An integer value of a pair.\<close>

definition with_int :: "string \<Rightarrow> (int \<Rightarrow> 'm) \<Rightarrow> msg + 'm" where
  "with_int v f = (case Atoi v of None \<Rightarrow> Inl strconv_error | Some n \<Rightarrow> Inr (f n))"

definition mirror_info :: "string \<Rightarrow> string \<Rightarrow> mirrMod \<Rightarrow> msg + mirrMod" where
  "mirror_info k v m =
     (if k = ''type'' then with_int v (\<lambda>n. m\<lparr>mm_MirrType := n\<rparr>)
      else if k = ''port'' then Inr (m\<lparr>mm_MirrPort := v\<rparr>)
      else if k = ''vlan'' then with_int v (\<lambda>n. m\<lparr>mm_MirrVlan := n\<rparr>)
      else if k = ''remoteIP'' then Inr (m\<lparr>mm_MirrRip := v\<rparr>)
      else if k = ''sourceIP'' then Inr (m\<lparr>mm_MirrSip := v\<rparr>)
      else if k = ''tunnelID'' then with_int v (\<lambda>n. m\<lparr>mm_MirrTid := n\<rparr>)
      else Inr m)"

fun GetMirrorInfoPairList :: "string list \<Rightarrow> string list \<Rightarrow> mirrMod \<Rightarrow> msg + mirrMod" where
  "GetMirrorInfoPairList all [] m = Inr m"
| "GetMirrorInfoPairList all (a # as) m =
     (case split_on (CHR '':'') a of
        [k, v] \<Rightarrow> (case mirror_info k v m of Inl e \<Rightarrow> Inl e | Inr m' \<Rightarrow> GetMirrorInfoPairList all as m')
      | _ \<Rightarrow> Inl (Sprintf ''mirrorArgs '%s' is invalid format'' [AMsg (show_slice all)]))"

definition mirror_target :: "string \<Rightarrow> string \<Rightarrow> mirrMod \<Rightarrow> msg + mirrMod" where
  "mirror_target k v m =
     (if k = ''mirrObjName'' then Inr (m\<lparr>mm_MirrObjName := v\<rparr>)
      else if k = ''attachement'' then with_int v (\<lambda>n. m\<lparr>mm_AttachMent := n\<rparr>)
      else Inr m)"

fun GetTargetObjPairList :: "string list \<Rightarrow> string list \<Rightarrow> mirrMod \<Rightarrow> msg + mirrMod" where
  "GetTargetObjPairList all [] m = Inr m"
| "GetTargetObjPairList all (a # as) m =
     (case split_on (CHR '':'') a of
        [k, v] \<Rightarrow> (case mirror_target k v m of Inl e \<Rightarrow> Inl e | Inr m' \<Rightarrow> GetTargetObjPairList all as m')
      | _ \<Rightarrow> Inl (Sprintf ''TargerObj '%s' is invalid format'' [AMsg (show_slice all)]))"

definition MirrorAPICall :: "gateway_env \<Rightarrow> restOptions \<Rightarrow> mirrMod \<Rightarrow> http_request option" where
  "MirrorAPICall env o' m = post env (mirrMod_json m) (LoxiClient_Mirror o')"

definition mirror_mod :: "string list \<Rightarrow> string list \<Rightarrow> string list \<Rightarrow> msg + mirrMod" where
  "mirror_mod mirrInfo targetObj args =
     (case ReadCreateMirrorOptions args of
        Inl e \<Rightarrow> Inl e
      | Inr m \<Rightarrow>
          (case GetMirrorInfoPairList mirrInfo mirrInfo m of Inl e \<Rightarrow> Inl e | Inr m' \<Rightarrow> GetTargetObjPairList targetObj targetObj m'))"

definition create_mirror :: "gateway_env \<Rightarrow> restOptions \<Rightarrow> string list \<Rightarrow> string list \<Rightarrow> string list \<Rightarrow> http_request list \<Rightarrow> rest_run" where
  "create_mirror env o' mirrInfo targetObj args log =
     (if args = [] then stopped log [] (needs_arguments ''create mirror'')
      else create_simple env o' ''create mirror'' True (mirror_mod mirrInfo targetObj args) (MirrorAPICall env o') log)"

subsection \<open>Firewall rules\<close>

record fwRuleMod =
  fw_SrcIP :: string
  fw_DstIP :: string
  fw_SrcPortMin :: "16 word"
  fw_SrcPortMax :: "16 word"
  fw_DstPortMin :: "16 word"
  fw_DstPortMax :: "16 word"
  fw_Proto :: "8 word"
  fw_InPort :: string
  fw_Pref :: "16 word"
  fw_Drop :: bool
  fw_Trap :: bool
  fw_Rdr :: bool
  fw_RdrPort :: string
  fw_Allow :: bool
  fw_Mark :: "32 word"
  fw_Record :: bool
  fw_DoSnat :: bool
  fw_ToIP :: string
  fw_ToPort :: "16 word"
  fw_OnDefault :: bool
  fw_Counter :: string

definition fwRuleMod0 :: fwRuleMod where
  "fwRuleMod0 = \<lparr>fw_SrcIP = [], fw_DstIP = [], fw_SrcPortMin = 0, fw_SrcPortMax = 0, fw_DstPortMin = 0, fw_DstPortMax = 0, fw_Proto = 0,
     fw_InPort = [], fw_Pref = 0, fw_Drop = False, fw_Trap = False, fw_Rdr = False, fw_RdrPort = [], fw_Allow = False, fw_Mark = 0,
     fw_Record = False, fw_DoSnat = False, fw_ToIP = [], fw_ToPort = 0, fw_OnDefault = False, fw_Counter = []\<rparr>"

text \<open>The counter of the struct is never set here.\<close>

definition fwRuleMod_json :: "fwRuleMod \<Rightarrow> json" where
  "fwRuleMod_json m = JObj
     [(''ruleArguments'', JObj
        [(''sourceIP'', JStr (fw_SrcIP m)), (''destinationIP'', JStr (fw_DstIP m)), (''minSourcePort'', jword (fw_SrcPortMin m)),
         (''maxSourcePort'', jword (fw_SrcPortMax m)), (''minDestinationPort'', jword (fw_DstPortMin m)),
         (''maxDestinationPort'', jword (fw_DstPortMax m)), (''protocol'', jword (fw_Proto m)), (''portName'', JStr (fw_InPort m)),
         (''preference'', jword (fw_Pref m))]),
      (''opts'', JObj
        [(''drop'', JBool (fw_Drop m)), (''trap'', JBool (fw_Trap m)), (''redirect'', JBool (fw_Rdr m)), (''redirectPortName'', JStr (fw_RdrPort m)),
         (''allow'', JBool (fw_Allow m)), (''fwMark'', jword (fw_Mark m)), (''record'', JBool (fw_Record m)), (''doSnat'', JBool (fw_DoSnat m)),
         (''toIP'', JStr (fw_ToIP m)), (''toPort'', jword (fw_ToPort m)), (''onDefault'', JBool (fw_OnDefault m)), (''counter'', JStr (fw_Counter m))])]"

record createFirewallOptions =
  cf_FirewallRule :: "string list"
  cf_Redirect :: "string list"
  cf_SnatArgs :: "string list"
  cf_Allow :: bool
  cf_Drop :: bool
  cf_Trap :: bool
  cf_Record :: bool
  cf_Egress :: bool
  cf_Mark :: "32 word"

definition firewall_arg :: "string \<Rightarrow> string \<Rightarrow> string list \<Rightarrow> fwRuleMod \<Rightarrow> msg + fwRuleMod" where
  "firewall_arg k v vs m =
     (if k = ''protocol'' then with_int v (\<lambda>n. m\<lparr>fw_Proto := word_of_int n\<rparr>)
      else if k = ''sourceIP'' then Inr (m\<lparr>fw_SrcIP := (if vs \<noteq> [] then join '':'' (v # vs) else v)\<rparr>)
      else if k = ''destinationIP'' then Inr (m\<lparr>fw_DstIP := (if vs \<noteq> [] then join '':'' (v # vs) else v)\<rparr>)
      else if k = ''portName'' then Inr (m\<lparr>fw_InPort := v\<rparr>)
      else if k = ''minSourcePort'' then with_int v (\<lambda>n. m\<lparr>fw_SrcPortMin := word_of_int n\<rparr>)
      else if k = ''maxSourcePort'' then with_int v (\<lambda>n. m\<lparr>fw_SrcPortMax := word_of_int n\<rparr>)
      else if k = ''minDestinationPort'' then with_int v (\<lambda>n. m\<lparr>fw_DstPortMin := word_of_int n\<rparr>)
      else if k = ''maxDestinationPort'' then with_int v (\<lambda>n. m\<lparr>fw_DstPortMax := word_of_int n\<rparr>)
      else if k = ''preference'' then with_int v (\<lambda>n. m\<lparr>fw_Pref := word_of_int n\<rparr>)
      else Inr m)"

fun GetFirewallRulePairList :: "string list \<Rightarrow> string list \<Rightarrow> fwRuleMod \<Rightarrow> msg + fwRuleMod" where
  "GetFirewallRulePairList all [] m = Inr m"
| "GetFirewallRulePairList all (a # as) m =
     (case split_on (CHR '':'') a of
        k # v # vs \<Rightarrow> (case firewall_arg k v vs m of Inl e \<Rightarrow> Inl e | Inr m' \<Rightarrow> GetFirewallRulePairList all as m')
      | _ \<Rightarrow> Inl (Sprintf ''FirewallArgs '%s' is invalid format'' [AMsg (show_slice all)]))"

definition firewall_snat :: "createFirewallOptions \<Rightarrow> fwRuleMod \<Rightarrow> msg + fwRuleMod" where
  "firewall_snat c m =
     (let m' = m\<lparr>fw_DoSnat := True, fw_ToIP := cf_SnatArgs c ! 0\<rparr> in
      if length (cf_SnatArgs c) > 2 then Inl (Text ''invalid snat-args'')
      else if length (cf_SnatArgs c) > 1 then
        (case Atoi (cf_SnatArgs c ! 1) of
           None \<Rightarrow> Inl (Text ''invalid snat-args'')
         | Some sPort \<Rightarrow> Inr (m'\<lparr>fw_ToPort := word_of_int sPort, fw_OnDefault := cf_Egress c\<rparr>))
      else Inr (m'\<lparr>fw_ToPort := 0, fw_OnDefault := cf_Egress c\<rparr>))"

definition GetFWOptionPairList :: "createFirewallOptions \<Rightarrow> fwRuleMod \<Rightarrow> msg + fwRuleMod" where
  "GetFWOptionPairList c m =
     map_sum id (\<lambda>m. m\<lparr>fw_Record := cf_Record c, fw_Mark := cf_Mark c\<rparr>)
       (if cf_Allow c then Inr (m\<lparr>fw_Allow := True\<rparr>)
        else if cf_Drop c then Inr (m\<lparr>fw_Drop := True\<rparr>)
        else if cf_Trap c then Inr (m\<lparr>fw_Trap := True\<rparr>)
        else if cf_Redirect c \<noteq> [] then Inr (m\<lparr>fw_Rdr := True, fw_RdrPort := cf_Redirect c ! 0\<rparr>)
        else if cf_SnatArgs c \<noteq> [] then firewall_snat c m
        else Inr m)"

definition FirewallAPICall :: "gateway_env \<Rightarrow> restOptions \<Rightarrow> fwRuleMod \<Rightarrow> http_request option" where
  "FirewallAPICall env o' m = post env (fwRuleMod_json m) (LoxiClient_Firewall o')"

definition firewall_mod :: "createFirewallOptions \<Rightarrow> msg + fwRuleMod" where
  "firewall_mod c =
     (case GetFirewallRulePairList (cf_FirewallRule c) (cf_FirewallRule c) fwRuleMod0 of
        Inl e \<Rightarrow> Inl e | Inr m \<Rightarrow> GetFWOptionPairList c m)"

definition create_firewall :: "gateway_env \<Rightarrow> restOptions \<Rightarrow> createFirewallOptions \<Rightarrow> http_request list \<Rightarrow> rest_run" where
  "create_firewall env o' c log =
     (if cf_FirewallRule c = [] then stopped log [] (Usagef (Text ''create firewall needs its --firewallRule option''))
      else create_simple env o' ''create firewall'' True (firewall_mod c) (FirewallAPICall env o') log)"

subsection \<open>Policies\<close>

record polMod =
  pm_Ident :: string
  pm_PolType :: int
  pm_ColorAware :: bool
  pm_CommittedInfoRate :: "64 word"
  pm_PeakInfoRate :: "64 word"
  pm_CommittedBlkSize :: "64 word"
  pm_ExcessBlkSize :: "64 word"
  pm_PolObjName :: string
  pm_AttachMent :: int
  pm_Attached :: "bool option"

definition polMod0 :: "string \<Rightarrow> polMod" where
  "polMod0 ident = \<lparr>pm_Ident = ident, pm_PolType = 0, pm_ColorAware = False, pm_CommittedInfoRate = 0, pm_PeakInfoRate = 0,
     pm_CommittedBlkSize = 0, pm_ExcessBlkSize = 0, pm_PolObjName = [], pm_AttachMent = 0, pm_Attached = None\<rparr>"

definition polMod_json :: "polMod \<Rightarrow> json" where
  "polMod_json m = JObj (
     [(''policyIdent'', JStr (pm_Ident m)),
      (''policyInfo'', JObj [(''type'', jint (pm_PolType m)), (''colorAware'', JBool (pm_ColorAware m)),
        (''committedInfoRate'', jword (pm_CommittedInfoRate m)), (''peakInfoRate'', jword (pm_PeakInfoRate m)),
        (''committedBlkSize'', jword (pm_CommittedBlkSize m)), (''excessBlkSize'', jword (pm_ExcessBlkSize m))]),
      (''targetObject'', JObj [(''polObjName'', JStr (pm_PolObjName m)), (''attachment'', jint (pm_AttachMent m))])]
     @ opt_member ''attached'' JBool (pm_Attached m))"

record createPolicyOptions =
  po_Rate :: string
  po_Block :: string
  po_Target :: string
  po_Color :: bool
  po_PolType :: int

definition ReadCreatePolicyOptions :: "string list \<Rightarrow> msg list \<times> (msg + string)" where
  "ReadCreatePolicyOptions args =
     (if length args > 1 then ([Text ''create Pol command get so many args'', show_slice args], Inr (args ! 0))
      else if args = [] then ([], Inl (Text ''create Pol need Ident args''))
      else ([], Inr (args ! 0)))"

text \<open>Two integers: the name of the first one, and the text of the error about their number.\<close>

definition int_pair :: "string \<Rightarrow> string \<Rightarrow> string \<Rightarrow> msg + int \<times> int" where
  "int_pair first wrong s =
     (case split_on (CHR '':'') s of
        [a, b] \<Rightarrow>
          (case Atoi a of
             None \<Rightarrow> Inl (Sprintf (first @ '' '%s' is not integer'') [AStr a])
           | Some x \<Rightarrow> (case Atoi b of None \<Rightarrow> Inl (Sprintf ''committed '%s' is not integer'' [AStr b]) | Some y \<Rightarrow> Inr (x, y)))
      | _ \<Rightarrow> Inl (Text wrong))"

definition GetRatePair :: "string \<Rightarrow> polMod \<Rightarrow> msg + polMod" where
  "GetRatePair rateBlock m =
     (if rateBlock = [] then Inr m
      else map_sum id (\<lambda>(peak, committed). m\<lparr>pm_CommittedInfoRate := word_of_int committed, pm_PeakInfoRate := word_of_int peak\<rparr>)
        (int_pair ''peak'' ''lots of args for rate'' rateBlock))"

definition GetBlockPair :: "string \<Rightarrow> polMod \<Rightarrow> msg + polMod" where
  "GetBlockPair block m =
     (if block = [] then Inr m
      else map_sum id (\<lambda>(excess, committed). m\<lparr>pm_ExcessBlkSize := word_of_int excess, pm_CommittedBlkSize := word_of_int committed\<rparr>)
        (int_pair ''excess'' ''error in block size args'' block))"

definition policyAttachment :: "string \<Rightarrow> msg + int" where
  "policyAttachment value' =
     (let v = to_lower (trim_space value') in
      if v = ''0'' \<or> v = ''rule'' then Inr 0
      else if v = ''1'' \<or> v = ''port'' then Inr 1
      else if v = ''2'' \<or> v = ''egress-port'' then Inr 2
      else Inl (Sprintf ''attachment %q must be rule|port|egress-port or 0|1|2'' [AStr value']))"

text \<open>\<open>net.SplitHostPort\<close>: brackets, when the text begins with one, must enclose the host and nothing else.\<close>

definition SplitHostPort :: "string \<Rightarrow> (string \<times> string) option" where
  "SplitHostPort hostport =
     (case cut_last (CHR '':'') hostport of
        None \<Rightarrow> None
      | Some (front, port) \<Rightarrow>
          if hd hostport = CHR ''['' then
            (let host = takeWhile (\<lambda>c. c \<noteq> CHR '']'') (tl hostport) in
             if front = CHR ''['' # host @ '']'' \<and> CHR ''['' \<notin> set (tl hostport) \<and> CHR '']'' \<notin> set port then Some (host, port) else None)
          else if CHR '':'' \<in> set front \<or> CHR ''['' \<in> set hostport \<or> CHR '']'' \<in> set hostport then None
          else Some (front, port))"

definition parse_uint16 :: "string \<Rightarrow> bool" where
  "parse_uint16 s \<longleftrightarrow> s \<noteq> [] \<and> list_all is_digit s \<and> dec_val 0 s < 65536"

definition validatePolicyRuleTarget :: "string \<Rightarrow> msg option" where
  "validatePolicyRuleTarget target =
     (case cut_last (CHR '':'') target of
        None \<Rightarrow> Some (Sprintf ''rule target %q must use VIP:PORT:PROTO or [IPv6]:PORT:PROTO'' [AStr target])
      | Some (hostPort, proto) \<Rightarrow>
          if hostPort = [] \<or> proto = [] then Some (Sprintf ''rule target %q must use VIP:PORT:PROTO or [IPv6]:PORT:PROTO'' [AStr target])
          else if to_lower proto \<notin> {''tcp'', ''udp'', ''sctp'', ''icmp''} then
            Some (Sprintf ''rule target protocol %q must be tcp|udp|sctp|icmp'' [AStr (to_lower proto)])
          else (case SplitHostPort hostPort of
              None \<Rightarrow> Some (Sprintf ''rule target %q must bracket IPv6 and use VIP:PORT:PROTO'' [AStr target])
            | Some (host, rawPort) \<Rightarrow>
                if \<not> ParseIP host then Some (Sprintf ''rule target VIP %q is not a valid IP address'' [AStr host])
                else if \<not> parse_uint16 rawPort then Some (Sprintf ''rule target port %q must be within 0..65535'' [AStr rawPort])
                else None))"

definition GetTargetPair :: "string \<Rightarrow> polMod \<Rightarrow> msg + polMod" where
  "GetTargetPair block m =
     (let bad = Inl (Text (''target must use '<object>:<rule|port|egress-port>'' @ [CHR 0x27] @ '' (numeric 0|1|2 is also accepted)'')) in
      case cut_last (CHR '':'') block of
        None \<Rightarrow> bad
      | Some (objectName, att) \<Rightarrow>
          if objectName = [] \<or> att = [] then bad
          else (case policyAttachment att of
              Inl e \<Rightarrow> Inl e
            | Inr attachment \<Rightarrow>
                let done' = Inr (m\<lparr>pm_PolObjName := objectName, pm_AttachMent := attachment\<rparr>) in
                if attachment = 0 then (case validatePolicyRuleTarget objectName of Some e \<Rightarrow> Inl e | None \<Rightarrow> done')
                else if CHR '':'' \<in> set objectName then Inl (Sprintf ''port attachment target %q must be a port name'' [AStr objectName])
                else done'))"

definition PrintCreatePolResult :: "restOptions \<Rightarrow> http_body \<Rightarrow> msg list" where
  "PrintCreatePolResult o' raw =
     (case raw of
        Torn part \<Rightarrow> [Sprintf ''Error: Failed to read HTTP response: (%s)'' [AErr ''net/http'']]
      | Whole body \<Rightarrow>
          (case unmarshal [fld ''result'' dl_Result dl_Result_update dec_string] \<lparr>dl_Result = []\<rparr> body of
             None \<Rightarrow> [Sprintf ''Error: Failed to unmarshal HTTP response: (%s)'' [AErr ''encoding/json'']]
           | Some result \<Rightarrow> if ro_PrintOption o' = ''json'' then [Text ''{}''] else [Sprintf ''%s'' [AStr (dl_Result result)]]))"

definition PolicyAPICall :: "gateway_env \<Rightarrow> restOptions \<Rightarrow> polMod \<Rightarrow> http_request option" where
  "PolicyAPICall env o' m = post env (polMod_json m) (LoxiClient_Policy o')"

definition policy_error :: "string \<Rightarrow> msg \<Rightarrow> cliError" where
  "policy_error what e = Invalidf (Sprintf (what @ '' %s'') [AMsg e])"

definition policy_mod :: "createPolicyOptions \<Rightarrow> string \<Rightarrow> cliError + polMod" where
  "policy_mod p ident =
     (case GetRatePair (po_Rate p) (polMod0 ident) of
        Inl e \<Rightarrow> Inl (policy_error ''Rate Error:'' e)
      | Inr m1 \<Rightarrow>
          (case GetBlockPair (po_Block p) m1 of
             Inl e \<Rightarrow> Inl (policy_error ''Block Error:'' e)
           | Inr m2 \<Rightarrow>
               (case GetTargetPair (po_Target p) m2 of
                  Inl e \<Rightarrow> Inl (policy_error ''Target Error:'' e)
                | Inr m3 \<Rightarrow> Inr (m3\<lparr>pm_ColorAware := po_Color p, pm_PolType := po_PolType p\<rparr>))))"

definition create_policy :: "gateway_env \<Rightarrow> restOptions \<Rightarrow> createPolicyOptions \<Rightarrow> string list \<Rightarrow> http_request list \<Rightarrow> rest_run" where
  "create_policy env o' p args log =
     (if args = [] then stopped log [] (needs_arguments ''create policy'')
      else case ReadCreatePolicyOptions args of
        (out, Inl e) \<Rightarrow> stopped log out (policy_error ''Read parameter error'' e)
      | (out, Inr ident) \<Rightarrow>
          (case policy_mod p ident of
             Inl e \<Rightarrow> stopped log out e
           | Inr m \<Rightarrow> create_exchange env ''create policy'' True (PrintCreatePolResult o') (PolicyAPICall env o' m) log out))"

end
