(* ===== verification/CreateAI.thy ===== *)
theory CreateAI
  imports CreateRules
begin

section \<open>Creating gateway objects (\<open>cmd/create\<close>): keys, objectives, identities, profiles, users, certificates\<close>

text \<open>
  The commands that answer with the gateway's own message and take 200 and 201 for success. Files and standard
  input are arguments: a reader delivers bytes and may then break off, an absent file cannot be opened.
\<close>

subsection \<open>API keys\<close>

record createAPIKeyOptions =
  ak_TenantID :: string
  ak_Name :: string
  ak_AllowedModels :: "string list"
  ak_Rps :: int
  ak_Burst :: int
  ak_TokensPerMin :: int
  ak_ExpiresAt :: string
  ak_Enabled :: bool
  ak_APIKeyFile :: string
  ak_APIKeyStdin :: bool
  ak_PriorityClass :: string
  ak_DefaultObjective :: string
  ak_AllowedObjectives :: "string list"
  ak_ClientOpID :: string

record aiApiKeyCreateRequest =
  kc_TenantID :: string
  kc_Name :: string
  kc_APIKey :: string
  kc_AllowedModels :: "string list"
  kc_RateLimitRps :: int
  kc_BurstSize :: int
  kc_TokensPerMin :: int
  kc_ExpiresAt :: string
  kc_Enabled :: "bool option"
  kc_PriorityClass :: string
  kc_DefaultObjective :: string
  kc_AllowedObjectives :: "string list"
  kc_ClientOpID :: string

definition omit_string :: "string \<Rightarrow> string \<Rightarrow> (string \<times> json) list" where
  "omit_string k s = unless (s = []) k (JStr s)"

definition omit_int :: "string \<Rightarrow> int \<Rightarrow> (string \<times> json) list" where
  "omit_int k i = unless (i = 0) k (jint i)"

definition omit_strings :: "string \<Rightarrow> string list \<Rightarrow> (string \<times> json) list" where
  "omit_strings k xs = unless (xs = []) k (jstrings xs)"

definition omit_bool :: "string \<Rightarrow> bool \<Rightarrow> (string \<times> json) list" where
  "omit_bool k b = unless (\<not> b) k (JBool b)"

definition aiApiKeyCreateRequest_json :: "aiApiKeyCreateRequest \<Rightarrow> json" where
  "aiApiKeyCreateRequest_json r = JObj (concat
    [[(''tenant_id'', JStr (kc_TenantID r))],
     omit_string ''name'' (kc_Name r),
     omit_string ''api_key'' (kc_APIKey r),
     omit_strings ''allowed_models'' (kc_AllowedModels r),
     omit_int ''rate_limit_rps'' (kc_RateLimitRps r),
     omit_int ''burst_size'' (kc_BurstSize r),
     omit_int ''tokens_per_min'' (kc_TokensPerMin r),
     omit_string ''expires_at'' (kc_ExpiresAt r),
     opt_member ''enabled'' JBool (kc_Enabled r),
     omit_string ''priority_class'' (kc_PriorityClass r),
     omit_string ''default_objective'' (kc_DefaultObjective r),
     omit_strings ''allowed_objectives'' (kc_AllowedObjectives r),
     omit_string ''client_op_id'' (kc_ClientOpID r)])"

record aiApiKeyCreateResponse =
  kr_RawKey :: string
  kr_KeyID :: string
  kr_Reused :: bool

definition aiApiKeyCreateResponse0 :: aiApiKeyCreateResponse where
  "aiApiKeyCreateResponse0 = \<lparr>kr_RawKey = [], kr_KeyID = [], kr_Reused = False\<rparr>"

definition aiApiKeyCreateResponse_fields :: "aiApiKeyCreateResponse field_spec list" where
  "aiApiKeyCreateResponse_fields = [fld ''raw_key'' kr_RawKey kr_RawKey_update dec_string, fld ''key_id'' kr_KeyID kr_KeyID_update dec_string,
     fld ''reused'' kr_Reused kr_Reused_update dec_bool]"

definition aiApiKeyCreateResponse_json :: "aiApiKeyCreateResponse \<Rightarrow> json" where
  "aiApiKeyCreateResponse_json r = JObj (concat
    [omit_string ''raw_key'' (kr_RawKey r), [(''key_id'', JStr (kr_KeyID r))], [(''reused'', JBool (kr_Reused r))]])"

text \<open>What can be read: a file or standard input, as the bytes it delivers and whether it then fails.\<close>

record key_source =
  ks_open :: "string \<Rightarrow> http_body option"
  ks_stdin :: http_body

definition minImportedAPIKeyLength :: nat where "minImportedAPIKeyLength = 16"
definition maxImportedAPIKeyLength :: nat where "maxImportedAPIKeyLength = 512"

text \<open>\<open>io.ReadAll(io.LimitReader(reader, max+2))\<close>: a failure behind the limit is not met.\<close>

definition limited_read :: "http_body \<Rightarrow> bytes option" where
  "limited_read raw =
     (case raw of
        Whole b \<Rightarrow> Some (take (maxImportedAPIKeyLength + 2) b)
      | Torn b \<Rightarrow> if length b \<ge> maxImportedAPIKeyLength + 2 then Some (take (maxImportedAPIKeyLength + 2) b) else None)"

definition precondition :: "msg \<Rightarrow> cliError" where
  "precondition m = CLIError0\<lparr>ce_Code := Precondition, ce_Message := m\<rparr>"

definition accept_key :: "http_body \<Rightarrow> cliError + string \<times> bool" where
  "accept_key raw =
     (case limited_read raw of
        None \<Rightarrow> Inl (precondition (Sprintf ''read imported API key: %v'' [AErr ''io'']))
      | Some b \<Rightarrow>
          let key = trim_space b in
          if length key < minImportedAPIKeyLength \<or> length key > maxImportedAPIKeyLength then
            Inl (Invalidf (Sprintf ''imported API key must be between %d and %d characters''
              [AInt (int minImportedAPIKeyLength), AInt (int maxImportedAPIKeyLength)]))
          else if \<exists>c \<in> set key. byte c < 0x21 \<or> byte c > 0x7e then
            Inl (Invalidf (Text ''imported API key must contain only printable non-space ASCII characters''))
          else Inr (key, True))"

definition readImportedAPIKey :: "createAPIKeyOptions \<Rightarrow> key_source \<Rightarrow> cliError + string \<times> bool" where
  "readImportedAPIKey k src =
     (if ak_APIKeyFile k \<noteq> [] \<and> ak_APIKeyStdin k then Inl (Usagef (Text ''--api-key-file and --api-key-stdin are mutually exclusive''))
      else if ak_APIKeyFile k = [] \<and> \<not> ak_APIKeyStdin k then Inr ([], False)
      else if ak_APIKeyFile k \<noteq> [] then
        (case ks_open src (ak_APIKeyFile k) of
           None \<Rightarrow> Inl (precondition (Sprintf ''read API key file: %v'' [AErr ''os'']))
         | Some raw \<Rightarrow> accept_key raw)
      else accept_key (ks_stdin src))"

definition apikey_request :: "createAPIKeyOptions \<Rightarrow> string \<Rightarrow> aiApiKeyCreateRequest" where
  "apikey_request k importedKey = \<lparr>kc_TenantID = ak_TenantID k, kc_Name = ak_Name k, kc_APIKey = importedKey,
     kc_AllowedModels = ak_AllowedModels k, kc_RateLimitRps = ak_Rps k, kc_BurstSize = ak_Burst k, kc_TokensPerMin = ak_TokensPerMin k,
     kc_ExpiresAt = ak_ExpiresAt k, kc_Enabled = Some (ak_Enabled k), kc_PriorityClass = ak_PriorityClass k,
     kc_DefaultObjective = ak_DefaultObjective k, kc_AllowedObjectives = ak_AllowedObjectives k, kc_ClientOpID = ak_ClientOpID k\<rparr>"

definition apikey_refusal :: "string \<Rightarrow> int \<Rightarrow> bytes \<Rightarrow> cliError" where
  "apikey_refusal tenant status body = (FromHTTPStatus ''create apikey'' status)\<lparr>ce_Message :=
     (if status = 400 \<or> status = 409 then APIError_Verbatim (NewAPIError status body)
      else if status = 504 then Sprintf ''%s; the key may exist: read it back (get apikey --tenant-id=%s) before retrying''
        [AMsg (APIError_Error (NewAPIError status body)), AStr tenant]
      else APIError_Error (NewAPIError status body))\<rparr>"

definition printCreateAPIKeyResult :: "aiApiKeyCreateResponse \<Rightarrow> bool \<Rightarrow> string \<Rightarrow> msg list" where
  "printCreateAPIKeyResult result imported printOption =
     (let result = (if imported then result\<lparr>kr_RawKey := []\<rparr> else result) in
      if printOption = ''json'' then [MarshalIndent (aiApiKeyCreateResponse_json result)]
      else if imported then
        Sprintf (''API key imported.'' @ newline @ ''  key_id : %s'') [AStr (kr_KeyID result)]
        # (if kr_Reused result then [Text ''  reused : true''] else [])
      else if kr_Reused result then
        [Sprintf (''API key reused: an earlier create with this client op ID made it.'' @ newline @ ''  key_id : %s'' @ newline @ ''  raw_key: %s'' @ newline
            @ ''The earlier secret no longer authenticates. Store the raw_key now - it will not be shown again.'')
          [AStr (kr_KeyID result), AStr (kr_RawKey result)]]
      else
        [Sprintf (''API key created.'' @ newline @ ''  key_id : %s'' @ newline @ ''  raw_key: %s'' @ newline
            @ ''Store the raw_key now - it will not be shown again.'')
          [AStr (kr_KeyID result), AStr (kr_RawKey result)]])"

definition unmarshal_failed :: "int \<Rightarrow> cliError" where
  "unmarshal_failed status = CLIError0\<lparr>ce_Code := ContractMismatch, ce_Message := Sprintf ''Failed to unmarshal HTTP response: (%s)'' [AErr ''encoding/json''],
     ce_Origin := ''gateway'', ce_HTTPStatus := status\<rparr>"

definition create_apikey ::
  "gateway_env \<Rightarrow> restOptions \<Rightarrow> key_source \<Rightarrow> createAPIKeyOptions \<Rightarrow> http_request list \<Rightarrow> gate_state \<Rightarrow> rest_run \<times> gate_state" where
  "create_apikey env o' src k log st =
     (if ak_TenantID k = [] then (stopped log [] (Usagef (Text ''--tenant-id is required'')), st)
      else if ak_PriorityClass k \<noteq> [] \<and> \<not> IsPriorityClass (ak_PriorityClass k) then
        (stopped log [] (Invalidf (Sprintf ''--priority-class must be one of %s'' [AStr (join ''|'' PriorityClasses)])), st)
      else gated_when (ak_PriorityClass k \<noteq> [] \<or> ak_DefaultObjective k \<noteq> [] \<or> ak_AllowedObjectives k \<noteq> [])
        env o' ''objectives'' ''create apikey'' log st
        (\<lambda>_. case readImportedAPIKey k src of
            Inl e \<Rightarrow> stopped log [] e
          | Inr (importedKey, imported) \<Rightarrow>
              on_answer env ''create apikey'' [201, 200] (apikey_refusal (ak_TenantID k))
                (\<lambda>log' status body.
                   case unmarshal aiApiKeyCreateResponse_fields aiApiKeyCreateResponse0 body of
                     None \<Rightarrow> stopped log' [] (unmarshal_failed status)
                   | Some result \<Rightarrow> finished log' (printCreateAPIKeyResult result imported (ro_PrintOption o')))
                (post env (aiApiKeyCreateRequest_json (apikey_request k importedKey)) (LoxiClient_AIApiKey o')) log))"

subsection \<open>The gateway's own answer\<close>

record operationResult =
  or_Result :: string

text \<open>
  Under \<open>-o json\<close> the body is decoded into \<open>any\<close> and printed again; how the standard library prints it is left open,
  as the message of the body. A body that does not decode, or has no result, is printed as it is.
\<close>

definition printOperationResult :: "bytes \<Rightarrow> string \<Rightarrow> cliError + msg" where
  "printOperationResult body printOption =
     (if printOption = ''json'' then
        (case parse_json body of
           Some doc \<Rightarrow>
             if floats_in_range doc then Inr (Sprintf ''json.MarshalIndent(%s)'' [AStr body])
             else Inl (CLIError0\<lparr>ce_Code := ContractMismatch, ce_Message := Sprintf ''decode response: %v'' [AErr ''encoding/json''], ce_Origin := ''gateway''\<rparr>)
         | None \<Rightarrow> Inl (CLIError0\<lparr>ce_Code := ContractMismatch, ce_Message := Sprintf ''decode response: %v'' [AErr ''encoding/json''], ce_Origin := ''gateway''\<rparr>))
      else Inr (Text
        (case unmarshal [fld ''result'' or_Result or_Result_update dec_string] \<lparr>or_Result = []\<rparr> body of
           None \<Rightarrow> trim_space body
         | Some result \<Rightarrow> if or_Result result = [] then trim_space body else or_Result result)))"

definition show_operation :: "restOptions \<Rightarrow> http_request list \<Rightarrow> int \<Rightarrow> bytes \<Rightarrow> rest_run" where
  "show_operation o' log' status body =
     (case printOperationResult body (ro_PrintOption o') of Inl e \<Rightarrow> stopped log' [] e | Inr m \<Rightarrow> finished log' [m])"

subsection \<open>Objectives, identities, profiles\<close>

record aiObjectiveEntry =
  ob_Name :: string
  ob_Services :: "string list"
  ob_Priority :: int
  ob_UpdatedAt :: string

definition aiObjectiveEntry_json :: "aiObjectiveEntry \<Rightarrow> json" where
  "aiObjectiveEntry_json x = JObj (concat
    [[(''name'', JStr (ob_Name x))], omit_strings ''services'' (ob_Services x), [(''priority'', jint (ob_Priority x))],
     omit_string ''updated_at'' (ob_UpdatedAt x)])"

definition create_objective ::
  "gateway_env \<Rightarrow> restOptions \<Rightarrow> int \<Rightarrow> string list \<Rightarrow> string list \<Rightarrow> http_request list \<Rightarrow> gate_state \<Rightarrow> rest_run \<times> gate_state" where
  "create_objective env o' priority services args log st =
     (if length args \<noteq> 1 then (stopped log [] (Usagef (Text ''create objective needs <NAME> arg'')), st)
      else gated env o' ''objectives'' ''create objective'' log st
        (\<lambda>_. on_answer env ''create objective'' [200, 201] (feature_Classify ''create objective'' ''objectives'') (show_operation o')
           (post env (aiObjectiveEntry_json \<lparr>ob_Name = args ! 0, ob_Services = services, ob_Priority = priority, ob_UpdatedAt = []\<rparr>)
             (LoxiClient_AIObjective o')) log))"

record createNetIdentityOptions =
  ni_Tenant :: string
  ni_Cidr :: "string list"
  ni_IngressIf :: string
  ni_Vlan :: "32 word"
  ni_Vni :: "32 word"
  ni_IpsecTunnel :: string
  ni_Services :: "string list"
  ni_AllowedModels :: "string list"
  ni_Enforce :: string
  ni_Credential :: string
  ni_ForwardIdentity :: bool
  ni_PriorityClass :: string
  ni_FailMode :: string

record netIdentityMatch =
  nm_Cidr :: "string list"
  nm_IngressIf :: string
  nm_Vlan :: "32 word"
  nm_Vni :: "32 word"
  nm_IpsecTunnel :: string

record netIdentityEntry =
  ne_Name :: string
  ne_Match :: netIdentityMatch
  ne_Services :: "string list"
  ne_Tenant :: string
  ne_AllowedModels :: "string list"
  ne_Enforce :: string
  ne_Credential :: string
  ne_ForwardIdentity :: bool
  ne_PriorityClass :: string
  ne_FailMode :: string

definition netIdentityMatch_json :: "netIdentityMatch \<Rightarrow> json" where
  "netIdentityMatch_json m = JObj (concat
    [omit_strings ''cidr'' (nm_Cidr m),
     omit_string ''ingress_if'' (nm_IngressIf m),
     unless (nm_Vlan m = 0) ''vlan'' (jword (nm_Vlan m)),
     unless (nm_Vni m = 0) ''vni'' (jword (nm_Vni m)),
     omit_string ''ipsec_tunnel'' (nm_IpsecTunnel m)])"

definition netIdentityEntry_json :: "netIdentityEntry \<Rightarrow> json" where
  "netIdentityEntry_json x = JObj (concat
    [[(''name'', JStr (ne_Name x))],
     [(''match'', netIdentityMatch_json (ne_Match x))],
     omit_strings ''services'' (ne_Services x),
     [(''tenant'', JStr (ne_Tenant x))],
     omit_strings ''allowed_models'' (ne_AllowedModels x),
     omit_string ''enforce'' (ne_Enforce x),
     omit_string ''credential'' (ne_Credential x),
     omit_bool ''forward_identity'' (ne_ForwardIdentity x),
     omit_string ''priority_class'' (ne_PriorityClass x),
     omit_string ''fail_mode'' (ne_FailMode x)])"

definition NetIdentityEnforceModes :: "string list" where "NetIdentityEnforceModes = [''advisory'', ''strict'']"
definition NetIdentityCredentials :: "string list" where "NetIdentityCredentials = [''none'', ''network'']"
definition NetIdentityFailModes :: "string list" where "NetIdentityFailModes = [''neutral'', ''closed'']"
definition netIdentityVlanCeiling :: "32 word" where "netIdentityVlanCeiling = 4094"
definition netIdentityVniCeiling :: "32 word" where "netIdentityVniCeiling = 16777215"

definition one_of_values :: "string \<times> string \<times> string list \<Rightarrow> msg option" where
  "one_of_values c =
     (case c of (flag, v, allowed) \<Rightarrow>
        failIf (v \<noteq> [] \<and> v \<notin> set allowed) (Sprintf ''%s must be one of %s'' [AStr flag, AStr (join ''|'' allowed)]))"

definition ipv4_cidr :: "string \<Rightarrow> bool" where
  "ipv4_cidr s \<longleftrightarrow> ParseCIDR s \<and> (\<exists>gs \<in> set_option (IP_value (takeWhile (\<lambda>c. c \<noteq> CHR ''/'') s)). To4 gs \<noteq> None)"

definition validateNetIdentityOptions :: "createNetIdentityOptions \<Rightarrow> msg option" where
  "validateNetIdentityOptions n =
     andThen (firstErr one_of_values
       [(''--enforce'', ni_Enforce n, NetIdentityEnforceModes), (''--credential'', ni_Credential n, NetIdentityCredentials),
        (''--fail-mode'', ni_FailMode n, NetIdentityFailModes), (''--priority-class'', ni_PriorityClass n, PriorityClasses)])
     (andThen (failIf (ni_Vlan n > netIdentityVlanCeiling) (Sprintf ''--vlan must be within 1..%d'' [AInt (uint netIdentityVlanCeiling)]))
     (andThen (failIf (ni_Vni n > netIdentityVniCeiling) (Sprintf ''--vni must be within 1..%d'' [AInt (uint netIdentityVniCeiling)]))
       (firstErr (\<lambda>cidr. failIf (\<not> ipv4_cidr cidr) (Sprintf ''--cidr %q is not an IPv4 network in a.b.c.d/len form'' [AStr cidr])) (ni_Cidr n))))"

definition netIdentityEntry_of :: "string \<Rightarrow> createNetIdentityOptions \<Rightarrow> netIdentityEntry" where
  "netIdentityEntry_of name n = \<lparr>ne_Name = name,
     ne_Match = \<lparr>nm_Cidr = ni_Cidr n, nm_IngressIf = ni_IngressIf n, nm_Vlan = ni_Vlan n, nm_Vni = ni_Vni n, nm_IpsecTunnel = ni_IpsecTunnel n\<rparr>,
     ne_Services = ni_Services n, ne_Tenant = ni_Tenant n, ne_AllowedModels = ni_AllowedModels n, ne_Enforce = ni_Enforce n,
     ne_Credential = ni_Credential n, ne_ForwardIdentity = ni_ForwardIdentity n, ne_PriorityClass = ni_PriorityClass n, ne_FailMode = ni_FailMode n\<rparr>"

definition create_netidentity ::
  "gateway_env \<Rightarrow> restOptions \<Rightarrow> createNetIdentityOptions \<Rightarrow> string list \<Rightarrow> http_request list \<Rightarrow> gate_state \<Rightarrow> rest_run \<times> gate_state" where
  "create_netidentity env o' n args log st =
     (if length args \<noteq> 1 then (stopped log [] (Usagef (Text ''create netidentity needs <NAME> arg'')), st)
      else if ni_Tenant n = [] then (stopped log [] (Usagef (Text ''--tenant is required'')), st)
      else case validateNetIdentityOptions n of
        Some e \<Rightarrow> (stopped log [] (invalid e), st)
      | None \<Rightarrow> gated env o' ''netidentity'' ''create netidentity'' log st
          (\<lambda>_. on_answer env ''create netidentity'' [200, 201] (feature_Classify ''create netidentity'' ''netidentity'') (show_operation o')
             (post env (netIdentityEntry_json (netIdentityEntry_of (args ! 0) n)) (LoxiClient_AINetIdentity o')) log))"

record createJWTAuthProfileOptions =
  jo_Issuer :: string
  jo_JwksURL :: string
  jo_Audiences :: "string list"
  jo_Algs :: "string list"
  jo_LeewaySec :: int
  jo_RefreshSec :: int
  jo_TenantClaim :: string
  jo_UserClaim :: string
  jo_ModelsClaim :: string
  jo_RolesClaim :: string
  jo_ModelRolePrefix :: string
  jo_UsernameClaim :: string
  jo_ModelAuthz :: string
  jo_DefaultTenant :: string
  jo_ForwardIdentity :: bool
  jo_AuthorizationPassthrough :: bool
  jo_PriorityClass :: string

text \<open>The entry holds the options field for field, under a name.\<close>

record jwtAuthProfileEntry =
  je_Name :: string
  je_Options :: createJWTAuthProfileOptions

definition jwtAuthProfileEntry_json :: "jwtAuthProfileEntry \<Rightarrow> json" where
  "jwtAuthProfileEntry_json x = (let j = je_Options x in JObj (concat
    [[(''name'', JStr (je_Name x))],
     [(''issuer'', JStr (jo_Issuer j))],
     omit_string ''jwks_url'' (jo_JwksURL j),
     omit_strings ''audiences'' (jo_Audiences j),
     omit_strings ''algs'' (jo_Algs j),
     omit_int ''leeway_sec'' (jo_LeewaySec j),
     omit_int ''refresh_sec'' (jo_RefreshSec j),
     omit_string ''tenant_claim'' (jo_TenantClaim j),
     omit_string ''user_claim'' (jo_UserClaim j),
     omit_string ''models_claim'' (jo_ModelsClaim j),
     omit_string ''roles_claim'' (jo_RolesClaim j),
     omit_string ''model_role_prefix'' (jo_ModelRolePrefix j),
     omit_string ''username_claim'' (jo_UsernameClaim j),
     omit_string ''model_authz'' (jo_ModelAuthz j),
     omit_string ''default_tenant'' (jo_DefaultTenant j),
     omit_bool ''forward_identity'' (jo_ForwardIdentity j),
     omit_bool ''authorization_passthrough'' (jo_AuthorizationPassthrough j),
     omit_string ''priority_class'' (jo_PriorityClass j)]))"

definition JWTAuthProfileModelAuthz :: "string list" where "JWTAuthProfileModelAuthz = [''claims-required'', ''allow-all'']"

definition validateJWTAuthProfileOptions :: "createJWTAuthProfileOptions \<Rightarrow> msg option" where
  "validateJWTAuthProfileOptions j =
     firstErr one_of_values [(''--model-authz'', jo_ModelAuthz j, JWTAuthProfileModelAuthz), (''--priority-class'', jo_PriorityClass j, PriorityClasses)]"

text \<open>Two gates in a row; the warnings of both are written.\<close>

definition then_gated ::
  "bool \<Rightarrow> gateway_env \<Rightarrow> restOptions \<Rightarrow> string \<Rightarrow> string \<Rightarrow> string \<Rightarrow> string \<Rightarrow> http_request list \<Rightarrow> gate_state \<Rightarrow> (unit \<Rightarrow> rest_run) \<Rightarrow> rest_run \<times> gate_state" where
  "then_gated b env o' feature1 command1 feature2 command2 log st k =
     (case Require (ge_peer env) o' feature1 command1 st of
        ((Some e, w), st') \<Rightarrow> (stopped log [] e, st')
      | ((None, w), st') \<Rightarrow>
          (let (r, st'') = gated_when b env o' feature2 command2 log st' k in
           (r\<lparr>rn_warn := (case w of None \<Rightarrow> [] | Some m \<Rightarrow> [m]) @ rn_warn r\<rparr>, st'')))"

definition create_jwtauthprofile ::
  "gateway_env \<Rightarrow> restOptions \<Rightarrow> createJWTAuthProfileOptions \<Rightarrow> string list \<Rightarrow> http_request list \<Rightarrow> gate_state \<Rightarrow> rest_run \<times> gate_state" where
  "create_jwtauthprofile env o' j args log st =
     (if length args \<noteq> 1 then (stopped log [] (Usagef (Text ''create jwtauthprofile needs <NAME> arg'')), st)
      else if jo_Issuer j = [] then (stopped log [] (Usagef (Text ''--issuer is required'')), st)
      else case validateJWTAuthProfileOptions j of
        Some e \<Rightarrow> (stopped log [] (invalid e), st)
      | None \<Rightarrow> then_gated (jo_PriorityClass j \<noteq> []) env o' ''jwt_auth_profile'' ''create jwtauthprofile''
            ''objectives'' ''create jwtauthprofile --priority-class'' log st
          (\<lambda>_. on_answer env ''create jwtauthprofile'' [200, 201] (feature_Classify ''create jwtauthprofile'' ''jwt_auth_profile'') (show_operation o')
             (post env (jwtAuthProfileEntry_json \<lparr>je_Name = args ! 0, je_Options = j\<rparr>) (LoxiClient_AIJWTAuthProfile o')) log))"

subsection \<open>Users, certificates, SNI\<close>

record userModel =
  um_Username :: string
  um_Password :: string
  um_Role :: string

text \<open>The identifier and the creation time stay zero, and off the wire.\<close>

definition userModel_json :: "userModel \<Rightarrow> json" where
  "userModel_json u = JObj (concat
    [[(''username'', JStr (um_Username u))], [(''password'', JStr (um_Password u))], omit_string ''role'' (um_Role u)])"

definition create_user :: "gateway_env \<Rightarrow> restOptions \<Rightarrow> userModel \<Rightarrow> http_request list \<Rightarrow> rest_run" where
  "create_user env o' u log =
     (if um_Username u = [] \<or> um_Password u = [] then stopped log [] (Usagef (Text ''--username and --password are required''))
      else on_answer env ''create user'' [201, 200] (status_refusal ''create user'')
        (\<lambda>log' status body. finished log' [Sprintf ''User '%s' created.'' [AStr (um_Username u)]])
        (post env (userModel_json u) (LoxiClient_User o')) log)"

record createCertOptions =
  cc_CertID :: string
  cc_CertFile :: string
  cc_KeyFile :: string
  cc_ChainFile :: string
  cc_Usage :: string

datatype cert_body = CertModel string string string string string | CACertModel string string string string

fun cert_json :: "cert_body \<Rightarrow> json" where
  "cert_json (CertModel certID usage certPem keyPem chainPem) = JObj (concat
    [omit_string ''certId'' certID, omit_string ''usage'' usage, omit_string ''certPem'' certPem, omit_string ''keyPem'' keyPem,
     omit_string ''chainPem'' chainPem])"
| "cert_json (CACertModel certID usage certPem chainPem) = JObj (concat
    [omit_string ''certId'' certID, [(''usage'', JStr usage)], [(''certPem'', JStr certPem)], [(''keyPem'', JStr [])],
     omit_string ''chainPem'' chainPem])"

definition certCreateBody :: "createCertOptions \<Rightarrow> string \<Rightarrow> string \<Rightarrow> string \<Rightarrow> cliError + cert_body" where
  "certCreateBody c certPem keyPem chainPem =
     (if cc_Usage c \<in> {[], ''server'', ''client''} then
        (if cc_KeyFile c = [] then Inl (Usagef (Text ''--cert-file and --key-file are required''))
         else Inr (CertModel (cc_CertID c) (cc_Usage c) certPem keyPem chainPem))
      else if cc_Usage c = ''ca'' then
        (if cc_KeyFile c \<noteq> [] then Inl (Usagef (Text ''--usage ca takes a certificate bundle and no --key-file''))
         else Inr (CACertModel (cc_CertID c) (cc_Usage c) certPem chainPem))
      else Inl (Usagef (Text ''--usage must be one of server|ca|client'')))"

record certCreated =
  ct_CertID :: string

definition certCreatedID :: "bytes \<Rightarrow> string \<Rightarrow> string" where
  "certCreatedID body requested =
     (case unmarshal [fld ''certId'' ct_CertID ct_CertID_update dec_string] \<lparr>ct_CertID = []\<rparr> body of
        Some created \<Rightarrow> if ct_CertID created \<noteq> [] then ct_CertID created else requested
      | None \<Rightarrow> requested)"

definition read_pem :: "(string \<Rightarrow> bytes option) \<Rightarrow> string \<Rightarrow> string \<Rightarrow> cliError + bytes" where
  "read_pem fs flag path =
     (if path = [] then Inr []
      else case fs path of None \<Rightarrow> Inl (precondition (Sprintf (''reading '' @ flag @ '': %v'') [AErr ''os''])) | Some b \<Rightarrow> Inr b)"

text \<open>The flags are checked once before the files are read, and again with their contents.\<close>

definition cert_upload :: "(string \<Rightarrow> bytes option) \<Rightarrow> createCertOptions \<Rightarrow> cliError + cert_body" where
  "cert_upload fs c =
     (if cc_CertFile c = [] then Inl (Usagef (Text ''--cert-file is required''))
      else case certCreateBody c [] [] [] of
        Inl e \<Rightarrow> Inl e
      | Inr _ \<Rightarrow>
          (case read_pem fs ''--cert-file'' (cc_CertFile c) of
             Inl e \<Rightarrow> Inl e
           | Inr certPem \<Rightarrow>
               (case read_pem fs ''--key-file'' (cc_KeyFile c) of
                  Inl e \<Rightarrow> Inl e
                | Inr keyPem \<Rightarrow>
                    (case read_pem fs ''--chain-file'' (cc_ChainFile c) of
                       Inl e \<Rightarrow> Inl e
                     | Inr chainPem \<Rightarrow> certCreateBody c certPem keyPem chainPem))))"

definition create_cert :: "gateway_env \<Rightarrow> restOptions \<Rightarrow> (string \<Rightarrow> bytes option) \<Rightarrow> createCertOptions \<Rightarrow> http_request list \<Rightarrow> rest_run" where
  "create_cert env o' fs c log =
     (case cert_upload fs c of
        Inl e \<Rightarrow> stopped log [] e
      | Inr model \<Rightarrow>
          on_answer env ''create cert'' [201, 200] (status_refusal ''create cert'')
            (\<lambda>log' status body. finished log'
               [let id = certCreatedID body (cc_CertID c) in
                if id \<noteq> [] then Sprintf ''Certificate '%s' created.'' [AStr id] else Text ''Certificate created.''])
            (post env (cert_json model) (LoxiClient_Cert o')) log)"

definition SNICertificateEntry_json :: "string \<Rightarrow> string \<Rightarrow> json" where
  "SNICertificateEntry_json hostname certPath = JObj (concat [[(''hostname'', JStr hostname)], omit_string ''certPath'' certPath])"

definition create_sni :: "gateway_env \<Rightarrow> restOptions \<Rightarrow> string \<Rightarrow> string \<Rightarrow> http_request list \<Rightarrow> rest_run" where
  "create_sni env o' hostname certPath log =
     (if hostname = [] then stopped log [] (Usagef (Text ''--hostname is required''))
      else on_answer env ''create sni'' [200, 201] (status_refusal ''create sni'')
        (\<lambda>log' status body. finished log' [Sprintf ''SNI certificate registered for '%s'.'' [AStr hostname]])
        (post env (SNICertificateEntry_json hostname certPath) (LoxiClient_SNICertificate o')) log)"

end
