(* ===== verification/RestPlan.thy ===== *)
theory RestPlan
  imports CreateAI
begin

section \<open>What the REST commands are meant to do\<close>

text \<open>
  The abstract specification of \<open>delete\<close>, \<open>set\<close> and \<open>create\<close> in one form, and that the commands refine it. A plan is the
  requests that a command with its arguments stands for. Pursuing it means sending them in order until one gets no
  answer that the command accepts; a command accepts a status of success and, where it prints what the gateway
  said, only a body it can read.
\<close>

fun pursue :: "gateway_env \<Rightarrow> (http_result \<Rightarrow> bool) \<Rightarrow> plan_step list \<Rightarrow> http_request list \<Rightarrow> bool \<times> http_request list" where
  "pursue env ok [] log = (True, log)"
| "pursue env ok (Halt # steps) log = (False, log)"
| "pursue env ok (Ask req # steps) log =
     (case exchange env req log of (ans, log') \<Rightarrow> if ok ans then pursue env ok steps log' else (False, log'))"

definition accepts :: "int list \<Rightarrow> (bytes \<Rightarrow> bool) \<Rightarrow> http_result \<Rightarrow> bool" where
  "accepts good readable r = (case r of NoResponse \<Rightarrow> False | Response status hs raw \<Rightarrow> status \<in> set good \<and> readable (read_some raw))"

lemma accepts_simps [simp]:
  "\<not> accepts good readable NoResponse"
  "accepts good readable (Response status hs raw) \<longleftrightarrow> status \<in> set good \<and> readable (read_some raw)"
  by (simp_all add: accepts_def)

lemma follow_pursue: "follow env (set good) steps log = pursue env (accepts good (\<lambda>_. True)) steps log"
proof (induction steps arbitrary: log)
  case (Cons step steps)
  then show ?case by (cases step) (auto split: prod.splits http_result.splits)
qed simp

subsection \<open>The \<open>create\<close> family\<close>

datatype create_command =
    CreateSession string string
  | CreateSessionUlCl "string list"
  | CreatePolicy createPolicyOptions
  | CreateRoute string
  | CreateIP
  | CreateNeighbor string
  | CreateFDB
  | CreateVlan
  | CreateVlanMember bool
  | CreateVxlan
  | CreateVxlanPeer
  | CreateMirror "string list" "string list"
  | CreateFirewall createFirewallOptions
  | CreateEndPoint createEndPointOptions
  | CreateBGPNeighbor "8 word" bool
  | CreateBFD bfdSessionInfo
  | CreateAPIKey createAPIKeyOptions
  | CreateObjective int "string list"
  | CreateNetIdentity createNetIdentityOptions
  | CreateJWTAuthProfile createJWTAuthProfileOptions
  | CreateUser userModel
  | CreateCert createCertOptions
  | CreateSNI string string

record input_files =
  if_keys :: key_source
  if_files :: "string \<Rightarrow> bytes option"

fun run_create ::
  "gateway_env \<Rightarrow> restOptions \<Rightarrow> input_files \<Rightarrow> create_command \<Rightarrow> string list \<Rightarrow> http_request list \<Rightarrow> gate_state \<Rightarrow> rest_run \<times> gate_state" where
  "run_create env o' inp (CreateSession an cn) args log st = (create_session env o' an cn args log, st)"
| "run_create env o' inp (CreateSessionUlCl ulclArgs) args log st = (create_sessionulcl env o' ulclArgs args log, st)"
| "run_create env o' inp (CreatePolicy p) args log st = (create_policy env o' p args log, st)"
| "run_create env o' inp (CreateRoute proto) args log st = (create_route env o' proto args log, st)"
| "run_create env o' inp CreateIP args log st = (create_ip env o' args log, st)"
| "run_create env o' inp (CreateNeighbor mac) args log st = (create_neighbor env o' mac args log, st)"
| "run_create env o' inp CreateFDB args log st = (create_fdb env o' args log, st)"
| "run_create env o' inp CreateVlan args log st = (create_vlan env o' args log, st)"
| "run_create env o' inp (CreateVlanMember tagged) args log st = (create_vlanmember env o' tagged args log, st)"
| "run_create env o' inp CreateVxlan args log st = (create_vxlan env o' args log, st)"
| "run_create env o' inp CreateVxlanPeer args log st = (create_vxlanpeer env o' args log, st)"
| "run_create env o' inp (CreateMirror info target) args log st = (create_mirror env o' info target args log, st)"
| "run_create env o' inp (CreateFirewall c) args log st = (create_firewall env o' c log, st)"
| "run_create env o' inp (CreateEndPoint p) args log st = (create_endpoint env o' p args log, st)"
| "run_create env o' inp (CreateBGPNeighbor port hop) args log st = (create_bgpneighbor env o' port hop args log, st)"
| "run_create env o' inp (CreateBFD b) args log st = (create_bfd env o' b args log, st)"
| "run_create env o' inp (CreateAPIKey k) args log st = create_apikey env o' (if_keys inp) k log st"
| "run_create env o' inp (CreateObjective priority services) args log st = create_objective env o' priority services args log st"
| "run_create env o' inp (CreateNetIdentity n) args log st = create_netidentity env o' n args log st"
| "run_create env o' inp (CreateJWTAuthProfile j) args log st = create_jwtauthprofile env o' j args log st"
| "run_create env o' inp (CreateUser u) args log st = (create_user env o' u log, st)"
| "run_create env o' inp (CreateCert c) args log st = (create_cert env o' (if_files inp) c log, st)"
| "run_create env o' inp (CreateSNI hostname certPath) args log st = (create_sni env o' hostname certPath log, st)"

lemmas create_defs = create_session_def create_sessionulcl_def create_policy_def create_route_def create_ip_def create_neighbor_def create_fdb_def
  create_vlan_def create_vlanmember_def create_vxlan_def create_vxlanpeer_def create_mirror_def create_firewall_def create_endpoint_def
  create_bgpneighbor_def create_bfd_def create_apikey_def create_objective_def create_netidentity_def create_jwtauthprofile_def
  create_user_def create_cert_def create_sni_def

subsection \<open>Plans\<close>

text \<open>One request with what the arguments make, unless they are refused.\<close>

definition one_request :: "'e + 'm \<Rightarrow> ('m \<Rightarrow> http_request option) \<Rightarrow> plan_step list" where
  "one_request x call = (case x of Inl e \<Rightarrow> [Halt] | Inr m \<Rightarrow> [Ask (call m)])"

definition some_args :: "string list \<Rightarrow> 'e + 'm \<Rightarrow> msg + 'm" where
  "some_args args x = (if args = [] then Inl (Text ''no arguments'') else case x of Inl e \<Rightarrow> Inl (Text ''refused'') | Inr m \<Rightarrow> Inr m)"

definition session_of :: "string \<Rightarrow> string \<Rightarrow> string list \<Rightarrow> msg + sessionMod" where
  "session_of an cn args =
     (case (ReadCreateSessionOptions args, GetNetworkTunnelPairList an, GetNetworkTunnelPairList cn) of
        (Inr (ident, ip), Inr a, Inr c) \<Rightarrow> Inr \<lparr>sm_Ident = ident, sm_Ip = ip, sm_AnTun = a, sm_CnTun = c\<rparr>
      | _ \<Rightarrow> Inl (Text ''refused''))"

fun create_plan :: "gateway_env \<Rightarrow> restOptions \<Rightarrow> input_files \<Rightarrow> create_command \<Rightarrow> string list \<Rightarrow> gate_state \<Rightarrow> plan_step list" where
  "create_plan env o' inp (CreateSession an cn) args st = one_request (some_args args (session_of an cn args)) (SessionAPICall env o')"
| "create_plan env o' inp (CreateSessionUlCl ulclArgs) args st =
     (if args = [] \<or> length args > 2 then [Halt]
      else case GetUlClArgsPairList ulclArgs (args ! 0) ulclArgs of Inl e \<Rightarrow> [Halt] | Inr ms \<Rightarrow> map (\<lambda>m. Ask (SessionUlClAPICall env o' m)) ms)"
| "create_plan env o' inp (CreatePolicy p) args st = one_request (some_args args (policy_mod p (args ! 0))) (PolicyAPICall env o')"
| "create_plan env o' inp (CreateRoute proto) args st = one_request (ReadCreateRouteOptions args proto) (RouteAPICall env o')"
| "create_plan env o' inp CreateIP args st = one_request (ReadCreateIPv4AddressOptions args) (IPv4AddressAPICall env o')"
| "create_plan env o' inp (CreateNeighbor mac) args st = one_request (ReadCreateNeighborsOptions args mac) (NeighborsAPICall env o')"
| "create_plan env o' inp CreateFDB args st = one_request (ReadCreateFDBOptions args) (FDBAPICall env o')"
| "create_plan env o' inp CreateVlan args st = one_request (some_args args (ReadCreateVlanBridgeOptions args)) (VlanBridgeAPICall env o')"
| "create_plan env o' inp (CreateVlanMember tagged) args st =
     only_when (length args \<in> {2, 3} \<and> numeral_arg (args ! 0))
       [Ask (VlanMemberAPICall env o' (args ! 1) tagged (''/config/vlan/'' @ args ! 0 @ ''/member''))]"
| "create_plan env o' inp CreateVxlan args st =
     (case Atoi (args ! 0) of
        Some vxLanID \<Rightarrow> only_when (length args \<in> {2, 3}) [Ask (VxlanBridgeAPICall env o' vxLanID (args ! 1))] | None \<Rightarrow> [Halt])"
| "create_plan env o' inp CreateVxlanPeer args st =
     only_when (length args = 2 \<and> ParseIP (args ! 1)) [Ask (VxlanPeerAPICall env o' (args ! 1) (''/config/tunnel/vxlan/'' @ args ! 0 @ ''/peer''))]"
| "create_plan env o' inp (CreateMirror info target) args st = one_request (mirror_mod info target args) (MirrorAPICall env o')"
| "create_plan env o' inp (CreateFirewall c) args st =
     only_when (cf_FirewallRule c \<noteq> []) (one_request (firewall_mod c) (FirewallAPICall env o'))"
| "create_plan env o' inp (CreateEndPoint p) args st =
     only_when (args \<noteq> [] \<and> check_endpoint p (args ! 0) = None) [Ask (EndPointAPICall env o' (endpoint_mod p (args ! 0)))]"
| "create_plan env o' inp (CreateBGPNeighbor port hop) args st =
     one_request (ReadCreateBGPNeighborOptions args) (\<lambda>m. BGPNeighborAPICall env o' (bgp_options port hop m))"
| "create_plan env o' inp (CreateBFD b) args st = one_request (ReadCreateBfdOptions b args) (CreateBFDAPICall env o')"
| "create_plan env o' inp (CreateAPIKey k) args st =
     only_when (ak_TenantID k \<noteq> [] \<and> (ak_PriorityClass k = [] \<or> IsPriorityClass (ak_PriorityClass k))
         \<and> (ak_PriorityClass k = [] \<and> ak_DefaultObjective k = [] \<and> ak_AllowedObjectives k = [] \<or> open_gate env o' ''objectives'' ''create apikey'' st))
       (one_request (readImportedAPIKey k (if_keys inp)) (\<lambda>(key, imported). post env (aiApiKeyCreateRequest_json (apikey_request k key)) (LoxiClient_AIApiKey o')))"
| "create_plan env o' inp (CreateObjective priority services) args st =
     only_when (length args = 1 \<and> open_gate env o' ''objectives'' ''create objective'' st)
       [Ask (post env (aiObjectiveEntry_json \<lparr>ob_Name = args ! 0, ob_Services = services, ob_Priority = priority, ob_UpdatedAt = []\<rparr>)
          (LoxiClient_AIObjective o'))]"
| "create_plan env o' inp (CreateNetIdentity n) args st =
     only_when (length args = 1 \<and> ni_Tenant n \<noteq> [] \<and> validateNetIdentityOptions n = None \<and> open_gate env o' ''netidentity'' ''create netidentity'' st)
       [Ask (post env (netIdentityEntry_json (netIdentityEntry_of (args ! 0) n)) (LoxiClient_AINetIdentity o'))]"
| "create_plan env o' inp (CreateJWTAuthProfile j) args st =
     only_when (length args = 1 \<and> jo_Issuer j \<noteq> [] \<and> validateJWTAuthProfileOptions j = None
         \<and> open_gate env o' ''jwt_auth_profile'' ''create jwtauthprofile'' st
         \<and> (jo_PriorityClass j = [] \<or> open_gate env o' ''objectives'' ''create jwtauthprofile --priority-class''
              (snd (Require (ge_peer env) o' ''jwt_auth_profile'' ''create jwtauthprofile'' st))))
       [Ask (post env (jwtAuthProfileEntry_json \<lparr>je_Name = args ! 0, je_Options = j\<rparr>) (LoxiClient_AIJWTAuthProfile o'))]"
| "create_plan env o' inp (CreateUser u) args st =
     only_when (um_Username u \<noteq> [] \<and> um_Password u \<noteq> []) [Ask (post env (userModel_json u) (LoxiClient_User o'))]"
| "create_plan env o' inp (CreateCert c) args st = one_request (cert_upload (if_files inp) c) (\<lambda>m. post env (cert_json m) (LoxiClient_Cert o'))"
| "create_plan env o' inp (CreateSNI hostname certPath) args st =
     only_when (hostname \<noteq> []) [Ask (post env (SNICertificateEntry_json hostname certPath) (LoxiClient_SNICertificate o'))]"

text \<open>What an answer must be for the command to end without error.\<close>

definition operation_readable :: "restOptions \<Rightarrow> bytes \<Rightarrow> bool" where
  "operation_readable o' body \<longleftrightarrow> (\<forall>e. printOperationResult body (ro_PrintOption o') \<noteq> Inl e)"

fun create_accepts :: "restOptions \<Rightarrow> create_command \<Rightarrow> http_result \<Rightarrow> bool" where
  "create_accepts o' (CreateAPIKey k) =
     accepts [201, 200] (\<lambda>body. unmarshal aiApiKeyCreateResponse_fields aiApiKeyCreateResponse0 body \<noteq> None)"
| "create_accepts o' (CreateObjective priority services) = accepts [200, 201] (operation_readable o')"
| "create_accepts o' (CreateNetIdentity n) = accepts [200, 201] (operation_readable o')"
| "create_accepts o' (CreateJWTAuthProfile j) = accepts [200, 201] (operation_readable o')"
| "create_accepts o' (CreateUser u) = accepts [201, 200] (\<lambda>_. True)"
| "create_accepts o' (CreateCert c) = accepts [201, 200] (\<lambda>_. True)"
| "create_accepts o' (CreateSNI hostname certPath) = accepts [200, 201] (\<lambda>_. True)"
| "create_accepts o' cmd = accepts [200] (\<lambda>_. True)"

subsection \<open>Plans of the \<open>set\<close> family\<close>

text \<open>The one action that the flags choose; \<open>None\<close> when they choose none or several, or lack what it needs.\<close>

definition chosen :: "(bool \<times> 'a) list \<Rightarrow> 'a option" where
  "chosen acts = (case filter fst acts of [(b, a)] \<Rightarrow> Some a | _ \<Rightarrow> None)"

definition ask_chosen :: "(bool \<times> plan_step) list \<Rightarrow> plan_step list" where
  "ask_chosen acts = (case chosen acts of None \<Rightarrow> [Halt] | Some s \<Rightarrow> [s])"

definition create_at :: "gateway_env \<Rightarrow> bytes option \<Rightarrow> string list \<Rightarrow> commonAPI \<Rightarrow> plan_step" where
  "create_at env body segments l = Ask (api_Create (ge_url_ok env) body (SubResources segments l))"

definition otlp_step :: "gateway_env \<Rightarrow> restOptions \<Rightarrow> traceFlags \<Rightarrow> plan_step" where
  "otlp_step env o' f =
     (case otlp_headers (tr_headers f) [] of
        Inl e \<Rightarrow> Halt
      | Inr headers \<Rightarrow>
          if tr_endpoint f = [] \<or> tr_protocol f = [] then Halt
          else create_at env (Some (print_json (traceOTLPConfig_json \<lparr>ot_Endpoint = tr_endpoint f, ot_Protocol = tr_protocol f,
            ot_UseTLS = flag_ptr (tr_useTLS f), ot_TLSSkipVerify = flag_ptr (tr_tlsSkipVerify f), ot_Headers = headers\<rparr>))) [''otlp''] (LoxiClient_Trace o'))"

definition class_ok :: "string flag \<Rightarrow> bool" where
  "class_ok f \<longleftrightarrow> (\<forall>c \<in> set_option (flag_ptr f). c = [] \<or> IsPriorityClass c)"

fun set_plan :: "gateway_env \<Rightarrow> restOptions \<Rightarrow> set_command \<Rightarrow> string list \<Rightarrow> gate_state \<Rightarrow> plan_step list" where
  "set_plan env o' SetLogLevel args st = one_request (ReadSetLogLevelOptions args) (ParamAPICall env o')"
| "set_plan env o' (SetBFD b) args st = one_request (ReadSetBfdOptions b args) (SetBFDAPICall env o')"
| "set_plan env o' (SetMetrics enable disable) args st = ask_chosen
     [(enable, Ask (api_Create (ge_url_ok env) (Some null_body) (LoxiClient_Metrics o'))), (disable, Ask (api_Delete (ge_url_ok env) (LoxiClient_Metrics o')))]"
| "set_plan env o' (SetGPU f) args st = ask_chosen
     [(gp_enable f, create_at env (Some null_body) [''enable''] (LoxiClient_GPU o')),
      (gp_disable f, create_at env (Some null_body) [''disable''] (LoxiClient_GPU o')),
      (gp_cleanup f, let gpu = SubResources [''conversations'', ''cleanup''] (LoxiClient_GPU o') in
         Ask (api_Create (ge_url_ok env) (Some null_body)
           (case flag_ptr (gp_maxAgeHours f) of None \<Rightarrow> gpu | Some h \<Rightarrow> api_Query [(''max_age_hours'', show_int h)] gpu)))]"
| "set_plan env o' (SetOPA c) args st =
     only_when (ow_OpaURL c \<noteq> []) [Ask (api_Create (ge_url_ok env) (Some (print_json (opaWatcherConfig_json c))) (LoxiClient_OPA o'))]"
| "set_plan env o' (SetDPU d) args st =
     only_when (check_dpu d = None) [create_at env (Some (print_json (dpuDebugAction_json d))) [''debug''] (LoxiClient_DPU o')]"
| "set_plan env o' (SetTrace f) args st = ask_chosen
     [(tr_enable f, create_at env (Some null_body) [''enable''] (LoxiClient_Trace o')),
      (tr_disable f, create_at env (Some null_body) [''disable''] (LoxiClient_Trace o')),
      (tr_otlp f, otlp_step env o' f)]"
| "set_plan env o' (SetL4Trace f) args st = ask_chosen
     [(l4_enable f, create_at env (Some (print_json (L4TraceEnableRequest_json (flag_ptr (l4_samplingRate f))))) [''enable''] (LoxiClient_L4Trace o')),
      (l4_disable f, create_at env (Some null_body) [''disable''] (LoxiClient_L4Trace o')),
      (l4_resetStats f, create_at env (Some null_body) [''stats'', ''reset''] (LoxiClient_L4Trace o')),
      (given (l4_samplingRate f) \<and> \<not> l4_enable f \<and> \<not> l4_disable f \<and> \<not> l4_resetStats f,
        Ask (api_Put (ge_url_ok env) (Some (print_json (L4TraceSamplingRequest_json (flag_value (l4_samplingRate f)))))
          (SubResources [''sampling''] (LoxiClient_L4Trace o'))))]"
| "set_plan env o' (SetPII f) args st = ask_chosen
     [(pi_enable f, create_at env (Some (print_json (enable_json True))) [''enable''] (LoxiClient_PII o')),
      (pi_disable f, create_at env (Some (print_json (enable_json False))) [''enable''] (LoxiClient_PII o')),
      (pi_configure f, create_at env (float_body (pc_ScoreThreshold (pii_config f)) (piiConfigEntry_json (pii_config f))) [''configure''] (LoxiClient_PII o')),
      (pi_urlPatterns f, if pi_urlMode f = [] then Halt
         else create_at env (Some (print_json (piiURLPatternsEntry_json (pi_urlMode f) (url_patterns f)))) [''url-patterns''] (LoxiClient_PII o'))]"
| "set_plan env o' (SetLlamaFirewall f) args st = ask_chosen
     [(lm_enable f, create_at env (Some (print_json (enable_json True))) [''enable''] (LoxiClient_LlamaFirewall o')),
      (lm_disable f, create_at env (Some (print_json (enable_json False))) [''enable''] (LoxiClient_LlamaFirewall o')),
      (lm_configure f, create_at env (float_body (lf_BlockThreshold (llama_config f)) (llamaFirewallConfigEntry_json (llama_config f)))
         [''configure''] (LoxiClient_LlamaFirewall o')),
      (lm_scanners f, create_at env (Some (print_json (llamaFirewallScannersEntry_json (llama_scanners f)))) [''scanners''] (LoxiClient_LlamaFirewall o')),
      (lm_health f, create_at env (Some null_body) [''health''] (LoxiClient_LlamaFirewall o'))]"
| "set_plan env o' (SetAPIKey k) args st =
     only_when (length args = 1 \<and> True \<in> set (apikey_given k) \<and> class_ok (sk_PriorityClass k)
         \<and> (\<not> given (sk_PriorityClass k) \<and> \<not> given (sk_DefaultObjective k) \<and> \<not> given (sk_AllowedObjectives k)
            \<or> open_gate env o' ''objectives'' ''set apikey'' st))
       [Ask (api_Update (ge_url_ok env) (Some (print_json (aiApiKeyPatchRequest_json (apiKeyPatch k)))) (SubResources [args ! 0] (LoxiClient_AIApiKey o')))]"
| "set_plan env o' (SetRateLimit r) args st =
     only_when (rl_TenantID r \<noteq> [] \<and> CHR ''|'' \<notin> set (rl_TenantID r) \<and> 0 \<le> rl_Rps r \<and> 0 \<le> rl_TokensPerMin r \<and> 0 \<le> rl_BurstPct r
         \<and> class_ok (rl_PriorityClass r)
         \<and> (\<not> given (rl_PriorityClass r) \<and> \<not> given (rl_DefaultObjective r) \<and> \<not> given (rl_AllowedObjectives r)
            \<or> open_gate env o' ''objectives'' ''set ratelimit'' st))
       (one_request (parseTenantModelLimits (rl_ModelLimits r) [])
         (\<lambda>limits. api_Create (ge_url_ok env) (Some (print_json (aiTenantRateLimitMod_json (ratelimit_body r limits)))) (LoxiClient_AITenantRatelimit o')))"

fun set_accepts :: "set_command \<Rightarrow> http_result \<Rightarrow> bool" where
  "set_accepts SetLogLevel = accepts [200] (\<lambda>_. True)"
| "set_accepts (SetBFD b) = accepts [200] (\<lambda>_. True)"
| "set_accepts cmd = accepts [204, 200] (\<lambda>_. True)"

subsection \<open>Refinement\<close>

lemma outcome_create_exchange:
  "outcome (create_exchange env command debug show req log out) = pursue env (accepts [200] (\<lambda>_. True)) [Ask req] log"
  by (auto simp: create_exchange_def Let_def split: prod.splits http_result.splits)

lemma outcome_create_simple:
  "outcome (create_simple env o' command debug m call log) = pursue env (accepts [200] (\<lambda>_. True)) (one_request m call) log"
  by (auto simp: create_simple_def one_request_def outcome_create_exchange split: sum.splits)

lemma outcome_ulcl_create:
  "outcome (create_ulcl_loop env o' ms log out) = pursue env (accepts [200] (\<lambda>_. True)) (map (\<lambda>m. Ask (SessionUlClAPICall env o' m)) ms) log"
  by (induction ms arbitrary: log out) (auto split: prod.splits http_result.splits)

lemma outcome_answered:
  assumes "\<And>log' status body. outcome (k log' status body) = (readable body, log')"
  shows "outcome (on_answer env command good refusal k req log) = pursue env (accepts good readable) [Ask req] log"
  using assms by (auto simp: on_answer_def split: prod.splits http_result.splits)

lemma outcome_report: "outcome (reportPost env req msg log) = pursue env (accepts [204, 200] (\<lambda>_. True)) [Ask req] log"
  by (auto simp: reportPost_def split: prod.splits http_result.splits)

lemma outcome_set_exchange: "outcome (set_exchange env o' command req log) = pursue env (accepts [200] (\<lambda>_. True)) [Ask req] log"
  by (auto simp: set_exchange_def split: prod.splits http_result.splits)

lemma outcome_gated_when:
  "outcome (fst (gated_when b env o' feature command log st k)) =
     (if b \<longrightarrow> open_gate env o' feature command st then outcome (k ()) else (False, log))"
  by (simp add: gated_when_def outcome_gated)

lemma outcome_then_gated:
  "outcome (fst (then_gated b env o' f1 c1 f2 c2 log st k)) =
     (if open_gate env o' f1 c1 st \<and> (b \<longrightarrow> open_gate env o' f2 c2 (snd (Require (ge_peer env) o' f1 c1 st))) then outcome (k ()) else (False, log))"
proof -
  obtain r w st' where req: "Require (ge_peer env) o' f1 c1 st = ((r, w), st')" by (metis prod.exhaust)
  show ?thesis
    using outcome_gated_when [of b env o' f2 c2 log st' k]
    by (cases r) (auto simp: then_gated_def req open_gate_def case_prod_unfold Let_def split: option.splits)
qed

lemma outcome_answered_done:
  "outcome (on_answer env command good refusal (\<lambda>log' status body. finished log' (out log' status body)) req log) =
     pursue env (accepts good (\<lambda>_. True)) [Ask req] log"
  by (rule outcome_answered) simp

lemma outcome_answered_operation:
  "outcome (on_answer env command good refusal (show_operation o') req log) = pursue env (accepts good (operation_readable o')) [Ask req] log"
  by (rule outcome_answered) (auto simp: show_operation_def operation_readable_def split: sum.splits)

lemma outcome_answered_option:
  "outcome (on_answer env command good refusal
      (\<lambda>log' status body. case f body of None \<Rightarrow> stopped log' [] (e status) | Some x \<Rightarrow> finished log' (out x)) req log) =
     pursue env (accepts good (\<lambda>body. f body \<noteq> None)) [Ask req] log"
  by (rule outcome_answered) (auto split: option.splits)

lemmas outcome_rest = outcome_checked outcome_create_exchange outcome_create_simple outcome_ulcl_create outcome_report outcome_set_exchange
  outcome_gated outcome_gated_when outcome_then_gated outcome_answered_done outcome_answered_operation outcome_answered_option

lemmas reading_defs = ReadCreateSessionUlClOptions_def ReadCreateVlanMemberOptions_def ReadCreateVxlanBridgeOptions_def
  ReadCreateVxlanPeerOptions_def ReadCreatePolicyOptions_def

text \<open>Reading no arguments refuses them.\<close>

lemma read_nothing:
  "ReadCreateRouteOptions [] p = Inl (Text ''create Route need <DestinationIPNet> and <gateway> args'')"
  "ReadCreateIPv4AddressOptions [] = Inl (Text ''create IPv4Address need <DeviceIPNet>  args'')"
  "ReadCreateNeighborsOptions [] mac = Inl (Text ''create Neighbors need <DeviceIPNet>  args'')"
  "ReadCreateFDBOptions [] = Inl (Text ''create FDB need <MacAddress>  args'')"
  "ReadCreateBGPNeighborOptions [] = Inl (Text ''create BGPNeighbor need <RemoteAS> args'')"
  "ReadCreateBfdOptions b [] = Inl (Text ''create bfd need <RemoteIP> args'')"
  "mirror_mod info target [] = Inl (Text ''create Mirror need <MirrID> arg'')"
  by (simp_all add: ReadCreateRouteOptions_def ReadCreateIPv4AddressOptions_def ReadCreateNeighborsOptions_def ReadCreateFDBOptions_def
    ReadCreateBGPNeighborOptions_def ReadCreateBfdOptions_def mirror_mod_def ReadCreateMirrorOptions_def)

lemma run_create_pursues:
  "outcome (fst (run_create env o' inp cmd args log st)) = pursue env (create_accepts o' cmd) (create_plan env o' inp cmd args st) log"
  by (cases cmd)
    (auto simp: create_defs outcome_rest read_nothing reading_defs only_when_def one_request_def some_args_def session_of_def numeral_arg_def
      map_sum_def simp del: pursue.simps(3) split: sum.splits option.splits)

lemma chosen_simps:
  "chosen [] = None"
  "chosen ((b, a) # acts) = (if b then (if how_many (map fst acts) = 0 then Some a else None) else chosen acts)"
  by (auto simp: chosen_def how_many_def filter_empty_conv split: list.splits)

lemma how_many_simps: "how_many [] = 0" "how_many (b # bs) = (if b then Suc (how_many bs) else how_many bs)"
  by (simp_all add: how_many_def)

lemma flag_ptr_class: "class_ok f \<longleftrightarrow> \<not> (given f \<and> flag_value f \<noteq> [] \<and> \<not> IsPriorityClass (flag_value f))"
  by (auto simp: class_ok_def flag_ptr_def)

lemma run_set_pursues:
  "outcome (fst (run_set env o' cmd args log st)) = pursue env (set_accepts cmd) (set_plan env o' cmd args st) log"
  by (cases cmd)
    (auto simp: set_defs outcome_rest only_when_def one_request_def ask_chosen_def chosen_simps how_many_simps create_at_def otlp_step_def
      flag_ptr_class Let_def simp del: pursue.simps(3) split: sum.splits option.splits if_splits)

subsection \<open>All three families\<close>

datatype rest_command = DeleteC delete_command | SetC set_command | CreateC create_command

fun run_rest ::
  "gateway_env \<Rightarrow> restOptions \<Rightarrow> input_files \<Rightarrow> rest_command \<Rightarrow> string list \<Rightarrow> http_request list \<Rightarrow> gate_state \<Rightarrow> rest_run \<times> gate_state" where
  "run_rest env o' inp (DeleteC cmd) args log st = run_delete env o' cmd args log st"
| "run_rest env o' inp (SetC cmd) args log st = run_set env o' cmd args log st"
| "run_rest env o' inp (CreateC cmd) args log st = run_create env o' inp cmd args log st"

fun rest_plan :: "gateway_env \<Rightarrow> restOptions \<Rightarrow> input_files \<Rightarrow> rest_command \<Rightarrow> string list \<Rightarrow> gate_state \<Rightarrow> plan_step list" where
  "rest_plan env o' inp (DeleteC cmd) args st = delete_plan env o' cmd args st"
| "rest_plan env o' inp (SetC cmd) args st = set_plan env o' cmd args st"
| "rest_plan env o' inp (CreateC cmd) args st = create_plan env o' inp cmd args st"

fun rest_accepts :: "restOptions \<Rightarrow> rest_command \<Rightarrow> http_result \<Rightarrow> bool" where
  "rest_accepts o' (DeleteC cmd) = accepts (if 204 \<in> success_statuses cmd then [200, 204] else [200]) (\<lambda>_. True)"
| "rest_accepts o' (SetC cmd) = set_accepts cmd"
| "rest_accepts o' (CreateC cmd) = create_accepts o' cmd"

lemma run_delete_pursues:
  "outcome (fst (run_delete env o' cmd args log st)) = pursue env (rest_accepts o' (DeleteC cmd)) (delete_plan env o' cmd args st) log"
proof -
  have "success_statuses cmd = set (if 204 \<in> success_statuses cmd then [200, 204] else [200])"
    by (auto simp: success_statuses_def)
  then show ?thesis by (metis follow_pursue rest_accepts.simps(1) run_delete_follows)
qed

lemma run_rest_pursues:
  "outcome (fst (run_rest env o' inp cmd args log st)) = pursue env (rest_accepts o' cmd) (rest_plan env o' inp cmd args st) log"
proof (cases cmd)
  case (DeleteC c)
  show ?thesis unfolding DeleteC run_rest.simps rest_plan.simps by (rule run_delete_pursues)
qed (simp_all add: run_set_pursues run_create_pursues)

subsection \<open>Runs that send nothing, and panics\<close>

lemma pursue_extends: "pursue env ok steps log = (b, log') \<Longrightarrow> \<exists>new. log' = log @ new \<and> set new \<subseteq> {r. Ask (Some r) \<in> set steps}"
proof (induction env ok steps log arbitrary: b log' rule: pursue.induct)
  case (3 env ok req steps log)
  obtain ans log1 where x: "exchange env req log = (ans, log1)" by (cases "exchange env req log")
  show ?case
  proof (cases "ok ans")
    case True
    with 3 x obtain new where "log' = log1 @ new" "set new \<subseteq> {r. Ask (Some r) \<in> set steps}" by fastforce
    with exchange_log [OF x] show ?thesis by auto
  next
    case False
    with 3(2) x exchange_log [OF x] show ?thesis by auto
  qed
qed auto

lemma pursue_silent: "\<not> ok NoResponse \<Longrightarrow> pursue env ok steps log = (True, log) \<longleftrightarrow> steps = []"
proof (cases "(env, ok, steps, log)" rule: pursue.cases)
  case (3 env' ok' req rest log')
  assume no: "\<not> ok NoResponse"
  obtain ans log1 where x: "exchange env req log = (ans, log1)" by (cases "exchange env req log")
  show ?thesis using 3 no x exchange_log [OF x] pursue_extends [of env ok rest log1 True log] by auto
qed auto

lemma accepts_need_answer: "\<not> rest_accepts o' cmd NoResponse"
proof (cases cmd)
  case (SetC c)
  then show ?thesis by (cases c) simp_all
next
  case (CreateC c)
  then show ?thesis by (cases c) simp_all
qed simp

fun rest_vacuous :: "rest_command \<Rightarrow> string list \<Rightarrow> bool" where
  "rest_vacuous (DeleteC cmd) args = vacuous cmd args"
| "rest_vacuous (CreateC (CreateSessionUlCl ulclArgs)) args = (ulclArgs = [] \<and> args \<noteq> [] \<and> length args \<le> 2)"
| "rest_vacuous cmd args = False"

fun rest_visits :: "rest_command \<Rightarrow> bool" where
  "rest_visits (DeleteC cmd) = visits_all cmd"
| "rest_visits cmd = True"

fun rest_crashes :: "rest_command \<Rightarrow> string list \<Rightarrow> bool" where
  "rest_crashes (DeleteC cmd) args = crashes cmd args"
| "rest_crashes (CreateC CreateVxlanPeer) args = (length args = 1)"
| "rest_crashes cmd args = False"

lemma GetUlClArgs_empty: "GetUlClArgsPairList all ident as = Inr [] \<longleftrightarrow> as = []"
  by (cases as) (auto split: sum.splits)

lemma steps_not_empty: "only_when b (x # xs) \<noteq> []" "only_when b (one_request m call) \<noteq> []" "one_request m call \<noteq> []" "ask_chosen acts \<noteq> []"
  by (auto simp: only_when_def one_request_def ask_chosen_def split: sum.splits option.splits)

lemma set_plan_not_empty: "set_plan env o' cmd args st \<noteq> []"
  by (cases cmd) (simp_all add: steps_not_empty)

lemma create_plan_empty: "create_plan env o' inp cmd args st = [] \<longleftrightarrow> rest_vacuous (CreateC cmd) args"
proof (cases cmd)
  case (CreateSessionUlCl ulclArgs)
  show ?thesis
    using GetUlClArgs_empty [of ulclArgs "args ! 0" ulclArgs] by (auto simp: CreateSessionUlCl split: sum.splits)
qed (auto simp: steps_not_empty split: option.splits)

lemma rest_plan_empty: "rest_visits cmd \<Longrightarrow> rest_plan env o' inp cmd args st = [] \<longleftrightarrow> rest_vacuous cmd args"
  by (cases cmd) (simp_all add: delete_plan_empty set_plan_not_empty create_plan_empty)

lemma ran_to_end_rest [simp]:
  "ran_to_end (create_exchange env command debug show req log out)" "ran_to_end (reportPost env req m log)" "ran_to_end (set_exchange env o' command req log)"
  by (auto simp: create_exchange_def reportPost_def set_exchange_def Let_def split: prod.splits http_result.splits)

lemma ran_to_end_simple [simp]: "ran_to_end (create_simple env o' command debug m call log)"
  by (auto simp: create_simple_def split: sum.splits)

lemma ran_to_end_answered: "(\<And>log' status body. ran_to_end (k log' status body)) \<Longrightarrow> ran_to_end (on_answer env command good refusal k req log)"
  by (auto simp: on_answer_def split: prod.splits http_result.splits)

lemma ran_to_end_operation [simp]: "ran_to_end (show_operation o' log' status body)"
  by (auto simp: show_operation_def split: sum.splits)

lemma ran_to_end_ulcl [simp]: "ran_to_end (create_ulcl_loop env o' ms log out)"
  by (induction ms arbitrary: log out) (auto split: prod.splits http_result.splits)

lemma ran_to_end_gated_when: "ran_to_end (k ()) \<Longrightarrow> ran_to_end (fst (gated_when b env o' feature command log st k))"
  by (simp add: gated_when_def ran_to_end_gated)

lemma ran_to_end_then_gated: "ran_to_end (k ()) \<Longrightarrow> ran_to_end (fst (then_gated b env o' f1 c1 f2 c2 log st k))"
  by (auto simp: then_gated_def Let_def ran_to_end_gated_when case_prod_unfold split: option.splits)

lemma run_set_ends: "ran_to_end (fst (run_set env o' cmd args log st))"
  by (cases cmd)
    (auto simp: set_defs Let_def split: sum.splits option.splits intro!: ran_to_end_gated_when ran_to_end_answered)

lemma run_create_ends: "ran_to_end (fst (run_create env o' inp cmd args log st)) \<longleftrightarrow> \<not> rest_crashes (CreateC cmd) args"
proof (cases cmd)
  case CreateVxlanPeer
  show ?thesis using one_argument [of args] by (auto simp: CreateVxlanPeer create_defs ran_to_end_checked ReadCreateVxlanPeerOptions_def)
qed (auto simp: create_defs split: sum.splits option.splits prod.splits
    intro!: ran_to_end_gated ran_to_end_gated_when ran_to_end_then_gated ran_to_end_answered)

lemma run_rest_ends: "ran_to_end (fst (run_rest env o' inp cmd args log st)) \<longleftrightarrow> \<not> rest_crashes cmd args"
  by (cases cmd) (simp_all add: run_delete_crashes run_set_ends run_create_ends)

end
