(* ===== verification/SessionToken.thy ===== *)
theory SessionToken
  imports SetCommands Root
begin

section \<open>Login, logout and refresh (\<open>cmd/set/set_login.go\<close>)\<close>

text \<open>
  The session commands keep the bearer token in a file and the refresh token in a second one. The terminal and
  the outcome of each file operation are arguments; the files are a map from paths to contents. \<open>os.WriteFile\<close>
  truncates before it writes, so a write that breaks off leaves a prefix.
\<close>

definition SessionRefreshTokenPath :: string where "SessionRefreshTokenPath = ''/tmp/loxilbrefreshtoken''"

type_synonym session_files = "string \<Rightarrow> bytes option"

datatype write_answer = WriteDone | WriteRefused | WriteCut nat

record session_env =
  se_lines :: "string list"
  se_password :: "bytes option"
  se_readable :: "string \<Rightarrow> bool"
  se_write :: "string \<Rightarrow> write_answer"
  se_removable :: "string \<Rightarrow> bool"

definition os_WriteFile :: "session_env \<Rightarrow> string \<Rightarrow> bytes \<Rightarrow> session_files \<Rightarrow> bool \<times> session_files" where
  "os_WriteFile se path data files =
     (case se_write se path of
        WriteDone \<Rightarrow> (True, files(path := Some data))
      | WriteRefused \<Rightarrow> (False, files)
      | WriteCut n \<Rightarrow> (False, files(path := Some (take n data))))"

definition session_Remove :: "session_env \<Rightarrow> string \<Rightarrow> session_files \<Rightarrow> bool \<times> session_files" where
  "session_Remove se path files = (if files path \<noteq> None \<and> se_removable se path then (True, files(path := None)) else (False, files))"

definition os_ReadFile :: "session_env \<Rightarrow> string \<Rightarrow> session_files \<Rightarrow> bytes option" where
  "os_ReadFile se path files = (if se_readable se path then files path else None)"

record loginModel =
  lg_Username :: string
  lg_Password :: string

record tokenModel =
  tm_Token :: string
  tm_RefreshToken :: string

definition loginModel_json :: "loginModel \<Rightarrow> json" where
  "loginModel_json m = JObj [(''username'', JStr (lg_Username m)), (''password'', JStr (lg_Password m))]"

definition tokenModel_fields :: "tokenModel field_spec list" where
  "tokenModel_fields = [fld ''token'' tm_Token tm_Token_update dec_string, fld ''refreshtoken'' tm_RefreshToken tm_RefreshToken_update dec_string]"

definition tokenModel_json :: "tokenModel \<Rightarrow> json" where
  "tokenModel_json t = JObj [(''token'', JStr (tm_Token t)), (''refreshtoken'', JStr (tm_RefreshToken t))]"

definition ReadSetLogInOptions :: "string \<Rightarrow> bytes \<Rightarrow> loginModel" where
  "ReadSetLogInOptions userID password = \<lparr>lg_Username = userID, lg_Password = password\<rparr>"

definition LoginAPICall :: "gateway_env \<Rightarrow> restOptions \<Rightarrow> loginModel \<Rightarrow> http_request option" where
  "LoginAPICall env o' m = api_Create (ge_url_ok env) (Some (print_json (loginModel_json m))) (LoxiClient_Login o')"

definition LogOutAPICall :: "gateway_env \<Rightarrow> restOptions \<Rightarrow> http_request option" where
  "LogOutAPICall env o' = api_Create (ge_url_ok env) (Some null_body) (SetUrl ''/auth/logout'' (LoxiClient_Login o'))"

definition RefreshTokenAPICall :: "gateway_env \<Rightarrow> restOptions \<Rightarrow> tokenModel \<Rightarrow> http_request option" where
  "RefreshTokenAPICall env o' t =
     api_Get (ge_url_ok env) (api_Query [(''token'', tm_Token t), (''refreshtoken'', tm_RefreshToken t)]
       (SetUrl ''oauth/google/token'' (LoxiClient_Login o')))"

definition PrintAndSaveTokenResult :: "session_env \<Rightarrow> restOptions \<Rightarrow> http_body \<Rightarrow> session_files \<Rightarrow> msg list \<times> session_files" where
  "PrintAndSaveTokenResult se o' raw files =
     (case raw of
        Torn part \<Rightarrow> ([Sprintf ''Error: Failed to read HTTP response: (%s)'' [AErr ''net/http'']], files)
      | Whole body \<Rightarrow>
          (case unmarshal tokenModel_fields \<lparr>tm_Token = [], tm_RefreshToken = []\<rparr> body of
             None \<Rightarrow> ([Sprintf ''Error: Failed to unmarshal HTTP response: (%s)'' [AErr ''encoding/json'']], files)
           | Some t \<Rightarrow>
               if tm_Token t = [] then ([Text ''Error: Failed to get token Please check your ID or Password''], files)
               else (case os_WriteFile se SessionTokenPath (tm_Token t) files of
                   (False, files') \<Rightarrow> ([Sprintf ''Error: Failed to write token to file: (%s)'' [AErr ''os'']], files')
                 | (True, files') \<Rightarrow>
                     (if ro_PrintOption o' = ''json'' then [MarshalIndent (tokenModel_json t)] else [Text ''Login Success''], files'))))"

definition PrintAndRemoveTokenResult :: "session_env \<Rightarrow> session_files \<Rightarrow> msg list \<times> session_files" where
  "PrintAndRemoveTokenResult se files =
     (case session_Remove se SessionTokenPath files of
        (False, files') \<Rightarrow> ([Sprintf ''Error: Failed to remove token file: (%s)'' [AErr ''os'']], files')
      | (True, files') \<Rightarrow> ([Text ''Logout Success''], files'))"

definition PrintAndRemoveRefreshTokenResult :: "session_env \<Rightarrow> session_files \<Rightarrow> msg list \<times> session_files" where
  "PrintAndRemoveRefreshTokenResult se files =
     (case session_Remove se SessionRefreshTokenPath files of
        (False, files') \<Rightarrow> ([Sprintf ''Error: Failed to remove refreshtoken file: (%s)'' [AErr ''os'']], files')
      | (True, files') \<Rightarrow> ([], files'))"

subsection \<open>The commands\<close>

definition input_failed :: "http_request list \<Rightarrow> msg list \<Rightarrow> string \<Rightarrow> rest_run" where
  "input_failed log out what = \<lparr>rn_sent = log, rn_out = out, rn_warn = [], rn_end = Done (Some (EWrap what (EPlain ''EOF'')))\<rparr>"

definition token_not_written :: cliError where
  "token_not_written = CLIError0\<lparr>ce_Code := Failed, ce_Message := Sprintf ''Failed to write token to file: (%s)'' [AErr ''os'']\<rparr>"

definition login_password :: "gateway_env \<Rightarrow> restOptions \<Rightarrow> session_env \<Rightarrow> http_request list \<Rightarrow> session_files \<Rightarrow> rest_run \<times> session_files" where
  "login_password env o' se log files =
     (case se_lines se of
        [] \<Rightarrow> (input_failed log [Text ''Enter ID: ''] ''ID error: '', files)
      | line # _ \<Rightarrow>
          let out = [Text ''Enter ID: '', Text ''Enter Password: ''] in
          (case se_password se of
             None \<Rightarrow> (input_failed log out ''password error: '', files)
           | Some password \<Rightarrow>
               (case exchange env (LoginAPICall env o' (ReadSetLogInOptions (trim_space line) password)) log of
                  (NoResponse, log') \<Rightarrow> (stopped log' out (unreachable ''set login''), files)
                | (Response status hs raw, log') \<Rightarrow>
                    if status = 200 then
                      (let (shown, files') = PrintAndSaveTokenResult se o' raw files in (finished log' (out @ shown), files'))
                    else (stopped log' out (FromHTTPStatus ''set login'' status), files))))"

definition login_google :: "session_env \<Rightarrow> http_request list \<Rightarrow> session_files \<Rightarrow> rest_run \<times> session_files" where
  "login_google se log files =
     (let out0 = [Text ''This process is how to log in with Google oauth. When you log in to the GUI you can get a token (access token) and a refresh token. After that, it is a registration process.'',
            Text ''Enter Access Token: ''];
          out = out0 @ [Text ''Enter Refresh Token: ''] in
      case se_lines se of
        [] \<Rightarrow> (input_failed log out0 ''access token error: '', files)
      | [_] \<Rightarrow> (input_failed log out ''refresh token error: '', files)
      | access # refresh # _ \<Rightarrow>
          (case os_WriteFile se SessionTokenPath (trim_space access) files of
             (False, files1) \<Rightarrow> (stopped log out token_not_written, files1)
           | (True, files1) \<Rightarrow>
               (case os_WriteFile se SessionRefreshTokenPath (trim_space refresh) files1 of
                  (False, files2) \<Rightarrow> (stopped log out token_not_written, files2)
                | (True, files2) \<Rightarrow> (finished log (out @ [Text ''Login Success'']), files2))))"

definition login_manual :: "session_env \<Rightarrow> http_request list \<Rightarrow> session_files \<Rightarrow> rest_run \<times> session_files" where
  "login_manual se log files =
     (let out = [Text ''Enter Access Token: ''] in
      case se_lines se of
        [] \<Rightarrow> (input_failed log out ''access token error: '', files)
      | access # _ \<Rightarrow>
          (case os_WriteFile se SessionTokenPath (trim_space access) files of
             (False, files1) \<Rightarrow> (stopped log out token_not_written, files1)
           | (True, files1) \<Rightarrow> (finished log (out @ [Text ''Login Success'']), files1)))"

definition bad_provider :: "http_request list \<Rightarrow> rest_run" where
  "bad_provider log = stopped log [] (Invalidf (Text ''Invalid provider name''))"

definition set_login :: "gateway_env \<Rightarrow> restOptions \<Rightarrow> session_env \<Rightarrow> string \<Rightarrow> http_request list \<Rightarrow> session_files \<Rightarrow> rest_run \<times> session_files" where
  "set_login env o' se provider log files =
     (if provider = [] then login_password env o' se log files
      else if provider = ''google'' then login_google se log files
      else if provider = ''manual'' then login_manual se log files
      else (bad_provider log, files))"

definition set_logout :: "gateway_env \<Rightarrow> restOptions \<Rightarrow> session_env \<Rightarrow> string \<Rightarrow> http_request list \<Rightarrow> session_files \<Rightarrow> rest_run \<times> session_files" where
  "set_logout env o' se provider log files =
     (if provider = [] then
        (case exchange env (LogOutAPICall env o') log of
           (NoResponse, log') \<Rightarrow> (stopped log' [] (unreachable ''set logout''), files)
         | (Response status hs raw, log') \<Rightarrow>
             if status = 200 then (let (shown, files') = PrintAndRemoveTokenResult se files in (finished log' shown, files'))
             else (stopped log' [] (FromHTTPStatus ''set logout'' status), files))
      else if provider = ''google'' then
        (let (shown1, files1) = PrintAndRemoveRefreshTokenResult se files; (shown2, files2) = PrintAndRemoveTokenResult se files1 in
         (finished log (shown1 @ shown2), files2))
      else if provider = ''manual'' then (let (shown, files') = PrintAndRemoveTokenResult se files in (finished log shown, files'))
      else (bad_provider log, files))"

definition token_unread :: "string \<Rightarrow> cliError" where
  "token_unread m = CLIError0\<lparr>ce_Code := Precondition, ce_Message := Sprintf m [AErr ''os'']\<rparr>"

definition refresh_refusal :: "int \<Rightarrow> cliError" where
  "refresh_refusal status =
     (let ce = FromHTTPStatus ''set refresh'' status in
      if status = 403 then ce\<lparr>ce_Message := Text ''Failed to refresh token. Please login again''\<rparr> else ce)"

definition set_refresh :: "gateway_env \<Rightarrow> restOptions \<Rightarrow> session_env \<Rightarrow> string \<Rightarrow> http_request list \<Rightarrow> session_files \<Rightarrow> rest_run \<times> session_files" where
  "set_refresh env o' se provider log files =
     (if provider \<noteq> ''google'' then (bad_provider log, files)
      else case os_ReadFile se SessionTokenPath files of
        None \<Rightarrow> (stopped log [] (token_unread ''Failed to read token file: (%s)''), files)
      | Some token \<Rightarrow>
          (case os_ReadFile se SessionRefreshTokenPath files of
             None \<Rightarrow> (stopped log [] (token_unread ''Failed to read refreshtoken file: (%s)''), files)
           | Some refresh \<Rightarrow>
               (case exchange env (RefreshTokenAPICall env o' \<lparr>tm_Token = token, tm_RefreshToken = refresh\<rparr>) log of
                  (NoResponse, log') \<Rightarrow> (stopped log' [] (unreachable ''set refresh''), files)
                | (Response status hs raw, log') \<Rightarrow>
                    if status = 200 then (let (shown, files') = PrintAndSaveTokenResult se o' raw files in (finished log' shown, files'))
                    else (stopped log' [] (refresh_refusal status), files))))"

end
