(* ===== verification/OpsStatus.thy ===== *)
theory OpsStatus
  imports Lifecycle JsonPrint
begin

section \<open>Readiness and diagnostics (\<open>cmd/lifecycle/opsstatus.go\<close>, \<open>pkg/api/opsstatus.go\<close>)\<close>

text \<open>
  The reads that print the gateway's body verbatim under \<open>-o json\<close>. \<open>read_run\<close> is the frame that the
  diagnostics, audit and log reads share: request, body, status, decoding, output. Its contract is the
  locale \<open>verbatim_read\<close>, which every such read interprets.
\<close>

subsection \<open>The frame of a read\<close>

definition refused :: "lifecycleError \<Rightarrow> lifecycle_run" where
  "refused e = \<lparr>lc_out = [], lc_err = Some (ELifecycle e)\<rparr>"

definition deliver :: "bool \<Rightarrow> bytes \<Rightarrow> msg list \<Rightarrow> lifecycle_output" where
  "deliver json body prose = (if json then LDocument (body @ [CHR 0x0A]) else LProse prose)"

definition gateway_read :: "gateway \<Rightarrow> http_request option \<Rightarrow> string \<Rightarrow> lifecycleError + int \<times> bytes" where
  "gateway_read gw req what =
     (case send gw req of
        NoResponse \<Rightarrow> Inl (transportError (what @ '' request failed''))
      | Response status hs raw \<Rightarrow> (case readBody raw what of Inl e \<Rightarrow> Inl e | Inr body \<Rightarrow> Inr (status, body)))"

definition read_run ::
  "gateway \<Rightarrow> http_request option \<Rightarrow> string \<Rightarrow> (bytes \<Rightarrow> 'a option) \<Rightarrow> ('a \<Rightarrow> msg list) \<Rightarrow> bool \<Rightarrow> lifecycle_run" where
  "read_run gw req what decode human json =
     (case gateway_read gw req what of
        Inl e \<Rightarrow> refused e
      | Inr (status, body) \<Rightarrow>
          if status \<noteq> 200 then refused (NewStatusError status body)
          else (case decode body of
             None \<Rightarrow> refused (decode_failed (Text (''the gateway's '' @ what @ '' response could not be decoded'')) body)
           | Some st \<Rightarrow> \<lparr>lc_out = [deliver json body (human st)], lc_err = None\<rparr>))"

locale verbatim_read =
  fixes run :: "gateway \<Rightarrow> bool \<Rightarrow> lifecycle_run" and request :: "http_request option" and decode :: "bytes \<Rightarrow> 'a option"
  assumes answered: "lc_err (run gw json) = None \<Longrightarrow>
      \<exists>hs body st. send gw request = Response 200 hs (Whole body) \<and> decode body = Some st \<and> (\<exists>prose. lc_out (run gw json) = [deliver json body prose])"
    and unanswered: "lc_err (run gw json) \<noteq> None \<Longrightarrow>
      lc_out (run gw json) = [] \<and> (\<exists>le. lc_err (run gw json) = Some (ELifecycle le) \<and> le_Reason le \<noteq> ''ok'')"
    and complete: "send gw request = Response 200 hs (Whole body) \<Longrightarrow> decode body \<noteq> None \<Longrightarrow> lc_err (run gw json) = None"
begin

lemma success_iff:
  "xs_status (exitPoint (lc_err (run gw json))) = OK \<longleftrightarrow> (\<exists>hs body. send gw request = Response 200 hs (Whole body) \<and> decode body \<noteq> None)"
proof
  assume ok: "xs_status (exitPoint (lc_err (run gw json))) = OK"
  have "lc_err (run gw json) = None"
  proof (rule ccontr)
    assume "lc_err (run gw json) \<noteq> None"
    then obtain le where "lc_err (run gw json) = Some (ELifecycle le)" "le_Reason le \<noteq> ''ok''" using unanswered by blast
    with ok Classify_genuine [of le] show False by (simp add: exitPoint_def Let_def)
  qed
  from answered [OF this] show "\<exists>hs body. send gw request = Response 200 hs (Whole body) \<and> decode body \<noteq> None" by blast
next
  assume "\<exists>hs body. send gw request = Response 200 hs (Whole body) \<and> decode body \<noteq> None"
  then have "lc_err (run gw json) = None" using complete by blast
  then show "xs_status (exitPoint (lc_err (run gw json))) = OK" by (simp add: exitPoint_def)
qed

lemma output_verbatim:
  "lc_out (run gw True) = [] \<or> (\<exists>hs body. send gw request = Response 200 hs (Whole body) \<and> lc_out (run gw True) = [LDocument (body @ [CHR 0x0A])])"
proof (cases "lc_err (run gw True)")
  case None
  from answered [OF None] show ?thesis by (auto simp: deliver_def)
next
  case (Some e)
  then show ?thesis using unanswered [of gw True] by simp
qed

end

text \<open>What the frame promises of one run under \<open>-o json\<close>, given the request it makes and the decoder it applies.\<close>

definition shows_verbatim :: "gateway \<Rightarrow> http_request option \<Rightarrow> (bytes \<Rightarrow> 'a option) \<Rightarrow> lifecycle_run \<Rightarrow> bool" where
  "shows_verbatim gw request decode r \<longleftrightarrow>
     (xs_status (exitPoint (lc_err r)) = OK
        \<and> (\<exists>hs body. send gw request = Response 200 hs (Whole body) \<and> decode body \<noteq> None \<and> lc_out r = [LDocument (body @ [CHR 0x0A])]))
     \<or> (xs_status (exitPoint (lc_err r)) \<noteq> OK \<and> lc_out r = []
        \<and> \<not> (\<exists>hs body. send gw request = Response 200 hs (Whole body) \<and> decode body \<noteq> None))"

context verbatim_read
begin

lemma shown: "shows_verbatim gw request decode (run gw True)"
proof (cases "lc_err (run gw True)")
  case None
  from answered [OF None] obtain hs body where
      "send gw request = Response 200 hs (Whole body)" "decode body \<noteq> None" "lc_out (run gw True) = [LDocument (body @ [CHR 0x0A])]"
    by (auto simp: deliver_def)
  moreover from this None have "xs_status (exitPoint (lc_err (run gw True))) = OK" by (simp add: exitPoint_def)
  ultimately show ?thesis unfolding shows_verbatim_def by blast
next
  case (Some e)
  then have silent: "lc_out (run gw True) = []" using unanswered by blast
  have fails: "\<not> (\<exists>hs body. send gw request = Response 200 hs (Whole body) \<and> decode body \<noteq> None)"
    using complete Some by (metis option.discI)
  then have "xs_status (exitPoint (lc_err (run gw True))) \<noteq> OK" using success_iff by blast
  with silent fails show ?thesis unfolding shows_verbatim_def by blast
qed

end

lemma read_run_verbatim: "verbatim_read (\<lambda>gw. read_run gw req what decode human) req decode"
  by unfold_locales
    (auto simp: read_run_def gateway_read_def readBody_def refused_def split: http_result.splits http_body.splits sum.splits if_splits option.splits)

subsection \<open>Documents\<close>

record ebpfAttachment =
  eb_Name :: string
  eb_Mode :: string
  eb_Attached :: bool

record readyState =
  ry_Ready :: "bool option"
  ry_Reasons :: "string list"
  ry_EbpfAttachments :: "ebpfAttachment list"

record mapUtilization =
  mu_Name :: string
  mu_Count :: int
  mu_Capacity :: int

record dependencyDiagnostic =
  dd_Type :: string
  dd_Required :: bool
  dd_Status :: string
  dd_LatencyClass :: string

record diagnosticsState =
  dg_Version :: string
  dg_BuildInfo :: string
  dg_Product :: string
  dg_APIVersion :: string
  dg_UptimeSeconds :: int
  dg_Ready :: "bool option"
  dg_ReadyReasons :: "string list"
  dg_MaintenanceState :: string
  dg_EbpfAttachments :: "ebpfAttachment list"
  dg_Maps :: "mapUtilization list"
  dg_ExternalDependencies :: "dependencyDiagnostic list"

definition ebpfAttachment_fields :: "ebpfAttachment field_spec list" where
  "ebpfAttachment_fields =
    [fld ''name'' eb_Name eb_Name_update dec_string,
     fld ''mode'' eb_Mode eb_Mode_update dec_string,
     fld ''attached'' eb_Attached eb_Attached_update dec_bool]"

definition dec_attachments :: "ebpfAttachment list decoder" where
  "dec_attachments = dec_list (dec_struct False ebpfAttachment_fields) \<lparr>eb_Name = [], eb_Mode = [], eb_Attached = False\<rparr>"

definition readyState_fields :: "readyState field_spec list" where
  "readyState_fields =
    [fld ''ready'' ry_Ready ry_Ready_update (dec_ptr dec_bool False),
     fld ''reasons'' ry_Reasons ry_Reasons_update (dec_list dec_string []),
     fld ''ebpf_attachments'' ry_EbpfAttachments ry_EbpfAttachments_update dec_attachments]"

definition readyState0 :: readyState where
  "readyState0 = \<lparr>ry_Ready = None, ry_Reasons = [], ry_EbpfAttachments = []\<rparr>"

definition mapUtilization_fields :: "mapUtilization field_spec list" where
  "mapUtilization_fields =
    [fld ''name'' mu_Name mu_Name_update dec_string,
     fld ''count'' mu_Count mu_Count_update dec_int,
     fld ''capacity'' mu_Capacity mu_Capacity_update dec_int]"

definition dependencyDiagnostic_fields :: "dependencyDiagnostic field_spec list" where
  "dependencyDiagnostic_fields =
    [fld ''type'' dd_Type dd_Type_update dec_string,
     fld ''required'' dd_Required dd_Required_update dec_bool,
     fld ''status'' dd_Status dd_Status_update dec_string,
     fld ''latency_class'' dd_LatencyClass dd_LatencyClass_update dec_string]"

definition diagnosticsState_fields :: "diagnosticsState field_spec list" where
  "diagnosticsState_fields =
    [fld ''version'' dg_Version dg_Version_update dec_string,
     fld ''build_info'' dg_BuildInfo dg_BuildInfo_update dec_string,
     fld ''product'' dg_Product dg_Product_update dec_string,
     fld ''api_version'' dg_APIVersion dg_APIVersion_update dec_string,
     fld ''uptime_seconds'' dg_UptimeSeconds dg_UptimeSeconds_update dec_int,
     fld ''ready'' dg_Ready dg_Ready_update (dec_ptr dec_bool False),
     fld ''ready_reasons'' dg_ReadyReasons dg_ReadyReasons_update (dec_list dec_string []),
     fld ''maintenance_state'' dg_MaintenanceState dg_MaintenanceState_update dec_string,
     fld ''ebpf_attachments'' dg_EbpfAttachments dg_EbpfAttachments_update dec_attachments,
     fld ''maps'' dg_Maps dg_Maps_update (dec_list (dec_struct False mapUtilization_fields) \<lparr>mu_Name = [], mu_Count = 0, mu_Capacity = 0\<rparr>),
     fld ''external_dependencies'' dg_ExternalDependencies dg_ExternalDependencies_update
       (dec_list (dec_struct False dependencyDiagnostic_fields) \<lparr>dd_Type = [], dd_Required = False, dd_Status = [], dd_LatencyClass = []\<rparr>)]"

definition diagnosticsState0 :: diagnosticsState where
  "diagnosticsState0 = \<lparr>dg_Version = [], dg_BuildInfo = [], dg_Product = [], dg_APIVersion = [], dg_UptimeSeconds = 0, dg_Ready = None,
     dg_ReadyReasons = [], dg_MaintenanceState = [], dg_EbpfAttachments = [], dg_Maps = [], dg_ExternalDependencies = []\<rparr>"

subsection \<open>Operations\<close>

definition humanAttachments :: "ebpfAttachment list \<Rightarrow> msg list" where
  "humanAttachments attachments = map (\<lambda>a. Sprintf ''  %s (%s): %s''
     [AStr (eb_Name a), AStr (eb_Mode a), AStr (if eb_Attached a then ''attached'' else ''NOT ATTACHED'')]) attachments"

definition humanReady :: "readyState \<Rightarrow> msg list" where
  "humanReady st =
     (if ry_Ready st = Some True then [Text ''Ready: true'']
      else Text ''Ready: FALSE'' # map (\<lambda>r. Sprintf ''  Reason: %s'' [AStr r]) (ry_Reasons st))
     @ (if ry_EbpfAttachments st \<noteq> [] then Text ''eBPF attachment (kernel-verified):'' # humanAttachments (ry_EbpfAttachments st) else [])"

definition humanDiagnostics :: "diagnosticsState \<Rightarrow> msg list" where
  "humanDiagnostics st =
     [Sprintf ''Gateway: %s'' [AStr (dg_Version st)]]
     @ (if dg_BuildInfo st \<noteq> [] then [Sprintf '' (%s)'' [AStr (dg_BuildInfo st)]] else []) @ [Text []]
     @ (if dg_APIVersion st \<noteq> [] then [Sprintf ''  API contract: %s'' [AStr (dg_APIVersion st)]] else [])
     @ [Sprintf ''  Uptime: %ds'' [AInt (dg_UptimeSeconds st)]]
     @ (case dg_Ready st of None \<Rightarrow> []
        | Some b \<Rightarrow> Sprintf ''  Ready: %v'' [AStr (if b then ''true'' else ''false'')]
            # map (\<lambda>r. Sprintf ''    Reason: %s'' [AStr r]) (dg_ReadyReasons st))
     @ [Sprintf ''  Maintenance: %s'' [AStr (dg_MaintenanceState st)]]
     @ (if dg_EbpfAttachments st \<noteq> [] then
          Text ''  eBPF attachment (kernel-verified):'' # map (\<lambda>a. Sprintf ''    %s (%s): %s''
            [AStr (eb_Name a), AStr (eb_Mode a), AStr (if eb_Attached a then ''attached'' else ''NOT ATTACHED'')]) (dg_EbpfAttachments st)
        else [])
     @ map (\<lambda>m. Sprintf ''  Map %s: %d of %d entries'' [AStr (mu_Name m), AInt (mu_Count m), AInt (mu_Capacity m)]) (dg_Maps st)
     @ map (\<lambda>d. Sprintf ''  Dependency %s: %s (%s)'' [AStr (dd_Type d), AStr (dd_Status d), AStr (dd_LatencyClass d)]) (dg_ExternalDependencies st)"

text \<open>
  The gateway serves the same body on 200 and 503; the verdict is the field \<open>ready\<close>, whose absence makes the
  body no readiness report.
\<close>

definition ReadyGet :: "(string \<Rightarrow> bool) \<Rightarrow> gateway \<Rightarrow> restOptions \<Rightarrow> bool \<Rightarrow> lifecycle_run" where
  "ReadyGet url_ok gw o' json =
     (case gateway_read gw (api_Get url_ok (LoxiClient_StatusReady o')) ''readiness'' of
        Inl e \<Rightarrow> refused e
      | Inr (status, body) \<Rightarrow>
          (case unmarshal readyState_fields readyState0 body of
             None \<Rightarrow> refused (NewStatusError status body)
           | Some state \<Rightarrow>
               if (status \<noteq> 200 \<and> status \<noteq> 503) \<or> ry_Ready state = None then refused (NewStatusError status body)
               else \<lparr>lc_out = [deliver json body (humanReady state)],
                     lc_err = (if ry_Ready state = Some True then None
                               else Some (ELifecycle (LifecycleError0\<lparr>le_Reason := ''result-not-ok'',
                                 le_Message := Sprintf ''gateway is not ready (%d reason(s))'' [AInt (int (length (ry_Reasons state)))],
                                 le_HTTPStatus := status\<rparr>)))\<rparr>))"

definition decode_diagnostics :: "bytes \<Rightarrow> diagnosticsState option" where
  "decode_diagnostics body =
     (case unmarshal diagnosticsState_fields diagnosticsState0 body of
        None \<Rightarrow> None | Some state \<Rightarrow> if dg_Version state = [] then None else Some state)"

definition DiagnosticsGet :: "(string \<Rightarrow> bool) \<Rightarrow> gateway \<Rightarrow> restOptions \<Rightarrow> bool \<Rightarrow> lifecycle_run" where
  "DiagnosticsGet url_ok gw o' json =
     read_run gw (api_Get url_ok (LoxiClient_Diagnostics o')) ''diagnostics'' decode_diagnostics humanDiagnostics json"

interpretation diagnostics: verbatim_read "\<lambda>gw. DiagnosticsGet url_ok gw o'" "api_Get url_ok (LoxiClient_Diagnostics o')" decode_diagnostics
  for url_ok o'
  unfolding DiagnosticsGet_def by (rule read_run_verbatim)

text \<open>A readiness check succeeds exactly on a whole report that says ready.\<close>

lemma ready_iff:
  "xs_status (exitPoint (lc_err (ReadyGet url_ok gw o' json))) = OK \<longleftrightarrow>
     (\<exists>status hs body st. send gw (api_Get url_ok (LoxiClient_StatusReady o')) = Response status hs (Whole body)
        \<and> status \<in> {200, 503} \<and> unmarshal readyState_fields readyState0 body = Some st \<and> ry_Ready st = Some True)"
proof -
  have genuine: "ce_Code (Classify (ELifecycle le)) \<noteq> OK" if "le_Reason le \<noteq> ''ok''" for le
    using that Classify_genuine by simp
  show ?thesis
    by (auto simp: ReadyGet_def gateway_read_def readBody_def refused_def exitPoint_def Let_def genuine LifecycleError0_def
        split: http_result.splits http_body.splits sum.splits option.splits if_splits)
qed

end
