(* ===== verification/AuditTrail.thy ===== *)
theory AuditTrail
  imports OpsStatus
begin

section \<open>The audit trail (\<open>cmd/lifecycle/audit.go\<close>, \<open>audit_sinks.go\<close>, \<open>pkg/api/audit.go\<close>)\<close>

text \<open>
  Reading the status of the trail and its sinks, replacing the compliance sink, and setting and removing
  the named secondary sinks. A Go map of counters is an association list without repeated keys. A
  \<open>float64\<close> is the numeral it was read from.
\<close>

subsection \<open>Documents\<close>

definition dec_float :: "string decoder" where
  "dec_float old j = (case j of JNum s \<Rightarrow> if float_in_range s then Some s else None | JNull \<Rightarrow> Some old | _ \<Rightarrow> None)"

text \<open>Whether the nearest \<open>float64\<close> is positive: not negative and above half of the smallest one.\<close>

definition float_positive :: "string \<Rightarrow> bool" where
  "float_positive s =
     (let k = num_exp s - int (num_frac_len s); m = num_mantissa s in
      \<not> has_prefix ''-'' s \<and> (if 0 \<le> k then 0 < m else 10 ^ nat (- k) < m * 2 ^ 1075))"

record auditSegment =
  sg_UUID :: string
  sg_Opened :: string
  sg_Records :: int
  sg_Bytes :: int

definition auditSegment_fields :: "auditSegment field_spec list" where
  "auditSegment_fields =
    [fld ''uuid'' sg_UUID sg_UUID_update dec_string,
     fld ''opened'' sg_Opened sg_Opened_update dec_string,
     fld ''records'' sg_Records sg_Records_update dec_int,
     fld ''bytes'' sg_Bytes sg_Bytes_update dec_int]"

definition auditSegment0 :: auditSegment where
  "auditSegment0 = \<lparr>sg_UUID = [], sg_Opened = [], sg_Records = 0, sg_Bytes = 0\<rparr>"

record auditRetention =
  rt_MaxAgeSeconds :: int
  rt_MaxBytes :: int
  rt_ReserveBytes :: int

definition auditRetention_fields :: "auditRetention field_spec list" where
  "auditRetention_fields =
    [fld ''max_age_seconds'' rt_MaxAgeSeconds rt_MaxAgeSeconds_update dec_int,
     fld ''max_bytes'' rt_MaxBytes rt_MaxBytes_update dec_int,
     fld ''reserve_bytes'' rt_ReserveBytes rt_ReserveBytes_update dec_int]"

definition auditRetention0 :: auditRetention where
  "auditRetention0 = \<lparr>rt_MaxAgeSeconds = 0, rt_MaxBytes = 0, rt_ReserveBytes = 0\<rparr>"

record auditDropCount =
  dc_Stream :: string
  dc_Reason :: string
  dc_Count :: int

definition auditDropCount_fields :: "auditDropCount field_spec list" where
  "auditDropCount_fields =
    [fld ''stream'' dc_Stream dc_Stream_update dec_string,
     fld ''reason'' dc_Reason dc_Reason_update dec_string,
     fld ''count'' dc_Count dc_Count_update dec_int]"

definition auditDropCount0 :: auditDropCount where
  "auditDropCount0 = \<lparr>dc_Stream = [], dc_Reason = [], dc_Count = 0\<rparr>"

record auditProducer =
  ap_ID :: string
  ap_Stream :: string
  ap_PSeqHigh :: int
  ap_Accepted :: int
  ap_Dropped :: "(string \<times> int) list"
  ap_DropRingOverflows :: int

definition auditProducer_fields :: "auditProducer field_spec list" where
  "auditProducer_fields =
    [fld ''id'' ap_ID ap_ID_update dec_string,
     fld ''stream'' ap_Stream ap_Stream_update dec_string,
     fld ''pseq_high'' ap_PSeqHigh ap_PSeqHigh_update dec_int,
     fld ''accepted'' ap_Accepted ap_Accepted_update dec_int,
     fld ''dropped'' ap_Dropped ap_Dropped_update (dec_map dec_int 0),
     fld ''drop_ring_overflows'' ap_DropRingOverflows ap_DropRingOverflows_update dec_int]"

definition auditProducer0 :: auditProducer where
  "auditProducer0 = \<lparr>ap_ID = [], ap_Stream = [], ap_PSeqHigh = 0, ap_Accepted = 0, ap_Dropped = [], ap_DropRingOverflows = 0\<rparr>"

record auditSinkCursor =
  cu_SegmentUUID :: string
  cu_Seq :: int

definition auditSinkCursor_fields :: "auditSinkCursor field_spec list" where
  "auditSinkCursor_fields =
    [fld ''segment_uuid'' cu_SegmentUUID cu_SegmentUUID_update dec_string,
     fld ''seq'' cu_Seq cu_Seq_update dec_int]"

definition auditSinkCursor0 :: auditSinkCursor where
  "auditSinkCursor0 = \<lparr>cu_SegmentUUID = [], cu_Seq = 0\<rparr>"

record auditSinkStatus =
  ss_Name :: string
  ss_Compliance :: bool
  ss_State :: string
  ss_Cursor :: "auditSinkCursor option"
  ss_InActiveSegment :: bool
  ss_LagRecords :: int
  ss_LagDrops :: int

definition auditSinkStatus_fields :: "auditSinkStatus field_spec list" where
  "auditSinkStatus_fields =
    [fld ''name'' ss_Name ss_Name_update dec_string,
     fld ''compliance'' ss_Compliance ss_Compliance_update dec_bool,
     fld ''state'' ss_State ss_State_update dec_string,
     fld ''cursor'' ss_Cursor ss_Cursor_update (dec_ptr (dec_struct False auditSinkCursor_fields) auditSinkCursor0),
     fld ''in_active_segment'' ss_InActiveSegment ss_InActiveSegment_update dec_bool,
     fld ''lag_records'' ss_LagRecords ss_LagRecords_update dec_int,
     fld ''lag_drops'' ss_LagDrops ss_LagDrops_update dec_int]"

definition auditSinkStatus0 :: auditSinkStatus where
  "auditSinkStatus0 = \<lparr>ss_Name = [], ss_Compliance = False, ss_State = [], ss_Cursor = None, ss_InActiveSegment = False, ss_LagRecords = 0,
     ss_LagDrops = 0\<rparr>"

record auditStatusResult =
  as_Available :: "bool option"
  as_Running :: bool
  as_BootID :: string
  as_SeqHigh :: int
  as_LastWrite :: string
  as_Accepted :: "(string \<times> int) list"
  as_Dropped :: "auditDropCount list"
  as_ResultDrops :: int
  as_OriginatorDropped :: int
  as_DelegationLookups :: int
  as_QueueDepth :: "(string \<times> int) list"
  as_QueueHWM :: "(string \<times> int) list"
  as_WriteFailures :: int
  as_SyncFailures :: int
  as_MgmtTimeouts :: int
  as_Panics :: int
  as_Restarts :: int
  as_Heartbeats :: int
  as_Rotations :: int
  as_PathSanitized :: int
  as_Unattributed :: int
  as_PermRepaired :: int
  as_RotationFailed :: int
  as_CompressFailed :: int
  as_CompressSkipped :: int
  as_Pruned :: int
  as_ReserveBreaches :: int
  as_ReserveBreached :: bool
  as_SealedBytes :: int
  as_OrphanedIntents :: int
  as_LastOrphanEventID :: string
  as_Segment :: "auditSegment option"
  as_Retention :: "auditRetention option"
  as_ProjectedRetentionDays :: string
  as_Producers :: "auditProducer list"
  as_ComplianceSink :: "bool option"
  as_Sinks :: "auditSinkStatus list"

definition auditStatusResult_fields :: "auditStatusResult field_spec list" where
  "auditStatusResult_fields =
    [fld ''available'' as_Available as_Available_update (dec_ptr dec_bool False),
     fld ''running'' as_Running as_Running_update dec_bool,
     fld ''boot_id'' as_BootID as_BootID_update dec_string,
     fld ''seq_high'' as_SeqHigh as_SeqHigh_update dec_int,
     fld ''last_write'' as_LastWrite as_LastWrite_update dec_string,
     fld ''accepted'' as_Accepted as_Accepted_update (dec_map dec_int 0),
     fld ''dropped'' as_Dropped as_Dropped_update (dec_list (dec_struct False auditDropCount_fields) auditDropCount0),
     fld ''result_drops'' as_ResultDrops as_ResultDrops_update dec_int,
     fld ''originator_dropped'' as_OriginatorDropped as_OriginatorDropped_update dec_int,
     fld ''delegation_lookups'' as_DelegationLookups as_DelegationLookups_update dec_int,
     fld ''queue_depth'' as_QueueDepth as_QueueDepth_update (dec_map dec_int 0),
     fld ''queue_hwm'' as_QueueHWM as_QueueHWM_update (dec_map dec_int 0),
     fld ''write_failures'' as_WriteFailures as_WriteFailures_update dec_int,
     fld ''sync_failures'' as_SyncFailures as_SyncFailures_update dec_int,
     fld ''mgmt_timeouts'' as_MgmtTimeouts as_MgmtTimeouts_update dec_int,
     fld ''panics'' as_Panics as_Panics_update dec_int,
     fld ''restarts'' as_Restarts as_Restarts_update dec_int,
     fld ''heartbeats'' as_Heartbeats as_Heartbeats_update dec_int,
     fld ''rotations'' as_Rotations as_Rotations_update dec_int,
     fld ''path_sanitized'' as_PathSanitized as_PathSanitized_update dec_int,
     fld ''unattributed'' as_Unattributed as_Unattributed_update dec_int,
     fld ''perm_repaired'' as_PermRepaired as_PermRepaired_update dec_int,
     fld ''rotation_failed'' as_RotationFailed as_RotationFailed_update dec_int,
     fld ''compress_failed'' as_CompressFailed as_CompressFailed_update dec_int,
     fld ''compress_skipped'' as_CompressSkipped as_CompressSkipped_update dec_int,
     fld ''pruned'' as_Pruned as_Pruned_update dec_int,
     fld ''reserve_breaches'' as_ReserveBreaches as_ReserveBreaches_update dec_int,
     fld ''reserve_breached'' as_ReserveBreached as_ReserveBreached_update dec_bool,
     fld ''sealed_bytes'' as_SealedBytes as_SealedBytes_update dec_int,
     fld ''orphaned_intents'' as_OrphanedIntents as_OrphanedIntents_update dec_int,
     fld ''last_orphan_event_id'' as_LastOrphanEventID as_LastOrphanEventID_update dec_string,
     fld ''segment'' as_Segment as_Segment_update (dec_ptr (dec_struct False auditSegment_fields) auditSegment0),
     fld ''retention'' as_Retention as_Retention_update (dec_ptr (dec_struct False auditRetention_fields) auditRetention0),
     fld ''projected_retention_days'' as_ProjectedRetentionDays as_ProjectedRetentionDays_update dec_float,
     fld ''producers'' as_Producers as_Producers_update (dec_list (dec_struct False auditProducer_fields) auditProducer0),
     fld ''compliance_sink'' as_ComplianceSink as_ComplianceSink_update (dec_ptr dec_bool False),
     fld ''sinks'' as_Sinks as_Sinks_update (dec_list (dec_struct False auditSinkStatus_fields) auditSinkStatus0)]"

definition auditStatusResult0 :: auditStatusResult where
  "auditStatusResult0 = \<lparr>as_Available = None, as_Running = False, as_BootID = [], as_SeqHigh = 0, as_LastWrite = [], as_Accepted = [],
     as_Dropped = [], as_ResultDrops = 0, as_OriginatorDropped = 0, as_DelegationLookups = 0, as_QueueDepth = [], as_QueueHWM = [],
     as_WriteFailures = 0, as_SyncFailures = 0, as_MgmtTimeouts = 0, as_Panics = 0, as_Restarts = 0, as_Heartbeats = 0, as_Rotations = 0,
     as_PathSanitized = 0, as_Unattributed = 0, as_PermRepaired = 0, as_RotationFailed = 0, as_CompressFailed = 0, as_CompressSkipped = 0,
     as_Pruned = 0, as_ReserveBreaches = 0, as_ReserveBreached = False, as_SealedBytes = 0, as_OrphanedIntents = 0, as_LastOrphanEventID = [],
     as_Segment = None, as_Retention = None, as_ProjectedRetentionDays = ''0'', as_Producers = [], as_ComplianceSink = None, as_Sinks = []\<rparr>"

record auditSinkConfig =
  ac_Enabled :: bool
  ac_Address :: string
  ac_CABundlePath :: string
  ac_ServerName :: string
  ac_ClientCertPath :: string
  ac_ClientKeyPath :: string
  ac_MaxFrameBytes :: int
  ac_Facility :: int
  ac_Connected :: bool
  ac_Submitted :: int
  ac_Truncated :: int
  ac_WriteErrors :: int
  ac_LastError :: string

definition auditSinkConfig_fields :: "auditSinkConfig field_spec list" where
  "auditSinkConfig_fields =
    [fld ''enabled'' ac_Enabled ac_Enabled_update dec_bool,
     fld ''address'' ac_Address ac_Address_update dec_string,
     fld ''ca_bundle_path'' ac_CABundlePath ac_CABundlePath_update dec_string,
     fld ''server_name'' ac_ServerName ac_ServerName_update dec_string,
     fld ''client_cert_path'' ac_ClientCertPath ac_ClientCertPath_update dec_string,
     fld ''client_key_path'' ac_ClientKeyPath ac_ClientKeyPath_update dec_string,
     fld ''max_frame_bytes'' ac_MaxFrameBytes ac_MaxFrameBytes_update dec_int,
     fld ''facility'' ac_Facility ac_Facility_update dec_int,
     fld ''connected'' ac_Connected ac_Connected_update dec_bool,
     fld ''submitted'' ac_Submitted ac_Submitted_update dec_int,
     fld ''truncated'' ac_Truncated ac_Truncated_update dec_int,
     fld ''write_errors'' ac_WriteErrors ac_WriteErrors_update dec_int,
     fld ''last_error'' ac_LastError ac_LastError_update dec_string]"

definition auditSinkConfig0 :: auditSinkConfig where
  "auditSinkConfig0 = \<lparr>ac_Enabled = False, ac_Address = [], ac_CABundlePath = [], ac_ServerName = [], ac_ClientCertPath = [],
     ac_ClientKeyPath = [], ac_MaxFrameBytes = 0, ac_Facility = 0, ac_Connected = False, ac_Submitted = 0, ac_Truncated = 0, ac_WriteErrors = 0,
     ac_LastError = []\<rparr>"

record auditSinkFilter =
  af_Streams :: "string list"
  af_Services :: "string list"
  af_Outcome :: string
  af_DataSample :: int

definition auditSinkFilter_fields :: "auditSinkFilter field_spec list" where
  "auditSinkFilter_fields =
    [fld ''streams'' af_Streams af_Streams_update (dec_list dec_string []),
     fld ''services'' af_Services af_Services_update (dec_list dec_string []),
     fld ''outcome'' af_Outcome af_Outcome_update dec_string,
     fld ''data_sample'' af_DataSample af_DataSample_update dec_int]"

definition auditSinkFilter0 :: auditSinkFilter where
  "auditSinkFilter0 = \<lparr>af_Streams = [], af_Services = [], af_Outcome = [], af_DataSample = 0\<rparr>"

record auditNamedSinkConfig =
  an_Name :: string
  an_Address :: string
  an_CABundlePath :: string
  an_ServerName :: string
  an_ClientCertPath :: string
  an_ClientKeyPath :: string
  an_MaxFrameBytes :: int
  an_Facility :: int
  an_EnterpriseNumber :: int
  an_Filter :: "auditSinkFilter option"
  an_State :: string
  an_Cursor :: "auditSinkCursor option"
  an_XseqHigh :: int
  an_XseqEpoch :: int
  an_Submitted :: int
  an_Filtered :: int
  an_Resent :: int
  an_Poison :: int
  an_Truncated :: int
  an_WriteErrors :: int
  an_LagDrops :: int
  an_LastError :: string

definition auditNamedSinkConfig_fields :: "auditNamedSinkConfig field_spec list" where
  "auditNamedSinkConfig_fields =
    [fld ''name'' an_Name an_Name_update dec_string,
     fld ''address'' an_Address an_Address_update dec_string,
     fld ''ca_bundle_path'' an_CABundlePath an_CABundlePath_update dec_string,
     fld ''server_name'' an_ServerName an_ServerName_update dec_string,
     fld ''client_cert_path'' an_ClientCertPath an_ClientCertPath_update dec_string,
     fld ''client_key_path'' an_ClientKeyPath an_ClientKeyPath_update dec_string,
     fld ''max_frame_bytes'' an_MaxFrameBytes an_MaxFrameBytes_update dec_int,
     fld ''facility'' an_Facility an_Facility_update dec_int,
     fld ''enterprise_number'' an_EnterpriseNumber an_EnterpriseNumber_update dec_int,
     fld ''filter'' an_Filter an_Filter_update (dec_ptr (dec_struct False auditSinkFilter_fields) auditSinkFilter0),
     fld ''state'' an_State an_State_update dec_string,
     fld ''cursor'' an_Cursor an_Cursor_update (dec_ptr (dec_struct False auditSinkCursor_fields) auditSinkCursor0),
     fld ''xseq_high'' an_XseqHigh an_XseqHigh_update dec_int,
     fld ''xseq_epoch'' an_XseqEpoch an_XseqEpoch_update dec_int,
     fld ''submitted'' an_Submitted an_Submitted_update dec_int,
     fld ''filtered'' an_Filtered an_Filtered_update dec_int,
     fld ''resent'' an_Resent an_Resent_update dec_int,
     fld ''poison'' an_Poison an_Poison_update dec_int,
     fld ''truncated'' an_Truncated an_Truncated_update dec_int,
     fld ''write_errors'' an_WriteErrors an_WriteErrors_update dec_int,
     fld ''lag_drops'' an_LagDrops an_LagDrops_update dec_int,
     fld ''last_error'' an_LastError an_LastError_update dec_string]"

definition auditNamedSinkConfig0 :: auditNamedSinkConfig where
  "auditNamedSinkConfig0 = \<lparr>an_Name = [], an_Address = [], an_CABundlePath = [], an_ServerName = [], an_ClientCertPath = [],
     an_ClientKeyPath = [], an_MaxFrameBytes = 0, an_Facility = 0, an_EnterpriseNumber = 0, an_Filter = None, an_State = [], an_Cursor = None,
     an_XseqHigh = 0, an_XseqEpoch = 0, an_Submitted = 0, an_Filtered = 0, an_Resent = 0, an_Poison = 0, an_Truncated = 0, an_WriteErrors = 0,
     an_LagDrops = 0, an_LastError = []\<rparr>"

subsection \<open>The status of the trail\<close>

definition only_if :: "bool \<Rightarrow> msg list \<Rightarrow> msg list" where
  "only_if b ms = (if b then ms else [])"

definition joinCounts :: "(string \<times> int) list \<Rightarrow> string" where
  "joinCounts m = join '', '' (map (\<lambda>(k, v). k @ '' '' @ show_int v) (foldr insert_arg m []))"

definition boundSeconds :: "int \<Rightarrow> string" where
  "boundSeconds v = (if v = 0 then ''unbounded'' else show_int v @ ''s'')"

definition boundBytes :: "int \<Rightarrow> string" where
  "boundBytes v = (if v = 0 then ''unbounded'' else show_int v @ '' bytes'')"

definition audit_counters :: "auditStatusResult \<Rightarrow> (string \<times> int) list" where
  "audit_counters st =
    [(''write failures'', as_WriteFailures st), (''sync failures'', as_SyncFailures st), (''mgmt timeouts'', as_MgmtTimeouts st),
     (''panics'', as_Panics st), (''restarts'', as_Restarts st), (''rotations'', as_Rotations st),
     (''rotation failures'', as_RotationFailed st), (''compress failures'', as_CompressFailed st),
     (''compress skipped'', as_CompressSkipped st), (''pruned segments'', as_Pruned st), (''reserve breaches'', as_ReserveBreaches st),
     (''paths sanitized'', as_PathSanitized st), (''unattributed records'', as_Unattributed st),
     (''permissions repaired'', as_PermRepaired st), (''originator headers dropped'', as_OriginatorDropped st),
     (''delegation lookups'', as_DelegationLookups st), (''heartbeats'', as_Heartbeats st)]"

definition nonzero_counters :: "auditStatusResult \<Rightarrow> string list" where
  "nonzero_counters st = map (\<lambda>(label, v). label @ '' '' @ show_int v) (filter (\<lambda>(label, v). v \<noteq> 0) (audit_counters st))"

definition humanSink :: "auditSinkStatus \<Rightarrow> msg list" where
  "humanSink k =
     [Sprintf ''    %s%s: %s'' [AStr (ss_Name k), AStr (if ss_Compliance k then '' (compliance)'' else []), AStr (ss_State k)]]
     @ (case ss_Cursor k of None \<Rightarrow> []
        | Some c \<Rightarrow> only_if (cu_SegmentUUID c \<noteq> []) [Sprintf '', past seq %d in %s'' [AInt (cu_Seq c), AStr (cu_SegmentUUID c)]])
     @ [if ss_InActiveSegment k then Sprintf '', %d records behind'' [AInt (ss_LagRecords k)] else Text '', still reading sealed segments'']
     @ only_if (ss_LagDrops k \<noteq> 0) [Sprintf '', %d segments LOST to retention before they were sent'' [AInt (ss_LagDrops k)]]
     @ [Text []]"

definition humanProducer :: "auditProducer \<Rightarrow> msg list" where
  "humanProducer p =
     [Sprintf ''    %s (%s): pseq high %d, accepted %d'' [AStr (ap_ID p), AStr (ap_Stream p), AInt (ap_PSeqHigh p), AInt (ap_Accepted p)]]
     @ only_if (ap_Dropped p \<noteq> []) [Sprintf '', dropped %s'' [AStr (joinCounts (ap_Dropped p))]]
     @ only_if (ap_DropRingOverflows p \<noteq> 0) [Sprintf '', drop-ring overflows %d'' [AInt (ap_DropRingOverflows p)]]
     @ [Text []]"

definition humanAuditStatus :: "auditStatusResult \<Rightarrow> msg list" where
  "humanAuditStatus st =
     (if as_Available st \<noteq> Some True then
        [Text ''Audit: NOT AVAILABLE - no writer was configured at start.'',
         Text ''  The audit directory was unusable; every audited management call is refused.'']
      else
        [Sprintf ''Audit: available, %s'' [AStr (if as_Running st then ''running'' else ''NOT RUNNING (restarting after a failure)'')]]
        @ only_if (as_BootID st \<noteq> []) [Sprintf ''  Boot id: %s'' [AStr (as_BootID st)]]
        @ [Sprintf ''  Sequence high: %d'' [AInt (as_SeqHigh st)],
           if as_LastWrite st \<noteq> [] then Sprintf ''  Last write: %s'' [AStr (as_LastWrite st)] else Text ''  Last write: none yet'']
        @ only_if (as_Accepted st \<noteq> []) [Sprintf ''  Accepted: %s'' [AStr (joinCounts (as_Accepted st))]]
        @ only_if (as_Dropped st \<noteq> []) (Text ''  Dropped:''
            # map (\<lambda>d. Sprintf ''    %s/%s: %d'' [AStr (dc_Stream d), AStr (dc_Reason d), AInt (dc_Count d)]) (as_Dropped st))
        @ only_if (as_ResultDrops st > 0) [Sprintf ''  Result records LOST after the change was applied: %d'' [AInt (as_ResultDrops st)]]
        @ only_if (as_QueueDepth st \<noteq> []) [Sprintf ''  Queue depth: %s'' [AStr (joinCounts (as_QueueDepth st))]]
        @ only_if (as_QueueHWM st \<noteq> []) [Sprintf ''  Queue high-water: %s'' [AStr (joinCounts (as_QueueHWM st))]]
        @ (case as_Segment st of None \<Rightarrow> []
           | Some g \<Rightarrow> [Sprintf ''  Active segment: %s'' [AStr (sg_UUID g)],
               Sprintf ''    Opened: %s, %d records, %d bytes'' [AStr (sg_Opened g), AInt (sg_Records g), AInt (sg_Bytes g)]])
        @ [Sprintf ''  Sealed on disk: %d bytes'' [AInt (as_SealedBytes st)]]
        @ (case as_Retention st of None \<Rightarrow> []
           | Some r \<Rightarrow> [Sprintf ''  Retention: age %s, quota %s, reserve %s'' [AStr (boundSeconds (rt_MaxAgeSeconds r)),
               AStr (boundBytes (rt_MaxBytes r)), AStr (boundBytes (rt_ReserveBytes r))]])
        @ [if float_positive (as_ProjectedRetentionDays st) then Sprintf ''  Projected retention: %.1f days'' [AStr (as_ProjectedRetentionDays st)]
           else Text ''  Projected retention: not projectable yet'']
        @ only_if (as_ReserveBreached st) [Text ''  RESERVE BREACHED - durable management writes are refused until space is recovered'']
        @ only_if (as_OrphanedIntents st > 0) (Sprintf ''  Orphaned intents from the previous boot: %d'' [AInt (as_OrphanedIntents st)]
            # only_if (as_LastOrphanEventID st \<noteq> []) [Sprintf ''    Most recent event id: %s'' [AStr (as_LastOrphanEventID st)]])
        @ [if nonzero_counters st \<noteq> [] then Sprintf ''  Counters: %s'' [AStr (join '', '' (nonzero_counters st))]
           else Text ''  Counters: all zero'']
        @ only_if (as_ComplianceSink st = Some False) [Text ''  Compliance sink: NOT CONFIGURED - no record leaves the gateway in full'']
        @ only_if (as_Sinks st \<noteq> []) (Text ''  Sinks:'' # concat (map humanSink (as_Sinks st)))
        @ only_if (as_Producers st \<noteq> []) (Text ''  Producers:'' # concat (map humanProducer (as_Producers st))))"

definition decode_auditStatus :: "bytes \<Rightarrow> auditStatusResult option" where
  "decode_auditStatus body =
     (case unmarshal auditStatusResult_fields auditStatusResult0 body of
        None \<Rightarrow> None | Some st \<Rightarrow> if as_Available st = None then None else Some st)"

definition AuditStatusGet :: "(string \<Rightarrow> bool) \<Rightarrow> gateway \<Rightarrow> restOptions \<Rightarrow> bool \<Rightarrow> lifecycle_run" where
  "AuditStatusGet url_ok gw o' json =
     read_run gw (api_Get url_ok (LoxiClient_AuditStatus o')) ''audit status'' decode_auditStatus humanAuditStatus json"

subsection \<open>The compliance sink\<close>

text \<open>A document of which only "a JSON object" can be asked is probed as one first.\<close>

definition decode_object :: "'r field_spec list \<Rightarrow> 'r \<Rightarrow> bytes \<Rightarrow> 'r option" where
  "decode_object fs zero body =
     (case Option.bind (parse_json body) (dec_map (\<lambda>_. Some) JNull []) of None \<Rightarrow> None | Some probe \<Rightarrow> unmarshal fs zero body)"

definition humanAuditSink :: "auditSinkConfig \<Rightarrow> msg list" where
  "humanAuditSink cfg =
     (if \<not> ac_Enabled cfg then [Text ''Audit sink: not configured - the trail is local only.'']
      else
        [Sprintf ''Audit sink: enabled, %s'' [AStr (if ac_Connected cfg then ''connected'' else ''not connected'')],
         Sprintf ''  Receiver: %s'' [AStr (ac_Address cfg)], Sprintf ''  CA bundle: %s'' [AStr (ac_CABundlePath cfg)]]
        @ only_if (ac_ServerName cfg \<noteq> []) [Sprintf ''  Expected server name: %s'' [AStr (ac_ServerName cfg)]]
        @ only_if (ac_ClientCertPath cfg \<noteq> []) [Sprintf ''  Client certificate: %s'' [AStr (ac_ClientCertPath cfg)],
            Sprintf ''  Client key: %s'' [AStr (ac_ClientKeyPath cfg)]]
        @ [Sprintf ''  Facility: %d'' [AInt (ac_Facility cfg)], Sprintf ''  Max frame: %s'' [AStr (boundBytes (ac_MaxFrameBytes cfg))],
           Sprintf ''  Submitted to the socket: %d (not a delivery count; the protocol has no acknowledgement)'' [AInt (ac_Submitted cfg)]]
        @ only_if (ac_Truncated cfg \<noteq> 0) [Sprintf ''  Sent shortened to fit the receiver's cap: %d'' [AInt (ac_Truncated cfg)]]
        @ only_if (ac_WriteErrors cfg \<noteq> 0) [Sprintf ''  Write errors: %d (each one holds the cursor back)'' [AInt (ac_WriteErrors cfg)]]
        @ only_if (ac_LastError cfg \<noteq> []) [Sprintf ''  Last error: %s'' [AStr (ac_LastError cfg)]])"

definition AuditSinkGet :: "(string \<Rightarrow> bool) \<Rightarrow> gateway \<Rightarrow> restOptions \<Rightarrow> bool \<Rightarrow> lifecycle_run" where
  "AuditSinkGet url_ok gw o' json =
     read_run gw (api_Get url_ok (LoxiClient_AuditSink o')) ''audit sink'' (decode_object auditSinkConfig_fields auditSinkConfig0) humanAuditSink json"

record auditSinkSetOptions =
  ao_Disable :: bool
  ao_Address :: string
  ao_CABundlePath :: string
  ao_ServerName :: string
  ao_ClientCertPath :: string
  ao_ClientKeyPath :: string
  ao_MaxFrameBytes :: int
  ao_Facility :: int
  ao_EnterpriseNumber :: int
  ao_Streams :: "string list"
  ao_Services :: "string list"
  ao_Outcome :: string
  ao_DataSample :: int

record sinkRequest =
  ar_Enabled :: bool
  ar_Address :: string
  ar_CABundlePath :: string
  ar_ServerName :: string
  ar_ClientCertPath :: string
  ar_ClientKeyPath :: string
  ar_MaxFrameBytes :: int
  ar_Facility :: int

definition MaxSyslogFacility :: int where "MaxSyslogFacility = 23"

definition secondaryOnly :: "auditSinkSetOptions \<Rightarrow> string" where
  "secondaryOnly so =
     (if ao_EnterpriseNumber so \<noteq> 0 then ''--enterprise-number''
      else if ao_Streams so \<noteq> [] then ''--stream''
      else if ao_Services so \<noteq> [] then ''--service''
      else if ao_Outcome so \<noteq> [] then ''--outcome''
      else if ao_DataSample so \<noteq> 0 then ''--data-sample''
      else [])"

definition invalidArguments :: "msg \<Rightarrow> lifecycleError" where
  "invalidArguments m = lifecycle_failure ''invalid-arguments'' m"

definition auditSinkTransport :: "auditSinkSetOptions \<Rightarrow> lifecycleError + sinkRequest" where
  "auditSinkTransport so =
     (if trim_space (ao_Address so) = [] then
        Inl (invalidArguments (Text ''--address is required to configure a sink (use --disable to remove one)''))
      else if trim_space (ao_CABundlePath so) = [] then
        Inl (invalidArguments (Text
          ''--ca-bundle is required: the receiver's certificate is always verified and there is no mode that disables it''))
      else if (ao_ClientCertPath so = []) \<noteq> (ao_ClientKeyPath so = []) then
        Inl (invalidArguments (Text ''--client-cert and --client-key must be given together, or neither''))
      else if ao_Facility so < 0 \<or> ao_Facility so > MaxSyslogFacility then
        Inl (invalidArguments (Sprintf ''--facility must be between 0 and %d, got %d'' [AInt MaxSyslogFacility, AInt (ao_Facility so)]))
      else if ao_MaxFrameBytes so < 0 then
        Inl (invalidArguments (Sprintf ''--max-frame-bytes cannot be negative, got %d'' [AInt (ao_MaxFrameBytes so)]))
      else Inr \<lparr>ar_Enabled = True, ar_Address = ao_Address so, ar_CABundlePath = ao_CABundlePath so, ar_ServerName = ao_ServerName so,
        ar_ClientCertPath = ao_ClientCertPath so, ar_ClientKeyPath = ao_ClientKeyPath so, ar_MaxFrameBytes = ao_MaxFrameBytes so,
        ar_Facility = ao_Facility so\<rparr>)"

definition auditSinkRequest :: "auditSinkSetOptions \<Rightarrow> lifecycleError + sinkRequest" where
  "auditSinkRequest so =
     (if secondaryOnly so \<noteq> [] then
        Inl (invalidArguments (Sprintf (''%s applies to a named secondary sink ('loxicmd set audit-sink <NAME> ...'); ''
          @ ''the compliance sink is sent every record, unnumbered'') [AStr (secondaryOnly so)]))
      else if ao_Disable so then
        Inr \<lparr>ar_Enabled = False, ar_Address = [], ar_CABundlePath = [], ar_ServerName = [], ar_ClientCertPath = [], ar_ClientKeyPath = [],
          ar_MaxFrameBytes = 0, ar_Facility = 0\<rparr>
      else auditSinkTransport so)"

definition auditSinkRequest_json :: "sinkRequest \<Rightarrow> json" where
  "auditSinkRequest_json r = JObj
    [(''enabled'', JBool (ar_Enabled r)), (''address'', JStr (ar_Address r)), (''ca_bundle_path'', JStr (ar_CABundlePath r)),
     (''server_name'', JStr (ar_ServerName r)), (''client_cert_path'', JStr (ar_ClientCertPath r)),
     (''client_key_path'', JStr (ar_ClientKeyPath r)), (''max_frame_bytes'', JNum (show_int (ar_MaxFrameBytes r))),
     (''facility'', JNum (show_int (ar_Facility r)))]"

text \<open>
  The frame of the three changes of a sink: an outcome that cannot be known is recovery-required, the only
  success is 204, and what is printed then is fixed in JSON mode.
\<close>

definition success_document :: bytes where
  "success_document = ''{'' @ [quote_char] @ ''result'' @ [quote_char] @ '':'' @ [quote_char] @ ''Success'' @ [quote_char] @ ''}'' @ [CHR 0x0A]"

definition sink_change :: "http_result \<Rightarrow> msg \<Rightarrow> msg \<Rightarrow> bool \<Rightarrow> lifecycle_run" where
  "sink_change ans unconfirmed done_prose json =
     (case ans of
        NoResponse \<Rightarrow> refused (lifecycle_failure ''recovery-required'' unconfirmed)
      | Response status hs raw \<Rightarrow>
          (case readBody raw ''audit sink'' of
             Inl e \<Rightarrow> refused e
           | Inr body \<Rightarrow>
               if status \<noteq> 204 then refused (NewStatusError status body)
               else \<lparr>lc_out = [if json then LDocument success_document else LProse [done_prose]], lc_err = None\<rparr>))"

definition sink_set_request :: "(string \<Rightarrow> bool) \<Rightarrow> restOptions \<Rightarrow> sinkRequest \<Rightarrow> http_request option" where
  "sink_set_request url_ok o' req = api_Create url_ok (Some (print_json (auditSinkRequest_json req))) (LoxiClient_AuditSink o')"

definition AuditSinkSet :: "(string \<Rightarrow> bool) \<Rightarrow> gateway \<Rightarrow> restOptions \<Rightarrow> bool \<Rightarrow> auditSinkSetOptions \<Rightarrow> lifecycle_run" where
  "AuditSinkSet url_ok gw o' json so =
     (case auditSinkRequest so of
        Inl e \<Rightarrow> refused e
      | Inr req \<Rightarrow>
          sink_change (send gw (sink_set_request url_ok o' req))
            (Sprintf (''the audit sink change could not be confirmed and may or may not have been applied: %v; ''
              @ ''verify the actual configuration with 'loxicmd get audit-sink' before acting on it'') [AErr ''net/http''])
            (if ao_Disable so then Text ''Audit sink removed. The trail is local only.''
             else Sprintf ''Audit sink replaced: %s, verified against %s.'' [AStr (ar_Address req), AStr (ar_CABundlePath req)])
            json)"

subsection \<open>Named sinks\<close>

definition ComplianceSinkName :: string where "ComplianceSinkName = ''compliance''"

definition MaxEnterpriseNumber :: int where "MaxEnterpriseNumber = 2 ^ 32 - 1"

definition auditSinkNameRe :: "string \<Rightarrow> bool" where
  "auditSinkNameRe s \<longleftrightarrow> 1 \<le> length s \<and> length s \<le> 64 \<and> list_all (\<lambda>c. is_lower c \<or> is_digit c \<or> c = CHR ''_'' \<or> c = CHR ''-'') s"

definition auditFilterStreams :: "string list" where
  "auditFilterStreams = [''mgmt'', ''data'', ''audit_system'']"

definition checkAuditSinkName :: "string \<Rightarrow> lifecycleError option" where
  "checkAuditSinkName name =
     (if name = ComplianceSinkName then Some (invalidArguments (Sprintf (''the name %q is reserved for the compliance sink; ''
        @ ''that sink is read and replaced with 'audit-sink' and no name'') [AStr ComplianceSinkName]))
      else if \<not> auditSinkNameRe name then
        Some (invalidArguments (Sprintf ''a sink name is 1 to 64 of a-z, 0-9, '-' and '_', got %q'' [AStr name]))
      else None)"

definition filter_parts :: "auditSinkFilter \<Rightarrow> string list" where
  "filter_parts f =
     (if af_Streams f \<noteq> [] then [''streams '' @ join '','' (af_Streams f)] else [])
     @ (if af_Services f \<noteq> [] then [''data records of services '' @ join '','' (af_Services f)] else [])
     @ (if af_Outcome f \<noteq> [] then [''outcome '' @ af_Outcome f] else [])
     @ (if af_DataSample f > 1 then [''one data record in '' @ show_int (af_DataSample f)] else [])"

definition describeAuditFilter :: "auditSinkFilter option \<Rightarrow> string" where
  "describeAuditFilter f =
     (case f of None \<Rightarrow> ''every record''
      | Some f \<Rightarrow> if filter_parts f = [] then ''every record'' else join ''; '' (filter_parts f))"

definition humanAuditNamedSink :: "string \<Rightarrow> auditNamedSinkConfig \<Rightarrow> msg list" where
  "humanAuditNamedSink name cfg =
     [Sprintf ''Audit sink %s: secondary, %s'' [AStr name, AStr (if an_State cfg = [] then ''state not reported'' else an_State cfg)],
      Sprintf ''  Receiver: %s'' [AStr (an_Address cfg)], Sprintf ''  CA bundle: %s'' [AStr (an_CABundlePath cfg)]]
     @ only_if (an_ServerName cfg \<noteq> []) [Sprintf ''  Expected server name: %s'' [AStr (an_ServerName cfg)]]
     @ only_if (an_ClientCertPath cfg \<noteq> []) [Sprintf ''  Client certificate: %s'' [AStr (an_ClientCertPath cfg)],
         Sprintf ''  Client key: %s'' [AStr (an_ClientKeyPath cfg)]]
     @ [Sprintf ''  Facility: %d'' [AInt (an_Facility cfg)], Sprintf ''  Max frame: %s'' [AStr (boundBytes (an_MaxFrameBytes cfg))],
        Sprintf ''  Enterprise number: %d'' [AInt (an_EnterpriseNumber cfg)],
        Sprintf ''  Selects: %s'' [AStr (describeAuditFilter (an_Filter cfg))]]
     @ [case an_Cursor cfg of
          Some c \<Rightarrow> if cu_SegmentUUID c \<noteq> [] then Sprintf ''  Past record: seq %d in segment %s'' [AInt (cu_Seq c), AStr (cu_SegmentUUID c)]
                    else Text ''  Past record: none yet''
        | None \<Rightarrow> Text ''  Past record: none yet'']
     @ [Sprintf ''  Export sequence: high %d, epoch %d'' [AInt (an_XseqHigh cfg), AInt (an_XseqEpoch cfg)],
        Sprintf ''  Submitted to the socket: %d (not a delivery count; the protocol has no acknowledgement)'' [AInt (an_Submitted cfg)]]
     @ only_if (an_Resent cfg \<noteq> 0) [Sprintf ''  Sent again after a lost session: %d'' [AInt (an_Resent cfg)]]
     @ only_if (an_Filtered cfg \<noteq> 0) [Sprintf ''  Kept from this sink by its filter: %d'' [AInt (an_Filtered cfg)]]
     @ only_if (an_Truncated cfg \<noteq> 0) [Sprintf ''  Sent shortened to fit the receiver's cap: %d'' [AInt (an_Truncated cfg)]]
     @ only_if (an_Poison cfg \<noteq> 0) [Sprintf ''  Skipped because the sink cannot carry them: %d'' [AInt (an_Poison cfg)]]
     @ only_if (an_LagDrops cfg \<noteq> 0) [Sprintf ''  Segments LOST to retention before they were sent: %d'' [AInt (an_LagDrops cfg)]]
     @ only_if (an_WriteErrors cfg \<noteq> 0) [Sprintf ''  Write errors: %d (each one holds the cursor back)'' [AInt (an_WriteErrors cfg)]]
     @ only_if (an_LastError cfg \<noteq> []) [Sprintf ''  Last error: %s'' [AStr (an_LastError cfg)]]"

definition decode_namedSink :: "bytes \<Rightarrow> auditNamedSinkConfig option" where
  "decode_namedSink body =
     (case unmarshal auditNamedSinkConfig_fields auditNamedSinkConfig0 body of
        None \<Rightarrow> None | Some cfg \<Rightarrow> if an_Address cfg = [] then None else Some cfg)"

definition AuditNamedSinkGet :: "(string \<Rightarrow> bool) \<Rightarrow> gateway \<Rightarrow> restOptions \<Rightarrow> bool \<Rightarrow> string \<Rightarrow> lifecycle_run" where
  "AuditNamedSinkGet url_ok gw o' json name =
     (case checkAuditSinkName name of
        Some e \<Rightarrow> refused e
      | None \<Rightarrow> read_run gw (api_Get url_ok (SubResources [name] (LoxiClient_AuditSinks o'))) ''audit sink''
                 decode_namedSink (humanAuditNamedSink name) json)"

record namedSinkRequest =
  nr_Address :: string
  nr_CABundlePath :: string
  nr_ServerName :: string
  nr_ClientCertPath :: string
  nr_ClientKeyPath :: string
  nr_MaxFrameBytes :: int
  nr_Facility :: int
  nr_EnterpriseNumber :: int
  nr_Filter :: "auditSinkFilter option"

definition sink_filter :: "auditSinkSetOptions \<Rightarrow> auditSinkFilter option" where
  "sink_filter so =
     (if ao_Streams so \<noteq> [] \<or> ao_Services so \<noteq> [] \<or> ao_Outcome so \<noteq> [] \<or> ao_DataSample so > 1 then
        Some \<lparr>af_Streams = ao_Streams so, af_Services = ao_Services so, af_Outcome = ao_Outcome so,
          af_DataSample = (if ao_DataSample so > 1 then ao_DataSample so else 0)\<rparr>
      else None)"

definition check_filter :: "auditSinkSetOptions \<Rightarrow> lifecycleError option" where
  "check_filter so =
     (case find (\<lambda>s. s \<notin> set auditFilterStreams) (ao_Streams so) of
        Some s \<Rightarrow> Some (invalidArguments (Sprintf ''--stream takes %s, got %q'' [AStr (join '', '' auditFilterStreams), AStr s]))
      | None \<Rightarrow>
          if list_ex (\<lambda>s. trim_space s = []) (ao_Services so) then Some (invalidArguments (Text ''--service cannot be empty''))
          else if ao_Outcome so \<notin> {[], ''ok'', ''failed''} then
            Some (invalidArguments (Sprintf ''--outcome takes %s or %s, got %q'' [AStr ''ok'', AStr ''failed'', AStr (ao_Outcome so)]))
          else if ao_DataSample so < 0 then
            Some (invalidArguments (Sprintf ''--data-sample cannot be negative, got %d'' [AInt (ao_DataSample so)]))
          else None)"

definition auditNamedSinkRequest :: "string \<Rightarrow> auditSinkSetOptions \<Rightarrow> lifecycleError + namedSinkRequest" where
  "auditNamedSinkRequest name so =
     (case checkAuditSinkName name of
        Some e \<Rightarrow> Inl e
      | None \<Rightarrow>
          if ao_Disable so then
            Inl (invalidArguments (Sprintf (''--disable removes the compliance sink; ''
              @ ''a secondary sink is removed with 'loxicmd delete audit-sink %s'' @ [CHR 0x27]) [AStr name]))
          else (case auditSinkTransport so of
             Inl e \<Rightarrow> Inl e
           | Inr t \<Rightarrow>
               if ao_EnterpriseNumber so < 1 \<or> ao_EnterpriseNumber so > MaxEnterpriseNumber then
                 Inl (invalidArguments (Sprintf ''--enterprise-number is required for a secondary sink and must be between 1 and %d, got %d''
                   [AInt MaxEnterpriseNumber, AInt (ao_EnterpriseNumber so)]))
               else (case check_filter so of
                  Some e \<Rightarrow> Inl e
                | None \<Rightarrow> Inr \<lparr>nr_Address = ar_Address t, nr_CABundlePath = ar_CABundlePath t, nr_ServerName = ar_ServerName t,
                    nr_ClientCertPath = ar_ClientCertPath t, nr_ClientKeyPath = ar_ClientKeyPath t, nr_MaxFrameBytes = ar_MaxFrameBytes t,
                    nr_Facility = ar_Facility t, nr_EnterpriseNumber = ao_EnterpriseNumber so, nr_Filter = sink_filter so\<rparr>)))"

definition auditSinkFilter_json :: "auditSinkFilter \<Rightarrow> json" where
  "auditSinkFilter_json f = JObj
    ((if af_Streams f \<noteq> [] then [(''streams'', JArr (map JStr (af_Streams f)))] else [])
     @ (if af_Services f \<noteq> [] then [(''services'', JArr (map JStr (af_Services f)))] else [])
     @ (if af_Outcome f \<noteq> [] then [(''outcome'', JStr (af_Outcome f))] else [])
     @ (if af_DataSample f \<noteq> 0 then [(''data_sample'', JNum (show_int (af_DataSample f)))] else []))"

definition auditNamedSinkRequest_json :: "namedSinkRequest \<Rightarrow> json" where
  "auditNamedSinkRequest_json r = JObj
    ([(''address'', JStr (nr_Address r)), (''ca_bundle_path'', JStr (nr_CABundlePath r)), (''server_name'', JStr (nr_ServerName r)),
      (''client_cert_path'', JStr (nr_ClientCertPath r)), (''client_key_path'', JStr (nr_ClientKeyPath r)),
      (''max_frame_bytes'', JNum (show_int (nr_MaxFrameBytes r))), (''facility'', JNum (show_int (nr_Facility r))),
      (''enterprise_number'', JNum (show_int (nr_EnterpriseNumber r)))]
     @ (case nr_Filter r of None \<Rightarrow> [] | Some f \<Rightarrow> [(''filter'', auditSinkFilter_json f)]))"

definition named_set_request :: "(string \<Rightarrow> bool) \<Rightarrow> restOptions \<Rightarrow> string \<Rightarrow> namedSinkRequest \<Rightarrow> http_request option" where
  "named_set_request url_ok o' name req =
     api_Put url_ok (Some (print_json (auditNamedSinkRequest_json req))) (SubResources [name] (LoxiClient_AuditSinks o'))"

definition AuditNamedSinkSet ::
  "(string \<Rightarrow> bool) \<Rightarrow> gateway \<Rightarrow> restOptions \<Rightarrow> bool \<Rightarrow> string \<Rightarrow> auditSinkSetOptions \<Rightarrow> lifecycle_run" where
  "AuditNamedSinkSet url_ok gw o' json name so =
     (case auditNamedSinkRequest name so of
        Inl e \<Rightarrow> refused e
      | Inr req \<Rightarrow>
          sink_change (send gw (named_set_request url_ok o' name req))
            (Sprintf (''the audit sink change could not be confirmed and may or may not have been applied: %v; ''
              @ ''verify the actual configuration with 'loxicmd get audit-sink %s' before acting on it'') [AErr ''net/http'', AStr name])
            (Sprintf ''Audit sink %s set: %s, verified against %s; it is sent %s.''
              [AStr name, AStr (nr_Address req), AStr (nr_CABundlePath req), AStr (describeAuditFilter (nr_Filter req))])
            json)"

definition AuditNamedSinkDelete :: "(string \<Rightarrow> bool) \<Rightarrow> gateway \<Rightarrow> restOptions \<Rightarrow> bool \<Rightarrow> string \<Rightarrow> lifecycle_run" where
  "AuditNamedSinkDelete url_ok gw o' json name =
     (case checkAuditSinkName name of
        Some e \<Rightarrow> refused e
      | None \<Rightarrow>
          sink_change (send gw (api_Delete url_ok (SubResources [name] (LoxiClient_AuditSinks o'))))
            (Sprintf (''the removal of audit sink %s could not be confirmed and may or may not have been applied: %v; ''
              @ ''verify with 'loxicmd get audit-sink %s' before acting on it'') [AStr name, AErr ''net/http'', AStr name])
            (Sprintf (''Audit sink %s removed. Its place in the trail and its export sequence are kept;''
              @ '' a sink set under the same name continues both.'') [AStr name])
            json)"

subsection \<open>What the changes send and how they end\<close>

interpretation audit_status: verbatim_read "\<lambda>gw. AuditStatusGet url_ok gw o'" "api_Get url_ok (LoxiClient_AuditStatus o')" decode_auditStatus
  for url_ok o'
  unfolding AuditStatusGet_def by (rule read_run_verbatim)

interpretation audit_sink: verbatim_read "\<lambda>gw. AuditSinkGet url_ok gw o'" "api_Get url_ok (LoxiClient_AuditSink o')"
  "decode_object auditSinkConfig_fields auditSinkConfig0"
  for url_ok o'
  unfolding AuditSinkGet_def by (rule read_run_verbatim)

lemma named_sink_verbatim:
  assumes "checkAuditSinkName name = None"
  shows "verbatim_read (\<lambda>gw json. AuditNamedSinkGet url_ok gw o' json name)
    (api_Get url_ok (SubResources [name] (LoxiClient_AuditSinks o'))) decode_namedSink"
  unfolding AuditNamedSinkGet_def using assms read_run_verbatim by simp

text \<open>How a change of a sink is reported, by the answer it got.\<close>

lemma invalidArguments_reason [simp]: "le_Reason (invalidArguments m) = ''invalid-arguments''"
  by (simp add: invalidArguments_def)

lemma recovery_status: "xs_status (exitPoint (Some (ELifecycle (lifecycle_failure ''recovery-required'' m)))) = Partial"
  by (simp add: exitPoint_def Classify_def reasonCodes_def Let_def CLIError0_def)

lemma transport_status: "xs_status (exitPoint (Some (ELifecycle (transportError w)))) = Unavailable"
  by (simp add: exitPoint_def Classify_def reasonCodes_def Let_def CLIError0_def)

lemma sink_change_status:
  assumes "r = sink_change ans unconfirmed done_prose json"
  shows "xs_status (exitPoint (lc_err r)) = OK \<longleftrightarrow> (\<exists>hs body. ans = Response 204 hs (Whole body))"
    and "ans = NoResponse \<Longrightarrow> xs_status (exitPoint (lc_err r)) = Partial"
    and "ans = Response status hs (Torn part) \<Longrightarrow> xs_status (exitPoint (lc_err r)) = Unavailable"
proof -
  have "ce_Code (Classify (ELifecycle le)) \<noteq> OK" if "le_Reason le \<noteq> ''ok''" for le using that Classify_genuine by simp
  then show "xs_status (exitPoint (lc_err r)) = OK \<longleftrightarrow> (\<exists>hs body. ans = Response 204 hs (Whole body))"
    using assms
    by (auto simp: sink_change_def refused_def readBody_def exitPoint_def Let_def split: http_result.splits http_body.splits)
qed (use assms in \<open>simp_all add: sink_change_def refused_def readBody_def recovery_status transport_status\<close>)

text \<open>The compliance sink is sent complete, and only a configuration that verifies its receiver.\<close>

lemma auditSinkTransport_Inr:
  assumes "auditSinkTransport so = Inr t"
  shows "t = \<lparr>ar_Enabled = True, ar_Address = ao_Address so, ar_CABundlePath = ao_CABundlePath so, ar_ServerName = ao_ServerName so,
      ar_ClientCertPath = ao_ClientCertPath so, ar_ClientKeyPath = ao_ClientKeyPath so, ar_MaxFrameBytes = ao_MaxFrameBytes so,
      ar_Facility = ao_Facility so\<rparr>
    \<and> trim_space (ao_Address so) \<noteq> [] \<and> trim_space (ao_CABundlePath so) \<noteq> []
    \<and> (ao_ClientCertPath so = [] \<longleftrightarrow> ao_ClientKeyPath so = []) \<and> 0 \<le> ao_Facility so \<and> ao_Facility so \<le> 23 \<and> 0 \<le> ao_MaxFrameBytes so"
  using assms by (auto simp: auditSinkTransport_def MaxSyslogFacility_def split: if_splits)

lemma auditSinkRequest_Inr:
  assumes "auditSinkRequest so = Inr req"
  shows "secondaryOnly so = [] \<and> (ar_Enabled req \<longleftrightarrow> \<not> ao_Disable so) \<and> (ar_Enabled req \<longrightarrow> auditSinkTransport so = Inr req)
    \<and> (\<not> ar_Enabled req \<longrightarrow> ar_Address req = [] \<and> ar_CABundlePath req = [])"
  using assms auditSinkTransport_Inr [of so req] by (auto simp: auditSinkRequest_def split: if_splits)

definition sink_texts :: "sinkRequest \<Rightarrow> string list" where
  "sink_texts r = [ar_Address r, ar_CABundlePath r, ar_ServerName r, ar_ClientCertPath r, ar_ClientKeyPath r]"

text \<open>The configuration a gateway reads from the body of the request.\<close>

definition config_of :: "sinkRequest \<Rightarrow> auditSinkConfig" where
  "config_of r = auditSinkConfig0\<lparr>ac_Enabled := ar_Enabled r, ac_Address := ar_Address r, ac_CABundlePath := ar_CABundlePath r,
     ac_ServerName := ar_ServerName r, ac_ClientCertPath := ar_ClientCertPath r, ac_ClientKeyPath := ar_ClientKeyPath r,
     ac_MaxFrameBytes := ar_MaxFrameBytes r, ac_Facility := ar_Facility r\<rparr>"

definition in_int64 :: "int \<Rightarrow> bool" where
  "in_int64 i \<longleftrightarrow> - (2 ^ 63) \<le> i \<and> i < 2 ^ 63"

lemma show_int_read: "in_int64 i \<Longrightarrow> parse_int64 (show_int i) = Some i"
  by (rule parse_int64_show) (simp_all add: in_int64_def)

lemma sink_body_plain:
  assumes "list_all valid_utf8 (sink_texts r)"
  shows "plain (auditSinkRequest_json r)" "depth (auditSinkRequest_json r) \<le> maxNestingDepth"
proof -
  have "list_all (list_all plain_char) [''enabled'', ''address'', ''ca_bundle_path'', ''server_name'', ''client_cert_path'',
      ''client_key_path'', ''max_frame_bytes'', ''facility'']" by code_simp
  then show "plain (auditSinkRequest_json r)"
    using assms by (auto simp: auditSinkRequest_json_def sink_texts_def show_int_plain plain_valid_utf8)
qed (simp add: auditSinkRequest_json_def maxNestingDepth_def)

lemma sink_body_decoded:
  assumes "in_int64 (ar_MaxFrameBytes r)" "in_int64 (ar_Facility r)"
  shows "dec_struct False auditSinkConfig_fields auditSinkConfig0 (auditSinkRequest_json r) = Some (config_of r)"
  using assms
  by (simp add: dec_struct_def auditSinkRequest_json_def auditSinkConfig_fields_def auditSinkConfig0_def fld_def find_field_def
      dec_string_def dec_bool_def dec_int_def show_int_read config_of_def)

lemma sink_body_round_trip:
  assumes "list_all valid_utf8 (sink_texts r)" "in_int64 (ar_MaxFrameBytes r)" "in_int64 (ar_Facility r)"
  shows "unmarshal auditSinkConfig_fields auditSinkConfig0 (print_json (auditSinkRequest_json r)) = Some (config_of r)"
  using parse_print [OF sink_body_plain [OF assms(1)]] sink_body_decoded [OF assms(2,3)] by (simp add: unmarshal_def)

text \<open>The name of a secondary sink is one segment of the address.\<close>

lemma sink_name_segment:
  assumes "checkAuditSinkName name = None"
  shows "plain_segment name \<and> name \<noteq> ''compliance'' \<and> length name \<le> 64"
proof -
  have n: "auditSinkNameRe name" "name \<noteq> ''compliance''" using assms by (auto simp: checkAuditSinkName_def ComplianceSinkName_def split: if_splits)
  have "CHR ''.'' \<notin> set name" "CHR ''/'' \<notin> set name"
    using n(1) by (auto simp: auditSinkNameRe_def list_all_iff is_lower_def is_digit_def)
  with n show ?thesis by (auto simp: plain_segment_def auditSinkNameRe_def)
qed

lemma check_filter_None:
  assumes "check_filter so = None"
  shows "set (ao_Streams so) \<subseteq> set auditFilterStreams \<and> ao_Outcome so \<in> {[], ''ok'', ''failed''} \<and> 0 \<le> ao_DataSample so"
  using assms by (auto simp: check_filter_def find_None_iff split: option.splits if_splits)

lemma sink_filter_Some:
  assumes "sink_filter so = Some f"
  shows "af_Streams f = ao_Streams so \<and> af_Outcome f = ao_Outcome so \<and> filter_parts f \<noteq> []
    \<and> af_DataSample f \<in> {0, ao_DataSample so} \<and> af_DataSample f \<noteq> 1"
  using assms by (auto simp: sink_filter_def filter_parts_def split: if_splits)

lemma named_request_Inr:
  assumes "auditNamedSinkRequest name so = Inr req"
  shows "checkAuditSinkName name = None \<and> \<not> ao_Disable so \<and> 1 \<le> nr_EnterpriseNumber req \<and> nr_EnterpriseNumber req < 2 ^ 32
    \<and> nr_Filter req = sink_filter so \<and> check_filter so = None \<and> (\<exists>t. auditSinkTransport so = Inr t)"
  using assms
  by (auto simp: auditNamedSinkRequest_def MaxEnterpriseNumber_def split: option.splits if_splits sum.splits)

end
