(* ===== verification/GatewayLogs.thy ===== *)
theory GatewayLogs
  imports AuditTrail
begin

section \<open>The gateway's logs (\<open>cmd/lifecycle/logs.go\<close>, \<open>pkg/api/logs.go\<close>)\<close>

text \<open>
  One page of the log, the list of archives, and the download of one archive into a file or onto standard
  output. A response body is a reader that delivers its bytes and then, when it breaks off, an error in a
  read of its own; \<open>readTracker\<close> remembers whether that error was met.
\<close>

record logPage =
  lp_Lines :: "string list"
  lp_LogFile :: string
  lp_LogCount :: int
  lp_TotalSize :: int
  lp_HasMore :: "bool option"
  lp_NextCursor :: string
  lp_ScannedBytes :: int

record logArchiveInfo =
  li_Name :: string
  li_SizeBytes :: int
  li_Modified :: string

record logArchiveList =
  la_Archives :: "string list"
  la_ArchiveInfo :: "logArchiveInfo list"

definition logPage_fields :: "logPage field_spec list" where
  "logPage_fields =
    [fld ''logs'' lp_Lines lp_Lines_update (dec_list dec_string []),
     fld ''log_file'' lp_LogFile lp_LogFile_update dec_string,
     fld ''log_count'' lp_LogCount lp_LogCount_update dec_int,
     fld ''total_size'' lp_TotalSize lp_TotalSize_update dec_int,
     fld ''has_more'' lp_HasMore lp_HasMore_update (dec_ptr dec_bool False),
     fld ''next_cursor'' lp_NextCursor lp_NextCursor_update dec_string,
     fld ''scanned_bytes'' lp_ScannedBytes lp_ScannedBytes_update dec_int]"

definition logPage0 :: logPage where
  "logPage0 = \<lparr>lp_Lines = [], lp_LogFile = [], lp_LogCount = 0, lp_TotalSize = 0, lp_HasMore = None, lp_NextCursor = [], lp_ScannedBytes = 0\<rparr>"

definition logArchiveInfo_fields :: "logArchiveInfo field_spec list" where
  "logArchiveInfo_fields =
    [fld ''name'' li_Name li_Name_update dec_string,
     fld ''size_bytes'' li_SizeBytes li_SizeBytes_update dec_int,
     fld ''modified'' li_Modified li_Modified_update dec_string]"

definition logArchiveList_fields :: "logArchiveList field_spec list" where
  "logArchiveList_fields =
    [fld ''archives'' la_Archives la_Archives_update (dec_list dec_string []),
     fld ''archive_info'' la_ArchiveInfo la_ArchiveInfo_update
       (dec_list (dec_struct False logArchiveInfo_fields) \<lparr>li_Name = [], li_SizeBytes = 0, li_Modified = []\<rparr>)]"

definition logArchiveList0 :: logArchiveList where
  "logArchiveList0 = \<lparr>la_Archives = [], la_ArchiveInfo = []\<rparr>"

subsection \<open>A page of the log\<close>

record logsOptions =
  lo_Lines :: int
  lo_Level :: string
  lo_Keyword :: string
  lo_File :: string
  lo_Cursor :: string

definition MaxLogLines :: int where "MaxLogLines = 10000"

text \<open>\<open>path.Base\<close>: the last element, trailing slashes removed.\<close>

definition path_Base :: "string \<Rightarrow> string" where
  "path_Base p =
     (if p = [] then ''.''
      else (let q = rev (dropWhile (\<lambda>c. c = CHR ''/'') (rev p)) in
            if q = [] then ''/'' else rev (takeWhile (\<lambda>c. c \<noteq> CHR ''/'') (rev q))))"

definition checkLogName :: "string \<Rightarrow> string \<Rightarrow> lifecycleError option" where
  "checkLogName name what =
     (if name = [] \<or> name = ''.'' \<or> name = ''..'' \<or> list_ex (\<lambda>c. c \<in> {CHR ''/'', backslash}) name \<or> name \<noteq> path_Base name then
        Some (lifecycle_failure ''invalid-arguments'' (Sprintf ''%s must be a bare file name, got %q'' [AStr what, AStr name]))
      else None)"

definition logs_query :: "logsOptions \<Rightarrow> (string \<times> string) list" where
  "logs_query lo = (''lines'', show_int (lo_Lines lo))
     # filter (\<lambda>(k, v). v \<noteq> []) [(''level'', lo_Level lo), (''keyword'', lo_Keyword lo), (''file'', lo_File lo), (''cursor'', lo_Cursor lo)]"

definition next_page :: "string \<Rightarrow> string \<Rightarrow> logsOptions \<Rightarrow> string" where
  "next_page file cursor lo = join '' '' ([''loxicmd get logs'']
     @ (if file \<noteq> [] then [''--file '' @ file] else [])
     @ (if lo_Level lo \<noteq> [] then [''--level '' @ lo_Level lo] else [])
     @ (if lo_Keyword lo \<noteq> [] then [''--keyword '' @ lo_Keyword lo] else [])
     @ [''--cursor '' @ cursor])"

definition humanLogs :: "logsOptions \<Rightarrow> logPage \<Rightarrow> msg list" where
  "humanLogs lo page =
     (let file = (if lp_LogFile page = [] then lo_File lo else lp_LogFile page) in
      map Text (rev (lp_Lines page))
      @ only_if (lp_Lines page = []) [if file \<noteq> [] then Sprintf ''No matching lines in %s.'' [AStr file] else Text ''No matching lines.'']
      @ only_if (lp_HasMore page = Some True \<and> lp_NextCursor page \<noteq> [])
          [Sprintf ''-- older lines remain: %s'' [AStr (next_page file (lp_NextCursor page) lo)]])"

definition decode_logPage :: "bytes \<Rightarrow> logPage option" where
  "decode_logPage body =
     (case unmarshal logPage_fields logPage0 body of
        None \<Rightarrow> None | Some page \<Rightarrow> if lp_HasMore page = None then None else Some page)"

definition logs_page_request :: "(string \<Rightarrow> bool) \<Rightarrow> restOptions \<Rightarrow> logsOptions \<Rightarrow> http_request option" where
  "logs_page_request url_ok o' lo = api_Get url_ok (api_Query (logs_query lo) (LoxiClient_Logs o'))"

definition check_logs_options :: "logsOptions \<Rightarrow> lifecycleError option" where
  "check_logs_options lo =
     (if lo_Lines lo < 1 \<or> lo_Lines lo > MaxLogLines then
        Some (lifecycle_failure ''invalid-arguments''
          (Sprintf ''--lines must be between 1 and %d, got %d'' [AInt MaxLogLines, AInt (lo_Lines lo)]))
      else if lo_File lo \<noteq> [] then checkLogName (lo_File lo) ''--file''
      else None)"

definition LogsGet :: "(string \<Rightarrow> bool) \<Rightarrow> gateway \<Rightarrow> restOptions \<Rightarrow> bool \<Rightarrow> logsOptions \<Rightarrow> lifecycle_run" where
  "LogsGet url_ok gw o' json lo =
     (case check_logs_options lo of
        Some e \<Rightarrow> refused e
      | None \<Rightarrow> read_run gw (logs_page_request url_ok o' lo) ''logs'' decode_logPage (humanLogs lo) json)"

subsection \<open>Archives\<close>

text \<open>The rows of the table; its alignment is \<open>text/tabwriter\<close>'s. The last entry of a name decides its metadata.\<close>

definition table_row :: "string list \<Rightarrow> msg" where
  "table_row cells = Text (join [CHR 0x09] cells)"

definition archive_row :: "logArchiveInfo list \<Rightarrow> string \<Rightarrow> msg" where
  "archive_row infos n =
     (case find (\<lambda>a. li_Name a = n) (rev infos) of
        None \<Rightarrow> table_row [n, ''-'', ''-'']
      | Some a \<Rightarrow> table_row [n, show_int (li_SizeBytes a), if li_Modified a \<noteq> [] then li_Modified a else ''-''])"

definition humanLogArchives :: "logArchiveList \<Rightarrow> msg list" where
  "humanLogArchives l =
     (let names = (if la_Archives l = [] then map li_Name (la_ArchiveInfo l) else la_Archives l) in
      if names = [] then [Text ''No log archives.'']
      else table_row [''NAME'', ''SIZE'', ''MODIFIED''] # map (archive_row (la_ArchiveInfo l)) names)"

definition LogArchivesList :: "(string \<Rightarrow> bool) \<Rightarrow> gateway \<Rightarrow> restOptions \<Rightarrow> bool \<Rightarrow> lifecycle_run" where
  "LogArchivesList url_ok gw o' json =
     read_run gw (api_Get url_ok (LoxiClient_LogArchives o')) ''log archives''
       (decode_object logArchiveList_fields logArchiveList0) humanLogArchives json"

subsection \<open>Downloading an archive\<close>

definition body_reader :: "http_body \<Rightarrow> reader" where
  "body_reader b = (case b of Whole d \<Rightarrow> \<lparr>rd_data = d, rd_err = False\<rparr> | Torn d \<Rightarrow> \<lparr>rd_data = d, rd_err = True\<rparr>)"

text \<open>\<open>readTracker.err\<close> after the copy: the error is met once all data before it has been written.\<close>

definition tracked_err :: "write_env \<Rightarrow> reader \<Rightarrow> bool" where
  "tracked_err w r \<longleftrightarrow> rd_err r \<and> wv_temp w \<noteq> None \<and> wv_chmod w \<and> (case wv_write w of None \<Rightarrow> True | Some n \<Rightarrow> length (rd_data r) \<le> n)"

definition humanLogArchive :: "lifecycleReport \<Rightarrow> msg list" where
  "humanLogArchive report =
     (case lr_Archive report of None \<Rightarrow> []
      | Some a \<Rightarrow> [Sprintf ''Archive %s written to %s (%d bytes).'' [AStr (lf_Name a), AStr (lf_Path a), AInt (lf_Bytes a)]])"

definition download_failed :: "goerr option \<Rightarrow> bool \<Rightarrow> lifecycleError \<Rightarrow> lifecycle_run" where
  "download_failed out json e = lifecycle_render out json ''get.log-archives'' lifecycleReport0 humanLogArchive (Some e)"

text \<open>\<open>out_limit\<close> is the number of bytes standard output takes before it fails, \<open>None\<close> when it never does.\<close>

definition stream_archive :: "nat option \<Rightarrow> reader \<Rightarrow> lifecycle_run" where
  "stream_archive out_limit r =
     (let (written, failed) = (case out_limit of
            Some n \<Rightarrow> if n < length (rd_data r) then (take n (rd_data r), True) else (rd_data r, False)
          | None \<Rightarrow> (rd_data r, False)) in
      \<lparr>lc_out = [LDocument written],
       lc_err = (if failed then Some (ELifecycle (lifecycle_failure ''file-write-failed''
                   (Sprintf ''cannot write the archive to stdout: %v'' [AErr ''os''])))
                 else if rd_err r then Some (ELifecycle (transportError ''cannot read the log archive response''))
                 else None)\<rparr>)"

definition store_archive :: "write_env \<Rightarrow> goerr option \<Rightarrow> bool \<Rightarrow> string \<Rightarrow> string \<Rightarrow> reader \<Rightarrow> disk \<Rightarrow> lifecycle_run \<times> disk list" where
  "store_archive w out json name file r d0 =
     (case WriteFileAtomic w file r d0 of
        (Inl e, disks) \<Rightarrow>
          (download_failed out json (if tracked_err w r then transportError ''cannot read the log archive response'' else e), disks)
      | (Inr n, disks) \<Rightarrow>
          (lifecycle_render out json ''get.log-archives''
             (lifecycleReport0\<lparr>lr_Archive := Some \<lparr>lf_Name = name, lf_Path = file, lf_Bytes = n\<rparr>\<rparr>) humanLogArchive None, disks))"

definition check_download :: "bool \<Rightarrow> string \<Rightarrow> string \<Rightarrow> lifecycleError option" where
  "check_download json name file =
     (case checkLogName name ''the archive name'' of
        Some e \<Rightarrow> Some e
      | None \<Rightarrow>
          if file = [] then Some (lifecycle_failure ''invalid-arguments''
            (Text ''an archive is downloaded into a file: pass -f FILE, or -f - to stream it to stdout''))
          else if file = ''-'' \<and> json then Some (lifecycle_failure ''invalid-arguments''
            (Text ''-f - streams the archive to stdout, where -o json writes its result; choose one''))
          else None)"

definition archive_request :: "(string \<Rightarrow> bool) \<Rightarrow> restOptions \<Rightarrow> string \<Rightarrow> http_request option" where
  "archive_request url_ok o' name = api_Get url_ok (SubResources [name] (LoxiClient_LogArchives o'))"

definition LogArchiveDownload ::
  "(string \<Rightarrow> bool) \<Rightarrow> gateway \<Rightarrow> write_env \<Rightarrow> goerr option \<Rightarrow> nat option \<Rightarrow> restOptions \<Rightarrow> bool \<Rightarrow> string \<Rightarrow> string \<Rightarrow> disk
     \<Rightarrow> lifecycle_run \<times> disk list" where
  "LogArchiveDownload url_ok gw w out out_limit o' json name file d0 =
     (case check_download json name file of
        Some e \<Rightarrow> (download_failed out json e, [d0])
      | None \<Rightarrow>
          (case send gw (archive_request url_ok o' name) of
             NoResponse \<Rightarrow> (download_failed out json (transportError ''log archive request failed''), [d0])
           | Response status hs raw \<Rightarrow>
               if status \<noteq> 200 then
                 (download_failed out json
                    (case readBody raw ''log archive'' of Inl e \<Rightarrow> e | Inr body \<Rightarrow> NewStatusError status body), [d0])
               else if file = ''-'' then (stream_archive out_limit (body_reader raw), [d0])
               else store_archive w out json name file (body_reader raw) d0))"

subsection \<open>What the operations guarantee\<close>

interpretation log_archives: verbatim_read "\<lambda>gw. LogArchivesList url_ok gw o'" "api_Get url_ok (LoxiClient_LogArchives o')"
  "decode_object logArchiveList_fields logArchiveList0"
  for url_ok o'
  unfolding LogArchivesList_def by (rule read_run_verbatim)

lemma logs_verbatim:
  assumes "check_logs_options lo = None"
  shows "verbatim_read (\<lambda>gw json. LogsGet url_ok gw o' json lo) (logs_page_request url_ok o' lo) decode_logPage"
  unfolding LogsGet_def using assms read_run_verbatim by simp

text \<open>A name that passes is one segment of the address, and it is what \<open>path.Base\<close> makes of it.\<close>

lemma path_Base_plain: "p \<noteq> [] \<Longrightarrow> CHR ''/'' \<notin> set p \<Longrightarrow> path_Base p = p"
proof -
  assume p: "p \<noteq> []" "CHR ''/'' \<notin> set p"
  have "last p \<noteq> CHR ''/''" using p by (metis last_in_set)
  then have "dropWhile (\<lambda>c. c = CHR ''/'') (rev p) = rev p" by (simp add: dropWhile_eq_self_iff hd_rev)
  moreover have "takeWhile (\<lambda>c. c \<noteq> CHR ''/'') (rev p) = rev p" using p by (intro takeWhile_eq_all_conv [THEN iffD2]) auto
  ultimately show ?thesis using p(1) unfolding path_Base_def Let_def by (simp only: rev_rev_ident rev_is_Nil_conv if_False)
qed

lemma checkLogName_None: "checkLogName name what = None \<longleftrightarrow> plain_segment name \<and> backslash \<notin> set name"
proof
  assume "plain_segment name \<and> backslash \<notin> set name"
  then have "name \<noteq> []" "CHR ''/'' \<notin> set name" "name \<noteq> ''.''" "name \<noteq> ''..''" "backslash \<notin> set name"
    by (auto simp: plain_segment_def)
  then show "checkLogName name what = None" using path_Base_plain [of name] by (auto simp: checkLogName_def list_ex_iff)
qed (auto simp: checkLogName_def plain_segment_def list_ex_iff split: if_splits)

text \<open>A failed download leaves every file but the temporary one, and a successful one stores the whole archive.\<close>

lemma WriteFileAtomic_torn:
  assumes "wv_temp w = Some tmp" "tmp \<noteq> path" "WriteFileAtomic w path r d0 = (out, trace)" "d \<in> set trace" "rd_err r"
  shows "d path = d0 path"
  using assms
  by (auto simp: WriteFileAtomic_def Let_def os_Remove_def copied_def split: if_splits prod.splits option.splits)

lemma download_disks:
  assumes "LogArchiveDownload url_ok gw w out out_limit o' json name file d0 = (r, disks)" "d \<in> set disks"
    and "wv_temp w = Some tmp" "tmp \<noteq> file" "p \<noteq> tmp"
  shows "d p = d0 p \<or> p = file \<and> (\<exists>hs data. send gw (archive_request url_ok o' name) = Response 200 hs (Whole data)
      \<and> d p = Some (temp_file data True))"
proof (cases "disks = [d0]")
  case False
  then obtain hs raw where s: "send gw (archive_request url_ok o' name) = Response 200 hs raw"
      and r: "store_archive w out json name file (body_reader raw) d0 = (r, disks)"
    using assms(1) by (auto simp: LogArchiveDownload_def split: option.splits http_result.splits if_splits)
  then obtain res where f: "WriteFileAtomic w file (body_reader raw) d0 = (res, disks)"
    by (auto simp: store_archive_def split: prod.splits sum.splits)
  show ?thesis
  proof (cases raw)
    case (Whole data)
    with WriteFileAtomic_states [OF assms(3,4) f assms(2)] assms(5) s show ?thesis by (cases "p = file") (auto simp: body_reader_def)
  next
    case (Torn data)
    with WriteFileAtomic_torn [OF assms(3,4) f assms(2)] WriteFileAtomic_states(2) [OF assms(3,4) f assms(2)] assms(5)
    show ?thesis by (cases "p = file") (auto simp: body_reader_def)
  qed
qed (use assms(2) in simp)

end
