(* ===== verification/LbSafety.thy ===== *)
theory LbSafety
  imports CreateLb "HOL-Library.Multiset"
begin

section \<open>What \<open>create lb\<close> guarantees\<close>

text \<open>
  Termination of the port loops, the port span of a rule, the end points of a model, presence on the wire, and the
  refinement of a plan with one request per protocol.
\<close>

subsection \<open>The loop over target ports\<close>

lemma wrap64_id: "- (2 ^ 63) \<le> i \<Longrightarrow> i < 2 ^ 63 \<Longrightarrow> wrap64 i = i"
  by (simp add: wrap64_def)

lemma wrap64_range: "- (2 ^ 63) \<le> wrap64 i \<and> wrap64 i < 2 ^ 63"
  by (simp add: wrap64_def)

lemma target_loop_returns:
  assumes "endTP < 2 ^ 63 - 1" "- (2 ^ 63) \<le> t" "t \<le> endTP + 1"
  shows "target_loop t endTP acc = Some (acc @ map word_of_int [t..endTP])"
  using assms(2,3)
proof (induction "nat (endTP + 1 - t)" arbitrary: t acc)
  case 0
  then have "t = endTP + 1" by simp
  then show ?case by (subst target_loop.simps) simp
next
  case (Suc n)
  then have t: "t \<le> endTP" by simp
  have "wrap64 (t + 1) = t + 1" using Suc t assms(1) by (intro wrap64_id) auto
  moreover have "target_loop (t + 1) endTP (acc @ [word_of_int t]) = Some ((acc @ [word_of_int t]) @ map word_of_int [t + 1..endTP])"
    using Suc t by (intro Suc.hyps(1)) auto
  ultimately show ?case using t upto_rec1 [OF t] by (subst target_loop.simps) simp
qed

lemma target_loop_ends: "target_loop t endTP acc = Some y \<Longrightarrow> \<not> (endTP = 2 ^ 63 - 1 \<and> t < 2 ^ 63)"
proof (rule target_loop.raw_induct [where P = "\<lambda>t endTP acc y. \<not> (endTP = 2 ^ 63 - 1 \<and> t < 2 ^ 63)"])
  fix loop :: "int \<Rightarrow> int \<Rightarrow> 16 word list \<Rightarrow> 16 word list option" and t endTP acc y
  assume ih: "\<And>t endTP acc y. loop t endTP acc = Some y \<Longrightarrow> \<not> (endTP = 2 ^ 63 - 1 \<and> t < 2 ^ 63)"
    and y: "(if t \<le> endTP then loop (wrap64 (t + 1)) endTP (acc @ [word_of_int t]) else Some acc) = Some y"
  then show "\<not> (endTP = 2 ^ 63 - 1 \<and> t < 2 ^ 63)" using wrap64_range [of "t + 1"] by (auto split: if_splits)
qed

lemma target_loop_endless: "t < 2 ^ 63 \<Longrightarrow> target_loop t (2 ^ 63 - 1) acc = None"
  using target_loop_ends [of t "2 ^ 63 - 1" acc] by (cases "target_loop t (2 ^ 63 - 1) acc") auto

definition endless :: "string \<Rightarrow> bool" where
  "endless s \<longleftrightarrow> (case parse_pair s of Inr (Some (ports, startTP, endTP)) \<Rightarrow> endTP = 2 ^ 63 - 1 | _ \<Rightarrow> False)"

definition well_read :: "string \<Rightarrow> bool" where
  "well_read s \<longleftrightarrow> (case parse_pair s of Inl e \<Rightarrow> False | Inr p \<Rightarrow> True)"

lemma Atoi_range: "Atoi s = Some n \<Longrightarrow> - (2 ^ 63) \<le> n \<and> n < 2 ^ 63"
  using Atoi_chars by blast

lemma parse_targets_range:
  assumes "parse_targets parts = Inr (Some (a, b))"
  shows "- (2 ^ 63) \<le> a \<and> a \<le> b \<and> b < 2 ^ 63"
  using assms by (auto simp: parse_targets_def dest!: Atoi_range split: list.splits option.splits if_splits)

lemma parse_ports_length: "parse_ports ps = Inr ports \<Longrightarrow> length ports = length ps"
  by (induction ps arbitrary: ports) (auto split: option.splits sum.splits)

lemma parse_pair_range:
  assumes "parse_pair s = Inr (Some (ports, a, b))"
  shows "ports \<noteq> [] \<and> - (2 ^ 63) \<le> a \<and> a \<le> b \<and> b < 2 ^ 63"
proof -
  obtain service target where t: "parse_targets (split_on (CHR ''-'') target) = Inr (Some (a, b))"
      and p: "parse_ports (split_on (CHR ''-'') service) = Inr ports"
    using assms by (auto simp: parse_pair_def split: list.splits sum.splits option.splits)
  have "length ports = length (split_on (CHR ''-'') service)" by (rule parse_ports_length [OF p])
  then have "ports \<noteq> []" using split_on_nonempty by (metis length_0_conv)
  with parse_targets_range [OF t] show ?thesis by simp
qed

lemma store_ports_returns:
  assumes "- (2 ^ 63) \<le> a" "a \<le> b" "b < 2 ^ 63 - 1"
  shows "store_ports ports a b m = Some (fold (\<lambda>p. map_put (word_of_int p) (map word_of_int [a..b])) ports m)"
  using assms by (induction ports arbitrary: m) (auto simp: target_loop_returns)

lemma store_ports_None: "ports \<noteq> [] \<Longrightarrow> - (2 ^ 63) \<le> a \<Longrightarrow> a \<le> b \<Longrightarrow> b < 2 ^ 63 \<Longrightarrow> store_ports ports a b m = None \<longleftrightarrow> b = 2 ^ 63 - 1"
  using store_ports_returns [of a b ports m] target_loop_endless [of a "[]"] by (cases ports; cases "b = 2 ^ 63 - 1") auto

lemma port_pairs_None: "port_pairs ss m = None \<longleftrightarrow> list_ex endless (takeWhile well_read ss)"
proof (induction ss arbitrary: m)
  case (Cons s ss)
  show ?case
  proof (cases "parse_pair s")
    case (Inr p)
    show ?thesis
    proof (cases p)
      case (Some q)
      obtain ports a b where q: "q = (ports, a, b)" by (cases q)
      show ?thesis
        using Cons parse_pair_range [of s ports a b] store_ports_None [of ports a b m] Inr Some q
        by (auto simp: endless_def well_read_def split: option.splits)
    qed (use Inr Cons in \<open>auto simp: endless_def well_read_def\<close>)
  qed (simp add: well_read_def)
qed simp

lemma GetPortPairList_None: "GetPortPairList ss = None \<longleftrightarrow> list_ex endless (takeWhile well_read ss)"
  unfolding GetPortPairList_def by (rule port_pairs_None)

subsection \<open>The port span\<close>

lemma port_span_two: "port_span [a, b] = (min a b, max a b)"
  by (auto simp: min_def max_def)

lemma port_span_order:
  assumes "mset ks = mset ks'" "length ks \<le> 2"
  shows "port_span ks = port_span ks'"
proof -
  have len: "length ks' = length ks" using assms(1) mset_eq_length by metis
  consider "ks = []" | a where "ks = [a]" | a b where "ks = [a, b]"
    using assms(2) by (cases ks; cases "tl ks"; cases "tl (tl ks)") auto
  then show ?thesis
  proof cases
    case 3
    then obtain c d where "ks' = [c, d]" using len by (cases ks'; cases "tl ks'") auto
    with 3 assms(1) have "ks' = [a, b] \<or> ks' = [b, a]" by (auto simp: add_eq_conv_ex)
    with 3 show ?thesis by (auto simp: port_span_two min.commute max.commute)
  qed (use len assms(1) in auto)
qed

subsection \<open>End points\<close>

lemma role_numbers_spec: "role_numbers rs = Inr ns \<Longrightarrow> length ns = length rs \<and> (\<forall>i < length rs. EpRoleToNum (rs ! i) = Inr (ns ! i))"
proof (induction rs arbitrary: ns)
  case (Cons r rs)
  then obtain n ms where "EpRoleToNum r = Inr n" "role_numbers rs = Inr ms" "ns = n # ms" by (auto split: sum.splits)
  with Cons.IH show ?case by (auto simp: nth_Cons split: nat.splits)
qed simp

lemma EpRoleToNum_range: "EpRoleToNum r = Inr n \<Longrightarrow> n \<in> {0, 1, 2}"
  by (auto simp: EpRoleToNum_def Let_def split: if_splits)

lemma lb_endpoints_aligned:
  assumes "lb_endpoints l = Inr (es, roles, nixls)"
  shows "length roles = length es \<and> length nixls = length es \<and> set roles \<subseteq> {0, 1, 2}
    \<and> (cl_EpRoles l \<noteq> [] \<longrightarrow> length (cl_EpRoles l) = length es \<and> (\<forall>i < length es. EpRoleToNum (cl_EpRoles l ! i) = Inr (roles ! i)))"
proof -
  have r: "parseEndpointRoles (cl_EpRoles l) (length es) = Inr roles" and n: "alignNixlPorts (cl_NixlPorts l) (length es) = Inr nixls"
    using assms by (auto simp: lb_endpoints_def split: sum.splits)
  from n have "length nixls = length es" by (auto simp: alignNixlPorts_def split: if_splits)
  moreover from r have "length roles = length es \<and> set roles \<subseteq> {0, 1, 2}
      \<and> (cl_EpRoles l \<noteq> [] \<longrightarrow> length (cl_EpRoles l) = length es \<and> (\<forall>i < length es. EpRoleToNum (cl_EpRoles l ! i) = Inr (roles ! i)))"
  proof (cases "cl_EpRoles l = []")
    case False
    with r have q: "role_numbers (cl_EpRoles l) = Inr roles" "length (cl_EpRoles l) = length es"
      by (auto simp: parseEndpointRoles_def split: if_splits)
    note s = role_numbers_spec [OF q(1)]
    then have "x \<in> {0, 1, 2}" if "x \<in> set roles" for x using that EpRoleToNum_range by (metis in_set_conv_nth)
    with s q show ?thesis by auto
  qed (auto simp: parseEndpointRoles_def)
  ultimately show ?thesis by blast
qed

text \<open>The end points of a model: each end point with each target port, in order, with its own role.\<close>

lemma lb_model_contents:
  assumes "lb_model l es roles nixls proto m = Inr model"
  shows "\<exists>startSPort endSPort targets. port_span (map fst m) = (startSPort, endSPort) \<and> map_of m startSPort = Some targets
    \<and> lm_Service model = lb_service l proto startSPort endSPort
    \<and> lm_Endpoints model = concat (map (\<lambda>(e, role, nixl). map (rule_endpoint e role nixl) targets) (zip es (zip roles nixls)))
    \<and> (cl_Mode l = ''dsr'' \<and> es \<noteq> [] \<longrightarrow> set targets \<subseteq> {startSPort})
    \<and> lm_SecondaryIPs model = map (\<lambda>sip. \<lparr>si_SecondaryIP = sip\<rparr>) (cl_SecIPs l)
    \<and> lm_SrcIPs model = map (\<lambda>sip. \<lparr>sr_Prefix = sip\<rparr>) (cl_AllowedSources l)"
proof -
  obtain s e where span: "port_span (map fst m) = (s, e)" by (cases "port_span (map fst m)")
  have m: "m \<noteq> []" "length m \<le> 2" using assms by (auto simp: lb_model_def split: if_splits)
  have "s \<in> set (map fst m)"
    using m span by (cases m; cases "tl m"; cases "tl (tl m)") (auto split: if_splits)
  then obtain targets where t: "map_of m s = Some targets" by (metis domIff dom_map_of_conv_image_fst list.set_map option.exhaust)
  from assms m span t obtain eps where eps: "rule_endpoints (cl_Mode l = ''dsr'') s es roles nixls targets = Inr eps"
      "model = \<lparr>lm_Service = lb_service l proto s e, lm_SecondaryIPs = map (\<lambda>sip. \<lparr>si_SecondaryIP = sip\<rparr>) (cl_SecIPs l),
         lm_SrcIPs = map (\<lambda>sip. \<lparr>sr_Prefix = sip\<rparr>) (cl_AllowedSources l), lm_Endpoints = eps\<rparr>"
    by (auto simp: lb_model_def split: sum.splits if_splits)
  with span t show ?thesis by (auto simp: rule_endpoints_def list_ex_iff split: if_splits)
qed

subsection \<open>The plan\<close>

definition create_step ::
  "gateway_env \<Rightarrow> restOptions \<Rightarrow> createLoadBalancerOptions \<Rightarrow> endpointSpec list \<times> int list \<times> int list \<Rightarrow> string \<times> string list \<Rightarrow> plan_step" where
  "create_step env o' l eps p =
     (case GetPortPairList (snd p) of
        Some (Inr m) \<Rightarrow>
          (case lb_model l (fst eps) (fst (snd eps)) (snd (snd eps)) (fst p) m of
             Inr model \<Rightarrow> Ask (LoadbalancerAPICall env o' model) | Inl e \<Rightarrow> Halt)
      | _ \<Rightarrow> Halt)"

lemma create_loop_follows:
  "create_lb_loop env o' l es roles nixls pairs log out = Some r \<Longrightarrow>
     outcome r = follow env {200} (map (create_step env o' l (es, roles, nixls)) pairs) log"
proof (induction pairs arbitrary: log out)
  case (Cons p pairs)
  obtain proto ps where "p = (proto, ps)" by (cases p)
  with Cons show ?case
    by (auto simp: create_step_def split: option.splits sum.splits prod.splits http_result.splits if_splits)
qed auto

text \<open>A plan that was followed to its end sent every one of its requests.\<close>

lemma follow_all: "follow env good steps log = (True, log') \<Longrightarrow> \<exists>reqs. log' = log @ reqs \<and> steps = map (\<lambda>r. Ask (Some r)) reqs"
proof (induction env good steps log arbitrary: log' rule: follow.induct)
  case (3 env good req steps log)
  then obtain status hs raw log1 where x: "exchange env req log = (Response status hs raw, log1)" "status \<in> good"
      "follow env good steps log1 = (True, log')"
    by (auto split: prod.splits http_result.splits if_splits)
  with exchange_log [OF x(1)] obtain r where r: "req = Some r" "log1 = log @ [r]" by auto
  from "3.IH" [OF x(1) [symmetric] refl x(2,3)] obtain reqs where "log' = log1 @ reqs" "steps = map (\<lambda>r. Ask (Some r)) reqs" by blast
  with r show ?case by (intro exI [of _ "r # reqs"]) simp
qed auto

definition accepted :: "peer \<Rightarrow> restOptions \<Rightarrow> createLoadBalancerOptions \<Rightarrow> gate_state \<Rightarrow> bool" where
  "accepted peer o' l st \<longleftrightarrow> ParseIP (cl_ExternalIP l) \<and> validateLBAIOptions l = None \<and> fst (fst (requireLBFeatures peer o' l st)) = None
     \<and> (cl_SecIPs l \<noteq> [] \<longrightarrow> cl_SCTP l \<noteq> [])"

text \<open>Either the run stops before any request, or its options were accepted and it is the loop.\<close>

lemma create_lb_cases:
  assumes "create_lb env o' order l0 args log st = Some (r, st')"
  shows "outcome r = (False, log) \<and> (rn_sent r = log)
    \<or> (\<exists>l es roles nixls. args \<noteq> [] \<and> l = l0\<lparr>cl_ExternalIP := args ! 0\<rparr> \<and> accepted (ge_peer env) o' l st \<and> lb_endpoints l = Inr (es, roles, nixls)
        \<and> outcome r = follow env {200} (map (create_step env o' l (es, roles, nixls)) (visited order (ProtoPortpair l))) log)"
  using assms create_loop_follows
  by (fastforce simp: create_lb_def ReadCreateLoadBalancerOptions_def accepted_def Let_def run_ends outcome_def
      split: if_splits prod.splits option.splits sum.splits)

text \<open>The options of a request: the outcome of a run that sent something, or ended without error.\<close>

lemma create_lb_sent:
  assumes "create_lb env o' order l0 args log st = Some (r, st')" "rn_sent r \<noteq> log \<or> rn_end r = Done None"
  shows "\<exists>l es roles nixls. args \<noteq> [] \<and> l = l0\<lparr>cl_ExternalIP := args ! 0\<rparr> \<and> accepted (ge_peer env) o' l st \<and> lb_endpoints l = Inr (es, roles, nixls)
    \<and> outcome r = follow env {200} (map (create_step env o' l (es, roles, nixls)) (visited order (ProtoPortpair l))) log"
  using create_lb_cases [OF assms(1)] assms(2) by (auto simp: outcome_def)

lemma create_step_Ask:
  assumes "create_step env o' l (es, roles, nixls) p = Ask req"
  shows "\<exists>m model. GetPortPairList (snd p) = Some (Inr m) \<and> lb_model l es roles nixls (fst p) m = Inr model
    \<and> req = LoadbalancerAPICall env o' model"
  using assms by (auto simp: create_step_def split: option.splits sum.splits)

subsection \<open>Presence on the wire\<close>

definition sent :: "string \<Rightarrow> bool \<Rightarrow> string list" where
  "sent k b = (if b then [k] else [])"

lemma sent_unless: "map fst (unless b k j) = sent k (\<not> b)"
  by (simp add: unless_def sent_def)

lemma sent_opt: "map fst (opt_member k f v) = sent k (v \<noteq> None)"
  by (simp add: opt_member_def sent_def split: option.splits)

lemma sent_filter: "map fst (filter snd ((k, b) # ps)) = sent k b @ map fst (filter snd ps)"
  by (simp add: sent_def)

lemma sent_False [simp]: "sent k False = []"
  by (simp add: sent_def)

lemmas sent_members = sent_unless sent_opt sent_filter

lemma u32IfGiven_None [simp]: "u32IfGiven v given = None \<longleftrightarrow> \<not> given \<and> v = 0"
  by (simp add: u32IfGiven_def)

lemma tripleIfGiven_None [simp]: "tripleIfGiven v given = None \<longleftrightarrow> \<not> given"
  by (simp add: tripleIfGiven_def)

lemmas apply_defs = applyAIServiceOptions_def apply_probe_def apply_flow_control_def apply_bands_def apply_routing_def apply_engine_def apply_tls_def

text \<open>The capacity gate's numeric knobs with the flag that sends them, and the band triples.\<close>

definition gate_knobs :: "createLoadBalancerOptions \<Rightarrow> (string \<times> bool) list" where
  "gate_knobs l =
    [(''fc_max_queue_depth'', cl_FcMaxQueueDepthSet l \<or> cl_FcMaxQueueDepth l \<noteq> 0),
     (''fc_max_queue_wait_ms'', cl_FcMaxQueueWaitMsSet l \<or> cl_FcMaxQueueWaitMs l \<noteq> 0),
     (''fc_mode'', cl_FcMode l \<noteq> []),
     (''fc_max_outstanding'', cl_FcMaxOutstandingSet l \<or> cl_FcMaxOutstanding l \<noteq> 0),
     (''fc_ep_max_inflight'', cl_FcEpMaxInflightSet l \<or> cl_FcEpMaxInflight l \<noteq> 0),
     (''fc_prefill_max_inflight'', cl_FcPrefillMaxInflightSet l \<or> cl_FcPrefillMaxInflight l \<noteq> 0),
     (''fc_decode_max_inflight'', cl_FcDecodeMaxInflightSet l \<or> cl_FcDecodeMaxInflight l \<noteq> 0),
     (''fc_telemetry_stale_ms'', cl_FcTelemetryStaleMsSet l \<or> cl_FcTelemetryStaleMs l \<noteq> 0),
     (''fc_adaptive'', cl_FcAdaptive l \<noteq> []),
     (''fc_warmup_ms'', cl_FcWarmupMsSet l \<or> cl_FcWarmupMs l \<noteq> 0),
     (''fc_ttft_target_ms'', cl_FcTtftTargetMsSet l \<or> cl_FcTtftTargetMs l \<noteq> 0),
     (''fc_tenant_max_share_pct'', cl_FcTenantMaxSharePctSet l \<or> cl_FcTenantMaxSharePct l \<noteq> 0),
     (''fc_expose_headers'', cl_FcExposeHeaders l \<noteq> [])]"

definition band_knobs :: "createLoadBalancerOptions \<Rightarrow> (string \<times> bool) list" where
  "band_knobs l =
    [(''fc_wake_policy'', cl_FcWakePolicy l \<noteq> []), (''fc_band_weights'', cl_FcBandWeightsSet l),
     (''fc_band_min_share_pct'', cl_FcBandMinSharePctSet l),
     (''fc_critical_reserve_pct'', cl_FcCriticalReservePctSet l \<or> cl_FcCriticalReservePct l \<noteq> 0),
     (''fc_band_wait_ms'', cl_FcBandWaitMsSet l), (''fc_band_queue_pct'', cl_FcBandQueuePctSet l),
     (''fc_shed_queue'', cl_FcShedQueue l \<noteq> []), (''fc_tenant_wake'', cl_FcTenantWake l \<noteq> []), (''fc_llmd_headers'', cl_FcLlmdHeaders l \<noteq> []),
     (''ai_default_reservation'', cl_AiDefaultReservation l \<noteq> []),
     (''ai_default_max_tokens'', cl_AiDefaultMaxTokensSet l \<or> cl_AiDefaultMaxTokens l \<noteq> 0),
     (''ai_objective_strict'', cl_AiObjectiveStrictSet l \<or> cl_AiObjectiveStrict l)]"

text \<open>The service the command builds, group by group.\<close>

lemma flow_control_members:
  "lbFlowControl_members (lb_service l proto s e) =
     lbFlowControl_members (apply_flow_control l loadBalancerService0)"
  by (simp add: lb_service_def apply_defs lbFlowControl_members_def)

lemma gate_knobs_sent:
  "map fst (lbFlowControl_members (lb_service l proto s e)) =
     map fst (filter snd ((''connectionLimit'', cl_ConnectionLimit l \<noteq> 0) # gate_knobs l))"
  unfolding flow_control_members gate_knobs_def
  by (simp add: lbFlowControl_members_def apply_flow_control_def loadBalancerService0_def sent_members del: filter.simps)

lemma band_members: "lbBands_members (lb_service l proto s e) = lbBands_members (apply_bands l loadBalancerService0)"
  by (simp add: lb_service_def apply_defs lbBands_members_def)

lemma band_knobs_sent: "map fst (lbBands_members (lb_service l proto s e)) = map fst (filter snd (band_knobs l))"
  unfolding band_members band_knobs_def
  by (simp add: lbBands_members_def apply_bands_def loadBalancerService0_def sent_members del: filter.simps)

subsection \<open>Runs\<close>

definition lb_pairs :: "createLoadBalancerOptions \<Rightarrow> string list" where
  "lb_pairs l = cl_TCP l @ cl_UDP l @ cl_SCTP l"

lemma lb_pairs_external [simp]: "lb_pairs (l\<lparr>cl_ExternalIP := ip\<rparr>) = lb_pairs l"
  by (simp add: lb_pairs_def)

lemma icmp_pair_ends: "\<not> endless ''0:0''"
  by code_simp

lemma visited_subset: "set (visited order m) \<subseteq> set m"
proof
  fix p
  assume "p \<in> set (visited order m)"
  then obtain k where "p \<in> set (case map_of m k of None \<Rightarrow> [] | Some v \<Rightarrow> [(k, v)])" by (auto simp: visited_def)
  then show "p \<in> set m" by (cases "map_of m k") (auto dest: map_of_SomeD)
qed

lemma ProtoPortpair_ends:
  assumes "\<forall>s \<in> set (lb_pairs l). \<not> endless s" "p \<in> set (ProtoPortpair l)"
  shows "GetPortPairList (snd p) \<noteq> None"
proof -
  have "\<forall>s \<in> set (snd p). \<not> endless s"
    using assms icmp_pair_ends by (auto simp: ProtoPortpair_def lb_pairs_def split: if_splits)
  then have "\<not> list_ex endless (takeWhile well_read (snd p))" by (auto simp: list_ex_iff dest: set_takeWhileD)
  then show ?thesis by (simp add: GetPortPairList_None del: not_None_eq)
qed

lemma create_loop_returns:
  assumes "\<forall>p \<in> set pairs. GetPortPairList (snd p) \<noteq> None"
  shows "create_lb_loop env o' l es roles nixls pairs log out \<noteq> None"
  using assms
proof (induction pairs arbitrary: log out)
  case (Cons p pairs)
  obtain proto ps where p: "p = (proto, ps)" by (cases p)
  then obtain x where "GetPortPairList ps = Some x" using Cons.prems by auto
  with Cons p show ?case by (auto split: sum.splits prod.splits http_result.splits)
qed simp

lemma create_lb_returns:
  assumes "\<forall>s \<in> set (lb_pairs l). \<not> endless s"
  shows "create_lb env o' order l args log st \<noteq> None"
proof -
  have loop: "create_lb_loop env o' (l\<lparr>cl_ExternalIP := ip\<rparr>) es roles nixls (visited order (ProtoPortpair (l\<lparr>cl_ExternalIP := ip\<rparr>))) log out \<noteq> None"
    for es roles nixls out ip
  proof (rule create_loop_returns)
    show "\<forall>p \<in> set (visited order (ProtoPortpair (l\<lparr>cl_ExternalIP := ip\<rparr>))). GetPortPairList (snd p) \<noteq> None"
      using assms ProtoPortpair_ends [of "l\<lparr>cl_ExternalIP := ip\<rparr>"] visited_subset by fastforce
  qed
  show ?thesis
    by (auto simp: create_lb_def ReadCreateLoadBalancerOptions_def Let_def loop split: if_splits prod.splits option.splits sum.splits)
qed

lemma lb_service_identity:
  "ls_Protocol (lb_service l proto s e) = proto" "ls_ExternalIP (lb_service l proto s e) = cl_ExternalIP l"
  "ls_Port (lb_service l proto s e) = s" "ls_PortMax (lb_service l proto s e) = e" "ls_Mode (lb_service l proto s e) = ModeToNum (cl_Mode l)"
  by (simp_all add: lb_service_def apply_defs)

text \<open>The models of the requests, one per step of a plan that was followed to its end.\<close>

lemma steps_models:
  assumes "map (create_step env o' l (es, roles, nixls)) ps = map (\<lambda>r. Ask (Some r)) reqs"
  shows "\<exists>models. map (LoadbalancerAPICall env o') models = map Some reqs \<and> map (\<lambda>m. ls_Protocol (lm_Service m)) models = map fst ps
    \<and> (\<forall>m \<in> set models. ls_ExternalIP (lm_Service m) = cl_ExternalIP l)"
  using assms
proof (induction ps arbitrary: reqs)
  case (Cons p ps)
  then obtain r rs where reqs: "reqs = r # rs" by auto
  with Cons.prems have step: "create_step env o' l (es, roles, nixls) p = Ask (Some r)" by simp
  obtain m model where m: "lb_model l es roles nixls (fst p) m = Inr model" "LoadbalancerAPICall env o' model = Some r"
    using create_step_Ask [OF step] by auto
  have "ls_Protocol (lm_Service model) = fst p \<and> ls_ExternalIP (lm_Service model) = cl_ExternalIP l"
    using lb_model_contents [OF m(1)] lb_service_identity by auto
  moreover obtain models where "map (LoadbalancerAPICall env o') models = map Some rs" "map (\<lambda>m. ls_Protocol (lm_Service m)) models = map fst ps"
      "\<forall>m \<in> set models. ls_ExternalIP (lm_Service m) = cl_ExternalIP l"
    using Cons.IH [of rs] Cons.prems reqs by auto
  ultimately show ?case using m(2) reqs by (intro exI [of _ "model # models"]) simp
qed simp

lemma visited_keys: "distinct order \<Longrightarrow> distinct (map fst (visited order m)) \<and> set (map fst (visited order m)) = set order \<inter> fst ` set m"
proof (induction order)
  case (Cons k order)
  have v: "visited (k # order) m = (case map_of m k of None \<Rightarrow> [] | Some v \<Rightarrow> [(k, v)]) @ visited order m" by (simp add: visited_def)
  show ?case
  proof (cases "map_of m k")
    case None
    then have "visited (k # order) m = visited order m" "map_of m k = None" using v by simp_all
    then show ?thesis using Cons by (auto simp: map_of_eq_None_iff)
  next
    case (Some w)
    then have "visited (k # order) m = (k, w) # visited order m" "k \<in> fst ` set m" using v by (auto dest: map_of_SomeD intro: rev_image_eqI)
    then show ?thesis using Cons by auto
  qed
qed (simp add: visited_def)

subsection \<open>Pairs of one port\<close>

text \<open>One port each: the key is the port's low 16 bits, and two pairs make a span.\<close>

lemma one_pair:
  assumes "parse_pair s = Inr (Some ([p], t, t))" "t < 2 ^ 63 - 1"
  shows "port_pairs (s # ss) m = port_pairs ss (map_put (word_of_int p) [word_of_int t] m)"
  using assms parse_pair_range [OF assms(1)] store_ports_returns [of t t "[p]" m] by simp

end
