(* ===== verification/Examples.thy ===== *)
theory Examples
  imports ApplianceSafety FeatureGate SnapshotFile BandTriple JsonPrint GatewayLogs LbSafety
begin

section \<open>Concrete documents and hosts\<close>

text \<open>
  A backend that speaks the contract, and documents it may answer with. Each document is a printed
  value, so that \<open>parse_print\<close> gives its parsed form; the checks on the value are evaluated by the code
  equations of the model. The witnesses of the properties rest on these results.
\<close>

definition no_url :: url_parser where "no_url s = None"

lemma decodeExactOne_print:
  assumes "plain v" "depth v \<le> maxNestingDepth" "v \<noteq> JNull"
  shows "decodeExactOne dec zero (print_json v) = (case dec zero v of None \<Rightarrow> Inl syntax_error | Some x \<Rightarrow> Inr x)"
  by (rule decodeExactOne_parsed [OF parse_print [OF assms(1,2)] assms(3)])

definition printable :: "document \<Rightarrow> bool" where
  "printable ms \<longleftrightarrow> plain (JObj ms) \<and> depth (JObj ms) \<le> maxNestingDepth \<and> unique_keys (JObj ms)
     \<and> inspectPayloadValue (JObj ms) = None"

lemma success_accepted:
  assumes "printable ms" "map_of (payloadRegistry up) t = Some spec" "ps_Validate spec = validateWith fs zero check"
    and "exactStringField ms ''schemaVersion'' (pt_SchemaVersion t) = None" "exactStringField ms ''command'' (pt_Command t) = None"
    and "\<not> isOperationErrorDocument ms" "validateRequiredAndAllowedKeySet ms (ps_RequiredKeys spec) (ps_OptionalKeys spec) = None"
    and "(case dec_struct True fs zero (JObj ms) of None \<Rightarrow> False | Some doc \<Rightarrow> check doc = None)"
  shows "ValidatePayload up t (print_json (JObj ms)) =
    Inr \<lparr>vp_Tuple = t, vp_Command = pt_Command t, vp_Document = print_json (JObj ms),
         vp_OperationID = optionalStringField ms ''operationId'', vp_OperationError = None\<rparr>"
proof -
  have "ps_Validate spec (print_json (JObj ms)) = None"
    using assms(1,8) decodeExactOne_print [of "JObj ms" "dec_struct True fs" zero]
    unfolding assms(3) validateWith_None by (auto simp: printable_def decodePayload_def split: option.splits)
  then have "validateDocument spec t (print_json (JObj ms)) ms =
    Inr \<lparr>vp_Tuple = t, vp_Command = pt_Command t, vp_Document = print_json (JObj ms),
         vp_OperationID = optionalStringField ms ''operationId'', vp_OperationError = None\<rparr>"
    using assms(4-7) observedCommand_bound [OF assms(5)] by (simp add: validateDocument_def Let_def)
  with assms(1,2) parse_print [of "JObj ms"] show ?thesis by (auto simp: ValidatePayload_iff printable_def)
qed

lemma error_accepted:
  assumes "printable ms" "map_of (payloadRegistry up) t = Some spec"
    and "exactStringField ms ''schemaVersion'' (pt_SchemaVersion t) = None" "exactStringField ms ''command'' (pt_Command t) = None"
    and "isOperationErrorDocument ms"
    and "validateRequiredAndAllowedKeySet ms operationErrorRequiredKeys operationErrorOptionalKeys = None"
    and "dec_struct True operationError_fields backendOperationError0 (JObj ms) = Some e" "check_operationError e = None"
  shows "ValidatePayload up t (print_json (JObj ms)) =
    Inr \<lparr>vp_Tuple = t, vp_Command = pt_Command t, vp_Document = print_json (JObj ms),
         vp_OperationID = boe_OperationID e, vp_OperationError = Some e\<rparr>"
proof -
  have "validateOperationErrorPayload ms (print_json (JObj ms)) = Inr e"
    using assms(1,6-8) decodeExactOne_print [of "JObj ms" "dec_struct True operationError_fields" backendOperationError0]
    by (simp add: printable_def validateOperationErrorPayload_def decodePayload_def)
  then have "validateDocument spec t (print_json (JObj ms)) ms =
    Inr \<lparr>vp_Tuple = t, vp_Command = pt_Command t, vp_Document = print_json (JObj ms),
         vp_OperationID = boe_OperationID e, vp_OperationError = Some e\<rparr>"
    using assms(3-5) observedCommand_bound [OF assms(4)] by (simp add: validateDocument_def Let_def)
  with assms(1,2) parse_print [of "JObj ms"] show ?thesis by (auto simp: ValidatePayload_iff printable_def)
qed

lemma registry_lookup:
  "(t, spec) \<in> set (payloadRegistry up) \<Longrightarrow> map_of (payloadRegistry up) t = Some spec"
proof (rule map_of_is_SomeI)
  have "distinct json_commands" by code_simp
  then show "distinct (map fst (payloadRegistry up))"
    unfolding registry_keys by (simp add: distinct_map inj_on_def)
qed

subsection \<open>A host that advertises the ten commands\<close>

definition row_json :: "contractCommand \<Rightarrow> json" where
  "row_json row = JObj [(''name'', JStr (cc_Name row)), (''readOnly'', JBool (cc_ReadOnly row)),
     (''capabilities'', JArr (map JStr (cc_Capabilities row)))]"

definition demo_contract :: contract where
  "demo_contract = \<lparr>co_APIVersion = ''loxilb.io/appliance-backend/v1'', co_Kind = ''BackendContract'', co_BackendVersion = ''1'',
     co_ProductRelease = ''1'', co_SchemaVersion = payloadSchema, co_Commands = take 10 contractCommands\<rparr>"

definition demo_contract_json :: json where
  "demo_contract_json = JObj [(''apiVersion'', JStr ''loxilb.io/appliance-backend/v1''), (''kind'', JStr ''BackendContract''),
     (''backendVersion'', JStr ''1''), (''productRelease'', JStr ''1''), (''schemaVersion'', JStr payloadSchema),
     (''commands'', JArr (map row_json (take 10 contractCommands)))]"

definition demo_contract_bytes :: bytes where
  "demo_contract_bytes = print_json demo_contract_json"

lemma demo_contract_plain: "plain demo_contract_json \<and> depth demo_contract_json \<le> maxNestingDepth \<and> demo_contract_json \<noteq> JNull"
  by code_simp

definition demo_wire :: contractWire where
  "demo_wire = \<lparr>wi_APIVersion = Some ''loxilb.io/appliance-backend/v1'', wi_Kind = Some ''BackendContract'',
     wi_BackendVersion = Some ''1'', wi_ProductRelease = Some ''1'', wi_SchemaVersion = Some payloadSchema,
     wi_Commands = Some (map (\<lambda>row. \<lparr>cw_Name = Some (cc_Name row), cw_ReadOnly = Some (cc_ReadOnly row),
        cw_Capabilities = Some (cc_Capabilities row)\<rparr>) (take 10 contractCommands))\<rparr>"

lemma demo_contract_wire: "dec_struct True contractWire_fields contractWire0 demo_contract_json = Some demo_wire"
  by code_simp

lemma demo_contract_commands: "decode_commands 0 (case wi_Commands demo_wire of Some cs \<Rightarrow> cs | None \<Rightarrow> []) = Inr (take 10 contractCommands)"
  by code_simp

lemma demo_contract_decoded: "decodeContract demo_contract_bytes = Inr demo_contract"
  using demo_contract_plain demo_contract_wire demo_contract_commands
  by (simp add: decodeContract_def demo_contract_bytes_def decodeExactOne_print demo_wire_def demo_contract_def)

lemma demo_contract_valid: "Contract_validate demo_contract = None"
  by (simp add: Contract_validate_None demo_contract_def legacyContractCommandCount_def)

definition speaks :: "bytes \<Rightarrow> run_error \<Rightarrow> run_outcome" where
  "speaks out how = \<lparr>oc_stdout = out, oc_stderr = [], oc_ctxDone = False, oc_run = how\<rparr>"

text \<open>\<open>demo_host oc\<close> advertises the contract and ends every operation with \<open>oc\<close>.\<close>

definition demo_host :: "run_outcome \<Rightarrow> host" where
  "demo_host oc = \<lparr>ho_run = (\<lambda>log s. if s = handshake_spawn then speaks demo_contract_bytes RunNil else oc),
     ho_entropy = (\<lambda>_. None)\<rparr>"

lemma demo_handshake: "handshake_at (demo_host oc) log = Inr demo_contract"
  by (simp add: handshake_at_def handshake_verdict_def demo_host_def speaks_def run_verdict_def Result0_def
      demo_contract_decoded demo_contract_valid)

subsection \<open>Documents\<close>

text \<open>An operation error of the backend: a partial backup, with its recovery handle.\<close>

definition demo_error_doc :: document where
  "demo_error_doc =
     [(''schemaVersion'', JStr ''appliance-backend-payload/v1''),
      (''command'', JStr ''backup create''),
      (''result'', JStr ''PARTIAL''),
      (''exit'', JNum ''8''),
      (''code'', JStr ''PARTIAL''),
      (''origin'', JStr ''backend''),
      (''componentCode'', JStr ''BACKUP_INCOMPLETE''),
      (''retryable'', JBool False),
      (''operationId'', JStr ''op-7''),
      (''recoveryGuidance'', JStr ''inspect op-7'')]"

definition demo_error_bytes :: bytes where
  "demo_error_bytes = print_json (JObj demo_error_doc)"

definition demo_operationError :: backendOperationError where
  "demo_operationError = \<lparr>boe_SchemaVersion = payloadSchema, boe_Command = ''backup create'', boe_Result = ''PARTIAL'', boe_Exit = 8,
     boe_Code = ''PARTIAL'', boe_Origin = ''backend'', boe_ComponentCode = ''BACKUP_INCOMPLETE'', boe_Retryable = False, boe_Message = [],
     boe_CorrelationID = [], boe_OperationID = ''op-7'', boe_RecoveryGuidance = ''inspect op-7''\<rparr>"

lemma demo_error_checks:
  "printable demo_error_doc"
  "exactStringField demo_error_doc ''schemaVersion'' (pt_SchemaVersion (tuple ''backup create'')) = None"
  "exactStringField demo_error_doc ''command'' (pt_Command (tuple ''backup create'')) = None"
  "isOperationErrorDocument demo_error_doc"
  "validateRequiredAndAllowedKeySet demo_error_doc operationErrorRequiredKeys operationErrorOptionalKeys = None"
  "dec_struct True operationError_fields backendOperationError0 (JObj demo_error_doc) = Some demo_operationError"
  "check_operationError demo_operationError = None"
  by code_simp+

lemma backup_create_registered:
  "map_of (payloadRegistry up) (tuple ''backup create'') = Some (base_spec ''backup create'' ''backup-create.schema.json''
     [''schemaVersion'', ''command'', ''result'', ''operationId'', ''archivePath'', ''sha256'', ''sizeBytes'', ''encrypted'',
      ''manifestSchema'', ''componentChecksums'', ''consistency''] [] validateBackupCreatePayload)"
  by (rule registry_lookup) (simp add: payloadRegistry_def)

lemma demo_error_accepted:
  "ValidatePayload up (tuple ''backup create'') demo_error_bytes =
     Inr \<lparr>vp_Tuple = tuple ''backup create'', vp_Command = ''backup create'', vp_Document = demo_error_bytes,
          vp_OperationID = ''op-7'', vp_OperationError = Some demo_operationError\<rparr>"
  using error_accepted [OF demo_error_checks(1) backup_create_registered demo_error_checks(2-7)]
  by (simp add: demo_error_bytes_def demo_operationError_def tuple_def)

text \<open>A success document of \<open>backup create\<close> that reports an incomplete backup.\<close>

definition partial_backup_doc :: document where
  "partial_backup_doc =
     [(''schemaVersion'', JStr ''appliance-backend-payload/v1''),
      (''command'', JStr ''backup create''),
      (''result'', JStr ''PARTIAL''),
      (''operationId'', JStr ''op-1''),
      (''archivePath'', JStr ''/b.tar''),
      (''sha256'', JStr ''0000000000000000000000000000000000000000000000000000000000000000''),
      (''sizeBytes'', JNum ''1''),
      (''encrypted'', JBool True),
      (''manifestSchema'', JStr ''m''),
      (''componentChecksums'', JObj [(''oam'', JStr ''aaaaaaaaaaaaaaaaaaaaaaaaaaaaaaaaaaaaaaaaaaaaaaaaaaaaaaaaaaaaaaaa'')]),
      (''consistency'', JStr ''INCOMPLETE'')]"

lemma partial_backup_checks:
  "printable partial_backup_doc"
  "exactStringField partial_backup_doc ''schemaVersion'' (pt_SchemaVersion (tuple ''backup create'')) = None"
  "exactStringField partial_backup_doc ''command'' (pt_Command (tuple ''backup create'')) = None"
  "\<not> isOperationErrorDocument partial_backup_doc"
  "validateRequiredAndAllowedKeySet partial_backup_doc
    [''schemaVersion'', ''command'', ''result'', ''operationId'', ''archivePath'', ''sha256'', ''sizeBytes'', ''encrypted'',
      ''manifestSchema'', ''componentChecksums'', ''consistency''] [] = None"
  "case dec_struct True backupCreate_fields backupCreatePayload0 (JObj partial_backup_doc) of
     None \<Rightarrow> False | Some doc \<Rightarrow> check_backupCreate doc = None"
  "optionalStringField partial_backup_doc ''operationId'' = ''op-1''"
  by code_simp+

lemma partial_backup_accepted:
  "ValidatePayload up (tuple ''backup create'') (print_json (JObj partial_backup_doc)) =
     Inr \<lparr>vp_Tuple = tuple ''backup create'', vp_Command = ''backup create'', vp_Document = print_json (JObj partial_backup_doc),
          vp_OperationID = ''op-1'', vp_OperationError = None\<rparr>"
  using success_accepted [OF partial_backup_checks(1) backup_create_registered _ partial_backup_checks(2-4), of backupCreate_fields backupCreatePayload0 check_backupCreate]
    partial_backup_checks(5-7)
  by (simp add: base_spec_def validateBackupCreatePayload_def tuple_def)

definition verified_doc :: document where
  "verified_doc =
     [(''schemaVersion'', JStr ''appliance-backend-payload/v1''),
      (''command'', JStr ''backup verify''),
      (''result'', JStr ''VERIFIED''),
      (''archivePath'', JStr ''/b.tar''),
      (''authenticated'', JBool True),
      (''checksumValid'', JBool True),
      (''keyMatch'', JBool True),
      (''manifestSchema'', JStr ''m''),
      (''releaseCompatibility'', JStr ''COMPATIBLE''),
      (''componentChecksums'', JObj [(''oam'', JStr ''aaaaaaaaaaaaaaaaaaaaaaaaaaaaaaaaaaaaaaaaaaaaaaaaaaaaaaaaaaaaaaaa'')]),
      (''observedAt'', JStr ''2026-07-01T00:00:00Z'')]"

lemma verified_checks:
  "printable verified_doc"
  "exactStringField verified_doc ''schemaVersion'' (pt_SchemaVersion (tuple ''backup verify'')) = None"
  "exactStringField verified_doc ''command'' (pt_Command (tuple ''backup verify'')) = None"
  "\<not> isOperationErrorDocument verified_doc"
  "validateRequiredAndAllowedKeySet verified_doc
    [''schemaVersion'', ''command'', ''result'', ''archivePath'', ''authenticated'', ''checksumValid'', ''keyMatch'',
      ''manifestSchema'', ''releaseCompatibility'', ''componentChecksums'', ''observedAt''] [] = None"
  "case dec_struct True backupVerify_fields backupVerifyPayload0 (JObj verified_doc) of
     None \<Rightarrow> False | Some doc \<Rightarrow> check_backupVerify doc = None"
  "optionalStringField verified_doc ''operationId'' = []"
  by code_simp+

lemma backup_verify_registered:
  "map_of (payloadRegistry up) (tuple ''backup verify'') = Some (base_spec ''backup verify'' ''backup-verify.schema.json''
     [''schemaVersion'', ''command'', ''result'', ''archivePath'', ''authenticated'', ''checksumValid'', ''keyMatch'',
      ''manifestSchema'', ''releaseCompatibility'', ''componentChecksums'', ''observedAt''] [] validateBackupVerifyPayload)"
  by (rule registry_lookup) (simp add: payloadRegistry_def)

lemma verified_accepted:
  "ValidatePayload up (tuple ''backup verify'') (print_json (JObj verified_doc)) =
     Inr \<lparr>vp_Tuple = tuple ''backup verify'', vp_Command = ''backup verify'', vp_Document = print_json (JObj verified_doc),
          vp_OperationID = [], vp_OperationError = None\<rparr>"
  using success_accepted [OF verified_checks(1) backup_verify_registered _ verified_checks(2-4), of backupVerify_fields backupVerifyPayload0 check_backupVerify]
    verified_checks(5-7)
  by (simp add: base_spec_def validateBackupVerifyPayload_def tuple_def)

text \<open>A factory-reset plan that lists the same item to keep and to delete.\<close>

definition reset_doc :: document where
  "reset_doc =
     [(''schemaVersion'', JStr ''appliance-backend-payload/v1''),
      (''command'', JStr ''factory-reset plan''),
      (''result'', JStr ''PLANNED''),
      (''planHash'', JStr ''0000000000000000000000000000000000000000000000000000000000000000''),
      (''expiresAt'', JStr ''2026-07-01T00:00:00Z''),
      (''compatible'', JBool True),
      (''affectedPlanes'', JArr [JStr ''host'']),
      (''checks'', JArr [JObj [(''code'', JStr ''BACKUP_GATE''),
        (''result'', JStr ''PASS'')], JObj [(''code'', JStr ''SSH_PRESERVATION''),
        (''result'', JStr ''PASS'')], JObj [(''code'', JStr ''NETWORK_PRESERVATION''),
        (''result'', JStr ''PASS'')], JObj [(''code'', JStr ''NCP_AGENT_PRESERVATION''),
        (''result'', JStr ''PASS'')]]),
      (''delete'', JArr [JStr ''ssh-access'']),
      (''preserve'', JArr [JStr ''ssh-access'', JStr ''network-config'', JStr ''ncp-agent''])]"

lemma reset_check1: "printable reset_doc"
  by code_simp

lemma reset_check2: "exactStringField reset_doc ''schemaVersion'' (pt_SchemaVersion (tuple ''factory-reset plan'')) = None"
  by code_simp

lemma reset_check3: "exactStringField reset_doc ''command'' (pt_Command (tuple ''factory-reset plan'')) = None"
  by code_simp

lemma reset_check4: "\<not> isOperationErrorDocument reset_doc"
  by code_simp

lemma reset_check5: "validateRequiredAndAllowedKeySet reset_doc (ps_RequiredKeys (lifecyclePlanSpec ''factory-reset plan''))
     (ps_OptionalKeys (lifecyclePlanSpec ''factory-reset plan'')) = None"
  by code_simp

lemma reset_check6: "case dec_struct True lifecyclePlan_fields lifecyclePlanPayload0 (JObj reset_doc) of
     None \<Rightarrow> False | Some doc \<Rightarrow> check_lifecyclePlan doc = None"
  by code_simp

lemma reset_check7: "optionalStringField reset_doc ''operationId'' = []"
  by code_simp

lemmas reset_checks = reset_check1 reset_check2 reset_check3 reset_check4 reset_check5 reset_check6 reset_check7

lemma reset_registered:
  "map_of (payloadRegistry up) (tuple ''factory-reset plan'') = Some (lifecyclePlanSpec ''factory-reset plan'')"
  by (rule registry_lookup) (simp add: payloadRegistry_def)

lemma reset_accepted:
  "ValidatePayload up (tuple ''factory-reset plan'') (print_json (JObj reset_doc)) =
     Inr \<lparr>vp_Tuple = tuple ''factory-reset plan'', vp_Command = ''factory-reset plan'', vp_Document = print_json (JObj reset_doc),
          vp_OperationID = [], vp_OperationError = None\<rparr>"
  using success_accepted [OF reset_checks(1) reset_registered _ reset_checks(2-5), of lifecyclePlan_fields lifecyclePlanPayload0 check_lifecyclePlan]
    reset_checks(6,7)
  by (simp add: lifecyclePlanSpec_def base_spec_def validateLifecyclePlanPayload_def tuple_def)

subsection \<open>A session\<close>

definition demo_request :: request where
  "demo_request = \<lparr>rq_Subcommand = ''backup create'', rq_Args = [''/b.tar'', ''--key-file'', ''/k''], rq_JSON = True, rq_Secret = None\<rparr>"

definition demo_cid :: string where "demo_cid = ''cli-0000000000000000''"

definition demo_spawn :: spawn where "demo_spawn = operation_spawn demo_request demo_cid"

definition demo_log :: "spawn list" where "demo_log = [handshake_spawn, demo_spawn]"

lemma demo_request_ok: "validateRequest demo_request True = None"
  by code_simp

lemma demo_advertised: "requireAdvertisedCommand demo_contract ''backup create'' False = None"
  by code_simp

lemma demo_spawn_differs: "demo_spawn \<noteq> handshake_spawn"
  by code_simp

lemma demo_op_id: "op_id (demo_host oc) log = demo_cid"
  by (simp add: op_id_def demo_host_def newCorrelationID_def demo_cid_def)

lemma demo_invocation:
  "InvokeMutating (demo_host oc) demo_request [] =
     (case run_verdict oc of
        Inl e \<Rightarrow> (None, Some (ECLI e), demo_log)
      | Inr res \<Rightarrow> (Some (res\<lparr>rs_CorrelationID := demo_cid\<rparr>), None, demo_log))"
proof -
  have run: "ho_run (demo_host oc) log demo_spawn = oc" for log
    using demo_spawn_differs by (simp add: demo_host_def)
  have spawn: "spawn_for (operation_argv demo_request demo_cid) (rq_Secret demo_request) = demo_spawn"
    by (simp add: demo_spawn_def operation_spawn_def)
  have sub: "rq_Subcommand demo_request = ''backup create''" by (simp add: demo_request_def)
  have id: "newCorrelationID (ho_entropy (demo_host oc) log) = demo_cid" for log
    using demo_op_id by (simp add: op_id_def)
  show ?thesis
    by (simp add: InvokeMutating_def demo_request_ok Handshake_eq demo_handshake demo_advertised sub invoke_def id
        runWithStdin_def spawn run answer_def demo_log_def split: sum.splits)
qed

lemma demo_session: "session (demo_host (speaks out RunNil)) demo_log"
  by (rule session.mutate [OF session.start, of _ demo_request])
    (simp add: demo_invocation speaks_def run_verdict_def)

subsection \<open>A whole command\<close>

definition demo_files :: file_system where
  "demo_files = \<lparr>fs_Lstat = (\<lambda>_. StatMode 384), fs_ReadFile = (\<lambda>_. Some ''pw'')\<rparr>"

definition demo_console :: console where
  "demo_console = \<lparr>cn_out = None, cn_errOut = None\<rparr>"

definition demo_options :: restOptions where
  "demo_options = \<lparr>ro_PrintOption = ''json'', ro_Protocol = ''http'', ro_ServerIP = ''127.0.0.1'', ro_ServerPort = 11111,
     ro_Timeout = 10, ro_ServiceName = [], ro_Token = ''t'', ro_BearerAuth = True, ro_Originator = [], ro_Insecure = False,
     ro_CACertFile = [], ro_ClientCertFile = [], ro_ClientKeyFile = []\<rparr>"

definition demo_command :: appliance_command where
  "demo_command = CmdBackupCreate ''/b.tar'' ''/k''"

lemma demo_options_json: "ro_PrintOption demo_options = ''json''"
  by (simp add: demo_options_def)

lemma demo_console_ok: "cn_errOut demo_console = None"
  by (simp add: demo_console_def)

lemma demo_files_check: "CheckSecretPath demo_files ''key file'' ''/k'' = None"
  by code_simp

lemma demo_dispatch:
  "run_appliance up h demo_files con demo_options demo_command log =
     finish up con ''appliance.backup.create'' ''backup create'' True True (InvokeMutating h demo_request log)"
  by (simp add: run_appliance_def demo_command_def backupArchive_request_def IsAbs_def demo_files_check dispatchMutating_def
      demo_options_json request0_def demo_request_def)

text \<open>The backend ends with exit 8 and the partial-backup document.\<close>

definition demo_result :: backendResult where
  "demo_result = Result0\<lparr>rs_Stdout := demo_error_bytes, rs_ExitCode := 8, rs_CorrelationID := demo_cid\<rparr>"

definition demo_failure :: cliError where
  "demo_failure = CLIError0\<lparr>ce_Code := 8, ce_Message := backendFailureMessage ''backup create'' demo_result,
     ce_Origin := ''backend'', ce_ComponentCode := ''BACKUP_INCOMPLETE''\<rparr>"

definition demo_validated :: validatedPayload where
  "demo_validated = \<lparr>vp_Tuple = tuple ''backup create'', vp_Command = ''backup create'', vp_Document = demo_error_bytes,
     vp_OperationID = ''op-7'', vp_OperationError = Some demo_operationError\<rparr>"

lemma demo_registered: "PayloadTupleForCommand up ''backup create'' = (tuple ''backup create'', True)"
  using backup_create_registered [of up] by (simp add: PayloadTupleForCommand_def Let_def)

lemma demo_resolved: "resolveBackendOutcome up ''backup create'' demo_result True True = (Some demo_validated, Some (ECLI demo_failure))"
  by (simp add: resolveBackendOutcome_def validateJSONOutcome_def demo_registered demo_result_def Result0_def demo_error_accepted
      judgeDocument_def demo_operationError_def demo_validated_def demo_failure_def Let_def)

lemma demo_run:
  "run_appliance up (demo_host (speaks demo_error_bytes (RunExit 8))) demo_files demo_console demo_options demo_command [] =
     \<lparr>cx_out = [OEnvelope (writeEnvelope ''appliance.backup.create'' (Some demo_result) (Some demo_validated) (Some (ECLI demo_failure)))],
      cx_errOut = [], cx_err = Some (ECLI demo_failure), cx_log = demo_log\<rparr>"
proof -
  have "InvokeMutating (demo_host (speaks demo_error_bytes (RunExit 8))) demo_request [] = (Some demo_result, None, demo_log)"
    by (simp add: demo_invocation run_verdict_def speaks_def demo_result_def Result0_def)
  then show ?thesis by (simp add: demo_dispatch finish_def demo_resolved)
qed

lemma demo_failure_code: "ce_Code demo_failure = 8"
  by (simp add: demo_failure_def)

lemma demo_envelope_data:
  "\<exists>d. cr_Data (writeEnvelope c (Some demo_result) (Some demo_validated) (Some (ECLI demo_failure))) = Some d
     \<and> ad_Backend d = Some demo_error_bytes"
proof -
  obtain d where "cr_Data (writeEnvelope c (Some demo_result) (Some demo_validated) (Some (ECLI demo_failure))) = Some d"
    using writeEnvelope_has_data by blast
  with writeEnvelope_data [OF this] show ?thesis by (simp add: demo_validated_def)
qed

text \<open>The run a caller sees, and what it holds.\<close>

definition demo_cx :: command_run where
  "demo_cx = run_appliance no_url (demo_host (speaks demo_error_bytes (RunExit 8))) demo_files demo_console demo_options demo_command []"

lemma demo_cx_shape:
  "xs_status (exitPoint (cx_err demo_cx)) = 8 \<and> cx_log demo_cx = demo_log
   \<and> (\<exists>e d. cx_out demo_cx = [OEnvelope e] \<and> cr_Data e = Some d \<and> ad_Backend d = Some demo_error_bytes)"
  using demo_envelope_data [of "''appliance.backup.create''"]
  by (simp add: demo_cx_def demo_run exitPoint_def Classify_def Let_def demo_failure_code)

subsection \<open>A read, and a registration\<close>

definition status_request :: request where
  "status_request = request0\<lparr>rq_Subcommand := ''status'', rq_JSON := True\<rparr>"

lemma status_request_ok: "validateRequest status_request False = None"
  by code_simp

lemma status_advertised: "requireAdvertisedCommand demo_contract ''status'' True = None"
  by code_simp

lemma status_spawn_differs: "operation_spawn status_request demo_cid \<noteq> handshake_spawn"
  by code_simp

lemma demo_read:
  "InvokeReadOnly (demo_host oc) status_request [] =
     (case run_verdict oc of
        Inl e \<Rightarrow> (None, Some (ECLI e), [handshake_spawn, operation_spawn status_request demo_cid])
      | Inr res \<Rightarrow> (Some (res\<lparr>rs_CorrelationID := demo_cid\<rparr>), None, [handshake_spawn, operation_spawn status_request demo_cid]))"
proof -
  have run: "ho_run (demo_host oc) log (operation_spawn status_request demo_cid) = oc" for oc log
    using status_spawn_differs by (simp add: demo_host_def)
  have spawn: "spawn_for (operation_argv status_request demo_cid) (rq_Secret status_request) = operation_spawn status_request demo_cid"
    by (simp add: operation_spawn_def)
  have sub: "rq_Subcommand status_request = ''status''" by (simp add: status_request_def)
  have id: "newCorrelationID (ho_entropy (demo_host oc) log) = demo_cid" for oc log
    using demo_op_id by (simp add: op_id_def)
  show ?thesis
    by (simp add: InvokeReadOnly_def status_request_ok Handshake_eq demo_handshake status_advertised sub invoke_def id
        runWithStdin_def spawn run answer_def split: sum.splits)
qed

definition killed_result :: backendResult where
  "killed_result = Result0\<lparr>rs_ExitCode := -1, rs_Signaled := True, rs_CorrelationID := demo_cid\<rparr>"

lemma demo_killed:
  "InvokeMutating (demo_host (speaks [] (RunExit (-1)))) demo_request [] = (Some killed_result, None, demo_log)"
  "InvokeReadOnly (demo_host (speaks [] (RunExit (-1)))) status_request [] =
     (Some killed_result, None, [handshake_spawn, operation_spawn status_request demo_cid])"
  by (simp_all add: demo_invocation demo_read run_verdict_def speaks_def killed_result_def Result0_def)

definition other_files :: file_system where
  "other_files = \<lparr>fs_Lstat = (\<lambda>_. StatMode 384), fs_ReadFile = (\<lambda>_. Some ''other'')\<rparr>"

definition register_request :: "bytes \<Rightarrow> request" where
  "register_request secret = request0\<lparr>rq_Subcommand := ''gateway register-local'',
     rq_Args := [''--username'', ''admin'', ''--password-stdin''], rq_Secret := Some secret\<rparr>"

lemma demo_registrations:
  "registerLocal_request demo_files ''admin'' ''/p'' = Inr (register_request ''pw'')"
  "registerLocal_request other_files ''admin'' ''/p'' = Inr (register_request ''other'')"
  by code_simp+

text \<open>A host whose backend answers the handshake with nothing at exit 0: its reads are degraded.\<close>

definition mute_host :: host where
  "mute_host = \<lparr>ho_run = (\<lambda>log s. speaks [] RunNil), ho_entropy = (\<lambda>_. None)\<rparr>"

definition mute_error :: goerr where
  "mute_error = ECLI (contractViolation (Sprintf ''the backend's contract document does not parse: %v'' [AMsg syntax_error]))"

lemma mute_handshake: "handshake_at mute_host log = Inl mute_error"
proof -
  have "decodeContract [] = Inl syntax_error" by code_simp
  then show ?thesis
    by (simp add: handshake_at_def handshake_verdict_def mute_host_def speaks_def run_verdict_def Result0_def mute_error_def)
qed

lemma mute_read: "\<exists>res log'. InvokeReadOnly mute_host status_request [] = (Some res, Some mute_error, log')"
proof -
  have "allowsReadOnlyBestEffort mute_error"
    by (simp add: allowsReadOnlyBestEffort_def mute_error_def contractViolation_def component_codes)
  then show ?thesis
    by (auto simp: InvokeReadOnly_def status_request_ok Handshake_eq mute_handshake split: prod.splits)
qed

subsection \<open>A snapshot document with its checksum\<close>

definition snap_blank :: bytes where
  "snap_blank = CHR ''{'' # checksum_field [] @ ''}''"

definition snap_checksum :: string where
  "snap_checksum = snapshotChecksumPrefix @ hex_encode (Sum256 snap_blank)"

definition snap_doc :: bytes where
  "snap_doc = CHR ''{'' # checksum_field snap_checksum @ ''}''"

lemma hex_digit_plain: "n < 16 \<Longrightarrow> plain_char (hex_digit n)"
proof -
  have "list_all (\<lambda>i. plain_char (hex_digit i)) [0..<16]" by code_simp
  then show "n < 16 \<Longrightarrow> plain_char (hex_digit n)" by (simp add: list_all_iff)
qed

lemma hex_encode_plain: "list_all plain_char (hex_encode bs)"
proof (induction bs)
  case (Cons c bs)
  have "byte c < 256" by (rule nat_of_char_less_256)
  then have "byte c div 16 < 16" by (simp add: less_mult_imp_div_less)
  with Cons show ?case by (simp add: hex_encode_def hex_digit_plain)
qed (simp add: hex_encode_def)

lemma snap_checksum_plain: "list_all plain_char snap_checksum"
proof -
  have "list_all plain_char snapshotChecksumPrefix" by code_simp
  with hex_encode_plain show ?thesis by (simp add: snap_checksum_def)
qed

lemma snap_doc_print: "snap_doc = print_json (JObj [(''checksum'', JStr snap_checksum)])"
proof -
  have "list_all plain_char ''checksum''" by code_simp
  with snap_checksum_plain show ?thesis by (simp add: snap_doc_def checksum_field_def json_escape_plain)
qed

lemma snap_identity:
  "Option.bind (parse_json snap_doc) (dec_struct False snapshotIdentity_fields snapshotIdentity0) =
     Some \<lparr>si_SchemaVersion = [], si_Checksum = snap_checksum, si_Generation = 0\<rparr>"
proof -
  have "list_all plain_char ''checksum''" by code_simp
  then have "parse_json snap_doc = Some (JObj [(''checksum'', JStr snap_checksum)])"
    unfolding snap_doc_print using snap_checksum_plain by (intro parse_print) (simp_all add: maxNestingDepth_def plain_valid_utf8)
  then show ?thesis
    by (simp add: dec_struct_def snapshotIdentity_fields_def snapshotIdentity0_def fld_def find_field_def dec_string_def)
qed

lemma snap_trim: "trim_right_ws snap_doc = snap_doc"
  by (simp add: trim_right_ws_def snap_doc_def is_json_space_def)

lemma snap_occurs:
  "count_sub (checksum_field snap_checksum) snap_doc = 1"
  "replace_first (checksum_field snap_checksum) (checksum_field []) snap_doc = snap_blank"
proof -
  obtain rest where c: "checksum_field snap_checksum = quote_char # rest" by (simp add: checksum_field_def)
  have p: "has_prefix (checksum_field snap_checksum) (checksum_field snap_checksum @ ''}'')" by (simp add: has_prefix_iff)
  have q: "\<not> has_prefix (checksum_field snap_checksum) snap_doc" by (simp add: c snap_doc_def has_prefix_iff)
  have "count_sub (checksum_field snap_checksum) (checksum_field snap_checksum @ ''}'') = 1"
    using p by (simp add: c has_prefix_iff)
  with q show "count_sub (checksum_field snap_checksum) snap_doc = 1" by (simp add: snap_doc_def)
  have "replace_first (checksum_field snap_checksum) (checksum_field []) (checksum_field snap_checksum @ ''}'') = checksum_field [] @ ''}''"
    using p by (simp add: c)
  with q show "replace_first (checksum_field snap_checksum) (checksum_field []) snap_doc = snap_blank"
    by (simp add: snap_doc_def snap_blank_def)
qed

lemma snap_verified:
  "\<exists>res. VerifySnapshotChecksum snap_doc snap_checksum = Inr (snap_doc, res) \<and> sf_ChecksumVerified res"
proof -
  have "snap_doc \<noteq> []" "snap_checksum \<noteq> []" by (simp_all add: snap_doc_def snap_checksum_def snapshotChecksumPrefix_def)
  then show ?thesis
    unfolding VerifySnapshotChecksum_def snap_trim Let_def snap_identity
    using snap_occurs by (simp add: snap_checksum_def [symmetric])
qed

subsection \<open>A gateway and a disk\<close>

definition demo_version_doc :: json where
  "demo_version_doc = JObj [(''version'', JStr ''1''), (''product'', JStr ''loxilb-inference-gateway''), (''features'', JArr [JStr ''bands''])]"

definition demo_peer :: peer where
  "demo_peer reads o' = HTTPAnswer 200 (print_json demo_version_doc)"

definition demo_version :: lbVersionGet where
  "demo_version = \<lparr>vg_BuildInfo = [], vg_Version = ''1'', vg_Product = GatewayProduct, vg_Features = [''bands'']\<rparr>"

lemma demo_version_read: "version_of (demo_peer reads o') = Inr demo_version"
proof -
  have "plain demo_version_doc" "depth demo_version_doc \<le> maxNestingDepth" by code_simp+
  from parse_print [OF this] show ?thesis
    by (simp add: version_of_def demo_peer_def demo_version_doc_def demo_version_def GatewayProduct_def dec_struct_def lbVersionGet_fields_def
        lbVersionGet0_def fld_def find_field_def dec_string_def dec_list_def)
qed

definition demo_gate :: gate_state where
  "demo_gate = snd (RequireAdvertised demo_peer demo_options ''bands'' ''create lb'' gate_start)"

lemma demo_gate_reach: "gate_reach demo_peer demo_gate"
  unfolding demo_gate_def by (rule gate_advertised [OF gate_init])

lemma demo_gate_cached: "map_of (gs_cache demo_gate) (cache_key demo_options) = Some demo_version"
  by (simp add: demo_gate_def RequireAdvertised_state read_version_def gate_start_def demo_version_read Let_def)

definition good_disk_env :: write_env where
  "good_disk_env = \<lparr>wv_temp = Some ''.s.tmp-1'', wv_chmod = True, wv_write = None, wv_sync = True, wv_close = True,
     wv_rename = True, wv_remove = True\<rparr>"

subsection \<open>Restores\<close>

definition snapshot_files :: file_system where
  "snapshot_files = \<lparr>fs_Lstat = (\<lambda>_. StatMode 384), fs_ReadFile = (\<lambda>_. Some ''{}'')\<rparr>"

definition commit_options :: restoreOptions where
  "commit_options = \<lparr>rp_File = ''/s'', rp_Commit = True, rp_Components = []\<rparr>"

definition committed_doc :: json where
  "committed_doc = JObj [(''mode'', JStr ''commit''), (''compatible'', JBool True), (''schema_version'', JStr ''1''), (''result'', JStr ''ok''),
     (''persisted'', JBool True)]"

definition dry_doc :: json where
  "dry_doc = JObj [(''mode'', JStr ''dry-run''), (''compatible'', JBool True), (''schema_version'', JStr ''1'')]"

definition answering :: "json \<Rightarrow> gateway" where
  "answering doc req = Response 200 [] (Whole (print_json doc))"

definition committed_result :: restoreResult where
  "committed_result = restoreResult0\<lparr>rr_Mode := ''commit'', rr_Compatible := Some True, rr_SchemaVersion := ''1'', rr_Result := ''ok'',
     rr_Persisted := Some True\<rparr>"

definition dry_result :: restoreResult where
  "dry_result = restoreResult0\<lparr>rr_Mode := ''dry-run'', rr_Compatible := Some True, rr_SchemaVersion := ''1''\<rparr>"

lemma restore_docs_plain:
  "plain committed_doc \<and> depth committed_doc \<le> maxNestingDepth" "plain dry_doc \<and> depth dry_doc \<le> maxNestingDepth"
  by code_simp+

lemma restore_docs_decoded:
  "DecodeRestoreResult (print_json committed_doc) = Inr committed_result" "DecodeRestoreResult (print_json dry_doc) = Inr dry_result"
proof -
  have d: "dec_struct False restoreResult_fields restoreResult0 committed_doc = Some committed_result"
      "dec_struct False restoreResult_fields restoreResult0 dry_doc = Some dry_result" by code_simp+
  have p: "parse_json (print_json committed_doc) = Some committed_doc" "parse_json (print_json dry_doc) = Some dry_doc"
    using restore_docs_plain by (auto intro: parse_print)
  show "DecodeRestoreResult (print_json committed_doc) = Inr committed_result" "DecodeRestoreResult (print_json dry_doc) = Inr dry_result"
    by (simp_all add: DecodeRestoreResult_def unmarshal_def d p)
qed

lemma restore_verdicts:
  "RestoreResult_Verdict (Some committed_result) True = None" "RestoreResult_Verdict (Some dry_result) True = None"
  "looksLikeRestoreResult committed_result" "looksLikeRestoreResult dry_result"
  "rr_Mode committed_result = ''commit''" "rr_Mode dry_result = ''dry-run''"
  by code_simp+

lemma demo_restores:
  "doRestore (\<lambda>_. True) (answering committed_doc) snapshot_files demo_options True commit_options = (Some committed_result, None)"
  "doRestore (\<lambda>_. True) (answering dry_doc) snapshot_files demo_options True commit_options = (Some dry_result, None)"
proof -
  have j: "parse_json ''{}'' = Some (JObj [])" by code_simp
  have sent: "send (answering doc) (restore_request (\<lambda>_. True) demo_options commit_options data) = Response 200 [] (Whole (print_json doc))" for doc data
    by (simp add: send_def restore_request_def api_Create_def POST_def newRequest_def answering_def)
  show "doRestore (\<lambda>_. True) (answering committed_doc) snapshot_files demo_options True commit_options = (Some committed_result, None)"
    "doRestore (\<lambda>_. True) (answering dry_doc) snapshot_files demo_options True commit_options = (Some dry_result, None)"
    unfolding doRestore_def sent
    by (simp_all add: commit_options_def snapshot_files_def j readBody_def judge_restore_def restore_docs_decoded restore_verdicts)
qed

text \<open>The network that loses every request, and the one that loses every answer.\<close>

definition dead_gateway :: gateway where "dead_gateway req = NoResponse"
definition torn_gateway :: gateway where "torn_gateway req = Response 200 [] (Torn [])"

definition snapshot_gateway :: gateway where
  "snapshot_gateway req = Response 200 [(''X-Snapshot-Checksum'', snap_checksum)] (Whole snap_doc)"

lemma empty_payload_refused: "\<exists>e. ValidatePayload up selected [] = Inl e"
proof -
  have "parse_json [] = None" by code_simp
  then have "ValidatePayload up selected [] \<noteq> Inr p" for p by (simp add: ValidatePayload_iff)
  then show ?thesis by (cases "ValidatePayload up selected []") auto
qed

text \<open>A page of the log, and a sink of the audit trail with a receiver and a CA bundle.\<close>

definition page_doc :: json where
  "page_doc = JObj [(''has_more'', JBool False)]"

definition demo_logs_options :: logsOptions where
  "demo_logs_options = \<lparr>lo_Lines = 10, lo_Level = [], lo_Keyword = [], lo_File = ''gw.log'', lo_Cursor = []\<rparr>"

definition demo_sink_options :: auditSinkSetOptions where
  "demo_sink_options = \<lparr>ao_Disable = False, ao_Address = ''siem:6514'', ao_CABundlePath = ''/ca'', ao_ServerName = [], ao_ClientCertPath = [],
     ao_ClientKeyPath = [], ao_MaxFrameBytes = 0, ao_Facility = 13, ao_EnterpriseNumber = 0, ao_Streams = [], ao_Services = [],
     ao_Outcome = [], ao_DataSample = 0\<rparr>"

lemma demo_sink_accepted:
  shows "\<exists>req. auditSinkRequest demo_sink_options = Inr req"
    and "\<exists>nreq. auditNamedSinkRequest ''siem'' (demo_sink_options\<lparr>ao_EnterpriseNumber := 32473\<rparr>) = Inr nreq"
    and "auditSinkRequest demo_sink_options = Inr req \<Longrightarrow> list_all valid_utf8 (sink_texts req)"
    and "in_int64 (ao_MaxFrameBytes demo_sink_options)"
proof -
  have t: "trim_space ''siem:6514'' \<noteq> []" "trim_space ''/ca'' \<noteq> []" by code_simp+
  have n: "checkAuditSinkName ''siem'' = None" by code_simp
  show "\<exists>req. auditSinkRequest demo_sink_options = Inr req"
    "\<exists>nreq. auditNamedSinkRequest ''siem'' (demo_sink_options\<lparr>ao_EnterpriseNumber := 32473\<rparr>) = Inr nreq"
    by (simp_all add: auditSinkRequest_def auditNamedSinkRequest_def auditSinkTransport_def secondaryOnly_def check_filter_def
        MaxSyslogFacility_def MaxEnterpriseNumber_def demo_sink_options_def t n)
  have "list_all valid_utf8 [''siem:6514'', ''/ca'', []]" by code_simp
  then show "auditSinkRequest demo_sink_options = Inr req \<Longrightarrow> list_all valid_utf8 (sink_texts req)"
    using auditSinkRequest_Inr [of demo_sink_options req] auditSinkTransport_Inr [of demo_sink_options req]
    by (auto simp: sink_texts_def demo_sink_options_def)
qed (simp add: demo_sink_options_def in_int64_def)

text \<open>A gateway that never answers, and a \<open>delete lb\<close> without flags.\<close>

definition env0 :: gateway_env where
  "env0 = \<lparr>ge_url_ok = (\<lambda>_. True), ge_service = (\<lambda>_ _. NoResponse), ge_peer = (\<lambda>_ _. HTTPError)\<rparr>"

definition lb_flags0 :: lbDeleteOptions where
  "lb_flags0 = \<lparr>ld_tcp = [], ld_udp = [], ld_sctp = [], ld_icmp = False, ld_BGP = False, ld_Mark = 0, ld_Name = [], ld_Host = [],
     ld_PathPrefix = [], ld_PathMatchMode = [], ld_ModelName = []\<rparr>"

text \<open>A TCP rule with one end point, a gateway that takes it, and the span of two pairs.\<close>

definition demo_rule :: createLoadBalancerOptions where
  "demo_rule = createLoadBalancerOptions0\<lparr>cl_TCP := [''8:9''], cl_Endpoints := [''1.1.1.2:1''], cl_Select := ''rr''\<rparr>"

definition env200 :: gateway_env where
  "env200 = \<lparr>ge_url_ok = (\<lambda>_. True), ge_service = (\<lambda>_ _. Response 200 [] (Whole ''{}'')), ge_peer = (\<lambda>_ _. HTTPError)\<rparr>"

definition demo_rule_run :: "rest_run \<times> gate_state" where
  "demo_rule_run = the (create_lb env200 demo_options [''tcp'', ''udp'', ''sctp'', ''icmp''] demo_rule [''1.1.1.1''] [] gate_start)"

lemma demo_pairs:
  shows "parse_pair ''8:9'' = Inr (Some ([8], 9, 9))" "parse_pair ''11:12'' = Inr (Some ([11], 12, 12))"
    and "GetPortPairList [''8:9'', ''11:12''] = Some (Inr [(8, [9]), (11, [12])])" "GetPortPairList [''8:9''] = Some (Inr [(8, [9])])"
proof -
  show p: "parse_pair ''8:9'' = Inr (Some ([8], 9, 9))" "parse_pair ''11:12'' = Inr (Some ([11], 12, 12))" by code_simp+
  show "GetPortPairList [''8:9'', ''11:12''] = Some (Inr [(8, [9]), (11, [12])])" "GetPortPairList [''8:9''] = Some (Inr [(8, [9])])"
    using one_pair [OF p(1)] one_pair [OF p(2)] by (simp_all add: GetPortPairList_def del: port_pairs.simps(2))
qed

lemma demo_pair_ends: "\<not> endless ''8:9''"
  by (simp add: endless_def demo_pairs)

definition demo_model :: loadBalancerModel where
  "demo_model = \<lparr>lm_Service = lb_service (demo_rule\<lparr>cl_ExternalIP := ''1.1.1.1''\<rparr>) ''tcp'' 8 0, lm_SecondaryIPs = [], lm_SrcIPs = [],
     lm_Endpoints = [rule_endpoint \<lparr>es_IP = ''1.1.1.2'', es_Weight = 1\<rparr> 0 0 9]\<rparr>"

definition demo_span :: loadBalancerModel where
  "demo_span = \<lparr>lm_Service = lb_service demo_rule ''tcp'' 8 11, lm_SecondaryIPs = [], lm_SrcIPs = [], lm_Endpoints = []\<rparr>"

lemma demo_span_built: "lb_model demo_rule [] [] [] ''tcp'' [(8, [9]), (11, [12])] = Inr demo_span"
  by (simp add: lb_model_def rule_endpoints_def demo_span_def demo_rule_def createLoadBalancerOptions0_def)

lemma demo_rule_accepted:
  shows "ParseIP ''1.1.1.1''" "validateLBAIOptions (demo_rule\<lparr>cl_ExternalIP := ''1.1.1.1''\<rparr>) = None"
    and "lb_endpoints (demo_rule\<lparr>cl_ExternalIP := ''1.1.1.1''\<rparr>) = Inr ([\<lparr>es_IP = ''1.1.1.2'', es_Weight = 1\<rparr>], [0], [0])"
proof -
  show "ParseIP ''1.1.1.1''" by code_simp
  show "validateLBAIOptions (demo_rule\<lparr>cl_ExternalIP := ''1.1.1.1''\<rparr>) = None"
    by (simp add: demo_rule_def createLoadBalancerOptions0_def validateLBAIOptions_def check_auth_def validateEppOptions_def validateFcQueueOptions_def
        validateFcBandOptions_def validateBackendTLSOptions_def lbAIRequested_def lbMtlsFrontendRequested_def lbBackendTLSRequested_def SelectToNum_def
        outside_def above_def lb_ceilings inflight_caps_def band_enums_def band_triples_def bandTriple0_def)
  have "GetEndpointList [''1.1.1.2:1''] = Inr [\<lparr>es_IP = ''1.1.1.2'', es_Weight = 1\<rparr>]" by code_simp
  then show "lb_endpoints (demo_rule\<lparr>cl_ExternalIP := ''1.1.1.1''\<rparr>) = Inr ([\<lparr>es_IP = ''1.1.1.2'', es_Weight = 1\<rparr>], [0], [0])"
    by (simp add: lb_endpoints_def parseEndpointRoles_def alignNixlPorts_def demo_rule_def createLoadBalancerOptions0_def)
qed

lemma demo_rule_created:
  shows "create_lb env200 demo_options [''tcp'', ''udp'', ''sctp'', ''icmp''] demo_rule [''1.1.1.1''] [] gate_start = Some (fst demo_rule_run, snd demo_rule_run)"
    and "rn_end (fst demo_rule_run) = Done None" "rn_sent (fst demo_rule_run) \<noteq> []"
proof -
  let ?l = "demo_rule\<lparr>cl_ExternalIP := ''1.1.1.1''\<rparr>"
  have gates: "requireLBFeatures peer o' ?l st = ((None, []), st)" for peer o' st
    by (simp add: requireLBFeatures_def lb_gates_def lbBandsRequested_def demo_rule_def createLoadBalancerOptions0_def)
  have v: "visited [''tcp'', ''udp'', ''sctp'', ''icmp''] (ProtoPortpair ?l) = [(''tcp'', [''8:9''])]"
    by (simp add: visited_def ProtoPortpair_def demo_rule_def createLoadBalancerOptions0_def)
  have m: "lb_model ?l [\<lparr>es_IP = ''1.1.1.2'', es_Weight = 1\<rparr>] [0] [0] ''tcp'' [(8, [9])] = Inr demo_model"
    by (simp add: lb_model_def rule_endpoints_def demo_model_def demo_rule_def createLoadBalancerOptions0_def)
  have sec: "cl_SecIPs ?l = []" by (simp add: demo_rule_def createLoadBalancerOptions0_def)
  obtain req where req: "LoadbalancerAPICall env200 demo_options demo_model = Some req"
    by (simp add: LoadbalancerAPICall_def api_Create_def POST_def newRequest_def env200_def)
  obtain run where run: "create_lb env200 demo_options [''tcp'', ''udp'', ''sctp'', ''icmp''] demo_rule [''1.1.1.1''] [] gate_start = Some (run, gate_start)"
      "rn_end run = Done None" "rn_sent run = [req]"
    by (simp add: create_lb_def ReadCreateLoadBalancerOptions_def demo_rule_accepted gates v m sec demo_pairs(4) req exchange_def finished_def)
       (simp add: env200_def finished_def)
  then have d: "fst demo_rule_run = run" "snd demo_rule_run = gate_start" by (simp_all add: demo_rule_run_def)
  show "create_lb env200 demo_options [''tcp'', ''udp'', ''sctp'', ''icmp''] demo_rule [''1.1.1.1''] [] gate_start = Some (fst demo_rule_run, snd demo_rule_run)"
    "rn_end (fst demo_rule_run) = Done None" "rn_sent (fst demo_rule_run) \<noteq> []"
    unfolding d using run by simp_all
qed

text \<open>A download always has a disk state to look at.\<close>

lemma WriteFileAtomic_trace: "snd (WriteFileAtomic w path r d0) \<noteq> []"
  by (simp add: WriteFileAtomic_def Let_def split: prod.splits option.splits)

lemma store_snapshot_trace: "snd (store_snapshot w strict so status hs body d0) \<noteq> []"
  using WriteFileAtomic_trace [where path = "so_File so"]
  by (auto simp: store_snapshot_def WriteSnapshotFile_def split: prod.splits sum.splits) (metis snd_conv)+

lemma snapshot_trace: "snd (lifecycle_Snapshot url_ok gw w out o' json strict so d0) \<noteq> []"
  using store_snapshot_trace [of w strict so _ _ _ d0]
  by (auto simp: lifecycle_Snapshot_def doSnapshot_def Let_def split: prod.splits sum.splits http_result.splits) (metis snd_conv)+

lemma archive_trace: "snd (LogArchiveDownload url_ok gw w out out_limit o' json name file d0) \<noteq> []"
  using WriteFileAtomic_trace [where path = "file"]
  by (auto simp: LogArchiveDownload_def store_archive_def split: prod.splits sum.splits http_result.splits option.splits) (metis snd_conv)+

end
