(* ===== verification/RestSafety.thy ===== *)
theory RestSafety
  imports RestPlan SessionToken Examples
begin

section \<open>What \<open>create\<close> and \<open>set\<close> guarantee\<close>

text \<open>
  The imported API key, the fields that are narrower than the numbers they are read from, the actions of a firewall
  rule, the members of a patch, the quotas of a tenant, and the token file of a session.
\<close>

subsection \<open>The imported key\<close>

definition visible :: "char \<Rightarrow> bool" where
  "visible c \<longleftrightarrow> 0x21 \<le> byte c \<and> byte c \<le> 0x7e"

lemma accept_key_iff:
  "accept_key raw = Inr (key, b) \<longleftrightarrow>
     b \<and> (\<exists>c. limited_read raw = Some c \<and> key = trim_space c) \<and> 16 \<le> length key \<and> length key \<le> 512 \<and> list_all visible key"
proof -
  have "(\<exists>c \<in> set s. byte c < 0x21 \<or> byte c > 0x7e) \<longleftrightarrow> \<not> list_all visible s" for s
    by (auto simp: list_all_iff visible_def not_le)
  then show ?thesis
    by (auto simp: accept_key_def Let_def minImportedAPIKeyLength_def maxImportedAPIKeyLength_def split: option.splits)
qed

lemma encodings_invisible: "e \<in> set space_encodings \<Longrightarrow> e \<noteq> [] \<and> \<not> visible (hd e) \<and> \<not> visible (last e)"
  by (auto simp: space_encodings_def visible_def upt_rec)

lemma trim_heads_visible:
  assumes "\<forall>e \<in> set es. e \<noteq> [] \<and> \<not> visible (hd e)" "s \<noteq> []" "visible (hd s)"
  shows "trim_heads es s = s"
proof (rule trim_heads_stop, rule ballI)
  fix e assume "e \<in> set es"
  with assms show "e = [] \<or> \<not> has_prefix e s" by (cases e; cases s) auto
qed

lemma trim_heads_blanks: "trim_heads space_encodings (replicate n (CHR '' '') @ s) = trim_heads space_encodings s"
proof (induction n)
  case (Suc n)
  have "find (\<lambda>e. e \<noteq> [] \<and> has_prefix e (CHR '' '' # t)) space_encodings = Some [CHR '' '']" for t
    by (simp add: space_encodings_def)
  with Suc show ?case by (subst trim_heads.simps) simp
qed simp

lemma trim_space_visible:
  assumes "key \<noteq> []" "list_all visible key"
  shows "trim_space (replicate n (CHR '' '') @ key) = key"
proof -
  have "visible (hd key)" "visible (hd (rev key))" using assms by (auto simp: list_all_iff hd_rev)
  moreover have "\<forall>e \<in> set (map rev space_encodings). e \<noteq> [] \<and> \<not> visible (hd e)"
    using encodings_invisible by (auto simp: hd_rev)
  ultimately show ?thesis
    using assms encodings_invisible by (simp add: trim_space_def trim_heads_blanks trim_heads_visible)
qed

text \<open>A key that is set off by blanks is cut where the reading stops.\<close>

lemma key_cut_short:
  assumes "list_all visible key" "length key \<le> 512" "16 \<le> m" "m \<le> length key" "n + m = 514"
  shows "accept_key (Whole (replicate n (CHR '' '') @ key)) = Inr (take m key, True)"
proof -
  have "take (maxImportedAPIKeyLength + 2) (replicate n (CHR '' '') @ key) = replicate n (CHR '' '') @ take m key"
  proof -
    have "514 - n = m" "n < 514" using assms by auto
    then show ?thesis by (simp add: maxImportedAPIKeyLength_def)
  qed
  moreover have "list_all visible (take m key)" "take m key \<noteq> []"
    using assms by (auto simp: list_all_iff dest: in_set_takeD)
  ultimately show ?thesis
    using assms trim_space_visible [of "take m key" n] by (auto simp: accept_key_iff limited_read_def)
qed

lemma read_key:
  assumes "readImportedAPIKey k src = Inr (key, imported)"
  shows "imported \<longleftrightarrow> ak_APIKeyFile k \<noteq> [] \<or> ak_APIKeyStdin k"
    and "imported \<Longrightarrow> 16 \<le> length key \<and> length key \<le> 512 \<and> list_all visible key"
    and "\<not> imported \<Longrightarrow> key = []"
proof -
  have one: "\<not> (ak_APIKeyFile k \<noteq> [] \<and> ak_APIKeyStdin k)" using assms by (auto simp: readImportedAPIKey_def)
  consider "ak_APIKeyFile k = []" "\<not> ak_APIKeyStdin k" "key = []" "\<not> imported"
    | raw where "ak_APIKeyFile k \<noteq> [] \<or> ak_APIKeyStdin k" "accept_key raw = Inr (key, imported)"
    using assms one by (auto simp: readImportedAPIKey_def split: if_splits option.splits)
  note cases = this
  show "imported \<longleftrightarrow> ak_APIKeyFile k \<noteq> [] \<or> ak_APIKeyStdin k" by (rule cases) (auto simp: accept_key_iff)
  show "imported \<Longrightarrow> 16 \<le> length key \<and> length key \<le> 512 \<and> list_all visible key" by (rule cases) (auto simp: accept_key_iff)
  show "\<not> imported \<Longrightarrow> key = []" by (rule cases) (auto simp: accept_key_iff)
qed

lemma imported_result: "printCreateAPIKeyResult r True opt = printCreateAPIKeyResult (r\<lparr>kr_RawKey := []\<rparr>) True opt"
  by (simp add: printCreateAPIKeyResult_def)

lemma answered_out:
  assumes "\<And>log' status body. rn_out (k log' status body) \<in> outs"
  shows "rn_out (on_answer env command good refusal k req log) \<in> insert [] outs"
  using assms by (auto simp: on_answer_def run_ends split: prod.splits http_result.splits)

lemma gated_when_out:
  assumes "[] \<in> outs" "rn_out (k ()) \<in> outs"
  shows "rn_out (fst (gated_when b env o' feature command log st k)) \<in> outs"
  using assms by (auto simp: gated_when_def gated_def run_ends split: prod.splits option.splits)

lemma imported_shown:
  assumes "readImportedAPIKey k src = Inr (key, True)"
  shows "rn_out (fst (create_apikey env o' src k log st)) = []
    \<or> (\<exists>r. kr_RawKey r = [] \<and> rn_out (fst (create_apikey env o' src k log st)) = printCreateAPIKeyResult r True (ro_PrintOption o'))"
proof -
  let ?shown = "{[]} \<union> {printCreateAPIKeyResult r True (ro_PrintOption o') | r. kr_RawKey r = []}"
  let ?k = "\<lambda>log' status body. case unmarshal aiApiKeyCreateResponse_fields aiApiKeyCreateResponse0 body of
      None \<Rightarrow> stopped log' [] (unmarshal_failed status)
    | Some result \<Rightarrow> finished log' (printCreateAPIKeyResult result True (ro_PrintOption o'))"
  have k: "rn_out (?k log' status body) \<in> ?shown" for log' status body
  proof (cases "unmarshal aiApiKeyCreateResponse_fields aiApiKeyCreateResponse0 body")
    case (Some r)
    have "kr_RawKey (r\<lparr>kr_RawKey := []\<rparr>) = []" by simp
    with Some imported_result [of r "ro_PrintOption o'"] show ?thesis by (force simp: run_ends)
  qed (simp add: run_ends)
  have "rn_out (on_answer env ''create apikey'' [201, 200] (apikey_refusal (ak_TenantID k)) ?k req log) \<in> ?shown" for req
    using answered_out [of ?k, OF k] by auto
  then have run: "rn_out (fst (gated_when b env o' ''objectives'' ''create apikey'' log st
      (\<lambda>_. on_answer env ''create apikey'' [201, 200] (apikey_refusal (ak_TenantID k)) ?k req log))) \<in> ?shown" for b req
    by (intro gated_when_out) simp_all
  have "rn_out (fst (create_apikey env o' src k log st)) \<in> ?shown"
    unfolding create_apikey_def assms sum.case prod.case using run by (simp add: run_ends)
  then show ?thesis by auto
qed

subsection \<open>Fields of fixed width\<close>

lemma uint_of_int16: "uint (word_of_int n :: 16 word) = n mod 65536"
  and uint_of_int32: "uint (word_of_int n :: 32 word) = n mod 2 ^ 32"
  and uint_of_int64: "uint (word_of_int n :: 64 word) = n mod 2 ^ 64"
  and uint_of_int8: "uint (word_of_int n :: 8 word) = n mod 256"
  by (simp_all add: uint_word_of_int)

definition http_probe :: "int \<Rightarrow> createEndPointOptions" where
  "http_probe port = \<lparr>eo_Name = [], eo_ProbeType = ''http'', eo_ProbeReq = [], eo_ProbeResp = [], eo_ProbePort = port, eo_ProbeDuration = 60,
     eo_ProbeReTries = 2\<rparr>"

lemma http_probe_passes: "ParseIP host \<Longrightarrow> port \<noteq> 0 \<Longrightarrow> check_endpoint (http_probe port) host = None"
  by (simp add: check_endpoint_def http_probe_def)

lemma tunnel_teid: "GetNetworkTunnelPairList s = Inr t \<Longrightarrow> \<exists>n. Atoi (hd (split_on (CHR '':'') s)) = Some n \<and> uint (st_TeID t) = n mod 2 ^ 32"
  by (auto simp: GetNetworkTunnelPairList_def uint_of_int32 split: list.splits option.splits)

lemma rate_pair:
  assumes "GetRatePair s m = Inr m'" "s \<noteq> []"
  shows "\<exists>peak committed. map Atoi (split_on (CHR '':'') s) = [Some peak, Some committed]
    \<and> uint (pm_PeakInfoRate m') = peak mod 2 ^ 64 \<and> uint (pm_CommittedInfoRate m') = committed mod 2 ^ 64"
proof -
  obtain peak committed where p: "int_pair ''peak'' ''lots of args for rate'' s = Inr (peak, committed)"
      "m' = m\<lparr>pm_CommittedInfoRate := word_of_int committed, pm_PeakInfoRate := word_of_int peak\<rparr>"
    using assms by (cases "int_pair ''peak'' ''lots of args for rate'' s") (auto simp: GetRatePair_def)
  then have "map Atoi (split_on (CHR '':'') s) = [Some peak, Some committed]"
    by (auto simp: int_pair_def split: list.splits option.splits)
  with p(2) show ?thesis by (simp add: uint_of_int64)
qed

subsection \<open>The action of a firewall rule\<close>

definition fw_actions :: "fwRuleMod \<Rightarrow> bool list" where
  "fw_actions m = [fw_Allow m, fw_Drop m, fw_Trap m, fw_Rdr m, fw_DoSnat m]"

lemma firewall_arg_actions: "firewall_arg k v vs m = Inr m' \<Longrightarrow> fw_actions m' = fw_actions m"
  by (auto simp: firewall_arg_def with_int_def fw_actions_def split: if_splits option.splits)

lemma rule_pairs_actions: "GetFirewallRulePairList all as m = Inr m' \<Longrightarrow> fw_actions m' = fw_actions m"
proof (induction all as m arbitrary: m' rule: GetFirewallRulePairList.induct)
  case (2 all a as m)
  then show ?case by (auto dest!: firewall_arg_actions split: list.splits sum.splits)
qed simp

definition wanted_actions :: "createFirewallOptions \<Rightarrow> bool list" where
  "wanted_actions c = [cf_Allow c, cf_Drop c, cf_Trap c, cf_Redirect c \<noteq> [], cf_SnatArgs c \<noteq> []]"

text \<open>The first of the wanted actions, in this order, and no other.\<close>

fun first_only :: "bool list \<Rightarrow> bool list" where
  "first_only [] = []"
| "first_only (True # bs) = True # map (\<lambda>_. False) bs"
| "first_only (False # bs) = False # first_only bs"

lemma snat_actions: "firewall_snat c m = Inr m' \<Longrightarrow> fw_actions m = [False, False, False, False, False] \<Longrightarrow> fw_actions m' = [False, False, False, False, True]"
  by (auto simp: firewall_snat_def fw_actions_def Let_def split: if_splits option.splits)

lemma firewall_actions:
  assumes "firewall_mod c = Inr m"
  shows "fw_actions m = first_only (wanted_actions c)"
proof -
  obtain m0 where "GetFirewallRulePairList (cf_FirewallRule c) (cf_FirewallRule c) fwRuleMod0 = Inr m0" "GetFWOptionPairList c m0 = Inr m"
    using assms by (auto simp: firewall_mod_def split: sum.splits)
  then obtain m1 where m0: "fw_actions m0 = [False, False, False, False, False]" and m: "fw_actions m = fw_actions m1"
    and m1: "(if cf_Allow c then Inr (m0\<lparr>fw_Allow := True\<rparr>) else if cf_Drop c then Inr (m0\<lparr>fw_Drop := True\<rparr>)
        else if cf_Trap c then Inr (m0\<lparr>fw_Trap := True\<rparr>)
        else if cf_Redirect c \<noteq> [] then Inr (m0\<lparr>fw_Rdr := True, fw_RdrPort := cf_Redirect c ! 0\<rparr>)
        else if cf_SnatArgs c \<noteq> [] then firewall_snat c m0 else Inr m0) = Inr m1"
    unfolding GetFWOptionPairList_def
    using rule_pairs_actions [of _ _ fwRuleMod0]
    by (fastforce simp: fw_actions_def fwRuleMod0_def map_sum_def split: sum.splits)
  show ?thesis
    using m0 m1 snat_actions [of c m0 m1] unfolding m
    by (auto simp: wanted_actions_def fw_actions_def split: if_splits)
qed

subsection \<open>The members of a patch\<close>

lemma map_of_members:
  "map_of (opt_member k f v @ rest) k' = (if k' = k \<and> v \<noteq> None then map_option f v else map_of rest k')"
  "map_of (unless b k j @ rest) k' = (if k' = k \<and> \<not> b then Some j else map_of rest k')"
  by (simp_all add: opt_member_def unless_def split: option.splits)

definition patch_members :: "setAPIKeyOptions \<Rightarrow> string \<Rightarrow> json option" where
  "patch_members k m =
     (if m = ''allowed_models'' then (if given (sk_AllowedModels k) \<and> flag_value (sk_AllowedModels k) \<noteq> []
        then Some (jstrings (flag_value (sk_AllowedModels k))) else None)
      else if m = ''enabled'' then map_option JBool (flag_ptr (sk_Enabled k))
      else if m = ''rate_limit_rps'' then map_option jint (flag_ptr (sk_RateLimitRps k))
      else if m = ''burst_size'' then map_option jint (flag_ptr (sk_BurstSize k))
      else if m = ''tokens_per_min'' then map_option jint (flag_ptr (sk_TokensPerMin k))
      else if m = ''priority_class'' then map_option JStr (flag_ptr (sk_PriorityClass k))
      else if m = ''default_objective'' then map_option JStr (flag_ptr (sk_DefaultObjective k))
      else if m = ''allowed_objectives'' then map_option jstrings (flag_ptr (sk_AllowedObjectives k))
      else None)"

definition patch_keys :: "string list" where
  "patch_keys = [''allowed_models'', ''enabled'', ''rate_limit_rps'', ''burst_size'', ''tokens_per_min'', ''priority_class'', ''default_objective'',
     ''allowed_objectives'']"

lemma patch_json_members:
  assumes "aiApiKeyPatchRequest_json (apiKeyPatch k) = JObj ms"
  shows "map_of ms = patch_members k"
proof
  fix m
  have ms: "ms = unless (flag_slice (sk_AllowedModels k) = []) ''allowed_models'' (jstrings (flag_slice (sk_AllowedModels k)))
      @ opt_member ''enabled'' JBool (flag_ptr (sk_Enabled k)) @ opt_member ''rate_limit_rps'' jint (flag_ptr (sk_RateLimitRps k))
      @ opt_member ''burst_size'' jint (flag_ptr (sk_BurstSize k)) @ opt_member ''tokens_per_min'' jint (flag_ptr (sk_TokensPerMin k))
      @ opt_member ''priority_class'' JStr (flag_ptr (sk_PriorityClass k)) @ opt_member ''default_objective'' JStr (flag_ptr (sk_DefaultObjective k))
      @ opt_member ''allowed_objectives'' jstrings (flag_ptr (sk_AllowedObjectives k)) @ []"
    using assms by (simp add: aiApiKeyPatchRequest_json_def apiKeyPatch_def)
  show "map_of ms m = patch_members k m"
  proof (cases "m \<in> set patch_keys")
    case True
    then show ?thesis
      unfolding ms map_of_members patch_keys_def list.set insert_iff
      by (elim disjE) (simp_all add: patch_members_def flag_slice_def)
  next
    case False
    then show ?thesis unfolding ms map_of_members by (simp add: patch_members_def patch_keys_def)
  qed
qed

subsection \<open>The quotas of a tenant\<close>

text \<open>One \<open>MODEL=TOKENS\<close> value and the quota it stands for.\<close>

definition limit_of :: "string \<Rightarrow> aiTenantModelRateLimit \<Rightarrow> bool" where
  "limit_of v l \<longleftrightarrow>
     (\<exists>m t. cut_at (CHR ''='') v = Some (m, t) \<and> ml_Model l = trim_space m \<and> ml_Model l \<noteq> [] \<and> CHR ''|'' \<notin> set (ml_Model l)
        \<and> Atoi (trim_space t) = Some (ml_TokensPerMin l) \<and> 0 \<le> ml_TokensPerMin l)"

lemma Atoi_nil: "Atoi [] = None"
  using Atoi_chars [of "[]"] by (cases "Atoi []") auto

lemma parse_limits_sound:
  "parseTenantModelLimits vs seen = Inr ls \<Longrightarrow> list_all2 limit_of vs ls \<and> distinct (map ml_Model ls) \<and> set (map ml_Model ls) \<inter> set seen = {}"
proof (induction vs arbitrary: seen ls)
  case (Cons v vs)
  obtain m t n ls' where parts: "cut_at (CHR ''='') v = Some (m, t)" "trim_space m \<noteq> []" "CHR ''|'' \<notin> set (trim_space m)"
      "trim_space m \<notin> set seen" "Atoi (trim_space t) = Some n" "0 \<le> n"
    and rest: "parseTenantModelLimits vs (trim_space m # seen) = Inr ls'" "ls = \<lparr>ml_Model = trim_space m, ml_TokensPerMin = n\<rparr> # ls'"
    using Cons.prems
    by (cases "cut_at (CHR ''='') v"; cases "Atoi (trim_space (snd (the (cut_at (CHR ''='') v))))")
      (auto simp: Let_def map_sum_def split: if_splits sum.splits)
  with Cons.IH [OF rest(1)] show ?case by (auto simp: limit_of_def)
qed simp

lemma parse_limits_complete:
  "list_all2 limit_of vs ls \<Longrightarrow> distinct (map ml_Model ls) \<Longrightarrow> set (map ml_Model ls) \<inter> set seen = {} \<Longrightarrow> parseTenantModelLimits vs seen = Inr ls"
proof (induction vs arbitrary: seen ls)
  case (Cons v vs)
  then obtain l ls' where ls: "ls = l # ls'" "limit_of v l" "list_all2 limit_of vs ls'" by (auto simp: list_all2_Cons1)
  then obtain m t where l: "cut_at (CHR ''='') v = Some (m, t)" "ml_Model l = trim_space m" "trim_space m \<noteq> []" "CHR ''|'' \<notin> set (trim_space m)"
      "Atoi (trim_space t) = Some (ml_TokensPerMin l)" "0 \<le> ml_TokensPerMin l"
    by (auto simp: limit_of_def)
  have "trim_space t \<noteq> []" using l(5) Atoi_nil by auto
  moreover have "parseTenantModelLimits vs (trim_space m # seen) = Inr ls'" using Cons ls l by auto
  moreover have "l = \<lparr>ml_Model = trim_space m, ml_TokensPerMin = ml_TokensPerMin l\<rparr>" using l(2) by simp
  ultimately show ?case using l ls Cons.prems by (auto simp: Let_def)
qed simp

lemma parse_limits_iff:
  "parseTenantModelLimits vs [] = Inr ls \<longleftrightarrow> list_all2 limit_of vs ls \<and> distinct (map ml_Model ls)"
  using parse_limits_sound [of vs "[]" ls] parse_limits_complete [of vs ls "[]"] by auto

subsection \<open>The token of a session\<close>

definition answered_token :: "http_body \<Rightarrow> string \<Rightarrow> bool" where
  "answered_token raw token \<longleftrightarrow>
     token \<noteq> [] \<and> (\<exists>body t. raw = Whole body \<and> unmarshal tokenModel_fields \<lparr>tm_Token = [], tm_RefreshToken = []\<rparr> body = Some t \<and> tm_Token t = token)"

lemma save_token:
  assumes "snd (PrintAndSaveTokenResult se o' raw files) \<noteq> files"
  shows "\<exists>token n. answered_token raw token \<and> snd (PrintAndSaveTokenResult se o' raw files) = files(SessionTokenPath := Some (take n token))"
proof -
  obtain body t where b: "raw = Whole body" "unmarshal tokenModel_fields \<lparr>tm_Token = [], tm_RefreshToken = []\<rparr> body = Some t" "tm_Token t \<noteq> []"
    and w: "snd (PrintAndSaveTokenResult se o' raw files) = snd (os_WriteFile se SessionTokenPath (tm_Token t) files)"
    using assms by (auto simp: PrintAndSaveTokenResult_def split: http_body.splits option.splits if_splits prod.splits bool.splits)
  then have token: "answered_token raw (tm_Token t)" by (auto simp: answered_token_def)
  from assms have "\<exists>n. snd (os_WriteFile se SessionTokenPath (tm_Token t) files) = files(SessionTokenPath := Some (take n (tm_Token t)))"
    unfolding w by (auto simp: os_WriteFile_def split: write_answer.splits intro: exI [of _ "length (tm_Token t)"])
  with token w show ?thesis by auto
qed

lemma save_token_done:
  assumes "answered_token raw token" "se_write se SessionTokenPath = WriteDone"
  shows "snd (PrintAndSaveTokenResult se o' raw files) = files(SessionTokenPath := Some token)"
  using assms by (auto simp: answered_token_def PrintAndSaveTokenResult_def os_WriteFile_def)

definition login_answer :: "gateway_env \<Rightarrow> restOptions \<Rightarrow> session_env \<Rightarrow> http_request list \<Rightarrow> http_result" where
  "login_answer env o' se log =
     (case (se_lines se, se_password se) of
        (line # _, Some password) \<Rightarrow> fst (exchange env (LoginAPICall env o' \<lparr>lg_Username = trim_space line, lg_Password = password\<rparr>) log)
      | _ \<Rightarrow> NoResponse)"

lemma login_cases:
  "(\<exists>hs raw. login_answer env o' se log = Response 200 hs raw \<and> rn_end (fst (login_password env o' se log files)) = Done None
      \<and> snd (login_password env o' se log files) = snd (PrintAndSaveTokenResult se o' raw files))
   \<or> (\<nexists>hs raw. login_answer env o' se log = Response 200 hs raw) \<and> rn_end (fst (login_password env o' se log files)) \<noteq> Done None
      \<and> snd (login_password env o' se log files) = files"
proof (cases "\<exists>line rest password. se_lines se = line # rest \<and> se_password se = Some password")
  case True
  then obtain line rest password where input: "se_lines se = line # rest" "se_password se = Some password" by auto
  obtain ans log' where x: "exchange env (LoginAPICall env o' \<lparr>lg_Username = trim_space line, lg_Password = password\<rparr>) log = (ans, log')"
    by (cases "exchange env (LoginAPICall env o' \<lparr>lg_Username = trim_space line, lg_Password = password\<rparr>) log")
  show ?thesis
    by (cases ans) (auto simp: login_answer_def login_password_def ReadSetLogInOptions_def input x run_ends Let_def case_prod_unfold)
next
  case False
  then show ?thesis by (cases "se_lines se"; cases "se_password se") (auto simp: login_answer_def login_password_def input_failed_def Let_def)
qed

lemma login_changes:
  assumes "snd (login_password env o' se log files) \<noteq> files"
  shows "\<exists>hs raw token n. login_answer env o' se log = Response 200 hs raw \<and> answered_token raw token
      \<and> snd (login_password env o' se log files) = files(SessionTokenPath := Some (take n token))
      \<and> (se_write se SessionTokenPath = WriteDone \<longrightarrow> snd (login_password env o' se log files) SessionTokenPath = Some token)"
proof -
  obtain hs raw where ans: "login_answer env o' se log = Response 200 hs raw"
    and files: "snd (login_password env o' se log files) = snd (PrintAndSaveTokenResult se o' raw files)"
    using login_cases [of env o' se log files] assms by blast
  then obtain token n where token: "answered_token raw token"
      "snd (PrintAndSaveTokenResult se o' raw files) = files(SessionTokenPath := Some (take n token))"
    using save_token [of se o' raw files] assms by auto
  have "se_write se SessionTokenPath = WriteDone \<Longrightarrow> snd (login_password env o' se log files) SessionTokenPath = Some token"
    using files save_token_done [OF token(1), of se o' files] by simp
  with ans files token show ?thesis by metis
qed

subsection \<open>Getting to the end\<close>

text \<open>The requests of a plan, and a plan in which nothing stands in the way.\<close>

fun requests_of :: "plan_step list \<Rightarrow> http_request list" where
  "requests_of (Ask (Some r) # steps) = r # requests_of steps"
| "requests_of (step # steps) = requests_of steps"
| "requests_of [] = []"

definition unobstructed :: "plan_step list \<Rightarrow> bool" where
  "unobstructed steps \<longleftrightarrow> Halt \<notin> set steps \<and> Ask None \<notin> set steps"

lemma pursue_unobstructed:
  assumes "unobstructed steps" "\<And>log' r. ok (ge_service env log' r)"
  shows "pursue env ok steps log = (True, log @ requests_of steps)"
  using assms(1)
proof (induction steps arbitrary: log rule: requests_of.induct)
  case (1 r steps)
  then show ?case using assms(2) by (simp add: unobstructed_def exchange_def)
qed (auto simp: unobstructed_def)

subsection \<open>Concrete inputs\<close>

definition no_input :: input_files where
  "no_input = \<lparr>if_keys = \<lparr>ks_open = (\<lambda>_. None), ks_stdin = Whole []\<rparr>, if_files = (\<lambda>_. None)\<rparr>"

lemma accept_plain_key:
  assumes "list_all visible key" "16 \<le> length key" "length key \<le> 512"
  shows "accept_key (Whole key) = Inr (key, True)"
proof -
  have "key \<noteq> []" using assms(2) by auto
  then have "trim_space key = key" using assms(1) trim_space_visible [of key 0] by simp
  with assms show ?thesis by (auto simp: accept_key_iff limited_read_def maxImportedAPIKeyLength_def)
qed

lemma demo_endpoint_plan:
  "\<exists>r. rest_plan env200 demo_options no_input (CreateC (CreateEndPoint (http_probe 80))) [''1.1.1.1''] gate_start = [Ask (Some r)]"
proof -
  have "ParseIP ''1.1.1.1''" by code_simp
  then have "check_endpoint (http_probe 80) ''1.1.1.1'' = None" by (rule http_probe_passes) simp
  then show ?thesis
    by (simp add: only_when_def EndPointAPICall_def post_def api_Create_def POST_def newRequest_def env200_def)
qed

definition demo_key_options :: createAPIKeyOptions where
  "demo_key_options = \<lparr>ak_TenantID = ''t'', ak_Name = [], ak_AllowedModels = [], ak_Rps = 0, ak_Burst = 0, ak_TokensPerMin = 0, ak_ExpiresAt = [],
     ak_Enabled = True, ak_APIKeyFile = ''/k'', ak_APIKeyStdin = False, ak_PriorityClass = [], ak_DefaultObjective = [], ak_AllowedObjectives = [],
     ak_ClientOpID = []\<rparr>"

definition demo_key :: string where
  "demo_key = ''0123456789abcdef''"

definition demo_key_source :: key_source where
  "demo_key_source = \<lparr>ks_open = (\<lambda>_. Some (Whole demo_key)), ks_stdin = Whole []\<rparr>"

lemma demo_key_read: "readImportedAPIKey demo_key_options demo_key_source = Inr (demo_key, True)"
proof -
  have "list_all visible demo_key" "length demo_key = 16" by (simp_all add: demo_key_def visible_def)
  then show ?thesis by (simp add: readImportedAPIKey_def demo_key_options_def demo_key_source_def accept_plain_key)
qed

definition demo_firewall :: createFirewallOptions where
  "demo_firewall = \<lparr>cf_FirewallRule = [''preference:200''], cf_Redirect = [], cf_SnatArgs = [], cf_Allow = True, cf_Drop = True, cf_Trap = False,
     cf_Record = False, cf_Egress = False, cf_Mark = 0\<rparr>"

lemma demo_firewall_mod: "firewall_mod demo_firewall = Inr (fwRuleMod0\<lparr>fw_Pref := 200, fw_Allow := True\<rparr>)"
proof -
  have "split_on (CHR '':'') ''preference:200'' = [''preference'', ''200'']" by (simp add: split_on.simps)
  moreover have "Atoi ''200'' = Some 200" by code_simp
  ultimately show ?thesis
    by (simp add: firewall_mod_def demo_firewall_def firewall_arg_def with_int_def GetFWOptionPairList_def fwRuleMod0_def)
qed

definition demo_terminal :: session_env where
  "demo_terminal = \<lparr>se_lines = [''admin''], se_password = Some ''secret'', se_readable = (\<lambda>_. True), se_write = (\<lambda>_. WriteDone), se_removable = (\<lambda>_. True)\<rparr>"

definition token_doc :: string where
  "token_doc = print_json (JObj [(''token'', JStr ''abc'')])"

lemma token_doc_decodes:
  "unmarshal tokenModel_fields \<lparr>tm_Token = [], tm_RefreshToken = []\<rparr> token_doc = Some \<lparr>tm_Token = ''abc'', tm_RefreshToken = []\<rparr>"
  by code_simp

lemma empty_doc_decodes:
  "unmarshal tokenModel_fields \<lparr>tm_Token = [], tm_RefreshToken = []\<rparr> ''{}'' = Some \<lparr>tm_Token = [], tm_RefreshToken = []\<rparr>"
  by code_simp

definition gateway_saying :: "bytes \<Rightarrow> gateway_env" where
  "gateway_saying body = \<lparr>ge_url_ok = (\<lambda>_. True), ge_service = (\<lambda>_ _. Response 200 [] (Whole body)), ge_peer = (\<lambda>_ _. HTTPError)\<rparr>"

lemma demo_login_answer: "login_answer (gateway_saying body) demo_options demo_terminal [] = Response 200 [] (Whole body)"
  by (simp add: login_answer_def demo_terminal_def LoginAPICall_def api_Create_def POST_def newRequest_def gateway_saying_def exchange_def)

lemma demo_login_files:
  "snd (login_password (gateway_saying body) demo_options demo_terminal [] files) = snd (PrintAndSaveTokenResult demo_terminal demo_options (Whole body) files)"
  using login_cases [of "gateway_saying body" demo_options demo_terminal "[]" files] by (auto simp: demo_login_answer)

lemma demo_login_token:
  "snd (login_password (gateway_saying token_doc) demo_options demo_terminal [] Map.empty) \<noteq> Map.empty"
  "answered_token (Whole token_doc) token \<longleftrightarrow> token = ''abc''"
proof -
  have "snd (login_password (gateway_saying token_doc) demo_options demo_terminal [] Map.empty) = Map.empty(SessionTokenPath := Some ''abc'')"
    unfolding demo_login_files by (simp add: PrintAndSaveTokenResult_def token_doc_decodes os_WriteFile_def demo_terminal_def)
  then show "snd (login_password (gateway_saying token_doc) demo_options demo_terminal [] Map.empty) \<noteq> Map.empty" by simp
  show "answered_token (Whole token_doc) token \<longleftrightarrow> token = ''abc''" by (auto simp: answered_token_def token_doc_decodes)
qed

lemma demo_login_no_token: "snd (login_password (gateway_saying ''{}'') demo_options demo_terminal [] files) = files"
  unfolding demo_login_files by (simp add: PrintAndSaveTokenResult_def empty_doc_decodes)

lemma tunnel_reads: "\<exists>addr. GetNetworkTunnelPairList ''5:1.1.1.1'' = Inr \<lparr>st_TeID = 5, st_Addr = addr\<rparr>"
proof -
  have "split_on (CHR '':'') ''5:1.1.1.1'' = [''5'', ''1.1.1.1'']" by code_simp
  moreover have "Atoi ''5'' = Some 5" by code_simp
  moreover have "IP_value ''1.1.1.1'' \<noteq> None" unfolding IP_value_iff by code_simp
  ultimately show ?thesis by (auto simp: GetNetworkTunnelPairList_def)
qed

lemma rate_wraps: "map_sum id pm_PeakInfoRate (GetRatePair ''-1:8'' (polMod0 ''p'')) = Inr 18446744073709551615"
  by code_simp

end
