(* ===== verification/FileConfig.thy ===== *)
theory FileConfig
  imports RestPlan
begin

section \<open>Configuration files (\<open>apply -f\<close>, \<open>delete -f\<close>)\<close>

text \<open>
  \<open>apply_create.go\<close> and \<open>create_file.go\<close> create what a YAML file describes, \<open>delete_file.go\<close> deletes it. The YAML library
  is an argument: one reader per struct, which gives an error text or the struct. So are reading the file and the
  text of an error of the transport. A run is what is printed, the error that is returned, and the requests.
\<close>

record objectMeta =
  om_BGP :: bool
  om_Block :: int
  om_HostName :: string
  om_VlanID :: int
  om_VxlanID :: int

record 'm config_file =
  cg_ObjectMeta :: objectMeta
  cg_Spec :: 'm

type_synonym 'm yaml_read = "bytes \<Rightarrow> string + 'm config_file"

record yaml_reader =
  ya_Kind :: "bytes \<Rightarrow> string + string"
  ya_LB :: "loadBalancerModel yaml_read"
  ya_EndPoint :: "endPointMod yaml_read"
  ya_FDB :: "fdbMod yaml_read"
  ya_FW :: "fwRuleMod yaml_read"
  ya_IPv4 :: "ipv4AddrMod yaml_read"
  ya_Mirror :: "mirrMod yaml_read"
  ya_Neighbor :: "neighborMod yaml_read"
  ya_Policy :: "polMod yaml_read"
  ya_Route :: "routev4Get yaml_read"
  ya_Session :: "sessionMod yaml_read"
  ya_SessionUlcl :: "sessionUlClMod yaml_read"
  ya_VlanMember :: "(string \<times> bool) yaml_read"
  ya_Vlan :: "int yaml_read"
  ya_VxlanPeer :: "string yaml_read"
  ya_Vxlan :: "(int \<times> string) yaml_read"
  ya_BFD :: "bfdSessionInfo yaml_read"

record file_env =
  fe_read :: "string \<Rightarrow> string + bytes"
  fe_yaml :: yaml_reader
  fe_unreachable :: string

type_synonym file_run = "msg list \<times> goerr option \<times> http_request list"

definition with_file :: "string + 'm \<Rightarrow> http_request list \<Rightarrow> ('m \<Rightarrow> file_run) \<Rightarrow> file_run" where
  "with_file doc log k = (case doc of Inl e \<Rightarrow> ([], Some (EPlain e), log) | Inr c \<Rightarrow> k c)"

text \<open>The request is sent, and any answer is taken.\<close>

definition send_only :: "file_env \<Rightarrow> gateway_env \<Rightarrow> msg list \<Rightarrow> http_request option \<Rightarrow> http_request list \<Rightarrow> file_run" where
  "send_only fe env failure req log =
     (case exchange env req log of
        (NoResponse, log') \<Rightarrow> (failure, Some (EPlain (fe_unreachable fe)), log')
      | (Response status hs raw, log') \<Rightarrow> ([], None, log'))"

subsection \<open>Creating (\<open>create_file.go\<close>)\<close>

definition EndPointCreateWithFile :: "file_env \<Rightarrow> gateway_env \<Rightarrow> restOptions \<Rightarrow> bytes \<Rightarrow> http_request list \<Rightarrow> file_run" where
  "EndPointCreateWithFile fe env o' buf log = with_file (ya_EndPoint (fe_yaml fe) buf) log (\<lambda>c. send_only fe env [] (EndPointAPICall env o' (cg_Spec c)) log)"

definition FDBCreateWithFile :: "file_env \<Rightarrow> gateway_env \<Rightarrow> restOptions \<Rightarrow> bytes \<Rightarrow> http_request list \<Rightarrow> file_run" where
  "FDBCreateWithFile fe env o' buf log = with_file (ya_FDB (fe_yaml fe) buf) log (\<lambda>c. send_only fe env [] (FDBAPICall env o' (cg_Spec c)) log)"

definition FirewallCreateWithFile :: "file_env \<Rightarrow> gateway_env \<Rightarrow> restOptions \<Rightarrow> bytes \<Rightarrow> http_request list \<Rightarrow> file_run" where
  "FirewallCreateWithFile fe env o' buf log = with_file (ya_FW (fe_yaml fe) buf) log (\<lambda>c. send_only fe env [] (FirewallAPICall env o' (cg_Spec c)) log)"

definition IPv4AddressCreateWithFile :: "file_env \<Rightarrow> gateway_env \<Rightarrow> restOptions \<Rightarrow> bytes \<Rightarrow> http_request list \<Rightarrow> file_run" where
  "IPv4AddressCreateWithFile fe env o' buf log = with_file (ya_IPv4 (fe_yaml fe) buf) log (\<lambda>c. send_only fe env [] (IPv4AddressAPICall env o' (cg_Spec c)) log)"

definition LoadBalancerCreateWithFile :: "file_env \<Rightarrow> gateway_env \<Rightarrow> restOptions \<Rightarrow> bytes \<Rightarrow> http_request list \<Rightarrow> file_run" where
  "LoadBalancerCreateWithFile fe env o' buf log = with_file (ya_LB (fe_yaml fe) buf) log (\<lambda>c. send_only fe env [] (LoadbalancerAPICall env o' (cg_Spec c)) log)"

definition MirrorCreateWithFile :: "file_env \<Rightarrow> gateway_env \<Rightarrow> restOptions \<Rightarrow> bytes \<Rightarrow> http_request list \<Rightarrow> file_run" where
  "MirrorCreateWithFile fe env o' buf log = with_file (ya_Mirror (fe_yaml fe) buf) log (\<lambda>c. send_only fe env [] (MirrorAPICall env o' (cg_Spec c)) log)"

definition NeighborsCreateWithFile :: "file_env \<Rightarrow> gateway_env \<Rightarrow> restOptions \<Rightarrow> bytes \<Rightarrow> http_request list \<Rightarrow> file_run" where
  "NeighborsCreateWithFile fe env o' buf log = with_file (ya_Neighbor (fe_yaml fe) buf) log (\<lambda>c. send_only fe env [] (NeighborsAPICall env o' (cg_Spec c)) log)"

definition PolicyCreateWithFile :: "file_env \<Rightarrow> gateway_env \<Rightarrow> restOptions \<Rightarrow> bytes \<Rightarrow> http_request list \<Rightarrow> file_run" where
  "PolicyCreateWithFile fe env o' buf log = with_file (ya_Policy (fe_yaml fe) buf) log (\<lambda>c. send_only fe env [] (PolicyAPICall env o' (cg_Spec c)) log)"

definition RouteCreateWithFile :: "file_env \<Rightarrow> gateway_env \<Rightarrow> restOptions \<Rightarrow> bytes \<Rightarrow> http_request list \<Rightarrow> file_run" where
  "RouteCreateWithFile fe env o' buf log = with_file (ya_Route (fe_yaml fe) buf) log (\<lambda>c. send_only fe env [] (RouteAPICall env o' (cg_Spec c)) log)"

definition SessionMod_Validation :: "sessionMod \<Rightarrow> goerr option" where
  "SessionMod_Validation s =
     (if st_TeID (sm_AnTun s) = 0 \<or> st_TeID (sm_CnTun s) = 0 then Some (EPlain ''TeID need to be not 0'') else None)"

definition SessionCreateWithFile :: "file_env \<Rightarrow> gateway_env \<Rightarrow> restOptions \<Rightarrow> bytes \<Rightarrow> http_request list \<Rightarrow> file_run" where
  "SessionCreateWithFile fe env o' buf log = with_file (ya_Session (fe_yaml fe) buf) log
     (\<lambda>c. case SessionMod_Validation (cg_Spec c) of
          Some e \<Rightarrow> ([], Some e, log)
        | None \<Rightarrow> send_only fe env [] (SessionAPICall env o' (cg_Spec c)) log)"

definition SessionUlClCreateWithFile :: "file_env \<Rightarrow> gateway_env \<Rightarrow> restOptions \<Rightarrow> bytes \<Rightarrow> http_request list \<Rightarrow> file_run" where
  "SessionUlClCreateWithFile fe env o' buf log = with_file (ya_SessionUlcl (fe_yaml fe) buf) log (\<lambda>c. send_only fe env [] (SessionUlClAPICall env o' (cg_Spec c)) log)"

definition VlanMemberCreateWithFile :: "file_env \<Rightarrow> gateway_env \<Rightarrow> restOptions \<Rightarrow> bytes \<Rightarrow> http_request list \<Rightarrow> file_run" where
  "VlanMemberCreateWithFile fe env o' buf log = with_file (ya_VlanMember (fe_yaml fe) buf) log
     (\<lambda>c. send_only fe env [] (VlanMemberAPICall env o' (fst (cg_Spec c)) (snd (cg_Spec c)) (''/config/vlan/'' @ show_int (om_VlanID (cg_ObjectMeta c)) @ ''/member'')) log)"

definition VlanBridgeCreateWithFile :: "file_env \<Rightarrow> gateway_env \<Rightarrow> restOptions \<Rightarrow> bytes \<Rightarrow> http_request list \<Rightarrow> file_run" where
  "VlanBridgeCreateWithFile fe env o' buf log = with_file (ya_Vlan (fe_yaml fe) buf) log (\<lambda>c. send_only fe env [] (VlanBridgeAPICall env o' (cg_Spec c)) log)"

definition VxlanPeerCreateWithFile :: "file_env \<Rightarrow> gateway_env \<Rightarrow> restOptions \<Rightarrow> bytes \<Rightarrow> http_request list \<Rightarrow> file_run" where
  "VxlanPeerCreateWithFile fe env o' buf log = with_file (ya_VxlanPeer (fe_yaml fe) buf) log
     (\<lambda>c. send_only fe env [] (VxlanPeerAPICall env o' (cg_Spec c) (''/config/tunnel/vxlan/'' @ show_int (om_VxlanID (cg_ObjectMeta c)) @ ''/peer'')) log)"

definition VxlanBridgeCreateWithFile :: "file_env \<Rightarrow> gateway_env \<Rightarrow> restOptions \<Rightarrow> bytes \<Rightarrow> http_request list \<Rightarrow> file_run" where
  "VxlanBridgeCreateWithFile fe env o' buf log = with_file (ya_Vxlan (fe_yaml fe) buf) log (\<lambda>c. send_only fe env [] (VxlanBridgeAPICall env o' (fst (cg_Spec c)) (snd (cg_Spec c))) log)"

definition BFDCreateWithFile :: "file_env \<Rightarrow> gateway_env \<Rightarrow> restOptions \<Rightarrow> bytes \<Rightarrow> http_request list \<Rightarrow> file_run" where
  "BFDCreateWithFile fe env o' buf log = with_file (ya_BFD (fe_yaml fe) buf) log (\<lambda>c. send_only fe env [] (CreateBFDAPICall env o' (cg_Spec c)) log)"

text \<open>\<open>err = ...; if err != nil { fmt.Println(err.Error()); return err }\<close>\<close>

definition reported :: "file_run \<Rightarrow> file_run" where
  "reported r = (case r of (out, err, log) \<Rightarrow> (out @ (case err of None \<Rightarrow> [] | Some e \<Rightarrow> [Text (plain_text e)]), err, log))"

text \<open>Opening the file and reading the kind of its document.\<close>

definition open_config :: "file_env \<Rightarrow> string \<Rightarrow> http_request list \<Rightarrow> (bytes \<Rightarrow> string \<Rightarrow> file_run) \<Rightarrow> file_run" where
  "open_config fe file log k =
     (case fe_read fe file of
        Inl e \<Rightarrow> ([Text e], Some (EPlain e), log)
      | Inr buf \<Rightarrow>
          (case ya_Kind (fe_yaml fe) buf of
             Inl e \<Rightarrow> ([Sprintf ''Error: Failed to unmarshal File: (%s)'' [AStr e]], Some (EPlain e), log)
           | Inr kind \<Rightarrow> k buf kind))"

definition apply_kind :: "file_env \<Rightarrow> gateway_env \<Rightarrow> restOptions \<Rightarrow> http_request list \<Rightarrow> bytes \<Rightarrow> string \<Rightarrow> file_run" where
  "apply_kind fe env o' log buf kind = reported
     (if kind \<in> {''Loadbalancer'', ''lb'', ''LB''} then LoadBalancerCreateWithFile fe env o' buf log
      else if kind \<in> {''Endpoint'', ''ep'', ''endpoints''} then EndPointCreateWithFile fe env o' buf log
      else if kind \<in> {''FDB'', ''fdb''} then FDBCreateWithFile fe env o' buf log
      else if kind \<in> {''Firewall'', ''fw'', ''firewalls'', ''firewall''} then FirewallCreateWithFile fe env o' buf log
      else if kind \<in> {''ipv4address'', ''ipv4'', ''ipaddress'', ''ip'', ''IP'', ''IPaddress''} then IPv4AddressCreateWithFile fe env o' buf log
      else if kind \<in> {''mirror'', ''mirr'', ''mirrors'', ''Mirror''} then MirrorCreateWithFile fe env o' buf log
      else if kind \<in> {''nei'', ''neigh'', ''Neighbor'', ''Neigh'', ''neighbor''} then NeighborsCreateWithFile fe env o' buf log
      else if kind \<in> {''Policy'', ''pol'', ''policys'', ''pols'', ''polices''} then PolicyCreateWithFile fe env o' buf log
      else if kind \<in> {''Route'', ''route''} then RouteCreateWithFile fe env o' buf log
      else if kind \<in> {''Session'', ''session'', ''sessions''} then SessionCreateWithFile fe env o' buf log
      else if kind \<in> {''SessionULCL'', ''ulcl'', ''sessionulcls'', ''ulcls'', ''ULCL''} then SessionUlClCreateWithFile fe env o' buf log
      else if kind \<in> {''VlanMember'', ''vlanMember'', ''vlan-member'', ''vlan_member'', ''vlanmember''} then VlanMemberCreateWithFile fe env o' buf log
      else if kind \<in> {''Vlan'', ''vlan''} then VlanBridgeCreateWithFile fe env o' buf log
      else if kind \<in> {''VxlanPeer'', ''vxlanpeer'', ''vxlan-peer'', ''vxlan_peer''} then VxlanPeerCreateWithFile fe env o' buf log
      else if kind \<in> {''Vxlan'', ''vxlan''} then VxlanBridgeCreateWithFile fe env o' buf log
      else if kind \<in> {''BFD'', ''bfd''} then BFDCreateWithFile fe env o' buf log
      else ([Text ''Not Supported''], Some (EPlain ''not supported''), log))"

definition ApplyFileConfig :: "file_env \<Rightarrow> gateway_env \<Rightarrow> restOptions \<Rightarrow> string \<Rightarrow> http_request list \<Rightarrow> file_run" where
  "ApplyFileConfig fe env o' file log = open_config fe file log (apply_kind fe env o' log)"

subsection \<open>Deleting (\<open>delete_file.go\<close>)\<close>

text \<open>\<open>client.X().SubResources(...).Delete(ctx)\<close> with the line that is printed when it fails.\<close>

definition delete_only :: "file_env \<Rightarrow> gateway_env \<Rightarrow> string \<Rightarrow> commonAPI \<Rightarrow> http_request list \<Rightarrow> file_run" where
  "delete_only fe env what l log =
     send_only fe env [Text (''Error: Failed to delete '' @ what)] (api_Delete (ge_url_ok env) l) log"

text \<open>The result of the call is dropped.\<close>

definition LoadBalancerDeleteWithFile :: "file_env \<Rightarrow> gateway_env \<Rightarrow> restOptions \<Rightarrow> bytes \<Rightarrow> http_request list \<Rightarrow> file_run" where
  "LoadBalancerDeleteWithFile fe env o' buf log = with_file (ya_LB (fe_yaml fe) buf) log
     (\<lambda>c. let s = lm_Service (cg_Spec c);
          l = api_Query [(''bgp'', show_bool (ls_BGP s)), (''block'', show_int (uint (ls_Block s)))]
                (SubResources [''externalipaddress'', ls_ExternalIP s, ''port'', show_int (uint (ls_Port s)), ''protocol'', ls_Protocol s]
                  (LoxiClient_LoadBalancer o')) in
        ([], None, snd (exchange env (api_Delete (ge_url_ok env) l) log)))"

definition NeighborDeleteWithFile :: "file_env \<Rightarrow> gateway_env \<Rightarrow> restOptions \<Rightarrow> bytes \<Rightarrow> http_request list \<Rightarrow> file_run" where
  "NeighborDeleteWithFile fe env o' buf log = with_file (ya_Neighbor (fe_yaml fe) buf) log
     (\<lambda>c. delete_only fe env ''Neighbor'' (SubResources [nb_IP (cg_Spec c), ''dev'', nb_Dev (cg_Spec c)] (LoxiClient_Neighbor o')) log)"

definition MirrorDeleteWithFile :: "file_env \<Rightarrow> gateway_env \<Rightarrow> restOptions \<Rightarrow> bytes \<Rightarrow> http_request list \<Rightarrow> file_run" where
  "MirrorDeleteWithFile fe env o' buf log = with_file (ya_Mirror (fe_yaml fe) buf) log
     (\<lambda>c. delete_only fe env ''Mirror'' (SubResources [''ident'', mm_Ident (cg_Spec c)] (LoxiClient_Mirror o')) log)"

definition IPv4AddressDeleteWithFile :: "file_env \<Rightarrow> gateway_env \<Rightarrow> restOptions \<Rightarrow> bytes \<Rightarrow> http_request list \<Rightarrow> file_run" where
  "IPv4AddressDeleteWithFile fe env o' buf log = with_file (ya_IPv4 (fe_yaml fe) buf) log
     (\<lambda>c. delete_only fe env ''IPv4Address'' (SubResources [ia_IP (cg_Spec c), ''dev'', ia_Dev (cg_Spec c)] (LoxiClient_IPv4Address o')) log)"

definition FDBDeleteWithFile :: "file_env \<Rightarrow> gateway_env \<Rightarrow> restOptions \<Rightarrow> bytes \<Rightarrow> http_request list \<Rightarrow> file_run" where
  "FDBDeleteWithFile fe env o' buf log = with_file (ya_FDB (fe_yaml fe) buf) log
     (\<lambda>c. delete_only fe env ''FDB'' (SubResources [fm_MacAddress (cg_Spec c), ''dev'', fm_Dev (cg_Spec c)] (LoxiClient_FDB o')) log)"

definition EndPointDeleteWithFile :: "file_env \<Rightarrow> gateway_env \<Rightarrow> restOptions \<Rightarrow> bytes \<Rightarrow> http_request list \<Rightarrow> file_run" where
  "EndPointDeleteWithFile fe env o' buf log = with_file (ya_EndPoint (fe_yaml fe) buf) log
     (\<lambda>c. delete_only fe env ''EndPoint'' (SubResources [''epipaddress'', om_HostName (cg_ObjectMeta c), ''probetype'', em_ProbeType (cg_Spec c), ''probeport'', show_int (uint (em_ProbePort (cg_Spec c)))] (LoxiClient_EndPoint o')) log)"

definition PolicyDeleteWithFile :: "file_env \<Rightarrow> gateway_env \<Rightarrow> restOptions \<Rightarrow> bytes \<Rightarrow> http_request list \<Rightarrow> file_run" where
  "PolicyDeleteWithFile fe env o' buf log = with_file (ya_Policy (fe_yaml fe) buf) log
     (\<lambda>c. delete_only fe env ''Policy'' (SubResources [''ident'', pm_Ident (cg_Spec c)] (LoxiClient_Policy o')) log)"

definition MakefirewallDeleteRuleToQeury :: "fwRuleMod \<Rightarrow> (string \<times> string) list" where
  "MakefirewallDeleteRuleToQeury m = concat
    [(if fw_DstIP m \<noteq> [] then [(''destinationIP'', fw_DstIP m)] else []),
     (if fw_DstPortMin m \<noteq> 0 then [(''minDestinationPort'', show_int (uint (fw_DstPortMin m)))] else []),
     (if fw_DstPortMax m \<noteq> 0 then [(''maxDestinationPort'', show_int (uint (fw_DstPortMax m)))] else []),
     (if fw_InPort m \<noteq> [] then [(''portName'', fw_InPort m)] else []),
     (if fw_Pref m \<noteq> 0 then [(''preference'', show_int (uint (fw_Pref m)))] else []),
     (if fw_Proto m \<noteq> 0 then [(''protocol'', show_int (uint (fw_Proto m)))] else []),
     (if fw_SrcIP m \<noteq> [] then [(''sourceIP'', fw_SrcIP m)] else []),
     (if fw_SrcPortMax m \<noteq> 0 then [(''maxSourcePort'', show_int (uint (fw_SrcPortMax m)))] else []),
     (if fw_SrcPortMin m \<noteq> 0 then [(''minSourcePort'', show_int (uint (fw_SrcPortMin m)))] else [])]"

definition FirewallDeleteWithFile :: "file_env \<Rightarrow> gateway_env \<Rightarrow> restOptions \<Rightarrow> bytes \<Rightarrow> http_request list \<Rightarrow> file_run" where
  "FirewallDeleteWithFile fe env o' buf log = with_file (ya_FW (fe_yaml fe) buf) log
     (\<lambda>c. delete_only fe env ''Firewall'' (api_Query (MakefirewallDeleteRuleToQeury (cg_Spec c)) (LoxiClient_Firewall o')) log)"

definition RouteDeleteWithFile :: "file_env \<Rightarrow> gateway_env \<Rightarrow> restOptions \<Rightarrow> bytes \<Rightarrow> http_request list \<Rightarrow> file_run" where
  "RouteDeleteWithFile fe env o' buf log = with_file (ya_Route (fe_yaml fe) buf) log
     (\<lambda>c. delete_only fe env ''Route'' (SubResources [''destinationIPNet'', rt_Dst (cg_Spec c)] (LoxiClient_Route o')) log)"

definition SessionDeleteWithFile :: "file_env \<Rightarrow> gateway_env \<Rightarrow> restOptions \<Rightarrow> bytes \<Rightarrow> http_request list \<Rightarrow> file_run" where
  "SessionDeleteWithFile fe env o' buf log = with_file (ya_Session (fe_yaml fe) buf) log
     (\<lambda>c. delete_only fe env ''Session'' (SubResources [''ident'', sm_Ident (cg_Spec c)] (LoxiClient_Session o')) log)"

text \<open>\<open>net.IP.String\<close>, also of an address that is missing.\<close>

definition ip_text :: "nat list \<Rightarrow> string" where
  "ip_text a = (if a = [] then ''<nil>'' else IP_String a)"

definition SessionUlClDeleteWithFile :: "file_env \<Rightarrow> gateway_env \<Rightarrow> restOptions \<Rightarrow> bytes \<Rightarrow> http_request list \<Rightarrow> file_run" where
  "SessionUlClDeleteWithFile fe env o' buf log = with_file (ya_SessionUlcl (fe_yaml fe) buf) log
     (\<lambda>c. delete_only fe env ''SessionUlCl'' (SubResources [''ident'', su_Ident (cg_Spec c), ''ulclAddress'', ip_text (su_Addr (cg_Spec c))] (LoxiClient_SessionUlCL o')) log)"

definition VlanDeleteWithFile :: "file_env \<Rightarrow> gateway_env \<Rightarrow> restOptions \<Rightarrow> bytes \<Rightarrow> http_request list \<Rightarrow> file_run" where
  "VlanDeleteWithFile fe env o' buf log = with_file (ya_Vlan (fe_yaml fe) buf) log
     (\<lambda>c. delete_only fe env ''Vlan'' (SubResources [show_int (cg_Spec c)] (LoxiClient_Vlan o')) log)"

definition VlanMemberDeleteWithFile :: "file_env \<Rightarrow> gateway_env \<Rightarrow> restOptions \<Rightarrow> bytes \<Rightarrow> http_request list \<Rightarrow> file_run" where
  "VlanMemberDeleteWithFile fe env o' buf log = with_file (ya_VlanMember (fe_yaml fe) buf) log
     (\<lambda>c. delete_only fe env ''Vlan'' (SubResources [show_int (om_VlanID (cg_ObjectMeta c)), ''member'', fst (cg_Spec c), ''tagged'', show_bool (snd (cg_Spec c))] (LoxiClient_Vlan o')) log)"

definition VxlanDeleteWithFile :: "file_env \<Rightarrow> gateway_env \<Rightarrow> restOptions \<Rightarrow> bytes \<Rightarrow> http_request list \<Rightarrow> file_run" where
  "VxlanDeleteWithFile fe env o' buf log = with_file (ya_Vxlan (fe_yaml fe) buf) log
     (\<lambda>c. delete_only fe env ''Vxlan'' (SubResources [show_int (fst (cg_Spec c))] (LoxiClient_Vxlan o')) log)"

definition VxlanPeerDeleteWithFile :: "file_env \<Rightarrow> gateway_env \<Rightarrow> restOptions \<Rightarrow> bytes \<Rightarrow> http_request list \<Rightarrow> file_run" where
  "VxlanPeerDeleteWithFile fe env o' buf log = with_file (ya_VxlanPeer (fe_yaml fe) buf) log
     (\<lambda>c. delete_only fe env ''Vxlan'' (SubResources [show_int (om_VxlanID (cg_ObjectMeta c)), ''peer'', cg_Spec c] (LoxiClient_Vxlan o')) log)"

text \<open>A failure is printed and then passed over.\<close>

definition BFDDeleteWithFile :: "file_env \<Rightarrow> gateway_env \<Rightarrow> restOptions \<Rightarrow> bytes \<Rightarrow> http_request list \<Rightarrow> file_run" where
  "BFDDeleteWithFile fe env o' buf log = with_file (ya_BFD (fe_yaml fe) buf) log
     (\<lambda>c. case exchange env (api_Delete (ge_url_ok env) (api_Query [(''instance'', bf_Instance (cg_Spec c))]
            (SubResources [''remoteIP'', bf_RemoteIP (cg_Spec c)] (LoxiClient_BFDSession o')))) log of
          (NoResponse, log') \<Rightarrow> ([Text ''Error: Failed to delete bfd session''], None, log')
        | (Response status hs raw, log') \<Rightarrow> ([], None, log'))"

definition delete_kind :: "file_env \<Rightarrow> gateway_env \<Rightarrow> restOptions \<Rightarrow> http_request list \<Rightarrow> bytes \<Rightarrow> string \<Rightarrow> file_run" where
  "delete_kind fe env o' log buf kind = reported
     (if kind \<in> {''Loadbalancer'', ''lb'', ''LB''} then LoadBalancerDeleteWithFile fe env o' buf log
      else if kind \<in> {''Endpoint'', ''ep'', ''endpoints''} then EndPointDeleteWithFile fe env o' buf log
      else if kind \<in> {''FDB'', ''fdb''} then FDBDeleteWithFile fe env o' buf log
      else if kind \<in> {''Firewall'', ''fw'', ''firewalls'', ''firewall''} then FirewallDeleteWithFile fe env o' buf log
      else if kind \<in> {''ipv4address'', ''ipv4'', ''ipaddress'', ''ip'', ''IP'', ''IPaddress''} then IPv4AddressDeleteWithFile fe env o' buf log
      else if kind \<in> {''mirror'', ''mirr'', ''mirrors'', ''Mirror''} then MirrorDeleteWithFile fe env o' buf log
      else if kind \<in> {''nei'', ''neigh'', ''Neighbor'', ''Neigh'', ''neighbor''} then NeighborDeleteWithFile fe env o' buf log
      else if kind \<in> {''Policy'', ''pol'', ''policys'', ''pols'', ''polices''} then PolicyDeleteWithFile fe env o' buf log
      else if kind \<in> {''Route'', ''route''} then RouteDeleteWithFile fe env o' buf log
      else if kind \<in> {''Session'', ''session'', ''sessions''} then SessionDeleteWithFile fe env o' buf log
      else if kind \<in> {''SessionULCL'', ''ulcl'', ''sessionulcls'', ''ulcls'', ''ULCL''} then SessionUlClDeleteWithFile fe env o' buf log
      else if kind \<in> {''VlanMember'', ''vlanMember'', ''vlan-member'', ''vlan_member'', ''vlanmember''} then VlanMemberDeleteWithFile fe env o' buf log
      else if kind \<in> {''Vlan'', ''vlan''} then VlanDeleteWithFile fe env o' buf log
      else if kind \<in> {''VxlanPeer'', ''vxlanpeer'', ''vxlan-peer'', ''vxlan_peer''} then VxlanPeerDeleteWithFile fe env o' buf log
      else if kind \<in> {''Vxlan'', ''vxlan''} then VxlanDeleteWithFile fe env o' buf log
      else if kind \<in> {''bfd'', ''BFD''} then BFDDeleteWithFile fe env o' buf log
      else ([Text ''Not Supported''], None, log))"

definition DeleteFileConfig :: "file_env \<Rightarrow> gateway_env \<Rightarrow> restOptions \<Rightarrow> string \<Rightarrow> http_request list \<Rightarrow> file_run" where
  "DeleteFileConfig fe env o' file log = open_config fe file log (delete_kind fe env o' log)"

subsection \<open>The commands\<close>

text \<open>How \<open>apply -f\<close> and \<open>delete -f\<close> end: an error is wrapped with the file and classified.\<close>

definition config_run :: "string \<Rightarrow> file_run \<Rightarrow> rest_run" where
  "config_run file r =
     (case r of
        (out, Some e, log) \<Rightarrow> stopped log out (Classify (EWrap (''configuration failed - '' @ file @ '': '') e))
      | (out, None, log) \<Rightarrow> finished log (out @ [Sprintf ''Configuration applied - %s'' [AStr file]]))"

definition DeleteCmd_RunE :: "file_env \<Rightarrow> gateway_env \<Rightarrow> restOptions \<Rightarrow> string \<Rightarrow> string list \<Rightarrow> http_request list \<Rightarrow> rest_run" where
  "DeleteCmd_RunE fe env o' file args log =
     (if file \<noteq> [] then config_run file (DeleteFileConfig fe env o' file log)
      else (case args of
          [] \<Rightarrow> stopped log [] (Usagef (Text ''delete needs a subcommand or --file''))
        | a # _ \<Rightarrow> stopped log [] (Usagef (Sprintf (''unknown command %q for '' @ [CHR 0x22] @ ''loxicmd delete'' @ [CHR 0x22]) [AStr a]))))"

subsection \<open>What the files are meant to do\<close>

text \<open>
  The abstract specification: a row for each kind of document, with its names, the request that creates what the
  document describes and the request that deletes it. A file stands for one request, to be answered.
\<close>

record config_row =
  cr_names :: "string list"
  cr_create :: "bytes \<Rightarrow> (string + http_request option)"
  cr_delete :: "bytes \<Rightarrow> (string + http_request option)"
  cr_careless :: bool

definition config_entry :: "string list \<Rightarrow> 'm yaml_read \<Rightarrow> 
  ('m config_file \<Rightarrow> string + http_request option) \<Rightarrow> ('m config_file \<Rightarrow> http_request option) \<Rightarrow> config_row" where
  "config_entry names dec create delete =
     \<lparr>cr_names = names, cr_create = (\<lambda>buf. case dec buf of Inl e \<Rightarrow> Inl e | Inr c \<Rightarrow> create c), cr_delete = map_sum id delete \<circ> dec,
       cr_careless = False\<rparr>"

definition config_table :: "file_env \<Rightarrow> gateway_env \<Rightarrow> restOptions \<Rightarrow> config_row list" where
  "config_table fe env o' = (let y = fe_yaml fe; delete = api_Delete (ge_url_ok env) in
    [(config_entry [''Loadbalancer'', ''lb'', ''LB''] (ya_LB y) (\<lambda>c. Inr (LoadbalancerAPICall env o' (cg_Spec c)))
       (\<lambda>c. let s = lm_Service (cg_Spec c) in
          delete (api_Query [(''bgp'', show_bool (ls_BGP s)), (''block'', show_int (uint (ls_Block s)))]
            (SubResources [''externalipaddress'', ls_ExternalIP s, ''port'', show_int (uint (ls_Port s)), ''protocol'', ls_Protocol s] (LoxiClient_LoadBalancer o')))))\<lparr>cr_careless := True\<rparr>,
     config_entry [''Endpoint'', ''ep'', ''endpoints''] (ya_EndPoint y) (\<lambda>c. Inr (EndPointAPICall env o' (cg_Spec c)))
       (\<lambda>c. delete (SubResources [''epipaddress'', om_HostName (cg_ObjectMeta c), ''probetype'', em_ProbeType (cg_Spec c), ''probeport'',
          show_int (uint (em_ProbePort (cg_Spec c)))] (LoxiClient_EndPoint o'))),
     config_entry [''FDB'', ''fdb''] (ya_FDB y) (\<lambda>c. Inr (FDBAPICall env o' (cg_Spec c)))
       (\<lambda>c. delete (SubResources [fm_MacAddress (cg_Spec c), ''dev'', fm_Dev (cg_Spec c)] (LoxiClient_FDB o'))),
     config_entry [''Firewall'', ''fw'', ''firewalls'', ''firewall''] (ya_FW y) (\<lambda>c. Inr (FirewallAPICall env o' (cg_Spec c)))
       (\<lambda>c. delete (api_Query (MakefirewallDeleteRuleToQeury (cg_Spec c)) (LoxiClient_Firewall o'))),
     config_entry [''ipv4address'', ''ipv4'', ''ipaddress'', ''ip'', ''IP'', ''IPaddress''] (ya_IPv4 y) (\<lambda>c. Inr (IPv4AddressAPICall env o' (cg_Spec c)))
       (\<lambda>c. delete (SubResources [ia_IP (cg_Spec c), ''dev'', ia_Dev (cg_Spec c)] (LoxiClient_IPv4Address o'))),
     config_entry [''mirror'', ''mirr'', ''mirrors'', ''Mirror''] (ya_Mirror y) (\<lambda>c. Inr (MirrorAPICall env o' (cg_Spec c)))
       (\<lambda>c. delete (SubResources [''ident'', mm_Ident (cg_Spec c)] (LoxiClient_Mirror o'))),
     config_entry [''nei'', ''neigh'', ''Neighbor'', ''Neigh'', ''neighbor''] (ya_Neighbor y) (\<lambda>c. Inr (NeighborsAPICall env o' (cg_Spec c)))
       (\<lambda>c. delete (SubResources [nb_IP (cg_Spec c), ''dev'', nb_Dev (cg_Spec c)] (LoxiClient_Neighbor o'))),
     config_entry [''Policy'', ''pol'', ''policys'', ''pols'', ''polices''] (ya_Policy y) (\<lambda>c. Inr (PolicyAPICall env o' (cg_Spec c)))
       (\<lambda>c. delete (SubResources [''ident'', pm_Ident (cg_Spec c)] (LoxiClient_Policy o'))),
     config_entry [''Route'', ''route''] (ya_Route y) (\<lambda>c. Inr (RouteAPICall env o' (cg_Spec c)))
       (\<lambda>c. delete (SubResources [''destinationIPNet'', rt_Dst (cg_Spec c)] (LoxiClient_Route o'))),
     config_entry [''Session'', ''session'', ''sessions''] (ya_Session y) 
       (\<lambda>c. if SessionMod_Validation (cg_Spec c) = None then Inr (SessionAPICall env o' (cg_Spec c)) else Inl ''refused'')
       (\<lambda>c. delete (SubResources [''ident'', sm_Ident (cg_Spec c)] (LoxiClient_Session o'))),
     config_entry [''SessionULCL'', ''ulcl'', ''sessionulcls'', ''ulcls'', ''ULCL''] (ya_SessionUlcl y) (\<lambda>c. Inr (SessionUlClAPICall env o' (cg_Spec c)))
       (\<lambda>c. delete (SubResources [''ident'', su_Ident (cg_Spec c), ''ulclAddress'', ip_text (su_Addr (cg_Spec c))] (LoxiClient_SessionUlCL o'))),
     config_entry [''VlanMember'', ''vlanMember'', ''vlan-member'', ''vlan_member'', ''vlanmember''] (ya_VlanMember y)
       (\<lambda>c. Inr (VlanMemberAPICall env o' (fst (cg_Spec c)) (snd (cg_Spec c)) (''/config/vlan/'' @ show_int (om_VlanID (cg_ObjectMeta c)) @ ''/member'')))
       (\<lambda>c. delete (SubResources [show_int (om_VlanID (cg_ObjectMeta c)), ''member'', fst (cg_Spec c), ''tagged'', show_bool (snd (cg_Spec c))]
          (LoxiClient_Vlan o'))),
     config_entry [''Vlan'', ''vlan''] (ya_Vlan y) (\<lambda>c. Inr (VlanBridgeAPICall env o' (cg_Spec c)))
       (\<lambda>c. delete (SubResources [show_int (cg_Spec c)] (LoxiClient_Vlan o'))),
     config_entry [''VxlanPeer'', ''vxlanpeer'', ''vxlan-peer'', ''vxlan_peer''] (ya_VxlanPeer y)
       (\<lambda>c. Inr (VxlanPeerAPICall env o' (cg_Spec c) (''/config/tunnel/vxlan/'' @ show_int (om_VxlanID (cg_ObjectMeta c)) @ ''/peer'')))
       (\<lambda>c. delete (SubResources [show_int (om_VxlanID (cg_ObjectMeta c)), ''peer'', cg_Spec c] (LoxiClient_Vxlan o'))),
     config_entry [''Vxlan'', ''vxlan''] (ya_Vxlan y) (\<lambda>c. Inr (VxlanBridgeAPICall env o' (fst (cg_Spec c)) (snd (cg_Spec c))))
       (\<lambda>c. delete (SubResources [show_int (fst (cg_Spec c))] (LoxiClient_Vxlan o'))),
     (config_entry [''BFD'', ''bfd''] (ya_BFD y) (\<lambda>c. Inr (CreateBFDAPICall env o' (cg_Spec c)))
       (\<lambda>c. delete (api_Query [(''instance'', bf_Instance (cg_Spec c))] (SubResources [''remoteIP'', bf_RemoteIP (cg_Spec c)] (LoxiClient_BFDSession o')))))\<lparr>cr_careless := True\<rparr>])"

definition row_steps :: "plan_step list \<Rightarrow> (config_row \<Rightarrow> bytes \<Rightarrow> (string + http_request option)) \<Rightarrow> config_row list \<Rightarrow> bytes \<Rightarrow> string \<Rightarrow> plan_step list" where
  "row_steps unknown request table buf kind =
     (case find (\<lambda>r. kind \<in> set (cr_names r)) table of
        None \<Rightarrow> unknown
      | Some r \<Rightarrow> one_request (request r buf) id)"

definition file_plan :: "file_env \<Rightarrow> string \<Rightarrow> (bytes \<Rightarrow> string \<Rightarrow> plan_step list) \<Rightarrow> plan_step list" where
  "file_plan fe file steps =
     (case fe_read fe file of
        Inl e \<Rightarrow> [Halt]
      | Inr buf \<Rightarrow> (case ya_Kind (fe_yaml fe) buf of Inl e \<Rightarrow> [Halt] | Inr kind \<Rightarrow> steps buf kind))"

definition apply_file_plan :: "file_env \<Rightarrow> gateway_env \<Rightarrow> restOptions \<Rightarrow> string \<Rightarrow> plan_step list" where
  "apply_file_plan fe env o' file = file_plan fe file
     (row_steps [Halt] cr_create (config_table fe env o'))"

definition delete_file_plan :: "file_env \<Rightarrow> gateway_env \<Rightarrow> restOptions \<Rightarrow> string \<Rightarrow> plan_step list" where
  "delete_file_plan fe env o' file = file_plan fe file (row_steps [] cr_delete (config_table fe env o'))"

text \<open>The answers that deleting takes: any, and for a rule or a BFD session also none.\<close>

definition delete_takes :: "config_row list \<Rightarrow> string \<Rightarrow> http_result \<Rightarrow> bool" where
  "delete_takes table kind r \<longleftrightarrow>
     r \<noteq> NoResponse \<or> (case find (\<lambda>r. kind \<in> set (cr_names r)) table of None \<Rightarrow> False | Some r \<Rightarrow> cr_careless r)"

definition file_kind :: "file_env \<Rightarrow> string \<Rightarrow> string" where
  "file_kind fe file =
     (case fe_read fe file of Inl e \<Rightarrow> [] | Inr buf \<Rightarrow> (case ya_Kind (fe_yaml fe) buf of Inl e \<Rightarrow> [] | Inr kind \<Rightarrow> kind))"

lemma outcome_config_run: "outcome (config_run file r) = (fst (snd r) = None, snd (snd r))"
  by (cases r) (auto simp: config_run_def split: option.splits)

lemma snd_reported: "snd (reported r) = snd r"
  by (cases r) (simp add: reported_def)

text \<open>The verdict and the requests of a run.\<close>

abbreviation ended :: "file_run \<Rightarrow> bool \<times> http_request list" where
  "ended r \<equiv> (fst (snd r) = None, snd (snd r))"

lemma ended_send_only:
  "ended (with_file doc log (\<lambda>c. send_only fe env (out c) (call c) log)) =
     pursue env (\<lambda>r. r \<noteq> NoResponse) (one_request (map_sum id call doc) id) log"
  "ended (with_file doc log (\<lambda>c. send_only fe env (out c) (call c) log)) =
     pursue env (\<lambda>r. r \<noteq> NoResponse) (one_request (case doc of Inl e \<Rightarrow> Inl e | Inr c \<Rightarrow> Inr (call c)) id) log"
  by (cases doc; auto simp: with_file_def send_only_def one_request_def split: prod.splits http_result.splits)+

lemma ended_session:
  "ended (SessionCreateWithFile fe env o' buf log) =
     pursue env (\<lambda>r. r \<noteq> NoResponse)
       (one_request (case ya_Session (fe_yaml fe) buf of
          Inl e \<Rightarrow> Inl e
        | Inr c \<Rightarrow> if SessionMod_Validation (cg_Spec c) = None then Inr (SessionAPICall env o' (cg_Spec c)) else Inl ''refused'') id) log"
  by (cases "ya_Session (fe_yaml fe) buf")
    (auto simp: SessionCreateWithFile_def with_file_def send_only_def one_request_def split: option.splits prod.splits http_result.splits)

lemma config_entry_simps:
  "cr_names (config_entry names dec create delete) = names"
  "cr_create (config_entry names dec create delete) buf = (case dec buf of Inl e \<Rightarrow> Inl e | Inr c \<Rightarrow> create c)"
  "cr_delete (config_entry names dec create delete) buf = map_sum id delete (dec buf)"
  "cr_careless (config_entry names dec create delete) = False"
  "cr_names (e\<lparr>cr_careless := b\<rparr>) = cr_names e" "cr_create (e\<lparr>cr_careless := b\<rparr>) = cr_create e"
  "cr_delete (e\<lparr>cr_careless := b\<rparr>) = cr_delete e" "cr_careless (e\<lparr>cr_careless := b\<rparr>) = b"
  by (simp_all add: config_entry_def)

lemma row_steps_simps:
  "row_steps unknown request [] buf kind = unknown"
  "row_steps unknown request (r # table) buf kind =
     (if kind \<in> set (cr_names r) then one_request (request r buf) id else row_steps unknown request table buf kind)"
  by (simp_all add: row_steps_def)

text \<open>The dispatch goes through to the verdict and to the plan.\<close>

lemma through_if:
  "ended (if b then r else r') = (if b then ended r else ended r')"
  "pursue env ok (if b then steps else steps') log = (if b then pursue env ok steps log else pursue env ok steps' log)"
  by simp_all

lemma apply_kind_pursues:
  "ended (apply_kind fe env o' log buf kind) =
     pursue env (\<lambda>r. r \<noteq> NoResponse) (row_steps [Halt] cr_create (config_table fe env o') buf kind) log"
proof -
  have unknown: "ended ([Text ''Not Supported''], Some (EPlain ''not supported''), log) = pursue env (\<lambda>r. r \<noteq> NoResponse) [Halt] log"
    by simp
  show ?thesis
    unfolding apply_kind_def snd_reported config_table_def Let_def row_steps_simps config_entry_simps through_if list.set
      ended_session unknown EndPointCreateWithFile_def FDBCreateWithFile_def FirewallCreateWithFile_def IPv4AddressCreateWithFile_def
      LoadBalancerCreateWithFile_def MirrorCreateWithFile_def NeighborsCreateWithFile_def PolicyCreateWithFile_def RouteCreateWithFile_def
      SessionUlClCreateWithFile_def VlanMemberCreateWithFile_def VlanBridgeCreateWithFile_def
      VxlanPeerCreateWithFile_def VxlanBridgeCreateWithFile_def BFDCreateWithFile_def ended_send_only(2) ..
qed

text \<open>Deleting by a row of the table.\<close>

definition delete_row :: "gateway_env \<Rightarrow> config_row list \<Rightarrow> bytes \<Rightarrow> string \<Rightarrow> http_request list \<Rightarrow> bool \<times> http_request list" where
  "delete_row env table buf kind log =
     (case find (\<lambda>r. kind \<in> set (cr_names r)) table of
        None \<Rightarrow> (True, log)
      | Some e \<Rightarrow> pursue env (\<lambda>r. r \<noteq> NoResponse \<or> cr_careless e) (one_request (cr_delete e buf) id) log)"

lemma delete_row_pursues: "pursue env (delete_takes table kind) (row_steps [] cr_delete table buf kind) log = delete_row env table buf kind log"
proof (cases "find (\<lambda>r. kind \<in> set (cr_names r)) table")
  case (Some e)
  then have "delete_takes table kind = (\<lambda>r. r \<noteq> NoResponse \<or> cr_careless e)" by (simp add: delete_takes_def fun_eq_iff)
  with Some show ?thesis by (simp add: row_steps_def delete_row_def)
qed (simp add: row_steps_def delete_row_def)

lemma delete_row_simps:
  "delete_row env [] buf kind log = (True, log)"
  "delete_row env (e # table) buf kind log =
     (if kind \<in> set (cr_names e) then pursue env (\<lambda>r. r \<noteq> NoResponse \<or> cr_careless e) (one_request (cr_delete e buf) id) log
      else delete_row env table buf kind log)"
  by (simp_all add: delete_row_def)

lemma ended_careless:
  "ended (LoadBalancerDeleteWithFile fe env o' buf log) = pursue env (\<lambda>r. r \<noteq> NoResponse \<or> True)
     (one_request (map_sum id (\<lambda>c. api_Delete (ge_url_ok env)
       (api_Query [(''bgp'', show_bool (ls_BGP (lm_Service (cg_Spec c)))), (''block'', show_int (uint (ls_Block (lm_Service (cg_Spec c)))))]
         (SubResources [''externalipaddress'', ls_ExternalIP (lm_Service (cg_Spec c)), ''port'', show_int (uint (ls_Port (lm_Service (cg_Spec c)))),
           ''protocol'', ls_Protocol (lm_Service (cg_Spec c))] (LoxiClient_LoadBalancer o')))) (ya_LB (fe_yaml fe) buf)) id) log"
  "ended (BFDDeleteWithFile fe env o' buf log) = pursue env (\<lambda>r. r \<noteq> NoResponse \<or> True)
     (one_request (map_sum id (\<lambda>c. api_Delete (ge_url_ok env) (api_Query [(''instance'', bf_Instance (cg_Spec c))]
       (SubResources [''remoteIP'', bf_RemoteIP (cg_Spec c)] (LoxiClient_BFDSession o')))) (ya_BFD (fe_yaml fe) buf)) id) log"
  by (cases "ya_LB (fe_yaml fe) buf"; cases "ya_BFD (fe_yaml fe) buf";
      auto simp: LoadBalancerDeleteWithFile_def BFDDeleteWithFile_def with_file_def one_request_def Let_def split: prod.splits http_result.splits)+

lemma delete_kind_pursues:
  "ended (delete_kind fe env o' log buf kind) = delete_row env (config_table fe env o') buf kind log"
proof -
  have unknown: "ended ([Text ''Not Supported''], None, log) = (True, log)" by simp
  have bfd: "kind \<in> {''bfd'', ''BFD''} \<longleftrightarrow> kind \<in> {''BFD'', ''bfd''}" by auto
  show ?thesis
    unfolding delete_kind_def snd_reported config_table_def Let_def delete_row_simps config_entry_simps through_if list.set
      ended_careless unknown bfd NeighborDeleteWithFile_def MirrorDeleteWithFile_def IPv4AddressDeleteWithFile_def
      FDBDeleteWithFile_def EndPointDeleteWithFile_def PolicyDeleteWithFile_def FirewallDeleteWithFile_def RouteDeleteWithFile_def
      SessionDeleteWithFile_def SessionUlClDeleteWithFile_def VlanDeleteWithFile_def VlanMemberDeleteWithFile_def VxlanDeleteWithFile_def
      VxlanPeerDeleteWithFile_def delete_only_def ended_send_only(1) simp_thms ..
qed

lemma open_config_pursues:
  assumes "\<And>buf kind. fe_read fe file = Inr buf \<Longrightarrow> ya_Kind (fe_yaml fe) buf = Inr kind \<Longrightarrow> ended (k buf kind) = pursue env ok (steps buf kind) log"
  shows "ended (open_config fe file log k) = pursue env ok (file_plan fe file steps) log"
  using assms by (auto simp: open_config_def file_plan_def split: sum.splits)

lemma apply_file_pursues:
  "outcome (config_run file (ApplyFileConfig fe env o' file log)) =
     pursue env (\<lambda>r. r \<noteq> NoResponse) (apply_file_plan fe env o' file) log"
  unfolding outcome_config_run ApplyFileConfig_def apply_file_plan_def by (intro open_config_pursues apply_kind_pursues)

lemma delete_file_pursues:
  "outcome (config_run file (DeleteFileConfig fe env o' file log)) =
     pursue env (delete_takes (config_table fe env o') (file_kind fe file)) (delete_file_plan fe env o' file) log"
  unfolding outcome_config_run DeleteFileConfig_def delete_file_plan_def
  by (intro open_config_pursues) (simp add: delete_kind_pursues delete_row_pursues file_kind_def)

end
