(* ===== verification/RuleDecode.thy ===== *)
theory RuleDecode
  imports RestPlan
begin

section \<open>Reading saved configuration: the decoders of the dumped structs\<close>

text \<open>
  What \<open>json.Unmarshal\<close> makes of the files that \<open>apply\<close> reads: load-balancer rules with everything they carry, sessions,
  ULCL entries, firewall rules and BFD sessions. Integers must fit the width of their field.
\<close>

definition dec_word :: "'a::len word decoder" where
  "dec_word old j =
     (case j of
        JNum s \<Rightarrow> (case parse_uint64 s of Some v \<Rightarrow> if v < 2 ^ LENGTH('a) then Some (word_of_int v) else None | None \<Rightarrow> None)
      | JNull \<Rightarrow> Some old
      | _ \<Rightarrow> None)"

definition dec_int32 :: "int decoder" where
  "dec_int32 old j = (case dec_int old j of Some v \<Rightarrow> if - (2 ^ 31) \<le> v \<and> v < 2 ^ 31 then Some v else None | None \<Rightarrow> None)"

text \<open>Types with \<open>UnmarshalText\<close>: a band triple, and \<open>net.IP\<close>, of which the empty text and \<open>null\<close> are the nil address.\<close>

definition dec_band :: "bandTriple decoder" where
  "dec_band old j =
     (case j of
        JStr s \<Rightarrow> (case BandTriple_UnmarshalText old s of (b, None) \<Rightarrow> Some b | (b, Some e) \<Rightarrow> None)
      | JNull \<Rightarrow> Some old
      | _ \<Rightarrow> None)"

definition dec_ip :: "nat list decoder" where
  "dec_ip old j = (case j of JStr s \<Rightarrow> if s = [] then Some [] else IP_value s | JNull \<Rightarrow> Some [] | _ \<Rightarrow> None)"

subsection \<open>Load-balancer rules\<close>

definition fcBandEffective0 :: fcBandEffective where
  "fcBandEffective0 = \<lparr>fd_Inflight = 0, fd_Queued = 0, fd_WaitMs = 0, fd_QueuePct = 0, fd_MinSharePct = 0, fd_FloorUnits = 0, fd_Weight = 0,
     fd_WeightPct = 0\<rparr>"

definition fcBandEffective_fields :: "fcBandEffective field_spec list" where
  "fcBandEffective_fields =
    [fld ''inflight'' fd_Inflight fd_Inflight_update dec_word,
     fld ''queued'' fd_Queued fd_Queued_update dec_word,
     fld ''wait_ms'' fd_WaitMs fd_WaitMs_update dec_word,
     fld ''queue_pct'' fd_QueuePct fd_QueuePct_update dec_word,
     fld ''min_share_pct'' fd_MinSharePct fd_MinSharePct_update dec_word,
     fld ''floor_units'' fd_FloorUnits fd_FloorUnits_update dec_word,
     fld ''weight'' fd_Weight fd_Weight_update dec_word,
     fld ''weight_pct'' fd_WeightPct fd_WeightPct_update dec_word]"

definition fcEffectiveBands0 :: fcEffectiveBands where
  "fcEffectiveBands0 = \<lparr>fb_CriticalReservePct = 0, fb_CriticalReserveUnits = 0, fb_Critical = fcBandEffective0, fb_Standard = fcBandEffective0,
     fb_Sheddable = fcBandEffective0\<rparr>"

definition fcEffectiveBands_fields :: "fcEffectiveBands field_spec list" where
  "fcEffectiveBands_fields =
    [fld ''critical_reserve_pct'' fb_CriticalReservePct fb_CriticalReservePct_update dec_word,
     fld ''critical_reserve_units'' fb_CriticalReserveUnits fb_CriticalReserveUnits_update dec_word,
     fld ''critical'' fb_Critical fb_Critical_update (dec_struct False fcBandEffective_fields),
     fld ''standard'' fb_Standard fb_Standard_update (dec_struct False fcBandEffective_fields),
     fld ''sheddable'' fb_Sheddable fb_Sheddable_update (dec_struct False fcBandEffective_fields)]"

definition fcReservationHeld0 :: fcReservationHeld where
  "fcReservationHeld0 = \<lparr>fr_Kind = [], fr_Bucket = [], fr_Tokens = 0\<rparr>"

definition fcReservationHeld_fields :: "fcReservationHeld field_spec list" where
  "fcReservationHeld_fields =
    [fld ''kind'' fr_Kind fr_Kind_update dec_string,
     fld ''bucket'' fr_Bucket fr_Bucket_update dec_string,
     fld ''tokens'' fr_Tokens fr_Tokens_update dec_int]"

definition fcEffectiveSource0 :: fcEffectiveSource where
  "fcEffectiveSource0 = \<lparr>fo_Mode = [], fo_MaxOutstanding = [], fo_EpMaxInflight = [], fo_PrefillMaxInflight = [], fo_DecodeMaxInflight = [],
     fo_QueueDepth = [], fo_QueueWaitMs = [], fo_TelemetryStaleMs = [], fo_Adaptive = [], fo_WarmupMs = [], fo_TtftTargetMs =
     [], fo_TenantMaxSharePct = [], fo_ExposeHeaders = [], fo_DefaultReservation = [], fo_DefaultMaxTokens = [],
     fo_WakePolicy = [], fo_BandWeights = [], fo_BandMinSharePct = [], fo_CriticalReservePct = [], fo_BandWaitMs = [],
     fo_BandQueuePct = [], fo_ShedQueue = [], fo_TenantWake = [], fo_LlmdHeaders = []\<rparr>"

definition fcEffectiveSource_fields :: "fcEffectiveSource field_spec list" where
  "fcEffectiveSource_fields =
    [fld ''mode'' fo_Mode fo_Mode_update dec_string,
     fld ''max_outstanding'' fo_MaxOutstanding fo_MaxOutstanding_update dec_string,
     fld ''ep_max_inflight'' fo_EpMaxInflight fo_EpMaxInflight_update dec_string,
     fld ''prefill_max_inflight'' fo_PrefillMaxInflight fo_PrefillMaxInflight_update dec_string,
     fld ''decode_max_inflight'' fo_DecodeMaxInflight fo_DecodeMaxInflight_update dec_string,
     fld ''queue_depth'' fo_QueueDepth fo_QueueDepth_update dec_string,
     fld ''queue_wait_ms'' fo_QueueWaitMs fo_QueueWaitMs_update dec_string,
     fld ''telemetry_stale_ms'' fo_TelemetryStaleMs fo_TelemetryStaleMs_update dec_string,
     fld ''adaptive'' fo_Adaptive fo_Adaptive_update dec_string,
     fld ''warmup_ms'' fo_WarmupMs fo_WarmupMs_update dec_string,
     fld ''ttft_target_ms'' fo_TtftTargetMs fo_TtftTargetMs_update dec_string,
     fld ''tenant_max_share_pct'' fo_TenantMaxSharePct fo_TenantMaxSharePct_update dec_string,
     fld ''expose_headers'' fo_ExposeHeaders fo_ExposeHeaders_update dec_string,
     fld ''default_reservation'' fo_DefaultReservation fo_DefaultReservation_update dec_string,
     fld ''default_max_tokens'' fo_DefaultMaxTokens fo_DefaultMaxTokens_update dec_string,
     fld ''wake_policy'' fo_WakePolicy fo_WakePolicy_update dec_string,
     fld ''band_weights'' fo_BandWeights fo_BandWeights_update dec_string,
     fld ''band_min_share_pct'' fo_BandMinSharePct fo_BandMinSharePct_update dec_string,
     fld ''critical_reserve_pct'' fo_CriticalReservePct fo_CriticalReservePct_update dec_string,
     fld ''band_wait_ms'' fo_BandWaitMs fo_BandWaitMs_update dec_string,
     fld ''band_queue_pct'' fo_BandQueuePct fo_BandQueuePct_update dec_string,
     fld ''shed_queue'' fo_ShedQueue fo_ShedQueue_update dec_string,
     fld ''tenant_wake'' fo_TenantWake fo_TenantWake_update dec_string,
     fld ''llmd_headers'' fo_LlmdHeaders fo_LlmdHeaders_update dec_string]"

definition fcEffective0 :: fcEffective where
  "fcEffective0 = \<lparr>fe_Mode = [], fe_MaxOutstanding = 0, fe_EpMaxInflight = 0, fe_PrefillMaxInflight = 0, fe_DecodeMaxInflight = 0,
     fe_QueueDepth = 0, fe_QueueWaitMs = 0, fe_Inflight = 0, fe_Queued = 0, fe_QueueMemoryBoundMib = 0, fe_TelemetryStaleMs =
     0, fe_Adaptive = [], fe_WarmupMs = 0, fe_TtftTargetMs = 0, fe_EffectiveMaxOutstanding = 0, fe_AdaptState = [],
     fe_AdaptReason = [], fe_WarmingEndpoints = 0, fe_TenantMaxSharePct = 0, fe_TenantsActive = 0, fe_ExposeHeaders = [],
     fe_TenantSlots = 0, fe_WakePolicy = [], fe_WakePolicyEffective = [], fe_WeightsInUse = False, fe_ShedQueue = [],
     fe_ShedQueueEffective = [], fe_TenantWake = [], fe_TenantWakeEffective = [], fe_BandFallbackReason = [], fe_LlmdHeaders
     = [], fe_BandsConfigured = False, fe_Bands = None, fe_DefaultReservation = [], fe_DefaultMaxTokens = 0,
     fe_ReservationClampedBurst = 0, fe_ReservationClampedBudget = 0, fe_ReservationEpoch = 0, fe_ReservationHeldClaims = 0,
     fe_ReservationHeldTruncated = False, fe_ReservationHeld = [], fe_ConfigSource = [], fe_StoreReachable = None,
     fe_StoreLastRead = [], fe_Source = None\<rparr>"

definition fcEffective_fields :: "fcEffective field_spec list" where
  "fcEffective_fields =
    [fld ''mode'' fe_Mode fe_Mode_update dec_string,
     fld ''max_outstanding'' fe_MaxOutstanding fe_MaxOutstanding_update dec_word,
     fld ''ep_max_inflight'' fe_EpMaxInflight fe_EpMaxInflight_update dec_word,
     fld ''prefill_max_inflight'' fe_PrefillMaxInflight fe_PrefillMaxInflight_update dec_word,
     fld ''decode_max_inflight'' fe_DecodeMaxInflight fe_DecodeMaxInflight_update dec_word,
     fld ''queue_depth'' fe_QueueDepth fe_QueueDepth_update dec_word,
     fld ''queue_wait_ms'' fe_QueueWaitMs fe_QueueWaitMs_update dec_word,
     fld ''inflight'' fe_Inflight fe_Inflight_update dec_word,
     fld ''queued'' fe_Queued fe_Queued_update dec_word,
     fld ''queue_memory_bound_mib'' fe_QueueMemoryBoundMib fe_QueueMemoryBoundMib_update dec_word,
     fld ''telemetry_stale_ms'' fe_TelemetryStaleMs fe_TelemetryStaleMs_update dec_word,
     fld ''adaptive'' fe_Adaptive fe_Adaptive_update dec_string,
     fld ''warmup_ms'' fe_WarmupMs fe_WarmupMs_update dec_word,
     fld ''ttft_target_ms'' fe_TtftTargetMs fe_TtftTargetMs_update dec_word,
     fld ''effective_max_outstanding'' fe_EffectiveMaxOutstanding fe_EffectiveMaxOutstanding_update dec_word,
     fld ''adapt_state'' fe_AdaptState fe_AdaptState_update dec_string,
     fld ''adapt_reason'' fe_AdaptReason fe_AdaptReason_update dec_string,
     fld ''warming_endpoints'' fe_WarmingEndpoints fe_WarmingEndpoints_update dec_word,
     fld ''tenant_max_share_pct'' fe_TenantMaxSharePct fe_TenantMaxSharePct_update dec_word,
     fld ''tenants_active'' fe_TenantsActive fe_TenantsActive_update dec_word,
     fld ''expose_headers'' fe_ExposeHeaders fe_ExposeHeaders_update dec_string,
     fld ''tenant_slots'' fe_TenantSlots fe_TenantSlots_update dec_word,
     fld ''wake_policy'' fe_WakePolicy fe_WakePolicy_update dec_string,
     fld ''wake_policy_effective'' fe_WakePolicyEffective fe_WakePolicyEffective_update dec_string,
     fld ''weights_in_use'' fe_WeightsInUse fe_WeightsInUse_update dec_bool,
     fld ''shed_queue'' fe_ShedQueue fe_ShedQueue_update dec_string,
     fld ''shed_queue_effective'' fe_ShedQueueEffective fe_ShedQueueEffective_update dec_string,
     fld ''tenant_wake'' fe_TenantWake fe_TenantWake_update dec_string,
     fld ''tenant_wake_effective'' fe_TenantWakeEffective fe_TenantWakeEffective_update dec_string,
     fld ''band_fallback_reason'' fe_BandFallbackReason fe_BandFallbackReason_update dec_string,
     fld ''llmd_headers'' fe_LlmdHeaders fe_LlmdHeaders_update dec_string,
     fld ''bands_configured'' fe_BandsConfigured fe_BandsConfigured_update dec_bool,
     fld ''bands'' fe_Bands fe_Bands_update (dec_ptr (dec_struct False fcEffectiveBands_fields) fcEffectiveBands0),
     fld ''default_reservation'' fe_DefaultReservation fe_DefaultReservation_update dec_string,
     fld ''default_max_tokens'' fe_DefaultMaxTokens fe_DefaultMaxTokens_update dec_word,
     fld ''reservation_clamped_burst'' fe_ReservationClampedBurst fe_ReservationClampedBurst_update dec_word,
     fld ''reservation_clamped_budget'' fe_ReservationClampedBudget fe_ReservationClampedBudget_update dec_word,
     fld ''reservation_epoch'' fe_ReservationEpoch fe_ReservationEpoch_update dec_int,
     fld ''reservation_held_claims'' fe_ReservationHeldClaims fe_ReservationHeldClaims_update dec_int,
     fld ''reservation_held_truncated'' fe_ReservationHeldTruncated fe_ReservationHeldTruncated_update dec_bool,
     fld ''reservation_held'' fe_ReservationHeld fe_ReservationHeld_update (dec_list (dec_struct False fcReservationHeld_fields) fcReservationHeld0),
     fld ''config_source'' fe_ConfigSource fe_ConfigSource_update dec_string,
     fld ''store_reachable'' fe_StoreReachable fe_StoreReachable_update (dec_ptr dec_bool False),
     fld ''store_last_read'' fe_StoreLastRead fe_StoreLastRead_update dec_string,
     fld ''source'' fe_Source fe_Source_update (dec_ptr (dec_struct False fcEffectiveSource_fields) fcEffectiveSource0)]"

definition backendTLSEffective0 :: backendTLSEffective where
  "backendTLSEffective0 = \<lparr>be_Status = [], be_Verify = False, be_CA = [], be_ClientCert = False, be_ClientCertID = [], be_ServerName = [],
     be_Generation = 0\<rparr>"

definition backendTLSEffective_fields :: "backendTLSEffective field_spec list" where
  "backendTLSEffective_fields =
    [fld ''status'' be_Status be_Status_update dec_string,
     fld ''verify'' be_Verify be_Verify_update dec_bool,
     fld ''ca'' be_CA be_CA_update dec_string,
     fld ''client_cert'' be_ClientCert be_ClientCert_update dec_bool,
     fld ''client_cert_id'' be_ClientCertID be_ClientCertID_update dec_string,
     fld ''server_name'' be_ServerName be_ServerName_update dec_string,
     fld ''generation'' be_Generation be_Generation_update dec_word]"

definition mtlsFrontend0 :: mtlsFrontend where
  "mtlsFrontend0 = \<lparr>mf_ClientCertMode = [], mf_ClientCAPath = [], mf_ClientCACertData = [], mf_RequireClientCN = False, mf_ClientCNPattern =
     [], mf_ClientCRLPath = []\<rparr>"

definition mtlsFrontend_fields :: "mtlsFrontend field_spec list" where
  "mtlsFrontend_fields =
    [fld ''client_cert_mode'' mf_ClientCertMode mf_ClientCertMode_update dec_string,
     fld ''client_ca_path'' mf_ClientCAPath mf_ClientCAPath_update dec_string,
     fld ''client_ca_cert_data'' mf_ClientCACertData mf_ClientCACertData_update dec_string,
     fld ''require_client_cn'' mf_RequireClientCN mf_RequireClientCN_update dec_bool,
     fld ''client_cn_pattern'' mf_ClientCNPattern mf_ClientCNPattern_update dec_string,
     fld ''client_crl_path'' mf_ClientCRLPath mf_ClientCRLPath_update dec_string]"

definition mtlsBackend0 :: mtlsBackend where
  "mtlsBackend0 = \<lparr>mb_VerifyServerCert = False, mb_BackendCAPath = [], mb_ClientCertPath = [], mb_ClientKeyPath = [], mb_ClientCertData =
     [], mb_ClientKeyData = []\<rparr>"

definition mtlsBackend_fields :: "mtlsBackend field_spec list" where
  "mtlsBackend_fields =
    [fld ''verify_server_cert'' mb_VerifyServerCert mb_VerifyServerCert_update dec_bool,
     fld ''backend_ca_path'' mb_BackendCAPath mb_BackendCAPath_update dec_string,
     fld ''client_cert_path'' mb_ClientCertPath mb_ClientCertPath_update dec_string,
     fld ''client_key_path'' mb_ClientKeyPath mb_ClientKeyPath_update dec_string,
     fld ''client_cert_data'' mb_ClientCertData mb_ClientCertData_update dec_string,
     fld ''client_key_data'' mb_ClientKeyData mb_ClientKeyData_update dec_string]"

definition loadBalancerEndpoint0 :: loadBalancerEndpoint where
  "loadBalancerEndpoint0 = \<lparr>ep_EndpointIP = [], ep_TargetPort = 0, ep_Weight = 0, ep_State = [], ep_Counter = [], ep_EpRole = 0, ep_NixlPort = 0\<rparr>"

definition loadBalancerEndpoint_fields :: "loadBalancerEndpoint field_spec list" where
  "loadBalancerEndpoint_fields =
    [fld ''endpointIP'' ep_EndpointIP ep_EndpointIP_update dec_string,
     fld ''targetPort'' ep_TargetPort ep_TargetPort_update dec_word,
     fld ''weight'' ep_Weight ep_Weight_update dec_word,
     fld ''state'' ep_State ep_State_update dec_string,
     fld ''counter'' ep_Counter ep_Counter_update dec_string,
     fld ''ep_role'' ep_EpRole ep_EpRole_update dec_int32,
     fld ''nixl_port'' ep_NixlPort ep_NixlPort_update dec_int32]"

definition loadBalancerSecIp0 :: loadBalancerSecIp where
  "loadBalancerSecIp0 = \<lparr>si_SecondaryIP = []\<rparr>"

definition loadBalancerSecIp_fields :: "loadBalancerSecIp field_spec list" where
  "loadBalancerSecIp_fields =
    [fld ''secondaryIP'' si_SecondaryIP si_SecondaryIP_update dec_string]"

definition lbAllowedSrcIPArg0 :: lbAllowedSrcIPArg where
  "lbAllowedSrcIPArg0 = \<lparr>sr_Prefix = []\<rparr>"

definition lbAllowedSrcIPArg_fields :: "lbAllowedSrcIPArg field_spec list" where
  "lbAllowedSrcIPArg_fields =
    [fld ''prefix'' sr_Prefix sr_Prefix_update dec_string]"

definition lbListener_fields :: "loadBalancerService field_spec list" where
  "lbListener_fields =
    [fld ''externalIP'' ls_ExternalIP ls_ExternalIP_update dec_string,
     fld ''port'' ls_Port ls_Port_update dec_word,
     fld ''portMax'' ls_PortMax ls_PortMax_update dec_word,
     fld ''protocol'' ls_Protocol ls_Protocol_update dec_string,
     fld ''sel'' ls_Sel ls_Sel_update dec_uint64,
     fld ''mode'' ls_Mode ls_Mode_update dec_int32,
     fld ''BGP'' ls_BGP ls_BGP_update dec_bool,
     fld ''Monitor'' ls_Monitor ls_Monitor_update dec_bool,
     fld ''inactiveTimeOut'' ls_Timeout ls_Timeout_update dec_word,
     fld ''block'' ls_Block ls_Block_update dec_word,
     fld ''managed'' ls_Managed ls_Managed_update dec_bool,
     fld ''name'' ls_Name ls_Name_update dec_string,
     fld ''snat'' ls_Snat ls_Snat_update dec_bool,
     fld ''oper'' ls_Oper ls_Oper_update dec_int32,
     fld ''security'' ls_Security ls_Security_update dec_int32,
     fld ''host'' ls_Host ls_Host_update dec_string,
     fld ''proxyprotocolv2'' ls_PpV2 ls_PpV2_update dec_bool,
     fld ''egress'' ls_Egress ls_Egress_update dec_bool]"

definition lbFlowControl_fields :: "loadBalancerService field_spec list" where
  "lbFlowControl_fields =
    [fld ''connectionLimit'' ls_ConnectionLimit ls_ConnectionLimit_update dec_word,
     fld ''fc_max_queue_depth'' ls_FcMaxQueueDepth ls_FcMaxQueueDepth_update (dec_ptr dec_word 0),
     fld ''fc_max_queue_wait_ms'' ls_FcMaxQueueWaitMs ls_FcMaxQueueWaitMs_update (dec_ptr dec_word 0),
     fld ''fc_mode'' ls_FcMode ls_FcMode_update dec_string,
     fld ''fc_max_outstanding'' ls_FcMaxOutstanding ls_FcMaxOutstanding_update (dec_ptr dec_word 0),
     fld ''fc_ep_max_inflight'' ls_FcEpMaxInflight ls_FcEpMaxInflight_update (dec_ptr dec_word 0),
     fld ''fc_prefill_max_inflight'' ls_FcPrefillMaxInflight ls_FcPrefillMaxInflight_update (dec_ptr dec_word 0),
     fld ''fc_decode_max_inflight'' ls_FcDecodeMaxInflight ls_FcDecodeMaxInflight_update (dec_ptr dec_word 0),
     fld ''fc_telemetry_stale_ms'' ls_FcTelemetryStaleMs ls_FcTelemetryStaleMs_update (dec_ptr dec_word 0),
     fld ''fc_adaptive'' ls_FcAdaptive ls_FcAdaptive_update dec_string,
     fld ''fc_warmup_ms'' ls_FcWarmupMs ls_FcWarmupMs_update (dec_ptr dec_word 0),
     fld ''fc_ttft_target_ms'' ls_FcTtftTargetMs ls_FcTtftTargetMs_update (dec_ptr dec_word 0),
     fld ''fc_tenant_max_share_pct'' ls_FcTenantMaxSharePct ls_FcTenantMaxSharePct_update (dec_ptr dec_word 0),
     fld ''fc_expose_headers'' ls_FcExposeHeaders ls_FcExposeHeaders_update dec_string]"

definition lbBands_fields :: "loadBalancerService field_spec list" where
  "lbBands_fields =
    [fld ''fc_wake_policy'' ls_FcWakePolicy ls_FcWakePolicy_update dec_string,
     fld ''fc_band_weights'' ls_FcBandWeights ls_FcBandWeights_update (dec_ptr dec_band bandTriple0),
     fld ''fc_band_min_share_pct'' ls_FcBandMinSharePct ls_FcBandMinSharePct_update (dec_ptr dec_band bandTriple0),
     fld ''fc_critical_reserve_pct'' ls_FcCriticalReservePct ls_FcCriticalReservePct_update (dec_ptr dec_word 0),
     fld ''fc_band_wait_ms'' ls_FcBandWaitMs ls_FcBandWaitMs_update (dec_ptr dec_band bandTriple0),
     fld ''fc_band_queue_pct'' ls_FcBandQueuePct ls_FcBandQueuePct_update (dec_ptr dec_band bandTriple0),
     fld ''fc_shed_queue'' ls_FcShedQueue ls_FcShedQueue_update dec_string,
     fld ''fc_tenant_wake'' ls_FcTenantWake ls_FcTenantWake_update dec_string,
     fld ''fc_llmd_headers'' ls_FcLlmdHeaders ls_FcLlmdHeaders_update dec_string,
     fld ''ai_default_reservation'' ls_AiDefaultReservation ls_AiDefaultReservation_update dec_string,
     fld ''ai_default_max_tokens'' ls_AiDefaultMaxTokens ls_AiDefaultMaxTokens_update (dec_ptr dec_word 0),
     fld ''ai_objective_strict'' ls_AiObjectiveStrict ls_AiObjectiveStrict_update (dec_ptr dec_bool False),
     fld ''fc_effective'' ls_FcEffective ls_FcEffective_update (dec_ptr (dec_struct False fcEffective_fields) fcEffective0)]"

definition lbRouting_fields :: "loadBalancerService field_spec list" where
  "lbRouting_fields =
    [fld ''probetype'' ls_ProbeType ls_ProbeType_update dec_string,
     fld ''probeport'' ls_ProbePort ls_ProbePort_update dec_word,
     fld ''probereq'' ls_ProbeReq ls_ProbeReq_update dec_string,
     fld ''proberesp'' ls_ProbeResp ls_ProbeResp_update dec_string,
     fld ''probeTimeout'' ls_ProbeTimeout ls_ProbeTimeout_update dec_word,
     fld ''probeRetries'' ls_ProbeRetries ls_ProbeRetries_update dec_int,
     fld ''model_name'' ls_ModelName ls_ModelName_update dec_string,
     fld ''path_prefix'' ls_PathPrefix ls_PathPrefix_update dec_string,
     fld ''path_match_mode'' ls_PathMatchMode ls_PathMatchMode_update dec_string,
     fld ''session_header_name'' ls_SessionHdrName ls_SessionHdrName_update dec_string,
     fld ''trace_type'' ls_TraceType ls_TraceType_update dec_string,
     fld ''backend_protocol'' ls_BackendProtocol ls_BackendProtocol_update dec_string,
     fld ''sockMapMode'' ls_SockMapMode ls_SockMapMode_update dec_string,
     fld ''sse_mode'' ls_SseMode ls_SseMode_update dec_bool,
     fld ''jwt_auth_profile'' ls_JWTAuthProfile ls_JWTAuthProfile_update dec_string,
     fld ''api_key_auth'' ls_APIKeyAuth ls_APIKeyAuth_update dec_string,
     fld ''max_stream_duration_sec'' ls_MaxStreamDurationSec ls_MaxStreamDurationSec_update dec_int32,
     fld ''backend_keepalive_interval_sec'' ls_BackendKeepaliveSec ls_BackendKeepaliveSec_update dec_int32,
     fld ''cb_enable'' ls_CbEnable ls_CbEnable_update dec_bool]"

definition lbPicker_fields :: "loadBalancerService field_spec list" where
  "lbPicker_fields =
    [fld ''eppEndpoint'' ls_EppEndpoint ls_EppEndpoint_update dec_string,
     fld ''eppFailureMode'' ls_EppFailureMode ls_EppFailureMode_update dec_string,
     fld ''eppTimeoutMs'' ls_EppTimeoutMs ls_EppTimeoutMs_update dec_int,
     fld ''eppPlaintext'' ls_EppPlaintext ls_EppPlaintext_update dec_bool,
     fld ''chwbl_prefix_hash_level'' ls_ChwblPrefixHashLevel ls_ChwblPrefixHashLevel_update dec_int,
     fld ''chwbl_prefix_hash_flags'' ls_ChwblPrefixHashFlags ls_ChwblPrefixHashFlags_update dec_int,
     fld ''chwbl_mean_load_factor'' ls_ChwblMeanLoadFactor ls_ChwblMeanLoadFactor_update dec_int,
     fld ''chwbl_replication'' ls_ChwblReplication ls_ChwblReplication_update dec_int,
     fld ''chwbl_enable_cache_salt'' ls_ChwblEnableCacheSalt ls_ChwblEnableCacheSalt_update dec_bool,
     fld ''pd_disagg_mode'' ls_PdDisaggMode ls_PdDisaggMode_update dec_bool,
     fld ''pd_cache_aware_mode'' ls_PdCacheAwareMode ls_PdCacheAwareMode_update dec_bool,
     fld ''pd_session_ttl_sec'' ls_PdSessionTtlSec ls_PdSessionTtlSec_update dec_int32,
     fld ''pd_cache_threshold'' ls_PdCacheThreshold ls_PdCacheThreshold_update dec_int32,
     fld ''pd_balance_abs_threshold'' ls_PdBalanceAbsThreshold ls_PdBalanceAbsThreshold_update dec_int32,
     fld ''pdBootstrapPort'' ls_PdBootstrapPort ls_PdBootstrapPort_update dec_int32,
     fld ''pd_prefill_timeout_sec'' ls_PdPrefillTimeoutSec ls_PdPrefillTimeoutSec_update dec_int32,
     fld ''kvExactMode'' ls_KvExactMode ls_KvExactMode_update dec_int,
     fld ''kvBlockSize'' ls_KvBlockSize ls_KvBlockSize_update dec_int,
     fld ''kvHashAlgo'' ls_KvHashAlgo ls_KvHashAlgo_update dec_string,
     fld ''kvZmqPort'' ls_KvZmqPort ls_KvZmqPort_update dec_int,
     fld ''kvWarmupSec'' ls_KvWarmupSec ls_KvWarmupSec_update dec_int,
     fld ''kvEngineType'' ls_KvEngineType ls_KvEngineType_update dec_string,
     fld ''kvDpRankCount'' ls_KvDpRankCount ls_KvDpRankCount_update dec_int32]"

definition lbTLS_fields :: "loadBalancerService field_spec list" where
  "lbTLS_fields =
    [fld ''timeoutMemberConnect'' ls_TimeoutMemberConnect ls_TimeoutMemberConnect_update dec_word,
     fld ''timeoutMemberData'' ls_TimeoutMemberData ls_TimeoutMemberData_update dec_word,
     fld ''timeoutTcpInspect'' ls_TimeoutTcpInspect ls_TimeoutTcpInspect_update dec_word,
     fld ''alpn_protocols'' ls_AlpnProtocols ls_AlpnProtocols_update (dec_list dec_string []),
     fld ''tls_ciphers'' ls_TLSCiphers ls_TLSCiphers_update dec_string,
     fld ''tls_versions'' ls_TLSVersions ls_TLSVersions_update (dec_list dec_string []),
     fld ''hsts_max_age'' ls_HstsMaxAge ls_HstsMaxAge_update dec_word,
     fld ''hsts_include_subdomains'' ls_HstsIncludeSubdomains ls_HstsIncludeSubdomains_update dec_bool,
     fld ''hsts_preload'' ls_HstsPreload ls_HstsPreload_update dec_bool,
     fld ''mtls_frontend'' ls_MtlsFrontend ls_MtlsFrontend_update (dec_ptr (dec_struct False mtlsFrontend_fields) mtlsFrontend0),
     fld ''mtls_backend'' ls_MtlsBackend ls_MtlsBackend_update (dec_ptr (dec_struct False mtlsBackend_fields) mtlsBackend0),
     fld ''backend_ca_cert_id'' ls_BackendCaCertId ls_BackendCaCertId_update dec_string,
     fld ''backend_client_cert_id'' ls_BackendClientCertId ls_BackendClientCertId_update dec_string,
     fld ''backend_tls_server_name'' ls_BackendTLSServerName ls_BackendTLSServerName_update dec_string,
     fld ''backend_tls_effective'' ls_BackendTLSEffective ls_BackendTLSEffective_update (dec_ptr (dec_struct False backendTLSEffective_fields) backendTLSEffective0)]"

definition loadBalancerService_fields :: "loadBalancerService field_spec list" where
  "loadBalancerService_fields = lbListener_fields @ lbFlowControl_fields @ lbBands_fields @ lbRouting_fields @ lbPicker_fields @ lbTLS_fields"

definition loadBalancerModel0 :: loadBalancerModel where
  "loadBalancerModel0 = \<lparr>lm_Service = loadBalancerService0, lm_SecondaryIPs = [], lm_SrcIPs = [], lm_Endpoints = []\<rparr>"

definition loadBalancerModel_fields :: "loadBalancerModel field_spec list" where
  "loadBalancerModel_fields =
    [fld ''serviceArguments'' lm_Service lm_Service_update (dec_struct False loadBalancerService_fields),
     fld ''secondaryIPs'' lm_SecondaryIPs lm_SecondaryIPs_update (dec_list (dec_struct False loadBalancerSecIp_fields) loadBalancerSecIp0),
     fld ''allowedSources'' lm_SrcIPs lm_SrcIPs_update (dec_list (dec_struct False lbAllowedSrcIPArg_fields) lbAllowedSrcIPArg0),
     fld ''endpoints'' lm_Endpoints lm_Endpoints_update (dec_list (dec_struct False loadBalancerEndpoint_fields) loadBalancerEndpoint0)]"

definition lbRuleModGet_fields :: "loadBalancerModel list field_spec list" where
  "lbRuleModGet_fields = [(''lbAttr'', dec_list (dec_struct False loadBalancerModel_fields) loadBalancerModel0)]"

subsection \<open>Sessions\<close>

definition sessTun0 :: sessTun where
  "sessTun0 = \<lparr>st_TeID = 0, st_Addr = []\<rparr>"

definition sessTun_fields :: "sessTun field_spec list" where
  "sessTun_fields = [fld ''teID'' st_TeID st_TeID_update dec_word, fld ''tunnelIP'' st_Addr st_Addr_update dec_ip]"

definition sessionMod_fields :: "sessionMod field_spec list" where
  "sessionMod_fields =
    [fld ''ident'' sm_Ident sm_Ident_update dec_string,
     fld ''sessionIP'' sm_Ip sm_Ip_update dec_ip,
     fld ''accessNetworkTunnel'' sm_AnTun sm_AnTun_update (dec_struct False sessTun_fields),
     fld ''coreNetworkTunnel'' sm_CnTun sm_CnTun_update (dec_struct False sessTun_fields)]"

definition sessionMod0 :: sessionMod where
  "sessionMod0 = \<lparr>sm_Ident = [], sm_Ip = [], sm_AnTun = sessTun0, sm_CnTun = sessTun0\<rparr>"

definition sessionInformationGet_fields :: "sessionMod list field_spec list" where
  "sessionInformationGet_fields = [(''sessionAttr'', dec_list (dec_struct False sessionMod_fields) sessionMod0)]"

definition sessionUlClMod0 :: sessionUlClMod where
  "sessionUlClMod0 = \<lparr>su_Ident = [], su_Addr = [], su_Qfi = 0\<rparr>"

definition ulClArg_fields :: "sessionUlClMod field_spec list" where
  "ulClArg_fields = [fld ''ulclIP'' su_Addr su_Addr_update dec_ip, fld ''qfi'' su_Qfi su_Qfi_update dec_word]"

definition sessionUlClMod_fields :: "sessionUlClMod field_spec list" where
  "sessionUlClMod_fields = [fld ''ulclIdent'' su_Ident su_Ident_update dec_string, (''ulclArgument'', dec_struct False ulClArg_fields)]"

definition ulclInformationGet_fields :: "sessionUlClMod list field_spec list" where
  "ulclInformationGet_fields = [(''ulclAttr'', dec_list (dec_struct False sessionUlClMod_fields) sessionUlClMod0)]"

subsection \<open>Firewall rules and BFD sessions\<close>

definition fwRuleArg_fields :: "fwRuleMod field_spec list" where
  "fwRuleArg_fields =
    [fld ''sourceIP'' fw_SrcIP fw_SrcIP_update dec_string,
     fld ''destinationIP'' fw_DstIP fw_DstIP_update dec_string,
     fld ''minSourcePort'' fw_SrcPortMin fw_SrcPortMin_update dec_word,
     fld ''maxSourcePort'' fw_SrcPortMax fw_SrcPortMax_update dec_word,
     fld ''minDestinationPort'' fw_DstPortMin fw_DstPortMin_update dec_word,
     fld ''maxDestinationPort'' fw_DstPortMax fw_DstPortMax_update dec_word,
     fld ''protocol'' fw_Proto fw_Proto_update dec_word,
     fld ''portName'' fw_InPort fw_InPort_update dec_string,
     fld ''preference'' fw_Pref fw_Pref_update dec_word]"

definition fwOptArg_fields :: "fwRuleMod field_spec list" where
  "fwOptArg_fields =
    [fld ''drop'' fw_Drop fw_Drop_update dec_bool,
     fld ''trap'' fw_Trap fw_Trap_update dec_bool,
     fld ''redirect'' fw_Rdr fw_Rdr_update dec_bool,
     fld ''redirectPortName'' fw_RdrPort fw_RdrPort_update dec_string,
     fld ''allow'' fw_Allow fw_Allow_update dec_bool,
     fld ''fwMark'' fw_Mark fw_Mark_update dec_word,
     fld ''record'' fw_Record fw_Record_update dec_bool,
     fld ''doSnat'' fw_DoSnat fw_DoSnat_update dec_bool,
     fld ''toIP'' fw_ToIP fw_ToIP_update dec_string,
     fld ''toPort'' fw_ToPort fw_ToPort_update dec_word,
     fld ''onDefault'' fw_OnDefault fw_OnDefault_update dec_bool,
     fld ''counter'' fw_Counter fw_Counter_update dec_string]"

definition fwRuleMod_fields :: "fwRuleMod field_spec list" where
  "fwRuleMod_fields = [(''ruleArguments'', dec_struct False fwRuleArg_fields), (''opts'', dec_struct False fwOptArg_fields)]"

definition fwInformationGet_fields :: "fwRuleMod list field_spec list" where
  "fwInformationGet_fields = [(''fwAttr'', dec_list (dec_struct False fwRuleMod_fields) fwRuleMod0)]"

definition bfdSessionInfo0 :: bfdSessionInfo where
  "bfdSessionInfo0 = \<lparr>bf_Instance = [], bf_RemoteIP = [], bf_SourceIP = [], bf_Port = 0, bf_Interval = 0, bf_RetryCount = 0, bf_State = []\<rparr>"

definition bfdSessionInfo_fields :: "bfdSessionInfo field_spec list" where
  "bfdSessionInfo_fields =
    [fld ''instance'' bf_Instance bf_Instance_update dec_string,
     fld ''remoteIp'' bf_RemoteIP bf_RemoteIP_update dec_string,
     fld ''sourceIp'' bf_SourceIP bf_SourceIP_update dec_string,
     fld ''port'' bf_Port bf_Port_update dec_word,
     fld ''interval'' bf_Interval bf_Interval_update dec_word,
     fld ''retryCount'' bf_RetryCount bf_RetryCount_update dec_word,
     fld ''state'' bf_State bf_State_update dec_string]"

definition bfdSessionGet_fields :: "bfdSessionInfo list field_spec list" where
  "bfdSessionGet_fields = [(''Attr'', dec_list (dec_struct False bfdSessionInfo_fields) bfdSessionInfo0)]"

end
