(* ===== verification/ApplyConfig.thy ===== *)
theory ApplyConfig
  imports FileConfig RuleDecode
begin

section \<open>Applying saved configuration (\<open>cmd/dump/apply.go\<close>)\<close>

text \<open>
  \<open>apply\<close> runs shell commands made from files of an interface, or of one file of commands, and posts the rules of saved
  files to the gateway. The files, what the shell answers, and the gateway are arguments. A command that fails is
  printed and the next one runs; an index out of range is a panic.
\<close>

subsection \<open>Reading lines (\<open>bufio.Scanner\<close>)\<close>

text \<open>
  The lines of a file without their ends; a line of 64 KiB or more ends the scan with an error. A file that was not
  opened is read as a nil file, which is an error at once. \<open>Torn\<close>: reading breaks off after these bytes.
\<close>

definition maxLine :: nat where "maxLine = 65535"

definition drop_cr :: "string \<Rightarrow> string" where
  "drop_cr s = (if s \<noteq> [] \<and> last s = CHR 0x0D then butlast s else s)"

definition raw_lines :: "bytes \<Rightarrow> string list" where
  "raw_lines data = (let ls = split_on (CHR 0x0A) data in if last ls = [] then butlast ls else ls)"

definition scan_lines :: "http_body option \<Rightarrow> string list \<times> bool" where
  "scan_lines file =
     (case file of
        None \<Rightarrow> ([], False)
      | Some raw \<Rightarrow>
          (let ls = raw_lines (read_some raw); short = takeWhile (\<lambda>l. length l \<le> maxLine) ls in
           (map drop_cr short, length short = length ls \<and> (case raw of Whole b \<Rightarrow> True | Torn b \<Rightarrow> False))))"

text \<open>One call of \<open>Scan\<close>: a line that is complete is found before the reading breaks off.\<close>

definition scan_first :: "http_body option \<Rightarrow> string option \<times> bool" where
  "scan_first file =
     (case scan_lines file of
        ([], ok) \<Rightarrow> (None, ok)
      | (l # _, _) \<Rightarrow> (Some l, (case file of Some (Torn b) \<Rightarrow> CHR 0x0A \<in> set b | _ \<Rightarrow> True)))"

subsection \<open>Running commands\<close>

record host_env =
  he_missing :: "string \<Rightarrow> bool"
  he_open :: "string \<Rightarrow> http_body option"
  he_bash :: "string list \<Rightarrow> string \<Rightarrow> bytes option"

record host_state =
  hs_ran :: "string list"
  hs_out :: "msg list"

type_synonym 's run_step = "'s \<Rightarrow> (string \<times> 's) + 's"
type_synonym host_step = "host_state run_step"

definition then_do :: "'s run_step \<Rightarrow> 's run_step \<Rightarrow> 's run_step" where
  "then_do f g s = (case f s of Inl p \<Rightarrow> Inl p | Inr s' \<Rightarrow> g s')"

fun in_order :: "'s run_step list \<Rightarrow> 's run_step" where
  "in_order [] s = Inr s"
| "in_order (f # fs) s = then_do f (in_order fs) s"

definition say :: "msg list \<Rightarrow> host_step" where
  "say ms s = Inr (s\<lparr>hs_out := hs_out s @ ms\<rparr>)"

definition os_error :: "msg list" where
  "os_error = [Sprintf ''%v'' [AErr ''os'']]"

definition bashCommand :: "host_env \<Rightarrow> string \<Rightarrow> host_step" where
  "bashCommand he command s =
     Inr (s\<lparr>hs_ran := hs_ran s @ [command],
            hs_out := hs_out s @ [Text command, (case he_bash he (hs_ran s) command of None \<Rightarrow> Sprintf ''%v'' [AErr ''os/exec''] | Some output \<Rightarrow> Text output)]\<rparr>)"

text \<open>\<open>token[i]\<close> of a line split at \<open>|\<close>: the command runs only if there are enough tokens.\<close>

definition index_fault :: "nat \<Rightarrow> string list \<Rightarrow> host_step" where
  "index_fault i token s = Inl (index_panic i (length token), s)"

text \<open>A file of lines: opened, which may fail, read line by line, and its error printed at the end.\<close>

definition each_line :: "host_env \<Rightarrow> string \<Rightarrow> (string \<Rightarrow> host_step) \<Rightarrow> host_step" where
  "each_line he file f =
     (case scan_lines (he_open he file) of (lines, ok) \<Rightarrow>
        in_order (say (if he_open he file = None then os_error else []) # map f lines @ [say (if ok then [] else os_error)]))"

definition first_line :: "host_env \<Rightarrow> string \<Rightarrow> (string \<Rightarrow> host_step) \<Rightarrow> host_step" where
  "first_line he file f =
     (case scan_first (he_open he file) of (line, ok) \<Rightarrow>
        in_order [say (if he_open he file = None then os_error else []), (case line of None \<Rightarrow> Inr | Some l \<Rightarrow> f l), say (if ok then [] else os_error)])"

definition unless_missing :: "host_env \<Rightarrow> string \<Rightarrow> host_step \<Rightarrow> host_step" where
  "unless_missing he file f = (if he_missing he file then Inr else f)"

definition intf_file :: "string \<Rightarrow> string \<Rightarrow> string \<Rightarrow> string" where
  "intf_file path intf name = path @ ''/'' @ intf @ ''/'' @ name"

definition ApplyIpConfig :: "host_env \<Rightarrow> string \<Rightarrow> host_step" where
  "ApplyIpConfig he file = each_line he file (bashCommand he)"

text \<open>The first line of a file, or the error of the scan.\<close>

definition read_setting :: "host_env \<Rightarrow> string \<Rightarrow> (string option \<Rightarrow> host_step) \<Rightarrow> host_step" where
  "read_setting he file k =
     (case scan_first (he_open he file) of (line, ok) \<Rightarrow>
        then_do (say (if he_open he file = None then os_error else []))
          (k (if ok then Some (case line of None \<Rightarrow> [] | Some l \<Rightarrow> l) else None)))"

definition getType :: "host_env \<Rightarrow> string \<Rightarrow> string \<Rightarrow> (string option \<Rightarrow> host_step) \<Rightarrow> host_step" where
  "getType he path intf = read_setting he (intf_file path intf ''type'')"

definition getBondMode :: "host_env \<Rightarrow> string \<Rightarrow> string \<Rightarrow> (string option \<Rightarrow> host_step) \<Rightarrow> host_step" where
  "getBondMode he path intf = read_setting he (intf_file path intf ''mode'')"

subsection \<open>The files of an interface\<close>

definition addMTU :: "host_env \<Rightarrow> string \<Rightarrow> string \<Rightarrow> host_step" where
  "addMTU he path intf = (let file = intf_file path intf ''mtu'' in
     unless_missing he file (first_line he file (\<lambda>l. bashCommand he (''ip link set dev '' @ intf @ '' mtu '' @ l))))"

definition addIpAddr :: "host_env \<Rightarrow> string \<Rightarrow> string \<Rightarrow> host_step" where
  "addIpAddr he path intf = (let file = intf_file path intf ''ipv4addr'' in
     unless_missing he file (each_line he file (\<lambda>l. bashCommand he (''ip addr add '' @ l @ '' dev '' @ intf))))"

definition addL2FDBs :: "host_env \<Rightarrow> string \<Rightarrow> string \<Rightarrow> host_step" where
  "addL2FDBs he path intf = (let file = intf_file path intf ''l2fdbs'' in
     unless_missing he file (each_line he file (\<lambda>l. bashCommand he (''bridge fdb add '' @ l @ '' dev '' @ intf @ '' permanent''))))"

definition addVxFDBs :: "host_env \<Rightarrow> string \<Rightarrow> string \<Rightarrow> host_step" where
  "addVxFDBs he path intf = (let file = intf_file path intf ''vxfdbs'' in
     unless_missing he file (each_line he file (\<lambda>l. bashCommand he (''bridge fdb append '' @ l @ '' dev '' @ intf @ '' permanent''))))"

definition addNeigh :: "host_env \<Rightarrow> string \<Rightarrow> string \<Rightarrow> host_step" where
  "addNeigh he path intf = (let file = intf_file path intf ''ipv4neigh'' in
     unless_missing he file (each_line he file (\<lambda>l. bashCommand he (''ip neigh add '' @ l @ '' dev '' @ intf @ '' permanent''))))"

definition addRoute :: "host_env \<Rightarrow> string \<Rightarrow> string \<Rightarrow> host_step" where
  "addRoute he path intf = (let file = intf_file path intf ''ipv4route'' in
     unless_missing he file (each_line he file (\<lambda>l. bashCommand he (''ip route replace '' @ l @ '' proto static''))))"

definition link_up :: "host_env \<Rightarrow> string \<Rightarrow> host_step" where
  "link_up he intf = bashCommand he (''ip link set '' @ intf @ '' up'')"

definition subintf_line :: "host_env \<Rightarrow> string \<Rightarrow> host_step" where
  "subintf_line he l = (let token = split_on (CHR ''|'') l in
     if length token < 3 then index_fault (length token) token
     else in_order [bashCommand he (''ip link add '' @ token ! 0 @ '' link '' @ token ! 1 @ '' type vlan id '' @ token ! 2), link_up he (token ! 0)])"

definition addSubIntf :: "host_env \<Rightarrow> string \<Rightarrow> string \<Rightarrow> host_step" where
  "addSubIntf he path intf = (let file = intf_file path intf ''subintf'' in unless_missing he file (each_line he file (subintf_line he)))"

definition addBridge :: "host_env \<Rightarrow> string \<Rightarrow> host_step" where
  "addBridge he intf = in_order [bashCommand he (''ip link add '' @ intf @ '' type bridge ''), link_up he intf]"

definition addBond :: "host_env \<Rightarrow> string \<Rightarrow> string \<Rightarrow> host_step" where
  "addBond he path intf = in_order
     [bashCommand he (''ip link add '' @ intf @ '' type bond ''),
      getBondMode he path intf (\<lambda>mode. case mode of None \<Rightarrow> Inr | Some m \<Rightarrow> bashCommand he (''ip link set '' @ intf @ '' type bond mode '' @ m)),
      link_up he intf]"

definition vxlan_line :: "host_env \<Rightarrow> string \<Rightarrow> string \<Rightarrow> host_step" where
  "vxlan_line he intf l = (let token = split_on (CHR ''|'') l in
     if length token < 3 then index_fault (length token) token
     else in_order
       [bashCommand he (''ip link add '' @ intf @ '' type vxlan id '' @ token ! 0 @ '' local '' @ token ! 1 @ '' dev '' @ token ! 2 @ '' dst 4789''),
        link_up he intf])"

definition addVxlan :: "host_env \<Rightarrow> string \<Rightarrow> string \<Rightarrow> host_step" where
  "addVxlan he path intf = (let file = intf_file path intf ''info'' in unless_missing he file (each_line he file (vxlan_line he intf)))"

definition setMaster :: "host_env \<Rightarrow> string \<Rightarrow> string \<Rightarrow> host_step" where
  "setMaster he intf master = in_order
     [bashCommand he (''ip link set '' @ intf @ '' down''), bashCommand he (''ip link set '' @ intf @ '' master '' @ master), link_up he intf]"

definition setDev :: "host_env \<Rightarrow> string \<Rightarrow> host_step" where
  "setDev he intf = link_up he intf"

definition master_line :: "host_env \<Rightarrow> string \<Rightarrow> string \<Rightarrow> string \<Rightarrow> host_step" where
  "master_line he path intf l = (let token = split_on (CHR ''|'') l in
     if length token < 2 then index_fault 1 token
     else if token ! 1 = ''bridge'' then in_order [addBridge he (token ! 0), setMaster he intf (token ! 0)]
     else if token ! 1 = ''vxlan'' then addVxlan he path (token ! 0)
     else if token ! 1 = ''bond'' then in_order [addBond he path (token ! 0), setMaster he intf (token ! 0)]
     else Inr)"

definition addMaster :: "host_env \<Rightarrow> string \<Rightarrow> string \<Rightarrow> host_step" where
  "addMaster he path intf = (let file = intf_file path intf ''master'' in unless_missing he file (first_line he file (master_line he path intf)))"

text \<open>What is done for an interface of a type.\<close>

definition type_steps :: "host_env \<Rightarrow> string \<Rightarrow> string \<Rightarrow> string \<Rightarrow> host_step" where
  "type_steps he path intf t =
     (if t = ''phy'' \<or> t = ''bond'' then in_order
        [setDev he intf, addMTU he path intf, addIpAddr he path intf, addL2FDBs he path intf, addNeigh he path intf, addRoute he path intf,
         addSubIntf he path intf, addMaster he path intf]
      else if t = ''subintf'' then in_order
        [setDev he intf, addIpAddr he path intf, addNeigh he path intf, addRoute he path intf, addSubIntf he path intf, addMaster he path intf]
      else if t = ''bridge'' then in_order
        [setDev he intf, addIpAddr he path intf, addNeigh he path intf, addRoute he path intf, addMaster he path intf]
      else if t = ''vxlan'' then in_order
        [setDev he intf, addIpAddr he path intf, addVxFDBs he path intf, addNeigh he path intf, addRoute he path intf, addMaster he path intf]
      else Inr)"

definition ApplyIpConfigPerInterface :: "host_env \<Rightarrow> string \<Rightarrow> string \<Rightarrow> host_step" where
  "ApplyIpConfigPerInterface he path intf = getType he path intf
     (\<lambda>itype. case itype of
        None \<Rightarrow> say [Sprintf ''Unable to get type of intf(%v)'' [AErr ''bufio'']]
      | Some t \<Rightarrow> type_steps he path intf t)"

subsection \<open>Posting saved rules\<close>

text \<open>One request per entry; the first that gets no answer ends the loop, and a status is not looked at.\<close>

fun post_each :: "gateway_env \<Rightarrow> ('m \<Rightarrow> msg list) \<Rightarrow> ('m \<Rightarrow> http_request option) \<Rightarrow> 'm list \<Rightarrow> http_request list \<Rightarrow> msg list \<times> http_request list" where
  "post_each env shown call [] log = ([], log)"
| "post_each env shown call (m # ms) log =
     (case exchange env (call m) log of
        (NoResponse, log') \<Rightarrow> (shown m @ [Sprintf ''Error: %s'' [AErr ''net/http'']], log')
      | (Response status hs raw, log') \<Rightarrow> (case post_each env shown call ms log' of (out, log'') \<Rightarrow> (shown m @ out, log'')))"

definition apply_saved ::
  "file_env \<Rightarrow> gateway_env \<Rightarrow> 'm list field_spec list \<Rightarrow> ('m \<Rightarrow> msg list) \<Rightarrow> ('m \<Rightarrow> http_request option) \<Rightarrow> string \<Rightarrow> http_request list \<Rightarrow> msg list \<times> http_request list" where
  "apply_saved fe env spec shown call file log =
     (case fe_read fe file of
        Inl e \<Rightarrow> ([Text e], log)
      | Inr buf \<Rightarrow>
          (case unmarshal spec [] buf of
             None \<Rightarrow> ([Sprintf ''Error: Failed to unmarshal File: (%s)'' [AErr ''encoding/json'']], log)
           | Some ms \<Rightarrow> post_each env shown call ms log))"

text \<open>What is taken over from a saved rule.\<close>

definition applied_endpoint :: "loadBalancerEndpoint \<Rightarrow> loadBalancerEndpoint" where
  "applied_endpoint ep = loadBalancerEndpoint0\<lparr>ep_EndpointIP := ep_EndpointIP ep, ep_TargetPort := ep_TargetPort ep, ep_Weight := ep_Weight ep\<rparr>"

definition applied_rule :: "loadBalancerModel \<Rightarrow> loadBalancerModel" where
  "applied_rule lb =
     (let s = lm_Service lb in
      loadBalancerModel0\<lparr>
        lm_Service := loadBalancerService0\<lparr>ls_ExternalIP := ls_ExternalIP s, ls_Protocol := ls_Protocol s, ls_Port := ls_Port s, ls_Sel := ls_Sel s,
          ls_Mode := ls_Mode s, ls_BGP := ls_BGP s\<rparr>,
        lm_Endpoints := map applied_endpoint (lm_Endpoints lb)\<rparr>)"

definition ApplyLbConfig :: "file_env \<Rightarrow> gateway_env \<Rightarrow> restOptions \<Rightarrow> string \<Rightarrow> http_request list \<Rightarrow> msg list \<times> http_request list" where
  "ApplyLbConfig fe env o' = apply_saved fe env lbRuleModGet_fields (\<lambda>_. []) (\<lambda>lb. LoadbalancerAPICall env o' (applied_rule lb))"

definition ApplySessionConfig :: "file_env \<Rightarrow> gateway_env \<Rightarrow> restOptions \<Rightarrow> string \<Rightarrow> http_request list \<Rightarrow> msg list \<times> http_request list" where
  "ApplySessionConfig fe env o' = apply_saved fe env sessionInformationGet_fields (\<lambda>_. []) (SessionAPICall env o')"

text \<open>\<open>%v\<close> of a struct: its fields in braces.\<close>

definition struct_text :: "string list \<Rightarrow> string" where
  "struct_text parts = ''{'' @ join '' '' parts @ ''}''"

definition word_text :: "'a::len word \<Rightarrow> string" where
  "word_text w = show_int (uint w)"

definition ApplySessionUlClConfig :: "file_env \<Rightarrow> gateway_env \<Rightarrow> restOptions \<Rightarrow> string \<Rightarrow> http_request list \<Rightarrow> msg list \<times> http_request list" where
  "ApplySessionUlClConfig fe env o' = apply_saved fe env ulclInformationGet_fields
     (\<lambda>u. [Text (''ulcl: '' @ struct_text [su_Ident u, struct_text [ip_text (su_Addr u), word_text (su_Qfi u)]])])
     (SessionUlClAPICall env o')"

definition fw_text :: "fwRuleMod \<Rightarrow> string" where
  "fw_text m = struct_text
     [struct_text [fw_SrcIP m, fw_DstIP m, word_text (fw_SrcPortMin m), word_text (fw_SrcPortMax m), word_text (fw_DstPortMin m),
        word_text (fw_DstPortMax m), word_text (fw_Proto m), fw_InPort m, word_text (fw_Pref m)],
      struct_text [show_bool (fw_Drop m), show_bool (fw_Trap m), show_bool (fw_Rdr m), fw_RdrPort m, show_bool (fw_Allow m), word_text (fw_Mark m),
        show_bool (fw_Record m), show_bool (fw_DoSnat m), fw_ToIP m, word_text (fw_ToPort m), show_bool (fw_OnDefault m), fw_Counter m]]"

definition ApplyFWConfig :: "file_env \<Rightarrow> gateway_env \<Rightarrow> restOptions \<Rightarrow> string \<Rightarrow> http_request list \<Rightarrow> msg list \<times> http_request list" where
  "ApplyFWConfig fe env o' = apply_saved fe env fwInformationGet_fields (\<lambda>m. [Text (''fw: '' @ fw_text m)]) (FirewallAPICall env o')"

definition bfd_text :: "bfdSessionInfo \<Rightarrow> string" where
  "bfd_text b = struct_text [bf_Instance b, bf_RemoteIP b, bf_SourceIP b, word_text (bf_Port b), word_text (bf_Interval b), word_text (bf_RetryCount b), bf_State b]"

definition ApplyBFDConfig :: "file_env \<Rightarrow> gateway_env \<Rightarrow> restOptions \<Rightarrow> string \<Rightarrow> http_request list \<Rightarrow> msg list \<times> http_request list" where
  "ApplyBFDConfig fe env o' = apply_saved fe env bfdSessionGet_fields (\<lambda>b. [Text (''bfd: '' @ bfd_text b)]) (SetBFDAPICall env o')"

subsection \<open>The command\<close>

record applyOptions =
  ao_IpConfigFile :: string
  ao_LBConfigFile :: string
  ao_SessionConfigFile :: string
  ao_SessionUlClConfigFile :: string
  ao_FWConfigFile :: string
  ao_NormalConfigFile :: string
  ao_BFDConfigFile :: string
  ao_Intf :: string
  ao_ConfigPath :: string
  ao_Route :: bool

type_synonym apply_run = "host_state \<times> http_request list \<times> run_end"

definition applied :: "string \<Rightarrow> msg list" where
  "applied file = [Sprintf ''Configuration applied - %s'' [AStr file]]"

definition host_part :: "bool \<Rightarrow> host_step \<Rightarrow> msg list \<Rightarrow> host_state \<Rightarrow> http_request list \<Rightarrow> (host_state \<Rightarrow> apply_run) \<Rightarrow> apply_run" where
  "host_part selected step said s log k =
     (if selected then (case then_do step (say said) s of Inl (p, s') \<Rightarrow> (s', log, Panicked p) | Inr s' \<Rightarrow> k s') else k s)"

definition saved_part ::
  "(string \<Rightarrow> http_request list \<Rightarrow> msg list \<times> http_request list) \<Rightarrow> string \<Rightarrow> host_state \<times> http_request list \<Rightarrow> host_state \<times> http_request list" where
  "saved_part poster file r =
     (case r of (s, log) \<Rightarrow>
        if file = [] then r else (case poster file log of (out, log') \<Rightarrow> (s\<lparr>hs_out := hs_out s @ out @ applied file\<rparr>, log')))"

definition apply_rest :: "file_env \<Rightarrow> gateway_env \<Rightarrow> restOptions \<Rightarrow> applyOptions \<Rightarrow> host_state \<times> http_request list \<Rightarrow> apply_run" where
  "apply_rest fe env o' opts r0 =
     (let r1 = saved_part (ApplyLbConfig fe env o') (ao_LBConfigFile opts) r0;
          r2 = saved_part (ApplySessionConfig fe env o') (ao_SessionConfigFile opts) r1;
          r3 = saved_part (ApplySessionUlClConfig fe env o') (ao_SessionUlClConfigFile opts) r2;
          r4 = saved_part (ApplyFWConfig fe env o') (ao_FWConfigFile opts) r3;
          (s, log) = saved_part (ApplyBFDConfig fe env o') (ao_BFDConfigFile opts) r4; file = ao_NormalConfigFile opts in
      if file = [] then (s, log, Done None)
      else (let run = config_run file (ApplyFileConfig fe env o' file log) in
        (s\<lparr>hs_out := hs_out s @ rn_out run\<rparr>, rn_sent run, rn_end run)))"

definition nothing_selected :: "applyOptions \<Rightarrow> bool" where
  "nothing_selected opts \<longleftrightarrow>
     ao_IpConfigFile opts = [] \<and> ao_LBConfigFile opts = [] \<and> ao_SessionConfigFile opts = [] \<and> ao_SessionUlClConfigFile opts = []
     \<and> ao_FWConfigFile opts = [] \<and> ao_Intf opts = [] \<and> ao_NormalConfigFile opts = [] \<and> ao_BFDConfigFile opts = []"

definition apply_intf :: "file_env \<Rightarrow> host_env \<Rightarrow> gateway_env \<Rightarrow> restOptions \<Rightarrow> applyOptions \<Rightarrow> http_request list \<Rightarrow> host_state \<Rightarrow> apply_run" where
  "apply_intf fe he env o' opts log s =
     (if ao_Route opts \<and> ao_Intf opts \<noteq> []
      then host_part True (addRoute he (ao_ConfigPath opts) (ao_Intf opts))
        [Sprintf ''Route Configuration applied for - %s'' [AStr (ao_Intf opts)]] s log (\<lambda>s. (s, log, Done None))
      else host_part (ao_Intf opts \<noteq> []) (ApplyIpConfigPerInterface he (ao_ConfigPath opts) (ao_Intf opts))
        [Sprintf ''Configuration applied for - %s'' [AStr (ao_Intf opts)]] s log
        (\<lambda>s. apply_rest fe env o' opts (s, log)))"

definition ApplyCmd :: "file_env \<Rightarrow> host_env \<Rightarrow> gateway_env \<Rightarrow> restOptions \<Rightarrow> applyOptions \<Rightarrow> host_state \<Rightarrow> http_request list \<Rightarrow> apply_run" where
  "ApplyCmd fe he env o' opts s log =
     (if nothing_selected opts then (s, log, Done (Some (ECLI (Usagef (Text ''apply needs at least one configuration option'')))))
      else host_part (ao_IpConfigFile opts \<noteq> []) (ApplyIpConfig he (ao_IpConfigFile opts)) (applied (ao_IpConfigFile opts)) s log
        (apply_intf fe he env o' opts log))"

section \<open>What an interface's files stand for\<close>

text \<open>
  The abstract specification of the host part: a script is a list of commands and whether it breaks off in a panic.
  It is made from the files alone; what the shell answers has no part in it.
\<close>

type_synonym script = "string list \<times> bool"

fun script_seq :: "script list \<Rightarrow> script" where
  "script_seq [] = ([], False)"
| "script_seq ((cs, broken) # scripts) =
     (if broken then (cs, True) else (cs @ fst (script_seq scripts), snd (script_seq scripts)))"

definition lines_of :: "host_env \<Rightarrow> string \<Rightarrow> string list" where
  "lines_of he file = (if he_missing he file then [] else fst (scan_lines (he_open he file)))"

definition set_up :: "string \<Rightarrow> string" where
  "set_up intf = ''ip link set '' @ intf @ '' up''"

definition with_tokens :: "nat \<Rightarrow> (string list \<Rightarrow> script) \<Rightarrow> string \<Rightarrow> script" where
  "with_tokens n f l = (let token = split_on (CHR ''|'') l in if length token < n then ([], True) else f token)"

text \<open>The commands that make an interface the slave of another.\<close>

definition enslave :: "string \<Rightarrow> string \<Rightarrow> string list" where
  "enslave intf master = [''ip link set '' @ intf @ '' down'', ''ip link set '' @ intf @ '' master '' @ master, set_up intf]"

definition vxlan_script :: "host_env \<Rightarrow> string \<Rightarrow> string \<Rightarrow> script" where
  "vxlan_script he path intf = script_seq (map (with_tokens 3 (\<lambda>t.
     ([''ip link add '' @ intf @ '' type vxlan id '' @ t ! 0 @ '' local '' @ t ! 1 @ '' dev '' @ t ! 2 @ '' dst 4789'', set_up intf], False)))
     (lines_of he (intf_file path intf ''info'')))"

definition bond_script :: "host_env \<Rightarrow> string \<Rightarrow> string \<Rightarrow> string list" where
  "bond_script he path intf =
     [''ip link add '' @ intf @ '' type bond '']
     @ (case scan_first (he_open he (intf_file path intf ''mode'')) of
          (line, True) \<Rightarrow> [''ip link set '' @ intf @ '' type bond mode '' @ (case line of None \<Rightarrow> [] | Some m \<Rightarrow> m)]
        | (line, False) \<Rightarrow> [])
     @ [set_up intf]"

definition master_script :: "host_env \<Rightarrow> string \<Rightarrow> string \<Rightarrow> string \<Rightarrow> script" where
  "master_script he path intf = with_tokens 2 (\<lambda>t.
     if t ! 1 = ''bridge'' then ([''ip link add '' @ t ! 0 @ '' type bridge '', set_up (t ! 0)] @ enslave intf (t ! 0), False)
     else if t ! 1 = ''vxlan'' then vxlan_script he path (t ! 0)
     else if t ! 1 = ''bond'' then (bond_script he path (t ! 0) @ enslave intf (t ! 0), False)
     else ([], False))"

definition section_script :: "host_env \<Rightarrow> string \<Rightarrow> string \<Rightarrow> string \<Rightarrow> script" where
  "section_script he path intf name =
     (let ls = lines_of he (intf_file path intf name) in
      if name = ''dev'' then ([set_up intf], False)
      else if name = ''mtu'' then (map (\<lambda>l. ''ip link set dev '' @ intf @ '' mtu '' @ l) (take 1 ls), False)
      else if name = ''ipv4addr'' then (map (\<lambda>l. ''ip addr add '' @ l @ '' dev '' @ intf) ls, False)
      else if name = ''l2fdbs'' then (map (\<lambda>l. ''bridge fdb add '' @ l @ '' dev '' @ intf @ '' permanent'') ls, False)
      else if name = ''vxfdbs'' then (map (\<lambda>l. ''bridge fdb append '' @ l @ '' dev '' @ intf @ '' permanent'') ls, False)
      else if name = ''ipv4neigh'' then (map (\<lambda>l. ''ip neigh add '' @ l @ '' dev '' @ intf @ '' permanent'') ls, False)
      else if name = ''ipv4route'' then (map (\<lambda>l. ''ip route replace '' @ l @ '' proto static'') ls, False)
      else if name = ''subintf'' then script_seq (map (with_tokens 3 (\<lambda>t.
        ([''ip link add '' @ t ! 0 @ '' link '' @ t ! 1 @ '' type vlan id '' @ t ! 2, set_up (t ! 0)], False))) ls)
      else script_seq (map (master_script he path intf) (take 1 ls)))"

definition interface_sections :: "(string \<times> string list) list" where
  "interface_sections =
    [(''phy'', [''dev'', ''mtu'', ''ipv4addr'', ''l2fdbs'', ''ipv4neigh'', ''ipv4route'', ''subintf'', ''master'']),
     (''bond'', [''dev'', ''mtu'', ''ipv4addr'', ''l2fdbs'', ''ipv4neigh'', ''ipv4route'', ''subintf'', ''master'']),
     (''subintf'', [''dev'', ''ipv4addr'', ''ipv4neigh'', ''ipv4route'', ''subintf'', ''master'']),
     (''bridge'', [''dev'', ''ipv4addr'', ''ipv4neigh'', ''ipv4route'', ''master'']),
     (''vxlan'', [''dev'', ''ipv4addr'', ''vxfdbs'', ''ipv4neigh'', ''ipv4route'', ''master''])]"

definition interface_script :: "host_env \<Rightarrow> string \<Rightarrow> string \<Rightarrow> script" where
  "interface_script he path intf =
     (case scan_first (he_open he (intf_file path intf ''type'')) of
        (line, False) \<Rightarrow> ([], False)
      | (line, True) \<Rightarrow>
          (case map_of interface_sections (case line of None \<Rightarrow> [] | Some t \<Rightarrow> t) of
             None \<Rightarrow> ([], False)
           | Some names \<Rightarrow> script_seq (map (section_script he path intf) names)))"

subsection \<open>The code follows the script\<close>

definition ran :: "(string \<times> host_state) + host_state \<Rightarrow> script" where
  "ran r = (case r of Inl (p, s) \<Rightarrow> (hs_ran s, True) | Inr s \<Rightarrow> (hs_ran s, False))"

definition runs :: "host_step \<Rightarrow> script \<Rightarrow> bool" where
  "runs f script \<longleftrightarrow> (\<forall>s. ran (f s) = (hs_ran s @ fst script, snd script))"

lemma runs_basic [intro]:
  "runs (bashCommand he c) ([c], False)" "runs (say ms) ([], False)" "runs Inr ([], False)" "runs (index_fault i token) ([], True)"
  "runs (link_up he intf) ([set_up intf], False)"
  by (simp_all add: runs_def ran_def bashCommand_def say_def index_fault_def link_up_def set_up_def)

lemma runs_then:
  assumes "runs f (cs, broken)" "runs g script"
  shows "runs (then_do f g) (if broken then (cs, True) else (cs @ fst script, snd script))"
  using assms unfolding runs_def then_do_def
  by (auto simp: ran_def split: sum.splits prod.splits)

lemma runs_in_order: "list_all2 runs fs scripts \<Longrightarrow> runs (in_order fs) (script_seq scripts)"
proof (induction fs scripts rule: list_all2_induct)
  case Nil
  show ?case by (simp add: runs_def ran_def)
next
  case (Cons f fs script scripts)
  obtain cs broken where script: "script = (cs, broken)" by (cases script)
  have "runs (then_do f (in_order fs)) (script_seq (script # scripts))"
    using runs_then [of f cs broken, OF _ Cons(3)] Cons(1) by (simp add: script)
  moreover have "in_order (f # fs) = then_do f (in_order fs)" by auto
  ultimately show ?case by simp
qed

lemma script_seq_silent:
  "script_seq (([], False) # scripts) = script_seq scripts" "script_seq (scripts @ [([], False)]) = script_seq scripts"
  by (simp, induction scripts rule: script_seq.induct) auto

lemma script_seq_commands: "script_seq (map (\<lambda>l. ([c l], False)) ls) = (map c ls, False)"
  by (induction ls) auto

lemma runs_each_line:
  assumes "\<And>l. runs (f l) (script l)"
  shows "runs (each_line he file f) (script_seq (map script (fst (scan_lines (he_open he file)))))"
proof (cases "scan_lines (he_open he file)")
  case (Pair lines ok)
  have "list_all2 runs (say m # map f lines @ [say m']) (([], False) # map script lines @ [([], False)])" for m m'
    using assms by (auto simp: list_all2_append list.rel_map intro: list.rel_refl)
  from runs_in_order [OF this] Pair show ?thesis by (simp add: each_line_def script_seq_silent)
qed

lemma runs_one_line:
  assumes "\<And>l. runs (f l) (script l)"
  shows "runs (first_line he file f) (script_seq (map script (take 1 (fst (scan_lines (he_open he file))))))"
proof (cases "scan_first (he_open he file)")
  case (Pair line ok)
  have lines: "take 1 (fst (scan_lines (he_open he file))) = (case line of None \<Rightarrow> [] | Some l \<Rightarrow> [l])"
    using Pair by (auto simp: scan_first_def split: prod.splits list.splits)
  have "runs (case line of None \<Rightarrow> Inr | Some l \<Rightarrow> f l) (case line of None \<Rightarrow> ([], False) | Some l \<Rightarrow> script l)"
    using assms by (auto split: option.splits)
  then have "list_all2 runs [say m, (case line of None \<Rightarrow> Inr | Some l \<Rightarrow> f l), say m']
      [([], False), (case line of None \<Rightarrow> ([], False) | Some l \<Rightarrow> script l), ([], False)]" for m m'
    by auto
  from runs_in_order [OF this] Pair lines show ?thesis
    by (cases line) (auto simp: first_line_def script_seq_silent script_seq_silent(2) [of "[x]" for x, simplified] split: option.splits)
qed

lemma runs_unless_missing:
  assumes "runs f (script_seq (map script (fst (scan_lines (he_open he file)))))"
  shows "runs (unless_missing he file f) (script_seq (map script (lines_of he file)))"
  using assms runs_basic(3) by (auto simp: unless_missing_def lines_of_def)

lemma runs_unless_missing_first:
  assumes "runs f (script_seq (map script (take 1 (fst (scan_lines (he_open he file))))))"
  shows "runs (unless_missing he file f) (script_seq (map script (take 1 (lines_of he file))))"
  using assms runs_basic(3) by (auto simp: unless_missing_def lines_of_def)

text \<open>A file whose lines each become one command.\<close>

lemma runs_file: "runs (unless_missing he file (each_line he file (\<lambda>l. bashCommand he (c l)))) (map c (lines_of he file), False)"
proof -
  have "runs (each_line he file (\<lambda>l. bashCommand he (c l))) (script_seq (map (\<lambda>l. ([c l], False)) (fst (scan_lines (he_open he file)))))"
    by (rule runs_each_line) (rule runs_basic)
  from runs_unless_missing [OF this] show ?thesis by (simp add: script_seq_commands)
qed

lemma runs_first: "runs (unless_missing he file (first_line he file (\<lambda>l. bashCommand he (c l)))) (map c (take 1 (lines_of he file)), False)"
proof -
  have "runs (first_line he file (\<lambda>l. bashCommand he (c l))) (script_seq (map (\<lambda>l. ([c l], False)) (take 1 (fst (scan_lines (he_open he file))))))"
    by (rule runs_one_line) (rule runs_basic)
  from runs_unless_missing_first [OF this] show ?thesis by (simp add: script_seq_commands)
qed

lemma runs_two: "runs f a \<Longrightarrow> runs g b \<Longrightarrow> runs (in_order [f, g]) (script_seq [a, b])"
  and runs_three: "runs f a \<Longrightarrow> runs g b \<Longrightarrow> runs h c \<Longrightarrow> runs (in_order [f, g, h]) (script_seq [a, b, c])"
  by (auto intro!: runs_in_order)

lemma runs_commands:
  "runs (in_order [bashCommand he c, link_up he intf]) ([c, set_up intf], False)"
  "runs (setMaster he intf master) (enslave intf master, False)"
  using runs_two [OF runs_basic(1) runs_basic(5), of he c he intf]
    runs_three [OF runs_basic(1) runs_basic(1) runs_basic(5), of he "''ip link set '' @ intf @ '' down''" he "''ip link set '' @ intf @ '' master '' @ master" he intf]
  by (simp_all add: setMaster_def enslave_def)

lemma runs_tokens:
  assumes "\<And>t. runs (f t) (script t)"
  shows "runs (let token = split_on (CHR ''|'') l in if length token < n then index_fault (i token) token else f token) (with_tokens n script l)"
  using assms runs_basic(4) by (simp add: with_tokens_def Let_def)

lemma runs_subintf: "runs (addSubIntf he path intf) (section_script he path intf ''subintf'')"
proof -
  have "runs (subintf_line he l) (with_tokens 3 (\<lambda>t. ([''ip link add '' @ t ! 0 @ '' link '' @ t ! 1 @ '' type vlan id '' @ t ! 2, set_up (t ! 0)], False)) l)" for l
    unfolding subintf_line_def by (rule runs_tokens) (rule runs_commands)
  from runs_unless_missing [OF runs_each_line [OF this]] show ?thesis
    by (simp add: addSubIntf_def section_script_def Let_def)
qed

lemma runs_vxlan: "runs (addVxlan he path intf) (vxlan_script he path intf)"
proof -
  have "runs (vxlan_line he intf l) (with_tokens 3 (\<lambda>t.
      ([''ip link add '' @ intf @ '' type vxlan id '' @ t ! 0 @ '' local '' @ t ! 1 @ '' dev '' @ t ! 2 @ '' dst 4789'', set_up intf], False)) l)" for l
    unfolding vxlan_line_def by (rule runs_tokens) (rule runs_commands)
  from runs_unless_missing [OF runs_each_line [OF this]] show ?thesis
    by (simp add: addVxlan_def vxlan_script_def Let_def)
qed

lemma runs_setting:
  assumes "\<And>m. runs (k m) (script m)"
  shows "runs (read_setting he name k)
    (script (case scan_first (he_open he name) of (line, True) \<Rightarrow> Some (case line of None \<Rightarrow> [] | Some l \<Rightarrow> l) | (line, False) \<Rightarrow> None))"
  using runs_then [OF runs_basic(2) assms] by (auto simp: read_setting_def split: prod.splits bool.splits)

lemma runs_bond: "runs (addBond he path intf) (bond_script he path intf, False)"
proof -
  let ?mode = "\<lambda>mode. case mode of None \<Rightarrow> Inr | Some m \<Rightarrow> bashCommand he (''ip link set '' @ intf @ '' type bond mode '' @ m)"
  let ?script = "\<lambda>mode. case mode of None \<Rightarrow> ([], False) | Some m \<Rightarrow> ([''ip link set '' @ intf @ '' type bond mode '' @ m], False)"
  have "runs (?mode mode) (?script mode)" for mode by (cases mode) auto
  note all = runs_three [OF runs_basic(1) [of he "''ip link add '' @ intf @ '' type bond ''"]
      runs_setting [where k = ?mode and script = ?script and he = he and name = "intf_file path intf ''mode''", OF this] runs_basic(5) [of he intf]]
  obtain line ok where mode: "scan_first (he_open he (intf_file path intf ''mode'')) = (line, ok)"
    by (cases "scan_first (he_open he (intf_file path intf ''mode''))")
  show ?thesis using all mode by (cases ok) (simp_all add: addBond_def getBondMode_def bond_script_def)
qed

lemma runs_master: "runs (addMaster he path intf) (section_script he path intf ''master'')"
proof -
  have "runs (master_line he path intf l) (master_script he path intf l)" for l
    unfolding master_line_def master_script_def
    using runs_two [OF runs_commands(1) runs_commands(2)] runs_two [OF runs_bond runs_commands(2)] runs_vxlan runs_basic(3)
    by (intro runs_tokens [where i = "\<lambda>_. 1"]) (simp add: addBridge_def)
  from runs_unless_missing_first [OF runs_one_line [OF this]] show ?thesis
    by (simp add: addMaster_def section_script_def Let_def)
qed

lemma runs_sections:
  "runs (setDev he intf) (section_script he path intf ''dev'')"
  "runs (addMTU he path intf) (section_script he path intf ''mtu'')"
  "runs (addIpAddr he path intf) (section_script he path intf ''ipv4addr'')"
  "runs (addL2FDBs he path intf) (section_script he path intf ''l2fdbs'')"
  "runs (addVxFDBs he path intf) (section_script he path intf ''vxfdbs'')"
  "runs (addNeigh he path intf) (section_script he path intf ''ipv4neigh'')"
  "runs (addRoute he path intf) (section_script he path intf ''ipv4route'')"
  unfolding setDev_def addMTU_def addIpAddr_def addL2FDBs_def addVxFDBs_def addNeigh_def addRoute_def section_script_def Let_def
  using runs_file [of he] runs_first [of he] runs_basic(5) by simp_all

lemmas section_runs = runs_sections runs_subintf runs_master

lemma type_steps_follow:
  "runs (type_steps he path intf t)
    (case map_of interface_sections t of None \<Rightarrow> ([], False) | Some names \<Rightarrow> script_seq (map (section_script he path intf) names))"
proof -
  have seq: "list_all2 runs fs (map (section_script he path intf) names) \<Longrightarrow> runs (in_order fs) (script_seq (map (section_script he path intf) names))" for fs names
    by (rule runs_in_order)
  consider "t = ''phy''" | "t = ''bond''" | "t = ''subintf''" | "t = ''bridge''" | "t = ''vxlan''"
    | "t \<notin> {''phy'', ''bond'', ''subintf'', ''bridge'', ''vxlan''}" by auto
  then show ?thesis
  proof cases
    case 6
    then have "map_of interface_sections t = None" "type_steps he path intf t = Inr" by (auto simp: interface_sections_def type_steps_def)
    then show ?thesis using runs_basic(3) by simp
  qed (simp only: type_steps_def interface_sections_def map_of.simps fun_upd_apply option.case if_True simp_thms list.inject char.inject,
      simp, rule runs_in_order, simp add: section_runs)+
qed

lemma interface_follows_script: "runs (ApplyIpConfigPerInterface he path intf) (interface_script he path intf)"
proof -
  let ?script = "\<lambda>itype. case itype of None \<Rightarrow> ([], False)
    | Some t \<Rightarrow> (case map_of interface_sections t of None \<Rightarrow> ([], False) | Some names \<Rightarrow> script_seq (map (section_script he path intf) names))"
  have "runs (case itype of None \<Rightarrow> say [Sprintf ''Unable to get type of intf(%v)'' [AErr ''bufio'']] | Some t \<Rightarrow> type_steps he path intf t) (?script itype)" for itype
    using type_steps_follow runs_basic(2) by (cases itype) simp_all
  note settled = runs_setting [where script = ?script and he = he and name = "intf_file path intf ''type''", OF this]
  obtain line ok where "scan_first (he_open he (intf_file path intf ''type'')) = (line, ok)"
    by (cases "scan_first (he_open he (intf_file path intf ''type''))")
  with settled show ?thesis
    by (cases ok) (simp_all add: ApplyIpConfigPerInterface_def getType_def interface_script_def)
qed

text \<open>The shell has no part in it.\<close>

lemma shell_irrelevant:
  fixes he :: host_env
  defines "he' \<equiv> \<lambda>shell. he\<lparr>he_bash := shell\<rparr>"
  shows "interface_script (he' shell) path intf = interface_script he path intf"
proof -
  have lines: "lines_of (he' shell) name = lines_of he name" for name by (simp add: lines_of_def he'_def)
  have vxlan: "vxlan_script (he' shell) path i = vxlan_script he path i" for i unfolding vxlan_script_def lines ..
  have bond: "bond_script (he' shell) path i = bond_script he path i" for i by (simp add: bond_script_def he'_def)
  have master: "master_script (he' shell) path intf = master_script he path intf" unfolding master_script_def vxlan bond ..
  have "section_script (he' shell) path intf name = section_script he path intf name" for name
    unfolding section_script_def lines master ..
  then have sections: "section_script (he' shell) path intf = section_script he path intf" by (rule ext)
  have opened: "he_open (he' shell) = he_open he" by (simp add: he'_def)
  show ?thesis unfolding interface_script_def sections opened ..
qed

subsection \<open>How \<open>apply\<close> ends\<close>

definition panics :: "apply_run \<Rightarrow> bool" where
  "panics r \<longleftrightarrow> (\<exists>p. snd (snd r) = Panicked p)"

lemma runs_ApplyIpConfig: "runs (ApplyIpConfig he file) (fst (scan_lines (he_open he file)), False)"
proof -
  have "runs (each_line he file (bashCommand he)) (script_seq (map (\<lambda>l. ([l], False)) (fst (scan_lines (he_open he file)))))"
    by (rule runs_each_line) (rule runs_basic)
  then show ?thesis by (simp add: ApplyIpConfig_def script_seq_commands)
qed

lemma ran_said: "runs f script \<Longrightarrow> (\<exists>p. then_do f (say m) s = Inl p) \<longleftrightarrow> snd script"
  by (cases "f s") (auto simp: runs_def ran_def then_do_def say_def split: sum.splits prod.splits dest!: spec [of _ s])

lemma host_part_panics:
  assumes "runs step script" "\<And>s. panics (k s) \<longleftrightarrow> later"
  shows "panics (host_part selected step said s log k) \<longleftrightarrow> selected \<and> snd script \<or> later"
proof (cases selected)
  case True
  show ?thesis
  proof (cases "then_do step (say said) s")
    case (Inl ps)
    then have "snd script" using ran_said [OF assms(1), of said s] by auto
    then show ?thesis using True Inl by (cases ps) (simp add: host_part_def panics_def)
  next
    case (Inr s')
    then have "\<not> snd script" using ran_said [OF assms(1), of said s] by auto
    then show ?thesis using True Inr assms(2) by (simp add: host_part_def)
  qed
qed (simp add: host_part_def assms(2))

lemma apply_rest_end: "\<not> panics (apply_rest fe env o' opts r)"
  by (auto simp: panics_def apply_rest_def Let_def case_prod_unfold config_run_def run_ends split: prod.splits option.splits)

lemma apply_intf_panics:
  "panics (apply_intf fe he env o' opts log s) \<longleftrightarrow>
     ao_Intf opts \<noteq> [] \<and> \<not> ao_Route opts \<and> snd (interface_script he (ao_ConfigPath opts) (ao_Intf opts))"
proof (cases "ao_Route opts \<and> ao_Intf opts \<noteq> []")
  case True
  have "\<not> snd (section_script he (ao_ConfigPath opts) (ao_Intf opts) ''ipv4route'')" by (simp add: section_script_def Let_def)
  then show ?thesis
    using True host_part_panics [OF runs_sections(7), where k = "\<lambda>s. (s, log, Done None)" and later = False]
    by (simp add: apply_intf_def) (simp add: panics_def)
next
  case False
  then show ?thesis
    using host_part_panics [OF interface_follows_script, where k = "\<lambda>s. apply_rest fe env o' opts (s, log)" and later = False] apply_rest_end
    by (auto simp: apply_intf_def)
qed

lemma apply_panics_iff:
  "panics (ApplyCmd fe he env o' opts s log) \<longleftrightarrow>
     ao_Intf opts \<noteq> [] \<and> \<not> ao_Route opts \<and> snd (interface_script he (ao_ConfigPath opts) (ao_Intf opts))"
proof (cases "nothing_selected opts")
  case True
  then show ?thesis by (simp add: ApplyCmd_def panics_def nothing_selected_def)
next
  case False
  then show ?thesis
    using host_part_panics [OF runs_ApplyIpConfig apply_intf_panics] by (simp add: ApplyCmd_def)
qed

lemma host_part_end:
  assumes "\<And>s. snd (snd (k s)) \<in> ends" "\<And>p. Panicked p \<in> ends"
  shows "snd (snd (host_part selected step said s log k)) \<in> ends"
  using assms by (auto simp: host_part_def split: sum.splits prod.splits)

lemma apply_cmd_end:
  assumes "\<not> nothing_selected opts" "ao_NormalConfigFile opts = []"
  shows "snd (snd (ApplyCmd fe he env o' opts s log)) \<in> insert (Done None) (range Panicked)"
proof -
  let ?ends = "insert (Done None) (range Panicked)"
  have rest: "snd (snd (apply_rest fe env o' opts r)) \<in> ?ends" for r
    using assms(2) by (simp add: apply_rest_def Let_def case_prod_unfold)
  have panicked: "Panicked p \<in> ?ends" for p by simp
  have "snd (snd (apply_intf fe he env o' opts log s)) \<in> ?ends" for s
    using host_part_end [of "\<lambda>s. (s, log, Done None)" ?ends] host_part_end [of "\<lambda>s. apply_rest fe env o' opts (s, log)" ?ends] rest panicked
    by (simp add: apply_intf_def)
  then show ?thesis using assms(1) host_part_end [of "apply_intf fe he env o' opts log" ?ends] panicked by (simp add: ApplyCmd_def)
qed

subsection \<open>What is lost of a saved rule\<close>

definition rules_of :: "file_env \<Rightarrow> string \<Rightarrow> loadBalancerModel list option" where
  "rules_of fe file = (case fe_read fe file of Inl e \<Rightarrow> None | Inr buf \<Rightarrow> unmarshal lbRuleModGet_fields [] buf)"

text \<open>Address, protocol, port, selection, mode, BGP, and per end point its address, port and weight.\<close>

definition rule_core :: "loadBalancerModel \<Rightarrow> (string \<times> string \<times> 16 word \<times> int \<times> int \<times> bool) \<times> (string \<times> 16 word \<times> 8 word) list" where
  "rule_core lb = (let s = lm_Service lb in
     ((ls_ExternalIP s, ls_Protocol s, ls_Port s, ls_Sel s, ls_Mode s, ls_BGP s),
      map (\<lambda>ep. (ep_EndpointIP ep, ep_TargetPort ep, ep_Weight ep)) (lm_Endpoints lb)))"

lemma applied_rule_core: "rule_core lb = rule_core lb' \<Longrightarrow> applied_rule lb = applied_rule lb'"
proof -
  assume same: "rule_core lb = rule_core lb'"
  have "map applied_endpoint (lm_Endpoints lb) = map (\<lambda>(ip, port, weight). loadBalancerEndpoint0\<lparr>ep_EndpointIP := ip, ep_TargetPort := port, ep_Weight := weight\<rparr>)
      (snd (rule_core lb))" for lb
    by (simp add: rule_core_def Let_def applied_endpoint_def)
  with same show ?thesis by (simp add: applied_rule_def Let_def) (simp add: rule_core_def Let_def)
qed

lemma post_each_map: "map call ms = map call ms' \<Longrightarrow> post_each env (\<lambda>_. []) call ms log = post_each env (\<lambda>_. []) call ms' log"
proof (induction ms arbitrary: ms' log)
  case (Cons m ms)
  then obtain m' ms'' where "ms' = m' # ms''" "call m' = call m" "map call ms = map call ms''" by (auto simp: Cons_eq_map_conv)
  with Cons.IH show ?case by (simp split: prod.splits http_result.splits)
qed simp

lemma map_determined: "map f xs = map f ys \<Longrightarrow> (\<And>x y. f x = f y \<Longrightarrow> g x = g y) \<Longrightarrow> map g xs = map g ys"
proof (induction xs arbitrary: ys)
  case (Cons x xs)
  from Cons.prems(1) obtain y ys' where ys: "ys = y # ys'" "f x = f y" "map f xs = map f ys'" by (cases ys) auto
  have "g x = g y" "map g xs = map g ys'" using Cons.prems(2) ys(2) Cons.IH [OF ys(3) Cons.prems(2)] by blast+
  then show ?case by (simp add: ys(1))
qed simp

lemma apply_lb_core:
  assumes "rules_of fe file = Some ms" "rules_of fe file' = Some ms'" "map rule_core ms = map rule_core ms'"
  shows "ApplyLbConfig fe env o' file log = ApplyLbConfig fe env o' file' log"
proof -
  have "map (\<lambda>lb. LoadbalancerAPICall env o' (applied_rule lb)) ms = map (\<lambda>lb. LoadbalancerAPICall env o' (applied_rule lb)) ms'"
    using assms(3) by (rule map_determined) (drule applied_rule_core, simp)
  from post_each_map [OF this] show ?thesis
    using assms(1,2) by (auto simp: ApplyLbConfig_def apply_saved_def rules_of_def split: sum.splits)
qed

subsection \<open>Concrete inputs\<close>

text \<open>Two saved rules, of which one asks for TLS; every other file is missing.\<close>

definition saved_plain :: bytes where
  "saved_plain = print_json (JObj [(''lbAttr'', JArr [JObj []])])"

definition saved_tls :: bytes where
  "saved_tls = print_json (JObj [(''lbAttr'', JArr [JObj [(''serviceArguments'', JObj [(''security'', JNum ''1'')])]])])"

definition no_yaml :: yaml_reader where
  "no_yaml =
     \<lparr>ya_Kind = (\<lambda>_. Inl ''yaml''), ya_LB = (\<lambda>_. Inl ''yaml''), ya_EndPoint = (\<lambda>_. Inl ''yaml''), ya_FDB = (\<lambda>_. Inl ''yaml''), ya_FW = (\<lambda>_. Inl ''yaml''),
      ya_IPv4 = (\<lambda>_. Inl ''yaml''), ya_Mirror = (\<lambda>_. Inl ''yaml''), ya_Neighbor = (\<lambda>_. Inl ''yaml''), ya_Policy = (\<lambda>_. Inl ''yaml''), ya_Route = (\<lambda>_. Inl ''yaml''),
      ya_Session = (\<lambda>_. Inl ''yaml''), ya_SessionUlcl = (\<lambda>_. Inl ''yaml''), ya_VlanMember = (\<lambda>_. Inl ''yaml''), ya_Vlan = (\<lambda>_. Inl ''yaml''),
      ya_VxlanPeer = (\<lambda>_. Inl ''yaml''), ya_Vxlan = (\<lambda>_. Inl ''yaml''), ya_BFD = (\<lambda>_. Inl ''yaml'')\<rparr>"

definition saved_files :: file_env where
  "saved_files = \<lparr>fe_read = (\<lambda>file. if file = ''/plain'' then Inr saved_plain else if file = ''/tls'' then Inr saved_tls else Inl ''no such file''),
     fe_yaml = no_yaml, fe_unreachable = ''connection refused''\<rparr>"

lemma plain_decoded: "unmarshal lbRuleModGet_fields [] saved_plain = Some [loadBalancerModel0]"
proof -
  have "parse_json saved_plain = Some (JObj [(''lbAttr'', JArr [JObj []])])" by code_simp
  then show ?thesis by (simp add: unmarshal_def lbRuleModGet_fields_def dec_struct_def find_field_def dec_list_def)
qed

lemma tls_decoded:
  "unmarshal lbRuleModGet_fields [] saved_tls = Some [loadBalancerModel0\<lparr>lm_Service := loadBalancerService0\<lparr>ls_Security := 1\<rparr>\<rparr>]"
proof -
  have doc: "parse_json saved_tls = Some (JObj [(''lbAttr'', JArr [JObj [(''serviceArguments'', JObj [(''security'', JNum ''1'')])]])])" by code_simp
  have number: "dec_int32 old (JNum ''1'') = Some 1" for old by code_simp
  have "find_field loadBalancerService_fields ''security'' = Some (fld ''security'' ls_Security ls_Security_update dec_int32)"
    by (simp add: find_field_def loadBalancerService_fields_def lbListener_fields_def fld_def)
  then have "dec_struct False loadBalancerService_fields s (JObj [(''security'', JNum ''1'')]) = Some (s\<lparr>ls_Security := 1\<rparr>)" for s
    by (simp add: dec_struct_def fld_def number)
  then show ?thesis
    by (simp add: unmarshal_def doc lbRuleModGet_fields_def dec_struct_def find_field_def dec_list_def loadBalancerModel_fields_def fld_def
        loadBalancerModel0_def)
qed

definition apply_lb_options :: "string \<Rightarrow> applyOptions" where
  "apply_lb_options file = \<lparr>ao_IpConfigFile = [], ao_LBConfigFile = file, ao_SessionConfigFile = [], ao_SessionUlClConfigFile = [], ao_FWConfigFile = [],
     ao_NormalConfigFile = [], ao_BFDConfigFile = [], ao_Intf = [], ao_ConfigPath = [], ao_Route = False\<rparr>"

definition idle_host :: host_env where
  "idle_host = \<lparr>he_missing = (\<lambda>_. True), he_open = (\<lambda>_. None), he_bash = (\<lambda>_ _. None)\<rparr>"

end
