(* ===== verification/NetDump.thy ===== *)
theory NetDump
  imports ApplyConfig
begin

section \<open>Saving the interface configuration (\<open>cmd/get/get_netlink.go\<close>)\<close>

text \<open>
  \<open>save --ip\<close> writes one directory per interface, with a file for each of its settings, which \<open>apply --per-intf\<close> reads.
  The kernel's tables come from the netlink package, whose answers are arguments (\<open>None\<close> is its error); so are the shell and
  what the file system refuses. A path is the text the code builds. Slicing an address that is too short is a panic.
\<close>

subsection \<open>Files\<close>

datatype node = Dir | File bytes

type_synonym disk_files = "string \<Rightarrow> node option"

text \<open>
  \<open>de_stat_fails\<close>: \<open>os.Stat\<close> ends with an error other than \<open>ErrNotExist\<close>. \<open>de_refused\<close>: opening or making the path is
  refused. \<open>de_taken\<close>: how many bytes of a write arrive. \<open>de_kept\<close>: a path that cannot be removed. \<open>de_bash\<close>: what a command
  makes of the files, and whether it succeeds; \<open>de_bash_path\<close>: the shell's own path.
\<close>

record disk_env =
  de_stat_fails :: "string \<Rightarrow> bool"
  de_refused :: "disk_files \<Rightarrow> string \<Rightarrow> bool"
  de_taken :: "string \<Rightarrow> bytes \<Rightarrow> nat"
  de_kept :: "string \<Rightarrow> bool"
  de_bash :: "disk_files \<Rightarrow> string \<Rightarrow> disk_files \<times> bool"
  de_bash_path :: string

record disk_state =
  dk_files :: disk_files
  dk_ran :: "string list"
  dk_out :: "msg list"

type_synonym disk_step = "disk_state run_step"

definition tell :: "msg list \<Rightarrow> disk_state \<Rightarrow> disk_state" where
  "tell ms s = s\<lparr>dk_out := dk_out s @ ms\<rparr>"

definition stat_missing :: "disk_env \<Rightarrow> string \<Rightarrow> disk_state \<Rightarrow> bool" where
  "stat_missing de p s \<longleftrightarrow> dk_files s p = None \<and> \<not> de_stat_fails de p"

definition can_open :: "disk_env \<Rightarrow> string \<Rightarrow> disk_state \<Rightarrow> bool" where
  "can_open de p s \<longleftrightarrow> \<not> de_refused de (dk_files s) p \<and> dk_files s p \<noteq> Some Dir"

definition put_node :: "string \<Rightarrow> node \<Rightarrow> disk_state \<Rightarrow> disk_state" where
  "put_node p n s = s\<lparr>dk_files := (dk_files s)(p \<mapsto> n)\<rparr>"

text \<open>Writing at the end of an open file; \<open>said\<close> is printed when not everything arrived.\<close>

definition write_file :: "disk_env \<Rightarrow> msg list \<Rightarrow> string \<Rightarrow> bytes \<Rightarrow> disk_state \<Rightarrow> disk_state" where
  "write_file de said p data s =
     (case dk_files s p of
        Some (File old) \<Rightarrow>
          tell (if de_taken de p data < length data then said else []) (put_node p (File (old @ take (de_taken de p data) data)) s)
      | _ \<Rightarrow> s)"

definition dump :: "disk_env \<Rightarrow> string \<Rightarrow> bytes \<Rightarrow> disk_step" where
  "dump de p data s = Inr (write_file de os_error p data s)"

definition dump_line :: "disk_env \<Rightarrow> string \<Rightarrow> string \<Rightarrow> disk_step" where
  "dump_line de p text = dump de p (text @ [CHR 0x0A])"

definition step_when :: "bool \<Rightarrow> disk_step \<Rightarrow> disk_step" where
  "step_when b f = (if b then f else Inr)"

text \<open>It asks whether the dump's directory is there, not the file; a file that was not opened is not written.\<close>

definition fileOpen :: "disk_env \<Rightarrow> string \<Rightarrow> string \<Rightarrow> bool \<Rightarrow> disk_step \<Rightarrow> disk_step" where
  "fileOpen de path p truncated k s =
     (if stat_missing de path s then
        (if can_open de p s then k (put_node p (File []) s) else Inr (tell [Text ''Can't create dump file''] s))
      else if \<not> can_open de p s then Inr (tell [Sprintf ''Can't open %s file'' [AStr p]] s)
      else k (if truncated \<or> dk_files s p = None then put_node p (File []) s else s))"

text \<open>\<open>os.MkdirAll\<close>: the path and what is above it.\<close>

definition mkdir_all :: "string \<Rightarrow> disk_files \<Rightarrow> disk_files" where
  "mkdir_all p files = (\<lambda>q. if q \<in> set (filter (\<lambda>q. q = p \<or> q \<noteq> [] \<and> last q = CHR ''/'') (map (\<lambda>n. take n p) [0..<Suc (length p)])) \<and> files q = None
     then Some Dir else files q)"

definition createDir :: "disk_env \<Rightarrow> string \<Rightarrow> disk_step" where
  "createDir de p s =
     (if \<not> stat_missing de p s then Inr s
      else if de_refused de (dk_files s) p then Inr (tell [Sprintf ''Can't create intf config dir : %s'' [AStr p]] s)
      else Inr (s\<lparr>dk_files := mkdir_all p (dk_files s)\<rparr>))"

subsection \<open>The texts of addresses\<close>

fun byte_groups :: "nat list \<Rightarrow> nat list" where
  "byte_groups (a # b # bs) = (256 * a + b) # byte_groups bs"
| "byte_groups bs = []"

definition hex2 :: "nat \<Rightarrow> string" where
  "hex2 b = [hex_digit (b div 16), hex_digit (b mod 16)]"

definition net_IP_String :: "nat list \<Rightarrow> string" where
  "net_IP_String ip =
     (if ip = [] then ''<nil>''
      else if length ip = 4 then join_dots ip
      else if length ip = 16 then IP_String (byte_groups ip)
      else ''?'' @ concat (map hex2 ip))"

definition HardwareAddr_String :: "nat list \<Rightarrow> string" where
  "HardwareAddr_String a = join '':'' (map hex2 a)"

record ip_net =
  in_IP :: "nat list"
  in_Mask :: "nat list"

definition net_IP_To4 :: "nat list \<Rightarrow> nat list" where
  "net_IP_To4 ip =
     (if length ip = 4 then ip
      else if length ip = 16 \<and> take 12 ip = replicate 10 0 @ [255, 255] then drop 12 ip else [])"

definition ipmask_bits :: "nat list \<Rightarrow> bool list" where
  "ipmask_bits m = concat (map (\<lambda>b. map (\<lambda>i. b div 2 ^ i mod 2 = 1) [7, 6, 5, 4, 3, 2, 1, 0]) m)"

definition IPNet_String :: "ip_net \<Rightarrow> string" where
  "IPNet_String n =
     (let v4 = net_IP_To4 (in_IP n); ip = (if v4 = [] then in_IP n else v4);
          m = (if length (in_Mask n) = 16 \<and> length ip = 4 then drop 12 (in_Mask n) else in_Mask n);
          bits = ipmask_bits m; ones = takeWhile (\<lambda>b. b) bits in
      if length ip \<noteq> 4 \<and> length ip \<noteq> 16 \<or> length m \<noteq> length ip then ''<nil>''
      else net_IP_String ip @ ''/'' @ (if True \<in> set (dropWhile (\<lambda>b. b) bits) then concat (map hex2 m) else show_nat (length ones)))"

subsection \<open>The kernel's tables\<close>

text \<open>A slice of bytes: its length, and the array behind it up to its capacity.\<close>

record byte_slice =
  bs_len :: nat
  bs_array :: "nat list"

record nl_attrs =
  at_Name :: string
  at_Index :: int
  at_HardwareAddr :: byte_slice
  at_MTU :: int
  at_OperState :: nat
  at_MasterIndex :: int

datatype nl_kind = Bridge | Vxlan int int "nat list" | Bond int | OtherLink

record nl_link =
  lk_Attrs :: nl_attrs
  lk_Kind :: nl_kind

record nl_neigh =
  ne_State :: int
  ne_Family :: int
  ne_HardwareAddr :: byte_slice
  ne_IP :: "nat list"
  ne_Vlan :: int
  ne_MasterIndex :: int

record nl_route =
  rt_Dst :: "ip_net option"
  rt_Gw :: "nat list"
  rt_LinkIndex :: int

text \<open>\<open>nl_LinkList\<close> is asked three times. \<open>nl_BondMode\<close> is the name of a bond mode.\<close>

record netlink_env =
  nl_LinkList :: "nat \<Rightarrow> nl_link list option"
  nl_LinkByIndex :: "int \<Rightarrow> nl_link option"
  nl_AddrList :: "nl_link \<Rightarrow> ip_net option list option"
  nl_NeighList :: "int \<Rightarrow> int \<Rightarrow> nl_neigh list option"
  nl_RouteList :: "nl_route list option"
  nl_BondMode :: "int \<Rightarrow> string"

definition IF_OPER_UP :: nat where "IF_OPER_UP = 6"

definition netlink_error :: "msg list" where
  "netlink_error = [Sprintf ''%v'' [AErr ''netlink'']]"

definition link_name :: "nl_link \<Rightarrow> string" where
  "link_name link = at_Name (lk_Attrs link)"

text \<open>\<open>addr[:6]\<close>\<close>

definition first_six :: "byte_slice \<Rightarrow> (nat list \<Rightarrow> disk_step) \<Rightarrow> disk_step" where
  "first_six a k s =
     (if length (bs_array a) < 6 then Inl (''runtime error: slice bounds out of range [:6] with capacity '' @ show_nat (length (bs_array a)), s)
      else k (take 6 (bs_array a)) s)"

subsection \<open>The files of an interface\<close>

definition dump_over :: "disk_env \<Rightarrow> string \<Rightarrow> string \<Rightarrow> string \<Rightarrow> disk_step" where
  "dump_over de path p text = fileOpen de path p True (dump de p text)"

definition dump_more :: "disk_env \<Rightarrow> string \<Rightarrow> string \<Rightarrow> string \<Rightarrow> disk_step" where
  "dump_more de path p text = fileOpen de path p False (dump_line de p text)"

definition dumpType :: "disk_env \<Rightarrow> string \<Rightarrow> string \<Rightarrow> string \<Rightarrow> disk_step" where
  "dumpType de path intf itype = dump_over de path (intf @ ''/type'') itype"
definition dumpMtu :: "disk_env \<Rightarrow> string \<Rightarrow> string \<Rightarrow> int \<Rightarrow> disk_step" where
  "dumpMtu de path intf mtu = dump_over de path (intf @ ''/mtu'') (show_int mtu)"
definition dumpBondMode :: "disk_env \<Rightarrow> string \<Rightarrow> string \<Rightarrow> int \<Rightarrow> disk_step" where
  "dumpBondMode de path intf mode = dump_over de path (intf @ ''/mode'') (show_int mode)"
definition dumpMaster :: "disk_env \<Rightarrow> string \<Rightarrow> string \<Rightarrow> string \<Rightarrow> string \<Rightarrow> disk_step" where
  "dumpMaster de path intf master mtype = dump_over de path (intf @ ''/master'') (master @ ''|'' @ mtype)"
definition dumpVxlan :: "disk_env \<Rightarrow> string \<Rightarrow> string \<Rightarrow> int \<Rightarrow> string \<Rightarrow> string \<Rightarrow> disk_step" where
  "dumpVxlan de path name vid loc uif = dump_over de path (path @ name @ ''/info'') (show_int vid @ ''|'' @ loc @ ''|'' @ uif)"
definition dumpReal :: "disk_env \<Rightarrow> string \<Rightarrow> string \<Rightarrow> string \<Rightarrow> string \<Rightarrow> disk_step" where
  "dumpReal de path intf dev vid = dump_over de path (intf @ ''/real'') (dev @ '' type vlan id '' @ vid)"
definition dumpSubIntf :: "disk_env \<Rightarrow> string \<Rightarrow> string \<Rightarrow> string \<Rightarrow> string \<Rightarrow> disk_step" where
  "dumpSubIntf de path sub dev vid = dump_more de path (path @ dev @ ''/subintf'') (sub @ ''|'' @ dev @ ''|'' @ vid)"
definition dumpMember :: "disk_env \<Rightarrow> string \<Rightarrow> string \<Rightarrow> string \<Rightarrow> disk_step" where
  "dumpMember de path name member = dump_more de path (path @ name @ ''/members'') member"
definition dumpIpv4Addr :: "disk_env \<Rightarrow> string \<Rightarrow> string \<Rightarrow> string \<Rightarrow> disk_step" where
  "dumpIpv4Addr de path intf ip = dump_more de path (intf @ ''/ipv4addr'') ip"
definition dumpIpv4Neigh :: "disk_env \<Rightarrow> string \<Rightarrow> string \<Rightarrow> string \<Rightarrow> nat list \<Rightarrow> disk_step" where
  "dumpIpv4Neigh de path intf ip mac = dump_more de path (intf @ ''/ipv4neigh'') (ip @ '' lladdr '' @ HardwareAddr_String mac)"
definition dumpVxlanFdb :: "disk_env \<Rightarrow> string \<Rightarrow> string \<Rightarrow> nat list \<Rightarrow> string \<Rightarrow> disk_step" where
  "dumpVxlanFdb de path intf mac dst = dump_more de path (intf @ ''/vxfdbs'') (HardwareAddr_String mac @ '' dst '' @ dst)"
definition dumpL2Fdb :: "disk_env \<Rightarrow> string \<Rightarrow> string \<Rightarrow> nat list \<Rightarrow> disk_step" where
  "dumpL2Fdb de path intf mac = dump_more de path (intf @ ''/l2fdbs'') (HardwareAddr_String mac)"
definition dumpIpv4Route :: "disk_env \<Rightarrow> string \<Rightarrow> string \<Rightarrow> string \<Rightarrow> string \<Rightarrow> disk_step" where
  "dumpIpv4Route de path intf ip nh = dump_more de path (intf @ ''/ipv4route'') (ip @ '' via '' @ nh)"

subsection \<open>Links\<close>

text \<open>
  \<open>AddLink\<close> returns 0 or -1 to \<open>k\<close>. It writes the shell commands to the file \<open>f\<close> as well, and the settings under
  \<open>path\<close>. A name with a dot is taken for a VLAN port, whatever kind of link it is.
\<close>

definition link_vxlan :: "disk_env \<Rightarrow> netlink_env \<Rightarrow> string \<Rightarrow> string \<Rightarrow> string \<Rightarrow> int \<Rightarrow> int \<Rightarrow> nat list \<Rightarrow> disk_step \<Rightarrow> disk_step \<Rightarrow> disk_step" where
  "link_vxlan de nl path f name vid vtep src ok failed =
     (case nl_LinkByIndex nl vtep of
        None \<Rightarrow> then_do (\<lambda>s. Inr (tell netlink_error s)) failed
      | Some uif \<Rightarrow>
          (let dev = link_name uif; upath = path @ dev in in_order
            [dump_line de f (''ip link add '' @ name @ '' type vxlan id '' @ show_int vid @ '' local '' @ net_IP_String src @ '' dev '' @ dev @ '' dstport 4789''),
             dump_line de f (''ip link set '' @ name @ '' up''),
             createDir de (path @ name), dumpType de path (path @ name) ''vxlan'', dumpVxlan de path name vid (net_IP_String src) dev,
             createDir de upath, dumpType de path upath (if lk_Kind uif = Bridge then ''bridge'' else ''phy''), dumpMaster de path upath name ''vxlan'', ok]))"

definition dump_mtu :: "disk_env \<Rightarrow> string \<Rightarrow> string \<Rightarrow> string \<Rightarrow> int \<Rightarrow> disk_step" where
  "dump_mtu de path f name mtu = step_when (mtu \<noteq> 1500) (in_order
     [dump_line de f (''ip link set '' @ name @ '' mtu '' @ show_int mtu), dumpMtu de path (path @ name) mtu])"

definition link_kind :: "disk_env \<Rightarrow> netlink_env \<Rightarrow> string \<Rightarrow> string \<Rightarrow> nl_link \<Rightarrow> disk_step \<Rightarrow> disk_step \<Rightarrow> disk_step" where
  "link_kind de nl path f link ok failed =
     (let name = link_name link; intf = path @ name; mtu = at_MTU (lk_Attrs link); up = at_OperState (lk_Attrs link) = IF_OPER_UP in
      if CHR ''.'' \<in> set name then
        (let pname = split_on (CHR ''.'') name in in_order
          [dump_line de f (''ip link add '' @ name @ '' link '' @ pname ! 0 @ '' type vlan id '' @ pname ! 1),
           step_when up (dump_line de f (''ip link set '' @ pname ! 0 @ '' up'')),
           createDir de intf, dumpType de path intf ''subintf'', dumpReal de path intf (pname ! 0) (pname ! 1),
           dumpSubIntf de path name (pname ! 0) (pname ! 1), ok])
      else case lk_Kind link of
        Vxlan vid vtep src \<Rightarrow> link_vxlan de nl path f name vid vtep src ok failed
      | Bond mode \<Rightarrow> in_order
          [dump_line de f (''ip link add '' @ name @ '' type bond''),
           dump_line de f (''ip link set '' @ name @ '' type bond mode '' @ nl_BondMode nl mode),
           createDir de intf, dumpType de path intf ''bond'', dumpBondMode de path intf mode, dump_mtu de path f name mtu, ok]
      | _ \<Rightarrow> in_order [createDir de intf, dumpType de path intf ''phy'', dump_mtu de path f name mtu, ok])"

definition link_master :: "disk_env \<Rightarrow> netlink_env \<Rightarrow> string \<Rightarrow> string \<Rightarrow> nl_link \<Rightarrow> (int \<Rightarrow> disk_step) \<Rightarrow> disk_step" where
  "link_master de nl path f link k =
     (let name = link_name link; intf = path @ name in
      if at_MasterIndex (lk_Attrs link) \<le> 0 then k 0
      else case nl_LinkByIndex nl (at_MasterIndex (lk_Attrs link)) of
        None \<Rightarrow> then_do (\<lambda>s. Inr (tell netlink_error s)) (k (- 1))
      | Some master \<Rightarrow>
          (let mname = link_name master in in_order
            [(case lk_Kind master of
                Bridge \<Rightarrow> in_order [dumpMaster de path intf mname ''bridge'', dumpMember de path mname name]
              | Bond _ \<Rightarrow> in_order [dumpMaster de path intf mname ''bond'', dumpMember de path mname name, dump_line de f (''ip link set '' @ name @ '' down'')]
              | _ \<Rightarrow> Inr),
             dump_line de f (''ip link set '' @ name @ '' master '' @ mname), dump_line de f (''ip link set '' @ name @ '' up''), k 0]))"

definition AddLink :: "disk_env \<Rightarrow> netlink_env \<Rightarrow> string \<Rightarrow> string \<Rightarrow> nl_link \<Rightarrow> (int \<Rightarrow> disk_step) \<Rightarrow> disk_step" where
  "AddLink de nl path f link k =
     (let name = link_name link; intf = path @ name; up = at_OperState (lk_Attrs link) = IF_OPER_UP;
          set_up' = step_when up (dump_line de f (''ip link set '' @ name @ '' up'')) in
      then_do (step_when (bs_len (at_HardwareAddr (lk_Attrs link)) > 0) (first_six (at_HardwareAddr (lk_Attrs link)) (\<lambda>_. Inr)))
        (if lk_Kind link = Bridge then in_order
           [dump_line de f (''ip link add '' @ name @ '' type bridge''), set_up', createDir de intf, dumpType de path intf ''bridge'', k 0]
         else link_kind de nl path f link (then_do set_up' (link_master de nl path f link k)) (k (- 1))))"

subsection \<open>Addresses, neighbours and routes\<close>

definition AddAddr :: "disk_env \<Rightarrow> string \<Rightarrow> string \<Rightarrow> ip_net option \<Rightarrow> nl_link \<Rightarrow> disk_step" where
  "AddAddr de path f addr link =
     (let ip = (case addr of None \<Rightarrow> ''<nil>'' | Some n \<Rightarrow> IPNet_String n); name = link_name link in
      in_order [dump_line de f (''ip addr add '' @ ip @ '' dev '' @ name), dumpIpv4Addr de path (path @ name) ip])"

text \<open>A bridge entry that is the bridge's own address is not kept.\<close>

definition fdb_entry :: "disk_env \<Rightarrow> string \<Rightarrow> string \<Rightarrow> nl_neigh \<Rightarrow> nl_link \<Rightarrow> nat list \<Rightarrow> disk_step" where
  "fdb_entry de path f neigh link mac =
     (let name = link_name link; intf = path @ name; dst = net_IP_String (ne_IP neigh) in
      case lk_Kind link of
        Vxlan _ _ _ \<Rightarrow>
          if ne_IP neigh = [] then Inr
          else in_order [dump_line de f (''bridge fdb append '' @ HardwareAddr_String mac @ '' dst '' @ dst @ '' dev '' @ name @ '' permanent''),
                 dumpVxlanFdb de path intf mac dst]
      | _ \<Rightarrow> in_order [dump_line de f (''bridge fdb add '' @ HardwareAddr_String mac @ '' dev '' @ name @ '' permanent''), dumpL2Fdb de path intf mac])"

definition AddNeigh :: "disk_env \<Rightarrow> netlink_env \<Rightarrow> string \<Rightarrow> string \<Rightarrow> nl_neigh \<Rightarrow> nl_link \<Rightarrow> disk_step" where
  "AddNeigh de nl path f neigh link =
     (if \<not> bit (ne_State neigh) 7 \<or> bs_len (ne_HardwareAddr neigh) = 0 then Inr
      else first_six (ne_HardwareAddr neigh) (\<lambda>mac.
        if ne_Family neigh = 2 then in_order
          [dump_line de f (''ip neigh add '' @ net_IP_String (ne_IP neigh) @ '' lladdr '' @ HardwareAddr_String mac @ '' dev '' @ link_name link @ '' permanent''),
           dumpIpv4Neigh de path (path @ link_name link) (net_IP_String (ne_IP neigh)) mac]
        else if ne_Family neigh \<noteq> 7 \<or> ne_Vlan neigh = 1 \<or> odd (mac ! 0) then Inr
        else if ne_MasterIndex neigh > 0 then
          (case nl_LinkByIndex nl (ne_MasterIndex neigh) of
             None \<Rightarrow> (\<lambda>s. Inr (tell netlink_error s))
           | Some br \<Rightarrow> first_six (at_HardwareAddr (lk_Attrs br)) (\<lambda>brMac. if mac = brMac then Inr else fdb_entry de path f neigh link mac))
        else fdb_entry de path f neigh link mac))"

definition AddRoute :: "disk_env \<Rightarrow> netlink_env \<Rightarrow> string \<Rightarrow> string \<Rightarrow> nl_route \<Rightarrow> disk_step" where
  "AddRoute de nl path f route =
     (let dst = IPNet_String (case rt_Dst route of None \<Rightarrow> \<lparr>in_IP = [0, 0, 0, 0], in_Mask = [0, 0, 0, 0]\<rparr> | Some n \<Rightarrow> n); gw = net_IP_String (rt_Gw route) in
      case nl_LinkByIndex nl (rt_LinkIndex route) of
        None \<Rightarrow> (\<lambda>s. Inr (tell netlink_error s))
      | Some link \<Rightarrow> in_order [dump_line de f (''ip route add '' @ dst @ '' via '' @ gw @ '' proto static''), dumpIpv4Route de path (path @ link_name link) dst gw])"

definition for_each :: "('a \<Rightarrow> disk_step) \<Rightarrow> 'a list option \<Rightarrow> disk_step" where
  "for_each f xs = in_order (map f (case xs of None \<Rightarrow> [] | Some ys \<Rightarrow> ys))"

definition GetIpAddrs :: "disk_env \<Rightarrow> netlink_env \<Rightarrow> string \<Rightarrow> string \<Rightarrow> nl_link \<Rightarrow> disk_step" where
  "GetIpAddrs de nl path f link = for_each (\<lambda>a. AddAddr de path f a link) (nl_AddrList nl link)"

definition GetIpNeigh :: "disk_env \<Rightarrow> netlink_env \<Rightarrow> string \<Rightarrow> string \<Rightarrow> nl_link \<Rightarrow> disk_step" where
  "GetIpNeigh de nl path f link = for_each (\<lambda>n. AddNeigh de nl path f n link) (nl_NeighList nl (at_Index (lk_Attrs link)) 0)"

definition GetFdbs :: "disk_env \<Rightarrow> netlink_env \<Rightarrow> string \<Rightarrow> string \<Rightarrow> nl_link \<Rightarrow> disk_step" where
  "GetFdbs de nl path f link = for_each (\<lambda>n. AddNeigh de nl path f n link) (nl_NeighList nl (at_Index (lk_Attrs link)) 7)"

definition is_bond :: "nl_link \<Rightarrow> bool" where
  "is_bond link \<longleftrightarrow> (case lk_Kind link of Bond _ \<Rightarrow> True | _ \<Rightarrow> False)"

definition add_with_addrs :: "disk_env \<Rightarrow> netlink_env \<Rightarrow> string \<Rightarrow> string \<Rightarrow> nl_link \<Rightarrow> disk_step" where
  "add_with_addrs de nl path f link = AddLink de nl path f link (\<lambda>_. GetIpAddrs de nl path f link)"

definition GetBridges :: "disk_env \<Rightarrow> netlink_env \<Rightarrow> string \<Rightarrow> string \<Rightarrow> disk_step" where
  "GetBridges de nl path f = for_each (\<lambda>link. step_when (lk_Kind link = Bridge) (add_with_addrs de nl path f link)) (nl_LinkList nl 0)"

definition GetBonds :: "disk_env \<Rightarrow> netlink_env \<Rightarrow> string \<Rightarrow> string \<Rightarrow> disk_step" where
  "GetBonds de nl path f = for_each (\<lambda>link. step_when (is_bond link) (add_with_addrs de nl path f link)) (nl_LinkList nl 1)"

definition other_link :: "disk_env \<Rightarrow> netlink_env \<Rightarrow> string \<Rightarrow> string \<Rightarrow> nl_link \<Rightarrow> disk_step" where
  "other_link de nl path f link =
     (let rest = in_order [step_when (lk_Kind link \<noteq> Bridge) (GetFdbs de nl path f link), GetIpNeigh de nl path f link] in
      if lk_Kind link = Bridge \<or> is_bond link then rest
      else AddLink de nl path f link (\<lambda>ret. if ret = - 1 then Inr else in_order [GetIpAddrs de nl path f link, rest]))"

subsection \<open>The dump\<close>

text \<open>The result of a dump is the name of its own file and an error; \<open>Inl\<close> is a panic.\<close>

type_synonym dump_result = "string \<times> msg option"
type_synonym dump_run = "(string \<times> disk_state) + (dump_result \<times> disk_state)"

definition exec_error :: msg where
  "exec_error = Sprintf ''%v'' [AErr ''os/exec'']"

definition run_bash :: "disk_env \<Rightarrow> string \<Rightarrow> disk_state \<Rightarrow> bool \<times> disk_state" where
  "run_bash de command s = (case de_bash de (dk_files s) command of (files, ok) \<Rightarrow> (ok, s\<lparr>dk_files := files, dk_ran := dk_ran s @ [command]\<rparr>))"

definition mkdir :: "disk_env \<Rightarrow> string \<Rightarrow> disk_state \<Rightarrow> bool \<times> disk_state" where
  "mkdir de p s = (if de_refused de (dk_files s) p \<or> dk_files s p \<noteq> None then (False, s) else (True, put_node p Dir s))"

definition cannot_make :: "string \<Rightarrow> msg list" where
  "cannot_make p = [Text (''Can't create config dir:  '' @ p)]"

definition copy_dump :: "disk_env \<Rightarrow> string \<Rightarrow> string \<Rightarrow> string \<Rightarrow> disk_state \<Rightarrow> dump_result \<times> disk_state" where
  "copy_dump de file path cpath s =
     (let command = ''cp -R '' @ path @ ''/* '' @ cpath in
      case run_bash de command s of
        (True, s') \<Rightarrow> ((file, None), s')
      | (False, s') \<Rightarrow> ((file, Some exec_error), tell [Sprintf ''%v %s'' [AErr ''os/exec'', AStr command], Text (''Failed copy file to '' @ cpath)] s'))"

text \<open>The old dump becomes the backup; the backup before it goes.\<close>

definition replace_dump :: "disk_env \<Rightarrow> string \<Rightarrow> string \<Rightarrow> string \<Rightarrow> disk_state \<Rightarrow> dump_result \<times> disk_state" where
  "replace_dump de file path dpath s =
     (let cpath = dpath @ ''ipconfig''; bpath = dpath @ ''ipconfig.bk''; command = ''rm -rf '' @ bpath;
          s1 = (if dk_files s bpath \<noteq> None \<and> \<not> de_stat_fails de bpath then
                  (case run_bash de command s of
                     (True, s') \<Rightarrow> s'
                   | (False, s') \<Rightarrow> tell [Sprintf ''%v %s'' [AErr ''os/exec'', AStr command], Text (''Can't remove backup  '' @ bpath)] s')
                else s) in
      if stat_missing de cpath s1 then
        (case mkdir de cpath s1 of (ok, s2) \<Rightarrow> copy_dump de file path cpath (if ok then s2 else tell (cannot_make cpath) s2))
      else
        (case run_bash de (''mv '' @ cpath @ '' '' @ bpath) s1 of
           (False, s2) \<Rightarrow> ((file, Some exec_error), tell [Text (''Can't backup  '' @ cpath)] s2)
         | (True, s2) \<Rightarrow>
             (case mkdir de cpath s2 of
                (False, s3) \<Rightarrow> ((file, Some (Sprintf ''%v'' [AErr ''os''])), tell (cannot_make cpath) s3)
              | (True, s3) \<Rightarrow> copy_dump de file path cpath s3)))"

definition Nlpdump_body :: "disk_env \<Rightarrow> netlink_env \<Rightarrow> string \<Rightarrow> string \<Rightarrow> string \<Rightarrow> disk_state \<Rightarrow> dump_run" where
  "Nlpdump_body de nl file path dpath s =
     (let s0 = (if stat_missing de path s then (case mkdir de path s of (ok, s') \<Rightarrow> if ok then s' else tell [Text ''Can't create config dir''] s') else s) in
      case in_order [GetBridges de nl path file, GetBonds de nl path file] s0 of
        Inl p \<Rightarrow> Inl p
      | Inr s1 \<Rightarrow>
          (case nl_LinkList nl 2 of
             None \<Rightarrow> Inr ((file, Some (Sprintf ''%v'' [AErr ''netlink''])), tell [Text ''Can't get device info''] s1)
           | Some links \<Rightarrow>
               (case in_order [for_each (other_link de nl path file) (Some links), for_each (AddRoute de nl path file) (nl_RouteList nl)] s1 of
                  Inl p \<Rightarrow> Inl p
                | Inr s2 \<Rightarrow> Inr (replace_dump de file path dpath s2))))"

text \<open>The deferred removals run on every way out, a panic included.\<close>

definition remove_under :: "disk_env \<Rightarrow> (string \<Rightarrow> bool) \<Rightarrow> disk_state \<Rightarrow> disk_state" where
  "remove_under de gone s = s\<lparr>dk_files := (\<lambda>p. if gone p \<and> \<not> de_kept de p then None else dk_files s p)\<rparr>"

definition cannot_create :: msg where
  "cannot_create = Sprintf ''can't create dump file: %w'' [AErr ''os'']"

definition Nlpdump :: "disk_env \<Rightarrow> netlink_env \<Rightarrow> string \<Rightarrow> string \<Rightarrow> disk_state \<Rightarrow> dump_run" where
  "Nlpdump de nl now dpath s =
     (let file = ''/tmp/ipconfig_'' @ now @ ''.txt''; path = ''/tmp/ipconfig_'' @ now @ ''/''; away = remove_under de (\<lambda>p. p = file \<or> has_prefix path p) in
      if \<not> can_open de file s then Inr (([], Some cannot_create), s)
      else (case Nlpdump_body de nl file path dpath (put_node file (File []) s) of
              Inl (p, s') \<Rightarrow> Inl (p, away s')
            | Inr (r, s') \<Rightarrow> Inr (r, away s')))"

end
