(* ===== verification/SaveConfig.thy ===== *)
theory SaveConfig
  imports NetDump
begin

section \<open>Saving the configuration (\<open>cmd/dump/save.go\<close> and the dumps of \<open>cmd/get\<close>)\<close>

text \<open>
  \<open>save\<close> asks the gateway to persist its configuration (\<open>--api\<close>), or writes text dumps: the interface configuration, and
  the rules the gateway answers with. Each dump goes to a file of its own and is copied over the configuration file by the shell.
\<close>

subsection \<open>Rule dumps\<close>

text \<open>The tail that the dumps share: the old file becomes the backup, and the dump is copied.\<close>

definition place_file :: "disk_env \<Rightarrow> string \<Rightarrow> string \<Rightarrow> disk_state \<Rightarrow> dump_result \<times> disk_state" where
  "place_file de file cfile s =
     (let copy = (\<lambda>s. let command = ''cp -R '' @ file @ '' '' @ cfile in
            case run_bash de command (tell [Text (de_bash_path de @ '' -c '' @ command)] s) of
              (True, s') \<Rightarrow> ((file, None), s')
            | (False, s') \<Rightarrow> ((file, Some exec_error), tell [Text (''Failed copy file to '' @ cfile)] s')) in
      if stat_missing de cfile s then copy (tell [Text ''There is no saved config file''] s)
      else case run_bash de (''mv '' @ cfile @ '' '' @ cfile @ ''.bk'') s of
        (True, s') \<Rightarrow> copy s'
      | (False, s') \<Rightarrow> ((file, Some exec_error), tell [Text (''Can't backup  '' @ cfile)] s'))"

text \<open>
  What a dump makes of an answer: what it prints, and either the bytes to write or the error it returns, which may be nil.
\<close>

type_synonym dump_content = "int \<Rightarrow> http_body \<Rightarrow> msg list \<times> (msg option + bytes)"

definition dump_response ::
  "disk_env \<Rightarrow> msg list \<Rightarrow> string \<Rightarrow> string \<Rightarrow> dump_content \<Rightarrow> http_result \<Rightarrow> disk_state \<Rightarrow> dump_result \<times> disk_state" where
  "dump_response de said file cfile content ans s =
     (case ans of
        NoResponse \<Rightarrow> (([], Some (Sprintf ''%v'' [AErr ''net/http''])), tell [Sprintf ''Error: %s'' [AErr ''net/http'']] s)
      | Response status hs raw \<Rightarrow>
          (case content status raw of
             (out, Inl e) \<Rightarrow> (([], e), tell out s)
           | (out, Inr data) \<Rightarrow> place_file de file cfile (write_file de said file data (tell out s))))"

text \<open>\<open>removed\<close>: the dump file is removed on the way out.\<close>

definition rest_dump ::
  "disk_env \<Rightarrow> gateway_env \<Rightarrow> bool \<Rightarrow> msg list \<Rightarrow> string \<Rightarrow> string \<Rightarrow> dump_content \<Rightarrow> http_request option \<Rightarrow> disk_state \<Rightarrow> http_request list \<Rightarrow>
     dump_result \<times> disk_state \<times> http_request list" where
  "rest_dump de env removed said file cfile content req s log =
     (if \<not> can_open de file s then (([], Some cannot_create), s, log)
      else (case exchange env req log of (ans, log') \<Rightarrow>
        (case dump_response de said file cfile content ans (put_node file (File []) s) of (r, s') \<Rightarrow>
           (r, (if removed then remove_under de (\<lambda>p. p = file) s' else s'), log'))))"

definition read_failed :: "http_body \<Rightarrow> msg list" where
  "read_failed raw = (case raw of Whole b \<Rightarrow> [] | Torn b \<Rightarrow> [Sprintf ''Error: Failed to read HTTP response: (%s)'' [AErr ''net/http'']])"

definition answer_undecoded :: "msg list" where
  "answer_undecoded = [Sprintf ''Error: Failed to unmarshal HTTP response: (%s)'' [AErr ''encoding/json'']]"

text \<open>The body as it came, whatever the status.\<close>

definition raw_content :: dump_content where
  "raw_content status raw = (read_failed raw, Inr (read_some raw))"

definition Sessiondump :: "disk_env \<Rightarrow> gateway_env \<Rightarrow> string \<Rightarrow> restOptions \<Rightarrow> string \<Rightarrow> disk_state \<Rightarrow> http_request list \<Rightarrow> dump_result \<times> disk_state \<times> http_request list" where
  "Sessiondump de env now o' path = rest_dump de env False [] (''sessionconfig_'' @ now @ ''.txt'') (path @ ''sessionconfig.txt'') raw_content
     (api_Get (ge_url_ok env) (SetUrl ''/config/session/all'' (LoxiClient_Session o')))"

definition SessionUlCldump :: "disk_env \<Rightarrow> gateway_env \<Rightarrow> string \<Rightarrow> restOptions \<Rightarrow> string \<Rightarrow> disk_state \<Rightarrow> http_request list \<Rightarrow> dump_result \<times> disk_state \<times> http_request list" where
  "SessionUlCldump de env now o' path = rest_dump de env False [] (''sessionulclconfig_'' @ now @ ''.txt'') (path @ ''sessionulclconfig.txt'') raw_content
     (api_Get (ge_url_ok env) (SetUrl ''/config/sessionulcl/all'' (LoxiClient_SessionUlCL o')))"

definition FWdump :: "disk_env \<Rightarrow> gateway_env \<Rightarrow> string \<Rightarrow> restOptions \<Rightarrow> string \<Rightarrow> disk_state \<Rightarrow> http_request list \<Rightarrow> dump_result \<times> disk_state \<times> http_request list" where
  "FWdump de env now o' path = rest_dump de env True [] (''/tmp/FWconfig_'' @ now @ ''.txt'') (path @ ''FWconfig.txt'') raw_content
     (api_Get (ge_url_ok env) (SetUrl ''/config/firewall/all'' (LoxiClient_Firewall o')))"

subsection \<open>End points and BFD sessions\<close>

text \<open>A slice that may be nil: \<open>null\<close> and \<open>[]\<close> are different when they are printed again.\<close>

definition dec_slice :: "'a decoder \<Rightarrow> 'a \<Rightarrow> 'a list option decoder" where
  "dec_slice d zero old j =
     (case j of
        JNull \<Rightarrow> Some None
      | _ \<Rightarrow> map_option Some (dec_list d zero (case old of None \<Rightarrow> [] | Some xs \<Rightarrow> xs) j))"

definition jnilable :: "json list option \<Rightarrow> json" where
  "jnilable js = (case js of None \<Rightarrow> JNull | Some xs \<Rightarrow> JArr xs)"

record endPointGetEntry =
  eg_HostName :: string
  eg_Name :: string
  eg_InActTries :: int
  eg_ProbeType :: string
  eg_ProbeReq :: string
  eg_ProbeResp :: string
  eg_ProbeDuration :: "32 word"
  eg_ProbePort :: "16 word"
  eg_MinDelay :: string
  eg_AvgDelay :: string
  eg_MaxDelay :: string
  eg_CurrState :: string

definition endPointGetEntry0 :: endPointGetEntry where
  "endPointGetEntry0 = \<lparr>eg_HostName = [], eg_Name = [], eg_InActTries = 0, eg_ProbeType = [], eg_ProbeReq = [], eg_ProbeResp = [], eg_ProbeDuration = 0,
     eg_ProbePort = 0, eg_MinDelay = [], eg_AvgDelay = [], eg_MaxDelay = [], eg_CurrState = []\<rparr>"

definition endPointGetEntry_fields :: "endPointGetEntry field_spec list" where
  "endPointGetEntry_fields =
    [fld ''hostName'' eg_HostName eg_HostName_update dec_string,
     fld ''name'' eg_Name eg_Name_update dec_string,
     fld ''inactiveReTries'' eg_InActTries eg_InActTries_update dec_int,
     fld ''probeType'' eg_ProbeType eg_ProbeType_update dec_string,
     fld ''probeReq'' eg_ProbeReq eg_ProbeReq_update dec_string,
     fld ''probeResp'' eg_ProbeResp eg_ProbeResp_update dec_string,
     fld ''probeDuration'' eg_ProbeDuration eg_ProbeDuration_update dec_word,
     fld ''probePort'' eg_ProbePort eg_ProbePort_update dec_word,
     fld ''minDelay'' eg_MinDelay eg_MinDelay_update dec_string,
     fld ''avgDelay'' eg_AvgDelay eg_AvgDelay_update dec_string,
     fld ''maxDelay'' eg_MaxDelay eg_MaxDelay_update dec_string,
     fld ''currState'' eg_CurrState eg_CurrState_update dec_string]"

definition epInformationGet_fields :: "endPointGetEntry list field_spec list" where
  "epInformationGet_fields = [(''Attr'', dec_list (dec_struct False endPointGetEntry_fields) endPointGetEntry0)]"

definition saved_endpoint :: "endPointGetEntry \<Rightarrow> endPointMod" where
  "saved_endpoint e = \<lparr>em_HostName = eg_HostName e, em_Name = eg_Name e, em_InActTries = eg_InActTries e, em_ProbeType = eg_ProbeType e,
     em_ProbeReq = eg_ProbeReq e, em_ProbeResp = eg_ProbeResp e, em_ProbeDuration = eg_ProbeDuration e, em_ProbePort = eg_ProbePort e\<rparr>"

definition epConfig_json :: "endPointMod list \<Rightarrow> json" where
  "epConfig_json ms = JObj [(''Attr'', jslice (map endPointMod_json ms))]"

definition ep_content :: dump_content where
  "ep_content status raw =
     (case unmarshal epInformationGet_fields [] (read_some raw) of
        None \<Rightarrow> (read_failed raw @ answer_undecoded, Inl (Some (Sprintf ''%v'' [AErr ''encoding/json''])))
      | Some es \<Rightarrow> (read_failed raw, Inr (print_json (epConfig_json (map saved_endpoint es)))))"

definition EPdump :: "disk_env \<Rightarrow> gateway_env \<Rightarrow> string \<Rightarrow> restOptions \<Rightarrow> string \<Rightarrow> disk_state \<Rightarrow> http_request list \<Rightarrow> dump_result \<times> disk_state \<times> http_request list" where
  "EPdump de env now o' path = rest_dump de env False [] (''EPconfig_'' @ now @ ''.txt'') (path @ ''EPconfig.txt'') ep_content
     (api_Get (ge_url_ok env) (SetUrl ''/config/endpoint/all'' (LoxiClient_Firewall o')))"

definition bfdSessions_fields :: "bfdSessionInfo list option field_spec list" where
  "bfdSessions_fields = [(''Attr'', dec_slice (dec_struct False bfdSessionInfo_fields) bfdSessionInfo0)]"

definition bfdSessionGet_json :: "bfdSessionInfo list option \<Rightarrow> json" where
  "bfdSessionGet_json bs = JObj [(''Attr'', jnilable (map_option (map bfdSessionInfo_json) bs))]"

text \<open>An answer other than 200 is no error: \<open>err\<close> is still the nil of the request.\<close>

definition bfd_content :: dump_content where
  "bfd_content status raw =
     (if status \<noteq> 200 then ([], Inl None)
      else case raw of
        Torn b \<Rightarrow> (read_failed raw, Inl (Some (Sprintf ''%v'' [AErr ''net/http''])))
      | Whole b \<Rightarrow>
          (case unmarshal bfdSessions_fields None b of
             None \<Rightarrow> (answer_undecoded, Inl (Some (Sprintf ''%v'' [AErr ''encoding/json''])))
           | Some bs \<Rightarrow> ([], Inr (print_json (bfdSessionGet_json bs)))))"

definition BFDdump :: "disk_env \<Rightarrow> gateway_env \<Rightarrow> string \<Rightarrow> restOptions \<Rightarrow> string \<Rightarrow> disk_state \<Rightarrow> http_request list \<Rightarrow> dump_result \<times> disk_state \<times> http_request list" where
  "BFDdump de env now o' path = rest_dump de env False [] (''BFDconfig_'' @ now @ ''.txt'') (path @ ''BFDconfig.txt'') bfd_content
     (api_Get (ge_url_ok env) (SetUrl ''config/bfd/all'' (LoxiClient_Status o')))"

subsection \<open>Load-balancer rules\<close>

record lbRuleEntry =
  re_Service :: loadBalancerService
  re_SecondaryIPs :: "loadBalancerSecIp list option"
  re_SrcIPs :: "lbAllowedSrcIPArg list option"
  re_Endpoints :: "loadBalancerEndpoint list option"

definition lbRuleEntry0 :: lbRuleEntry where
  "lbRuleEntry0 = \<lparr>re_Service = loadBalancerService0, re_SecondaryIPs = None, re_SrcIPs = None, re_Endpoints = None\<rparr>"

definition lbRuleEntry_fields :: "lbRuleEntry field_spec list" where
  "lbRuleEntry_fields =
    [fld ''serviceArguments'' re_Service re_Service_update (dec_struct False loadBalancerService_fields),
     fld ''secondaryIPs'' re_SecondaryIPs re_SecondaryIPs_update (dec_slice (dec_struct False loadBalancerSecIp_fields) loadBalancerSecIp0),
     fld ''allowedSources'' re_SrcIPs re_SrcIPs_update (dec_slice (dec_struct False lbAllowedSrcIPArg_fields) lbAllowedSrcIPArg0),
     fld ''endpoints'' re_Endpoints re_Endpoints_update (dec_slice (dec_struct False loadBalancerEndpoint_fields) loadBalancerEndpoint0)]"

definition lbRules_fields :: "lbRuleEntry list field_spec list" where
  "lbRules_fields = [(''lbAttr'', dec_list (dec_struct False lbRuleEntry_fields) lbRuleEntry0)]"

definition lbRuleEntry_json :: "lbRuleEntry \<Rightarrow> json" where
  "lbRuleEntry_json x = JObj
     [(''serviceArguments'', loadBalancerService_json (re_Service x)),
      (''secondaryIPs'', jnilable (map_option (map loadBalancerSecIp_json) (re_SecondaryIPs x))),
      (''allowedSources'', jnilable (map_option (map lbAllowedSrcIPArg_json) (re_SrcIPs x))),
      (''endpoints'', jnilable (map_option (map loadBalancerEndpoint_json) (re_Endpoints x)))]"

definition lbRules_json :: "lbRuleEntry list \<Rightarrow> json" where
  "lbRules_json rules = JObj [(''lbAttr'', jslice (map lbRuleEntry_json rules))]"

text \<open>Rules the gateway manages, source NAT and IPVS rules are left out; counters are cleared.\<close>

definition rule_saved :: "lbRuleEntry \<Rightarrow> bool" where
  "rule_saved r \<longleftrightarrow> \<not> ls_Managed (re_Service r) \<and> \<not> ls_Snat (re_Service r) \<and> \<not> contains_sub ''ipvs'' (ls_Name (re_Service r))"

definition saved_rules :: "lbRuleEntry list \<Rightarrow> lbRuleEntry list" where
  "saved_rules rules = map (\<lambda>r. r\<lparr>re_Endpoints := map_option (map (\<lambda>ep. ep\<lparr>ep_Counter := []\<rparr>)) (re_Endpoints r)\<rparr>) (filter rule_saved rules)"

definition lb_content :: dump_content where
  "lb_content status raw =
     (case unmarshal lbRules_fields [] (read_some raw) of
        None \<Rightarrow> (read_failed raw @ answer_undecoded, Inl (Some (Sprintf ''%v'' [AErr ''encoding/json''])))
      | Some rules \<Rightarrow> (read_failed raw, Inr (print_json (lbRules_json (saved_rules rules)))))"

definition Lbdump :: "disk_env \<Rightarrow> gateway_env \<Rightarrow> string \<Rightarrow> restOptions \<Rightarrow> string \<Rightarrow> disk_state \<Rightarrow> http_request list \<Rightarrow> dump_result \<times> disk_state \<times> http_request list" where
  "Lbdump de env now o' path = rest_dump de env True [Text ''File write error''] (''/tmp/lbconfig_'' @ now @ ''.txt'') (path @ ''lbconfig.txt'') lb_content
     (api_Get (ge_url_ok env) (LoxiClient_LoadBalancerAll o'))"

subsection \<open>The command\<close>

record saveOptions =
  so_SaveIpConfig :: bool
  so_SaveLBConfig :: bool
  so_SaveSessionConfig :: bool
  so_SaveUlClConfig :: bool
  so_SaveFWConfig :: bool
  so_SaveEPConfig :: bool
  so_SaveBFDConfig :: bool
  so_SaveAllConfig :: bool
  so_SaveViaApi :: bool
  so_ConfigPath :: string

definition legacyDomainFlags :: "(string \<times> (saveOptions \<Rightarrow> bool)) list" where
  "legacyDomainFlags =
    [(''all'', so_SaveAllConfig), (''lb'', so_SaveLBConfig), (''session'', so_SaveSessionConfig), (''ulcl'', so_SaveUlClConfig),
     (''firewall'', so_SaveFWConfig), (''endpoint'', so_SaveEPConfig), (''bfd'', so_SaveBFDConfig)]"

definition api_flag_conflict :: "string \<Rightarrow> msg" where
  "api_flag_conflict flag = Sprintf (''--api cannot be combined with --%s: --api asks the gateway to persist its own ''
     @ ''configuration, while --%s writes a local text dump. Run them separately, or use --api with --ip, ''
     @ ''which dumps the interface configuration the snapshot document excludes'') [AStr flag, AStr flag]"

definition validateSaveOptions :: "saveOptions \<Rightarrow> lifecycleError option" where
  "validateSaveOptions o' =
     (if \<not> so_SaveViaApi o' then
        (if \<not> so_SaveIpConfig o' \<and> \<not> so_SaveAllConfig o' \<and> \<not> so_SaveLBConfig o' \<and> \<not> so_SaveSessionConfig o' \<and> \<not> so_SaveUlClConfig o'
            \<and> \<not> so_SaveFWConfig o' \<and> \<not> so_SaveEPConfig o' \<and> \<not> so_SaveBFDConfig o'
         then Some (lifecycle_failure ''invalid-arguments''
                (Text ''select what to save: --api for the gateway's own snapshot, or one of the local dump flags''))
         else None)
      else case find (\<lambda>(name, selected). selected o') legacyDomainFlags of
        Some (name, _) \<Rightarrow> Some (lifecycle_failure ''invalid-arguments'' (api_flag_conflict name))
      | None \<Rightarrow>
          if so_ConfigPath o' \<noteq> [] \<and> \<not> so_SaveIpConfig o' then
            Some (lifecycle_failure ''invalid-arguments'' (Text (''--config-path names a client-local directory for text dumps and does not change where the gateway ''
              @ ''writes snapshot.json; with --api alone there is no local dump to place. The gateway's own --config-path ''
              @ ''decides the snapshot location'')))
          else None)"

text \<open>\<open>sv_written\<close>: the documents and the prose of the persist command. \<open>sv_now\<close> is the time as the file names have it.\<close>

record save_env =
  sv_disk :: disk_env
  sv_netlink :: netlink_env
  sv_gateway :: gateway_env
  sv_now :: string
  sv_stdout :: "goerr option"

record save_run =
  sr_disk :: disk_state
  sr_sent :: "http_request list"
  sr_written :: "lifecycle_output list"
  sr_end :: run_end

definition save_end :: "disk_state \<Rightarrow> http_request list \<Rightarrow> goerr option \<Rightarrow> save_run" where
  "save_end s log e = \<lparr>sr_disk = s, sr_sent = log, sr_written = [], sr_end = Done e\<rparr>"

definition not_saved :: "string \<Rightarrow> msg \<Rightarrow> goerr" where
  "not_saved label e = ELifecycle (lifecycle_failure ''file-write-failed'' (Sprintf ''%s configuration was not saved: %v'' [AStr label, AMsg e]))"

definition ensureConfigDir :: "disk_env \<Rightarrow> string \<Rightarrow> disk_state \<Rightarrow> goerr option \<times> disk_state" where
  "ensureConfigDir de dpath s =
     (if stat_missing de dpath s then
        (case mkdir de dpath s of
           (True, s') \<Rightarrow> (None, s')
         | (False, s') \<Rightarrow>
             (Some (ELifecycle (lifecycle_failure ''file-write-failed'' (Sprintf ''cannot create the config directory %s: %v'' [AStr dpath, AErr ''os'']))), s'))
      else (None, s))"

type_synonym any_dump = "disk_state \<Rightarrow> http_request list \<Rightarrow> (string \<times> disk_state) + (dump_result \<times> disk_state \<times> http_request list)"

definition ip_dump :: "save_env \<Rightarrow> string \<Rightarrow> any_dump" where
  "ip_dump ev dpath s log =
     (case Nlpdump (sv_disk ev) (sv_netlink ev) (sv_now ev) dpath s of Inl p \<Rightarrow> Inl p | Inr (r, s') \<Rightarrow> Inr (r, s', log))"

text \<open>One dump and what follows it: a panic or an error ends the run.\<close>

definition one_dump ::
  "string \<Rightarrow> any_dump \<Rightarrow> (string \<Rightarrow> msg) \<Rightarrow> disk_state \<Rightarrow> http_request list \<Rightarrow> (disk_state \<Rightarrow> http_request list \<Rightarrow> save_run) \<Rightarrow> save_run" where
  "one_dump label d saved s log k =
     (case d s log of
        Inl (p, s') \<Rightarrow> \<lparr>sr_disk = s', sr_sent = log, sr_written = [], sr_end = Panicked p\<rparr>
      | Inr ((file, Some e), s', log') \<Rightarrow> save_end s' log' (Some (not_saved label e))
      | Inr ((file, None), s', log') \<Rightarrow> k (tell [saved file] s') log')"

fun run_dumps :: "(bool \<times> string \<times> any_dump) list \<Rightarrow> disk_state \<Rightarrow> http_request list \<Rightarrow> save_run" where
  "run_dumps [] s log = save_end s log None"
| "run_dumps ((selected, label, d) # ds) s log =
     (if selected then one_dump label d (\<lambda>file. Sprintf ''%s Configuration saved in %s'' [AStr label, AStr file]) s log (run_dumps ds)
      else run_dumps ds s log)"

definition save_dumps :: "save_env \<Rightarrow> restOptions \<Rightarrow> saveOptions \<Rightarrow> string \<Rightarrow> (bool \<times> string \<times> any_dump) list" where
  "save_dumps ev o' opts dpath =
     (let de = sv_disk ev; env = sv_gateway ev; now = sv_now ev; every = so_SaveAllConfig opts; rest = (\<lambda>d s log. Inr (d de env now o' dpath s log)) in
      [(so_SaveIpConfig opts \<or> every, ''IP'', ip_dump ev dpath),
       (so_SaveLBConfig opts \<or> every, ''LB'', rest Lbdump),
       (so_SaveSessionConfig opts \<or> every, ''Session'', rest Sessiondump),
       (so_SaveUlClConfig opts \<or> every, ''UlCl'', rest SessionUlCldump),
       (so_SaveFWConfig opts \<or> every, ''Firewall'', rest FWdump),
       (so_SaveEPConfig opts \<or> every, ''EndPoint'', rest EPdump),
       (so_SaveBFDConfig opts \<or> every, ''BFD'', rest BFDdump)])"

definition saveIPConfig :: "save_env \<Rightarrow> string \<Rightarrow> disk_state \<Rightarrow> http_request list \<Rightarrow> (disk_state \<Rightarrow> http_request list \<Rightarrow> save_run) \<Rightarrow> save_run" where
  "saveIPConfig ev dpath s log k =
     (case ensureConfigDir (sv_disk ev) dpath s of
        (Some e, s') \<Rightarrow> save_end s' log (Some e)
      | (None, s') \<Rightarrow> one_dump ''IP'' (ip_dump ev dpath) (\<lambda>file. Text (''IP Configuration saved in '' @ file)) s' log k)"

definition save_via_api :: "save_env \<Rightarrow> restOptions \<Rightarrow> disk_state \<Rightarrow> http_request list \<Rightarrow> save_run" where
  "save_via_api ev o' s log =
     (let env = sv_gateway ev; run = lifecycle_Persist (ge_url_ok env) (ge_service env log) (sv_stdout ev) o' (ro_PrintOption o' = ''json'') False ''save.api'' in
      \<lparr>sr_disk = s, sr_sent = snd (exchange env (api_Create (ge_url_ok env) (Some ''null'') (LoxiClient_Persist o')) log),
       sr_written = lc_out run, sr_end = Done (lc_err run)\<rparr>)"

definition runSave :: "save_env \<Rightarrow> restOptions \<Rightarrow> saveOptions \<Rightarrow> disk_state \<Rightarrow> http_request list \<Rightarrow> save_run" where
  "runSave ev o' opts s log =
     (case validateSaveOptions opts of
        Some le \<Rightarrow> (save_end s log (Some (ELifecycle le)))\<lparr>sr_written := if ro_PrintOption o' = ''json'' then [WriteFailure ''save'' (ELifecycle le)] else []\<rparr>
      | None \<Rightarrow>
          (let dpath = (if so_ConfigPath opts \<noteq> [] then so_ConfigPath opts else ''/etc/loxilb/'') in
           if so_SaveViaApi opts then
             (if so_SaveIpConfig opts then saveIPConfig ev dpath s log (save_via_api ev o') else save_via_api ev o' s log)
           else case ensureConfigDir (sv_disk ev) dpath s of
             (Some e, s') \<Rightarrow> save_end s' log (Some e)
           | (None, s') \<Rightarrow> run_dumps (save_dumps ev o' opts dpath) s' log))"

end
