(* ===== verification/SaveSafety.thy ===== *)
theory SaveSafety
  imports SaveConfig
begin

section \<open>What a saved configuration holds\<close>

text \<open>
  A disk that refuses nothing, and the files that an interface's dump leaves, as \<open>apply\<close> reads them.
\<close>

definition intact :: "disk_env \<Rightarrow> bool" where
  "intact de \<longleftrightarrow> (\<forall>p. \<not> de_stat_fails de p) \<and> (\<forall>files p. \<not> de_refused de files p) \<and> (\<forall>p d. length d \<le> de_taken de p d)"

definition host_of :: "disk_files \<Rightarrow> (string list \<Rightarrow> string \<Rightarrow> bytes option) \<Rightarrow> host_env" where
  "host_of files shell = \<lparr>he_missing = (\<lambda>p. files p = None), he_open = (\<lambda>p. case files p of Some (File b) \<Rightarrow> Some (Whole b) | _ \<Rightarrow> None), he_bash = shell\<rparr>"

subsection \<open>Steps on an intact disk\<close>

lemma tell_files [simp]: "dk_files (tell ms s) = dk_files s" "dk_ran (tell ms s) = dk_ran s" "tell [] s = s"
  by (simp_all add: tell_def)

lemma put_node_files [simp]: "dk_files (put_node p n s) = (dk_files s)(p \<mapsto> n)" "put_node p n (put_node p m s) = put_node p n s"
  by (simp_all add: put_node_def)

lemma write_file_intact:
  assumes "intact de" "dk_files s p = Some (File old)"
  shows "write_file de said p data s = put_node p (File (old @ data)) s"
proof -
  have "length data \<le> de_taken de p data" using assms(1) by (simp add: intact_def)
  then show ?thesis using assms(2) by (simp add: write_file_def)
qed

lemma write_file_other: "q \<noteq> p \<Longrightarrow> dk_files (write_file de said p data s) q = dk_files s q"
  by (auto simp: write_file_def split: option.splits node.splits)

lemma can_open_intact: "intact de \<Longrightarrow> can_open de p s \<longleftrightarrow> dk_files s p \<noteq> Some Dir"
  and stat_missing_intact: "intact de \<Longrightarrow> stat_missing de p s \<longleftrightarrow> dk_files s p = None"
  by (simp_all add: intact_def can_open_def stat_missing_def)

lemma dump_over_intact:
  assumes "intact de" "dk_files s path \<noteq> None" "dk_files s p \<noteq> Some Dir"
  shows "dump_over de path p text s = Inr (put_node p (File text) s)"
  using assms by (simp add: dump_over_def fileOpen_def can_open_intact stat_missing_intact dump_def write_file_intact)

definition held :: "disk_state \<Rightarrow> string \<Rightarrow> bytes" where
  "held s p = (case dk_files s p of Some (File b) \<Rightarrow> b | _ \<Rightarrow> [])"

lemma dump_more_intact:
  assumes "intact de" "dk_files s path \<noteq> None" "dk_files s p \<noteq> Some Dir"
  shows "dump_more de path p text s = Inr (put_node p (File (held s p @ text @ [CHR 0x0A])) s)"
  using assms
  by (cases "dk_files s p") (auto simp: dump_more_def fileOpen_def can_open_intact stat_missing_intact dump_line_def dump_def write_file_intact
      held_def split: node.splits)

lemma createDir_intact:
  assumes "intact de"
  shows "\<exists>s'. createDir de p s = Inr s' \<and> dk_files s' p \<noteq> None \<and> (\<forall>q. dk_files s q \<noteq> None \<longrightarrow> dk_files s' q = dk_files s q)
    \<and> (\<forall>q. length p < length q \<longrightarrow> dk_files s' q = dk_files s q)"
proof -
  have "take n p \<noteq> q" if "length p < length q" for n q using that by auto
  then show ?thesis
    using assms
    by (cases "dk_files s p")
      (auto simp: createDir_def stat_missing_intact mkdir_all_def, auto simp: intact_def image_iff intro!: bexI [of _ "length p"])
qed


subsection \<open>Lines that are read back\<close>

definition plain_line :: "string \<Rightarrow> bool" where
  "plain_line l \<longleftrightarrow> length l \<le> maxLine \<and> (\<forall>c\<in>set l. 32 \<le> byte c)"

lemma plain_line_ends: "plain_line l \<Longrightarrow> CHR 0x0A \<notin> set l \<and> drop_cr l = l"
  by (auto simp: plain_line_def drop_cr_def dest!: last_in_set)

lemma split_lines:
  "\<forall>l\<in>set ls. CHR 0x0A \<notin> set l \<Longrightarrow> split_on (CHR 0x0A) (concat (map (\<lambda>l. l @ [CHR 0x0A]) ls)) = ls @ [[]]"
  by (induction ls) (simp_all add: split_on_append)

lemma scan_plain_lines:
  assumes "\<forall>l\<in>set ls. plain_line l"
  shows "scan_lines (Some (Whole (concat (map (\<lambda>l. l @ [CHR 0x0A]) ls)))) = (ls, True)"
proof -
  have raw: "raw_lines (concat (map (\<lambda>l. l @ [CHR 0x0A]) ls)) = ls"
    using assms split_lines [of ls] plain_line_ends by (simp add: raw_lines_def)
  have "takeWhile (\<lambda>l. length l \<le> maxLine) ls = ls" using assms by (simp add: takeWhile_eq_all_conv plain_line_def)
  moreover have "map drop_cr ls = ls" using assms plain_line_ends by (simp add: map_idI)
  ultimately show ?thesis by (simp only: scan_lines_def read_some_def raw Let_def option.case http_body.case) simp
qed

lemma scan_plain_text:
  assumes "plain_line l" "l \<noteq> []"
  shows "scan_lines (Some (Whole l)) = ([l], True)"
proof -
  have "raw_lines l = [l]" using assms plain_line_ends [of l] split_on_none [of "CHR 0x0A" l] by (simp add: raw_lines_def)
  then show ?thesis using assms plain_line_ends [of l] by (simp add: scan_lines_def read_some_def plain_line_def)
qed

lemma show_nat_length: "n < 10 ^ k \<Longrightarrow> 0 < k \<Longrightarrow> length (show_nat n) \<le> k"
proof (induction k arbitrary: n)
  case (Suc k)
  show ?case
  proof (cases "n < 10")
    case True
    then show ?thesis by (simp add: show_nat.simps)
  next
    case False
    have "0 < k" using False Suc.prems(1) by (cases k) auto
    moreover have "n div 10 < 10 ^ k" using Suc.prems(1) by (simp add: div_less_iff_less_mult mult.commute)
    ultimately have "length (show_nat (n div 10)) \<le> k" using Suc.IH by blast
    then show ?thesis using False by (simp add: show_nat.simps [of n])
  qed
qed simp

lemma plain_show_nat: "n < 10 ^ 100 \<Longrightarrow> plain_line (show_nat n)"
proof -
  assume "n < 10 ^ 100"
  then have "length (show_nat n) \<le> 100" using show_nat_length [of n 100] by simp
  then show ?thesis using show_nat_digits [of n] by (auto simp: plain_line_def maxLine_def is_digit_def)
qed

text \<open>An IPv4 address with its mask, as the kernel has it.\<close>

definition ipv4_net :: "ip_net \<Rightarrow> bool" where
  "ipv4_net n \<longleftrightarrow> length (in_IP n) = 4 \<and> length (in_Mask n) = 4 \<and> (\<forall>b\<in>set (in_IP n) \<union> set (in_Mask n). b < 256)"

lemma hex2_plain: "b < 256 \<Longrightarrow> length (hex2 b) = 2 \<and> (\<forall>c\<in>set (hex2 b). 32 \<le> byte c)"
proof -
  have "32 \<le> byte (hex_digit n)" if "n < 16" for n using that by (simp add: hex_digit_def)
  moreover assume "b < 256"
  then have "b div 16 < 16" "b mod 16 < 16" by simp_all
  ultimately show ?thesis by (simp add: hex2_def)
qed

text \<open>Short pieces of visible characters.\<close>

definition piece :: "nat \<Rightarrow> string \<Rightarrow> bool" where
  "piece n s \<longleftrightarrow> length s \<le> n \<and> (\<forall>c\<in>set s. 32 \<le> byte c)"

lemma piece_append: "piece m s \<Longrightarrow> piece n t \<Longrightarrow> piece (m + n) (s @ t)"
  and piece_plain: "piece n s \<Longrightarrow> n \<le> 1000 \<Longrightarrow> plain_line s"
  by (auto simp: piece_def plain_line_def maxLine_def)

lemma piece_show_nat: "n < 1000 \<Longrightarrow> piece 3 (show_nat n)"
  using show_nat_length [of n 3] show_nat_digits [of n] by (auto simp: piece_def is_digit_def)

lemma piece_dots:
  assumes "length ip = 4" "\<forall>b\<in>set ip. b < 256"
  shows "piece 15 (join_dots ip)"
proof -
  obtain a b c d where ip: "ip = [a, b, c, d]" using assms(1) by (auto simp: length_Suc_conv numeral_eq_Suc)
  have byte: "piece 3 (show_nat x)" if "x \<in> {a, b, c, d}" for x using assms(2) that by (intro piece_show_nat) (auto simp: ip)
  have dot: "piece 1 ''.''" by (simp add: piece_def)
  have "piece (3 + (1 + (3 + (1 + (3 + (1 + 3)))))) (show_nat a @ ''.'' @ show_nat b @ ''.'' @ show_nat c @ ''.'' @ show_nat d)"
    by (intro piece_append byte dot) simp_all
  then show ?thesis by (simp add: ip)
qed

lemma piece_hex: "\<forall>b\<in>set m. b < 256 \<Longrightarrow> piece (2 * length m) (concat (map hex2 m))"
proof (induction m)
  case (Cons b m)
  have "piece 2 (hex2 b)" using hex2_plain [of b] Cons.prems by (simp add: piece_def)
  from piece_append [OF this Cons.IH] Cons.prems show ?case by simp
qed (simp add: piece_def)

lemma mask_ones: "length (takeWhile P (ipmask_bits m)) \<le> 8 * length m"
proof -
  have "length (ipmask_bits m) = 8 * length m" by (induction m) (simp_all add: ipmask_bits_def)
  then show ?thesis using length_takeWhile_le [of P "ipmask_bits m"] by simp
qed

lemma ipv4_net_plain:
  assumes "ipv4_net n"
  shows "plain_line (IPNet_String n)"
proof -
  have len: "length (in_IP n) = 4" "length (in_Mask n) = 4" and bytes: "\<forall>b\<in>set (in_IP n). b < 256" "\<forall>b\<in>set (in_Mask n). b < 256"
    using assms by (auto simp: ipv4_net_def)
  have v4: "net_IP_To4 (in_IP n) = in_IP n" "in_IP n \<noteq> []" using len(1) by (auto simp: net_IP_To4_def)
  let ?bits = "ipmask_bits (in_Mask n)"
  let ?tail = "if True \<in> set (dropWhile (\<lambda>b. b) ?bits) then concat (map hex2 (in_Mask n)) else show_nat (length (takeWhile (\<lambda>b. b) ?bits))"
  have "IPNet_String n = join_dots (in_IP n) @ ''/'' @ ?tail"
    using v4 len by (simp add: IPNet_String_def Let_def net_IP_String_def)
  moreover have "piece 8 (concat (map hex2 (in_Mask n)))" using piece_hex [OF bytes(2)] len(2) by simp
  moreover have "piece 3 (show_nat (length (takeWhile (\<lambda>b. b) ?bits)))"
    using mask_ones [of "\<lambda>b. b" "in_Mask n"] len(2) by (intro piece_show_nat) simp
  then have "piece 8 (show_nat (length (takeWhile (\<lambda>b. b) ?bits)))" by (simp add: piece_def)
  ultimately have "piece 8 ?tail" "IPNet_String n = join_dots (in_IP n) @ ''/'' @ ?tail" by simp_all
  moreover have "piece 1 ''/''" by (simp add: piece_def)
  ultimately have "piece (15 + (1 + 8)) (IPNet_String n)" using piece_dots [OF len(1) bytes(1)] by (metis piece_append)
  then show ?thesis by (rule piece_plain) simp
qed


subsection \<open>The files of a physical interface\<close>

definition addr_text :: "ip_net option \<Rightarrow> string" where
  "addr_text a = (case a of None \<Rightarrow> ''<nil>'' | Some n \<Rightarrow> IPNet_String n)"

lemma AddAddr_intact:
  assumes "intact de" "dk_files s path \<noteq> None" "\<And>x. f \<noteq> path @ link_name link @ ''/'' @ x" "f \<noteq> path"
    and "dk_files s (path @ link_name link @ ''/ipv4addr'') \<noteq> Some Dir"
  shows "\<exists>s'. AddAddr de path f a link s = Inr s'
    \<and> dk_files s' (path @ link_name link @ ''/ipv4addr'') = Some (File (held s (path @ link_name link @ ''/ipv4addr'') @ addr_text a @ [CHR 0x0A]))
    \<and> (\<forall>q. q \<noteq> f \<and> q \<noteq> path @ link_name link @ ''/ipv4addr'' \<longrightarrow> dk_files s' q = dk_files s q)"
proof -
  let ?p = "path @ link_name link @ ''/ipv4addr''"
  define s1 where "s1 = write_file de os_error f ((''ip addr add '' @ addr_text a @ '' dev '' @ link_name link) @ [CHR 0x0A]) s"
  have "?p \<noteq> f" using assms(3) [of "''ipv4addr''"] by auto
  then have at: "dk_files s1 ?p = dk_files s ?p" and root: "dk_files s1 path \<noteq> None"
    and rest: "\<And>q. q \<noteq> f \<Longrightarrow> dk_files s1 q = dk_files s q"
    using assms(2,4) by (simp_all add: s1_def write_file_other)
  have "AddAddr de path f a link s = dumpIpv4Addr de path (path @ link_name link) (addr_text a) s1"
    by (auto simp: AddAddr_def Let_def addr_text_def then_do_def dump_line_def dump_def s1_def split: sum.splits)
  also have "\<dots> = Inr (put_node ?p (File (held s1 ?p @ addr_text a @ [CHR 0x0A])) s1)"
    using dump_more_intact [OF assms(1) root] at assms(5) by (simp add: dumpIpv4Addr_def)
  finally show ?thesis using at rest by (auto simp: held_def)
qed

lemma addrs_intact:
  assumes "intact de" "dk_files s path \<noteq> None" "\<And>x. f \<noteq> path @ link_name link @ ''/'' @ x" "f \<noteq> path" "path \<noteq> path @ link_name link @ ''/ipv4addr''"
    and "dk_files s (path @ link_name link @ ''/ipv4addr'') \<noteq> Some Dir"
  shows "\<exists>s'. in_order (map (\<lambda>a. AddAddr de path f a link) addrs) s = Inr s'
    \<and> held s' (path @ link_name link @ ''/ipv4addr'') = held s (path @ link_name link @ ''/ipv4addr'') @ concat (map (\<lambda>a. addr_text a @ [CHR 0x0A]) addrs)
    \<and> (dk_files s' (path @ link_name link @ ''/ipv4addr'') = None \<longleftrightarrow> addrs = [] \<and> dk_files s (path @ link_name link @ ''/ipv4addr'') = None)
    \<and> dk_files s' (path @ link_name link @ ''/ipv4addr'') \<noteq> Some Dir
    \<and> (\<forall>q. q \<noteq> f \<and> q \<noteq> path @ link_name link @ ''/ipv4addr'' \<longrightarrow> dk_files s' q = dk_files s q)"
  using assms(2,6)
proof (induction addrs arbitrary: s)
  case (Cons a addrs)
  let ?p = "path @ link_name link @ ''/ipv4addr''"
  obtain s1 where s1: "AddAddr de path f a link s = Inr s1" "dk_files s1 ?p = Some (File (held s ?p @ addr_text a @ [CHR 0x0A]))"
    "\<And>q. q \<noteq> f \<Longrightarrow> q \<noteq> ?p \<Longrightarrow> dk_files s1 q = dk_files s q"
    using AddAddr_intact [OF assms(1) Cons.prems(1) assms(3,4) Cons.prems(2)] by blast
  have "dk_files s1 path \<noteq> None" "dk_files s1 ?p \<noteq> Some Dir" using s1(2) s1(3) [of path] assms(4,5) Cons.prems(1) by auto
  from Cons.IH [OF this] obtain s2 where s2: "in_order (map (\<lambda>a. AddAddr de path f a link) addrs) s1 = Inr s2"
    "held s2 ?p = held s1 ?p @ concat (map (\<lambda>a. addr_text a @ [CHR 0x0A]) addrs)" "dk_files s2 ?p \<noteq> None" "dk_files s2 ?p \<noteq> Some Dir"
    "\<And>q. q \<noteq> f \<Longrightarrow> q \<noteq> ?p \<Longrightarrow> dk_files s2 q = dk_files s1 q"
    using s1(2) by auto
  have "held s1 ?p = held s ?p @ addr_text a @ [CHR 0x0A]" using s1(2) by (simp add: held_def)
  with s1 s2 show ?case by (intro exI [of _ s2]) (simp add: then_do_def)
qed simp


text \<open>A link of no special kind, without a master, with a hardware address of at least six bytes or none.\<close>

definition plain_link :: "nl_link \<Rightarrow> bool" where
  "plain_link link \<longleftrightarrow> lk_Kind link = OtherLink \<and> CHR ''.'' \<notin> set (link_name link) \<and> at_MasterIndex (lk_Attrs link) \<le> 0
     \<and> (bs_len (at_HardwareAddr (lk_Attrs link)) = 0 \<or> 6 \<le> length (bs_array (at_HardwareAddr (lk_Attrs link))))"

text \<open>The directory of the dump is there, and the interface has no file yet; \<open>f\<close> is none of its files.\<close>

definition unsaved :: "string \<Rightarrow> string \<Rightarrow> string \<Rightarrow> disk_state \<Rightarrow> bool" where
  "unsaved path f name s \<longleftrightarrow> dk_files s path \<noteq> None \<and> f \<noteq> path \<and> f \<noteq> path @ name \<and> (\<forall>x. f \<noteq> path @ name @ ''/'' @ x) \<and> (\<forall>x. dk_files s (path @ name @ ''/'' @ x) = None)"

definition mtu_file :: "int \<Rightarrow> node option" where
  "mtu_file mtu = (if mtu = 1500 then None else Some (File (show_int mtu)))"

lemma dump_mtu_intact:
  assumes "intact de" "dk_files s path \<noteq> None" "f \<noteq> path" "f \<noteq> path @ name @ ''/mtu''" "dk_files s (path @ name @ ''/mtu'') = None"
  shows "\<exists>s'. dump_mtu de path f name mtu s = Inr s' \<and> dk_files s' (path @ name @ ''/mtu'') = mtu_file mtu
    \<and> (\<forall>q. q \<noteq> f \<and> q \<noteq> path @ name @ ''/mtu'' \<longrightarrow> dk_files s' q = dk_files s q)"
proof (cases "mtu = 1500")
  case True
  then show ?thesis using assms(5) by (auto simp: dump_mtu_def step_when_def mtu_file_def)
next
  case False
  let ?p = "path @ name @ ''/mtu''"
  define s1 where "s1 = write_file de os_error f ((''ip link set '' @ name @ '' mtu '' @ show_int mtu) @ [CHR 0x0A]) s"
  have other: "dk_files s1 q = dk_files s q" if "q \<noteq> f" for q using that by (simp add: s1_def write_file_other)
  have "dump_mtu de path f name mtu s = dumpMtu de path (path @ name) mtu s1"
    using False by (auto simp: dump_mtu_def step_when_def then_do_def dump_line_def dump_def s1_def split: sum.splits)
  also have "\<dots> = Inr (put_node ?p (File (show_int mtu)) s1)"
    using dump_over_intact [OF assms(1), of s1 path ?p] other [of path] other [of ?p] assms(2-5) by (simp add: dumpMtu_def)
  finally show ?thesis using False other by (auto simp: mtu_file_def)
qed

lemma AddLink_intact:
  assumes "intact de" "plain_link link" "unsaved path f (link_name link) s"
  shows "\<exists>s'. AddLink de nl path f link k s = k 0 s'
    \<and> dk_files s' (path @ link_name link @ ''/type'') = Some (File ''phy'')
    \<and> dk_files s' (path @ link_name link @ ''/mtu'') = mtu_file (at_MTU (lk_Attrs link))
    \<and> dk_files s' path \<noteq> None
    \<and> (\<forall>x. x \<noteq> ''type'' \<and> x \<noteq> ''mtu'' \<longrightarrow> dk_files s' (path @ link_name link @ ''/'' @ x) = None)"
proof -
  let ?name = "link_name link"
  let ?key = "\<lambda>x. path @ ?name @ ''/'' @ x"
  have s: "dk_files s path \<noteq> None" "f \<noteq> path" "\<And>x. f \<noteq> ?key x" "\<And>x. dk_files s (?key x) = None"
    using assms(3) by (auto simp: unsaved_def)
  obtain s1 where s1: "createDir de (path @ ?name) s = Inr s1" "dk_files s1 path \<noteq> None" "\<And>x. dk_files s1 (?key x) = None"
    using createDir_intact [OF assms(1), of "path @ ?name" s] s(1,4) by fastforce
  define s2 where "s2 = put_node (?key ''type'') (File ''phy'') s1"
  have typed: "dumpType de path (path @ ?name) ''phy'' s1 = Inr s2"
    using dump_over_intact [OF assms(1) s1(2), of "?key ''type''"] s1(3) [of "''type''"] by (simp add: dumpType_def s2_def)
  have s2: "dk_files s2 path \<noteq> None" "dk_files s2 (?key ''mtu'') = None" using s1(2) s1(3) [of "''mtu''"] by (simp_all add: s2_def)
  obtain s3 where s3: "dump_mtu de path f ?name (at_MTU (lk_Attrs link)) s2 = Inr s3" "dk_files s3 (?key ''mtu'') = mtu_file (at_MTU (lk_Attrs link))"
    "\<And>q. q \<noteq> f \<Longrightarrow> q \<noteq> ?key ''mtu'' \<Longrightarrow> dk_files s3 q = dk_files s2 q"
    using dump_mtu_intact [OF assms(1) s2(1) s(2) _ , of ?name "at_MTU (lk_Attrs link)"] s2(2) s(3) [of "''mtu''"] by auto
  define s4 where "s4 = (if at_OperState (lk_Attrs link) = IF_OPER_UP then write_file de os_error f ((''ip link set '' @ ?name @ '' up'') @ [CHR 0x0A]) s3 else s3)"
  have s4: "dk_files s4 q = dk_files s3 q" if "q \<noteq> f" for q using that by (simp add: s4_def write_file_other)
  have "AddLink de nl path f link k s = k 0 s4"
    using assms(2) s1(1) typed s3(1)
    by (auto simp: AddLink_def Let_def plain_link_def step_when_def first_six_def then_do_def link_kind_def link_master_def s4_def dump_line_def dump_def
        split: sum.splits)
  moreover have "dk_files s3 (?key ''type'') = Some (File ''phy'')" using s3(3) [of "?key ''type''"] s(3) [of "''type''"] by (simp add: s2_def)
  moreover have "dk_files s3 path \<noteq> None" using s3(3) [of path] s(2) s2(1) by simp
  moreover have "dk_files s3 (?key x) = None" if "x \<noteq> ''type''" "x \<noteq> ''mtu''" for x
    using s3(3) [of "?key x"] s(3) [of x] that s1(3) [of x] by (simp add: s2_def)
  ultimately show ?thesis using s4 s(2) s(3) s3(2) by (intro exI [of _ s4]) (metis append_Cons append_Nil)
qed


lemma lines_of_file: "lines_of (host_of files shell) p = (case files p of Some (File b) \<Rightarrow> fst (scan_lines (Some (Whole b))) | _ \<Rightarrow> [])"
  by (auto simp: lines_of_def host_of_def scan_lines_def split: option.splits node.splits)

lemma show_int_plain_line:
  assumes "0 \<le> i" "i < 2 ^ 32"
  shows "plain_line (show_int i)" "show_int i \<noteq> []"
proof -
  have "nat i < 2 ^ 32" using assms by (simp add: nat_less_iff)
  then have "nat i < 10 ^ 100" by (rule less_le_trans) simp
  then show "plain_line (show_int i)" "show_int i \<noteq> []" using assms(1) plain_show_nat by (simp_all add: show_int_def)
qed

text \<open>The commands of an interface whose files are a type, perhaps an MTU, and addresses.\<close>

definition plain_commands :: "string \<Rightarrow> int \<Rightarrow> string list \<Rightarrow> string list" where
  "plain_commands name mtu ips =
     set_up name # (if mtu = 1500 then [] else [''ip link set dev '' @ name @ '' mtu '' @ show_int mtu])
     @ map (\<lambda>ip. ''ip addr add '' @ ip @ '' dev '' @ name) ips"

lemma plain_interface_script:
  assumes "files (intf_file dir name ''type'') = Some (File ''phy'')"
    and "files (intf_file dir name ''mtu'') = mtu_file mtu" "0 \<le> mtu" "mtu < 2 ^ 32"
    and "case files (intf_file dir name ''ipv4addr'') of
           Some (File b) \<Rightarrow> b = concat (map (\<lambda>ip. ip @ [CHR 0x0A]) ips) | Some Dir \<Rightarrow> False | None \<Rightarrow> ips = []"
    and "\<And>x. x \<notin> {''type'', ''mtu'', ''ipv4addr''} \<Longrightarrow> files (intf_file dir name x) = None"
    and "\<forall>ip\<in>set ips. plain_line ip"
  shows "interface_script (host_of files shell) dir name = (plain_commands name mtu ips, False)"
proof -
  let ?he = "host_of files shell"
  have "plain_line ''phy''" by (simp add: plain_line_def maxLine_def)
  then have "scan_lines (Some (Whole ''phy'')) = ([''phy''], True)" by (rule scan_plain_text) simp
  then have type: "scan_first (he_open ?he (intf_file dir name ''type'')) = (Some ''phy'', True)"
    using assms(1) by (simp add: host_of_def scan_first_def)
  have mtu: "section_script ?he dir name ''mtu'' = (if mtu = 1500 then [] else [''ip link set dev '' @ name @ '' mtu '' @ show_int mtu], False)"
    using assms(2) scan_plain_text [OF show_int_plain_line [OF assms(3,4)]]
    by (simp add: section_script_def Let_def lines_of_file mtu_file_def)
  have "lines_of ?he (intf_file dir name ''ipv4addr'') = ips"
    using assms(5) scan_plain_lines [OF assms(7)] by (auto simp: lines_of_file split: option.splits node.splits)
  then have addrs: "section_script ?he dir name ''ipv4addr'' = (map (\<lambda>ip. ''ip addr add '' @ ip @ '' dev '' @ name) ips, False)"
    by (simp add: section_script_def Let_def)
  have lines: "lines_of ?he (intf_file dir name x) = []" if "x \<notin> {''type'', ''mtu'', ''ipv4addr''}" for x
    using assms(6) [OF that] by (simp add: lines_of_file)
  have none: "section_script ?he dir name ''l2fdbs'' = ([], False)" "section_script ?he dir name ''ipv4neigh'' = ([], False)"
    "section_script ?he dir name ''ipv4route'' = ([], False)" "section_script ?he dir name ''subintf'' = ([], False)"
    "section_script ?he dir name ''master'' = ([], False)"
    using lines [of "''l2fdbs''"] lines [of "''ipv4neigh''"] lines [of "''ipv4route''"] lines [of "''subintf''"] lines [of "''master''"]
    by (simp_all add: section_script_def)
  have dev: "section_script ?he dir name ''dev'' = ([set_up name], False)" by (simp add: section_script_def)
  have "interface_script ?he dir name = script_seq (map (section_script ?he dir name)
      [''dev'', ''mtu'', ''ipv4addr'', ''l2fdbs'', ''ipv4neigh'', ''ipv4route'', ''subintf'', ''master''])"
    using type by (simp add: interface_script_def interface_sections_def)
  also have "\<dots> = script_seq [([set_up name], False), section_script ?he dir name ''mtu'', section_script ?he dir name ''ipv4addr'', ([], False), ([], False), ([], False), ([], False), ([], False)]"
    by (simp only: list.map none dev)
  finally show ?thesis unfolding mtu addrs by (simp add: plain_commands_def)
qed

text \<open>Neighbours that are not permanent are not saved.\<close>

definition no_permanent :: "netlink_env \<Rightarrow> nl_link \<Rightarrow> bool" where
  "no_permanent nl link \<longleftrightarrow> (\<forall>fam\<in>{0, 7}. \<forall>n\<in>set (case nl_NeighList nl (at_Index (lk_Attrs link)) fam of None \<Rightarrow> [] | Some ns \<Rightarrow> ns). \<not> bit (ne_State n) 7)"

lemma in_order_silent: "\<forall>f\<in>set fs. f = Inr \<Longrightarrow> in_order fs s = Inr s"
  by (induction fs) (auto simp: then_do_def)

lemma no_permanent_silent:
  assumes "no_permanent nl link"
  shows "GetFdbs de nl path f link s = Inr s" "GetIpNeigh de nl path f link s = Inr s"
  using assms unfolding no_permanent_def GetFdbs_def GetIpNeigh_def for_each_def
  by (auto intro!: in_order_silent simp: AddNeigh_def)

lemma other_link_intact:
  assumes "intact de" "plain_link link" "unsaved path f (link_name link) s" "no_permanent nl link" "nl_AddrList nl link = Some addrs"
  shows "\<exists>s'. other_link de nl path f link s = Inr s'
    \<and> dk_files s' (path @ link_name link @ ''/type'') = Some (File ''phy'')
    \<and> dk_files s' (path @ link_name link @ ''/mtu'') = mtu_file (at_MTU (lk_Attrs link))
    \<and> (case dk_files s' (path @ link_name link @ ''/ipv4addr'') of
         Some (File b) \<Rightarrow> b = concat (map (\<lambda>a. addr_text a @ [CHR 0x0A]) addrs) | Some Dir \<Rightarrow> False | None \<Rightarrow> addrs = [])
    \<and> (\<forall>x. x \<notin> {''type'', ''mtu'', ''ipv4addr''} \<longrightarrow> dk_files s' (path @ link_name link @ ''/'' @ x) = None)"
proof -
  let ?key = "\<lambda>x. path @ link_name link @ ''/'' @ x"
  let ?rest = "in_order [step_when (lk_Kind link \<noteq> Bridge) (GetFdbs de nl path f link), GetIpNeigh de nl path f link]"
  obtain s1 where s1: "AddLink de nl path f link (\<lambda>ret. if ret = - 1 then Inr else in_order [GetIpAddrs de nl path f link, ?rest]) s = in_order [GetIpAddrs de nl path f link, ?rest] s1"
    "dk_files s1 (?key ''type'') = Some (File ''phy'')" "dk_files s1 (?key ''mtu'') = mtu_file (at_MTU (lk_Attrs link))" "dk_files s1 path \<noteq> None"
    "\<And>x. x \<noteq> ''type'' \<Longrightarrow> x \<noteq> ''mtu'' \<Longrightarrow> dk_files s1 (?key x) = None"
    using AddLink_intact [OF assms(1-3), of nl "\<lambda>ret. if ret = - 1 then Inr else in_order [GetIpAddrs de nl path f link, ?rest]"] by auto
  have f: "f \<noteq> path" "\<And>x. f \<noteq> ?key x" using assms(3) by (auto simp: unsaved_def)
  have empty: "dk_files s1 (?key ''ipv4addr'') = None" using s1(5) by simp
  then obtain s2 where s2: "in_order (map (\<lambda>a. AddAddr de path f a link) addrs) s1 = Inr s2"
    "held s2 (?key ''ipv4addr'') = concat (map (\<lambda>a. addr_text a @ [CHR 0x0A]) addrs)" "dk_files s2 (?key ''ipv4addr'') = None \<longleftrightarrow> addrs = []"
    "dk_files s2 (?key ''ipv4addr'') \<noteq> Some Dir" "\<And>q. q \<noteq> f \<Longrightarrow> q \<noteq> ?key ''ipv4addr'' \<Longrightarrow> dk_files s2 q = dk_files s1 q"
    using addrs_intact [OF assms(1) s1(4) f(2,1), of addrs] by (auto simp: held_def)
  have kind: "lk_Kind link \<noteq> Bridge \<and> \<not> is_bond link" using assms(2) by (simp add: plain_link_def is_bond_def)
  have "in_order [GetIpAddrs de nl path f link, ?rest] s1 = Inr s2"
    using assms(5) s2(1) no_permanent_silent [OF assms(4)] by (simp add: GetIpAddrs_def for_each_def then_do_def step_when_def)
  moreover have "other_link de nl path f link s = AddLink de nl path f link (\<lambda>ret. if ret = - 1 then Inr else in_order [GetIpAddrs de nl path f link, ?rest]) s"
    unfolding other_link_def Let_def using kind by (subst if_not_P) blast+
  ultimately have "other_link de nl path f link s = Inr s2" using s1(1) by argo
  moreover have "case dk_files s2 (?key ''ipv4addr'') of Some (File b) \<Rightarrow> b = concat (map (\<lambda>a. addr_text a @ [CHR 0x0A]) addrs) | Some Dir \<Rightarrow> False | None \<Rightarrow> addrs = []"
    using s2(2-4) by (auto simp: held_def split: option.splits node.splits)
  moreover have "dk_files s2 (?key x) = dk_files s1 (?key x)" if "x \<noteq> ''ipv4addr''" for x using s2(5) [of "?key x"] f(2) [of x] that by simp
  ultimately show ?thesis using s1(2,3,5) by (intro exI [of _ s2]) simp
qed


text \<open>What is saved of a plain interface is what \<open>apply\<close> does for it.\<close>

lemma saved_interface_script:
  assumes "intact de" "plain_link link" "unsaved (dir @ ''/'') f (link_name link) s" "no_permanent nl link" "nl_AddrList nl link = Some addrs"
    and "\<forall>a\<in>set addrs. \<exists>n. a = Some n \<and> ipv4_net n" "0 \<le> at_MTU (lk_Attrs link)" "at_MTU (lk_Attrs link) < 2 ^ 32"
  shows "\<exists>s'. other_link de nl (dir @ ''/'') f link s = Inr s'
    \<and> interface_script (host_of (dk_files s') shell) dir (link_name link) = (plain_commands (link_name link) (at_MTU (lk_Attrs link)) (map addr_text addrs), False)"
proof -
  let ?key = "\<lambda>x. (dir @ ''/'') @ link_name link @ ''/'' @ x"
  let ?lines = "concat (map (\<lambda>a. addr_text a @ [CHR 0x0A]) addrs)"
  obtain s' where s': "other_link de nl (dir @ ''/'') f link s = Inr s'" "dk_files s' (?key ''type'') = Some (File ''phy'')"
    "dk_files s' (?key ''mtu'') = mtu_file (at_MTU (lk_Attrs link))"
    "case dk_files s' (?key ''ipv4addr'') of Some (File b) \<Rightarrow> b = ?lines | Some Dir \<Rightarrow> False | None \<Rightarrow> addrs = []"
    "\<And>x. x \<notin> {''type'', ''mtu'', ''ipv4addr''} \<Longrightarrow> dk_files s' (?key x) = None"
    using other_link_intact [OF assms(1-5)] by (simp only: append_Cons append_Nil) blast
  have key: "?key x = intf_file dir (link_name link) x" for x by (simp add: intf_file_def)
  have "?lines = concat (map (\<lambda>ip. ip @ [CHR 0x0A]) (map addr_text addrs))" by (simp add: comp_def)
  then have ips: "case dk_files s' (?key ''ipv4addr'') of
      Some (File b) \<Rightarrow> b = concat (map (\<lambda>ip. ip @ [CHR 0x0A]) (map addr_text addrs)) | Some Dir \<Rightarrow> False | None \<Rightarrow> map addr_text addrs = []"
    using s'(4) by (simp only: map_is_Nil_conv)
  have "\<forall>ip\<in>set (map addr_text addrs). plain_line ip" using assms(6) ipv4_net_plain by (fastforce simp: addr_text_def)
  note script = plain_interface_script [OF s'(2,3) [unfolded key] assms(7,8) ips [unfolded key] s'(5) [unfolded key] this]
  show ?thesis using s'(1) script by blast
qed

subsection \<open>Rule dumps\<close>

text \<open>What the shell does for the two commands of a dump.\<close>

definition shell_moves :: "disk_env \<Rightarrow> string \<Rightarrow> string \<Rightarrow> bool" where
  "shell_moves de file cfile \<longleftrightarrow>
     (\<forall>files d. files file = Some (File d) \<longrightarrow> de_bash de files (''cp -R '' @ file @ '' '' @ cfile) = (files(cfile \<mapsto> File d), True))
     \<and> (\<forall>files. de_bash de files (''mv '' @ cfile @ '' '' @ cfile @ ''.bk'') = (files(cfile @ ''.bk'' := files cfile, cfile := None), True))"

lemma place_file_moves:
  assumes "shell_moves de file cfile" "dk_files s file = Some (File d)" "file \<noteq> cfile" "file \<noteq> cfile @ ''.bk''"
  shows "\<exists>s'. place_file de file cfile s = ((file, None), s') \<and> dk_files s' cfile = Some (File d)
    \<and> (dk_files s cfile \<noteq> None \<longrightarrow> dk_files s' (cfile @ ''.bk'') = dk_files s cfile)"
proof -
  have cp: "de_bash de files (''cp -R '' @ file @ '' '' @ cfile) = (files(cfile \<mapsto> File d), True)" if "files file = Some (File d)" for files
    using assms(1) that by (simp add: shell_moves_def)
  have mv: "de_bash de (dk_files s) (''mv '' @ cfile @ '' '' @ cfile @ ''.bk'') = ((dk_files s)(cfile @ ''.bk'' := dk_files s cfile, cfile := None), True)"
    using assms(1) by (simp add: shell_moves_def)
  show ?thesis
  proof (cases "stat_missing de cfile s")
    case True
    then show ?thesis using cp [of "dk_files s"] assms(2) by (simp add: place_file_def run_bash_def stat_missing_def Let_def)
  next
    case False
    show ?thesis
      using False mv cp [of "(dk_files s)(cfile @ ''.bk'' := dk_files s cfile, cfile := None)"] assms(2-4)
      by (simp add: place_file_def run_bash_def Let_def)
  qed
qed

lemma raw_dump_saved:
  assumes "intact de" "shell_moves de file cfile" "file \<noteq> cfile" "file \<noteq> cfile @ ''.bk''" "dk_files s file \<noteq> Some Dir" "\<not> de_kept de file"
    and "req = Some r" "ge_service env log r = Response status hs (Whole body)"
  shows "\<exists>s'. rest_dump de env removed said file cfile raw_content req s log = ((file, None), s', log @ [r])
    \<and> dk_files s' cfile = Some (File body) \<and> (dk_files s cfile \<noteq> None \<longrightarrow> dk_files s' (cfile @ ''.bk'') = dk_files s cfile)
    \<and> (removed \<longrightarrow> dk_files s' file = None)"
proof -
  let ?s = "put_node file (File body) s"
  have written: "write_file de said file body (put_node file (File []) s) = ?s" using write_file_intact [OF assms(1), of "put_node file (File []) s" "file" "[]"] by simp
  obtain s' where s': "place_file de file cfile ?s = ((file, None), s')" "dk_files s' cfile = Some (File body)"
    "dk_files ?s cfile \<noteq> None \<longrightarrow> dk_files s' (cfile @ ''.bk'') = dk_files ?s cfile"
    using place_file_moves [OF assms(2) _ assms(3,4), of ?s body] by auto
  show ?thesis
    using assms(3-8) s' written can_open_intact [OF assms(1)]
    by (auto simp: rest_dump_def exchange_def dump_response_def raw_content_def read_failed_def read_some_def remove_under_def)
qed

text \<open>The BFD dump takes a refusal for a success.\<close>

lemma bfd_refused:
  assumes "can_open de (''BFDconfig_'' @ now @ ''.txt'') s" "api_Get (ge_url_ok env) (SetUrl ''config/bfd/all'' (LoxiClient_Status o')) = Some r"
    and "ge_service env log r = Response status hs raw" "status \<noteq> 200"
  shows "BFDdump de env now o' path s log = (([], None), put_node (''BFDconfig_'' @ now @ ''.txt'') (File []) s, log @ [r])"
  using assms by (simp add: BFDdump_def rest_dump_def exchange_def dump_response_def bfd_content_def)


subsection \<open>Flags\<close>

definition any_rule_flag :: "saveOptions \<Rightarrow> bool" where
  "any_rule_flag opts \<longleftrightarrow> so_SaveAllConfig opts \<or> so_SaveLBConfig opts \<or> so_SaveSessionConfig opts \<or> so_SaveUlClConfig opts \<or> so_SaveFWConfig opts
     \<or> so_SaveEPConfig opts \<or> so_SaveBFDConfig opts"

text \<open>\<open>--api\<close> goes with \<open>--ip\<close> alone, \<open>--config-path\<close> with a local dump, and something must be selected.\<close>

definition clear_flags :: "saveOptions \<Rightarrow> bool" where
  "clear_flags opts \<longleftrightarrow>
     (if so_SaveViaApi opts then \<not> any_rule_flag opts \<and> (so_ConfigPath opts = [] \<or> so_SaveIpConfig opts)
      else so_SaveIpConfig opts \<or> any_rule_flag opts)"

lemma validate_verdict:
  "validateSaveOptions opts = None \<longleftrightarrow> clear_flags opts"
  "validateSaveOptions opts = Some le \<Longrightarrow> le_Reason le = ''invalid-arguments''"
  by (auto simp: validateSaveOptions_def clear_flags_def any_rule_flag_def legacyDomainFlags_def split: if_splits)

subsection \<open>Concrete inputs\<close>

definition fw_dump_file :: string where "fw_dump_file = ''/tmp/FWconfig_T.txt''"
definition fw_config_file :: string where "fw_config_file = ''/etc/loxilb/FWconfig.txt''"

text \<open>A disk that takes everything, with a shell that knows the two commands of the firewall dump.\<close>

definition calm_disk :: disk_env where
  "calm_disk = \<lparr>de_stat_fails = (\<lambda>_. False), de_refused = (\<lambda>_ _. False), de_taken = (\<lambda>_ d. length d), de_kept = (\<lambda>_. False),
     de_bash = (\<lambda>files c.
       if c = ''cp -R '' @ fw_dump_file @ '' '' @ fw_config_file then (files(fw_config_file := files fw_dump_file), True)
       else if c = ''mv '' @ fw_config_file @ '' '' @ fw_config_file @ ''.bk'' then (files(fw_config_file @ ''.bk'' := files fw_config_file, fw_config_file := None), True)
       else (files, False)),
     de_bash_path = ''/bin/bash''\<rparr>"

lemma calm_intact: "intact calm_disk" "shell_moves calm_disk fw_dump_file fw_config_file"
  by (simp_all add: intact_def shell_moves_def calm_disk_def)

definition eth0 :: nl_link where
  "eth0 = \<lparr>lk_Attrs = \<lparr>at_Name = ''eth0'', at_Index = 2, at_HardwareAddr = \<lparr>bs_len = 6, bs_array = [2, 0, 0, 0, 0, 1]\<rparr>, at_MTU = 9000, at_OperState = 6,
     at_MasterIndex = 0\<rparr>, lk_Kind = OtherLink\<rparr>"

definition eth0_addr :: ip_net where
  "eth0_addr = \<lparr>in_IP = [10, 0, 0, 1], in_Mask = [255, 255, 255, 0]\<rparr>"

definition eth0_tables :: netlink_env where
  "eth0_tables = \<lparr>nl_LinkList = (\<lambda>_. Some [eth0]), nl_LinkByIndex = (\<lambda>i. if i = 2 then Some eth0 else None), nl_AddrList = (\<lambda>_. Some [Some eth0_addr]),
     nl_NeighList = (\<lambda>_ _. Some []), nl_RouteList = Some [], nl_BondMode = (\<lambda>_. ''balance-rr'')\<rparr>"

definition new_dump :: disk_state where
  "new_dump = \<lparr>dk_files = [''/tmp/d/'' \<mapsto> Dir, ''/etc/loxilb/'' \<mapsto> Dir], dk_ran = [], dk_out = []\<rparr>"

lemma eth0_unsaved: "unsaved (''/tmp/d'' @ ''/'') ''/tmp/d.txt'' (link_name eth0) new_dump"
  by (simp add: unsaved_def new_dump_def)

lemma eth0_plain: "plain_link eth0" "no_permanent eth0_tables eth0" "ipv4_net eth0_addr" "link_name eth0 = ''eth0''" "IPNet_String eth0_addr = ''10.0.0.1/24''"
proof -
  show "IPNet_String eth0_addr = ''10.0.0.1/24''" by code_simp
qed (simp_all add: plain_link_def eth0_def link_name_def no_permanent_def eth0_tables_def ipv4_net_def eth0_addr_def)

lemma eth0_mtu_text: "show_int 9000 = ''9000''"
  by (simp add: show_int_def show_nat.simps char_of_def bit_0)

definition bfd_only :: saveOptions where
  "bfd_only = \<lparr>so_SaveIpConfig = False, so_SaveLBConfig = False, so_SaveSessionConfig = False, so_SaveUlClConfig = False, so_SaveFWConfig = False,
     so_SaveEPConfig = False, so_SaveBFDConfig = True, so_SaveAllConfig = False, so_SaveViaApi = False, so_ConfigPath = []\<rparr>"

end
