(* ===== verification/Spec2Isabelle.thy ===== *)
theory Spec2Isabelle
  imports CommandSafety RestSafety SaveSafety
begin

text \<open>
  loxicmd is the command line of the loxilb inference gateway. It has two halves. The \<^emph>\<open>appliance\<close> half
  (\<open>cmd/appliance\<close>, \<open>pkg/backend\<close>) runs one fixed executable on the host, the backend, after a handshake
  that tells what it supports, and judges what comes back. The \<^emph>\<open>gateway\<close> half (\<open>pkg/api\<close>,
  \<open>cmd/lifecycle\<close> and the REST commands) talks to a gateway over HTTP. Both report through one exit-code
  taxonomy and one JSON envelope (\<open>pkg/cli\<close>), and one exit point (\<open>cmd/root.go\<close>) turns the error a
  command returns into the status of the process. This theory states the properties C1 to C40; the
  theories below it model the code.

  \<^bold>\<open>Theories and code.\<close>
  \<^item> \<open>Prelude\<close>, \<open>GoStd\<close>: error texts as data (format and arguments), early returns, and what the code uses of
    \<open>strings\<close>, \<open>regexp\<close>, \<open>time\<close> and \<open>net\<close>: the approved shapes, RFC 3339 timestamps, dotted IPv4.
    \<open>Duration\<close>: \<open>time.ParseDuration\<close> with its 64-bit overflow tests and its \<open>float64\<close> fraction.
  \<^item> \<open>Json\<close>, \<open>JsonPrint\<close>: \<open>encoding/json\<close> as the code uses it: scanner, parser with the nesting limit
    10000, the token walk, struct decoding with Go's case folding and duplicate-key rules, and a printer for
    round trips.
  \<^item> \<open>ExitCode\<close> (\<open>exitcode.go\<close>), \<open>Envelope\<close> (\<open>envelope.go\<close>), \<open>SecretFile\<close> (\<open>secretfile.go\<close>), \<open>Rest\<close>
    (\<open>rest.go\<close>, \<open>originator.go\<close>), \<open>Root\<close> (\<open>root.go\<close>: originator, token, exit point).
  \<^item> \<open>PayloadDocs\<close>, \<open>Payload\<close> (\<open>payload.go\<close>): one record per typed document with its checks; the registry,
    the duplicate-key walk, the secret screening and \<open>ValidatePayload\<close>.
  \<^item> \<open>Backend\<close>, \<open>BackendSafety\<close> (\<open>backend.go\<close>): the allowlist, the contract, handshake and both invocation
    paths; every function that spawns takes the log of processes so far and returns it extended. Sessions
    are an inductive relation over any sequence of invocations.
  \<^item> \<open>Appliance\<close>, \<open>ApplianceSafety\<close>, \<open>CommandSafety\<close> (\<open>appliance.go\<close>, \<open>mutating.go\<close>): every leaf command from its
    flags to what it writes, returns and spawns.
  \<^item> \<open>FeatureGate\<close> (\<open>featuregate.go\<close>, \<open>error.go\<close>, \<open>lbversion.go\<close>): the gates and the version cache, with its
    reachable states. \<open>BandTriple\<close> (\<open>bandtriple.go\<close>).
  \<^item> \<open>SnapshotFile\<close> (\<open>snapshotfile.go\<close>, \<open>lifecyclereport.go\<close>): SHA-256 on 32-bit words, the checksum rule, and
    \<open>WriteFileAtomic\<close> as the list of disk states it passes through.
  \<^item> \<open>Client\<close> (\<open>client.go\<close>, \<open>common.go\<close>, \<open>rest.go\<close>, \<open>tls.go\<close>): every resource of the client, \<open>path.Join\<close>,
    percent-encoding, the address and the transport of a request.
  \<^item> \<open>Lifecycle\<close> (\<open>configlifecycle.go\<close>, \<open>maintenance.go\<close>, \<open>cmd/lifecycle\<close>): persist, restore, snapshot and
    maintenance, from options over the request to verdict and output.
  \<^item> \<open>OpsStatus\<close>, \<open>AuditTrail\<close>, \<open>GatewayLogs\<close> (\<open>opsstatus.go\<close>, \<open>audit.go\<close>, \<open>audit_sinks.go\<close>, \<open>logs.go\<close>, in
    \<open>cmd/lifecycle\<close> and \<open>pkg/api\<close>): readiness and diagnostics, the audit sinks and their replacement, log pages
    and archive downloads. The locale \<open>verbatim_read\<close> is the contract of the reads, interpreted for each.
  \<^item> \<open>NetParse\<close>: \<open>net.ParseIP\<close>, \<open>ParseCIDR\<close>, \<open>ParseMAC\<close> and \<open>strconv.Atoi\<close>. \<open>RestRun\<close>: the frame of the
    commands that send several requests, with a service that answers given the requests before.
  \<^item> \<open>DeleteCommands\<close>, \<open>DeletePlan\<close> (\<open>cmd/delete\<close>): every leaf of \<open>delete\<close>; the plan of requests that its
    arguments stand for, and that each command follows it.
  \<^item> \<open>LbOptions\<close>, \<open>LbModel\<close>, \<open>CreateLb\<close>, \<open>LbSafety\<close> (\<open>create_loadbalancer.go\<close>, \<open>loadBalancer.go\<close>): the flags of
    \<open>create lb\<close> with their checks and gates, the structs with their JSON form and how they are filled, the
    command, and its guarantees.
  \<^item> \<open>SetCommands\<close>, \<open>SessionToken\<close> (\<open>cmd/set\<close>): every leaf of \<open>set\<close>; login, logout and refresh with the token files.
  \<^item> \<open>IpText\<close>: the value and the canonical text of an address. \<open>CreateNet\<close>, \<open>CreateRules\<close>, \<open>CreateAI\<close>
    (\<open>cmd/create\<close>): every leaf of \<open>create\<close> with the structs it sends: network objects; mirrors, firewall rules and
    policies; keys, objectives, identities, profiles, users and certificates.
  \<^item> \<open>RestPlan\<close>: the plan of requests behind each \<open>delete\<close>, \<open>set\<close> and \<open>create\<close> command, the answers it accepts, and
    that the command pursues its plan. \<open>RestSafety\<close>: what single commands guarantee beyond that.
  \<^item> \<open>FileConfig\<close> (\<open>apply_create.go\<close>, \<open>create_file.go\<close>, \<open>delete_file.go\<close>): \<open>apply -f\<close> and \<open>delete -f\<close>, with the YAML library as
    an argument, and the table of kinds that they refine. \<open>RuleDecode\<close>: the decoders of saved rules. \<open>ApplyConfig\<close>
    (\<open>apply.go\<close>): every option of \<open>apply\<close>; the shell commands it runs as a script made from the files.
  \<^item> \<open>NetDump\<close> (\<open>get_netlink.go\<close>): the dump of the host's interfaces, with the netlink library as an argument and the
    disk as a map from paths to files that every step passes on. \<open>SaveConfig\<close> (\<open>save.go\<close> and the dumps of \<open>cmd/get\<close>): the
    rule dumps and the command. \<open>SaveSafety\<close>: what the saved files hold, and how \<open>apply\<close> reads them.
  \<^item> \<open>Examples\<close>: concrete hosts, documents and gateways; the witnesses rest on their evaluation.

  \<^bold>\<open>State and parameters.\<close> The operating system and the network are arguments: a \<open>host\<close> tells how a spawned
  process ends, given the processes spawned before it; a \<open>file_system\<close> what \<open>Lstat\<close> and \<open>ReadFile\<close> answer;
  a \<open>write_env\<close> which steps of a file write fail; a \<open>peer\<close> or \<open>gateway\<close> what a request is answered.
  \<open>net/url.Parse\<close> and certificate parsing are function arguments too. No property assumes anything of
  them except what its statement names. Errors are values of \<open>goerr\<close>; a Go pointer is an option.

  \<^bold>\<open>Properties.\<close> C1 to C5: what is spawned and how an outcome, an interrupted one included, is reported.
  C6, C7: what an accepted document guarantees. C8 to C10: contract, the requests of the commands, passwords.
  C11 to C13: secrets, the token, exit codes. C14 to C16: the version gate and the files of a snapshot. C17: restore.
  C18 to C20: addresses, transport, and output that cannot be read. C21: audit sinks. C22 to C25: \<open>delete\<close>, \<open>set\<close> and
  \<open>create\<close> refine their plans and get to their end, and the exceptions. C26 to C29: imported keys, fields of fixed
  width, patches, login. C30 to C33: configuration files and \<open>apply\<close>. C34 to C36: \<open>save\<close>, and that \<open>apply\<close> reads what
  it wrote. C37 to C40: \<open>create lb\<close> returns, sends one request per protocol, and what these hold. C19, C20, C24, C25,
  C27 to C33, C35 to C40 also record where the code departs from what its comments or its contract say. The theorems
  without a number are facts of the same kind that complete these groups.

  \<^bold>\<open>Bounds.\<close> The parser runs on fuel \<open>2 * tokens + 2\<close>; \<open>Json\<close> proves that more fuel never changes the
  result and that this much reads every printed value. \<open>ParseDuration\<close> and integer fields keep the 64-bit
  range; lengths and counters are unbounded where the code only compares them. Ports of a rule are 16-bit
  words. The loop over target ports is a \<open>partial_function\<close> on options, \<open>None\<close> for a loop that never ends;
  C37 tells when it returns. Lines of a file are scanned up to the 64 KiB of \<open>bufio.Scanner\<close>.

  \<^bold>\<open>Not modelled.\<close> The text of wrapped standard-library errors (a symbolic argument of the message), the
  printing of the envelope, cobra's flag parsing, time-outs as such (a host may end a process by one),
  and the \<open>get\<close> commands with their tables, which a library prints.
\<close>

section \<open>Spawning the backend\<close>

text \<open>
  C1. A backend operation that may change the host is spawned only directly after a handshake whose
  contract this program accepts and which advertises that very command. \<open>session h log\<close> is any sequence of
  read-only and mutating invocations, \<open>log\<close> the processes it spawned, and \<open>s\<close> any of them whose argument
  vector begins with the words of a mutating subcommand.
\<close>

theorem mutation_follows_handshake:
  assumes "session h log" "log = before @ s # after"
    and "map_of allowedArgv name = Some rule" "ar_mutating rule" "has_prefix (Prelude.fields name) (sw_argv s)"
  shows "\<exists>earlier c. before = earlier @ [handshake_spawn] \<and> handshake_at h earlier = Inr c
    \<and> Contract_validate c = None \<and> Contract_Supports c name"
  using assms by (rule mutation_advertised)

theorem mutation_follows_handshake_witness:
  "session (demo_host (speaks [] RunNil)) ([handshake_spawn] @ demo_spawn # [])
   \<and> has_prefix (Prelude.fields ''backup create'') (sw_argv demo_spawn)
   \<and> (\<exists>earlier c. [handshake_spawn] = earlier @ [handshake_spawn] \<and> handshake_at (demo_host (speaks [] RunNil)) earlier = Inr c
        \<and> Contract_validate c = None \<and> Contract_Supports c ''backup create'')"
proof -
  have s: "session (demo_host (speaks [] RunNil)) ([handshake_spawn] @ demo_spawn # [])"
    using demo_session by (simp add: demo_log_def)
  have p: "has_prefix (Prelude.fields ''backup create'') (sw_argv demo_spawn)" by code_simp
  have "map_of allowedArgv ''backup create'' =
      Some (argvRule0\<lparr>ar_positionals := 1, ar_flags := [''--key-file=''], ar_mutating := True\<rparr>)"
    by (simp add: allowedArgv_def)
  from mutation_follows_handshake [OF s refl this _ p] s p show ?thesis by simp
qed

text \<open>
  C2. Every process of every session is the one fixed executable, with an empty environment, in a process
  group of its own; only \<open>gateway register-local\<close> is given anything on standard input.
\<close>

theorem spawns_confined:
  assumes "session h log" "s \<in> set log"
  shows "sw_path s = executablePath \<and> sw_env s = [] \<and> sw_setpgid s
    \<and> (sw_stdin s \<noteq> None \<longrightarrow> has_prefix [''gateway'', ''register-local''] (sw_argv s))"
  using assms by (rule session_confined)

theorem spawns_confined_witness:
  "demo_spawn \<in> set demo_log \<and> sw_path demo_spawn = executablePath \<and> sw_env demo_spawn = [] \<and> sw_setpgid demo_spawn"
  using spawns_confined [OF demo_session [of "[]"], of demo_spawn] by (simp add: demo_log_def)

section \<open>What a command reports\<close>

text \<open>
  C3. Under \<open>-o json\<close> every \<open>appliance\<close> command either refuses its arguments, with exit 2 or 4, without
  output and without a spawn, or writes exactly one envelope: its verdict and the process status are the
  same row of the taxonomy, and it says success exactly when the process exits 0. The hypothesis on the
  console is that a write to standard error succeeds.
\<close>

theorem appliance_json_verdict:
  assumes "ro_PrintOption o' = ''json''" "cn_errOut con = None" "r = run_appliance up h fs con o' cmd log"
  shows "xs_status (exitPoint (cx_err r)) \<in> {InvalidArgument, Precondition} \<and> cx_out r = [] \<and> cx_log r = log
    \<or> xs_status (exitPoint (cx_err r)) \<in> set taxonomy
      \<and> (\<exists>e. cx_out r = [OEnvelope e] \<and> envelope_ok e \<and> cr_Command e = command_name cmd
            \<and> ExitCode (cr_Code e) = xs_status (exitPoint (cx_err r))
            \<and> (cr_Success e \<longleftrightarrow> xs_status (exitPoint (cx_err r)) = 0))"
  using run_appliance_json [OF assms] unfolding speaks_verdict_def .

theorem appliance_json_verdict_witness:
  "\<exists>e. cx_out demo_cx = [OEnvelope e]
     \<and> ExitCode (cr_Code e) = 8"
  using appliance_json_verdict [OF demo_options_json demo_console_ok demo_cx_def] demo_cx_shape by auto



text \<open>
  C5. An operation that may change the host and dies before it reports an outcome is never reported as a
  retryable failure or a success: the JSON run exits 8, \<open>PARTIAL\<close>, shows no backend document, and hands the
  caller the operation's identifier.
\<close>

theorem interrupted_mutation:
  assumes "ro_PrintOption o' = ''json''" "InvokeMutating h (req\<lparr>rq_JSON := True\<rparr>) log = (Some res, None, log')"
    and "rs_Signaled res" "r = dispatchMutating up h con o' name req log"
  shows "xs_status (exitPoint (cx_err r)) = Partial
    \<and> (\<exists>e d. cx_out r = [OEnvelope e] \<and> cr_Data e = Some d \<and> ad_Backend d = None
         \<and> ad_OperationID d = Some (rs_CorrelationID res) \<and> cr_CorrelationID e = rs_CorrelationID res)"
  using finish_interrupted [OF assms(2,3), of r up con name "rq_Subcommand req" True] assms(4)
  by (simp add: json_dispatch [OF assms(1)])

theorem interrupted_mutation_witness:
  "xs_status (exitPoint (cx_err (dispatchMutating no_url (demo_host (speaks [] (RunExit (-1)))) demo_console demo_options
     ''appliance.backup.create'' demo_request []))) = 8"
proof -
  have "demo_request\<lparr>rq_JSON := True\<rparr> = demo_request" by (simp add: demo_request_def)
  with demo_killed(1) have "InvokeMutating (demo_host (speaks [] (RunExit (-1)))) (demo_request\<lparr>rq_JSON := True\<rparr>) []
      = (Some killed_result, None, demo_log)" by simp
  from interrupted_mutation [OF demo_options_json this _ refl] show ?thesis by (simp add: killed_result_def)
qed

text \<open>
  A read that dies is reported as \<open>UNAVAILABLE\<close>, exit 5, and without an operation identifier: there is
  nothing to recover.
\<close>

theorem interrupted_read:
  assumes "ro_PrintOption o' = ''json''" "InvokeReadOnly h (req\<lparr>rq_JSON := True\<rparr>) log = (Some res, None, log')"
    and "rs_Signaled res" "r = dispatchReadOnlyRequest up h con o' name req log"
  shows "xs_status (exitPoint (cx_err r)) = Unavailable
    \<and> (\<exists>e d. cx_out r = [OEnvelope e] \<and> cr_Data e = Some d \<and> ad_Backend d = None \<and> ad_OperationID d = None)"
  using finish_interrupted [OF assms(2,3), of r up con name "rq_Subcommand req" False] assms(1,4)
  by (auto simp: dispatchReadOnlyRequest_def)

theorem interrupted_read_witness:
  "xs_status (exitPoint (cx_err (dispatchReadOnlyRequest no_url (demo_host (speaks [] (RunExit (-1)))) demo_console demo_options
     ''appliance.status'' status_request []))) = 5"
proof -
  have "status_request\<lparr>rq_JSON := True\<rparr> = status_request" by (simp add: status_request_def)
  with demo_killed(2) have "InvokeReadOnly (demo_host (speaks [] (RunExit (-1)))) (status_request\<lparr>rq_JSON := True\<rparr>) []
      = (Some killed_result, None, [handshake_spawn, operation_spawn status_request demo_cid])" by simp
  from interrupted_read [OF demo_options_json this _ refl] show ?thesis by (simp add: killed_result_def)
qed

section \<open>The payload validator\<close>

text \<open>
  C6. The validator accepts exactly this: the tuple is registered, the bytes are one JSON object in which no
  object repeats a key, nothing in it is secret-bearing, and the object passes the checks of its row.
\<close>

theorem ValidatePayload_accepts:
  "ValidatePayload up selected raw = Inr p \<longleftrightarrow>
     (\<exists>spec ms. map_of (payloadRegistry up) selected = Some spec \<and> parse_json raw = Some (JObj ms)
        \<and> unique_keys (JObj ms) \<and> inspectPayloadValue (JObj ms) = None \<and> validateDocument spec selected raw ms = Inr p)"
  by (rule ValidatePayload_iff)

text \<open>
  C7. In a document the validator accepts, at every depth: no null, no repeated key, no secret-bearing key,
  and no text that looks like a credential.
\<close>

theorem accepted_documents_clean:
  assumes "ValidatePayload up selected raw = Inr p"
  shows "\<exists>v. parse_json raw = Some v \<and> {w. subvalue w v} \<subseteq> {w. clean_node w}"
proof -
  obtain v where "parse_json raw = Some v" using assms by (auto simp: ValidatePayload_iff)
  with accepted_clean [OF assms] show ?thesis by blast
qed

theorem accepted_documents_clean_witness:
  "\<exists>v. parse_json (print_json (JObj verified_doc)) = Some v \<and> {w. subvalue w v} \<subseteq> {w. clean_node w}"
  by (rule accepted_documents_clean [OF verified_accepted [of no_url]])

text \<open>
  An accepted operation error is a row of the approved table: its code is the label of its exit status,
  it is retryable exactly at exit 5, it comes from the backend, and a partial outcome carries the identifier
  and the guidance to recover with.
\<close>

theorem operation_error_row:
  assumes "ValidatePayload up selected raw = Inr p" "vp_OperationError p = Some e"
  shows "boe_Exit e \<in> {2..8} \<and> boe_Code e = Label (boe_Exit e) \<and> boe_Retryable e = (boe_Exit e = Unavailable)
    \<and> boe_Result e = (if boe_Exit e = Partial then ''PARTIAL'' else ''ERROR'') \<and> boe_Origin e = ''backend''
    \<and> vp_OperationID p = boe_OperationID e
    \<and> (boe_Exit e = Partial \<longrightarrow> boe_OperationID e \<noteq> [] \<and> boe_RecoveryGuidance e \<noteq> [])"
proof -
  obtain spec ms where "validateDocument spec selected raw ms = Inr p" using assms(1) by (auto simp: ValidatePayload_iff)
  from validateDocument_cases [OF this] assms(2) have "validateOperationErrorPayload ms raw = Inr e"
      "vp_OperationID p = boe_OperationID e" by simp_all
  with validateOperationErrorPayload_Inr show ?thesis by blast
qed

theorem operation_error_row_witness:
  "vp_OperationError demo_validated = Some demo_operationError \<and> boe_Code demo_operationError = Label (boe_Exit demo_operationError)
   \<and> boe_OperationID demo_operationError \<noteq> []"
  using operation_error_row [OF demo_error_accepted [of no_url], of demo_operationError]
  by (simp add: demo_validated_def demo_operationError_def)

text \<open>
  A factory-reset plan is accepted only if it lists SSH access, the network configuration and the NCP
  agent as preserved, each once.
\<close>

theorem factory_reset_preserves:
  assumes "ValidatePayload up (tuple ''factory-reset plan'') raw = Inr p" "vp_OperationError p = None"
  shows "\<exists>ms items. parse_json raw = Some (JObj ms) \<and> map_of ms ''preserve'' = Some (JArr (map JStr items))
    \<and> {''ssh-access'', ''network-config'', ''ncp-agent''} \<subseteq> set items \<and> distinct items"
  using factoryReset_document [OF assms] by (simp add: preservedItems_def)

theorem factory_reset_preserves_witness:
  "\<exists>ms items. parse_json (print_json (JObj reset_doc)) = Some (JObj ms) \<and> map_of ms ''preserve'' = Some (JArr (map JStr items))
    \<and> {''ssh-access'', ''network-config'', ''ncp-agent''} \<subseteq> set items \<and> distinct items"
  by (rule factory_reset_preserves [OF reset_accepted [of no_url]]) simp

text \<open>
  A \<open>backup verify\<close> document is accepted as a success only if it says that the archive is authenticated,
  its checksums hold, the key matches and the release is compatible.
\<close>

theorem backup_verify_proves:
  assumes "ValidatePayload up (tuple ''backup verify'') raw = Inr p" "vp_OperationError p = None"
  shows "\<exists>ms. parse_json raw = Some (JObj ms) \<and> map_of ms ''result'' = Some (JStr ''VERIFIED'')
    \<and> map_of ms ''authenticated'' = Some (JBool True) \<and> map_of ms ''checksumValid'' = Some (JBool True)
    \<and> map_of ms ''keyMatch'' = Some (JBool True) \<and> map_of ms ''releaseCompatibility'' = Some (JStr ''COMPATIBLE'')"
  using assms by (rule backupVerify_document)

theorem backup_verify_proves_witness:
  "\<exists>ms. parse_json (print_json (JObj verified_doc)) = Some (JObj ms) \<and> map_of ms ''result'' = Some (JStr ''VERIFIED'')
    \<and> map_of ms ''authenticated'' = Some (JBool True) \<and> map_of ms ''checksumValid'' = Some (JBool True)
    \<and> map_of ms ''keyMatch'' = Some (JBool True) \<and> map_of ms ''releaseCompatibility'' = Some (JStr ''COMPATIBLE'')"
  by (rule backup_verify_proves [OF verified_accepted [of no_url]]) simp

section \<open>The contract and the allowlist\<close>

text \<open>
  C8. The handshake accepts a contract of this major and schema whose command list is the approved matrix or
  its ten-command prefix, row by row, and no other contract.
\<close>

theorem contract_accepted_iff:
  "Contract_validate c = None \<longleftrightarrow>
     co_Kind c = ''BackendContract'' \<and> co_APIVersion c = ''loxilb.io/appliance-backend/v1''
     \<and> co_BackendVersion c \<noteq> [] \<and> co_ProductRelease c \<noteq> [] \<and> co_SchemaVersion c = payloadSchema
     \<and> co_Commands c \<in> {contractCommands, take 10 contractCommands}"
  using Contract_validate_None [of c] by (simp add: legacyContractCommandCount_def)

text \<open>
  A request is admitted exactly if its subcommand is allowlisted with that effect, its arguments are a
  word of the declarative grammar of the row (positionals first, then flag groups), and a secret stream is
  offered only to a row that takes one.
\<close>

theorem request_admitted_iff:
  "validateRequest req m = None \<longleftrightarrow>
     (\<exists>rule. map_of allowedArgv (rq_Subcommand req) = Some rule \<and> ar_mutating rule = m
        \<and> argv_grammar rule (rq_Args req) \<and> (rq_Secret req = None \<or> ar_stdinSecret rule))"
  unfolding validateRequest_None disj_imp ..

text \<open>
  C9. Whatever its flags and arguments hold, a command of the family that gets past its own checks has built
  a request the allowlist admits: no input of the user reaches the adapter's refusal.
\<close>

theorem commands_build_admitted_requests:
  assumes "mutating_request fs o' cmd = Some (name, Inr req)"
  shows "name = command_name cmd \<and> rq_Subcommand req = subcommand_name cmd
    \<and> validateRequest (req\<lparr>rq_JSON := (ro_PrintOption o' = ''json'')\<rparr>) True = None"
  using mutating_request_names [OF assms] mutating_request_allowed [OF assms] by simp

theorem commands_build_admitted_requests_witness:
  "mutating_request demo_files demo_options (CmdRegisterLocal ''admin'' ''/p'') =
     Some (''appliance.gateway.register-local'', Inr (register_request ''pw''))
   \<and> validateRequest (register_request ''pw''\<lparr>rq_JSON := True\<rparr>) True = None"
  using commands_build_admitted_requests [of demo_files demo_options "CmdRegisterLocal ''admin'' ''/p''"
      "''appliance.gateway.register-local''" "register_request ''pw''"] demo_registrations demo_options_json
  by simp

text \<open>
  C10. The password of \<open>gateway register-local\<close> does not reach an argument vector: two runs that differ only
  in the content of the password file spawn the same vectors in the same order.
\<close>

theorem password_not_in_argv:
  assumes "registerLocal_request fs u p = Inr req" "registerLocal_request fs' u p = Inr req'"
  shows "map sw_argv (cx_log (dispatchMutating up h con o' name req' log)) =
         map sw_argv (cx_log (dispatchMutating up h con o' name req log))"
proof -
  let ?j = "ro_PrintOption o' = ''json''"
  from registerLocal_argv [OF assms] have eq: "(req'\<lparr>rq_JSON := ?j\<rparr>)\<lparr>rq_Secret := rq_Secret (req\<lparr>rq_JSON := ?j\<rparr>)\<rparr> = req\<lparr>rq_JSON := ?j\<rparr>"
    by (cases req, cases req') simp
  have "validateRequest (req\<lparr>rq_JSON := ?j\<rparr>) True = None" "validateRequest (req'\<lparr>rq_JSON := ?j\<rparr>) True = None"
    using assms by (auto dest: registerLocal_allowed)
  from same_but_secret(3) [OF eq this(2,1)] show ?thesis
    by (simp add: dispatchMutating_def Let_def finish_log)
qed

theorem password_not_in_argv_witness:
  "register_request ''pw'' \<noteq> register_request ''other'' \<and>
   map sw_argv (cx_log (dispatchMutating no_url mute_host demo_console demo_options ''x'' (register_request ''other'') [])) =
   map sw_argv (cx_log (dispatchMutating no_url mute_host demo_console demo_options ''x'' (register_request ''pw'') []))"
  using password_not_in_argv [OF demo_registrations, of no_url mute_host demo_console demo_options "''x''" "[]"]
  by (simp add: register_request_def request0_def)

text \<open>
  A degraded read under JSON shows none of the backend's bytes, and reports the handshake's failure, which
  is never success, together with the attempt.
\<close>

theorem degraded_read_discloses_nothing:
  assumes "InvokeReadOnly h req log = (Some res, Some e, log')" "rq_JSON req"
  shows "rs_Stdout res = [] \<and> rs_Stderr res = [] \<and> ce_Code (Classify e) \<noteq> OK
    \<and> (\<exists>d. rs_Degraded res = Some d \<and> dr_Degraded d \<and> dr_OperationAttempted d \<and> dr_HandshakeStatus d = ce_Code (Classify e)
         \<and> dr_Reason d = ce_ComponentCode (Classify e) \<and> dr_CorrelationID d = rs_CorrelationID res)"
  using assms(1)
proof (cases rule: InvokeReadOnly_cases)
  case (degraded e' out)
  with assms(2) handshake_error_rows [OF degraded(1)] show ?thesis
    by (auto simp: degrade_def Let_def failing_def split: sum.splits)
qed simp_all

theorem degraded_read_discloses_nothing_witness:
  "\<exists>res log'. InvokeReadOnly mute_host status_request [] = (Some res, Some mute_error, log') \<and> rs_Stdout res = []"
proof -
  obtain res log' where "InvokeReadOnly mute_host status_request [] = (Some res, Some mute_error, log')"
    using mute_read by blast
  with degraded_read_discloses_nothing [OF this] show ?thesis by (auto simp: status_request_def)
qed

text \<open>
  A failed handshake is reported as one of four rows of the taxonomy: not permitted, precondition,
  unavailable or contract mismatch.
\<close>

theorem handshake_failures_classified:
  assumes "fst (Handshake h log) = Inl e"
  shows "ce_Code (Classify e) \<in> {Auth, Precondition, Unavailable, ContractMismatch}"
  using assms handshake_error_rows [of h log e] by (simp add: Handshake_eq)

theorem handshake_failures_classified_witness:
  "ce_Code (Classify mute_error) \<in> {Auth, Precondition, Unavailable, ContractMismatch}"
  by (rule handshake_failures_classified [of mute_host "[]"]) (simp add: Handshake_eq mute_handshake)

text \<open>
  The three tables of the program agree: the spawnable operations are the rows of the matrix, with the
  same effect, and the commands with a payload contract are the rows with JSON output.
\<close>

theorem tables_agree:
  "(\<lambda>p. (fst p, ar_mutating (snd p))) ` set allowedArgv =
     insert (''contract-version'', False) ((\<lambda>row. (cc_Name row, \<not> cc_ReadOnly row)) ` set contractCommands)
   \<and> fst ` set (payloadRegistry up) = (\<lambda>row. tuple (cc_Name row)) ` {row \<in> set contractCommands. ''json-output'' \<in> set (cc_Capabilities row)}"
proof
  show "(\<lambda>p. (fst p, ar_mutating (snd p))) ` set allowedArgv =
     insert (''contract-version'', False) ((\<lambda>row. (cc_Name row, \<not> cc_ReadOnly row)) ` set contractCommands)"
    by (simp add: allowedArgv_def contractCommands_def command_row_def argvRule0_def)
  have "fst ` set (payloadRegistry up) = set (map fst (payloadRegistry up))" by simp
  also have "\<dots> = (\<lambda>row. tuple (cc_Name row)) ` {row \<in> set contractCommands. ''json-output'' \<in> set (cc_Capabilities row)}"
    unfolding registry_keys json_commands_def by (auto simp: image_image)
  finally show "fst ` set (payloadRegistry up) =
      (\<lambda>row. tuple (cc_Name row)) ` {row \<in> set contractCommands. ''json-output'' \<in> set (cc_Capabilities row)}" .
qed

text \<open>
  \<open>RegisteredPayloadTuples\<close> lists every registered tuple once, in increasing order.
\<close>

theorem registered_tuples_canonical:
  "sorted (RegisteredPayloadTuples up) \<and> distinct (RegisteredPayloadTuples up)
   \<and> set (RegisteredPayloadTuples up) = fst ` set (payloadRegistry up)"
proof -
  have "distinct json_commands" by code_simp
  then have "distinct (map fst (payloadRegistry up))" unfolding registry_keys by (simp add: distinct_map inj_on_def)
  then show ?thesis by (simp add: RegisteredPayloadTuples_def)
qed

section \<open>Reading JSON\<close>

text \<open>
  On a JSON document the token walk reports a duplicate key exactly if some object of the document, at
  any depth, repeats a key.
\<close>

theorem duplicate_walk_exact:
  assumes "parse_json raw = Some v"
  shows "rejectDuplicateJSONKeys raw = None \<longleftrightarrow> unique_keys v"
  using assms by (rule rejectDuplicate_iff)

theorem duplicate_walk_exact_witness:
  "rejectDuplicateJSONKeys (print_json (JObj [(''a'', JNull), (''a'', JNull)])) \<noteq> None"
proof -
  have "plain (JObj [(''a'', JNull), (''a'', JNull)])" "depth (JObj [(''a'', JNull), (''a'', JNull)]) \<le> maxNestingDepth"
    by code_simp+
  from duplicate_walk_exact [OF parse_print [OF this]] show ?thesis by simp
qed

text \<open>
  Reading back: a value of valid UTF-8 texts and integers, within the nesting limit of \<open>encoding/json\<close>, is what the parser
  makes of its printed form; the parser's fuel is enough for a document of any size.
\<close>

theorem json_round_trip:
  assumes "plain v" "depth v \<le> maxNestingDepth"
  shows "parse_json (print_json v) = Some v"
  using assms by (rule parse_print)

theorem json_round_trip_witness: "parse_json (print_json (JObj reset_doc)) = Some (JObj reset_doc)"
  using json_round_trip [of "JObj reset_doc"] reset_check1 by (simp add: printable_def)

section \<open>Secrets, identity and requests to the gateway\<close>

text \<open>
  C11. A secret is taken from a file exactly if the path is absolute, the file is regular and not a symlink,
  none of the permission bits of its group and of others is set, and its trimmed content is not empty.
\<close>

theorem secret_file_rule:
  "ReadSecretFile fs what path = Inr s \<longleftrightarrow>
     IsAbs path \<and> s \<noteq> [] \<and> (\<exists>m c. fs_Lstat fs path = StatMode m \<and> fs_ReadFile fs path = Some c
        \<and> m AND ModeSymlink = 0 \<and> IsRegular m \<and> owner_only m \<and> s = trim_space c)"
proof
  assume "ReadSecretFile fs what path = Inr s"
  from ReadSecretFile_source [OF this] show "IsAbs path \<and> s \<noteq> [] \<and> (\<exists>m c. fs_Lstat fs path = StatMode m \<and> fs_ReadFile fs path = Some c
        \<and> m AND ModeSymlink = 0 \<and> IsRegular m \<and> owner_only m \<and> s = trim_space c)"
    by (simp add: secret_source_def)
next
  assume "IsAbs path \<and> s \<noteq> [] \<and> (\<exists>m c. fs_Lstat fs path = StatMode m \<and> fs_ReadFile fs path = Some c
        \<and> m AND ModeSymlink = 0 \<and> IsRegular m \<and> owner_only m \<and> s = trim_space c)"
  then show "ReadSecretFile fs what path = Inr s"
    by (auto simp: ReadSecretFile_def CheckSecretPath_def perm_mask_iff Let_def)
qed

text \<open>
  C12. Preparing a command keeps every option but the originator and the token; the token stays as given, or it
  is the content of a file that met the secret-file rules: the \<open>--token-file\<close> when one is named, and
  otherwise the session file.
\<close>

theorem token_provenance:
  assumes "PersistentPreRunE w fl o' = Inr (o'', warn)"
  shows "\<exists>orig tok. o'' = o'\<lparr>ro_Originator := orig, ro_Token := tok\<rparr>
    \<and> (tok = ro_Token o' \<and> rf_tokenFile fl = []
       \<or> secret_source (os_files w) (if rf_tokenFile fl = [] then SessionTokenPath else rf_tokenFile fl) tok)"
proof -
  obtain o1 where o1: "resolveToken w fl o1 = Inr (o'', warn)" "\<exists>orig. o1 = o'\<lparr>ro_Originator := orig\<rparr>"
  proof (cases "rf_originator fl")
    case False
    have "o' = o'\<lparr>ro_Originator := ro_Originator o'\<rparr>" by simp
    with assms False that show thesis unfolding PersistentPreRunE_def by (metis (full_types))
  qed (use assms that in \<open>auto simp: PersistentPreRunE_def split: sum.splits\<close>)
  then obtain orig where orig: "o1 = o'\<lparr>ro_Originator := orig\<rparr>" by blast
  from resolveToken_source [OF o1(1)] show ?thesis
  proof (elim disjE exE conjE)
    assume "o'' = o1" "rf_tokenFile fl = []"
    then show ?thesis using orig by (intro exI [of _ orig] exI [of _ "ro_Token o'"]) simp
  next
    fix path
    assume p: "o'' = o1\<lparr>ro_Token := ro_Token o''\<rparr>" "secret_source (os_files w) path (ro_Token o'')"
      "path = (if rf_tokenFile fl = [] then SessionTokenPath else rf_tokenFile fl)"
    have "o'' = o'\<lparr>ro_Originator := orig, ro_Token := ro_Token o''\<rparr>" using p(1) unfolding orig .
    with p(2,3) show ?thesis by blast
  qed
qed

theorem token_provenance_witness:
  "secret_source demo_files ''/t'' ''pw''"
proof -
  have "PersistentPreRunE \<lparr>os_user = None, os_hostname = None, os_files = demo_files\<rparr>
      \<lparr>rf_originator = False, rf_tokenFile = ''/t'', rf_tokenChanged = False\<rparr> demo_options = Inr (demo_options\<lparr>ro_Token := ''pw''\<rparr>, False)"
    by code_simp
  from token_provenance [OF this] show ?thesis by (auto simp: demo_options_def)
qed

text \<open>
  Every verb builds its own method, the given URL and body, the JSON content type, the originator when one
  is set, and an authorization value exactly when the trimmed token is not empty.
\<close>

theorem request_headers:
  assumes "POST url_ok o' url body = Some req"
  shows "hr_Method req = ''POST'' \<and> hr_URL req = url \<and> hr_Body req = Some body
    \<and> map_of (hr_Header req) ''Content-Type'' = Some ''application/json''
    \<and> map_of (hr_Header req) ''X-Loxilb-Originator'' = (if ro_Originator o' = [] then None else Some (ro_Originator o'))
    \<and> map_of (hr_Header req) ''Authorization'' =
        (let t = trim_space (ro_Token o') in if t = [] then None
         else Some (if ro_BearerAuth o' \<and> \<not> has_prefix ''Bearer '' t then ''Bearer '' @ t else t))"
proof -
  have n: "newRequest url_ok o' ''POST'' url (Some body) = Some req" using assms by (simp add: POST_def)
  then have "hr_Method req = ''POST'' \<and> hr_URL req = url \<and> hr_Body req = Some body"
    by (auto simp: newRequest_def setAuthHeader_def setOriginatorHeader_def Let_def split: if_splits)
  with newRequest_headers [OF n] show ?thesis by simp
qed

theorem request_headers_witness:
  "\<exists>req. POST (\<lambda>_. True) demo_options ''http://h/'' ''{}'' = Some req
     \<and> map_of (hr_Header req) ''Authorization'' = Some ''Bearer t''"
proof -
  obtain req where r: "POST (\<lambda>_. True) demo_options ''http://h/'' ''{}'' = Some req"
    by (simp add: POST_def newRequest_def)
  have "trim_space (ro_Token demo_options) = ''t''" by code_simp
  with r request_headers [OF r] show ?thesis by (auto simp: demo_options_def)
qed



text \<open>
  The two verdict vocabularies agree: label and exit status are inverse on the taxonomy, and every other
  code has the label and so the status of \<open>FAILED\<close>.
\<close>

theorem verdict_vocabularies_agree:
  "map (\<lambda>c. ExitCode (Label c)) taxonomy = taxonomy \<and> ExitCode (Label c) = (if c \<in> set taxonomy then c else Failed)"
  using verdict.decode_encode [of c] verdict.foreign_decodes [of c] by (simp add: taxonomy_def Label_def ExitCode_def)

section \<open>The feature gate\<close>

text \<open>
  C14. One successful version read per peer: in every reachable state of the gate no peer was read
  successfully twice, and once a peer's version is known a further gate reads nothing and keeps the state.
\<close>

theorem gate_reads_once:
  assumes "gate_reach peer st"
  shows "distinct (map fst (good_reads st))
    \<and> (cache_key o' \<in> set (map fst (good_reads st)) \<longrightarrow> snd (RequireAdvertised peer o' f c st) = st \<and> snd (Require peer o' f c st) = st)"
proof -
  have i: "gate_inv st" by (rule gate_reach_inv [OF assms])
  have "snd (read_version peer o' st) = st" if "cache_key o' \<in> set (map fst (good_reads st))"
  proof -
    from that i have "map_of (gs_cache st) (cache_key o') \<noteq> None" by (auto simp: gate_inv_def map_of_eq_None_iff)
    then show ?thesis using read_version_cached by fastforce
  qed
  with i show ?thesis by (auto simp: gate_inv_def RequireAdvertised_state Require_state)
qed

theorem gate_reads_once_witness:
  "length (gs_reads demo_gate) = 1 \<and> snd (Require demo_peer demo_options ''x'' ''y'' demo_gate) = demo_gate"
proof -
  have n: "length (gs_reads demo_gate) = 1" "good_reads demo_gate = [(cache_key demo_options, demo_version)]"
    by (simp_all add: demo_gate_def RequireAdvertised_state read_version_def gate_start_def demo_version_read Let_def good_reads_def)
  with gate_reads_once [OF demo_gate_reach, of demo_options] show ?thesis by simp
qed

text \<open>
  \<open>RequireAdvertised\<close> lets a request through exactly if the peer's version could be read, names the
  gateway product and lists the feature; its refusals keep to the taxonomy, and a peer that is no gateway or
  lacks the feature is \<open>FEATURE_UNAVAILABLE\<close>.
\<close>

theorem advertised_gate_exact:
  "fst (RequireAdvertised peer o' f c st) = None \<longleftrightarrow>
     (\<exists>v. fst (read_version peer o' st) = Inr v \<and> vg_Product v = GatewayProduct \<and> f \<in> set (vg_Features v))"
  by (auto simp: RequireAdvertised_def split: prod.splits sum.splits if_splits)

section \<open>Bands, snapshots and files\<close>

text \<open>
  A band triple survives its wire form: what \<open>String\<close> writes, \<open>ParseBandTriple\<close> reads as the same three
  32-bit values.
\<close>

theorem band_triple_round_trip: "ParseBandTriple (BandTriple_String b) = Inr b"
  by (rule ParseBandTriple_String)

text \<open>
  C15. A snapshot reported as verified is the downloaded body up to trailing white space, and its checksum is
  the SHA-256 of the same bytes with the checksum's value emptied; a checksum in the response header agrees.
\<close>

theorem verified_snapshot_intact:
  assumes "VerifySnapshotChecksum body header = Inr (doc, res)" "sf_ChecksumVerified res"
  shows "\<exists>a b w. body = doc @ w \<and> list_all is_json_space w \<and> doc = a @ checksum_field (sf_Checksum res) @ b
    \<and> sf_Checksum res = ''sha256:'' @ hex_encode (Sum256 (a @ checksum_field [] @ b))
    \<and> (header = [] \<or> header = sf_Checksum res) \<and> sf_Bytes res = int (length doc)"
proof -
  let ?v = "trim_right_ws body"
  from assms have d: "doc = ?v" "count_sub (checksum_field (sf_Checksum res)) ?v = 1" "sf_Bytes res = int (length ?v)"
      "sf_Checksum res = ''sha256:'' @ hex_encode (Sum256 (replace_first (checksum_field (sf_Checksum res)) (checksum_field []) ?v))"
      "header = [] \<or> header = sf_Checksum res"
    by (auto simp: VerifySnapshotChecksum_def Let_def snapshotChecksumPrefix_def split: if_splits option.splits)
  obtain a b where "?v = a @ checksum_field (sf_Checksum res) @ b"
      "replace_first (checksum_field (sf_Checksum res)) (checksum_field []) ?v = a @ checksum_field [] @ b"
    using count_sub_found [of "checksum_field (sf_Checksum res)" ?v] d(2) by fastforce
  with d trim_right_ws_prefix [of body] show ?thesis by metis
qed

theorem verified_snapshot_intact_witness:
  "\<exists>res. VerifySnapshotChecksum snap_doc snap_checksum = Inr (snap_doc, res) \<and> sf_Checksum res = snap_checksum"
proof -
  obtain res where r: "VerifySnapshotChecksum snap_doc snap_checksum = Inr (snap_doc, res)" "sf_ChecksumVerified res"
    using snap_verified by blast
  have "snap_checksum \<noteq> []" by (simp add: snap_checksum_def snapshotChecksumPrefix_def)
  with verified_snapshot_intact [OF r] r(1) show ?thesis by auto
qed

text \<open>
  C16. \<open>WriteFileAtomic\<close> never shows a partial file: in every disk state it passes through, whichever call
  fails, the destination holds what it held before or all of the new content, flushed and owner-only, and no
  file but the destination and the temporary one is touched.
\<close>

theorem atomic_write:
  assumes "wv_temp w = Some tmp" "tmp \<noteq> path" "WriteFileAtomic w path r d0 = (out, trace)" "d \<in> set trace"
  shows "(d path = d0 path \<or> d path = Some (temp_file (rd_data r) True)) \<and> d |` (- {path, tmp}) = d0 |` (- {path, tmp})
    \<and> (case out of Inr n \<Rightarrow> n = int (length (rd_data r)) \<and> last trace = d0(path \<mapsto> temp_file (rd_data r) True, tmp := None)
        | Inl _ \<Rightarrow> last trace path = d0 path)"
proof -
  have "d |` (- {path, tmp}) = d0 |` (- {path, tmp})"
    using WriteFileAtomic_states(2) [OF assms] by (auto simp: restrict_map_def fun_eq_iff)
  with WriteFileAtomic_states(1) [OF assms] WriteFileAtomic_result [OF assms(1-3)] show ?thesis
    by (auto split: sum.splits)
qed

theorem atomic_write_witness:
  "last (snd (WriteFileAtomic good_disk_env ''/s'' \<lparr>rd_data = ''new'', rd_err = False\<rparr> Map.empty)) ''/s'' = Some (temp_file ''new'' True)"
proof -
  obtain out trace where o: "WriteFileAtomic good_disk_env ''/s'' \<lparr>rd_data = ''new'', rd_err = False\<rparr> Map.empty = (out, trace)"
    by fastforce
  have "\<exists>n. out = Inr n" "Map.empty \<in> set trace"
    using o by (auto simp: WriteFileAtomic_def good_disk_env_def copied_def Let_def)
  with atomic_write [OF _ _ o, of "''.s.tmp-1''" Map.empty] o show ?thesis by (auto simp: good_disk_env_def)
qed

section \<open>Configuration lifecycle\<close>

text \<open>
  Under \<open>-o json\<close> persist, restore, snapshot download and the maintenance change each write exactly one
  envelope, whose verdict is the process status, and which says success exactly when the command has no error;
  whatever the gateway answers. (A write to standard output succeeds.)
\<close>

theorem lifecycle_json_verdict:
  "json_run command (lifecycle_Persist url_ok gw None o' True strict command)
   \<and> json_run ''create.restore'' (lifecycle_Restore url_ok gw fs None o' True strict ro)
   \<and> json_run ''get.snapshot'' (fst (lifecycle_Snapshot url_ok gw w None o' True strict so d0))
   \<and> json_run (if mo_Enable mso then ''set.maintenance.on'' else ''set.maintenance.off'') (MaintenanceSet url_ok gw None o' True mso)"
  by (intro conjI persist_json_run restore_json_run snapshot_json_run maintenance_json_run)



text \<open>
  The mode of the answer decides the rules, not the mode that was asked for: a commit that the gateway
  answers with a clean dry-run report is reported as a success, under \<open>--strict\<close> as well once the report names
  a schema version and a compatibility, although nothing was committed or persisted.
\<close>

theorem commit_answered_as_dry_run:
  assumes "rp_Commit ro" "rp_File ro \<noteq> []" "fs_ReadFile fs (rp_File ro) = Some data" "parse_json data \<noteq> None"
    and "send gw (restore_request url_ok o' ro data) = Response 200 hs (Whole body)" "DecodeRestoreResult body = Inr r"
    and "rr_Mode r = ''dry-run''" "rr_Compatible r = Some True" "rr_SchemaVersion r \<noteq> []" "rr_Result r = []"
    and "rr_Errors r = []" "FailedDependencies r = []"
  shows "doRestore url_ok gw fs o' strict ro = (Some r, None) \<and> restore_mode ro = ''commit''"
  using assms
  by (auto simp: doRestore_def restore_mode_def readBody_def judge_restore_def looksLikeRestoreResult_def RestoreResult_Verdict_def
      RestoreResult_Capabilities_def)

theorem commit_answered_as_dry_run_witness:
  "doRestore (\<lambda>_. True) (answering dry_doc) snapshot_files demo_options True commit_options = (Some dry_result, None)"
proof -
  have s: "send (answering dry_doc) (restore_request (\<lambda>_. True) demo_options commit_options ''{}'') = Response 200 [] (Whole (print_json dry_doc))"
    by (simp add: send_def restore_request_def api_Create_def POST_def newRequest_def answering_def)
  have "parse_json ''{}'' \<noteq> None" "rr_Compatible dry_result = Some True" "rr_SchemaVersion dry_result \<noteq> []" "rr_Result dry_result = []"
    "rr_Errors dry_result = []" "FailedDependencies dry_result = []" by code_simp+
  then show ?thesis
    by (intro commit_answered_as_dry_run [OF _ _ _ _ s restore_docs_decoded(2) restore_verdicts(6), THEN conjunct1])
      (simp_all add: commit_options_def snapshot_files_def)
qed

text \<open>
  A snapshot download touches the disk only with a document that passed the checksum verification, and
  then whole: in every state the disk passes through, a file other than the temporary one holds what it held,
  or is the destination with the verified document.
\<close>

theorem snapshot_download_safe:
  assumes "lifecycle_Snapshot url_ok gw w out o' json strict so d0 = (r, trace)" "d \<in> set trace"
    and "wv_temp w = Some tmp" "tmp \<noteq> so_File so" "p \<noteq> tmp"
  shows "d p = d0 p \<or> p = so_File so \<and> (\<exists>hs body document res. send gw (snapshot_request url_ok o' so) = Response 200 hs (Whole body)
      \<and> VerifySnapshotChecksum body (header_get hs snapshotChecksumHeader) = Inr (document, res)
      \<and> (strict \<longrightarrow> sf_ChecksumVerified res) \<and> d p = Some (temp_file document True))"
proof -
  obtain doc res err where s: "doSnapshot url_ok gw w o' strict so d0 = ((doc, res, err), trace)"
    using assms(1) by (auto simp: lifecycle_Snapshot_def Let_def split: prod.splits)
  show ?thesis
  proof (cases "trace = [d0]")
    case False
    with s obtain status hs body where "send gw (snapshot_request url_ok o' so) = Response status hs (Whole body)"
        "store_snapshot w strict so status hs body d0 = ((doc, res, err), trace)"
      by (auto simp: doSnapshot_def readBody_def split: http_result.splits http_body.splits)
    with store_snapshot_safe [OF this(2) assms(2-5)] show ?thesis by blast
  qed (use assms(2) in simp)
qed

theorem snapshot_download_safe_witness:
  "last (snd (lifecycle_Snapshot (\<lambda>_. True) snapshot_gateway good_disk_env None demo_options True True
     \<lparr>so_Components = [], so_File = ''/s''\<rparr> Map.empty)) ''/t'' = None"
proof -
  let ?run = "lifecycle_Snapshot (\<lambda>_. True) snapshot_gateway good_disk_env None demo_options True True \<lparr>so_Components = [], so_File = ''/s''\<rparr> Map.empty"
  obtain r trace where run: "?run = (r, trace)" by (cases ?run)
  then have "last trace \<in> set trace" using snapshot_trace by (metis last_in_set snd_conv)
  from snapshot_download_safe [OF run this, of "''.s.tmp-1''" "''/t''"] run show ?thesis by (simp add: good_disk_env_def)
qed

text \<open>
  A maintenance change whose request got no answer is reported as an unknown outcome, exit 8, without a
  state. An answer that breaks off while it is read is reported as exit 5, as if the request had failed.
\<close>

theorem maintenance_unconfirmed:
  assumes "send gw (api_Put url_ok (Some (maintenance_body so)) (LoxiClient_Maintenance o')) = ans"
    and "r = MaintenanceSet url_ok gw None o' True so"
  shows "(ans = NoResponse \<longrightarrow> xs_status (exitPoint (lc_err r)) = Partial)
    \<and> (\<forall>status hs part. ans = Response status hs (Torn part) \<longrightarrow> xs_status (exitPoint (lc_err r)) = Unavailable)"
  using assms
  by (auto simp: MaintenanceSet_def doMaintenanceSet_def maintenance_run_def lifecycle_render_def exitPoint_def Classify_def Let_def
      reasonCodes_def decodeMaintenance_def readBody_def CLIError0_def split: http_result.splits)

theorem maintenance_unconfirmed_witness:
  "xs_status (exitPoint (lc_err (MaintenanceSet (\<lambda>_. True) dead_gateway None demo_options True \<lparr>mo_Enable = True, mo_DrainTimeoutSeconds = 0\<rparr>))) = 8
   \<and> xs_status (exitPoint (lc_err (MaintenanceSet (\<lambda>_. True) torn_gateway None demo_options True \<lparr>mo_Enable = True, mo_DrainTimeoutSeconds = 0\<rparr>))) = 5"
proof -
  let ?so = "\<lparr>mo_Enable = True, mo_DrainTimeoutSeconds = 0\<rparr>"
  have dead: "send dead_gateway (api_Put (\<lambda>_. True) (Some (maintenance_body ?so)) (LoxiClient_Maintenance demo_options)) = NoResponse"
    by (simp add: send_def api_Put_def PUT_def newRequest_def dead_gateway_def)
  have torn: "send torn_gateway (api_Put (\<lambda>_. True) (Some (maintenance_body ?so)) (LoxiClient_Maintenance demo_options)) = Response 200 [] (Torn [])"
    by (simp add: send_def api_Put_def PUT_def newRequest_def torn_gateway_def)
  show ?thesis
    using maintenance_unconfirmed [OF dead refl] maintenance_unconfirmed [OF torn refl] by simp
qed

section \<open>Operations: readiness, audit trail, logs\<close>

text \<open>
  Under \<open>-o json\<close> the reads of diagnostics, audit status, the audit sinks, the log and its archives print the
  gateway's body byte for byte and exit 0 exactly if the answer is a whole 200 that decodes as the document asked
  for; otherwise they print nothing and exit with another status. The hypotheses are the reads' own checks of a
  sink name and of the log options.
\<close>

theorem gateway_reads_verbatim:
  assumes "checkAuditSinkName name = None" "check_logs_options lo = None"
  shows "shows_verbatim gw (api_Get url_ok (LoxiClient_Diagnostics o')) decode_diagnostics (DiagnosticsGet url_ok gw o' True)
    \<and> shows_verbatim gw (api_Get url_ok (LoxiClient_AuditStatus o')) decode_auditStatus (AuditStatusGet url_ok gw o' True)
    \<and> shows_verbatim gw (api_Get url_ok (LoxiClient_AuditSink o')) (decode_object auditSinkConfig_fields auditSinkConfig0) (AuditSinkGet url_ok gw o' True)
    \<and> shows_verbatim gw (api_Get url_ok (SubResources [name] (LoxiClient_AuditSinks o'))) decode_namedSink (AuditNamedSinkGet url_ok gw o' True name)
    \<and> shows_verbatim gw (logs_page_request url_ok o' lo) decode_logPage (LogsGet url_ok gw o' True lo)
    \<and> shows_verbatim gw (api_Get url_ok (LoxiClient_LogArchives o')) (decode_object logArchiveList_fields logArchiveList0) (LogArchivesList url_ok gw o' True)"
  by (intro conjI diagnostics.shown audit_status.shown audit_sink.shown log_archives.shown
      verbatim_read.shown [OF named_sink_verbatim [OF assms(1)]] verbatim_read.shown [OF logs_verbatim [OF assms(2)]])

theorem gateway_reads_verbatim_witness:
  "lc_out (LogsGet (\<lambda>_. True) (answering page_doc) demo_options True demo_logs_options) = [LDocument (print_json page_doc @ [CHR 0x0A])]
   \<and> lc_out (AuditNamedSinkGet (\<lambda>_. True) (answering page_doc) demo_options True ''siem'') = []"
proof -
  have name: "checkAuditSinkName ''siem'' = None" by code_simp
  have lo: "check_logs_options demo_logs_options = None" by code_simp
  have page: "send (answering page_doc) (logs_page_request (\<lambda>_. True) demo_options demo_logs_options) = Response 200 [] (Whole (print_json page_doc))"
    by (simp add: send_def logs_page_request_def api_Get_def GET_def newRequest_def answering_def)
  have sink: "send (answering page_doc) (api_Get (\<lambda>_. True) (SubResources [''siem''] (LoxiClient_AuditSinks demo_options))) = Response 200 [] (Whole (print_json page_doc))"
    by (simp add: send_def api_Get_def GET_def newRequest_def answering_def)
  have "decode_logPage (print_json page_doc) \<noteq> None" "decode_namedSink (print_json page_doc) = None" by code_simp+
  then show ?thesis
    using gateway_reads_verbatim [OF name lo, of "answering page_doc" "\<lambda>_. True" demo_options] page sink
    by (auto simp: shows_verbatim_def)
qed

text \<open>
  A readiness check exits 0 exactly on a whole report, served with 200 or 503, whose \<open>ready\<close> is true; a
  report without the field is never one that says ready. So an answer 503 that says ready exits 0.
\<close>

theorem readiness_verdict:
  "xs_status (exitPoint (lc_err (ReadyGet url_ok gw o' json))) = OK \<longleftrightarrow>
     (\<exists>status hs body st. send gw (api_Get url_ok (LoxiClient_StatusReady o')) = Response status hs (Whole body)
        \<and> status \<in> {200, 503} \<and> unmarshal readyState_fields readyState0 body = Some st \<and> ry_Ready st = Some True)"
  by (rule ready_iff)

text \<open>
  The download of a log archive asks for one segment below the archives, never for another resource, and in
  every state the disk passes through a file other than the temporary one holds what it held, or is the
  destination with the whole archive of a complete 200 answer.
\<close>

theorem archive_download_safe:
  assumes "LogArchiveDownload url_ok gw w out out_limit o' json name file d0 = (r, disks)" "d \<in> set disks"
    and "wv_temp w = Some tmp" "tmp \<noteq> file" "p \<noteq> tmp"
  shows "d p = d0 p \<or> p = file \<and> plain_segment name
    \<and> (\<exists>hs data. send gw (archive_request url_ok o' name) = Response 200 hs (Whole data) \<and> d p = Some (temp_file data True))"
proof (cases "checkLogName name ''the archive name''")
  case None
  with download_disks [OF assms] show ?thesis by (auto simp: checkLogName_None)
next
  case (Some e)
  with assms(1,2) show ?thesis by (auto simp: LogArchiveDownload_def check_download_def)
qed

theorem archive_download_safe_witness:
  "last (snd (LogArchiveDownload (\<lambda>_. True) (answering page_doc) good_disk_env None None demo_options True ''gw.log'' ''/s'' Map.empty)) ''/t'' = None"
proof -
  let ?run = "LogArchiveDownload (\<lambda>_. True) (answering page_doc) good_disk_env None None demo_options True ''gw.log'' ''/s'' Map.empty"
  obtain r disks where run: "?run = (r, disks)" by (cases ?run)
  then have "last disks \<in> set disks" using archive_trace by (metis last_in_set snd_conv)
  from archive_download_safe [OF run this, of "''.s.tmp-1''" "''/t''"] run show ?thesis by (simp add: good_disk_env_def)
qed

text \<open>
  A change of the compliance sink or of a secondary sink, once its flags are accepted, exits 0 exactly on a
  complete 204 answer. Without an answer it exits 8, outcome unknown; but when the answer breaks off while it is
  read it exits 5, as if the request had not been made.
\<close>

theorem sink_change_outcomes:
  assumes "auditSinkRequest so = Inr req" "auditNamedSinkRequest name nso = Inr nreq"
  shows "(\<forall>r ans. r = AuditSinkSet url_ok gw o' json so \<and> ans = send gw (sink_set_request url_ok o' req)
      \<or> r = AuditNamedSinkSet url_ok gw o' json name nso \<and> ans = send gw (named_set_request url_ok o' name nreq)
      \<or> r = AuditNamedSinkDelete url_ok gw o' json name \<and> ans = send gw (api_Delete url_ok (SubResources [name] (LoxiClient_AuditSinks o'))) \<longrightarrow>
      (xs_status (exitPoint (lc_err r)) = OK \<longleftrightarrow> (\<exists>hs body. ans = Response 204 hs (Whole body)))
      \<and> (ans = NoResponse \<longrightarrow> xs_status (exitPoint (lc_err r)) = Partial)
      \<and> (\<forall>status hs part. ans = Response status hs (Torn part) \<longrightarrow> xs_status (exitPoint (lc_err r)) = Unavailable))"
proof -
  have n: "checkAuditSinkName name = None" using named_request_Inr [OF assms(2)] by simp
  show ?thesis
    using sink_change_status [OF refl] by (auto simp: AuditSinkSet_def AuditNamedSinkSet_def AuditNamedSinkDelete_def assms n)
qed

theorem sink_change_outcomes_witness:
  "xs_status (exitPoint (lc_err (AuditSinkSet (\<lambda>_. True) dead_gateway demo_options True demo_sink_options))) = 8
   \<and> xs_status (exitPoint (lc_err (AuditNamedSinkDelete (\<lambda>_. True) torn_gateway demo_options True ''siem''))) = 5"
proof -
  obtain req where req: "auditSinkRequest demo_sink_options = Inr req" using demo_sink_accepted(1) by blast
  obtain nreq where nreq: "auditNamedSinkRequest ''siem'' (demo_sink_options\<lparr>ao_EnterpriseNumber := 32473\<rparr>) = Inr nreq" using demo_sink_accepted(2) by blast
  have dead: "send dead_gateway (sink_set_request (\<lambda>_. True) demo_options req) = NoResponse"
    by (simp add: send_def sink_set_request_def api_Create_def POST_def newRequest_def dead_gateway_def)
  have torn: "send torn_gateway (api_Delete (\<lambda>_. True) (SubResources [''siem''] (LoxiClient_AuditSinks demo_options))) = Response 200 [] (Torn [])"
    by (simp add: send_def api_Delete_def DELETE_def newRequest_def torn_gateway_def)
  show ?thesis
    using sink_change_outcomes [OF req nreq, of "\<lambda>_. True" dead_gateway demo_options True] dead
      sink_change_outcomes [OF req nreq, of "\<lambda>_. True" torn_gateway demo_options True] torn by auto
qed



section \<open>The commands that delete, set and create\<close>

text \<open>
  C22. Every \<open>delete\<close>, \<open>set\<close> and \<open>create\<close> command refines its plan: it sends the requests that its arguments stand for,
  in order, stops at the first that gets no answer it accepts, and ends without error exactly if it got through the
  whole plan.
\<close>

theorem rest_refines_plan:
  "outcome (fst (run_rest env o' inp cmd args log st)) = pursue env (rest_accepts o' cmd) (rest_plan env o' inp cmd args st) log"
  by (rule run_rest_pursues)

text \<open>
  C23. Such a command gets to its end: when its arguments are accepted, every request can be built and the gateway
  gives answers that the command accepts, it ends without error and has sent every request of its plan, in order.
\<close>

theorem rest_reaches_end:
  assumes "unobstructed (rest_plan env o' inp cmd args st)"
    and "\<And>log' r. rest_accepts o' cmd (ge_service env log' r)"
  shows "outcome (fst (run_rest env o' inp cmd args log st)) = (True, log @ requests_of (rest_plan env o' inp cmd args st))"
  unfolding run_rest_pursues using assms by (rule pursue_unobstructed)

theorem rest_reaches_end_witness:
  "\<exists>r. outcome (fst (run_rest env200 demo_options no_input (CreateC (CreateEndPoint (http_probe 80))) [''1.1.1.1''] [] gate_start)) = (True, [r])"
proof -
  let ?cmd = "CreateC (CreateEndPoint (http_probe 80))"
  obtain r where plan: "rest_plan env200 demo_options no_input ?cmd [''1.1.1.1''] gate_start = [Ask (Some r)]"
    using demo_endpoint_plan by blast
  have "rest_accepts demo_options ?cmd (ge_service env200 log' r)" for log' r by (simp add: env200_def)
  then show ?thesis
    using rest_reaches_end [of env200 demo_options no_input ?cmd "[''1.1.1.1'']" gate_start "[]"]
    unfolding plan unobstructed_def by (auto simp del: run_rest.simps rest_accepts.simps)
qed






text \<open>
  The key is read up to a fixed number of bytes before the blanks around it are cut off: an admissible key behind
  enough blanks is imported without its end, and nothing tells.
\<close>

theorem imported_key_cut_short:
  assumes "list_all visible key" "length key = 100"
  shows "accept_key (Whole (replicate 450 (CHR '' '') @ key)) = Inr (take 64 key, True)"
  using key_cut_short [of key 64 450] assms by simp



text \<open>
  C28. The document that \<open>set apikey\<close> sends has exactly the members whose flags were given, with their values; only
  \<open>--allowed-models\<close> with no model, given to lift the restriction, is not sent.
\<close>

theorem apikey_patch_on_the_wire:
  "\<exists>ms. aiApiKeyPatchRequest_json (apiKeyPatch k) = JObj ms \<and> map_of ms = patch_members k"
  using patch_json_members [of k] unfolding aiApiKeyPatchRequest_json_def by blast

text \<open>
  A firewall rule has at most one action, the first that is asked for in the order allow, drop, trap, redirect,
  snat; the others that are asked for are left out without an error.
\<close>

theorem firewall_one_action:
  assumes "firewall_mod c = Inr m"
  shows "fw_actions m = first_only (wanted_actions c)"
  using assms by (rule firewall_actions)

theorem firewall_one_action_witness:
  "\<exists>m. firewall_mod demo_firewall = Inr m \<and> wanted_actions demo_firewall = [True, True, False, False, False]
    \<and> fw_actions m = [True, False, False, False, False]"
  using firewall_one_action [OF demo_firewall_mod] demo_firewall_mod
  by (simp add: wanted_actions_def demo_firewall_def)

text \<open>
  C29. A login with a password ends without error exactly if the gateway answered 200; the only file that it may
  change is the token file, which then holds the token of that answer, or a part of it when writing fails. The
  converse does not hold: an answer without a token ends without error and leaves no token.
\<close>

theorem login_saves_answered_token:
  "(rn_end (fst (login_password env o' se log files)) = Done None \<longleftrightarrow> (\<exists>hs raw. login_answer env o' se log = Response 200 hs raw))
   \<and> (snd (login_password env o' se log files) \<noteq> files \<longrightarrow>
       (\<exists>hs raw token n. login_answer env o' se log = Response 200 hs raw \<and> answered_token raw token
          \<and> snd (login_password env o' se log files) = files(SessionTokenPath := Some (take n token))
          \<and> (se_write se SessionTokenPath = WriteDone \<longrightarrow> snd (login_password env o' se log files) SessionTokenPath = Some token)))"
proof (rule conjI)
  show "rn_end (fst (login_password env o' se log files)) = Done None \<longleftrightarrow> (\<exists>hs raw. login_answer env o' se log = Response 200 hs raw)"
    using login_cases [of env o' se log files] by blast
  show "snd (login_password env o' se log files) \<noteq> files \<longrightarrow>
       (\<exists>hs raw token n. login_answer env o' se log = Response 200 hs raw \<and> answered_token raw token
          \<and> snd (login_password env o' se log files) = files(SessionTokenPath := Some (take n token))
          \<and> (se_write se SessionTokenPath = WriteDone \<longrightarrow> snd (login_password env o' se log files) SessionTokenPath = Some token))"
    by (intro impI) (rule login_changes)
qed

theorem login_saves_answered_token_witness:
  "snd (login_password (gateway_saying token_doc) demo_options demo_terminal [] Map.empty) SessionTokenPath = Some ''abc''
   \<and> rn_end (fst (login_password (gateway_saying ''{}'') demo_options demo_terminal [] Map.empty)) = Done None
   \<and> snd (login_password (gateway_saying ''{}'') demo_options demo_terminal [] Map.empty) = Map.empty"
proof (intro conjI)
  note saved = login_saves_answered_token [of "gateway_saying token_doc" demo_options demo_terminal "[]" Map.empty]
  have "se_write demo_terminal SessionTokenPath = WriteDone" by (simp add: demo_terminal_def)
  then obtain token where "answered_token (Whole token_doc) token"
      "snd (login_password (gateway_saying token_doc) demo_options demo_terminal [] Map.empty) SessionTokenPath = Some token"
    using saved [THEN conjunct2, THEN mp, OF demo_login_token(1)] unfolding demo_login_answer by blast
  then show "snd (login_password (gateway_saying token_doc) demo_options demo_terminal [] Map.empty) SessionTokenPath = Some ''abc''"
    unfolding demo_login_token(2) by simp
  show "rn_end (fst (login_password (gateway_saying ''{}'') demo_options demo_terminal [] Map.empty)) = Done None"
    using login_saves_answered_token [of "gateway_saying ''{}''" demo_options demo_terminal "[]" Map.empty] demo_login_answer by blast
  show "snd (login_password (gateway_saying ''{}'') demo_options demo_terminal [] Map.empty) = Map.empty" by (rule demo_login_no_token)
qed

text \<open>The quotas that \<open>set ratelimit\<close> sends are what the values say, each model once, and every such list of values is taken.\<close>

theorem tenant_limits_exact:
  "parseTenantModelLimits vs [] = Inr ls \<longleftrightarrow> list_all2 limit_of vs ls \<and> distinct (map ml_Model ls)"
  by (rule parse_limits_iff)

section \<open>Configuration files\<close>

text \<open>
  C30. \<open>apply -f\<close> and \<open>delete -f\<close> refine one table: a file of a kind stands for the one request of its row, and the
  command ends without error if that request is answered, whatever the status. A kind that no row names is an error
  for \<open>apply\<close> and nothing for \<open>delete\<close>; deleting a rule or a BFD session does not need an answer.
\<close>

theorem config_files_refine_table:
  "outcome (config_run file (ApplyFileConfig fe env o' file log)) =
     pursue env (\<lambda>r. r \<noteq> NoResponse) (apply_file_plan fe env o' file) log
   \<and> outcome (config_run file (DeleteFileConfig fe env o' file log)) =
     pursue env (delete_takes (config_table fe env o') (file_kind fe file)) (delete_file_plan fe env o' file) log"
  using apply_file_pursues delete_file_pursues by blast

text \<open>A gateway that refuses what a file describes does not make \<open>apply -f\<close> fail.\<close>

theorem apply_file_ignores_status:
  assumes "unobstructed (apply_file_plan fe env o' file)" "\<And>log' r. ge_service env log' r \<noteq> NoResponse"
  shows "outcome (config_run file (ApplyFileConfig fe env o' file log)) = (True, log @ requests_of (apply_file_plan fe env o' file))"
  unfolding apply_file_pursues using assms by (rule pursue_unobstructed)

text \<open>
  C31. \<open>apply --per-intf\<close> runs exactly the commands of the script that the files of the interface make, in the order
  of the sections of its type, and breaks off exactly where the script does; neither depends on what the shell
  answers, so a command that fails changes nothing of what follows. The lines of the files enter the commands as
  they are.
\<close>

theorem interface_commands_from_files:
  "ran (ApplyIpConfigPerInterface he path intf s) = (hs_ran s @ fst (interface_script he path intf), snd (interface_script he path intf))
   \<and> interface_script (he\<lparr>he_bash := shell\<rparr>) path intf = interface_script he path intf"
  using interface_follows_script shell_irrelevant unfolding runs_def by blast

text \<open>Text of a file reaches the shell: what follows a semicolon in an address is a command of its own.\<close>

theorem address_line_is_shell_text:
  "section_script (idle_host\<lparr>he_missing := (\<lambda>_. False), he_open := (\<lambda>_. Some (Whole ''1.1.1.1/24; reboot #''))\<rparr>) path ''eth0'' ''ipv4addr'' =
     ([''ip addr add 1.1.1.1/24; reboot # dev eth0''], False)"
proof -
  have "scan_lines (Some (Whole ''1.1.1.1/24; reboot #'')) = ([''1.1.1.1/24; reboot #''], True)"
    by (simp add: scan_lines_def raw_lines_def Let_def read_some_def split_on.simps maxLine_def drop_cr_def)
  then show ?thesis by (simp add: section_script_def lines_of_def Let_def)
qed

text \<open>
  C32. \<open>apply\<close> panics exactly if an interface is applied whose files have a line with too few fields; otherwise it ends
  without error, whatever the files, the shell and the gateway say, unless nothing is selected or \<open>-f\<close> is.
\<close>

theorem apply_ends:
  "(panics (ApplyCmd fe he env o' opts s log) \<longleftrightarrow>
      ao_Intf opts \<noteq> [] \<and> \<not> ao_Route opts \<and> snd (interface_script he (ao_ConfigPath opts) (ao_Intf opts)))
   \<and> (\<not> nothing_selected opts \<and> ao_NormalConfigFile opts = [] \<longrightarrow>
      panics (ApplyCmd fe he env o' opts s log) \<or> snd (snd (ApplyCmd fe he env o' opts s log)) = Done None)"
  using apply_panics_iff apply_cmd_end [of opts fe he env o' s log] unfolding panics_def by fastforce

theorem apply_ends_witness:
  "snd (snd (ApplyCmd saved_files idle_host env0 demo_options (apply_lb_options ''/missing'') \<lparr>hs_ran = [], hs_out = []\<rparr> [])) = Done None"
proof -
  let ?opts = "apply_lb_options ''/missing''"
  have "ao_Intf ?opts = []" "\<not> nothing_selected ?opts" "ao_NormalConfigFile ?opts = []"
    by (simp_all add: apply_lb_options_def nothing_selected_def)
  then show ?thesis using apply_ends [where opts = ?opts] by blast
qed



section \<open>Saving the configuration\<close>





text \<open>
  C36. A gateway that refuses to list its BFD sessions: \<open>save --bfd\<close> runs no command, leaves an empty dump file and no
  configuration file, and ends without error, reporting that the configuration was saved, in a file without a name.
\<close>

theorem bfd_refusal_reported_saved:
  fixes ev o' opts s log
  defines "file \<equiv> ''BFDconfig_'' @ sv_now ev @ ''.txt''" and "env \<equiv> sv_gateway ev"
  assumes "opts = bfd_only" "dk_files s ''/etc/loxilb/'' \<noteq> None" "can_open (sv_disk ev) file s"
    and "api_Get (ge_url_ok env) (SetUrl ''config/bfd/all'' (LoxiClient_Status o')) = Some r" "ge_service env log r = Response status hs raw" "status \<noteq> 200"
  shows "runSave ev o' opts s log =
    \<lparr>sr_disk = tell [Sprintf ''%s Configuration saved in %s'' [AStr ''BFD'', AStr []]] (put_node file (File []) s), sr_sent = log @ [r], sr_written = [], sr_end = Done None\<rparr>"
proof -
  have "validateSaveOptions opts = None" by (simp add: validate_verdict clear_flags_def any_rule_flag_def assms(3) bfd_only_def)
  moreover have "ensureConfigDir (sv_disk ev) ''/etc/loxilb/'' s = (None, s)" using assms(4) by (auto simp: ensureConfigDir_def stat_missing_def)
  moreover have "BFDdump (sv_disk ev) env (sv_now ev) o' ''/etc/loxilb/'' s log = (([], None), put_node file (File []) s, log @ [r])"
    using bfd_refused [OF assms(5-) [unfolded file_def]] by (simp add: file_def)
  ultimately show ?thesis
    by (simp add: runSave_def assms(3) bfd_only_def save_dumps_def Let_def one_dump_def save_end_def env_def)
qed

theorem bfd_refusal_reported_saved_witness:
  "sr_end (runSave \<lparr>sv_disk = calm_disk, sv_netlink = eth0_tables, sv_gateway = env200\<lparr>ge_service := \<lambda>_ _. Response 401 [] (Whole [])\<rparr>, sv_now = ''T'', sv_stdout = None\<rparr>
     demo_options bfd_only new_dump []) = Done None"
proof -
  let ?env = "env200\<lparr>ge_service := \<lambda>_ _. Response 401 [] (Whole [])\<rparr>"
  let ?ev = "\<lparr>sv_disk = calm_disk, sv_netlink = eth0_tables, sv_gateway = ?env, sv_now = ''T'', sv_stdout = None\<rparr>"
  obtain r where r: "api_Get (ge_url_ok ?env) (SetUrl ''config/bfd/all'' (LoxiClient_Status demo_options)) = Some r"
    by (auto simp: env200_def api_Get_def GET_def newRequest_def)
  have "dk_files new_dump ''/etc/loxilb/'' \<noteq> None" "can_open (sv_disk ?ev) (''BFDconfig_'' @ sv_now ?ev @ ''.txt'') new_dump"
    by (simp_all add: new_dump_def can_open_def calm_disk_def)
  moreover have "ge_service ?env [] r = Response 401 [] (Whole [])" by simp
  ultimately show ?thesis using bfd_refusal_reported_saved [of bfd_only new_dump ?ev demo_options r "[]" 401 "[]" "Whole []"] r by simp
qed

text \<open>
  A \<open>save\<close> whose flags do not go together or select nothing is refused, exit 2, and neither writes a file, nor runs a
  command, nor sends a request.
\<close>

theorem save_refuses_unclear_flags:
  "if clear_flags opts then validateSaveOptions opts = None
   else \<exists>le. validateSaveOptions opts = Some le \<and> ce_Code (Classify (ELifecycle le)) = InvalidArgument
     \<and> sr_disk (runSave ev o' opts s log) = s \<and> sr_sent (runSave ev o' opts s log) = log \<and> sr_end (runSave ev o' opts s log) = Done (Some (ELifecycle le))"
proof (cases "validateSaveOptions opts")
  case None
  then show ?thesis using validate_verdict(1) by simp
next
  case (Some le)
  then have "\<not> clear_flags opts" using validate_verdict(1) [of opts] by simp
  moreover have "le_Reason le = ''invalid-arguments''" using Some by (rule validate_verdict(2))
  moreover from this have "ce_Code (Classify (ELifecycle le)) = InvalidArgument" by (simp add: Classify_def Let_def reasonCodes_def)
  ultimately show ?thesis using Some by (simp add: runSave_def save_end_def)
qed

section \<open>Creating a load-balancer rule\<close>

text \<open>
  C37. \<open>create lb\<close> returns whenever no port pair of its flags has a target range that ends at the largest \<open>int\<close>, and
  reading port pairs runs forever exactly if such a pair comes before any pair that is refused: the loop counter
  wraps around.
\<close>

theorem create_lb_terminates:
  assumes "\<forall>s \<in> set (lb_pairs l). \<not> endless s"
  shows "(\<exists>run. create_lb env o' order l args log st = Some run)
    \<and> (\<forall>pairs. GetPortPairList pairs = None \<longleftrightarrow> list_ex endless (takeWhile well_read pairs))"
  using create_lb_returns [OF assms, of env o' order args log st] GetPortPairList_None by blast

theorem create_lb_terminates_witness:
  "\<exists>run. create_lb env0 demo_options [''tcp'', ''udp'', ''sctp'', ''icmp''] demo_rule [''1.1.1.1''] [] gate_start = Some run"
proof -
  have "\<forall>s \<in> set (lb_pairs demo_rule). \<not> endless s" using demo_pair_ends by (simp add: lb_pairs_def demo_rule_def createLoadBalancerOptions0_def)
  from create_lb_terminates [OF this] show ?thesis by blast
qed

text \<open>
  C38. A \<open>create lb\<close> that ends without error sent exactly one request for every protocol of its flags, each with the
  rule's external address, in whatever order the map of port pairs was visited. Without a protocol flag that is no
  request at all.
\<close>

theorem create_lb_every_protocol:
  assumes "create_lb env o' order l args log st = Some (r, st')" "rn_end r = Done None"
    and "distinct order" "set order = {''tcp'', ''udp'', ''sctp'', ''icmp''}"
  shows "\<exists>reqs models. rn_sent r = log @ reqs \<and> map (LoadbalancerAPICall env o') models = map Some reqs
    \<and> distinct (map (\<lambda>m. ls_Protocol (lm_Service m)) models)
    \<and> set (map (\<lambda>m. ls_Protocol (lm_Service m)) models) = fst ` set (ProtoPortpair l)
    \<and> (\<forall>m \<in> set models. ls_ExternalIP (lm_Service m) = args ! 0)"
proof -
  let ?l = "l\<lparr>cl_ExternalIP := args ! 0\<rparr>"
  obtain es roles nixls where
      f: "outcome r = follow env {200} (map (create_step env o' ?l (es, roles, nixls)) (visited order (ProtoPortpair ?l))) log"
    using create_lb_sent [OF assms(1)] assms(2) by blast
  have pairs: "ProtoPortpair ?l = ProtoPortpair l" by (simp add: ProtoPortpair_def)
  have "follow env {200} (map (create_step env o' ?l (es, roles, nixls)) (visited order (ProtoPortpair l))) log = (True, rn_sent r)"
    using f assms(2) by (simp add: outcome_def pairs)
  from follow_all [OF this] obtain reqs where reqs: "rn_sent r = log @ reqs"
      "map (create_step env o' ?l (es, roles, nixls)) (visited order (ProtoPortpair l)) = map (\<lambda>r. Ask (Some r)) reqs" by blast
  obtain models where m: "map (LoadbalancerAPICall env o') models = map Some reqs"
      "map (\<lambda>m. ls_Protocol (lm_Service m)) models = map fst (visited order (ProtoPortpair l))" "\<forall>m \<in> set models. ls_ExternalIP (lm_Service m) = cl_ExternalIP ?l"
    using steps_models [OF reqs(2)] by blast
  have "fst ` set (ProtoPortpair l) \<subseteq> set order" unfolding assms(4) ProtoPortpair_def by (auto split: if_splits)
  then have "distinct (map fst (visited order (ProtoPortpair l)))" "set (map fst (visited order (ProtoPortpair l))) = fst ` set (ProtoPortpair l)"
    using visited_keys [OF assms(3), of "ProtoPortpair l"] by auto
  with m reqs(1) show ?thesis by (intro exI [of _ reqs] exI [of _ models]) simp
qed

theorem create_lb_every_protocol_witness:
  "\<exists>reqs models. rn_sent (fst demo_rule_run) = reqs \<and> map (LoadbalancerAPICall env200 demo_options) models = map Some reqs
     \<and> map (\<lambda>m. ls_Protocol (lm_Service m)) models = [''tcp'']"
proof -
  have order: "distinct [''tcp'', ''udp'', ''sctp'', ''icmp'']" by code_simp
  have one: "xs = [''tcp'']" if "distinct xs" "set xs = {''tcp''}" for xs :: "string list"
    using that by (cases xs; cases "tl xs") auto
  have "fst ` set (ProtoPortpair demo_rule) = {''tcp''}" by (simp add: ProtoPortpair_def demo_rule_def createLoadBalancerOptions0_def)
  with create_lb_every_protocol [OF demo_rule_created(1,2) order] obtain reqs models where
      m: "rn_sent (fst demo_rule_run) = [] @ reqs" "map (LoadbalancerAPICall env200 demo_options) models = map Some reqs"
        "distinct (map (\<lambda>m. ls_Protocol (lm_Service m)) models)" "set (map (\<lambda>m. ls_Protocol (lm_Service m)) models) = {''tcp''}"
    by auto
  from m one [OF m(3,4)] show ?thesis by (intro exI [of _ reqs] exI [of _ models]) simp
qed

text \<open>
  C40. Ports are stored in 16 bits, whatever number was written: a port stands for its remainder modulo 65536. Two
  pairs of the same protocol, whichever comes first, become one rule for the whole range between their ports, and
  all of it goes to the target of the lower one.
\<close>

theorem lb_port_pairs:
  assumes "parse_pair s1 = Inr (Some ([p1], t1, t1))" "parse_pair s2 = Inr (Some ([p2], t2, t2))" "t1 < 2 ^ 63 - 1" "t2 < 2 ^ 63 - 1"
    and "p1 mod 65536 < p2 mod 65536"
    and "GetPortPairList [s1, s2] = Some (Inr m) \<or> GetPortPairList [s2, s1] = Some (Inr m)" "lb_model l es roles nixls proto m = Inr model"
  shows "uint (ls_Port (lm_Service model)) = p1 mod 65536 \<and> uint (ls_PortMax (lm_Service model)) = p2 mod 65536
    \<and> (\<forall>ep \<in> set (lm_Endpoints model). uint (ep_TargetPort ep) = t1 mod 65536)"
proof -
  let ?a = "word_of_int p1 :: 16 word" and ?b = "word_of_int p2 :: 16 word"
  have u: "uint (word_of_int i :: 16 word) = i mod 65536" for i by (simp add: uint_word_of_int)
  have lt: "?a < ?b" using assms(5) by (simp add: word_less_def u)
  have m: "m = [(?a, [word_of_int t1]), (?b, [word_of_int t2])] \<or> m = [(?b, [word_of_int t2]), (?a, [word_of_int t1])]"
    using assms(6) one_pair [OF assms(1,3)] one_pair [OF assms(2,4)] lt by (auto simp: GetPortPairList_def split: if_splits)
  obtain s e targets where c: "port_span (map fst m) = (s, e)" "map_of m s = Some targets" "lm_Service model = lb_service l proto s e"
      "lm_Endpoints model = concat (map (\<lambda>(e, role, nixl). map (rule_endpoint e role nixl) targets) (zip es (zip roles nixls)))"
    using lb_model_contents [OF assms(7)] by blast
  have ne: "?a \<noteq> ?b" "\<not> ?b < ?a" using lt by auto
  have "port_span (map fst m) = (?a, ?b)" "map_of m ?a = Some [word_of_int t1]" using m lt ne by auto
  with c(1,2) have "s = ?a" "e = ?b" "targets = [word_of_int t1]" by auto
  with c(3,4) u show ?thesis by (auto simp: lb_service_identity rule_endpoint_def)
qed

theorem lb_port_pairs_witness:
  "uint (ls_Port (lm_Service demo_span)) = 8 \<and> uint (ls_PortMax (lm_Service demo_span)) = 11"
  using lb_port_pairs [OF demo_pairs(1,2) _ _ _ _ demo_span_built] demo_pairs(3) by simp



text \<open>
  Of the capacity gate and the priority bands exactly those members are on the wire whose flag was given (or
  whose value is not zero), in the order of the struct: a replace keeps every field it does not name, and a zero that
  was asked for is sent.
\<close>

theorem lb_knobs_on_the_wire:
  "map fst (lbFlowControl_members (lb_service l proto startSPort endSPort)) =
      map fst (filter snd ((''connectionLimit'', cl_ConnectionLimit l \<noteq> 0) # gate_knobs l))
   \<and> map fst (lbBands_members (lb_service l proto startSPort endSPort)) = map fst (filter snd (band_knobs l))"
  using gate_knobs_sent band_knobs_sent by blast

section \<open>Addresses and transport\<close>

text \<open>
  C18. A request for a resource with sub-resources that are plain segments (not empty, without a slash, neither
  \<open>.\<close> nor \<open>..\<close>) goes to \<open>/netlox/v1\<close>, the resource and exactly those segments, percent-encoded as a path; and no
  two resources of the client share an address.
\<close>

theorem request_address:
  assumes "l \<in> set (all_resources o')" "list_all plain_segment subs"
  shows "GetUrlString (SubResources subs l) =
      (if ro_Protocol o' \<noteq> [] then ro_Protocol o' @ '':'' else []) @ ''//'' @ escape_host (GetHost o') @ ''/''
      @ escape_path (join ''/'' ([''netlox'', ''v1''] @ resource_segments l @ subs))
    \<and> distinct (map makeBaseURL (map ca_requestInfo (all_resources o')))"
  using resource_address [OF assms] resources_addresses_distinct by simp

theorem request_address_witness:
  "GetUrlString (SubResources [''x''] (LoxiClient_AIApiKey (demo_options\<lparr>ro_ServerPort := 80\<rparr>))) = ''http://127.0.0.1:80/netlox/v1/config/ai/apikey/x''"
proof -
  have m: "LoxiClient_AIApiKey (demo_options\<lparr>ro_ServerPort := 80\<rparr>) \<in> set (all_resources (demo_options\<lparr>ro_ServerPort := 80\<rparr>))" by (simp add: all_resources_def)
  have s: "list_all plain_segment [''x'']" by (simp add: plain_segment_def)
  have "escape_host (GetHost (demo_options\<lparr>ro_ServerPort := 80\<rparr>)) = ''127.0.0.1:80''" by code_simp
  moreover have "escape_path (join ''/'' ([''netlox'', ''v1''] @ resource_segments (LoxiClient_AIApiKey (demo_options\<lparr>ro_ServerPort := 80\<rparr>)) @ [''x''])) = ''netlox/v1/config/ai/apikey/x''"
    by code_simp
  ultimately show ?thesis using request_address [OF m s] by (simp add: demo_options_def)
qed

text \<open>
  A sub-resource that is no plain segment can leave its resource: \<open>path.Join\<close> resolves \<open>..\<close>, so an API-key
  identifier of the form \<open>../objective/x\<close> addresses the objective \<open>x\<close>; so can a path that is put together
  from an argument, as \<open>create vxlanpeer\<close> does.
\<close>

theorem sub_resource_escapes:
  "GetUrlString (SubResources [''../objective/x''] (LoxiClient_AIApiKey o')) = GetUrlString (SubResources [''x''] (LoxiClient_AIObjective o'))
   \<and> GetUrlString (SetUrl (''/config/tunnel/vxlan/'' @ ''../../ai/apikey'' @ ''/peer'') (LoxiClient_Vxlan o')) =
       GetUrlString (SubResources [''peer''] (LoxiClient_AIApiKey o'))"
proof -
  have "makeBaseURL (ca_requestInfo (SubResources [''../objective/x''] (LoxiClient_AIApiKey o'))) =
      makeBaseURL (ca_requestInfo (SubResources [''x''] (LoxiClient_AIObjective o')))"
    by code_simp
  moreover have "makeBaseURL (ca_requestInfo (SetUrl (''/config/tunnel/vxlan/'' @ ''../../ai/apikey'' @ ''/peer'') (LoxiClient_Vxlan o'))) =
      makeBaseURL (ca_requestInfo (SubResources [''peer''] (LoxiClient_AIApiKey o')))"
    by code_simp
  ultimately show ?thesis by (simp add: GetUrlString_def SubResources_def SetUrl_def client_defs resource_api_def)
qed

text \<open>
  C19. The client skips the verification of its peer only if \<open>--insecure\<close> asks for it; when it builds a TLS
  transport a CA file that is named is the only root and a key pair that is named is presented; but a
  configuration that cannot be built leaves the default transport, without the CA and the pair.
\<close>

theorem tls_transport:
  assumes "c = NewLoxiClient w o'"
  shows "(verifies_peer (hc_Transport c) \<or> ro_Insecure o')
    \<and> (hc_Printed c = None \<and> ro_CACertFile o' \<noteq> [] \<longrightarrow>
         (\<exists>cfg pem. hc_Transport c = TLSTransport cfg \<and> tc_RootCAs cfg = Some pem \<and> te_ReadFile w (ro_CACertFile o') = Some pem))
    \<and> (hc_Printed c = None \<and> ro_ClientCertFile o' \<noteq> [] \<longrightarrow>
         (\<exists>cfg. hc_Transport c = TLSTransport cfg \<and> tc_Certificates cfg = Some (ro_ClientCertFile o', ro_ClientKeyFile o')))
    \<and> (hc_Printed c \<noteq> None \<longrightarrow> hc_Transport c = DefaultTransport)"
  using assms
  by (auto simp: NewLoxiClient_def needsTLSConfig_def buildTLSConfig_def loadCA_def loadPair_def verifies_peer_def
      split: sum.splits option.splits if_splits)

theorem tls_transport_witness:
  "hc_Transport (NewLoxiClient \<lparr>te_ReadFile = (\<lambda>_. None), te_AppendCertsFromPEM = (\<lambda>_. True), te_LoadX509KeyPair = (\<lambda>_ _. True)\<rparr>
     (demo_options\<lparr>ro_Protocol := ''https'', ro_CACertFile := ''/ca''\<rparr>)) = DefaultTransport"
  by (rule tls_transport [OF refl, THEN conjunct2, THEN conjunct2, THEN conjunct2, THEN mp])
    (simp add: NewLoxiClient_def needsTLSConfig_def buildTLSConfig_def loadCA_def)



end
